(* ===== verification/Prelude.thy ===== *)
theory Prelude
  imports Complex_Main
begin

text \<open>
  Shared vocabulary of the development: identifiers and times, the exceptions the NestJS
  services throw, results as sums, the arithmetic PostgreSQL and JavaScript apply to the
  numbers the services store, and the stable descending sort the services use for rankings.

  Times (\<open>Date\<close>) are milliseconds since the epoch.  A method that reads the clock gets the
  instant as an argument \<open>now\<close>.  A nullable column is an option.
\<close>

named_theorems table_simps \<open>laws of the table operations\<close>
named_theorems op_defs \<open>definitions of the service operations\<close>

type_synonym uuid = string
type_synonym timestamp = int
type_synonym stroops = int

section \<open>Exceptions\<close>

text \<open>
  One constructor per exception class of \<open>@nestjs/common\<close> that the services throw, with its
  message; \<open>InternalError\<close> is any other error that escapes a method (a failed query, a
  rethrown RPC error), which the exception filter reports as HTTP 500.
\<close>

datatype http_error =
    BadRequest string
  | Unauthorized string
  | Forbidden string
  | NotFound string
  | Conflict string
  | UnprocessableEntity string
  | BadGateway string
  | InternalError string

type_synonym 'a result = "http_error + 'a"

fun http_status :: "http_error \<Rightarrow> nat" where
  "http_status (BadRequest _) = 400"
| "http_status (Unauthorized _) = 401"
| "http_status (Forbidden _) = 403"
| "http_status (NotFound _) = 404"
| "http_status (Conflict _) = 409"
| "http_status (UnprocessableEntity _) = 422"
| "http_status (BadGateway _) = 502"
| "http_status (InternalError _) = 500"

fun error_text :: "http_error \<Rightarrow> string" where
  "error_text (BadRequest m) = m" | "error_text (Unauthorized m) = m" | "error_text (Forbidden m) = m"
| "error_text (NotFound m) = m" | "error_text (Conflict m) = m" | "error_text (UnprocessableEntity m) = m"
| "error_text (BadGateway m) = m" | "error_text (InternalError m) = m"

definition is_ok :: "'e + 'a \<Rightarrow> bool" where
  "is_ok r = (case r of Inl _ \<Rightarrow> False | Inr _ \<Rightarrow> True)"

lemma is_ok_simps [simp]: "is_ok (Inr x)" "\<not> is_ok (Inl e)"
  by (simp_all add: is_ok_def)

lemma is_ok_iff: "is_ok r \<longleftrightarrow> (\<exists>x. r = Inr x)"
  by (cases r) simp_all

text \<open>A string between double quotes, as the template literals of the messages write it.\<close>

definition quoted :: "string \<Rightarrow> string" where
  "quoted s = CHR 0x22 # s @ [CHR 0x22]"

section \<open>Numbers\<close>

text \<open>
  The range of the PostgreSQL column types \<open>int\<close> and \<open>bigint\<close>: storing a value outside it is a
  query error.
\<close>

definition pg_int4 :: "int \<Rightarrow> bool" where
  "pg_int4 x \<longleftrightarrow> - (2 ^ 31) \<le> x \<and> x < 2 ^ 31"

definition pg_int8 :: "int \<Rightarrow> bool" where
  "pg_int8 x \<longleftrightarrow> - (2 ^ 63) \<le> x \<and> x < 2 ^ 63"

lemma pg_int4_0 [simp]: "pg_int4 0" and pg_int8_0 [simp]: "pg_int8 0"
  by (simp_all add: pg_int4_def pg_int8_def)

text \<open>
  JavaScript's \<open>Math.round\<close> rounds halves up.  Quotients are exact rationals here, not
  IEEE doubles.
\<close>

definition math_round :: "rat \<Rightarrow> int" where
  "math_round x = \<lfloor>x + 1 / 2\<rfloor>"

definition round2 :: "rat \<Rightarrow> rat" where
  "round2 x = of_int (math_round (x * 100)) / 100"

lemma math_round_of_int [simp]: "math_round (of_int n) = n"
  by (simp add: math_round_def floor_eq_iff)

lemma math_round_mono: "x \<le> y \<Longrightarrow> math_round x \<le> math_round y"
  by (simp add: math_round_def floor_mono)

lemma math_round_le: "x \<le> of_int n \<Longrightarrow> math_round x \<le> n"
  using math_round_mono [of x "of_int n"] by simp

lemma math_round_ge: "of_int n \<le> x \<Longrightarrow> n \<le> math_round x"
  using math_round_mono [of "of_int n" x] by simp

lemma round2_nonneg: "0 \<le> x \<Longrightarrow> 0 \<le> round2 x"
  using math_round_ge [of 0 "x * 100"] by (simp add: round2_def)

section \<open>Paging\<close>

text \<open>
  \<open>skip\<close> and \<open>take\<close> of a query.  All list methods compute \<open>skip\<close> from a page number, which the
  request DTOs restrict to at least 1.
\<close>

definition page_of :: "nat \<Rightarrow> nat \<Rightarrow> 'a list \<Rightarrow> 'a list" where
  "page_of page limit xs = take limit (drop ((page - 1) * limit) xs)"

lemma length_page_of: "length (page_of page limit xs) \<le> limit"
  by (simp add: page_of_def)

lemma set_page_of: "set (page_of page limit xs) \<subseteq> set xs"
  unfolding page_of_def by (meson in_set_dropD in_set_takeD subsetI)

text \<open>Consecutive pages tile the list: the first \<open>k\<close> pages are its first \<open>k * limit\<close> rows.\<close>

lemma pages_tile:
  "concat (map (\<lambda>p. page_of p limit xs) [1..<Suc k]) = take (k * limit) xs"
proof (induction k)
  case 0
  then show ?case by simp
next
  case (Suc k)
  then show ?case
    by (simp add: page_of_def take_add [symmetric] add.commute)
qed

section \<open>Stable sorting, largest key first\<close>

text \<open>
  \<open>xs.sort((a, b) => key(b) - key(a))\<close>: JavaScript's sort is stable, so rows with equal keys keep
  their order.
\<close>

fun insert_desc :: "('a \<Rightarrow> 'k::linorder) \<Rightarrow> 'a \<Rightarrow> 'a list \<Rightarrow> 'a list" where
  "insert_desc f x [] = [x]"
| "insert_desc f x (y # ys) = (if f x \<ge> f y then x # y # ys else y # insert_desc f x ys)"

definition sort_desc :: "('a \<Rightarrow> 'k::linorder) \<Rightarrow> 'a list \<Rightarrow> 'a list" where
  "sort_desc f xs = foldr (insert_desc f) xs []"

lemma sort_desc_simps [simp]:
  "sort_desc f [] = []" "sort_desc f (x # xs) = insert_desc f x (sort_desc f xs)"
  by (simp_all add: sort_desc_def)

lemma length_insert_desc [simp]: "length (insert_desc f x xs) = Suc (length xs)"
  by (induction xs) auto

lemma set_insert_desc [simp]: "set (insert_desc f x xs) = insert x (set xs)"
  by (induction xs) auto

lemma length_sort_desc [simp]: "length (sort_desc f xs) = length xs"
  by (induction xs) auto

lemma sort_desc_Nil_iff [simp]: "sort_desc f xs = [] \<longleftrightarrow> xs = []"
  by (simp flip: length_0_conv)

lemma set_sort_desc [simp]: "set (sort_desc f xs) = set xs"
  by (induction xs) auto

lemma distinct_insert_desc: "distinct (map g (insert_desc f x xs)) \<longleftrightarrow> distinct (map g (x # xs))"
  by (induction xs) auto

lemma distinct_sort_desc [simp]: "distinct (map g (sort_desc f xs)) \<longleftrightarrow> distinct (map g xs)"
proof (induction xs)
  case (Cons x xs)
  then show ?case by (simp add: distinct_insert_desc)
qed simp

lemma sorted_insert_desc:
  "sorted_wrt (\<lambda>a b. f a \<ge> f b) xs \<Longrightarrow> sorted_wrt (\<lambda>a b. f a \<ge> f b) (insert_desc f x xs)"
  by (induction xs) (auto intro: order_trans)

lemma sorted_sort_desc: "sorted_wrt (\<lambda>a b. f a \<ge> f b) (sort_desc f xs)"
  by (induction xs) (auto intro: sorted_insert_desc)

text \<open>Stability: among the rows with one key, the order is that of the input.\<close>

lemma filter_insert_desc:
  "filter (\<lambda>y. f y = k) (insert_desc f x xs) = filter (\<lambda>y. f y = k) (x # xs)"
  by (induction xs) auto

lemma stable_sort_desc: "filter (\<lambda>y. f y = k) (sort_desc f xs) = filter (\<lambda>y. f y = k) xs"
  by (induction xs) (simp_all add: filter_insert_desc)

lemma insert_desc_front: "(\<And>y. y \<in> set xs \<Longrightarrow> f y \<le> f x) \<Longrightarrow> insert_desc f x xs = x # xs"
  by (cases xs) auto

text \<open>Sorting commutes with a filter; a list in strictly descending order is cut by its own keys.\<close>

lemma filter_insert_desc_sorted:
  "sorted_wrt (\<lambda>a b. f a \<ge> f b) xs \<Longrightarrow>
    filter P (insert_desc f x xs) = (if P x then insert_desc f x (filter P xs) else filter P xs)"
proof (induction xs)
  case (Cons y ys)
  show ?case
  proof (cases "f x \<ge> f y")
    case True
    then have "insert_desc f x (filter P (y # ys)) = x # filter P (y # ys)"
      using Cons.prems True by (intro insert_desc_front) (auto split: if_splits intro: order_trans)
    with True show ?thesis by simp
  next
    case False
    with Cons show ?thesis by simp
  qed
qed simp

lemma sort_desc_filter: "sort_desc f (filter P xs) = filter P (sort_desc f xs)"
  by (induction xs) (simp_all add: filter_insert_desc_sorted sorted_sort_desc)

lemma strictly_sorted_desc:
  fixes f :: "'a \<Rightarrow> 'k::linorder"
  assumes "distinct (map f xs)"
  shows "sorted_wrt (\<lambda>a b. f a > f b) (sort_desc f xs)"
proof -
  have "sorted_wrt (\<lambda>a b. f a > f b) ys" if "sorted_wrt (\<lambda>a b. f a \<ge> f b) ys" "distinct (map f ys)" for ys
    using that
  proof (induction ys)
    case (Cons y ys)
    then have "f x < f y" if "x \<in> set ys" for x
      using that by (metis (mono_tags) distinct.simps(2) image_eqI le_less list.set_map list.simps(9) sorted_wrt.simps(2))
    with Cons show ?case by simp
  qed simp
  then show ?thesis using assms by (simp add: sorted_sort_desc)
qed

lemma filter_below:
  fixes f :: "'a \<Rightarrow> 'k::linorder"
  assumes "sorted_wrt (\<lambda>a b. f a > f b) xs" and "k < length xs"
  shows "filter (\<lambda>x. f x < f (xs ! k)) xs = drop (Suc k) xs"
proof -
  have below: "f x < f (xs ! k)" if mem: "x \<in> set (drop (Suc k) xs)" for x
  proof -
    obtain j where "j < length (drop (Suc k) xs)" "drop (Suc k) xs ! j = x"
      using mem unfolding in_set_conv_nth by blast
    then have "x = xs ! (Suc k + j)" "k < Suc k + j" "Suc k + j < length xs" by simp_all
    then show ?thesis using sorted_wrt_nth_less [OF assms(1), of k "Suc k + j"] by metis
  qed
  have above: "\<not> f x < f (xs ! k)" if mem: "x \<in> set (take (Suc k) xs)" for x
  proof -
    obtain j where "j < length (take (Suc k) xs)" "take (Suc k) xs ! j = x"
      using mem unfolding in_set_conv_nth by blast
    then have j: "j < Suc k" "x = xs ! j" "j < length xs" by simp_all
    show ?thesis
    proof (cases "j = k")
      case False
      then have "f (xs ! k) < f (xs ! j)"
        using j assms(2) sorted_wrt_nth_less [OF assms(1), of j k] by simp
      then show ?thesis using j(2) by simp
    qed (simp add: j(2))
  qed
  have "filter (\<lambda>x. f x < f (xs ! k)) (take (Suc k) xs @ drop (Suc k) xs) = drop (Suc k) xs"
    unfolding filter_append using below above by (simp add: filter_id_conv filter_empty_conv)
  then show ?thesis by simp
qed

section \<open>Sums over filtered lists\<close>

lemma sum_list_map_filter_le:
  fixes f :: "'a \<Rightarrow> nat"
  shows "sum_list (map f (filter P xs)) \<le> sum_list (map f xs)"
  by (induction xs) auto

lemma length_filter_partition:
  "length (filter P xs) + length (filter (\<lambda>x. \<not> P x) xs) = length xs"
  by (induction xs) auto

end
