(* ===== verification/Store.thy ===== *)
theory Store
  imports Prelude
begin

text \<open>
  Tables.  Every service reads and writes its tables through a TypeORM repository; the state it
  acts on is the list of the table's rows, in insertion order, and a repository method is one of
  the operations below (\<open>findOne\<close>, \<open>find\<close>, \<open>count\<close>, \<open>save\<close>, \<open>update\<close>, \<open>delete\<close>).  The interface the
  services rely on is the locale \<open>repository\<close>, which each component interprets on its own table.
\<close>

section \<open>The table operations\<close>

definition find_one :: "('r \<Rightarrow> bool) \<Rightarrow> 'r list \<Rightarrow> 'r option" where
  "find_one P t = List.find P t"

definition count_rows :: "('r \<Rightarrow> bool) \<Rightarrow> 'r list \<Rightarrow> nat" where
  "count_rows P t = length (filter P t)"

text \<open>\<open>save\<close> updates the row with the entity's primary key, or inserts a new one.\<close>

fun save_row :: "('r \<Rightarrow> 'k) \<Rightarrow> 'r \<Rightarrow> 'r list \<Rightarrow> 'r list" where
  "save_row key r [] = [r]"
| "save_row key r (x # xs) = (if key x = key r then r # xs else x # save_row key r xs)"

definition update_rows :: "('r \<Rightarrow> bool) \<Rightarrow> ('r \<Rightarrow> 'r) \<Rightarrow> 'r list \<Rightarrow> 'r list" where
  "update_rows P f t = map (\<lambda>x. if P x then f x else x) t"

definition delete_rows :: "('r \<Rightarrow> bool) \<Rightarrow> 'r list \<Rightarrow> 'r list" where
  "delete_rows P t = filter (\<lambda>x. \<not> P x) t"

definition by_id :: "('r \<Rightarrow> 'k) \<Rightarrow> 'k \<Rightarrow> 'r list \<Rightarrow> 'r option" where
  "by_id key k t = find_one (\<lambda>r. key r = k) t"

text \<open>The primary key is a key: no two rows share it.\<close>

definition keyed :: "('r \<Rightarrow> 'k) \<Rightarrow> 'r list \<Rightarrow> bool" where
  "keyed key t = distinct (map key t)"

section \<open>Their laws\<close>

lemma find_one_Nil [simp]: "find_one P [] = None"
  by (simp add: find_one_def)

lemma find_one_Cons [simp]: "find_one P (x # xs) = (if P x then Some x else find_one P xs)"
  by (simp add: find_one_def)

lemma find_one_Some: "find_one P t = Some r \<Longrightarrow> r \<in> set t \<and> P r"
  by (induction t) (auto split: if_splits)

lemma find_one_None: "find_one P t = None \<longleftrightarrow> (\<forall>r\<in>set t. \<not> P r)"
  by (induction t) auto

lemma find_one_append:
  "find_one P (xs @ ys) = (case find_one P xs of None \<Rightarrow> find_one P ys | Some r \<Rightarrow> Some r)"
  by (induction xs) auto

lemma count_rows_0: "count_rows P t = 0 \<longleftrightarrow> (\<forall>r\<in>set t. \<not> P r)"
  by (simp add: count_rows_def filter_empty_conv)

lemma count_rows_Nil [simp]: "count_rows P [] = 0"
  by (simp add: count_rows_def)

lemma count_rows_Cons [simp]: "count_rows P (x # xs) = (if P x then 1 else 0) + count_rows P xs"
  by (simp add: count_rows_def)

lemma count_rows_append [simp]: "count_rows P (xs @ ys) = count_rows P xs + count_rows P ys"
  by (simp add: count_rows_def)

lemma count_rows_le: "count_rows P t \<le> length t"
  by (simp add: count_rows_def)

lemma by_id_Nil [simp]: "by_id key k [] = None"
  by (simp add: by_id_def)

lemma by_id_Cons [simp]: "by_id key k (x # xs) = (if key x = k then Some x else by_id key k xs)"
  by (simp add: by_id_def)

lemma by_id_Some: "by_id key k t = Some r \<Longrightarrow> r \<in> set t \<and> key r = k"
  unfolding by_id_def by (rule find_one_Some)

lemma by_id_None: "by_id key k t = None \<longleftrightarrow> k \<notin> key ` set t"
  by (auto simp: by_id_def find_one_None)

lemma by_id_in: "keyed key t \<Longrightarrow> r \<in> set t \<Longrightarrow> by_id key (key r) t = Some r"
  by (induction t) (force simp: keyed_def)+

lemma by_id_save_row:
  "by_id key k (save_row key r t) = (if k = key r then Some r else by_id key k t)"
  by (induction t) auto

lemma keys_save_row: "key ` set (save_row key r t) = insert (key r) (key ` set t)"
  by (induction t) auto

lemma keyed_save_row: "keyed key t \<Longrightarrow> keyed key (save_row key r t)"
proof (induction t)
  case (Cons x xs)
  then show ?case
    using keys_save_row [of key r xs] by (auto simp: keyed_def)
qed (simp add: keyed_def)

lemma save_row_fresh: "key r \<notin> key ` set t \<Longrightarrow> save_row key r t = t @ [r]"
  by (induction t) auto

lemma save_row_last:
  "key r' \<notin> key ` set t \<Longrightarrow> key r = key r' \<Longrightarrow> save_row key r' (t @ [r]) = t @ [r']"
  by (induction t) auto

lemma delete_save_row_fresh:
  "key r \<notin> key ` set t \<Longrightarrow> delete_rows (\<lambda>x. key x = key r) (save_row key r t) = t"
  by (induction t) (auto simp: delete_rows_def)

lemma keyed_snoc: "keyed key (t @ [r]) \<longleftrightarrow> keyed key t \<and> key r \<notin> key ` set t"
  by (auto simp: keyed_def)

lemma save_row_map_eq:
  "keyed key t \<Longrightarrow> key r \<in> key ` set t \<Longrightarrow>
    save_row key r t = map (\<lambda>x. if key x = key r then r else x) t"
proof (induction t)
  case (Cons x xs)
  show ?case
  proof (cases "key x = key r")
    case True
    with Cons.prems(1) have "\<forall>y\<in>set xs. key y \<noteq> key r"
      by (simp add: keyed_def) (metis image_eqI)
    then have "map (\<lambda>x. if key x = key r then r else x) xs = xs"
      by (intro map_idI) auto
    with True show ?thesis by simp
  next
    case False
    with Cons show ?thesis by (force simp: keyed_def)
  qed
qed simp

lemma set_save_row: "set (save_row key r t) \<subseteq> insert r (set t)"
  by (induction t) auto

lemma list_all_save_row: "list_all P t \<Longrightarrow> P r \<Longrightarrow> list_all P (save_row key r t)"
  by (induction t) auto

lemma fold_save_ok:
  "list_all P t \<Longrightarrow> list_all P rs \<Longrightarrow> list_all P (fold (save_row key) rs t)"
  by (induction rs arbitrary: t) (simp_all add: list_all_save_row)

lemma in_save_row: "r \<in> set (save_row key r t)"
  by (induction t) auto

text \<open>Saving over a row does not change a column the two rows agree on.\<close>

lemma map_save_row_same:
  "by_id key (key r) t = Some x \<Longrightarrow> f r = f x \<Longrightarrow> map f (save_row key r t) = map f t"
  by (induction t) (auto split: if_splits)

lemma save_row_same: "by_id key (key r) t = Some r \<Longrightarrow> save_row key r t = t"
  by (induction t) (auto split: if_splits)

text \<open>A row found by some condition is found again after it was saved with a changed content.\<close>

lemma find_one_save_row:
  "keyed key t \<Longrightarrow> find_one P t = Some x \<Longrightarrow> key r = key x \<Longrightarrow> P r \<Longrightarrow>
    find_one P (save_row key r t) = Some r"
proof (induction t)
  case (Cons y t)
  show ?case
  proof (cases "P y")
    case False
    with Cons.prems(2) have "find_one P t = Some x" by simp
    then have "key x \<in> key ` set t" by (auto dest: find_one_Some)
    with Cons.prems(1,3) have "key y \<noteq> key r" by (auto simp: keyed_def)
    with False Cons show ?thesis by (simp add: keyed_def)
  qed (use Cons in auto)
qed simp

lemma keyed_delete_rows: "keyed key t \<Longrightarrow> keyed key (delete_rows P t)"
  by (simp add: keyed_def delete_rows_def distinct_map_filter)

lemma by_id_delete_rows:
  "keyed key t \<Longrightarrow>
    by_id key k (delete_rows (\<lambda>r. key r = k') t) = (if k = k' then None else by_id key k t)"
  by (induction t) (auto simp: keyed_def delete_rows_def)

lemma length_update_rows [simp]: "length (update_rows P f t) = length t"
  by (simp add: update_rows_def)

lemma keys_update_rows: "(\<And>x. key (f x) = key x) \<Longrightarrow> map key (update_rows P f t) = map key t"
  by (simp add: update_rows_def)

lemma keyed_update_rows: "(\<And>x. key (f x) = key x) \<Longrightarrow> keyed key (update_rows P f t) = keyed key t"
  by (simp add: keyed_def keys_update_rows)

lemma by_id_update_rows:
  "(\<And>x. key (f x) = key x) \<Longrightarrow>
    by_id key k (update_rows P f t) = map_option (\<lambda>x. if P x then f x else x) (by_id key k t)"
  by (induction t) (auto simp: update_rows_def)

lemma find_one_update_rows:
  "(\<And>x. Q (f x) = Q x) \<Longrightarrow>
    find_one Q (update_rows P f t) = map_option (\<lambda>x. if P x then f x else x) (find_one Q t)"
  by (induction t) (auto simp: update_rows_def)

declare by_id_save_row [table_simps] keyed_save_row [table_simps] by_id_update_rows [table_simps]

section \<open>The repository interface\<close>

text \<open>
  What a service assumes of a repository: a lookup by primary key finds what was saved under that
  key, and nothing else changes; deleting a key removes that row only; the primary key stays
  unique.
\<close>

locale repository =
  fixes key :: "'r \<Rightarrow> 'k"
    and lookup :: "'k \<Rightarrow> 't \<Rightarrow> 'r option"
    and save :: "'r \<Rightarrow> 't \<Rightarrow> 't"
    and remove :: "'k \<Rightarrow> 't \<Rightarrow> 't"
    and valid :: "'t \<Rightarrow> bool"
  assumes lookup_key: "lookup k t = Some r \<Longrightarrow> key r = k"
    and lookup_save: "lookup k (save r t) = (if k = key r then Some r else lookup k t)"
    and lookup_remove: "valid t \<Longrightarrow> lookup k (remove k' t) = (if k = k' then None else lookup k t)"
    and valid_save: "valid t \<Longrightarrow> valid (save r t)"
    and valid_remove: "valid t \<Longrightarrow> valid (remove k t)"
begin

definition modify :: "'k \<Rightarrow> ('r \<Rightarrow> 'r) \<Rightarrow> 't \<Rightarrow> 't" where
  "modify k f t = (case lookup k t of None \<Rightarrow> t | Some r \<Rightarrow> save (f r) t)"

lemma lookup_save_same: "lookup (key r) (save r t) = Some r"
  by (simp add: lookup_save)

lemma lookup_save_other: "k \<noteq> key r \<Longrightarrow> lookup k (save r t) = lookup k t"
  by (simp add: lookup_save)

text \<open>Saving a row that was read and changed, key kept, is an update of that row alone.\<close>

lemma lookup_modify:
  assumes "\<And>r. key (f r) = key r"
  shows "lookup k' (modify k f t) = (if k' = k then map_option f (lookup k t) else lookup k' t)"
  using assms lookup_key [of k t]
  by (auto simp: modify_def lookup_save split: option.splits)

text \<open>The last of two writes to one key wins; writes to two keys commute for every lookup.\<close>

lemma lookup_save_save:
  "key r = key r' \<Longrightarrow> lookup k (save r' (save r t)) = lookup k (save r' t)"
  by (simp add: lookup_save)

lemma lookup_save_commute:
  "key r \<noteq> key r' \<Longrightarrow> lookup k (save r' (save r t)) = lookup k (save r (save r' t))"
  by (simp add: lookup_save)

text \<open>Saving a batch of rows with different keys: each of them is found, the others are kept.\<close>

lemma lookup_save_all:
  "distinct (map key rs) \<Longrightarrow>
    lookup k (fold save rs t) = (case List.find (\<lambda>r. key r = k) rs of None \<Rightarrow> lookup k t | Some r \<Rightarrow> Some r)"
proof (induction rs arbitrary: t)
  case (Cons r rs)
  have "List.find (\<lambda>x. key x = key r) rs = None"
    using Cons.prems by (simp add: find_None_iff) (metis image_eqI)
  with Cons show ?case by (auto simp: lookup_save split: option.splits)
qed simp

lemma lookup_remove_save: "valid t \<Longrightarrow> lookup (key r) (remove (key r) (save r t)) = None"
  by (simp add: lookup_remove valid_save)

end

text \<open>A list of rows with the operations above is a repository, whatever the key.\<close>

lemma rows_repository:
  "repository key (by_id key) (save_row key) (\<lambda>k. delete_rows (\<lambda>r. key r = k)) (keyed key)"
  by unfold_locales
    (auto simp: by_id_save_row by_id_delete_rows keyed_save_row keyed_delete_rows dest: by_id_Some)

end
