(* ===== verification/Js.thy ===== *)
theory Js
  imports Prelude
begin

text \<open>
  The parts of JavaScript the services compute with: strings, \<open>BigInt(text)\<close>, \<open>Number(value)\<close>,
  \<open>String(number)\<close>, \<open>JSON.stringify\<close>, and the values \<open>JSON.parse\<close> produces.

  A string is the list of its code units, which are below 256 here (the text the on-chain events
  and the requests carry is Latin-1).  A finite number is an exact rational: the rounding of IEEE
  doubles is not modelled, the overflow to infinity is.
\<close>

section \<open>Strings\<close>

definition is_space :: "char \<Rightarrow> bool" where
  "is_space c \<longleftrightarrow> c \<in> {CHR 0x09, CHR 0x0A, CHR 0x0B, CHR 0x0C, CHR 0x0D, CHR 0x20, CHR 0xA0}"

definition trim_left :: "string \<Rightarrow> string" where
  "trim_left s = dropWhile is_space s"

definition trim_right :: "string \<Rightarrow> string" where
  "trim_right s = rev (dropWhile is_space (rev s))"

definition trim :: "string \<Rightarrow> string" where
  "trim s = trim_right (trim_left s)"

lemma trim_Nil [simp]: "trim [] = []"
  by (simp add: trim_def trim_left_def trim_right_def)

lemma length_trim: "length (trim s) \<le> length s"
proof -
  have "length (trim s) \<le> length (trim_left s)"
    unfolding trim_def trim_right_def by (metis length_rev length_dropWhile_le)
  also have "\<dots> \<le> length s"
    unfolding trim_left_def by (rule length_dropWhile_le)
  finally show ?thesis .
qed

definition char_code :: "char \<Rightarrow> nat" where
  "char_code c = of_char c"

definition is_digit :: "char \<Rightarrow> bool" where
  "is_digit c \<longleftrightarrow> 48 \<le> char_code c \<and> char_code c \<le> 57"

definition is_lower :: "char \<Rightarrow> bool" where
  "is_lower c \<longleftrightarrow> 97 \<le> char_code c \<and> char_code c \<le> 122"

definition is_upper :: "char \<Rightarrow> bool" where
  "is_upper c \<longleftrightarrow> 65 \<le> char_code c \<and> char_code c \<le> 90"

text \<open>Lower case of a Latin-1 code unit, and the upper case of the ASCII letters.\<close>

definition lower_char :: "char \<Rightarrow> char" where
  "lower_char c =
     (let n = char_code c in
      if (65 \<le> n \<and> n \<le> 90) \<or> (192 \<le> n \<and> n \<le> 222 \<and> n \<noteq> 215) then char_of (n + 32) else c)"

definition upper_char :: "char \<Rightarrow> char" where
  "upper_char c = (if is_lower c then char_of (char_code c - 32) else c)"

definition to_lower :: "string \<Rightarrow> string" where
  "to_lower s = map lower_char s"

definition to_upper :: "string \<Rightarrow> string" where
  "to_upper s = map upper_char s"

definition starts_with :: "string \<Rightarrow> string \<Rightarrow> bool" where
  "starts_with s p \<longleftrightarrow> take (length p) s = p"

fun has_substring :: "string \<Rightarrow> string \<Rightarrow> bool" where
  "has_substring [] p = (p = [])"
| "has_substring (c # s) p = (starts_with (c # s) p \<or> has_substring s p)"

text \<open>\<open>text.split(sep)\<close> for a one-character separator.\<close>

fun split_on :: "char \<Rightarrow> string \<Rightarrow> string list" where
  "split_on sep [] = [[]]"
| "split_on sep (c # s) =
     (if c = sep then [] # split_on sep s
      else (case split_on sep s of [] \<Rightarrow> [[c]] | w # ws \<Rightarrow> (c # w) # ws))"

lemma split_on_not_Nil [simp]: "split_on sep s \<noteq> []"
  by (induction s) (auto split: list.splits)

fun join_with :: "string \<Rightarrow> string list \<Rightarrow> string" where
  "join_with sep [] = []"
| "join_with sep [x] = x"
| "join_with sep (x # y # ys) = x @ sep @ join_with sep (y # ys)"

text \<open>\<open>text.padEnd(n, c).slice(0, n)\<close>, which fixes the length.\<close>

definition pad_slice :: "nat \<Rightarrow> char \<Rightarrow> string \<Rightarrow> string" where
  "pad_slice n c s = take n (s @ replicate (n - length s) c)"

lemma length_pad_slice [simp]: "length (pad_slice n c s) = n"
  by (simp add: pad_slice_def)

section \<open>Decimal and hexadecimal notation\<close>

definition digit_char :: "nat \<Rightarrow> char" where
  "digit_char d = (if d < 10 then char_of (48 + d) else char_of (87 + d))"

fun show_nat :: "nat \<Rightarrow> string" where
  "show_nat n = (if n < 10 then [digit_char n] else show_nat (n div 10) @ [digit_char (n mod 10)])"

declare show_nat.simps [simp del]

definition show_int :: "int \<Rightarrow> string" where
  "show_int i = (if i < 0 then CHR ''-'' # show_nat (nat (- i)) else show_nat (nat i))"

text \<open>\<open>Buffer.from(text).toString('hex')\<close>: two digits per byte.\<close>

definition hex_of :: "string \<Rightarrow> string" where
  "hex_of s =
     concat (map (\<lambda>c. [digit_char (char_code c div 16), digit_char (char_code c mod 16)]) s)"

lemma length_hex_of: "length (hex_of s) = 2 * length s"
  by (induction s) (simp_all add: hex_of_def)

definition digit_val :: "char \<Rightarrow> nat option" where
  "digit_val c =
     (let n = char_code c in
      if 48 \<le> n \<and> n \<le> 57 then Some (n - 48)
      else if 97 \<le> n \<and> n \<le> 102 then Some (n - 87)
      else if 65 \<le> n \<and> n \<le> 70 then Some (n - 55)
      else None)"

fun digits_val :: "nat \<Rightarrow> nat \<Rightarrow> string \<Rightarrow> nat option" where
  "digits_val b acc [] = Some acc"
| "digits_val b acc (c # s) =
     (case digit_val c of
        None \<Rightarrow> None
      | Some d \<Rightarrow> if d < b then digits_val b (acc * b + d) s else None)"

definition read_nat :: "nat \<Rightarrow> string \<Rightarrow> nat option" where
  "read_nat b s = (if s = [] then None else digits_val b 0 s)"

text \<open>Reading back a printed number gives the number.\<close>

lemma char_code_char_of: "n < 256 \<Longrightarrow> char_code (char_of n) = n"
  by (simp add: char_code_def of_char_of)

lemma digit_val_char: "d < 10 \<Longrightarrow> digit_val (digit_char d) = Some d"
  by (simp add: digit_val_def digit_char_def char_code_char_of)

lemma digits_val_append:
  "digits_val b acc (s @ t) =
    (case digits_val b acc s of None \<Rightarrow> None | Some a \<Rightarrow> digits_val b a t)"
  by (induction s arbitrary: acc) (auto split: option.splits)

lemma digits_val_show_nat: "digits_val 10 0 (show_nat n) = Some n"
proof (induction n rule: show_nat.induct)
  case (1 n)
  show ?case
  proof (cases "n < 10")
    case True
    then show ?thesis by (subst show_nat.simps) (simp add: digit_val_char)
  next
    case False
    with "1.IH" have "digits_val 10 0 (show_nat (n div 10)) = Some (n div 10)" by simp
    with False show ?thesis
      by (subst show_nat.simps) (simp add: digits_val_append digit_val_char)
  qed
qed

lemma show_nat_not_Nil [simp]: "show_nat n \<noteq> []"
  by (subst show_nat.simps) simp

lemma read_show_nat: "read_nat 10 (show_nat n) = Some n"
  by (simp add: read_nat_def digits_val_show_nat)

lemma show_nat_inj: "show_nat m = show_nat n \<longleftrightarrow> m = n"
  using read_show_nat [of m] read_show_nat [of n] by (metis option.inject)

lemma digit_char_range: "d < 10 \<Longrightarrow> is_digit (digit_char d)"
  by (simp add: is_digit_def digit_char_def char_code_char_of)

lemma show_nat_digits: "list_all is_digit (show_nat n)"
proof (induction n rule: show_nat.induct)
  case (1 n)
  show ?case
  proof (cases "n < 10")
    case True
    then show ?thesis by (subst show_nat.simps) (simp add: digit_char_range)
  next
    case False
    with "1.IH" have "list_all is_digit (show_nat (n div 10))" by simp
    with False show ?thesis by (subst show_nat.simps) (simp add: digit_char_range)
  qed
qed

section \<open>BigInt\<close>

text \<open>
  \<open>BigInt(text)\<close>: blank text is 0, an optional sign and decimal digits, or an unsigned literal
  with a radix prefix; anything else is a SyntaxError (None).
\<close>

definition radix_literal :: "string \<Rightarrow> nat option" where
  "radix_literal s =
     (case s of
        z # c # ds \<Rightarrow>
          if z \<noteq> CHR ''0'' then None
          else if c = CHR ''x'' \<or> c = CHR ''X'' then read_nat 16 ds
          else if c = CHR ''o'' \<or> c = CHR ''O'' then read_nat 8 ds
          else if c = CHR ''b'' \<or> c = CHR ''B'' then read_nat 2 ds
          else None
      | _ \<Rightarrow> None)"

definition signed_literal :: "string \<Rightarrow> int option" where
  "signed_literal s =
     (case s of
        [] \<Rightarrow> None
      | c # ds \<Rightarrow>
          if c = CHR ''-'' then map_option (\<lambda>n. - int n) (read_nat 10 ds)
          else if c = CHR ''+'' then map_option int (read_nat 10 ds)
          else map_option int (read_nat 10 s))"

definition big_int :: "string \<Rightarrow> int option" where
  "big_int text =
     (let s = trim text in
      if s = [] then Some 0
      else case signed_literal s of
        Some i \<Rightarrow> Some i
      | None \<Rightarrow> map_option int (radix_literal s))"

lemma digit_facts:
  "is_digit c \<Longrightarrow> \<not> is_space c \<and> c \<noteq> CHR ''-'' \<and> c \<noteq> CHR ''+''"
  by (auto simp: is_digit_def is_space_def char_code_def)

lemma trim_id:
  assumes "s \<noteq> []" and "\<not> is_space (hd s)" and "\<not> is_space (last s)"
  shows "trim s = s"
proof -
  from assms(1,2) have "trim_left s = s"
    by (cases s) (simp_all add: trim_left_def)
  moreover from assms(1,3) have "dropWhile is_space (rev s) = rev s"
    by (cases s rule: rev_cases) simp_all
  ultimately show ?thesis by (simp add: trim_def trim_right_def)
qed

lemma show_nat_ends:
  "\<not> is_space (hd (show_nat n))" "\<not> is_space (last (show_nat n))"
  "hd (show_nat n) \<noteq> CHR ''-''" "hd (show_nat n) \<noteq> CHR ''+''"
  using show_nat_digits [of n]
  by (metis digit_facts list.pred_set list.set_sel(1) last_in_set show_nat_not_Nil)+

lemma signed_literal_show: "signed_literal (show_int i) = Some i"
proof (cases "i < 0")
  case True
  then show ?thesis by (simp add: signed_literal_def show_int_def read_show_nat)
next
  case False
  obtain c ds where "show_nat (nat i) = c # ds"
    by (cases "show_nat (nat i)") simp_all
  moreover from this have "c \<noteq> CHR ''-''" "c \<noteq> CHR ''+''"
    using show_nat_ends(3,4) [of "nat i"] by simp_all
  ultimately show ?thesis
    using False read_show_nat [of "nat i"] by (simp add: signed_literal_def show_int_def)
qed

lemma big_int_show_int: "big_int (show_int i) = Some i"
proof -
  have "trim (show_int i) = show_int i"
    by (rule trim_id) (auto simp: show_int_def show_nat_ends, auto simp: is_space_def)
  moreover have "show_int i \<noteq> []" by (simp add: show_int_def)
  ultimately show ?thesis by (simp add: big_int_def signed_literal_show)
qed

section \<open>Values\<close>

text \<open>
  A finite number, the three others, and the values of \<open>unknown\<close> type the services inspect.  An
  object is the list of its properties; a property read takes the first entry of that name.
\<close>

datatype jsnum = Fin rat | NaN | PosInf | NegInf

datatype jsval =
    JUndefined
  | JNull
  | JBool bool
  | JNum jsnum
  | JBigInt int
  | JStr string
  | JArr "jsval list"
  | JObj "(string \<times> jsval) list"

abbreviation j_int :: "int \<Rightarrow> jsval" where
  "j_int i \<equiv> JNum (Fin (of_int i))"

definition get_prop :: "(string \<times> jsval) list \<Rightarrow> string \<Rightarrow> jsval" where
  "get_prop ps k = (case map_of ps k of None \<Rightarrow> JUndefined | Some v \<Rightarrow> v)"

lemma get_prop_Nil [simp]: "get_prop [] k = JUndefined"
  by (simp add: get_prop_def)

lemma get_prop_Cons [simp]: "get_prop ((k', v) # ps) k = (if k' = k then v else get_prop ps k)"
  by (simp add: get_prop_def)

section \<open>Fixed-point notation\<close>

text \<open>\<open>x.toFixed(f)\<close> for a finite number below \<open>10^21\<close>: the nearest multiple, ties upwards.\<close>

definition pad_left :: "nat \<Rightarrow> string \<Rightarrow> string" where
  "pad_left n s = replicate (n - length s) CHR ''0'' @ s"

definition fixed_abs :: "nat \<Rightarrow> rat \<Rightarrow> string" where
  "fixed_abs f x =
     (let n = nat \<lfloor>x * 10 ^ f + 1 / 2\<rfloor> in
      if f = 0 then show_nat n
      else show_nat (n div 10 ^ f) @ ''.'' @ pad_left f (show_nat (n mod 10 ^ f)))"

definition to_fixed :: "nat \<Rightarrow> rat \<Rightarrow> string" where
  "to_fixed f x = (if x < 0 then CHR ''-'' # fixed_abs f (- x) else fixed_abs f x)"

section \<open>Numbers from text\<close>

text \<open>
  \<open>Number(text)\<close>: blank text is 0, otherwise a literal with a radix prefix, \<open>Infinity\<close> or a decimal
  literal with an optional sign, fraction and exponent; anything else is NaN.  A magnitude from
  \<open>2^1024 - 2^970\<close> on rounds to infinity.
\<close>

definition to_num :: "rat \<Rightarrow> jsnum" where
  "to_num x =
     (if x \<ge> 2 ^ 1024 - 2 ^ 970 then PosInf
      else if x \<le> - (2 ^ 1024 - 2 ^ 970) then NegInf else Fin x)"

fun split_exponent :: "string \<Rightarrow> string \<times> string option" where
  "split_exponent [] = ([], None)"
| "split_exponent (c # s) =
     (if c = CHR ''e'' \<or> c = CHR ''E'' then ([], Some s)
      else (let (m, ex) = split_exponent s in (c # m, ex)))"

definition mantissa :: "string \<Rightarrow> rat option" where
  "mantissa s =
     (case split_on CHR ''.'' s of
        [i] \<Rightarrow> map_option of_nat (read_nat 10 i)
      | [i, f] \<Rightarrow> map_option (\<lambda>n. of_nat n / 10 ^ length f) (read_nat 10 (i @ f))
      | _ \<Rightarrow> None)"

definition scale10 :: "rat \<Rightarrow> int \<Rightarrow> rat" where
  "scale10 x k = (if k \<ge> 0 then x * 10 ^ nat k else x / 10 ^ nat (- k))"

definition decimal_literal :: "string \<Rightarrow> rat option" where
  "decimal_literal s =
     (let (m, ex) = split_exponent s in
      case (mantissa m, case ex of None \<Rightarrow> Some 0 | Some t \<Rightarrow> signed_literal t) of
        (Some x, Some k) \<Rightarrow> Some (scale10 x k)
      | _ \<Rightarrow> None)"

definition split_sign :: "string \<Rightarrow> bool \<times> string" where
  "split_sign s =
     (case s of
        [] \<Rightarrow> (False, [])
      | c # ds \<Rightarrow>
          if c = CHR ''-'' then (True, ds) else if c = CHR ''+'' then (False, ds) else (False, s))"

definition number_of_text :: "string \<Rightarrow> jsnum" where
  "number_of_text text =
     (let s = trim text in
      if s = [] then Fin 0
      else case radix_literal s of
        Some n \<Rightarrow> to_num (of_nat n)
      | None \<Rightarrow>
          (let (neg, u) = split_sign s in
           if u = ''Infinity'' then (if neg then NegInf else PosInf)
           else case decimal_literal u of
             None \<Rightarrow> NaN
           | Some x \<Rightarrow> to_num (if neg then - x else x)))"

text \<open>\<open>Number.isFinite\<close>.\<close>

fun finite_num :: "jsnum \<Rightarrow> rat option" where
  "finite_num (Fin x) = Some x"
| "finite_num _ = None"

section \<open>Truth and defaults\<close>

fun truthy :: "jsval \<Rightarrow> bool" where
  "truthy JUndefined = False"
| "truthy JNull = False"
| "truthy (JBool b) = b"
| "truthy (JNum x) = (x \<noteq> Fin 0 \<and> x \<noteq> NaN)"
| "truthy (JBigInt i) = (i \<noteq> 0)"
| "truthy (JStr s) = (s \<noteq> [])"
| "truthy (JArr _) = True"
| "truthy (JObj _) = True"

text \<open>\<open>a ?? b\<close>, on values and on nullable results.\<close>

definition coalesce :: "jsval \<Rightarrow> jsval \<Rightarrow> jsval" where
  "coalesce a b = (if a = JUndefined \<or> a = JNull then b else a)"

definition or_else :: "'a option \<Rightarrow> 'a option \<Rightarrow> 'a option" where
  "or_else a b = (case a of None \<Rightarrow> b | Some x \<Rightarrow> Some x)"

lemma or_else_simps [simp]: "or_else None b = b" "or_else (Some x) b = Some x"
  by (simp_all add: or_else_def)

text \<open>A string that is present and not empty.\<close>

definition nonempty :: "string option \<Rightarrow> string option" where
  "nonempty x = (case x of None \<Rightarrow> None | Some s \<Rightarrow> if s = [] then None else Some s)"

text \<open>
  \<open>new Date(ms)\<close>: the fraction is dropped; beyond \<open>8.64e15\<close> milliseconds the date is invalid (None).
\<close>

definition date_of_ms :: "rat \<Rightarrow> int option" where
  "date_of_ms x =
     (if \<bar>x\<bar> \<le> 8640000000000000 then Some (if x \<ge> 0 then \<lfloor>x\<rfloor> else \<lceil>x\<rceil>) else None)"

text \<open>\<open>parseInt(text, 10)\<close>: an optional sign and the leading digits; None is \<open>NaN\<close>.\<close>

definition parse_int :: "string \<Rightarrow> int option" where
  "parse_int text =
     (let (neg, u) = split_sign (trim_left text); ds = takeWhile is_digit u in
      if ds = [] then None else map_option (\<lambda>n. if neg then - int n else int n) (read_nat 10 ds))"

end
