(* ===== verification/Webhooks.thy ===== *)
theory Webhooks
  imports Store Js
begin

text \<open>
  Outgoing webhooks (\<open>backend/src/webhooks\<close>): the endpoints users register
  (\<open>webhooks.service.ts\<close>), and the dispatcher that queues one delivery per subscribed endpoint,
  posts the queue with retries and exponential back-off, and gives up after a number of attempts
  (\<open>webhook-dispatcher.service.ts\<close>).  The HTTP client is the parameter \<open>post\<close>.
\<close>

section \<open>State\<close>

record webhook_endpoint =
  we_id :: uuid
  we_user :: uuid
  url :: string
  event_types :: "string list"
  secret_key :: string
  we_active :: bool
  failure_count :: int
  last_delivery_at :: "timestamp option"
  last_failure_at :: "timestamp option"
  we_created_at :: timestamp

datatype delivery_status = DsPending | DsSuccess | DsFailed

record delivery_log =
  dl_id :: uuid
  dl_endpoint :: uuid
  dl_event_type :: string
  dl_payload :: jsval
  dl_status :: delivery_status
  attempt_count :: int
  http_status_code :: "int option"
  dl_error :: "string option"
  next_retry_at :: "timestamp option"
  delivered_at :: "timestamp option"
  dl_created_at :: timestamp

record webhook_state =
  endpoints :: "webhook_endpoint list"
  delivery_logs :: "delivery_log list"

section \<open>Queueing\<close>

text \<open>\<open>ids e\<close> is the id the database generates for the log of endpoint \<open>e\<close>.\<close>

definition create_delivery_log ::
  "(uuid \<Rightarrow> uuid) \<Rightarrow> timestamp \<Rightarrow> string \<Rightarrow> jsval \<Rightarrow> webhook_endpoint \<Rightarrow> delivery_log" where
  "create_delivery_log ids now ev payload e =
     \<lparr>dl_id = ids (we_id e), dl_endpoint = we_id e, dl_event_type = ev, dl_payload = payload,
      dl_status = DsPending, attempt_count = 0, http_status_code = None, dl_error = None,
      next_retry_at = Some now, delivered_at = None, dl_created_at = now\<rparr>"

definition target_endpoints :: "string \<Rightarrow> webhook_state \<Rightarrow> webhook_endpoint list" where
  "target_endpoints ev s = filter (\<lambda>e. ev \<in> set (event_types e)) (filter we_active (endpoints s))"

definition emit ::
  "(uuid \<Rightarrow> uuid) \<Rightarrow> timestamp \<Rightarrow> string \<Rightarrow> jsval \<Rightarrow> webhook_state \<Rightarrow> webhook_state" where
  "emit ids now ev payload s =
     s\<lparr>delivery_logs := delivery_logs s @
          map (create_delivery_log ids now ev payload) (target_endpoints ev s)\<rparr>"

section \<open>Delivery\<close>

text \<open>
  What the HTTP client does with a post: it answers with a status, or throws; the error object may
  have a \<open>response\<close> property, which may be undefined.
\<close>

datatype post_result = Answered int | Threw string "int option option"

definition backoff_ms :: "int \<Rightarrow> int" where
  "backoff_ms attempt = min (2 ^ nat (attempt - 1) * 1000) 3600000"

definition schedule_retry ::
  "int \<Rightarrow> timestamp \<Rightarrow> int \<Rightarrow> delivery_log \<Rightarrow> delivery_log" where
  "schedule_retry max_attempts now attempt l =
     (if attempt \<ge> max_attempts then l\<lparr>dl_status := DsFailed, next_retry_at := None\<rparr>
      else l\<lparr>next_retry_at := Some (now + backoff_ms attempt)\<rparr>)"

definition count_failure :: "timestamp \<Rightarrow> webhook_endpoint \<Rightarrow> webhook_endpoint" where
  "count_failure now e = e\<lparr>last_failure_at := Some now, failure_count := failure_count e + 1\<rparr>"

definition delivery_outcome ::
  "int \<Rightarrow> timestamp \<Rightarrow> post_result \<Rightarrow> delivery_log \<Rightarrow> webhook_endpoint
    \<Rightarrow> delivery_log \<times> webhook_endpoint" where
  "delivery_outcome max_attempts now r l e =
     (let attempt = attempt_count l + 1 in
      case r of
        Answered st \<Rightarrow>
          if 200 \<le> st \<and> st < 300 then
            (l\<lparr>dl_status := DsSuccess, http_status_code := Some st, delivered_at := Some now\<rparr>,
             e\<lparr>last_delivery_at := Some now, failure_count := 0\<rparr>)
          else (schedule_retry max_attempts now attempt l, count_failure now e)
      | Threw msg resp \<Rightarrow>
          (let l' = (schedule_retry max_attempts now attempt l)\<lparr>dl_error := Some msg\<rparr> in
           ((case resp of
               None \<Rightarrow> l'
             | Some st \<Rightarrow> l'\<lparr>http_status_code := (if st = Some 0 then None else st)\<rparr>),
            count_failure now e)))"

definition attempt_delivery ::
  "int \<Rightarrow> timestamp \<Rightarrow> post_result \<Rightarrow> delivery_log \<times> webhook_endpoint \<Rightarrow> webhook_state \<Rightarrow> webhook_state"
where
  "attempt_delivery max_attempts now r le s =
     (let (l', e') = delivery_outcome max_attempts now r (fst le) (snd le);
          l'' = l'\<lparr>attempt_count := attempt_count (fst le) + 1\<rparr> in
      s\<lparr>delivery_logs := save_row dl_id l'' (delivery_logs s),
        endpoints := save_row we_id e' (endpoints s)\<rparr>)"

text \<open>
  One run of the cron job: at most \<open>batch\<close> pending rows are read, each joined with its endpoint,
  and those whose time has come are attempted one after the other.
\<close>

definition is_ready :: "timestamp \<Rightarrow> delivery_log \<Rightarrow> bool" where
  "is_ready now l = (case next_retry_at l of None \<Rightarrow> True | Some t \<Rightarrow> t \<le> now)"

definition pending_logs :: "nat \<Rightarrow> webhook_state \<Rightarrow> delivery_log list" where
  "pending_logs batch s = take batch (filter (\<lambda>l. dl_status l = DsPending) (delivery_logs s))"

definition ready_logs :: "nat \<Rightarrow> timestamp \<Rightarrow> webhook_state \<Rightarrow> (delivery_log \<times> webhook_endpoint) list" where
  "ready_logs batch now s =
     List.map_filter (\<lambda>l. map_option (Pair l) (by_id we_id (dl_endpoint l) (endpoints s)))
       (filter (is_ready now) (pending_logs batch s))"

definition process_pending_deliveries ::
  "int \<Rightarrow> nat \<Rightarrow> timestamp \<Rightarrow> (delivery_log \<Rightarrow> webhook_endpoint \<Rightarrow> post_result)
    \<Rightarrow> webhook_state \<Rightarrow> webhook_state" where
  "process_pending_deliveries max_attempts batch now post s =
     fold (\<lambda>(l, e). attempt_delivery max_attempts now (post l e) (l, e)) (ready_logs batch now s) s"

section \<open>Endpoints\<close>

definition create_endpoint ::
  "uuid \<Rightarrow> string \<Rightarrow> timestamp \<Rightarrow> uuid \<Rightarrow> string \<Rightarrow> string list \<Rightarrow> webhook_state
    \<Rightarrow> webhook_endpoint \<times> webhook_state" where
  "create_endpoint new_id secret now user dto_url dto_types s =
     (let e = \<lparr>we_id = new_id, we_user = user, url = dto_url, event_types = dto_types,
               secret_key = secret, we_active = True, failure_count = 0,
               last_delivery_at = None, last_failure_at = None, we_created_at = now\<rparr>
      in (e, s\<lparr>endpoints := save_row we_id e (endpoints s)\<rparr>))"

definition find_endpoint_by_id :: "uuid \<Rightarrow> uuid \<Rightarrow> webhook_state \<Rightarrow> webhook_endpoint result" where
  "find_endpoint_by_id i user s =
     (case find_one (\<lambda>e. we_id e = i \<and> we_user e = user) (endpoints s) of
        None \<Rightarrow> Inl (NotFound ''Webhook endpoint not found'')
      | Some e \<Rightarrow> Inr e)"

definition list_endpoints :: "uuid \<Rightarrow> webhook_state \<Rightarrow> webhook_endpoint list" where
  "list_endpoints user s = sort_desc we_created_at (filter (\<lambda>e. we_user e = user) (endpoints s))"

definition update_endpoint ::
  "uuid \<Rightarrow> uuid \<Rightarrow> string option \<Rightarrow> string list option \<Rightarrow> bool option \<Rightarrow> webhook_state
    \<Rightarrow> webhook_endpoint result \<times> webhook_state" where
  "update_endpoint i user dto_url dto_types dto_active s =
     (case find_endpoint_by_id i user s of
        Inl err \<Rightarrow> (Inl err, s)
      | Inr e \<Rightarrow>
          (let e1 = (case dto_url of None \<Rightarrow> e | Some u \<Rightarrow> e\<lparr>url := u\<rparr>);
               e2 = (case dto_types of None \<Rightarrow> e1 | Some ts \<Rightarrow> e1\<lparr>event_types := ts\<rparr>);
               e3 = (case dto_active of None \<Rightarrow> e2 | Some a \<Rightarrow> e2\<lparr>we_active := a\<rparr>)
           in (Inr e3, s\<lparr>endpoints := save_row we_id e3 (endpoints s)\<rparr>)))"

text \<open>Removing an endpoint removes its logs with it (\<open>onDelete: CASCADE\<close>).\<close>

definition delete_endpoint :: "uuid \<Rightarrow> uuid \<Rightarrow> webhook_state \<Rightarrow> unit result \<times> webhook_state" where
  "delete_endpoint i user s =
     (case find_endpoint_by_id i user s of
        Inl err \<Rightarrow> (Inl err, s)
      | Inr e \<Rightarrow>
          (Inr (), s\<lparr>endpoints := delete_rows (\<lambda>x. we_id x = we_id e) (endpoints s),
                    delivery_logs := delete_rows (\<lambda>l. dl_endpoint l = we_id e) (delivery_logs s)\<rparr>))"

definition get_delivery_logs ::
  "uuid \<Rightarrow> uuid \<Rightarrow> nat \<Rightarrow> nat \<Rightarrow> webhook_state \<Rightarrow> (delivery_log list \<times> nat) result" where
  "get_delivery_logs i user limit offset s =
     (case find_endpoint_by_id i user s of
        Inl err \<Rightarrow> Inl err
      | Inr e \<Rightarrow>
          (let ls = filter (\<lambda>l. dl_endpoint l = we_id e) (delivery_logs s)
           in Inr (take limit (drop offset (sort_desc dl_created_at ls)), length ls)))"

lemmas webhook_defs = create_delivery_log_def target_endpoints_def emit_def schedule_retry_def
  count_failure_def delivery_outcome_def attempt_delivery_def

section \<open>The delivery invariant\<close>

text \<open>
  A pending delivery has attempts left and a time for the next one; a failed one has used all of
  them; nothing is ever attempted more than \<open>max_attempts\<close> times.
\<close>

definition log_ok :: "int \<Rightarrow> delivery_log \<Rightarrow> bool" where
  "log_ok m l \<longleftrightarrow>
     0 \<le> attempt_count l \<and> attempt_count l \<le> m \<and>
     (case dl_status l of
        DsPending \<Rightarrow> attempt_count l < m \<and> next_retry_at l \<noteq> None
      | DsSuccess \<Rightarrow> 0 < attempt_count l \<and> delivered_at l \<noteq> None
      | DsFailed \<Rightarrow> attempt_count l = m \<and> next_retry_at l = None)"

definition logs_ok :: "int \<Rightarrow> webhook_state \<Rightarrow> bool" where
  "logs_ok m s \<longleftrightarrow> list_all (log_ok m) (delivery_logs s)"

definition attempted ::
  "int \<Rightarrow> timestamp \<Rightarrow> post_result \<Rightarrow> delivery_log \<Rightarrow> webhook_endpoint \<Rightarrow> delivery_log" where
  "attempted m now r l e =
     (fst (delivery_outcome m now r l e))\<lparr>attempt_count := attempt_count l + 1\<rparr>"

lemma attempt_delivery_logs:
  "delivery_logs (attempt_delivery m now r (l, e) s) =
    save_row dl_id (attempted m now r l e) (delivery_logs s)"
  by (simp add: attempt_delivery_def attempted_def split: prod.splits)

lemma attempted_fields [simp]:
  "dl_id (attempted m now r l e) = dl_id l"
  "dl_endpoint (attempted m now r l e) = dl_endpoint l"
  "attempt_count (attempted m now r l e) = attempt_count l + 1"
  by (auto simp: attempted_def webhook_defs Let_def split: post_result.splits option.splits)

lemma attempted_ok:
  "log_ok m l \<Longrightarrow> dl_status l = DsPending \<Longrightarrow> log_ok m (attempted m now r l e)"
  by (auto simp: attempted_def log_ok_def webhook_defs Let_def
      split: post_result.splits option.splits)

lemma backoff_ms_bounds: "1 \<le> attempt \<Longrightarrow> 1000 \<le> backoff_ms attempt \<and> backoff_ms attempt \<le> 3600000"
proof -
  have "(1::int) \<le> 2 ^ nat (attempt - 1)" by simp
  then show ?thesis by (simp add: backoff_ms_def)
qed

lemma backoff_ms_mono: "a \<le> b \<Longrightarrow> backoff_ms a \<le> backoff_ms b"
proof -
  assume "a \<le> b"
  then have "(2::int) ^ nat (a - 1) \<le> 2 ^ nat (b - 1)"
    by (intro power_increasing) auto
  then show ?thesis by (simp add: backoff_ms_def min_le_iff_disj)
qed

interpretation log_rows: repository dl_id "by_id dl_id" "save_row dl_id"
    "\<lambda>k. delete_rows (\<lambda>l. dl_id l = k)" "keyed dl_id"
  by (rule rows_repository)

interpretation endpoint_rows: repository we_id "by_id we_id" "save_row we_id"
    "\<lambda>k. delete_rows (\<lambda>e. we_id e = k)" "keyed we_id"
  by (rule rows_repository)

section \<open>One run of the delivery job\<close>

lemma map_fst_map_filter:
  "map fst (List.map_filter (\<lambda>x. map_option (Pair x) (g x)) xs) = filter (\<lambda>x. g x \<noteq> None) xs"
  by (induction xs) (auto simp: List.map_filter_simps split: option.splits)

lemma process_logs:
  "delivery_logs (fold (\<lambda>(l, e). attempt_delivery m now (post l e) (l, e)) ps s) =
    fold (save_row dl_id) (map (\<lambda>(l, e). attempted m now (post l e) l e) ps) (delivery_logs s)"
  by (induction ps arbitrary: s) (auto simp: attempt_delivery_logs)

lemma ready_logs_fst:
  "map fst (ready_logs batch now s) =
    filter (\<lambda>l. by_id we_id (dl_endpoint l) (endpoints s) \<noteq> None)
      (filter (is_ready now) (pending_logs batch s))"
  by (simp add: ready_logs_def map_fst_map_filter)

lemma ready_logs_mem:
  assumes "(l, e) \<in> set (ready_logs batch now s)"
  shows "l \<in> set (delivery_logs s)" "dl_status l = DsPending" "is_ready now l"
proof -
  from assms have "l \<in> set (map fst (ready_logs batch now s))" by force
  then show "l \<in> set (delivery_logs s)" "dl_status l = DsPending" "is_ready now l"
    unfolding ready_logs_fst by (auto simp: pending_logs_def dest: in_set_takeD)
qed

lemma ready_logs_distinct:
  assumes "keyed dl_id (delivery_logs s)"
  shows "distinct (map (\<lambda>(l, e). dl_id l) (ready_logs batch now s))"
proof -
  have "map (\<lambda>(l, e). dl_id l) (ready_logs batch now s) = map dl_id (map fst (ready_logs batch now s))"
    by (simp add: split_def)
  moreover have "distinct (map dl_id (pending_logs batch s))"
    using assms by (simp add: pending_logs_def keyed_def distinct_map_filter take_map distinct_take flip: take_map)
  ultimately show ?thesis
    by (simp add: ready_logs_fst distinct_map_filter)
qed

lemma process_logs_ok:
  assumes "logs_ok m s"
  shows "logs_ok m (process_pending_deliveries m batch now post s)"
proof -
  have "list_all (log_ok m) (map (\<lambda>(l, e). attempted m now (post l e) l e) (ready_logs batch now s))"
    using assms by (auto simp: list_all_iff logs_ok_def intro: attempted_ok dest: ready_logs_mem)
  with assms show ?thesis
    by (simp add: logs_ok_def process_pending_deliveries_def process_logs fold_save_ok)
qed

lemma emit_ok: "0 < m \<Longrightarrow> logs_ok m s \<Longrightarrow> logs_ok m (emit ids now ev payload s)"
  by (auto simp: logs_ok_def list_all_iff emit_def create_delivery_log_def log_ok_def)

text \<open>The states the component reaches, whatever the clock, the subscribers and their servers do.\<close>

inductive webhook_step :: "int \<Rightarrow> webhook_state \<Rightarrow> webhook_state \<Rightarrow> bool" for m :: int where
  emit_step: "webhook_step m s (emit ids now ev payload s)"
| delivery_step: "webhook_step m s (process_pending_deliveries m batch now post s)"
| create_step: "webhook_step m s (snd (create_endpoint i secret now user u ts s))"
| update_step: "webhook_step m s (snd (update_endpoint i user u ts a s))"
| delete_step: "webhook_step m s (snd (delete_endpoint i user s))"

inductive webhook_reachable :: "int \<Rightarrow> webhook_state \<Rightarrow> bool" for m :: int where
  webhook_start: "webhook_reachable m \<lparr>endpoints = [], delivery_logs = []\<rparr>"
| webhook_next: "webhook_reachable m s \<Longrightarrow> webhook_step m s t \<Longrightarrow> webhook_reachable m t"

inductive_cases webhook_stepE: "webhook_step m s t"

lemma endpoint_ops_logs:
  "delivery_logs (snd (create_endpoint i secret now user u ts s)) = delivery_logs s"
  "delivery_logs (snd (update_endpoint i user u' ts' a s)) = delivery_logs s"
  by (simp_all add: create_endpoint_def update_endpoint_def Let_def split: sum.split)

lemma delete_endpoint_logs:
  "set (delivery_logs (snd (delete_endpoint i user s))) \<subseteq> set (delivery_logs s)"
  by (auto simp: delete_endpoint_def delete_rows_def split: sum.split)

lemma webhook_step_ok:
  assumes "webhook_step m s t" and "0 < m" and "logs_ok m s"
  shows "logs_ok m t"
  using assms(1)
proof (cases rule: webhook_step.cases)
  case emit_step
  with assms(2,3) show ?thesis by (simp add: emit_ok)
next
  case delivery_step
  with assms(3) show ?thesis by (simp add: process_logs_ok)
next
  case delete_step
  with assms(3) delete_endpoint_logs show ?thesis by (fastforce simp: logs_ok_def list_all_iff)
qed (use assms(3) in \<open>simp_all add: logs_ok_def endpoint_ops_logs\<close>)

lemma webhook_reachable_ok: "webhook_reachable m s \<Longrightarrow> 0 < m \<Longrightarrow> logs_ok m s"
proof (induction rule: webhook_reachable.induct)
  case webhook_start
  show ?case by (simp add: logs_ok_def)
next
  case (webhook_next s t)
  then show ?case by (blast intro: webhook_step_ok)
qed

section \<open>Properties\<close>

lemma process_lookup:
  assumes "keyed dl_id (delivery_logs s)"
  shows "by_id dl_id k (delivery_logs (process_pending_deliveries m batch now post s)) =
    (case List.find (\<lambda>l. dl_id l = k)
        (map (\<lambda>(l, e). attempted m now (post l e) l e) (ready_logs batch now s)) of
       None \<Rightarrow> by_id dl_id k (delivery_logs s) | Some l \<Rightarrow> Some l)"
proof -
  have "map dl_id (map (\<lambda>(l, e). attempted m now (post l e) l e) (ready_logs batch now s)) =
      map (\<lambda>(l, e). dl_id l) (ready_logs batch now s)"
    by (simp add: split_def)
  with ready_logs_distinct [OF assms, of batch now]
  have "distinct (map dl_id (map (\<lambda>(l, e). attempted m now (post l e) l e) (ready_logs batch now s)))"
    by metis
  then show ?thesis
    unfolding process_pending_deliveries_def process_logs by (rule log_rows.lookup_save_all)
qed

lemma find_map_key:
  "distinct (map g xs) \<Longrightarrow> x \<in> set xs \<Longrightarrow> (\<And>y. f (h y) = g y) \<Longrightarrow>
    List.find (\<lambda>z. f z = g x) (map h xs) = Some (h x)"
  by (induction xs) force+

lemma attempted_pending:
  "log_ok m l \<Longrightarrow> dl_status l = DsPending \<Longrightarrow> dl_status (attempted m now r l e) = DsPending \<Longrightarrow>
    next_retry_at (attempted m now r l e) = Some (now + backoff_ms (attempt_count l + 1))"
  by (auto simp: attempted_def log_ok_def webhook_defs Let_def
      split: post_result.splits option.splits if_splits)


definition sample_endpoint :: webhook_endpoint where
  "sample_endpoint = \<lparr>we_id = ''e1'', we_user = ''u1'', url = ''https://a.example'',
     event_types = [''market.created''], secret_key = ''k'', we_active = True, failure_count = 0,
     last_delivery_at = None, last_failure_at = None, we_created_at = 0\<rparr>"

definition sample_log :: "uuid \<Rightarrow> timestamp \<Rightarrow> delivery_log" where
  "sample_log i t = \<lparr>dl_id = i, dl_endpoint = ''e1'', dl_event_type = ''market.created'',
     dl_payload = JNull, dl_status = DsPending, attempt_count = 0, http_status_code = None,
     dl_error = None, next_retry_at = Some t, delivered_at = None, dl_created_at = 0\<rparr>"

lemma sample_reachable:
  "webhook_reachable 5 \<lparr>endpoints = [sample_endpoint], delivery_logs = [sample_log ''l1'' 0]\<rparr>"
proof -
  have "webhook_reachable 5 (snd (create_endpoint ''e1'' ''k'' 0 ''u1'' ''https://a.example''
      [''market.created''] \<lparr>endpoints = [], delivery_logs = []\<rparr>))"
    by (intro webhook_next [OF webhook_start] create_step)
  then have "webhook_reachable 5 (emit (\<lambda>_. ''l1'') 0 ''market.created'' JNull
      (snd (create_endpoint ''e1'' ''k'' 0 ''u1'' ''https://a.example''
      [''market.created''] \<lparr>endpoints = [], delivery_logs = []\<rparr>)))"
    by (rule webhook_next) (rule emit_step)
  then show ?thesis
    by (simp add: create_endpoint_def sample_endpoint_def sample_log_def webhook_defs Let_def)
qed


text \<open>
  One run of the delivery job attempts every ready delivery of its batch exactly once: its
  attempt count goes up by one, and if it stays pending its next attempt is between one second and
  one hour away.  Every other delivery is untouched.
\<close>

theorem delivery_run_effect:
  assumes "keyed dl_id (delivery_logs s)" and "logs_ok m s"
  shows "(\<forall>(l, e) \<in> set (ready_logs batch now s).
      \<exists>l'. by_id dl_id (dl_id l) (delivery_logs (process_pending_deliveries m batch now post s)) = Some l' \<and>
        attempt_count l' = attempt_count l + 1 \<and>
        (dl_status l' = DsPending \<longrightarrow>
          (\<exists>t. next_retry_at l' = Some t \<and> now + 1000 \<le> t \<and> t \<le> now + 3600000))) \<and>
    (\<forall>k. k \<notin> (\<lambda>(l, e). dl_id l) ` set (ready_logs batch now s) \<longrightarrow>
      by_id dl_id k (delivery_logs (process_pending_deliveries m batch now post s)) =
      by_id dl_id k (delivery_logs s))"
proof (intro conjI ballI allI impI, clarify)
  fix l e assume le: "(l, e) \<in> set (ready_logs batch now s)"
  have ok: "log_ok m l" "dl_status l = DsPending"
    using ready_logs_mem [OF le] assms(2) by (auto simp: logs_ok_def list_all_iff)
  let ?l = "attempted m now (post l e) l e"
  have "by_id dl_id (dl_id l) (delivery_logs (process_pending_deliveries m batch now post s)) = Some ?l"
    unfolding process_lookup [OF assms(1)]
    using find_map_key [OF ready_logs_distinct [OF assms(1)] le, where f = dl_id
        and h = "\<lambda>(l, e). attempted m now (post l e) l e"] by auto
  moreover have "dl_status ?l = DsPending \<longrightarrow>
      (\<exists>t. next_retry_at ?l = Some t \<and> now + 1000 \<le> t \<and> t \<le> now + 3600000)"
    using attempted_pending [OF ok] backoff_ms_bounds [of "attempt_count l + 1"] ok(1)
    by (auto simp: log_ok_def)
  ultimately show "\<exists>l'. by_id dl_id (dl_id l)
        (delivery_logs (process_pending_deliveries m batch now post s)) = Some l' \<and>
      attempt_count l' = attempt_count l + 1 \<and>
      (dl_status l' = DsPending \<longrightarrow>
        (\<exists>t. next_retry_at l' = Some t \<and> now + 1000 \<le> t \<and> t \<le> now + 3600000))"
    by simp
next
  fix k assume "k \<notin> (\<lambda>(l, e). dl_id l) ` set (ready_logs batch now s)"
  then have "List.find (\<lambda>l. dl_id l = k)
      (map (\<lambda>(l, e). attempted m now (post l e) l e) (ready_logs batch now s)) = None"
    by (force simp: find_None_iff)
  then show "by_id dl_id k (delivery_logs (process_pending_deliveries m batch now post s)) =
      by_id dl_id k (delivery_logs s)"
    by (simp add: process_lookup [OF assms(1)])
qed

definition sample_state :: webhook_state where
  "sample_state = \<lparr>endpoints = [sample_endpoint],
     delivery_logs = [sample_log ''l1'' 9000, sample_log ''l2'' 0]\<rparr>"

theorem delivery_run_effect_witness:
  "\<exists>l'. by_id dl_id ''l2''
      (delivery_logs (process_pending_deliveries 5 50 100 (\<lambda>_ _. Answered 500) sample_state)) = Some l' \<and>
    attempt_count l' = 1"
proof -
  have ready: "ready_logs 50 100 sample_state = [(sample_log ''l2'' 0, sample_endpoint)]"
    by (simp add: ready_logs_def pending_logs_def sample_state_def sample_log_def sample_endpoint_def
        is_ready_def List.map_filter_simps)
  have "keyed dl_id (delivery_logs sample_state)" "logs_ok 5 sample_state"
    by (simp_all add: keyed_def logs_ok_def log_ok_def sample_state_def sample_log_def)
  from delivery_run_effect [OF this, of 50 100 "\<lambda>_ _. Answered 500"]
  show ?thesis unfolding ready by (auto simp: sample_log_def)
qed

text \<open>
  The job looks at the first \<open>batch\<close> pending rows before it asks which are ready.  When none of
  those is ready the run delivers nothing, whatever the rest of the queue holds: a ready delivery
  behind a full batch of waiting ones is not attempted.
\<close>

theorem delivery_batch_starves:
  assumes "list_all (\<lambda>l. \<not> is_ready now l) (pending_logs batch s)"
  shows "process_pending_deliveries m batch now post s = s"
proof -
  from assms have "filter (is_ready now) (pending_logs batch s) = []"
    by (simp add: list_all_iff filter_empty_conv)
  then show ?thesis
    by (simp add: process_pending_deliveries_def ready_logs_def List.map_filter_simps)
qed

theorem delivery_batch_starves_witness:
  "process_pending_deliveries 5 1 100 (\<lambda>_ _. Answered 200) sample_state = sample_state \<and>
   is_ready 100 (sample_log ''l2'' 0) \<and> sample_log ''l2'' 0 \<in> set (delivery_logs sample_state)"
proof -
  have "list_all (\<lambda>l. \<not> is_ready 100 l) (pending_logs 1 sample_state)"
    by (simp add: pending_logs_def sample_state_def sample_log_def is_ready_def)
  then show ?thesis
    using delivery_batch_starves [of 100 1 sample_state 5 "\<lambda>_ _. Answered 200"]
    by (simp add: sample_state_def is_ready_def sample_log_def)
qed

end
