(* ===== verification/Soroban.thy ===== *)
theory Soroban
  imports Store Js
begin

unbundle bit_operations_syntax

text \<open>
  The gateway to the Soroban contracts (\<open>backend/src/soroban/soroban.service.ts\<close>).

  Most methods are stubs in the source: they check the configured keys and fabricate an id and a
  transaction hash.  \<open>finalizeEvent\<close> and \<open>refundCompetitionParticipant\<close> build, simulate, sign and
  submit a transaction and then poll for its status.  The Stellar SDK is a parameter: whether it
  accepts a secret key or an address, and what the RPC server answers.

  The other services see this one through the record \<open>soroban\<close> of its methods, as they receive it
  by injection; the locale \<open>chain_gateway\<close> states what they rely on.
\<close>

section \<open>Configuration, SDK and clock\<close>

text \<open>
  \<open>secret_error k\<close> is the error \<open>Keypair.fromSecret(k)\<close> throws, None when it accepts the key;
  \<open>address_error\<close> the same for \<open>Keypair.fromPublicKey\<close>, \<open>scaddress_error\<close> for \<open>new Address\<close>,
  \<open>u64_error\<close> and \<open>u128_error\<close> for \<open>nativeToScVal\<close>.  \<open>suffix\<close> is the random part of the ids.
\<close>

record soroban_cfg =
  contract_id :: string
  server_secret_key :: string
  secret_error :: "string \<Rightarrow> string option"
  address_error :: "string \<Rightarrow> string option"
  scaddress_error :: "string \<Rightarrow> string option"
  u64_error :: "int \<Rightarrow> string option"
  u128_error :: "int \<Rightarrow> string option"
  clock :: timestamp
  suffix :: string

type_synonym 'a chain_result = "string + 'a"

record prediction_receipt =
  pr_tx_hash :: string
  pr_payout :: "stroops option"

definition with_secret :: "soroban_cfg \<Rightarrow> 'a chain_result \<Rightarrow> 'a chain_result" where
  "with_secret cfg r = (case secret_error cfg (server_secret_key cfg) of Some e \<Rightarrow> Inl e | None \<Rightarrow> r)"

definition with_address :: "soroban_cfg \<Rightarrow> string \<Rightarrow> 'a chain_result \<Rightarrow> 'a chain_result" where
  "with_address cfg a r = (case address_error cfg a of Some e \<Rightarrow> Inl e | None \<Rightarrow> r)"

definition fake_hash :: "string \<Rightarrow> string" where
  "fake_hash text = pad_slice 64 CHR ''0'' (hex_of text)"

lemma length_fake_hash [simp]: "length (fake_hash text) = 64"
  by (simp add: fake_hash_def)

section \<open>Stub operations\<close>

definition get_creation_fee :: "string chain_result" where
  "get_creation_fee = Inr ''10000000''"

definition create_market_on_chain ::
  "soroban_cfg \<Rightarrow> string \<Rightarrow> (string \<times> string) chain_result" where
  "create_market_on_chain cfg description =
     (let market_id = ''market_'' @ show_int (clock cfg) @ ''_'' @ suffix cfg
      in Inr (market_id, fake_hash (market_id @ '':'' @ description)))"

definition create_season_on_chain ::
  "int \<Rightarrow> int \<Rightarrow> string \<Rightarrow> (int \<times> string) chain_result" where
  "create_season_on_chain start_unix end_unix pool =
     (let mix = (start_unix XOR end_unix) AND 0x7fffffff;
          on_chain_season_id = (if mix = 0 then 1 else mix)
      in Inr (on_chain_season_id,
              fake_hash (''season:'' @ show_int start_unix @ '':'' @ show_int end_unix @ '':'' @ pool)))"

definition cancel_market_on_chain :: "soroban_cfg \<Rightarrow> string \<Rightarrow> string chain_result" where
  "cancel_market_on_chain cfg m =
     with_secret cfg (Inr (fake_hash (''cancel:'' @ m @ '':'' @ show_int (clock cfg))))"

definition resolve_market_on_chain :: "soroban_cfg \<Rightarrow> string \<Rightarrow> string \<Rightarrow> unit chain_result" where
  "resolve_market_on_chain cfg m outcome = with_secret cfg (Inr ())"

definition submit_prediction_on_chain ::
  "soroban_cfg \<Rightarrow> string \<Rightarrow> string \<Rightarrow> string \<Rightarrow> string \<Rightarrow> prediction_receipt chain_result" where
  "submit_prediction_on_chain cfg user m outcome stake =
     with_secret cfg (with_address cfg user
       (Inr \<lparr>pr_tx_hash = fake_hash (m @ '':'' @ user @ '':'' @ show_int (clock cfg)),
             pr_payout = None\<rparr>))"

definition claim_payout_on_chain ::
  "soroban_cfg \<Rightarrow> string \<Rightarrow> string \<Rightarrow> prediction_receipt chain_result" where
  "claim_payout_on_chain cfg user m =
     with_secret cfg (with_address cfg user
       (Inr \<lparr>pr_tx_hash = fake_hash (''claim:'' @ m @ '':'' @ user @ '':'' @ show_int (clock cfg)),
             pr_payout = Some 15000000\<rparr>))"

definition raise_dispute_on_chain ::
  "soroban_cfg \<Rightarrow> string \<Rightarrow> string \<Rightarrow> (string \<times> string) chain_result" where
  "raise_dispute_on_chain cfg m reason =
     with_secret cfg
       (let dispute_id = ''dispute_'' @ show_int (clock cfg) @ ''_'' @ suffix cfg
        in Inr (dispute_id,
                fake_hash (''dispute:'' @ m @ '':'' @ dispute_id @ '':'' @ show_int (clock cfg))))"

definition resolve_dispute_on_chain ::
  "soroban_cfg \<Rightarrow> string \<Rightarrow> string \<Rightarrow> string \<Rightarrow> (string \<times> string) chain_result" where
  "resolve_dispute_on_chain cfg m dispute_id resolution =
     with_secret cfg
       (Inr (dispute_id, fake_hash (''resolve_dispute:'' @ m @ '':'' @ dispute_id @ '':'' @
               resolution @ '':'' @ show_int (clock cfg))))"

definition pause_market_on_chain :: "soroban_cfg \<Rightarrow> string \<Rightarrow> string chain_result" where
  "pause_market_on_chain cfg m =
     with_secret cfg (Inr (fake_hash (''pause:'' @ m @ '':'' @ show_int (clock cfg))))"

definition resume_market_on_chain :: "soroban_cfg \<Rightarrow> string \<Rightarrow> string chain_result" where
  "resume_market_on_chain cfg m =
     with_secret cfg (Inr (fake_hash (''resume:'' @ m @ '':'' @ show_int (clock cfg))))"

section \<open>Submitting a transaction\<close>

datatype tx_status = TxSuccess | TxNotFound | TxFailed

fun status_text :: "tx_status \<Rightarrow> string" where
  "status_text TxSuccess = ''SUCCESS''"
| "status_text TxNotFound = ''NOT_FOUND''"
| "status_text TxFailed = ''FAILED''"

text \<open>
  What the RPC server answers: an error or the account, an error or the simulation, the hash or a
  rejection, and the status it reports at the \<open>n\<close>-th poll.
\<close>

record rpc_server =
  rpc_account :: "unit chain_result"
  rpc_simulation :: "string option"
  rpc_send :: "string chain_result"
  rpc_status :: "nat \<Rightarrow> tx_status"

function poll_status :: "(nat \<Rightarrow> tx_status) \<Rightarrow> nat \<Rightarrow> tx_status \<Rightarrow> tx_status \<times> nat" where
  "poll_status get attempts st =
     (if st = TxNotFound \<and> attempts < 10 then poll_status get (attempts + 1) (get (attempts + 1))
      else (st, attempts))"
  by pat_completeness auto
termination
  by (relation "measure (\<lambda>(get, attempts, st). 10 - attempts)") auto

declare poll_status.simps [simp del]

text \<open>
  The part the two transactions share, after the simulation: submit, poll, and map the last status
  to a receipt or an error.
\<close>

definition send_and_wait :: "rpc_server \<Rightarrow> string chain_result" where
  "send_and_wait rpc =
     (case rpc_send rpc of
        Inl err \<Rightarrow> Inl (''Transaction submission failed: '' @ err)
      | Inr hash \<Rightarrow>
          (let st = fst (poll_status (rpc_status rpc) 0 (rpc_status rpc 0)) in
           if st = TxSuccess then Inr hash
           else Inl (''Transaction failed with status '' @ status_text st)))"

definition finalize_event_on_chain :: "soroban_cfg \<Rightarrow> rpc_server \<Rightarrow> int \<Rightarrow> string chain_result" where
  "finalize_event_on_chain cfg rpc event_id =
     with_secret cfg
       (case rpc_account rpc of
          Inl err \<Rightarrow> Inl err
        | Inr _ \<Rightarrow>
            (case u64_error cfg event_id of
               Some err \<Rightarrow> Inl err
             | None \<Rightarrow>
                 (case rpc_simulation rpc of
                    Some err \<Rightarrow> Inl (''Simulation failed: '' @ err)
                  | None \<Rightarrow> send_and_wait rpc)))"

definition refund_competition_participant ::
  "soroban_cfg \<Rightarrow> rpc_server \<Rightarrow> string \<Rightarrow> string \<Rightarrow> string chain_result" where
  "refund_competition_participant cfg rpc user amount =
     with_secret cfg
       (case rpc_account rpc of
          Inl err \<Rightarrow> Inl err
        | Inr _ \<Rightarrow>
            (case scaddress_error cfg user of
               Some err \<Rightarrow> Inl err
             | None \<Rightarrow>
            (case big_int amount of
               None \<Rightarrow> Inl ''SyntaxError''
             | Some n \<Rightarrow>
            (case u128_error cfg n of
               Some err \<Rightarrow> Inl err
             | None \<Rightarrow>
            (case rpc_simulation rpc of
               Some err \<Rightarrow>
                 if has_substring err ''EscrowEmpty'' then Inl ''EscrowEmpty''
                 else if has_substring err ''InsufficientFunds'' then Inl ''InsufficientFunds''
                 else Inl (''Simulation failed: '' @ err)
             | None \<Rightarrow> send_and_wait rpc)))))"

section \<open>The interface of the service\<close>

record soroban =
  sb_create_market :: "string \<Rightarrow> string \<Rightarrow> string \<Rightarrow> string list \<Rightarrow> (string \<times> string) chain_result"
  sb_resolve_market :: "string \<Rightarrow> string \<Rightarrow> unit chain_result"
  sb_cancel_market :: "string \<Rightarrow> string chain_result"
  sb_pause_market :: "string \<Rightarrow> string chain_result"
  sb_resume_market :: "string \<Rightarrow> string chain_result"
  sb_submit_prediction :: "string \<Rightarrow> string \<Rightarrow> string \<Rightarrow> string \<Rightarrow> prediction_receipt chain_result"
  sb_claim_payout :: "string \<Rightarrow> string \<Rightarrow> prediction_receipt chain_result"
  sb_raise_dispute :: "string \<Rightarrow> string \<Rightarrow> (string \<times> string) chain_result"
  sb_resolve_dispute :: "string \<Rightarrow> string \<Rightarrow> string \<Rightarrow> (string \<times> string) chain_result"
  sb_create_season :: "int \<Rightarrow> int \<Rightarrow> string \<Rightarrow> (int \<times> string) chain_result"
  sb_finalize_event :: "int \<Rightarrow> string chain_result"
  sb_refund_participant :: "string \<Rightarrow> string \<Rightarrow> string \<Rightarrow> string chain_result"

definition soroban_service :: "soroban_cfg \<Rightarrow> rpc_server \<Rightarrow> soroban" where
  "soroban_service cfg rpc =
     \<lparr>sb_create_market = (\<lambda>title description category outcomes. create_market_on_chain cfg description),
      sb_resolve_market = resolve_market_on_chain cfg,
      sb_cancel_market = cancel_market_on_chain cfg,
      sb_pause_market = pause_market_on_chain cfg,
      sb_resume_market = resume_market_on_chain cfg,
      sb_submit_prediction = submit_prediction_on_chain cfg,
      sb_claim_payout = claim_payout_on_chain cfg,
      sb_raise_dispute = raise_dispute_on_chain cfg,
      sb_resolve_dispute = resolve_dispute_on_chain cfg,
      sb_create_season = create_season_on_chain,
      sb_finalize_event = finalize_event_on_chain cfg rpc,
      sb_refund_participant = (\<lambda>user competition amount. refund_competition_participant cfg rpc user amount)\<rparr>"

text \<open>The requests a service sends to the chain, in the order it sends them.\<close>

datatype chain_call =
    CreateMarket string
  | ResolveMarket string string
  | CancelMarket string
  | PauseMarket string
  | ResumeMarket string
  | SubmitPrediction string string string string
  | ClaimPayout string string
  | RaiseDispute string string
  | ResolveDispute string string string
  | CreateSeason int int string
  | FinalizeEvent int
  | RefundParticipant string string string

section \<open>Lemmas\<close>

lemma poll_status_spec:
  assumes "a \<le> 10" and "poll_status get a (get a) = (st, n)"
  shows "a \<le> n \<and> n \<le> 10 \<and> st = get n \<and> (\<forall>j. a \<le> j \<longrightarrow> j < n \<longrightarrow> get j = TxNotFound) \<and>
    (st = TxNotFound \<longrightarrow> n = 10)"
  using assms
proof (induction "10 - a" arbitrary: a)
  case 0
  then have "a = 10" by simp
  with 0 show ?case by (auto simp: poll_status.simps [of get 10])
next
  case (Suc d)
  show ?case
  proof (cases "get a = TxNotFound")
    case True
    with Suc.hyps(2) Suc.prems have "poll_status get (a + 1) (get (a + 1)) = (st, n)"
      by (auto simp: poll_status.simps [of get a] split: if_splits)
    with Suc have IH: "a + 1 \<le> n \<and> n \<le> 10 \<and> st = get n \<and>
        (\<forall>j. a + 1 \<le> j \<longrightarrow> j < n \<longrightarrow> get j = TxNotFound) \<and> (st = TxNotFound \<longrightarrow> n = 10)"
      by (intro Suc.hyps(1)) auto
    have "\<forall>j. a \<le> j \<longrightarrow> j < n \<longrightarrow> get j = TxNotFound"
    proof (intro allI impI)
      fix j assume j: "a \<le> j" "j < n"
      show "get j = TxNotFound"
      proof (cases "j = a")
        case False
        with j have "a + 1 \<le> j" by simp
        with j IH show ?thesis by blast
      qed (use True in simp)
    qed
    moreover have "a \<le> n" using IH by linarith
    ultimately show ?thesis using IH by blast
  next
    case False
    with Suc.prems show ?thesis by (auto simp: poll_status.simps [of get a])
  qed
qed

lemma poll_status_first:
  assumes "n \<le> 10" and "\<forall>j<n. get j = TxNotFound" and "get n \<noteq> TxNotFound"
  shows "fst (poll_status get 0 (get 0)) = get n"
proof -
  obtain st k where p: "poll_status get 0 (get 0) = (st, k)" by fastforce
  note spec = poll_status_spec [OF le0 p]
  have k: "k \<le> 10" "st = get k" "\<forall>j<k. get j = TxNotFound" and last: "st = TxNotFound \<longrightarrow> k = 10"
    using spec by (blast intro: le0)+
  have "k = n"
  proof (rule linorder_cases)
    assume "k < n"
    with assms(2) k(2) have "st = TxNotFound" by simp
    with last have "k = 10" by simp
    with \<open>k < n\<close> assms(1) show ?thesis by simp
  next
    assume "n < k"
    with assms(3) k(3) show ?thesis by auto
  qed simp
  then show ?thesis unfolding p k(2) by simp
qed

lemma land_mask31: "(x::int) AND 0x7fffffff = x mod 2 ^ 31"
proof -
  have m: "(0x7fffffff :: int) = mask 31" by (simp add: mask_eq_exp_minus_1)
  show ?thesis unfolding m by (simp only: take_bit_eq_mask [symmetric] take_bit_eq_mod)
qed

lemma create_season_id_range:
  assumes "create_season_on_chain a b p = Inr (i, h)"
  shows "1 \<le> i \<and> i < 2 ^ 31 \<and> length h = 64"
proof -
  define mix where "mix = (a XOR b) AND 0x7fffffff"
  have "0 \<le> mix" "mix < 2 ^ 31"
    unfolding mix_def land_mask31 by simp_all
  with assms show ?thesis
    unfolding create_season_on_chain_def Let_def mix_def [symmetric] by (auto split: if_splits)
qed

lemma with_secret_Inr: "with_secret cfg r = Inr x \<longleftrightarrow>
    secret_error cfg (server_secret_key cfg) = None \<and> r = Inr x"
  by (auto simp: with_secret_def split: option.splits)

lemma with_address_Inr: "with_address cfg a r = Inr x \<longleftrightarrow> address_error cfg a = None \<and> r = Inr x"
  by (auto simp: with_address_def split: option.splits)

section \<open>What the clients rely on\<close>

text \<open>
  A receipt carries a 64-digit hash, a payout is positive, and the id of a season is positive and
  fits the \<open>int\<close> column it is stored in.
\<close>

locale chain_gateway =
  fixes sor :: soroban
  assumes submit_hash: "sb_submit_prediction sor u m c stake = Inr r \<Longrightarrow> length (pr_tx_hash r) = 64"
    and claim_hash: "sb_claim_payout sor u m = Inr r \<Longrightarrow> length (pr_tx_hash r) = 64"
    and claim_positive: "sb_claim_payout sor u m = Inr r \<Longrightarrow> pr_payout r = Some p \<Longrightarrow> 0 < p"
    and season_id: "sb_create_season sor a b pool = Inr (i, h) \<Longrightarrow> 1 \<le> i \<and> i < 2 ^ 31 \<and> length h = 64"
begin

lemma season_id_fits: "sb_create_season sor a b pool = Inr (i, h) \<Longrightarrow> pg_int4 i"
  using season_id by (fastforce simp: pg_int4_def)

lemma claim_receipt:
  "sb_claim_payout sor u m = Inr r \<Longrightarrow>
    length (pr_tx_hash r) = 64 \<and> (case pr_payout r of None \<Rightarrow> True | Some p \<Rightarrow> 0 < p)"
  using claim_hash claim_positive by (auto split: option.splits)

end

interpretation soroban_gateway: chain_gateway "soroban_service cfg rpc"
proof unfold_locales
  fix u m c a r
  assume "sb_submit_prediction (soroban_service cfg rpc) u m c a = Inr r"
  then show "length (pr_tx_hash r) = 64"
    by (auto simp: soroban_service_def submit_prediction_on_chain_def with_secret_Inr with_address_Inr)
next
  fix u m r
  assume *: "sb_claim_payout (soroban_service cfg rpc) u m = Inr r"
  then show "length (pr_tx_hash r) = 64"
    by (auto simp: soroban_service_def claim_payout_on_chain_def with_secret_Inr with_address_Inr)
  fix p assume "pr_payout r = Some p"
  with * show "0 < p"
    by (auto simp: soroban_service_def claim_payout_on_chain_def with_secret_Inr with_address_Inr)
next
  fix a b pool i h
  assume "sb_create_season (soroban_service cfg rpc) a b pool = Inr (i, h)"
  then show "1 \<le> i \<and> i < 2 ^ 31 \<and> length h = 64"
    using create_season_id_range by (simp add: soroban_service_def)
qed

section \<open>Properties\<close>

text \<open>
  C12: submitting a transaction always terminates with an answer, and it reports success exactly
  when the server accepted the transaction and one of the first eleven status reads is SUCCESS,
  all reads before it being NOT_FOUND.
\<close>

theorem send_and_wait_success:
  "send_and_wait rpc = Inr hash \<longleftrightarrow>
    rpc_send rpc = Inr hash \<and>
    (\<exists>n. n \<le> 10 \<and> rpc_status rpc n = TxSuccess \<and> list_all (\<lambda>j. rpc_status rpc j = TxNotFound) [0..<n])"
proof -
  obtain st k where p: "poll_status (rpc_status rpc) 0 (rpc_status rpc 0) = (st, k)" by fastforce
  have "st = TxSuccess \<longleftrightarrow>
      (\<exists>n. n \<le> 10 \<and> rpc_status rpc n = TxSuccess \<and> (\<forall>j<n. rpc_status rpc j = TxNotFound))"
  proof
    assume "st = TxSuccess"
    with poll_status_spec [OF le0 p] show
      "\<exists>n. n \<le> 10 \<and> rpc_status rpc n = TxSuccess \<and> (\<forall>j<n. rpc_status rpc j = TxNotFound)"
      by (metis le0)
  next
    assume "\<exists>n. n \<le> 10 \<and> rpc_status rpc n = TxSuccess \<and> (\<forall>j<n. rpc_status rpc j = TxNotFound)"
    then show "st = TxSuccess"
      using poll_status_first [of _ "rpc_status rpc"] p by force
  qed
  with p show ?thesis
    by (auto simp: send_and_wait_def list_all_iff split: sum.splits)
qed

end
