(* ===== verification/Entities.thy ===== *)
theory Entities
  imports Webhooks Soroban
begin

text \<open>
  The rows of the prediction-market tables (the TypeORM entities under \<open>backend/src/*/entities\<close>)
  and the state the market-side services share.  A relation column holds the id of the row it
  refers to.  A \<open>bigint\<close> amount, which TypeORM reads as a decimal string, is the integer it denotes.
\<close>

section \<open>Rows\<close>

record user =
  u_id :: uuid
  stellar_address :: string
  username :: "string option"
  avatar_url :: "string option"
  total_predictions :: int
  correct_predictions :: int
  total_staked_stroops :: stroops
  total_winnings_stroops :: stroops
  reputation_score :: int
  season_points :: int
  role :: string
  email :: "string option"
  is_banned :: bool
  ban_reason :: "string option"
  banned_at :: "timestamp option"
  banned_by :: "uuid option"
  u_created_at :: timestamp
  deleted_at :: "timestamp option"

record market =
  m_id :: uuid
  on_chain_market_id :: string
  m_creator :: "uuid option"
  m_title :: string
  m_description :: string
  m_category :: string
  outcome_options :: "string list"
  m_end_time :: timestamp
  resolution_time :: timestamp
  is_resolved :: bool
  resolved_outcome :: "string option"
  m_resolved_at :: "timestamp option"
  is_public :: bool
  m_cancelled :: bool
  is_featured :: bool
  is_paused :: bool
  featured_at :: "timestamp option"
  total_pool_stroops :: stroops
  participant_count :: int
  m_created_at :: timestamp

record prediction =
  p_id :: uuid
  p_user :: uuid
  p_market :: uuid
  chosen_outcome :: string
  stake_amount_stroops :: stroops
  payout_claimed :: bool
  payout_amount_stroops :: stroops
  tx_hash :: "string option"
  p_note :: "string option"
  submitted_at :: timestamp

record comment =
  c_id :: uuid
  content :: string
  c_author :: uuid
  c_market :: uuid
  c_parent :: "uuid option"
  c_moderated :: bool
  c_moderation_reason :: "string option"
  c_created_at :: timestamp

record market_template =
  t_id :: uuid
  t_title :: string
  t_description :: string
  t_category :: string
  t_outcome_options :: "string list"
  suggested_duration_days :: int

record user_bookmark =
  b_id :: uuid
  b_user :: uuid
  b_market :: uuid
  b_created_at :: timestamp

datatype flag_status = FlagPending | FlagResolved | FlagDismissed

datatype flag_reason =
    InappropriateContent | Spam | Misinformation | Harassment
  | HateSpeech | Violence | Copyright | OtherReason

fun flag_reason_text :: "flag_reason \<Rightarrow> string" where
  "flag_reason_text InappropriateContent = ''inappropriate_content''"
| "flag_reason_text Spam = ''spam''"
| "flag_reason_text Misinformation = ''misinformation''"
| "flag_reason_text Harassment = ''harassment''"
| "flag_reason_text HateSpeech = ''hate_speech''"
| "flag_reason_text Violence = ''violence''"
| "flag_reason_text Copyright = ''copyright''"
| "flag_reason_text OtherReason = ''other''"

datatype flag_action = Dismiss | RemoveMarket | BanUser

record flag =
  f_id :: uuid
  f_market :: uuid
  f_user :: uuid
  f_reason :: flag_reason
  f_status :: flag_status
  f_description :: "string option"
  resolution_action :: "flag_action option"
  f_admin_notes :: "string option"
  f_resolved_by :: "uuid option"
  f_resolved_at :: "timestamp option"
  f_created_at :: timestamp

fun flag_action_text :: "flag_action \<Rightarrow> string" where
  "flag_action_text Dismiss = ''dismiss''"
| "flag_action_text RemoveMarket = ''remove_market''"
| "flag_action_text BanUser = ''ban_user''"

datatype dispute_status = DisputePending | DisputeResolved

datatype dispute_resolution = Upheld | Overturned

record dispute =
  d_id :: uuid
  d_market :: uuid
  disputant :: uuid
  d_reason :: string
  d_status :: dispute_status
  resolution :: "dispute_resolution option"
  d_admin_notes :: "string option"
  d_resolved_by :: "uuid option"
  d_resolved_at :: "timestamp option"
  on_chain_dispute_id :: "string option"
  on_chain_resolution_tx :: "string option"
  d_created_at :: timestamp

record season =
  s_id :: uuid
  season_number :: int
  s_name :: string
  starts_at :: timestamp
  ends_at :: timestamp
  reward_pool_stroops :: string
  is_active :: bool
  s_finalized :: bool
  top_winner :: "uuid option"
  on_chain_season_id :: "int option"
  soroban_tx_hash :: "string option"
  s_created_at :: timestamp

record notification =
  n_user_address :: string
  n_type :: string
  n_title :: string
  n_message :: string

record activity_log =
  al_user :: uuid
  al_action :: string
  al_details :: "(string \<times> string) list"

section \<open>Cached values of the markets service\<close>

record prediction_stats =
  st_outcome :: string
  st_count :: nat
  st_staked :: stroops

record trending_item =
  tr_id :: uuid
  tr_title :: string
  tr_description :: string
  tr_category :: string
  tr_outcome_options :: "string list"
  tr_end_time :: timestamp
  tr_is_resolved :: bool
  tr_participant_count :: int
  tr_total_pool :: stroops
  trending_score :: rat
  tr_created_at :: timestamp

section \<open>The state\<close>

text \<open>
  Besides the tables: the requests sent to the chain so far (\<open>calls\<close>), the webhook tables
  (\<open>hooks\<close>), the keys of the shared cache, and the two caches \<open>MarketsService\<close> keeps in memory.
\<close>

record db =
  users :: "user list"
  markets :: "market list"
  predictions :: "prediction list"
  comments :: "comment list"
  templates :: "market_template list"
  bookmarks :: "user_bookmark list"
  flags :: "flag list"
  disputes :: "dispute list"
  seasons :: "season list"
  notifications :: "notification list"
  activities :: "activity_log list"
  calls :: "chain_call list"
  hooks :: webhook_state
  cache_keys :: "string list"
  trending_cache :: "(trending_item list \<times> timestamp) option"
  stats_cache :: "(string \<times> prediction_stats list \<times> timestamp) list"

definition empty_db :: db where
  "empty_db = \<lparr>users = [], markets = [], predictions = [], comments = [], templates = [],
     bookmarks = [], flags = [], disputes = [], seasons = [], notifications = [], activities = [],
     calls = [], hooks = \<lparr>endpoints = [], delivery_logs = []\<rparr>, cache_keys = [],
     trending_cache = None, stats_cache = []\<rparr>"

text \<open>
  What a request handler gets from outside: the clock, the ids the database generates, and whether
  the database accepts the write whose failure the handler catches.
\<close>

record env =
  now :: timestamp
  fresh :: "nat \<Rightarrow> uuid"
  hook_id :: "uuid \<Rightarrow> uuid"
  save_ok :: bool

definition call_chain :: "chain_call \<Rightarrow> db \<Rightarrow> db" where
  "call_chain c s = s\<lparr>calls := calls s @ [c]\<rparr>"

definition cache_del :: "string \<Rightarrow> db \<Rightarrow> db" where
  "cache_del k s = s\<lparr>cache_keys := filter (\<lambda>x. x \<noteq> k) (cache_keys s)\<rparr>"

definition save_market :: "market \<Rightarrow> db \<Rightarrow> db" where
  "save_market m s = s\<lparr>markets := save_row m_id m (markets s)\<rparr>"

definition emit_hook :: "env \<Rightarrow> string \<Rightarrow> jsval \<Rightarrow> db \<Rightarrow> db" where
  "emit_hook e ev payload s = s\<lparr>hooks := emit (hook_id e) (now e) ev payload (hooks s)\<rparr>"

definition log_activity :: "uuid \<Rightarrow> string \<Rightarrow> (string \<times> string) list \<Rightarrow> db \<Rightarrow> db" where
  "log_activity user action details s =
     s\<lparr>activities := activities s @ [\<lparr>al_user = user, al_action = action, al_details = details\<rparr>]\<rparr>"

interpretation user_rows: repository u_id "by_id u_id" "save_row u_id"
    "\<lambda>k. delete_rows (\<lambda>r. u_id r = k)" "keyed u_id"
  by (rule rows_repository)

interpretation market_rows: repository m_id "by_id m_id" "save_row m_id"
    "\<lambda>k. delete_rows (\<lambda>r. m_id r = k)" "keyed m_id"
  by (rule rows_repository)

interpretation prediction_rows: repository p_id "by_id p_id" "save_row p_id"
    "\<lambda>k. delete_rows (\<lambda>r. p_id r = k)" "keyed p_id"
  by (rule rows_repository)

section \<open>Frame lemmas of the helpers\<close>

lemma call_chain_simps [simp]:
  "users (call_chain c s) = users s" "markets (call_chain c s) = markets s"
  "predictions (call_chain c s) = predictions s" "calls (call_chain c s) = calls s @ [c]"
  "disputes (call_chain c s) = disputes s" "flags (call_chain c s) = flags s"
  "seasons (call_chain c s) = seasons s" "hooks (call_chain c s) = hooks s"
  "notifications (call_chain c s) = notifications s"
  by (simp_all add: call_chain_def)

lemma cache_del_simps [simp]:
  "users (cache_del k s) = users s" "markets (cache_del k s) = markets s"
  "predictions (cache_del k s) = predictions s" "calls (cache_del k s) = calls s"
  "disputes (cache_del k s) = disputes s" "flags (cache_del k s) = flags s"
  "seasons (cache_del k s) = seasons s" "hooks (cache_del k s) = hooks s"
  "trending_cache (cache_del k s) = trending_cache s"
  by (simp_all add: cache_del_def)

lemma save_market_simps [simp]:
  "users (save_market m s) = users s" "markets (save_market m s) = save_row m_id m (markets s)"
  "predictions (save_market m s) = predictions s" "calls (save_market m s) = calls s"
  "disputes (save_market m s) = disputes s" "flags (save_market m s) = flags s"
  "seasons (save_market m s) = seasons s" "hooks (save_market m s) = hooks s"
  by (simp_all add: save_market_def)

lemma emit_hook_simps [simp]:
  "users (emit_hook e ev p s) = users s" "markets (emit_hook e ev p s) = markets s"
  "predictions (emit_hook e ev p s) = predictions s" "calls (emit_hook e ev p s) = calls s"
  "disputes (emit_hook e ev p s) = disputes s" "flags (emit_hook e ev p s) = flags s"
  "seasons (emit_hook e ev p s) = seasons s"
  "trending_cache (emit_hook e ev p s) = trending_cache s"
  by (simp_all add: emit_hook_def)

lemma log_activity_simps [simp]:
  "users (log_activity u a x s) = users s" "markets (log_activity u a x s) = markets s"
  "predictions (log_activity u a x s) = predictions s" "calls (log_activity u a x s) = calls s"
  "flags (log_activity u a x s) = flags s" "disputes (log_activity u a x s) = disputes s"
  by (simp_all add: log_activity_def)

end
