(* ===== verification/Samples.thy ===== *)
theory Samples
  imports Entities
begin

text \<open>
  Concrete rows, a request environment and a chain gateway, on which the examples of the following
  theories evaluate the operations.
\<close>

definition sample_env :: env where
  "sample_env = \<lparr>now = 1000, fresh = (\<lambda>n. ''id-'' @ show_nat n),
     hook_id = (\<lambda>ep. ''log-'' @ ep), save_ok = True\<rparr>"

definition sample_chain :: soroban where
  "sample_chain =
     \<lparr>sb_create_market = (\<lambda>title description category outcomes. Inr (''market_7'', ''hash'')),
      sb_resolve_market = (\<lambda>m outcome. Inr ()),
      sb_cancel_market = (\<lambda>m. Inr ''hash''),
      sb_pause_market = (\<lambda>m. Inr ''hash''),
      sb_resume_market = (\<lambda>m. Inr ''hash''),
      sb_submit_prediction = (\<lambda>u m outcome stake. Inr \<lparr>pr_tx_hash = ''hash'', pr_payout = None\<rparr>),
      sb_claim_payout = (\<lambda>u m. Inr \<lparr>pr_tx_hash = ''hash'', pr_payout = Some 15000000\<rparr>),
      sb_raise_dispute = (\<lambda>m reason. Inr (''dispute_1'', ''hash'')),
      sb_resolve_dispute = (\<lambda>m d r. Inr (d, ''hash'')),
      sb_create_season = (\<lambda>a b pool. Inr (5, ''hash'')),
      sb_finalize_event = (\<lambda>n. Inr ''hash''),
      sb_refund_participant = (\<lambda>a c n. Inr ''hash'')\<rparr>"

definition sample_user :: user where
  "sample_user =
     \<lparr>u_id = ''u1'', stellar_address = ''GALICE'', username = Some ''alice'', avatar_url = None, total_predictions = 0,
      correct_predictions = 0, total_staked_stroops = 0, total_winnings_stroops = 0,
      reputation_score = 0, season_points = 0, role = ''user'', email = None, is_banned = False,
      ban_reason = None, banned_at = None, banned_by = None, u_created_at = 0, deleted_at = None\<rparr>"

definition sample_admin :: user where
  "sample_admin = sample_user\<lparr>u_id := ''u9'', stellar_address := ''GADMIN'', role := ''admin''\<rparr>"

definition sample_market :: market where
  "sample_market =
     \<lparr>m_id = ''m1'', on_chain_market_id = ''market_1'', m_creator = Some ''u9'', m_title = ''Rain tomorrow?'',
      m_description = ''Will it rain tomorrow'', m_category = ''Tech'',
      outcome_options = [''Yes'', ''No''], m_end_time = 5000, resolution_time = 6000,
      is_resolved = False, resolved_outcome = None, m_resolved_at = None, is_public = True,
      m_cancelled = False, is_featured = False, is_paused = False, featured_at = None,
      total_pool_stroops = 0, participant_count = 0, m_created_at = 10\<rparr>"

definition sample_prediction :: prediction where
  "sample_prediction =
     \<lparr>p_id = ''p1'', p_user = ''u1'', p_market = ''m1'', chosen_outcome = ''Yes'',
      stake_amount_stroops = 20000000, payout_claimed = False, payout_amount_stroops = 0,
      tx_hash = Some ''hash'', p_note = None, submitted_at = 500\<rparr>"

definition sample_db :: db where
  "sample_db = empty_db\<lparr>users := [sample_user, sample_admin], markets := [sample_market]\<rparr>"

lemmas sample_defs = sample_env_def sample_chain_def sample_user_def sample_admin_def
  sample_market_def sample_prediction_def sample_db_def empty_db_def

lemma fresh_sample_env [simp]:
  "now sample_env = 1000" "fresh sample_env n = ''id-'' @ show_nat n" "save_ok sample_env"
  by (simp_all add: sample_env_def)

lemma inj_fresh_sample: "inj (fresh sample_env)"
  by (simp add: inj_def show_nat_inj)

end
