(* ===== verification/Markets.thy ===== *)
theory Markets
  imports Samples
begin

text \<open>
  \<open>MarketsService\<close> (\<open>backend/src/markets/markets.service.ts\<close>): creation (single and bulk), update,
  resolution, cancellation, pausing, listing, trending, statistics, reports, comments and
  bookmarks.  An operation takes the request's environment, the chain gateway where it uses it,
  its arguments and the state, and returns its result (the exception, or the value) with the new
  state.  A \<open>Date\<close> is its milliseconds.
\<close>

section \<open>Requests\<close>

record create_market_dto =
  cd_title :: string
  cd_description :: string
  cd_category :: string
  cd_outcome_options :: "string list"
  cd_end_time :: timestamp
  cd_resolution_time :: timestamp
  cd_creator_fee_bps :: rat
  cd_is_public :: bool

definition market_categories :: "string list" where
  "market_categories = [''Crypto'', ''Sports'', ''Finance'', ''Politics'', ''Tech'']"

definition is_future_date :: "timestamp \<Rightarrow> timestamp \<Rightarrow> bool" where
  "is_future_date t0 t \<longleftrightarrow> t > t0"

definition is_after_end_time :: "create_market_dto \<Rightarrow> bool" where
  "is_after_end_time dto \<longleftrightarrow> cd_resolution_time dto \<ge> cd_end_time dto"

definition valid_create_market_dto :: "timestamp \<Rightarrow> create_market_dto \<Rightarrow> bool" where
  "valid_create_market_dto t0 dto \<longleftrightarrow>
     5 \<le> length (cd_title dto) \<and> length (cd_title dto) \<le> 200 \<and>
     10 \<le> length (cd_description dto) \<and> length (cd_description dto) \<le> 2000 \<and>
     cd_category dto \<in> set market_categories \<and>
     2 \<le> length (cd_outcome_options dto) \<and> length (cd_outcome_options dto) \<le> 10 \<and>
     is_future_date t0 (cd_end_time dto) \<and> is_after_end_time dto \<and>
     0 \<le> cd_creator_fee_bps dto \<and> cd_creator_fee_bps dto \<le> 500"

record update_market_dto =
  ud_title :: "string option"
  ud_description :: "string option"
  ud_category :: "string option"

datatype market_status = MsOpen | MsResolved | MsCancelled

record list_markets_dto =
  lm_page :: "nat option"
  lm_limit :: "nat option"
  lm_category :: "string option"
  lm_status :: "market_status option"
  lm_is_public :: "bool option"
  lm_search :: "string option"

record 'a page_result =
  data :: "'a list"
  total :: nat
  pg_page :: nat
  pg_limit :: nat

section \<open>Lookup and creation\<close>

definition find_market :: "string \<Rightarrow> market list \<Rightarrow> market option" where
  "find_market ref ms = find_one (\<lambda>m. m_id m = ref \<or> on_chain_market_id m = ref) ms"

definition market_not_found :: "string \<Rightarrow> http_error" where
  "market_not_found ref = NotFound (''Market with ID '' @ quoted ref @ '' not found'')"

definition find_by_id_or_on_chain_id :: "string \<Rightarrow> db \<Rightarrow> market result" where
  "find_by_id_or_on_chain_id ref s =
     (case find_market ref (markets s) of None \<Rightarrow> Inl (market_not_found ref) | Some m \<Rightarrow> Inr m)"

text \<open>
  A \<open>simple-array\<close> column stores the elements joined by commas and reads them back by splitting.
\<close>

definition simple_array :: "string list \<Rightarrow> string list" where
  "simple_array xs =
     (let text = join_with '','' xs in if text = [] then [] else split_on CHR '','' text)"

definition stored_market :: "market \<Rightarrow> market" where
  "stored_market m = m\<lparr>outcome_options := simple_array (outcome_options m)\<rparr>"

definition new_market :: "timestamp \<Rightarrow> uuid \<Rightarrow> string \<Rightarrow> create_market_dto \<Rightarrow> uuid \<Rightarrow> market" where
  "new_market t0 mid on_chain dto creator =
     \<lparr>m_id = mid, on_chain_market_id = on_chain, m_creator = Some creator, m_title = cd_title dto,
      m_description = cd_description dto, m_category = cd_category dto,
      outcome_options = cd_outcome_options dto, m_end_time = cd_end_time dto,
      resolution_time = cd_resolution_time dto, is_resolved = False, resolved_outcome = None,
      m_resolved_at = None, is_public = cd_is_public dto, m_cancelled = False,
      is_featured = False, is_paused = False, featured_at = None, total_pool_stroops = 0,
      participant_count = 0, m_created_at = t0\<rparr>"

text \<open>The insert fails when the database does, or when the on-chain id is already taken.\<close>

definition insert_market :: "env \<Rightarrow> market \<Rightarrow> db \<Rightarrow> db option" where
  "insert_market e m s =
     (if save_ok e \<and> on_chain_market_id m \<notin> on_chain_market_id ` set (markets s)
      then Some (save_market (stored_market m) s) else None)"

text \<open>An optional property \<open>x?.id\<close>.\<close>

definition opt_str :: "string option \<Rightarrow> jsval" where
  "opt_str x = (case x of None \<Rightarrow> JUndefined | Some t \<Rightarrow> JStr t)"

definition market_created_payload :: "market \<Rightarrow> jsval" where
  "market_created_payload m = JObj
     [(''id'', JStr (m_id m)), (''on_chain_market_id'', JStr (on_chain_market_id m)),
      (''title'', JStr (m_title m)), (''description'', JStr (m_description m)),
      (''category'', JStr (m_category m)),
      (''outcome_options'', JArr (map JStr (outcome_options m))),
      (''end_time'', j_int (m_end_time m)), (''resolution_time'', j_int (resolution_time m)),
      (''is_public'', JBool (is_public m)), (''creator_id'', opt_str (m_creator m)),
      (''created_at'', j_int (m_created_at m))]"

definition create_market ::
  "soroban \<Rightarrow> env \<Rightarrow> create_market_dto \<Rightarrow> user \<Rightarrow> db \<Rightarrow> market result \<times> db" where
  "create_market sor e dto user s =
     (if cd_end_time dto \<le> now e then (Inl (BadRequest ''end_time must be in the future''), s)
      else
        (let s1 = call_chain (CreateMarket (cd_title dto)) s in
         case sb_create_market sor (cd_title dto) (cd_description dto) (cd_category dto)
                (cd_outcome_options dto) of
           Inl _ \<Rightarrow> (Inl (BadGateway ''Failed to create market on Soroban''), s1)
         | Inr (on_chain, hash) \<Rightarrow>
             (let m = new_market (now e) (fresh e 0) on_chain dto (u_id user) in
              case insert_market e m s1 of
                None \<Rightarrow>
                  (Inl (BadGateway ''Market created on-chain but failed to save to database''), s1)
              | Some s2 \<Rightarrow>
                  (Inr m, emit_hook e ''market.created'' (market_created_payload m) s2))))"

text \<open>
  The bulk creation: one transaction over the rows, one chain request per market.  \<open>sors n\<close> is the
  gateway as it answers the \<open>n\<close>-th request.  The result is the exception with the requests already
  sent, or the markets with the state.
\<close>

fun bulk_loop ::
  "(nat \<Rightarrow> soroban) \<Rightarrow> env \<Rightarrow> user \<Rightarrow> nat \<Rightarrow> create_market_dto list \<Rightarrow> market list \<Rightarrow> db
    \<Rightarrow> market list result \<times> db" where
  "bulk_loop sors e user n [] done s = (Inr done, s)"
| "bulk_loop sors e user n (dto # dtos) done s =
     (let s1 = call_chain (CreateMarket (cd_title dto)) s in
      case sb_create_market (sors n) (cd_title dto) (cd_description dto) (cd_category dto)
             (cd_outcome_options dto) of
        Inl _ \<Rightarrow> (Inl (BadGateway ''Failed to create market on Soroban''), s1)
      | Inr (on_chain, hash) \<Rightarrow>
          (let m = new_market (now e) (fresh e n) on_chain dto (u_id user) in
           case insert_market e m s1 of
             None \<Rightarrow> (Inl (InternalError ''QueryFailedError''), s1)
           | Some s2 \<Rightarrow> bulk_loop sors e user (Suc n) dtos (done @ [m]) s2))"

definition create_bulk ::
  "(nat \<Rightarrow> soroban) \<Rightarrow> env \<Rightarrow> create_market_dto list \<Rightarrow> user \<Rightarrow> db \<Rightarrow> market list result \<times> db" where
  "create_bulk sors e dtos user s =
     (if list_ex (\<lambda>dto. cd_end_time dto \<le> now e) dtos
      then (Inl (BadRequest ''end_time must be in the future''), s)
      else
        (case bulk_loop sors e user 0 dtos [] s of
           (Inr ms, s') \<Rightarrow> (Inr ms, s')
         | (Inl err, s') \<Rightarrow> (Inl err, s\<lparr>calls := calls s'\<rparr>)))"

section \<open>Update and resolution\<close>

text \<open>
  A market the chain listener inserted may have no creator; reading \<open>market.creator.id\<close> then throws.
\<close>

definition creator_type_error :: http_error where
  "creator_type_error = InternalError ''TypeError: Cannot read properties of null''"

definition update_market ::
  "env \<Rightarrow> string \<Rightarrow> uuid \<Rightarrow> update_market_dto \<Rightarrow> db \<Rightarrow> market result \<times> db" where
  "update_market e ref user_id dto s =
     (case find_by_id_or_on_chain_id ref s of
        Inl err \<Rightarrow> (Inl err, s)
      | Inr m \<Rightarrow>
          if m_creator m = None then (Inl creator_type_error, s)
          else if m_creator m \<noteq> Some user_id then
            (Inl (Forbidden ''Only the market creator can update this market''), s)
          else if now e > m_end_time m then
            (Inl (BadRequest ''Cannot update market after end_time has passed''), s)
          else
            (let m1 = (case ud_title dto of None \<Rightarrow> m | Some t \<Rightarrow> m\<lparr>m_title := t\<rparr>);
                 m2 = (case ud_description dto of None \<Rightarrow> m1 | Some d \<Rightarrow> m1\<lparr>m_description := d\<rparr>);
                 m3 = (case ud_category dto of None \<Rightarrow> m2 | Some c \<Rightarrow> m2\<lparr>m_category := c\<rparr>)
             in (Inr m3, save_market m3 s)))"

definition trending_events_key :: string where
  "trending_events_key = ''cache-warming:trending-events''"

definition popular_event_key :: "string \<Rightarrow> string" where
  "popular_event_key ref = ''cache-warming:popular-event:'' @ ref"

text \<open>The invalidation after a change of a market's state.\<close>

definition invalidate_market_caches :: "market \<Rightarrow> db \<Rightarrow> db" where
  "invalidate_market_caches m s =
     cache_del (popular_event_key (m_id m))
       (cache_del trending_events_key (s\<lparr>trending_cache := None\<rparr>))"

definition market_resolved_payload :: "timestamp \<Rightarrow> market \<Rightarrow> jsval" where
  "market_resolved_payload t0 m = JObj
     [(''id'', JStr (m_id m)), (''on_chain_market_id'', JStr (on_chain_market_id m)),
      (''title'', JStr (m_title m)), (''description'', JStr (m_description m)),
      (''category'', JStr (m_category m)),
      (''outcome_options'', JArr (map JStr (outcome_options m))),
      (''resolved_outcome'', (case resolved_outcome m of None \<Rightarrow> JNull | Some x \<Rightarrow> JStr x)),
      (''creator_id'', opt_str (m_creator m)), (''resolved_at'', j_int t0)]"

definition resolve_market ::
  "soroban \<Rightarrow> env \<Rightarrow> string \<Rightarrow> string \<Rightarrow> db \<Rightarrow> market result \<times> db" where
  "resolve_market sor e ref outcome s =
     (case find_by_id_or_on_chain_id ref s of
        Inl err \<Rightarrow> (Inl err, s)
      | Inr m \<Rightarrow>
          if is_resolved m then (Inl (Conflict ''Market is already resolved''), s)
          else if outcome \<notin> set (outcome_options m) then
            (Inl (BadRequest (''Invalid outcome '' @ quoted outcome @ ''. Valid options: '' @
               join_with '', '' (outcome_options m))), s)
          else
            (let s1 = call_chain (ResolveMarket (on_chain_market_id m) outcome) s in
             case sb_resolve_market sor (on_chain_market_id m) outcome of
               Inl _ \<Rightarrow> (Inl (BadGateway ''Failed to resolve market on Soroban''), s1)
             | Inr _ \<Rightarrow>
                 (let m' = m\<lparr>is_resolved := True, resolved_outcome := Some outcome,
                             m_resolved_at := Some (now e)\<rparr>
                  in (Inr m',
                      emit_hook e ''market.resolved'' (market_resolved_payload (now e) m')
                        (invalidate_market_caches m' (save_market m' s1))))))"

definition cancel_market ::
  "soroban \<Rightarrow> env \<Rightarrow> string \<Rightarrow> user \<Rightarrow> db \<Rightarrow> market result \<times> db" where
  "cancel_market sor e ref user s =
     (case find_by_id_or_on_chain_id ref s of
        Inl err \<Rightarrow> (Inl err, s)
      | Inr m \<Rightarrow>
          if m_creator m = None then (Inl creator_type_error, s)
          else if role user \<noteq> ''admin'' \<and> m_creator m \<noteq> Some (u_id user) then
            (Inl (Forbidden ''Only the market creator or an admin can cancel this market''), s)
          else if is_resolved m then
            (Inl (BadRequest ''Resolved markets cannot be cancelled''), s)
          else if m_cancelled m then
            (Inl (BadRequest ''Market is already cancelled''), s)
          else if now e > m_end_time m then
            (Inl (BadRequest ''Cannot cancel market after end_time has passed''), s)
          else
            (let s1 = call_chain (CancelMarket (on_chain_market_id m)) s in
             case sb_cancel_market sor (on_chain_market_id m) of
               Inl _ \<Rightarrow> (Inl (BadGateway ''Failed to cancel market on Soroban''), s1)
             | Inr _ \<Rightarrow>
                 if save_ok e then
                   (let m' = m\<lparr>m_cancelled := True\<rparr>
                    in (Inr m', invalidate_market_caches m' (save_market m' s1)))
                 else
                   (Inl (BadGateway ''Market cancelled on-chain but failed to update database''),
                    s1)))"

definition pause_market ::
  "soroban \<Rightarrow> string \<Rightarrow> user \<Rightarrow> db \<Rightarrow> market result \<times> db" where
  "pause_market sor ref user s =
     (case find_by_id_or_on_chain_id ref s of
        Inl err \<Rightarrow> (Inl err, s)
      | Inr m \<Rightarrow>
          if role user \<noteq> ''admin'' then (Inl (Forbidden ''Only admin can pause markets''), s)
          else if is_resolved m then
            (Inl (BadRequest ''Resolved markets cannot be paused''), s)
          else if m_cancelled m then
            (Inl (BadRequest ''Cancelled markets cannot be paused''), s)
          else if is_paused m then (Inl (Conflict ''Market is already paused''), s)
          else
            (let s1 = call_chain (PauseMarket (on_chain_market_id m)) s in
             case sb_pause_market sor (on_chain_market_id m) of
               Inl _ \<Rightarrow> (Inl (BadGateway ''Failed to pause market on Soroban''), s1)
             | Inr _ \<Rightarrow> (let m' = m\<lparr>is_paused := True\<rparr> in (Inr m', save_market m' s1))))"

definition resume_market ::
  "soroban \<Rightarrow> env \<Rightarrow> string \<Rightarrow> user \<Rightarrow> db \<Rightarrow> market result \<times> db" where
  "resume_market sor e ref user s =
     (case find_by_id_or_on_chain_id ref s of
        Inl err \<Rightarrow> (Inl err, s)
      | Inr m \<Rightarrow>
          if role user \<noteq> ''admin'' then (Inl (Forbidden ''Only admin can resume markets''), s)
          else if is_resolved m then
            (Inl (BadRequest ''Resolved markets cannot be resumed''), s)
          else if m_cancelled m then
            (Inl (BadRequest ''Cancelled markets cannot be resumed''), s)
          else if \<not> is_paused m then (Inl (Conflict ''Market is not paused''), s)
          else if now e > m_end_time m then
            (Inl (BadRequest ''Cannot resume market after end_time has passed''), s)
          else
            (let s1 = call_chain (ResumeMarket (on_chain_market_id m)) s in
             case sb_resume_market sor (on_chain_market_id m) of
               Inl _ \<Rightarrow> (Inl (BadGateway ''Failed to resume market on Soroban''), s1)
             | Inr _ \<Rightarrow> (let m' = m\<lparr>is_paused := False\<rparr> in (Inr m', save_market m' s1))))"

section \<open>Prediction statistics\<close>

text \<open>The map from outcomes to counters, in insertion order.\<close>

definition zero_stat :: "string \<Rightarrow> prediction_stats" where
  "zero_stat outcome = \<lparr>st_outcome = outcome, st_count = 0, st_staked = 0\<rparr>"

definition init_stats :: "string list \<Rightarrow> prediction_stats list" where
  "init_stats outcomes = fold (\<lambda>o'. save_row st_outcome (zero_stat o')) outcomes []"

definition count_prediction :: "prediction \<Rightarrow> prediction_stats list \<Rightarrow> prediction_stats list" where
  "count_prediction p = update_rows (\<lambda>st. st_outcome st = chosen_outcome p)
     (\<lambda>st. st\<lparr>st_count := st_count st + 1, st_staked := st_staked st + stake_amount_stroops p\<rparr>)"

definition stats_of :: "string list \<Rightarrow> prediction list \<Rightarrow> prediction_stats list" where
  "stats_of outcomes ps = fold count_prediction ps (init_stats outcomes)"

definition stats_cache_ttl_ms :: int where
  "stats_cache_ttl_ms = 5 * 60 * 1000"

definition get_prediction_stats ::
  "timestamp \<Rightarrow> string \<Rightarrow> db \<Rightarrow> prediction_stats list result \<times> db" where
  "get_prediction_stats t0 market_ref s =
     (case find_by_id_or_on_chain_id market_ref s of
        Inl err \<Rightarrow> (Inl err, s)
      | Inr m \<Rightarrow>
          (let compute =
             (let st = stats_of (outcome_options m)
                         (filter (\<lambda>p. p_market p = market_ref) (predictions s))
              in (Inr st, s\<lparr>stats_cache := save_row fst (market_ref, st, t0) (stats_cache s)\<rparr>)) in
           case by_id fst market_ref (stats_cache s) of
             Some (_, cached, cached_at) \<Rightarrow>
               if t0 - cached_at < stats_cache_ttl_ms then (Inr cached, s) else compute
           | None \<Rightarrow> compute))"

section \<open>Trending markets\<close>

definition calculate_trending_score :: "timestamp \<Rightarrow> market \<Rightarrow> rat" where
  "calculate_trending_score t0 m =
     (let participant_score = min (of_int (participant_count m) / 100) 1 * 50;
          pool_score = min (of_int (total_pool_stroops m) / 100000000) 1 * 30;
          hours_until_end = max (of_int (m_end_time m - t0) / (1000 * 60 * 60)) 0;
          time_score = (if hours_until_end \<le> 168 then (168 - hours_until_end) / 168 * 20 else 0)
      in round2 (participant_score + pool_score + time_score))"

definition to_trending_item :: "timestamp \<Rightarrow> market \<Rightarrow> trending_item" where
  "to_trending_item t0 m =
     \<lparr>tr_id = m_id m, tr_title = m_title m, tr_description = m_description m,
      tr_category = m_category m, tr_outcome_options = outcome_options m,
      tr_end_time = m_end_time m, tr_is_resolved = is_resolved m,
      tr_participant_count = participant_count m, tr_total_pool = total_pool_stroops m,
      trending_score = calculate_trending_score t0 m, tr_created_at = m_created_at m\<rparr>"

definition trending_cache_ttl_ms :: int where
  "trending_cache_ttl_ms = 15 * 60 * 1000"

definition compute_trending_markets :: "timestamp \<Rightarrow> db \<Rightarrow> trending_item list \<times> db" where
  "compute_trending_markets t0 s =
     (let compute =
        (let ms = take 200 (sort_desc m_created_at
                    (filter (\<lambda>m. \<not> is_resolved m \<and> \<not> m_cancelled m) (markets s)));
             scored = sort_desc trending_score (map (to_trending_item t0) ms)
         in (scored, s\<lparr>trending_cache := Some (scored, t0)\<rparr>)) in
      case trending_cache s of
        Some (cached, cached_at) \<Rightarrow>
          if t0 - cached_at < trending_cache_ttl_ms then (cached, s) else compute
      | None \<Rightarrow> compute)"

definition get_trending_markets ::
  "timestamp \<Rightarrow> nat option \<Rightarrow> nat option \<Rightarrow> db \<Rightarrow> trending_item page_result \<times> db" where
  "get_trending_markets t0 page limit s =
     (let pg = (case page of None \<Rightarrow> 1 | Some n \<Rightarrow> n);
          lim = min (case limit of None \<Rightarrow> 20 | Some n \<Rightarrow> n) 50;
          (all, s') = compute_trending_markets t0 s
      in (\<lparr>data = page_of pg lim all, total = length all, pg_page = pg, pg_limit = lim\<rparr>, s'))"

section \<open>Listings\<close>

text \<open>
  SQL \<open>ILIKE\<close>: \<open>%\<close> matches any text, \<open>_\<close> one character, a backslash quotes the next character,
  case is ignored.
\<close>

function like_match :: "string \<Rightarrow> string \<Rightarrow> bool" where
  "like_match [] s = (s = [])"
| "like_match (c # p) s =
     (if c = CHR ''%'' then
        like_match p s \<or> (case s of [] \<Rightarrow> False | _ # s' \<Rightarrow> like_match (c # p) s')
      else if c = CHR 0x5C then
        (case p of
           [] \<Rightarrow> False
         | d # p' \<Rightarrow> (case s of [] \<Rightarrow> False | x # s' \<Rightarrow> d = x \<and> like_match p' s'))
      else (case s of [] \<Rightarrow> False | x # s' \<Rightarrow> (c = CHR ''_'' \<or> c = x) \<and> like_match p s'))"
  by pat_completeness auto
termination
  by (relation "measure (\<lambda>(p, s). length p + length s)") auto

declare like_match.simps(2) [simp del]

definition ilike :: "string \<Rightarrow> string \<Rightarrow> bool" where
  "ilike pattern s = like_match (to_lower pattern) (to_lower s)"

definition search_pattern :: "string \<Rightarrow> string" where
  "search_pattern search = ''%'' @ search @ ''%''"

fun has_status :: "market_status \<Rightarrow> market \<Rightarrow> bool" where
  "has_status MsOpen m = (\<not> is_resolved m \<and> \<not> m_cancelled m)"
| "has_status MsResolved m = is_resolved m"
| "has_status MsCancelled m = m_cancelled m"

definition market_filter :: "list_markets_dto \<Rightarrow> market \<Rightarrow> bool" where
  "market_filter dto m \<longleftrightarrow>
     (case lm_category dto of None \<Rightarrow> True | Some c \<Rightarrow> c = [] \<or> m_category m = c) \<and>
     (case lm_status dto of None \<Rightarrow> True | Some st \<Rightarrow> has_status st m) \<and>
     (case lm_is_public dto of None \<Rightarrow> True | Some b \<Rightarrow> is_public m = b) \<and>
     (case lm_search dto of None \<Rightarrow> True | Some t \<Rightarrow> t = [] \<or> ilike (search_pattern t) (m_title m))"

text \<open>
  \<open>ORDER BY is_featured DESC, featured_at DESC, created_at DESC\<close>; a descending order puts nulls
  first, which is the rank 1 below.
\<close>

definition nulls_first :: "int option \<Rightarrow> int \<times> int" where
  "nulls_first x = (case x of None \<Rightarrow> (1, 0) | Some t \<Rightarrow> (0, t))"

definition order_featured_at :: "market list \<Rightarrow> market list" where
  "order_featured_at ms =
     sort_desc (\<lambda>m. fst (nulls_first (featured_at m)))
       (sort_desc (\<lambda>m. snd (nulls_first (featured_at m))) ms)"

definition order_markets :: "market list \<Rightarrow> market list" where
  "order_markets ms =
     sort_desc (\<lambda>m. of_bool (is_featured m) :: nat)
       (order_featured_at (sort_desc m_created_at ms))"

definition find_all_filtered :: "list_markets_dto \<Rightarrow> db \<Rightarrow> market page_result" where
  "find_all_filtered dto s =
     (let pg = (case lm_page dto of None \<Rightarrow> 1 | Some n \<Rightarrow> n);
          lim = min (case lm_limit dto of None \<Rightarrow> 20 | Some n \<Rightarrow> n) 50;
          rows = filter (market_filter dto) (markets s)
      in \<lparr>data = page_of pg lim (order_markets rows), total = length rows,
          pg_page = pg, pg_limit = lim\<rparr>)"

definition find_all_markets :: "db \<Rightarrow> market list" where
  "find_all_markets s = markets s"

definition find_featured_markets :: "nat \<Rightarrow> nat \<Rightarrow> db \<Rightarrow> market page_result" where
  "find_featured_markets page limit s =
     (let rows = filter (\<lambda>m. is_featured m \<and> is_public m \<and> \<not> m_cancelled m) (markets s)
      in \<lparr>data = page_of page limit (order_featured_at rows), total = length rows,
          pg_page = page, pg_limit = limit\<rparr>)"

text \<open>The templates, ordered by the database's collation \<open>coll\<close> of the two columns.\<close>

definition get_templates :: "(string \<Rightarrow> nat) \<Rightarrow> db \<Rightarrow> market_template list" where
  "get_templates coll s =
     sort_key (\<lambda>t. coll (t_category t)) (sort_key (\<lambda>t. coll (t_title t)) (templates s))"

section \<open>Comments and bookmarks\<close>

definition create_comment ::
  "env \<Rightarrow> string \<Rightarrow> string \<Rightarrow> string option \<Rightarrow> user \<Rightarrow> db \<Rightarrow> comment result \<times> db" where
  "create_comment e market_ref text parent_id user s =
     (case find_by_id_or_on_chain_id market_ref s of
        Inl err \<Rightarrow> (Inl err, s)
      | Inr m \<Rightarrow>
          (let save = (\<lambda>parent.
             let c = \<lparr>c_id = fresh e 0, content = text, c_author = u_id user, c_market = m_id m,
                      c_parent = parent, c_moderated = False, c_moderation_reason = None,
                      c_created_at = now e\<rparr>
             in (Inr c, s\<lparr>comments := save_row c_id c (comments s)\<rparr>)) in
           case parent_id of
             None \<Rightarrow> save None
           | Some pid \<Rightarrow>
               if pid = [] then save None
               else
                 (case by_id c_id pid (comments s) of
                    None \<Rightarrow>
                      (Inl (NotFound (''Parent comment with ID '' @ quoted pid @ '' not found'')), s)
                  | Some c \<Rightarrow> save (Some (c_id c)))))"

definition get_comments ::
  "string \<Rightarrow> nat \<Rightarrow> nat \<Rightarrow> db \<Rightarrow> comment page_result result" where
  "get_comments market_ref page limit s =
     (case find_by_id_or_on_chain_id market_ref s of
        Inl err \<Rightarrow> Inl err
      | Inr m \<Rightarrow>
          (let lim = min limit 50;
               rows = filter (\<lambda>c. c_market c = m_id m) (comments s)
           in Inr \<lparr>data = page_of page lim (sort_key c_created_at rows), total = length rows,
                   pg_page = page, pg_limit = lim\<rparr>))"

definition add_bookmark :: "env \<Rightarrow> string \<Rightarrow> user \<Rightarrow> db \<Rightarrow> user_bookmark result \<times> db" where
  "add_bookmark e market_ref user s =
     (case find_by_id_or_on_chain_id market_ref s of
        Inl err \<Rightarrow> (Inl err, s)
      | Inr m \<Rightarrow>
          (case find_one (\<lambda>b. b_user b = u_id user \<and> b_market b = m_id m) (bookmarks s) of
             Some b \<Rightarrow> (Inr b, s)
           | None \<Rightarrow>
               (let b = \<lparr>b_id = fresh e 0, b_user = u_id user, b_market = m_id m,
                         b_created_at = now e\<rparr>
                in (Inr b, s\<lparr>bookmarks := save_row b_id b (bookmarks s)\<rparr>))))"

definition remove_bookmark :: "string \<Rightarrow> user \<Rightarrow> db \<Rightarrow> unit result \<times> db" where
  "remove_bookmark market_ref user s =
     (case find_by_id_or_on_chain_id market_ref s of
        Inl err \<Rightarrow> (Inl err, s)
      | Inr m \<Rightarrow>
          (Inr (), s\<lparr>bookmarks := delete_rows (\<lambda>b. b_user b = u_id user \<and> b_market b = m_id m)
             (bookmarks s)\<rparr>))"

section \<open>Report\<close>

record outcome_share =
  os_outcome :: string
  os_count :: nat
  os_percentage :: string
  os_staked :: stroops

record timeline_event =
  te_timestamp :: timestamp
  te_type :: string
  te_description :: string

record market_report =
  rp_market :: market
  rp_resolved_outcome :: "string option"
  rp_distribution :: "outcome_share list"
  rp_timeline :: "timeline_event list"
  rp_generated_at :: timestamp

definition to_outcome_share :: "market \<Rightarrow> prediction_stats \<Rightarrow> outcome_share" where
  "to_outcome_share m st =
     \<lparr>os_outcome = st_outcome st, os_count = st_count st,
      os_percentage =
        (if participant_count m > 0
         then to_fixed 2 (of_nat (st_count st) / of_int (participant_count m) * 100)
         else ''0.00''),
      os_staked = st_staked st\<rparr>"

definition report_timeline :: "timestamp \<Rightarrow> market \<Rightarrow> timeline_event list" where
  "report_timeline t0 m =
     sort_key te_timestamp
       ([\<lparr>te_timestamp = m_created_at m, te_type = ''market_created'',
          te_description = ''Market '' @ quoted (m_title m) @ '' was created''\<rparr>,
         \<lparr>te_timestamp = m_end_time m, te_type = ''market_ended'',
          te_description = ''Market ended - no more predictions accepted''\<rparr>] @
        (if is_resolved m then
           [\<lparr>te_timestamp = t0, te_type = ''market_resolved'',
             te_description = ''Market resolved with outcome: '' @
               (case resolved_outcome m of None \<Rightarrow> ''null'' | Some x \<Rightarrow> x)\<rparr>]
         else []))"

definition generate_market_report :: "timestamp \<Rightarrow> string \<Rightarrow> db \<Rightarrow> market_report result \<times> db" where
  "generate_market_report t0 market_ref s =
     (case find_by_id_or_on_chain_id market_ref s of
        Inl err \<Rightarrow> (Inl err, s)
      | Inr m \<Rightarrow>
          (case get_prediction_stats t0 market_ref s of
             (Inl err, s') \<Rightarrow> (Inl err, s')
           | (Inr st, s') \<Rightarrow>
               (Inr \<lparr>rp_market = m,
                     rp_resolved_outcome =
                       (if resolved_outcome m = Some [] then None else resolved_outcome m),
                     rp_distribution = map (to_outcome_share m) st,
                     rp_timeline = report_timeline t0 m, rp_generated_at = t0\<rparr>, s')))"

section \<open>Lookup lemmas\<close>

lemma find_market_Some:
  "find_market ref ms = Some m \<Longrightarrow> m \<in> set ms \<and> (m_id m = ref \<or> on_chain_market_id m = ref)"
  unfolding find_market_def by (drule find_one_Some) simp

lemma found_market:
  "find_by_id_or_on_chain_id ref s = Inr m \<Longrightarrow> m \<in> set (markets s)"
  by (auto simp: find_by_id_or_on_chain_id_def split: option.splits dest: find_market_Some)

lemma found_market_iff:
  "find_by_id_or_on_chain_id ref s = Inr m \<longleftrightarrow> find_market ref (markets s) = Some m"
  by (auto simp: find_by_id_or_on_chain_id_def split: option.splits)

lemma missing_market_iff:
  "find_by_id_or_on_chain_id ref s = Inl err \<longleftrightarrow>
    find_market ref (markets s) = None \<and> err = market_not_found ref"
  by (auto simp: find_by_id_or_on_chain_id_def split: option.splits)

text \<open>The id of an appended row that no earlier row answers to finds that row.\<close>

lemma find_market_append:
  "(\<And>x. x \<in> set ms \<Longrightarrow> m_id x \<noteq> m_id m \<and> on_chain_market_id x \<noteq> m_id m) \<Longrightarrow>
    find_market (m_id m) (ms @ [m]) = Some m"
  by (auto simp: find_market_def find_one_append find_one_None split: option.splits
      dest!: find_one_Some)

section \<open>Simple arrays\<close>

lemma split_on_no_sep: "w \<in> set (split_on sep s) \<Longrightarrow> sep \<notin> set w"
proof (induction s arbitrary: w)
  case (Cons c s)
  then show ?case
    by (cases "split_on sep s") (fastforce split: if_splits)+
qed simp

lemma split_on_append_sep:
  "sep \<notin> set w \<Longrightarrow> split_on sep (w @ sep # s) = w # split_on sep s"
  by (induction w) auto

lemma split_on_word: "sep \<notin> set w \<Longrightarrow> split_on sep w = [w]"
  by (induction w) auto

lemma split_join:
  "xs \<noteq> [] \<Longrightarrow> (\<And>x. x \<in> set xs \<Longrightarrow> sep \<notin> set x) \<Longrightarrow> split_on sep (join_with [sep] xs) = xs"
  by (induction "[sep]" xs rule: join_with.induct) (auto simp: split_on_word split_on_append_sep)

lemma simple_array_no_comma: "x \<in> set (simple_array xs) \<Longrightarrow> CHR '','' \<notin> set x"
  by (auto simp: simple_array_def Let_def split: if_splits dest: split_on_no_sep)

lemma simple_array_id:
  assumes "\<And>x. x \<in> set xs \<Longrightarrow> x \<noteq> [] \<and> CHR '','' \<notin> set x"
  shows "simple_array xs = xs"
proof (cases xs)
  case (Cons y ys)
  with assms have "join_with '','' xs \<noteq> []" by (cases ys) auto
  moreover have "split_on CHR '','' (join_with '','' xs) = xs"
    using assms Cons by (intro split_join) auto
  ultimately show ?thesis by (simp add: simple_array_def Let_def)
qed (simp add: simple_array_def)

section \<open>Edits of one market\<close>

text \<open>
  What holds of every stored market: a resolved one records an outcome it offers and the instant,
  an unresolved one records no outcome.
\<close>

definition market_ok :: "market \<Rightarrow> bool" where
  "market_ok m \<longleftrightarrow>
     (if is_resolved m then
        m_resolved_at m \<noteq> None \<and>
        (case resolved_outcome m of None \<Rightarrow> False | Some x \<Rightarrow> x \<in> set (outcome_options m))
      else resolved_outcome m = None)"

text \<open>
  The contract of every operation that changes an existing market without a prediction: identity,
  creator, outcomes, deadline and the two counters are kept; a resolution is final, outcome
  included; a cancellation is final.
\<close>

definition market_edit :: "market \<Rightarrow> market \<Rightarrow> bool" where
  "market_edit m m' \<longleftrightarrow>
     m_id m' = m_id m \<and> on_chain_market_id m' = on_chain_market_id m \<and>
     m_creator m' = m_creator m \<and> outcome_options m' = outcome_options m \<and>
     m_end_time m' = m_end_time m \<and> total_pool_stroops m' = total_pool_stroops m \<and>
     participant_count m' = participant_count m \<and>
     (is_resolved m \<longrightarrow> is_resolved m' \<and> resolved_outcome m' = resolved_outcome m) \<and>
     (m_cancelled m \<longrightarrow> m_cancelled m') \<and>
     (market_ok m \<longrightarrow> market_ok m')"

lemma market_edit_refl [simp]: "market_edit m m"
  by (simp add: market_edit_def)

text \<open>The fields \<open>market_edit\<close> does not constrain.\<close>

lemma market_edit_fields [simp]:
  "market_edit m (m'\<lparr>m_title := t\<rparr>) = market_edit m m'"
  "market_edit m (m'\<lparr>m_description := t\<rparr>) = market_edit m m'"
  "market_edit m (m'\<lparr>m_category := t\<rparr>) = market_edit m m'"
  "market_edit m (m'\<lparr>is_paused := b\<rparr>) = market_edit m m'"
  "market_edit m m' \<Longrightarrow> market_edit m (m'\<lparr>m_cancelled := True\<rparr>)"
  by (auto simp: market_edit_def market_ok_def split: option.splits if_splits)

definition edits_market :: "db \<Rightarrow> db \<Rightarrow> bool" where
  "edits_market s s' \<longleftrightarrow>
     users s' = users s \<and> predictions s' = predictions s \<and>
     (markets s' = markets s \<or>
      (\<exists>m m'. m \<in> set (markets s) \<and> market_edit m m' \<and>
         markets s' = save_row m_id m' (markets s)))"

lemma edits_market_same:
  "users s' = users s \<Longrightarrow> predictions s' = predictions s \<Longrightarrow> markets s' = markets s \<Longrightarrow>
    edits_market s s'"
  by (simp add: edits_market_def)

lemma edits_market_save:
  assumes "find_by_id_or_on_chain_id ref s = Inr m" and "market_edit m m'"
    and "users s' = users s" and "predictions s' = predictions s"
    and "markets s' = save_row m_id m' (markets s)"
  shows "edits_market s s'"
  using assms found_market [OF assms(1)] by (auto simp: edits_market_def)

lemmas service_splits = sum.splits option.splits if_splits prod.splits

lemma invalidate_market_caches_simps [simp]:
  "users (invalidate_market_caches m s) = users s" "markets (invalidate_market_caches m s) = markets s"
  "predictions (invalidate_market_caches m s) = predictions s"
  "calls (invalidate_market_caches m s) = calls s" "hooks (invalidate_market_caches m s) = hooks s"
  "trending_cache (invalidate_market_caches m s) = None"
  by (simp_all add: invalidate_market_caches_def)

lemma update_market_edits:
  assumes "update_market e ref uid dto s = (r, s')" shows "edits_market s s'"
proof -
  have *: "edits_market s s" by (simp add: edits_market_same)
  have "edits_market s (save_market m' s)"
    if "find_by_id_or_on_chain_id ref s = Inr m" "market_edit m m'" for m m'
    using that by (rule edits_market_save) simp_all
  with * assms show ?thesis
    by (auto simp: update_market_def Let_def split: service_splits)
qed

lemma resolve_market_Inr:
  assumes "resolve_market sor e ref out s = (Inr m', s')"
  obtains m where "find_by_id_or_on_chain_id ref s = Inr m" and "\<not> is_resolved m"
    and "out \<in> set (outcome_options m)"
    and "m' = m\<lparr>is_resolved := True, resolved_outcome := Some out, m_resolved_at := Some (now e)\<rparr>"
    and "s' = emit_hook e ''market.resolved'' (market_resolved_payload (now e) m')
           (invalidate_market_caches m' (save_market m'
             (call_chain (ResolveMarket (on_chain_market_id m) out) s)))"
  using assms by (auto simp: resolve_market_def Let_def split: service_splits)

lemma resolve_market_Inl:
  assumes "resolve_market sor e ref out s = (Inl err, s')"
  shows "s' = s\<lparr>calls := calls s'\<rparr>"
  using assms by (auto simp: resolve_market_def Let_def call_chain_def split: service_splits)

lemma resolve_market_edits:
  assumes "resolve_market sor e ref out s = (r, s')" shows "edits_market s s'"
proof (cases r)
  case (Inl err)
  then have "s' = s\<lparr>calls := calls s'\<rparr>" using assms by (auto dest: resolve_market_Inl)
  then show ?thesis
    by (intro edits_market_same) (metis db.select_convs db.surjective db.update_convs(12))+
next
  case (Inr m')
  with assms obtain m where m: "find_by_id_or_on_chain_id ref s = Inr m" "\<not> is_resolved m"
    "out \<in> set (outcome_options m)"
    "m' = m\<lparr>is_resolved := True, resolved_outcome := Some out, m_resolved_at := Some (now e)\<rparr>"
    and s': "s' = emit_hook e ''market.resolved'' (market_resolved_payload (now e) m')
           (invalidate_market_caches m' (save_market m'
             (call_chain (ResolveMarket (on_chain_market_id m) out) s)))"
    by (auto elim: resolve_market_Inr)
  from m have "market_edit m m'"
    by (auto simp: market_edit_def market_ok_def split: option.splits)
  with m(1) s' show ?thesis by (auto intro: edits_market_save)
qed

lemma cancel_market_edits:
  assumes "cancel_market sor e ref user s = (r, s')" shows "edits_market s s'"
proof -
  have *: "edits_market s s" "\<And>c. edits_market s (call_chain c s)"
    by (simp_all add: edits_market_same)
  have "edits_market s (invalidate_market_caches m' (save_market (m\<lparr>m_cancelled := True\<rparr>) (call_chain c s)))"
    if "find_by_id_or_on_chain_id ref s = Inr m" for m m' c
    using that by (rule edits_market_save) simp_all
  with * assms show ?thesis by (auto simp: cancel_market_def Let_def split: service_splits)
qed

lemma pause_market_edits:
  assumes "pause_market sor ref user s = (r, s')" shows "edits_market s s'"
proof -
  have *: "edits_market s s" "\<And>c. edits_market s (call_chain c s)"
    by (simp_all add: edits_market_same)
  have "edits_market s (save_market (m\<lparr>is_paused := b\<rparr>) (call_chain c s))"
    if "find_by_id_or_on_chain_id ref s = Inr m" for m b c
    using that by (rule edits_market_save) simp_all
  with * assms show ?thesis by (auto simp: pause_market_def Let_def split: service_splits)
qed

lemma resume_market_edits:
  assumes "resume_market sor e ref user s = (r, s')" shows "edits_market s s'"
proof -
  have *: "edits_market s s" "\<And>c. edits_market s (call_chain c s)"
    by (simp_all add: edits_market_same)
  have "edits_market s (save_market (m\<lparr>is_paused := b\<rparr>) (call_chain c s))"
    if "find_by_id_or_on_chain_id ref s = Inr m" for m b c
    using that by (rule edits_market_save) simp_all
  with * assms show ?thesis by (auto simp: resume_market_def Let_def split: service_splits)
qed

section \<open>Statistics lemmas\<close>

lemma outcomes_count_prediction:
  "map st_outcome (fold count_prediction ps st) = map st_outcome st"
proof (induction ps arbitrary: st)
  case (Cons p ps)
  have "map st_outcome (count_prediction p st) = map st_outcome st"
    by (simp add: count_prediction_def keys_update_rows)
  with Cons show ?case by simp
qed simp

lemma by_id_init_stats:
  "by_id st_outcome x (fold (\<lambda>y. save_row st_outcome (zero_stat y)) ys st) =
    (if x \<in> set ys then Some (zero_stat x) else by_id st_outcome x st)"
  by (induction ys arbitrary: st) (auto simp: by_id_save_row zero_stat_def)

lemma keyed_init_stats:
  "keyed st_outcome st \<Longrightarrow>
    keyed st_outcome (fold (\<lambda>y. save_row st_outcome (zero_stat y)) ys st)"
  by (induction ys arbitrary: st) (simp_all add: keyed_save_row)

definition votes :: "string \<Rightarrow> prediction list \<Rightarrow> prediction list" where
  "votes x ps = filter (\<lambda>p. chosen_outcome p = x) ps"

lemma by_id_count_one:
  "by_id st_outcome x (count_prediction p st) =
    map_option (\<lambda>z. if chosen_outcome p = x then
        z\<lparr>st_count := st_count z + 1, st_staked := st_staked z + stake_amount_stroops p\<rparr> else z)
      (by_id st_outcome x st)"
  unfolding count_prediction_def
  by (subst by_id_update_rows) (auto simp: intro!: option.map_cong dest: by_id_Some)

lemma by_id_count_prediction:
  "by_id st_outcome x (fold count_prediction ps st) =
    map_option (\<lambda>z. z\<lparr>st_count := st_count z + length (votes x ps),
                     st_staked := st_staked z + sum_list (map stake_amount_stroops (votes x ps))\<rparr>)
      (by_id st_outcome x st)"
proof (induction ps arbitrary: st)
  case Nil
  then show ?case by (cases "by_id st_outcome x st") (simp_all add: votes_def)
next
  case (Cons p ps)
  show ?case
    by (cases "by_id st_outcome x st") (simp_all add: Cons by_id_count_one votes_def algebra_simps)
qed

lemma stats_of_exact:
  "keyed st_outcome (stats_of outs ps)"
  "by_id st_outcome x (stats_of outs ps) =
    (if x \<in> set outs then
       Some \<lparr>st_outcome = x, st_count = length (votes x ps),
             st_staked = sum_list (map stake_amount_stroops (votes x ps))\<rparr>
     else None)"
  using keyed_init_stats [of "[]"] by_id_init_stats [of x outs "[]"]
  by (simp_all add: keyed_def stats_of_def init_stats_def outcomes_count_prediction
      by_id_count_prediction zero_stat_def)

section \<open>Trending lemmas\<close>

lemma trending_score_bounds:
  assumes "0 \<le> participant_count m" and "0 \<le> total_pool_stroops m"
  shows "0 \<le> calculate_trending_score t0 m \<and> calculate_trending_score t0 m \<le> 100"
proof -
  define a where "a = min (of_int (participant_count m) / 100 :: rat) 1 * 50"
  define b where "b = min (of_int (total_pool_stroops m) / 100000000 :: rat) 1 * 30"
  define h where "h = max (of_int (m_end_time m - t0) / (1000 * 60 * 60) :: rat) 0"
  define c where "c = (if h \<le> 168 then (168 - h) / 168 * 20 else 0)"
  have "0 \<le> h" by (simp add: h_def)
  then have "0 \<le> c \<and> c \<le> 20" by (simp add: c_def field_simps)
  moreover have "0 \<le> a \<and> a \<le> 50" "0 \<le> b \<and> b \<le> 30"
    using assms by (auto simp: a_def b_def min_def)
  ultimately have *: "0 \<le> a + b + c" "a + b + c \<le> 100" by linarith+
  have eq: "calculate_trending_score t0 m = round2 (a + b + c)"
    by (simp add: calculate_trending_score_def a_def b_def c_def h_def Let_def)
  have "math_round ((a + b + c) * 100) \<le> 10000"
    using * by (intro math_round_le) simp
  then have "round2 (a + b + c) \<le> 100"
    by (simp add: round2_def divide_le_eq)
  then show ?thesis unfolding eq using round2_nonneg [OF *(1)] by simp
qed

lemma compute_trending_fresh:
  assumes "trending_cache s = None"
  shows "fst (compute_trending_markets t0 s) =
    sort_desc trending_score (map (to_trending_item t0)
      (take 200 (sort_desc m_created_at
        (filter (\<lambda>m. \<not> is_resolved m \<and> \<not> m_cancelled m) (markets s)))))"
  using assms by (simp add: compute_trending_markets_def Let_def)

lemma trending_fresh_open:
  assumes "trending_cache s = None" and "it \<in> set (fst (compute_trending_markets t0 s))"
  shows "\<exists>m. m \<in> set (markets s) \<and> \<not> is_resolved m \<and> \<not> m_cancelled m \<and> tr_id it = m_id m"
  using assms(2) unfolding compute_trending_fresh [OF assms(1)]
  by (auto simp: to_trending_item_def dest!: in_set_takeD)

lemma closed_not_trending:
  assumes "keyed m_id (markets s)" and "trending_cache s = None" and "m \<in> set (markets s)"
    and "is_resolved m \<or> m_cancelled m"
  shows "m_id m \<notin> tr_id ` set (fst (compute_trending_markets t0 s))"
proof
  assume "m_id m \<in> tr_id ` set (fst (compute_trending_markets t0 s))"
  then obtain m' where m': "m' \<in> set (markets s)" "\<not> is_resolved m'" "\<not> m_cancelled m'" "m_id m = m_id m'"
    by (elim imageE) (drule trending_fresh_open [OF assms(2)], auto)
  have "by_id m_id (m_id m) (markets s) = Some m" "by_id m_id (m_id m') (markets s) = Some m'"
    by (rule by_id_in [OF assms(1,3)], rule by_id_in [OF assms(1) m'(1)])
  with m'(4) have "m = m'" by (metis option.inject)
  with m'(2,3) assms(4) show False by blast
qed

section \<open>Search\<close>

definition plain_text :: "string \<Rightarrow> bool" where
  "plain_text s \<longleftrightarrow> CHR ''%'' \<notin> set s \<and> CHR ''_'' \<notin> set s \<and> CHR 0x5C \<notin> set s"

lemma like_match_prefix:
  "plain_text t \<Longrightarrow> like_match (t @ ''%'') s \<longleftrightarrow> starts_with s t"
proof (induction t arbitrary: s)
  case Nil
  have "like_match ''%'' s" for s by (induction s) (simp_all add: like_match.simps(2))
  then show ?case by (simp add: starts_with_def)
next
  case (Cons c t)
  then have IH: "like_match (t @ ''%'') s' \<longleftrightarrow> starts_with s' t" for s' by (simp add: plain_text_def)
  have c: "c \<noteq> CHR ''%''" "c \<noteq> CHR ''_''" "c \<noteq> CHR 0x5C" using Cons.prems by (auto simp: plain_text_def)
  show ?case
    by (cases s) (use c in \<open>auto simp: like_match.simps(2) IH starts_with_def\<close>)
qed

lemma like_match_infix:
  assumes "plain_text t"
  shows "like_match (search_pattern t) s \<longleftrightarrow> has_substring s t"
proof (induction s)
  case Nil
  then show ?case
    using like_match_prefix [OF assms, of "[]"]
    by (auto simp: search_pattern_def like_match.simps(2) starts_with_def)
next
  case (Cons x s)
  then show ?case
    using like_match_prefix [OF assms, of "x # s"]
    by (simp add: search_pattern_def like_match.simps(2) [of "CHR ''%''"])
qed

section \<open>Bulk creation\<close>

lemma insert_market_Some:
  assumes "insert_market e m s = Some s'"
  shows "save_ok e" and "on_chain_market_id m \<notin> on_chain_market_id ` set (markets s)"
    and "s' = save_market (stored_market m) s"
  using assms by (auto simp: insert_market_def split: if_splits)

lemma new_market_simps [simp]:
  "m_id (new_market t i c d u) = i" "on_chain_market_id (new_market t i c d u) = c"
  "m_title (new_market t i c d u) = cd_title d" "m_creator (new_market t i c d u) = Some u"
  "outcome_options (new_market t i c d u) = cd_outcome_options d"
  "total_pool_stroops (new_market t i c d u) = 0" "participant_count (new_market t i c d u) = 0"
  "is_resolved (new_market t i c d u) = False" "m_cancelled (new_market t i c d u) = False"
  "resolved_outcome (new_market t i c d u) = None"
  by (simp_all add: new_market_def)

lemma stored_market_simps [simp]:
  "m_id (stored_market m) = m_id m" "on_chain_market_id (stored_market m) = on_chain_market_id m"
  "outcome_options (stored_market m) = simple_array (outcome_options m)"
  "total_pool_stroops (stored_market m) = total_pool_stroops m"
  "participant_count (stored_market m) = participant_count m"
  "is_resolved (stored_market m) = is_resolved m" "m_cancelled (stored_market m) = m_cancelled m"
  "resolved_outcome (stored_market m) = resolved_outcome m"
  by (simp_all add: stored_market_def)

text \<open>The ids the database generates are new and different.\<close>

definition fresh_market_ids :: "env \<Rightarrow> db \<Rightarrow> bool" where
  "fresh_market_ids e s \<longleftrightarrow> inj (fresh e) \<and> range (fresh e) \<inter> m_id ` set (markets s) = {}"

text \<open>
  What the loop has done after the markets \<open>done\<close>: its rows are appended to the old ones, one
  request was sent for each, and nothing else changed.
\<close>

definition bulk_progress :: "env \<Rightarrow> db \<Rightarrow> nat \<Rightarrow> market list \<Rightarrow> db \<Rightarrow> bool" where
  "bulk_progress e s n done s' \<longleftrightarrow>
     markets s' = markets s @ map stored_market done \<and> map m_id done = map (fresh e) [0..<n] \<and>
     calls s' = calls s @ map (\<lambda>m. CreateMarket (m_title m)) done \<and>
     s' = s\<lparr>markets := markets s', calls := calls s'\<rparr>"

lemma bulk_progress_step:
  assumes "fresh_market_ids e s" and "bulk_progress e s n done s'"
    and "insert_market e m (call_chain (CreateMarket (m_title m)) s') = Some s''"
    and "m_id m = fresh e n"
  shows "bulk_progress e s (Suc n) (done @ [m]) s''"
proof -
  have "m_id ` set done = fresh e ` {0..<n}"
    using assms(2) by (metis bulk_progress_def list.set_map set_upt)
  moreover have "m_id ` set (markets s') = m_id ` set (markets s) \<union> m_id ` set done"
    using assms(2) by (auto simp: bulk_progress_def image_Un image_image)
  moreover have "fresh e n \<notin> fresh e ` {0..<n}" "fresh e n \<notin> m_id ` set (markets s)"
    using assms(1) by (auto simp: fresh_market_ids_def inj_eq)
  ultimately have "fresh e n \<notin> m_id ` set (markets s')" by simp
  then have "save_row m_id (stored_market m) (markets s') = markets s' @ [stored_market m]"
    using assms(4) by (intro save_row_fresh) simp
  moreover have "s'' = save_market (stored_market m) (call_chain (CreateMarket (m_title m)) s')"
    using assms(3) by (rule insert_market_Some)
  ultimately show ?thesis
    using assms(2,4) by (auto simp: bulk_progress_def save_market_def call_chain_def)
qed

lemma bulk_loop_progress:
  assumes "fresh_market_ids e s" and "bulk_progress e s n done s1"
    and "bulk_loop sors e user n dtos done s1 = (r, s')"
  shows "case r of
      Inr ms \<Rightarrow> bulk_progress e s (n + length dtos) ms s' \<and>
        map m_title ms = map m_title done @ map cd_title dtos
    | Inl err \<Rightarrow> (\<exists>k. 0 < k \<and> k \<le> length dtos \<and>
        calls s' = calls s1 @ map (\<lambda>d. CreateMarket (cd_title d)) (take k dtos))"
  using assms(2,3)
proof (induction dtos arbitrary: n "done" s1)
  case (Cons dto dtos)
  let ?s2 = "call_chain (CreateMarket (cd_title dto)) s1"
  show ?case
  proof (cases "sb_create_market (sors n) (cd_title dto) (cd_description dto) (cd_category dto)
      (cd_outcome_options dto)")
    case (Inl err)
    with Cons.prems(2) show ?thesis by (force simp: Let_def intro: exI [of _ 1])
  next
    case (Inr p)
    obtain oc h where p: "p = (oc, h)" by (cases p)
    let ?m = "new_market (now e) (fresh e n) oc dto (u_id user)"
    show ?thesis
    proof (cases "insert_market e ?m ?s2")
      case None
      with Cons.prems(2) Inr p show ?thesis by (force simp: Let_def intro: exI [of _ 1])
    next
      case (Some s3)
      with Cons.prems(1) have step: "bulk_progress e s (Suc n) (done @ [?m]) s3"
        by (intro bulk_progress_step [OF assms(1)]) simp_all
      have s3: "calls s3 = calls s1 @ [CreateMarket (cd_title dto)]"
        using Some by (auto dest: insert_market_Some)
      from Cons.prems(2) Inr p Some
      have run: "bulk_loop sors e user (Suc n) dtos (done @ [?m]) s3 = (r, s')"
        by (simp add: Let_def)
      show ?thesis
      proof (cases r)
        case (Inl err)
        with Cons.IH [OF step run] obtain k where
          "0 < k" "k \<le> length dtos"
          "calls s' = calls s3 @ map (\<lambda>d. CreateMarket (cd_title d)) (take k dtos)" by auto
        with Inl s3 show ?thesis by (force intro: exI [of _ "Suc k"])
      next
        case (Inr ms)
        with Cons.IH [OF step run] show ?thesis by simp
      qed
    qed
  qed
qed auto

lemma bulk_loop_error:
  "bulk_loop sors e user n dtos done s = (Inl err, s') \<Longrightarrow>
    err \<noteq> BadRequest ''end_time must be in the future''"
  by (induction sors e user n dtos "done" s rule: bulk_loop.induct)
    (auto simp: Let_def split: service_splits)

lemma map_map_title: "map m_title ms = map cd_title dtos \<Longrightarrow>
    map (\<lambda>m. CreateMarket (m_title m)) ms = map (\<lambda>d. CreateMarket (cd_title d)) dtos"
  by (metis (no_types, lifting) list.map_comp comp_apply map_eq_conv)

section \<open>Properties\<close>

definition sample_market_dto :: create_market_dto where
  "sample_market_dto =
     \<lparr>cd_title = ''Snow on Monday'', cd_description = ''Will it snow on Monday'',
      cd_category = ''Tech'', cd_outcome_options = [''Yes'', ''No, never''], cd_end_time = 5000,
      cd_resolution_time = 6000, cd_creator_fee_bps = 0, cd_is_public = True\<rparr>"

text \<open>
  C7: bulk creation is all or nothing in the database: a failure leaves every table as it was, a
  success appends one row per request in order and sends no webhook.  It is not so on chain: a
  failure leaves the requests sent before it, at least one once the deadlines were accepted, and
  nothing cancels those markets.
\<close>

theorem create_bulk_atomic:
  assumes "fresh_market_ids e s" and "create_bulk sors e dtos user s = (r, s')"
  shows "case r of
      Inl err \<Rightarrow> s' = s\<lparr>calls := calls s'\<rparr> \<and>
        (if err = BadRequest ''end_time must be in the future''
         then s' = s \<and> list_ex (\<lambda>d. cd_end_time d \<le> now e) dtos
         else \<exists>k. 0 < k \<and> k \<le> length dtos \<and>
           calls s' = calls s @ map (\<lambda>d. CreateMarket (cd_title d)) (take k dtos))
    | Inr ms \<Rightarrow> map m_title ms = map cd_title dtos \<and> map m_id ms = map (fresh e) [0..<length dtos] \<and>
        s' = s\<lparr>markets := markets s @ map stored_market ms,
               calls := calls s @ map (\<lambda>d. CreateMarket (cd_title d)) dtos\<rparr>"
proof (cases "list_ex (\<lambda>d. cd_end_time d \<le> now e) dtos")
  case True
  with assms(2) show ?thesis by (auto simp: create_bulk_def)
next
  case False
  obtain r1 s1 where run: "bulk_loop sors e user 0 dtos [] s = (r1, s1)" by fastforce
  have "bulk_progress e s 0 [] s" by (simp add: bulk_progress_def)
  note prog = bulk_loop_progress [OF assms(1) this run]
  have err: "r1 = Inl err \<Longrightarrow> err \<noteq> BadRequest ''end_time must be in the future''" for err
    using bulk_loop_error run by blast
  show ?thesis
  proof (cases r1)
    case (Inl err)
    with False assms(2) run have "r = Inl err" "s' = s\<lparr>calls := calls s1\<rparr>"
      by (simp_all add: create_bulk_def)
    with Inl prog err show ?thesis by simp
  next
    case (Inr ms)
    with False assms(2) run have "r = Inr ms" "s' = s1" by (simp_all add: create_bulk_def)
    with Inr prog show ?thesis by (simp add: bulk_progress_def) (metis map_map_title)
  qed
qed

theorem create_bulk_atomic_witness:
  "\<exists>s'. create_bulk (\<lambda>n. if n = 0 then sample_chain
          else sample_chain\<lparr>sb_create_market := \<lambda>a b c d. Inl ''rpc down''\<rparr>)
        sample_env [sample_market_dto, sample_market_dto] sample_user sample_db =
      (Inl (BadGateway ''Failed to create market on Soroban''), s') \<and>
    markets s' = markets sample_db \<and>
    calls s' = [CreateMarket ''Snow on Monday'', CreateMarket ''Snow on Monday'']"
proof -
  let ?sors = "\<lambda>n::nat. if n = 0 then sample_chain
      else sample_chain\<lparr>sb_create_market := \<lambda>a b c d. Inl ''rpc down''\<rparr>"
  obtain s' where run: "create_bulk ?sors sample_env [sample_market_dto, sample_market_dto]
      sample_user sample_db = (Inl (BadGateway ''Failed to create market on Soroban''), s')"
    and c: "calls s' = [CreateMarket ''Snow on Monday'', CreateMarket ''Snow on Monday'']"
    by (simp add: create_bulk_def sample_market_dto_def sample_chain_def insert_market_def
        sample_db_def empty_db_def sample_market_def)
  have "fresh_market_ids sample_env sample_db"
    by (auto simp: fresh_market_ids_def inj_fresh_sample sample_db_def sample_market_def)
  from create_bulk_atomic [OF this run] have "s' = sample_db\<lparr>calls := calls s'\<rparr>" by simp
  then have "markets s' = markets sample_db" by (metis db.select_convs(2) db.surjective db.update_convs(12))
  with run c show ?thesis by blast
qed

text \<open>
  The statistics of a market, when they are not served from the cache, list each offered
  outcome once with the exact number of predictions on it and the exact sum of their stakes,
  whatever the order of the predictions.
\<close>

theorem prediction_stats_exact:
  assumes "find_market ref (markets s) = Some m" and "by_id fst ref (stats_cache s) = None"
  shows "\<exists>st. get_prediction_stats t0 ref s =
      (Inr st, s\<lparr>stats_cache := save_row fst (ref, st, t0) (stats_cache s)\<rparr>) \<and>
    keyed st_outcome st \<and>
    by_id st_outcome x st =
      (if x \<in> set (outcome_options m) then
         (let vs = filter (\<lambda>p. p_market p = ref \<and> chosen_outcome p = x) (predictions s)
          in Some \<lparr>st_outcome = x, st_count = length vs,
                   st_staked = sum_list (map stake_amount_stroops vs)\<rparr>)
       else None)"
proof -
  define st where
    "st = stats_of (outcome_options m) (filter (\<lambda>p. p_market p = ref) (predictions s))"
  have "get_prediction_stats t0 ref s =
      (Inr st, s\<lparr>stats_cache := save_row fst (ref, st, t0) (stats_cache s)\<rparr>)"
    using assms by (simp add: get_prediction_stats_def find_by_id_or_on_chain_id_def st_def Let_def)
  then show ?thesis
    by (simp add: stats_of_exact st_def votes_def Let_def conj_commute)
qed

theorem prediction_stats_exact_witness:
  "\<exists>st s'. get_prediction_stats 0 ''m1'' (sample_db\<lparr>predictions := [sample_prediction]\<rparr>) = (Inr st, s') \<and>
     by_id st_outcome ''Yes'' st = Some \<lparr>st_outcome = ''Yes'', st_count = 1, st_staked = 20000000\<rparr>"
proof -
  let ?s = "sample_db\<lparr>predictions := [sample_prediction]\<rparr>"
  have "find_market ''m1'' (markets ?s) = Some sample_market" "by_id fst ''m1'' (stats_cache ?s) = None"
    by (simp_all add: find_market_def sample_defs)
  from prediction_stats_exact [OF this, of 0 "''Yes''"] show ?thesis
    by (auto simp: Let_def sample_defs)
qed

text \<open>
  Asked for by its on-chain id, which the lookup accepts, a market gets statistics without a
  single prediction, however many were made: the rows are selected by comparing the market's
  primary key with the text of the request.
\<close>

theorem on_chain_reference_stats_zero:
  assumes "find_market ref (markets s) = Some m" and "by_id fst ref (stats_cache s) = None"
    and "list_all (\<lambda>p. p_market p \<in> m_id ` set (markets s)) (predictions s)"
    and "ref \<notin> m_id ` set (markets s)"
  shows "fst (get_prediction_stats t0 ref s) = Inr (init_stats (outcome_options m))"
proof -
  have "filter (\<lambda>p. p_market p = ref) (predictions s) = []"
    using assms(3,4) by (auto simp: filter_empty_conv list_all_iff)
  with assms(1,2) show ?thesis
    by (simp add: get_prediction_stats_def find_by_id_or_on_chain_id_def stats_of_def Let_def)
qed

theorem on_chain_reference_stats_zero_witness:
  "fst (get_prediction_stats 0 ''market_1'' (sample_db\<lparr>predictions := [sample_prediction]\<rparr>)) =
    Inr [zero_stat ''Yes'', zero_stat ''No'']"
proof -
  let ?s = "sample_db\<lparr>predictions := [sample_prediction]\<rparr>"
  have "find_market ''market_1'' (markets ?s) = Some sample_market"
    "by_id fst ''market_1'' (stats_cache ?s) = None"
    "list_all (\<lambda>p. p_market p \<in> m_id ` set (markets ?s)) (predictions ?s)"
    "''market_1'' \<notin> m_id ` set (markets ?s)"
    by (simp_all add: find_market_def sample_defs)
  from on_chain_reference_stats_zero [OF this] show ?thesis
    by (simp add: init_stats_def sample_market_def zero_stat_def)
qed

text \<open>
  Right after a market is resolved or cancelled, the trending list does not contain it: the
  cached list is dropped and the new one has open markets only, in descending order of a score
  between 0 and 100.
\<close>

theorem closed_market_leaves_trending:
  assumes "keyed m_id (markets s)"
    and "resolve_market sor e ref outcome s = (Inr m, s') \<or> cancel_market sor e ref user s = (Inr m, s')"
    and "list_all (\<lambda>x. 0 \<le> participant_count x \<and> 0 \<le> total_pool_stroops x) (markets s')"
  shows "let items = fst (compute_trending_markets t0 s') in
    m_id m \<notin> tr_id ` set items \<and>
    sorted_wrt (\<lambda>a b. trending_score a \<ge> trending_score b) items \<and>
    list_all (\<lambda>it. 0 \<le> trending_score it \<and> trending_score it \<le> 100) items"
proof -
  from assms(2) have cache: "trending_cache s' = None" and saved: "markets s' = save_row m_id m (markets s)"
    and closed: "is_resolved m \<or> m_cancelled m"
    by (auto elim!: resolve_market_Inr simp: cancel_market_def Let_def split: service_splits)
  have "keyed m_id (markets s')" "m \<in> set (markets s')"
    using assms(1) by (simp_all add: saved keyed_save_row in_save_row)
  then have "m_id m \<notin> tr_id ` set (fst (compute_trending_markets t0 s'))"
    using cache closed by (intro closed_not_trending) auto
  moreover have "list_all (\<lambda>it. 0 \<le> trending_score it \<and> trending_score it \<le> 100)
      (fst (compute_trending_markets t0 s'))"
    using assms(3) unfolding compute_trending_fresh [OF cache]
    by (auto simp: list_all_iff to_trending_item_def trending_score_bounds dest!: in_set_takeD)
  ultimately show ?thesis
    unfolding compute_trending_fresh [OF cache] Let_def by (simp add: sorted_sort_desc)
qed

theorem closed_market_leaves_trending_witness:
  "\<exists>m s'. cancel_market sample_chain sample_env ''m1'' sample_admin sample_db = (Inr m, s') \<and>
     m_id m \<notin> tr_id ` set (fst (compute_trending_markets 0 s'))"
proof -
  obtain m s' where run: "cancel_market sample_chain sample_env ''m1'' sample_admin sample_db = (Inr m, s')"
    and ok: "list_all (\<lambda>x. 0 \<le> participant_count x \<and> 0 \<le> total_pool_stroops x) (markets s')"
    by (simp add: cancel_market_def find_by_id_or_on_chain_id_def find_market_def Let_def sample_defs)
  have "keyed m_id (markets sample_db)" by (simp add: keyed_def sample_defs)
  from closed_market_leaves_trending [OF this disjI2 [OF run] ok, of 0] run
  show ?thesis by (auto simp: Let_def)
qed

text \<open>
  An outcome with a comma is accepted when the market is created, but the stored market does
  not offer it: the request to resolve to it is refused, now and later, by the created market's id.
\<close>

theorem comma_outcome_unresolvable:
  assumes "create_market sor e dto user s = (Inr m, s')"
    and "outcome \<in> set (cd_outcome_options dto)" and "CHR '','' \<in> set outcome"
    and "list_all (\<lambda>x. m_id x \<noteq> fresh e 0 \<and> on_chain_market_id x \<noteq> fresh e 0) (markets s)"
  shows "outcome \<in> set (outcome_options m) \<and>
    (\<exists>msg. resolve_market sor' e' (m_id m) outcome s' = (Inl (BadRequest msg), s'))"
proof -
  from assms(1) obtain oc where m: "m = new_market (now e) (fresh e 0) oc dto (u_id user)"
    and s': "markets s' = save_row m_id (stored_market m) (markets s)"
    by (auto simp: create_market_def Let_def split: service_splits dest: insert_market_Some(3))
  have "m_id m \<notin> m_id ` set (markets s)"
    using assms(4) by (auto simp: m list_all_iff)
  then have "markets s' = markets s @ [stored_market m]"
    using save_row_fresh [of m_id "stored_market m" "markets s"] by (simp add: s')
  moreover have "find_market (m_id (stored_market m)) (markets s @ [stored_market m]) = Some (stored_market m)"
    using assms(4) by (intro find_market_append) (auto simp: m list_all_iff)
  ultimately have "find_by_id_or_on_chain_id (m_id m) s' = Inr (stored_market m)"
    by (simp add: found_market_iff)
  moreover have "outcome \<notin> set (outcome_options (stored_market m))"
    using assms(3) by (auto dest: simple_array_no_comma)
  ultimately show ?thesis using assms(2) by (simp add: resolve_market_def m)
qed

theorem comma_outcome_unresolvable_witness:
  "\<exists>m s' msg. create_market sample_chain sample_env sample_market_dto sample_user sample_db = (Inr m, s') \<and>
     resolve_market sample_chain sample_env (m_id m) ''No, never'' s' = (Inl (BadRequest msg), s')"
proof -
  obtain m s' where run:
    "create_market sample_chain sample_env sample_market_dto sample_user sample_db = (Inr m, s')"
    by (simp add: create_market_def insert_market_def sample_market_dto_def Let_def sample_defs)
  have "list_all (\<lambda>x. m_id x \<noteq> fresh sample_env 0 \<and> on_chain_market_id x \<noteq> fresh sample_env 0)
      (markets sample_db)"
    by (simp add: sample_defs)
  from comma_outcome_unresolvable [OF run _ _ this, of "''No, never''" sample_chain sample_env] run
  show ?thesis by (auto simp: sample_market_dto_def)
qed

text \<open>
  Going through the pages of a listing shows every market that passes the filter, each as
  often as it is stored, and nothing else; with a search text free of wildcards, the filter keeps
  the titles that contain it, ignoring case.
\<close>

theorem market_listing_complete:
  assumes "0 < min (case lm_limit dto of None \<Rightarrow> 20 | Some n \<Rightarrow> n) 50"
    and "lm_search dto = Some text" and "plain_text (to_lower text)" and "text \<noteq> []"
  shows "\<exists>k. let rows = concat (map (\<lambda>p. data (find_all_filtered (dto\<lparr>lm_page := Some p\<rparr>) s)) [1..<Suc k])
    in length rows = total (find_all_filtered dto s) \<and>
       set rows = set (filter (market_filter dto) (markets s)) \<and>
       list_all (\<lambda>m. has_substring (to_lower (m_title m)) (to_lower text)) rows"
proof -
  define lim where "lim = min (case lm_limit dto of None \<Rightarrow> 20 | Some n \<Rightarrow> n) 50"
  define rows where "rows = order_markets (filter (market_filter dto) (markets s))"
  have set_rows: "set rows = set (filter (market_filter dto) (markets s))"
    and len: "length rows = length (filter (market_filter dto) (markets s))"
    by (simp_all add: rows_def order_markets_def order_featured_at_def)
  have data: "data (find_all_filtered (dto\<lparr>lm_page := Some p\<rparr>) s) = page_of p lim rows" for p
    by (simp add: find_all_filtered_def rows_def lim_def Let_def market_filter_def cong: filter_cong)
  have "length rows \<le> length rows * lim" using assms(1) by (simp add: lim_def)
  then have all: "concat (map (\<lambda>p. page_of p lim rows) [1..<Suc (length rows)]) = rows"
    by (subst pages_tile) simp
  have title: "has_substring (to_lower (m_title m)) (to_lower text)" if "market_filter dto m" for m
  proof -
    have "to_lower (search_pattern text) = search_pattern (to_lower text)"
      by (simp add: search_pattern_def to_lower_def lower_char_def char_code_def)
    with that assms(2-4) show ?thesis
      by (simp add: market_filter_def ilike_def like_match_infix)
  qed
  show ?thesis
    unfolding data Let_def
    by (rule exI [of _ "length rows"], unfold all)
      (use set_rows len title in \<open>auto simp: find_all_filtered_def Let_def list_all_iff\<close>)
qed

definition sample_list_dto :: list_markets_dto where
  "sample_list_dto = \<lparr>lm_page = None, lm_limit = None, lm_category = None, lm_status = Some MsOpen,
     lm_is_public = Some True, lm_search = Some ''RAIN''\<rparr>"

theorem market_listing_complete_witness:
  "total (find_all_filtered sample_list_dto sample_db) = 1 \<and>
   (\<exists>k. set (concat (map (\<lambda>p. data (find_all_filtered (sample_list_dto\<lparr>lm_page := Some p\<rparr>) sample_db))
          [1..<Suc k])) = {sample_market})"
proof -
  have low: "to_lower ''RAIN'' = ''rain''" "to_lower ''%RAIN%'' = ''%rain%''"
    "to_lower ''Rain tomorrow?'' = ''rain tomorrow?''"
    by code_simp+
  have keep: "filter (market_filter sample_list_dto) (markets sample_db) = [sample_market]"
    by (simp add: market_filter_def sample_list_dto_def sample_defs ilike_def search_pattern_def low
        like_match.simps(2))
  then have "total (find_all_filtered sample_list_dto sample_db) = 1"
    by (simp add: find_all_filtered_def Let_def)
  moreover have "0 < min (case lm_limit sample_list_dto of None \<Rightarrow> 20 | Some n \<Rightarrow> n) 50"
    "lm_search sample_list_dto = Some ''RAIN''" "plain_text (to_lower ''RAIN'')" "''RAIN'' \<noteq> []"
    by (simp_all add: sample_list_dto_def plain_text_def low)
  note market_listing_complete [OF this, of sample_db]
  ultimately show ?thesis using keep by (auto simp: Let_def)
qed

end
