(* ===== verification/Predictions.thy ===== *)
theory Predictions
  imports Markets
begin

text \<open>
  \<open>PredictionsService\<close> (\<open>backend/src/predictions/predictions.service.ts\<close>): submitting a prediction,
  claiming a payout, notes and listings.  A submission reads and checks, sends the stake to the
  chain, and then writes in a transaction; other requests run between the two parts, so the parts
  are separate operations, joined in \<open>submit\<close>.
\<close>

section \<open>Submission\<close>

record submit_prediction_dto =
  sp_market_id :: uuid
  sp_chosen_outcome :: string
  sp_stake_amount_stroops :: string

text \<open>What a submission holds while its transaction has not run yet.\<close>

record pending_submit =
  ps_user :: uuid
  ps_market :: uuid
  ps_dto :: submit_prediction_dto
  ps_tx_hash :: string

definition is_open_market :: "timestamp \<Rightarrow> market \<Rightarrow> bool" where
  "is_open_market t0 m \<longleftrightarrow>
     \<not> (is_resolved m \<or> m_cancelled m \<or> is_paused m \<or> t0 > m_end_time m)"

definition predicted_by :: "uuid \<Rightarrow> uuid \<Rightarrow> prediction \<Rightarrow> bool" where
  "predicted_by uid mid p \<longleftrightarrow> p_user p = uid \<and> p_market p = mid"

definition submit_validate ::
  "soroban \<Rightarrow> env \<Rightarrow> submit_prediction_dto \<Rightarrow> user \<Rightarrow> db \<Rightarrow> pending_submit result \<times> db" where
  "submit_validate sor e dto user s =
     (case by_id m_id (sp_market_id dto) (markets s) of
        None \<Rightarrow> (Inl (NotFound (''Market '' @ quoted (sp_market_id dto) @ '' not found'')), s)
      | Some m \<Rightarrow>
          if is_resolved m \<or> m_cancelled m \<or> is_paused m \<or> now e > m_end_time m then
            (Inl (BadRequest
               (if is_paused m then ''Market is paused - predictions are no longer accepted''
                else ''Market is closed - predictions are no longer accepted'')), s)
          else if sp_chosen_outcome dto \<notin> set (outcome_options m) then
            (Inl (BadRequest (''Invalid outcome '' @ quoted (sp_chosen_outcome dto) @
               ''. Valid options: '' @ join_with '', '' (outcome_options m))), s)
          else if find_one (predicted_by (u_id user) (m_id m)) (predictions s) \<noteq> None then
            (Inl (Conflict ''You have already submitted a prediction for this market''), s)
          else
            (let s1 = call_chain (SubmitPrediction (stellar_address user) (on_chain_market_id m)
                        (sp_chosen_outcome dto) (sp_stake_amount_stroops dto)) s in
             case sb_submit_prediction sor (stellar_address user) (on_chain_market_id m)
                    (sp_chosen_outcome dto) (sp_stake_amount_stroops dto) of
               Inl err \<Rightarrow> (Inl (InternalError err), s1)
             | Inr receipt \<Rightarrow>
                 (Inr \<lparr>ps_user = u_id user, ps_market = m_id m, ps_dto = dto,
                       ps_tx_hash = pr_tx_hash receipt\<rparr>, s1)))"

definition market_staked :: "int \<Rightarrow> market \<Rightarrow> market" where
  "market_staked stake m =
     m\<lparr>participant_count := participant_count m + 1,
       total_pool_stroops :=
         (if stake \<noteq> 0 then total_pool_stroops m + stake else total_pool_stroops m)\<rparr>"

definition user_staked :: "int \<Rightarrow> user \<Rightarrow> user" where
  "user_staked stake u =
     u\<lparr>total_predictions := total_predictions u + 1,
       total_staked_stroops :=
         (if stake \<noteq> 0 then total_staked_stroops u + stake else total_staked_stroops u)\<rparr>"

definition add_stake_to_market :: "uuid \<Rightarrow> int \<Rightarrow> market list \<Rightarrow> market list" where
  "add_stake_to_market mid stake = update_rows (\<lambda>m. m_id m = mid) (market_staked stake)"

definition add_stake_to_user :: "uuid \<Rightarrow> int \<Rightarrow> user list \<Rightarrow> user list" where
  "add_stake_to_user uid stake = update_rows (\<lambda>u. u_id u = uid) (user_staked stake)"

definition market_in_range :: "market \<Rightarrow> bool" where
  "market_in_range m \<longleftrightarrow> pg_int4 (participant_count m) \<and> pg_int8 (total_pool_stroops m)"

definition user_in_range :: "user \<Rightarrow> bool" where
  "user_in_range u \<longleftrightarrow> pg_int4 (total_predictions u) \<and> pg_int8 (total_staked_stroops u)"

text \<open>
  The transaction.  It fails, and the database rolls it back, when the stake is no \<open>bigint\<close>, the
  user already has a prediction on the market (the unique constraint), one of the two rows is gone,
  or a counter leaves its column's range.
\<close>

definition query_failed :: http_error where
  "query_failed = InternalError ''QueryFailedError''"

definition new_prediction :: "env \<Rightarrow> pending_submit \<Rightarrow> int \<Rightarrow> prediction" where
  "new_prediction e ps stake =
     \<lparr>p_id = fresh e 0, p_user = ps_user ps, p_market = ps_market ps,
      chosen_outcome = sp_chosen_outcome (ps_dto ps), stake_amount_stroops = stake,
      payout_claimed = False, payout_amount_stroops = 0, tx_hash = Some (ps_tx_hash ps),
      p_note = None, submitted_at = now e\<rparr>"

definition submit_persist :: "env \<Rightarrow> pending_submit \<Rightarrow> db \<Rightarrow> prediction result \<times> db" where
  "submit_persist e ps s =
     (case big_int (sp_stake_amount_stroops (ps_dto ps)) of
        None \<Rightarrow> (Inl query_failed, s)
      | Some stake \<Rightarrow>
          (let p = new_prediction e ps stake;
               ms = add_stake_to_market (ps_market ps) stake (markets s);
               us = add_stake_to_user (ps_user ps) stake (users s) in
           if \<not> pg_int8 stake \<or>
              find_one (predicted_by (ps_user ps) (ps_market ps)) (predictions s) \<noteq> None \<or>
              by_id m_id (ps_market ps) (markets s) = None \<or> by_id u_id (ps_user ps) (users s) = None
           then (Inl query_failed, s)
           else if \<not> list_all market_in_range (filter (\<lambda>m. m_id m = ps_market ps) ms)
           then (Inl query_failed, s)
           else if \<not> list_all user_in_range (filter (\<lambda>u. u_id u = ps_user ps) us)
           then (Inl query_failed, s)
           else (Inr p, s\<lparr>predictions := save_row p_id p (predictions s), markets := ms,
                         users := us\<rparr>)))"

definition submit ::
  "soroban \<Rightarrow> env \<Rightarrow> submit_prediction_dto \<Rightarrow> user \<Rightarrow> db \<Rightarrow> prediction result \<times> db" where
  "submit sor e dto user s =
     (case submit_validate sor e dto user s of
        (Inl err, s1) \<Rightarrow> (Inl err, s1)
      | (Inr ps, s1) \<Rightarrow> submit_persist e ps s1)"

section \<open>Status and listings\<close>

datatype prediction_status = PsActive | PsWon | PsLost | PsPending

fun compute_status :: "prediction \<Rightarrow> market \<Rightarrow> prediction_status" where
  "compute_status p m =
     (if m_cancelled m then PsPending
      else if \<not> is_resolved m then PsActive
      else if resolved_outcome m = Some (chosen_outcome p) then PsWon
      else PsLost)"

record prediction_with_status =
  pw_prediction :: prediction
  pw_status :: prediction_status
  pw_market_id :: uuid
  pw_market_title :: string
  pw_market_end_time :: timestamp
  pw_resolved_outcome :: "string option"
  pw_is_resolved :: bool
  pw_is_cancelled :: bool

definition enrich_with_status :: "prediction \<times> market \<Rightarrow> prediction_with_status" where
  "enrich_with_status pm =
     (let (p, m) = pm in
      \<lparr>pw_prediction = p, pw_status = compute_status p m, pw_market_id = m_id m,
       pw_market_title = m_title m, pw_market_end_time = m_end_time m,
       pw_resolved_outcome = resolved_outcome m, pw_is_resolved = is_resolved m,
       pw_is_cancelled = m_cancelled m\<rparr>)"

text \<open>
  The filter of the query.  A comparison with a null \<open>resolved_outcome\<close> is not true, neither for
  equality nor for inequality.
\<close>

fun status_condition :: "prediction_status \<Rightarrow> prediction \<times> market \<Rightarrow> bool" where
  "status_condition PsActive (p, m) = (\<not> is_resolved m \<and> \<not> m_cancelled m)"
| "status_condition PsWon (p, m) =
     (is_resolved m \<and> \<not> m_cancelled m \<and>
      (case resolved_outcome m of None \<Rightarrow> False | Some x \<Rightarrow> x = chosen_outcome p))"
| "status_condition PsLost (p, m) =
     (is_resolved m \<and> \<not> m_cancelled m \<and>
      (case resolved_outcome m of None \<Rightarrow> False | Some x \<Rightarrow> x \<noteq> chosen_outcome p))"
| "status_condition PsPending (p, m) = m_cancelled m"

text \<open>Predictions joined with their markets, which the foreign key guarantees to exist.\<close>

definition with_market :: "db \<Rightarrow> prediction list \<Rightarrow> (prediction \<times> market) list" where
  "with_market s = List.map_filter (\<lambda>p. map_option (Pair p) (by_id m_id (p_market p) (markets s)))"

definition find_mine ::
  "user \<Rightarrow> nat option \<Rightarrow> nat option \<Rightarrow> prediction_status option \<Rightarrow> db
    \<Rightarrow> prediction_with_status page_result" where
  "find_mine user page limit status s =
     (let pg = (case page of None \<Rightarrow> 1 | Some n \<Rightarrow> n);
          lim = min (case limit of None \<Rightarrow> 20 | Some n \<Rightarrow> n) 50;
          mine = with_market s (filter (\<lambda>p. p_user p = u_id user) (predictions s));
          rows = sort_desc (\<lambda>pm. submitted_at (fst pm))
                   (case status of None \<Rightarrow> mine | Some st \<Rightarrow> filter (status_condition st) mine)
      in \<lparr>data = map enrich_with_status (page_of pg lim rows), total = length rows,
          pg_page = pg, pg_limit = lim\<rparr>)"

definition find_prediction_by_id ::
  "uuid \<Rightarrow> uuid \<Rightarrow> db \<Rightarrow> prediction_with_status result" where
  "find_prediction_by_id pid user_id s =
     (case by_id p_id pid (predictions s) of
        None \<Rightarrow> Inl (NotFound (''Prediction '' @ quoted pid @ '' not found''))
      | Some p \<Rightarrow>
          if p_user p \<noteq> user_id then
            Inl (Forbidden ''You do not have permission to view this prediction'')
          else
            (case by_id m_id (p_market p) (markets s) of
               None \<Rightarrow> Inl (InternalError ''TypeError'')
             | Some m \<Rightarrow> Inr (enrich_with_status (p, m))))"

record market_prediction_response =
  mp_id :: uuid
  mp_chosen_outcome :: string
  mp_stake_amount :: stroops
  mp_payout_claimed :: bool
  mp_payout_amount :: stroops
  mp_tx_hash :: "string option"
  mp_submitted_at :: timestamp

definition anonymize :: "prediction \<Rightarrow> market_prediction_response" where
  "anonymize p =
     \<lparr>mp_id = p_id p, mp_chosen_outcome = chosen_outcome p,
      mp_stake_amount = stake_amount_stroops p, mp_payout_claimed = payout_claimed p,
      mp_payout_amount = payout_amount_stroops p, mp_tx_hash = tx_hash p,
      mp_submitted_at = submitted_at p\<rparr>"

definition find_by_market ::
  "uuid \<Rightarrow> nat option \<Rightarrow> nat option \<Rightarrow> db \<Rightarrow> market_prediction_response page_result" where
  "find_by_market mid page limit s =
     (let pg = (case page of None \<Rightarrow> 1 | Some n \<Rightarrow> n);
          asked = (case limit of None \<Rightarrow> 20 | Some n \<Rightarrow> n) in
      case by_id m_id mid (markets s) of
        None \<Rightarrow> \<lparr>data = [], total = 0, pg_page = pg, pg_limit = asked\<rparr>
      | Some _ \<Rightarrow>
          (let lim = min asked 50;
               rows = filter (\<lambda>p. p_market p = mid) (predictions s)
           in \<lparr>data = map anonymize (page_of pg lim (sort_desc submitted_at rows)),
               total = length rows, pg_page = pg, pg_limit = lim\<rparr>))"

section \<open>Notes and claims\<close>

definition own_prediction :: "uuid \<Rightarrow> user \<Rightarrow> db \<Rightarrow> prediction option" where
  "own_prediction pid user s =
     find_one (\<lambda>p. p_id p = pid \<and> p_user p = u_id user) (predictions s)"

definition save_prediction :: "prediction \<Rightarrow> db \<Rightarrow> db" where
  "save_prediction p s = s\<lparr>predictions := save_row p_id p (predictions s)\<rparr>"

definition update_note :: "uuid \<Rightarrow> string \<Rightarrow> user \<Rightarrow> db \<Rightarrow> prediction result \<times> db" where
  "update_note pid text user s =
     (case own_prediction pid user s of
        None \<Rightarrow> (Inl (NotFound (''Prediction '' @ quoted pid @ '' not found'')), s)
      | Some p \<Rightarrow>
          (let p' = p\<lparr>p_note := Some text\<rparr> in (Inr p', save_prediction p' s)))"

definition record_claim :: "prediction_receipt \<Rightarrow> prediction \<Rightarrow> prediction" where
  "record_claim receipt p =
     (let p1 = p\<lparr>payout_claimed := True, tx_hash := Some (pr_tx_hash receipt)\<rparr> in
      case pr_payout receipt of
        None \<Rightarrow> p1
      | Some amount \<Rightarrow> p1\<lparr>payout_amount_stroops := amount\<rparr>)"

definition claim :: "soroban \<Rightarrow> uuid \<Rightarrow> user \<Rightarrow> db \<Rightarrow> prediction result \<times> db" where
  "claim sor pid user s =
     (case own_prediction pid user s of
        None \<Rightarrow> (Inl (NotFound (''Prediction '' @ quoted pid @ '' not found'')), s)
      | Some p \<Rightarrow>
          if payout_claimed p then (Inl (Conflict ''Payout has already been claimed''), s)
          else
            (case by_id m_id (p_market p) (markets s) of
               None \<Rightarrow> (Inl (InternalError ''TypeError''), s)
             | Some m \<Rightarrow>
                 if \<not> is_resolved m then (Inl (BadRequest ''Market is not yet resolved''), s)
                 else if resolved_outcome m \<noteq> Some (chosen_outcome p) then
                   (Inl (BadRequest ''You did not win this prediction''), s)
                 else
                   (let s1 = call_chain (ClaimPayout (stellar_address user)
                               (on_chain_market_id m)) s in
                    case sb_claim_payout sor (stellar_address user) (on_chain_market_id m) of
                      Inl err \<Rightarrow> (Inl (InternalError err), s1)
                    | Inr receipt \<Rightarrow>
                        (Inr (record_claim receipt p), save_prediction (record_claim receipt p) s1))))"

section \<open>The ledger\<close>

text \<open>
  The counters of a market and of a user against the stored predictions, and the uniqueness and
  reference constraints of the predictions table.
\<close>

definition market_balanced :: "prediction list \<Rightarrow> market \<Rightarrow> bool" where
  "market_balanced ps m \<longleftrightarrow>
     (let own = filter (\<lambda>p. p_market p = m_id m) ps in
      participant_count m = int (length own) \<and>
      total_pool_stroops m = sum_list (map stake_amount_stroops own))"

definition user_balanced :: "prediction list \<Rightarrow> user \<Rightarrow> bool" where
  "user_balanced ps u \<longleftrightarrow>
     (let own = filter (\<lambda>p. p_user p = u_id u) ps in
      total_predictions u = int (length own) \<and>
      total_staked_stroops u = sum_list (map stake_amount_stroops own))"

definition predictions_ok :: "db \<Rightarrow> bool" where
  "predictions_ok s \<longleftrightarrow>
     keyed m_id (markets s) \<and> keyed u_id (users s) \<and> keyed p_id (predictions s) \<and>
     distinct (map (\<lambda>p. (p_user p, p_market p)) (predictions s)) \<and>
     list_all (\<lambda>p. p_market p \<in> m_id ` set (markets s)) (predictions s)"

definition ledger_ok :: "db \<Rightarrow> bool" where
  "ledger_ok s \<longleftrightarrow> predictions_ok s \<and> list_all (market_balanced (predictions s)) (markets s)"

definition users_balanced :: "db \<Rightarrow> bool" where
  "users_balanced s \<longleftrightarrow> list_all (user_balanced (predictions s)) (users s)"

text \<open>An operation that keeps the whole ledger.\<close>

definition keeps_ledger :: "db \<Rightarrow> db \<Rightarrow> bool" where
  "keeps_ledger s s' \<longleftrightarrow>
     (ledger_ok s \<longrightarrow> ledger_ok s') \<and> (ledger_ok s \<longrightarrow> users_balanced s \<longrightarrow> users_balanced s')"

text \<open>The columns the ledger depends on.\<close>

definition ledger_view :: "prediction \<Rightarrow> uuid \<times> uuid \<times> stroops" where
  "ledger_view p = (p_user p, p_market p, stake_amount_stroops p)"

lemma same_view_facts:
  assumes "map ledger_view ps = map ledger_view qs"
  shows "map p_market ps = map p_market qs"
    and "map (\<lambda>p. (p_user p, p_market p)) ps = map (\<lambda>p. (p_user p, p_market p)) qs"
    and "map stake_amount_stroops (filter (\<lambda>p. p_market p = k) ps) =
         map stake_amount_stroops (filter (\<lambda>p. p_market p = k) qs)"
    and "map stake_amount_stroops (filter (\<lambda>p. p_user p = k) ps) =
         map stake_amount_stroops (filter (\<lambda>p. p_user p = k) qs)"
proof -
  have "length ps = length qs" using assms by (rule map_eq_imp_length_eq)
  then show "map p_market ps = map p_market qs"
    "map (\<lambda>p. (p_user p, p_market p)) ps = map (\<lambda>p. (p_user p, p_market p)) qs"
    "map stake_amount_stroops (filter (\<lambda>p. p_market p = k) ps) =
       map stake_amount_stroops (filter (\<lambda>p. p_market p = k) qs)"
    "map stake_amount_stroops (filter (\<lambda>p. p_user p = k) ps) =
       map stake_amount_stroops (filter (\<lambda>p. p_user p = k) qs)"
    using assms by (induction ps qs rule: list_induct2) (simp_all add: ledger_view_def)
qed

lemma balanced_view:
  assumes "map ledger_view ps = map ledger_view qs"
  shows "market_balanced ps m = market_balanced qs m" and "user_balanced ps u = user_balanced qs u"
  using same_view_facts(3,4) [OF assms] by (metis length_map market_balanced_def user_balanced_def)+

lemma market_balanced_fields:
  "m_id m = m_id m' \<Longrightarrow> participant_count m = participant_count m' \<Longrightarrow>
    total_pool_stroops m = total_pool_stroops m' \<Longrightarrow> market_balanced ps m = market_balanced ps m'"
  by (simp add: market_balanced_def)

text \<open>Operations that only edit a market keep the ledger.\<close>

lemma keeps_ledger_refl: "keeps_ledger s s"
  by (simp add: keeps_ledger_def)

lemma ledger_save_market:
  assumes "ledger_ok s" and "m \<in> set (markets s)" and "m_id m' = m_id m"
    and "participant_count m' = participant_count m"
    and "total_pool_stroops m' = total_pool_stroops m"
    and "markets s' = save_row m_id m' (markets s)" and "users s' = users s"
    and "predictions s' = predictions s"
  shows "ledger_ok s'"
proof -
  from assms(1) have k: "keyed m_id (markets s)" by (simp add: ledger_ok_def predictions_ok_def)
  have ids: "m_id ` set (markets s') = m_id ` set (markets s)"
    using assms(2,3) by (auto simp: assms(6) keys_save_row)
  have "market_balanced (predictions s) m'"
    using assms(1-5) market_balanced_fields [of m' m] by (auto simp: ledger_ok_def list_all_iff)
  with assms(1) have "list_all (market_balanced (predictions s)) (save_row m_id m' (markets s))"
    by (intro list_all_save_row) (simp_all add: ledger_ok_def)
  with assms(1) ids show ?thesis
    by (simp add: ledger_ok_def predictions_ok_def assms(6-8) keyed_save_row)
qed

lemma ledger_edits_market:
  assumes "edits_market s s'" and "ledger_ok s"
  shows "ledger_ok s'"
proof (cases "markets s' = markets s")
  case True
  with assms show ?thesis by (auto simp: edits_market_def ledger_ok_def predictions_ok_def)
next
  case False
  with assms(1) obtain m m' where "m \<in> set (markets s)" "market_edit m m'"
    "markets s' = save_row m_id m' (markets s)" "users s' = users s" "predictions s' = predictions s"
    by (auto simp: edits_market_def)
  then show ?thesis by (intro ledger_save_market [OF assms(2)]) (auto simp: market_edit_def)
qed

text \<open>A new market has no prediction yet, so it is balanced when its counters are 0.\<close>

lemma ledger_new_market:
  assumes "ledger_ok s" and "m_id m \<notin> m_id ` set (markets s)"
    and "participant_count m = 0" and "total_pool_stroops m = 0"
    and "markets s' = markets s @ [m]" and "users s' = users s" and "predictions s' = predictions s"
  shows "ledger_ok s'"
proof -
  from assms(1,2) have "\<forall>p\<in>set (predictions s). p_market p \<noteq> m_id m"
    by (metis ledger_ok_def list_all_iff predictions_ok_def)
  then have "filter (\<lambda>p. p_market p = m_id m) (predictions s) = []" by (simp add: filter_empty_conv)
  with assms show ?thesis
    by (auto simp: ledger_ok_def predictions_ok_def keyed_snoc market_balanced_def list_all_iff)
qed

lemma keeps_ledger_edits_market: "edits_market s s' \<Longrightarrow> keeps_ledger s s'"
  using ledger_edits_market by (auto simp: keeps_ledger_def users_balanced_def edits_market_def)

text \<open>Saving an existing prediction with the same user, market and stake keeps the ledger.\<close>

lemma keeps_ledger_save_prediction:
  assumes "p \<in> set (predictions s)" and "p_id p' = p_id p"
    and "ledger_view p' = ledger_view p" and "users s' = users s" and "markets s' = markets s"
    and "predictions s' = save_row p_id p' (predictions s)"
  shows "keeps_ledger s s'"
proof -
  have "ledger_ok s' \<and> (users_balanced s \<longrightarrow> users_balanced s')" if "ledger_ok s"
  proof -
    from that have "keyed p_id (predictions s)" by (simp add: ledger_ok_def predictions_ok_def)
    then have "by_id p_id (p_id p') (predictions s) = Some p"
      using by_id_in [OF _ assms(1)] assms(2) by simp
    then have view: "map ledger_view (predictions s') = map ledger_view (predictions s)"
      using assms(3) unfolding assms(6) by (rule map_save_row_same)
    have "p_market ` set (predictions s') = p_market ` set (predictions s)"
      using same_view_facts(1) [OF view] by (metis list.set_map)
    then have refs: "list_all (\<lambda>p. p_market p \<in> M) (predictions s') =
        list_all (\<lambda>p. p_market p \<in> M) (predictions s)" for M
      by (auto simp: list_all_iff) (metis image_iff)+
    from that show ?thesis
      unfolding ledger_ok_def predictions_ok_def users_balanced_def refs same_view_facts(2) [OF view]
      by (auto simp: assms(4-6) keyed_save_row list_all_iff
          balanced_view [OF view [unfolded assms(6)]])
  qed
  then show ?thesis by (simp add: keeps_ledger_def)
qed

lemma own_prediction_Some:
  "own_prediction pid user s = Some p \<Longrightarrow> p \<in> set (predictions s) \<and> p_id p = pid \<and> p_user p = u_id user"
  unfolding own_prediction_def by (drule find_one_Some) simp

lemma keeps_ledger_same:
  "users s' = users s \<Longrightarrow> markets s' = markets s \<Longrightarrow> predictions s' = predictions s \<Longrightarrow>
    keeps_ledger s s'"
  by (simp add: keeps_ledger_def ledger_ok_def predictions_ok_def users_balanced_def)

lemma save_prediction_simps [simp]:
  "users (save_prediction p s) = users s" "markets (save_prediction p s) = markets s"
  "predictions (save_prediction p s) = save_row p_id p (predictions s)"
  "calls (save_prediction p s) = calls s"
  by (simp_all add: save_prediction_def)

lemma update_note_ledger:
  assumes "update_note pid text user s = (r, s')" shows "keeps_ledger s s'"
proof (cases "own_prediction pid user s")
  case None
  with assms show ?thesis by (simp add: update_note_def keeps_ledger_refl)
next
  case (Some p)
  with assms have "s' = save_prediction (p\<lparr>p_note := Some text\<rparr>) s"
    by (simp add: update_note_def Let_def)
  with own_prediction_Some [OF Some] show ?thesis
    by (intro keeps_ledger_save_prediction [of p]) (simp_all add: ledger_view_def)
qed

lemma record_claim_simps [simp]:
  "p_id (record_claim r p) = p_id p" "p_user (record_claim r p) = p_user p"
  "p_market (record_claim r p) = p_market p" "chosen_outcome (record_claim r p) = chosen_outcome p"
  "stake_amount_stroops (record_claim r p) = stake_amount_stroops p"
  "payout_claimed (record_claim r p)" "tx_hash (record_claim r p) = Some (pr_tx_hash r)"
  "pr_payout r = Some x \<Longrightarrow> payout_amount_stroops (record_claim r p) = x"
  by (simp_all add: record_claim_def Let_def split: option.splits)

lemma claim_Inr:
  assumes "claim sor pid user s = (Inr p', s')"
  obtains p m receipt where "own_prediction pid user s = Some p" and "\<not> payout_claimed p"
    and "by_id m_id (p_market p) (markets s) = Some m" and "is_resolved m"
    and "resolved_outcome m = Some (chosen_outcome p)"
    and "sb_claim_payout sor (stellar_address user) (on_chain_market_id m) = Inr receipt"
    and "p' = record_claim receipt p"
    and "s' = save_prediction p'
           (call_chain (ClaimPayout (stellar_address user) (on_chain_market_id m)) s)"
  using assms by (auto simp: claim_def Let_def split: service_splits)

lemma claim_Inl:
  assumes "claim sor pid user s = (Inl err, s')"
  shows "users s' = users s" "markets s' = markets s" "predictions s' = predictions s"
  using assms by (auto simp: claim_def Let_def split: service_splits)

lemma claim_ledger:
  assumes "claim sor pid user s = (r, s')" shows "keeps_ledger s s'"
proof (cases r)
  case (Inl err)
  with assms have "claim sor pid user s = (Inl err, s')" by simp
  from claim_Inl [OF this] show ?thesis by (rule keeps_ledger_same)
next
  case (Inr p')
  with assms have "claim sor pid user s = (Inr p', s')" by simp
  then show ?thesis
  proof (rule claim_Inr)
    fix p m receipt
    assume own: "own_prediction pid user s = Some p" and p': "p' = record_claim receipt p"
      and s': "s' = save_prediction p'
        (call_chain (ClaimPayout (stellar_address user) (on_chain_market_id m)) s)"
    from own_prediction_Some [OF own] show ?thesis
      by (intro keeps_ledger_save_prediction [of p _ p']) (simp_all add: s' p' ledger_view_def)
  qed
qed

section \<open>Submission lemmas\<close>

lemma submit_validate_Inr:
  assumes "submit_validate sor e dto user s = (Inr ps, s')"
  obtains m receipt where "by_id m_id (sp_market_id dto) (markets s) = Some m"
    and "is_open_market (now e) m" and "sp_chosen_outcome dto \<in> set (outcome_options m)"
    and "find_one (predicted_by (u_id user) (m_id m)) (predictions s) = None"
    and "sb_submit_prediction sor (stellar_address user) (on_chain_market_id m)
           (sp_chosen_outcome dto) (sp_stake_amount_stroops dto) = Inr receipt"
    and "ps = \<lparr>ps_user = u_id user, ps_market = m_id m, ps_dto = dto,
               ps_tx_hash = pr_tx_hash receipt\<rparr>"
    and "s' = call_chain (SubmitPrediction (stellar_address user) (on_chain_market_id m)
           (sp_chosen_outcome dto) (sp_stake_amount_stroops dto)) s"
  using assms
  by (auto simp: submit_validate_def is_open_market_def Let_def split: service_splits)

lemma submit_validate_frame:
  assumes "submit_validate sor e dto user s = (r, s')" shows "s' = s\<lparr>calls := calls s'\<rparr>"
  using assms by (auto simp: submit_validate_def Let_def call_chain_def split: service_splits)

lemma submit_validate_tables:
  assumes "submit_validate sor e dto user s = (r, s')"
  shows "users s' = users s" "markets s' = markets s" "predictions s' = predictions s"
  using submit_validate_frame [OF assms] by (cases s, cases s', simp)+

definition persisted :: "env \<Rightarrow> pending_submit \<Rightarrow> int \<Rightarrow> db \<Rightarrow> db" where
  "persisted e ps stake s =
     s\<lparr>predictions := save_row p_id (new_prediction e ps stake) (predictions s),
       markets := add_stake_to_market (ps_market ps) stake (markets s),
       users := add_stake_to_user (ps_user ps) stake (users s)\<rparr>"

lemma submit_persist_Inr:
  assumes "submit_persist e ps s = (Inr p, s')"
  obtains stake where "big_int (sp_stake_amount_stroops (ps_dto ps)) = Some stake"
    and "pg_int8 stake" and "p = new_prediction e ps stake" and "s' = persisted e ps stake s"
    and "find_one (predicted_by (ps_user ps) (ps_market ps)) (predictions s) = None"
    and "by_id m_id (ps_market ps) (markets s) \<noteq> None" and "by_id u_id (ps_user ps) (users s) \<noteq> None"
  using assms by (auto simp: submit_persist_def persisted_def Let_def split: option.splits if_splits)

lemma submit_persist_Inl:
  assumes "submit_persist e ps s = (Inl err, s')" shows "s' = s" and "err = query_failed"
  using assms by (auto simp: submit_persist_def Let_def split: option.splits if_splits)

lemma new_prediction_simps [simp]:
  "p_id (new_prediction e ps n) = fresh e 0" "p_user (new_prediction e ps n) = ps_user ps"
  "p_market (new_prediction e ps n) = ps_market ps" "stake_amount_stroops (new_prediction e ps n) = n"
  "chosen_outcome (new_prediction e ps n) = sp_chosen_outcome (ps_dto ps)"
  "payout_claimed (new_prediction e ps n) = False"
  by (simp_all add: new_prediction_def)

lemma staked_simps [simp]:
  "m_id (market_staked n m) = m_id m" "participant_count (market_staked n m) = participant_count m + 1"
  "total_pool_stroops (market_staked n m) = total_pool_stroops m + n"
  "u_id (user_staked n u) = u_id u" "total_predictions (user_staked n u) = total_predictions u + 1"
  "total_staked_stroops (user_staked n u) = total_staked_stroops u + n"
  by (simp_all add: market_staked_def user_staked_def)

lemma market_balanced_add:
  assumes "market_balanced ps m" and "stake_amount_stroops p = n"
  shows "market_balanced (ps @ [p]) (if m_id m = p_market p then market_staked n m else m)"
  using assms by (simp add: market_balanced_def Let_def)

lemma user_balanced_add:
  assumes "user_balanced ps u" and "stake_amount_stroops p = n"
  shows "user_balanced (ps @ [p]) (if u_id u = p_user p then user_staked n u else u)"
  using assms by (simp add: user_balanced_def Let_def)

text \<open>A new prediction with its stake added to its market balances every market again.\<close>

lemma balanced_add_stake:
  "list_all (market_balanced ps) ms \<Longrightarrow>
    list_all (market_balanced (ps @ [p])) (add_stake_to_market (p_market p) (stake_amount_stroops p) ms)"
  "list_all (user_balanced ps) us \<Longrightarrow>
    list_all (user_balanced (ps @ [p])) (add_stake_to_user (p_user p) (stake_amount_stroops p) us)"
  using market_balanced_add [of ps _ p] user_balanced_add [of ps _ p]
  by (fastforce simp: list_all_iff add_stake_to_market_def add_stake_to_user_def update_rows_def)+

lemma keyed_add_stake:
  "keyed m_id (add_stake_to_market mid n ms) = keyed m_id ms"
  "m_id ` set (add_stake_to_market mid n ms) = m_id ` set ms"
  "keyed u_id (add_stake_to_user uid n us) = keyed u_id us"
proof -
  have m: "map m_id (add_stake_to_market mid n ms) = map m_id ms"
    unfolding add_stake_to_market_def by (rule keys_update_rows) simp
  have u: "map u_id (add_stake_to_user uid n us) = map u_id us"
    unfolding add_stake_to_user_def by (rule keys_update_rows) simp
  from m u show "keyed m_id (add_stake_to_market mid n ms) = keyed m_id ms"
    "keyed u_id (add_stake_to_user uid n us) = keyed u_id us" by (simp_all add: keyed_def)
  from m show "m_id ` set (add_stake_to_market mid n ms) = m_id ` set ms" by (metis list.set_map)
qed

text \<open>The transaction keeps the ledger, in any state another request may have left.\<close>

lemma ledger_new_prediction:
  assumes "ledger_ok s" and "predictions s' = predictions s @ [p]"
    and "p_id p \<notin> p_id ` set (predictions s)"
    and "list_all (\<lambda>q. \<not> predicted_by (p_user p) (p_market p) q) (predictions s)"
    and "p_market p \<in> m_id ` set (markets s)"
    and "markets s' = add_stake_to_market (p_market p) (stake_amount_stroops p) (markets s)"
    and "keyed u_id (users s')"
  shows "ledger_ok s'"
proof -
  have "(p_user p, p_market p) \<notin> (\<lambda>p. (p_user p, p_market p)) ` set (predictions s)"
    using assms(4) by (auto simp: list_all_iff predicted_by_def)
  with assms have "predictions_ok s'"
    unfolding ledger_ok_def predictions_ok_def by (simp add: keyed_add_stake keyed_snoc)
  moreover have "list_all (market_balanced (predictions s')) (markets s')"
    using assms(1) balanced_add_stake(1) [of "predictions s" _ p]
    unfolding assms(2,6) by (simp add: ledger_ok_def)
  ultimately show ?thesis by (simp add: ledger_ok_def)
qed

lemma submit_persist_ledger:
  assumes "submit_persist e ps s = (r, s')" and "fresh e 0 \<notin> p_id ` set (predictions s)"
  shows "keeps_ledger s s'"
proof (cases r)
  case (Inl err)
  with assms show ?thesis using submit_persist_Inl keeps_ledger_refl by metis
next
  case (Inr p)
  with assms(1) have "submit_persist e ps s = (Inr p, s')" by simp
  then show ?thesis
  proof (rule submit_persist_Inr)
    fix stake
    assume p: "p = new_prediction e ps stake" and s': "s' = persisted e ps stake s"
      and dup: "find_one (predicted_by (ps_user ps) (ps_market ps)) (predictions s) = None"
      and mk: "by_id m_id (ps_market ps) (markets s) \<noteq> None"
    have rows: "predictions s' = predictions s @ [p]"
      using assms(2) by (simp add: s' persisted_def p save_row_fresh)
    have "ps_market ps \<in> m_id ` set (markets s)"
      using mk by (metis by_id_None)
    moreover have "list_all (\<lambda>q. \<not> predicted_by (ps_user ps) (ps_market ps) q) (predictions s)"
      using dup by (simp add: find_one_None list_all_iff)
    moreover have "ledger_ok s \<Longrightarrow> keyed u_id (users s')"
      by (simp add: s' persisted_def keyed_add_stake ledger_ok_def predictions_ok_def)
    ultimately have "ledger_ok s \<longrightarrow> ledger_ok s'"
      using ledger_new_prediction [OF _ rows] assms(2) by (simp add: p s' persisted_def)
    moreover have "users_balanced s \<longrightarrow> users_balanced s'"
      using balanced_add_stake(2) [of "predictions s" _ p] unfolding rows users_balanced_def
      by (simp add: s' persisted_def p)
    ultimately show "keeps_ledger s s'" by (simp add: keeps_ledger_def)
  qed
qed

text \<open>When a submission is accepted.\<close>

definition submit_accepts ::
  "soroban \<Rightarrow> env \<Rightarrow> submit_prediction_dto \<Rightarrow> user \<Rightarrow> db \<Rightarrow> bool" where
  "submit_accepts sor e dto user s =
     (case (by_id m_id (sp_market_id dto) (markets s), by_id u_id (u_id user) (users s),
            big_int (sp_stake_amount_stroops dto)) of
        (Some m, Some u, Some stake) \<Rightarrow>
          is_open_market (now e) m \<and> sp_chosen_outcome dto \<in> set (outcome_options m) \<and>
          list_all (\<lambda>p. \<not> predicted_by (u_id user) (m_id m) p) (predictions s) \<and>
          is_ok (sb_submit_prediction sor (stellar_address user) (on_chain_market_id m)
            (sp_chosen_outcome dto) (sp_stake_amount_stroops dto)) \<and>
          pg_int8 stake \<and> pg_int4 (participant_count m + 1) \<and>
          pg_int8 (total_pool_stroops m + stake) \<and> pg_int4 (total_predictions u + 1) \<and>
          pg_int8 (total_staked_stroops u + stake)
      | _ \<Rightarrow> False)"

lemma filter_keyed:
  "keyed key t \<Longrightarrow> by_id key k t = Some r \<Longrightarrow> filter (\<lambda>x. key x = k) t = [r]"
proof (induction t)
  case (Cons x xs)
  then show ?case
    by (cases "key x = k") (auto simp: keyed_def filter_empty_conv, metis image_eqI)
qed simp

lemma filter_update_rows:
  "(\<And>x. key (f x) = key x) \<Longrightarrow>
    filter (\<lambda>x. key x = k) (update_rows (\<lambda>x. key x = k) f t) = map f (filter (\<lambda>x. key x = k) t)"
  by (induction t) (simp_all add: update_rows_def)

lemma submit_persist_ok_iff:
  assumes "keyed m_id (markets s)" and "keyed u_id (users s)"
    and "by_id m_id (ps_market ps) (markets s) = Some m"
  shows "is_ok (fst (submit_persist e ps s)) \<longleftrightarrow>
    (case (by_id u_id (ps_user ps) (users s), big_int (sp_stake_amount_stroops (ps_dto ps))) of
       (Some u, Some stake) \<Rightarrow>
         find_one (predicted_by (ps_user ps) (ps_market ps)) (predictions s) = None \<and>
         pg_int8 stake \<and> pg_int4 (participant_count m + 1) \<and>
         pg_int8 (total_pool_stroops m + stake) \<and> pg_int4 (total_predictions u + 1) \<and>
         pg_int8 (total_staked_stroops u + stake)
     | _ \<Rightarrow> False)"
proof -
  have "filter (\<lambda>m. m_id m = ps_market ps) (add_stake_to_market (ps_market ps) n (markets s)) =
      [market_staked n m]" for n
    unfolding add_stake_to_market_def
    by (subst filter_update_rows) (simp_all add: filter_keyed [OF assms(1,3)])
  moreover have "filter (\<lambda>u. u_id u = ps_user ps) (add_stake_to_user (ps_user ps) n (users s)) =
      [user_staked n u]" if "by_id u_id (ps_user ps) (users s) = Some u" for u n
    unfolding add_stake_to_user_def
    by (subst filter_update_rows) (simp_all add: filter_keyed [OF assms(2) that])
  ultimately show ?thesis
    using assms(3)
    by (cases "by_id u_id (ps_user ps) (users s)";
        cases "big_int (sp_stake_amount_stroops (ps_dto ps))")
      (auto simp: submit_persist_def Let_def market_in_range_def user_in_range_def)
qed

lemma submit_validate_ok_iff:
  "is_ok (fst (submit_validate sor e dto user s)) \<longleftrightarrow>
    (case by_id m_id (sp_market_id dto) (markets s) of
       None \<Rightarrow> False
     | Some m \<Rightarrow> is_open_market (now e) m \<and> sp_chosen_outcome dto \<in> set (outcome_options m) \<and>
         find_one (predicted_by (u_id user) (m_id m)) (predictions s) = None \<and>
         is_ok (sb_submit_prediction sor (stellar_address user) (on_chain_market_id m)
            (sp_chosen_outcome dto) (sp_stake_amount_stroops dto)))"
  by (simp add: submit_validate_def is_open_market_def Let_def split: option.split sum.split)

lemma submit_accepts_validates:
  "submit_accepts sor e dto user s \<Longrightarrow> is_ok (fst (submit_validate sor e dto user s))"
  unfolding submit_validate_ok_iff submit_accepts_def
  by (auto simp: find_one_None list_all_iff split: option.splits)

lemma set_with_market:
  "(p, m) \<in> set (with_market s ps) \<longleftrightarrow> p \<in> set ps \<and> by_id m_id (p_market p) (markets s) = Some m"
  by (induction ps) (auto simp: with_market_def List.map_filter_simps split: option.splits)

lemma pw_status_enrich: "pw_status (enrich_with_status pm) = compute_status (fst pm) (snd pm)"
  by (cases pm) (simp add: enrich_with_status_def)

section \<open>Properties\<close>

definition sample_submit :: submit_prediction_dto where
  "sample_submit =
     \<lparr>sp_market_id = ''m1'', sp_chosen_outcome = ''Yes'', sp_stake_amount_stroops = ''20000000''\<rparr>"

lemma big_int_sample: "big_int ''20000000'' = Some 20000000"
  by (simp add: big_int_def trim_def trim_left_def trim_right_def is_space_def signed_literal_def
      read_nat_def digit_val_def char_code_def)

lemmas sample_submit_eval = submit_accepts_def sample_submit_def sample_defs is_open_market_def
  big_int_sample pg_int4_def pg_int8_def

text \<open>
  C4: a submission is accepted exactly when the market exists, is neither resolved, cancelled,
  paused nor ended, offers the outcome, has no prediction of the user yet, the chain takes the
  stake, the stake is a \<open>bigint\<close> and the counters stay in their columns.  Accepted, it stores the
  prediction and adds one participant and the stake to the market; refused, it changes no table.
\<close>

theorem submit_accepted_iff:
  assumes "keyed m_id (markets s)" and "keyed u_id (users s)"
    and "submit sor e dto user s = (r, s')"
  shows "(is_ok r \<longleftrightarrow> submit_accepts sor e dto user s) \<and>
    (case r of
       Inl err \<Rightarrow> s' = s\<lparr>calls := calls s'\<rparr>
     | Inr p \<Rightarrow> by_id p_id (p_id p) (predictions s') = Some p \<and>
         chosen_outcome p = sp_chosen_outcome dto \<and> p_user p = u_id user \<and>
         by_id m_id (sp_market_id dto) (markets s') =
           map_option (market_staked (stake_amount_stroops p))
             (by_id m_id (sp_market_id dto) (markets s)))"
proof -
  obtain v s1 where val: "submit_validate sor e dto user s = (v, s1)" by fastforce
  show ?thesis
  proof (cases v)
    case (Inl err)
    with assms(3) val have "r = Inl err" "s' = s1" by (simp_all add: submit_def)
    moreover have "\<not> submit_accepts sor e dto user s"
      using submit_accepts_validates [of sor e dto user s] val Inl by auto
    ultimately show ?thesis using submit_validate_frame [OF val] by simp
  next
    case (Inr ps)
    then have run: "submit_persist e ps s1 = (r, s')" using assms(3) val by (simp add: submit_def)
    from val Inr obtain m receipt where m: "by_id m_id (sp_market_id dto) (markets s) = Some m"
      and open_m: "is_open_market (now e) m" "sp_chosen_outcome dto \<in> set (outcome_options m)"
      and dup: "find_one (predicted_by (u_id user) (m_id m)) (predictions s) = None"
      and chain: "sb_submit_prediction sor (stellar_address user) (on_chain_market_id m)
           (sp_chosen_outcome dto) (sp_stake_amount_stroops dto) = Inr receipt"
      and ps: "ps = \<lparr>ps_user = u_id user, ps_market = m_id m, ps_dto = dto,
               ps_tx_hash = pr_tx_hash receipt\<rparr>"
      by (auto elim: submit_validate_Inr)
    from m have id: "m_id m = sp_market_id dto" by (auto dest: by_id_Some)
    note t = submit_validate_tables [OF val]
    have "is_ok r \<longleftrightarrow> is_ok (fst (submit_persist e ps s1))" by (simp add: run)
    also have "\<dots> \<longleftrightarrow> submit_accepts sor e dto user s"
      using m open_m dup chain
      by (subst submit_persist_ok_iff [where m = m])
        (auto simp: assms t ps submit_accepts_def id find_one_None list_all_iff split: option.splits)
    finally have ok: "is_ok r \<longleftrightarrow> submit_accepts sor e dto user s" .
    show ?thesis
    proof (cases r)
      case (Inl err)
      with run submit_persist_Inl [of e ps s1 err s'] submit_validate_frame [OF val] ok
      show ?thesis by simp
    next
      case (Inr p)
      with run obtain stake where "p = new_prediction e ps stake" "s' = persisted e ps stake s1"
        by (auto elim: submit_persist_Inr)
      with Inr ok show ?thesis
        by (auto simp: persisted_def by_id_save_row ps t id add_stake_to_market_def by_id_update_rows
            intro!: option.map_cong dest: by_id_Some)
    qed
  qed
qed

theorem submit_accepted_iff_witness:
  "\<exists>p s'. submit sample_chain sample_env sample_submit sample_user sample_db = (Inr p, s') \<and>
     by_id m_id ''m1'' (markets s') = Some (market_staked 20000000 sample_market)"
proof -
  obtain r s' where run: "submit sample_chain sample_env sample_submit sample_user sample_db = (r, s')"
    by fastforce
  have "keyed m_id (markets sample_db)" "keyed u_id (users sample_db)"
    by (simp_all add: keyed_def sample_defs)
  note spec = submit_accepted_iff [OF this run]
  have "submit_accepts sample_chain sample_env sample_submit sample_user sample_db"
    by (simp add: sample_submit_eval)
  with spec obtain p where p: "r = Inr p" by (auto simp: is_ok_iff)
  with run have "stake_amount_stroops p = 20000000"
    by (auto simp: submit_def submit_validate_def submit_persist_def sample_submit_def Let_def
        big_int_sample new_prediction_def split: service_splits)
  with spec p run show ?thesis by (auto simp: sample_submit_def sample_db_def sample_market_def)
qed

text \<open>
  C5: two submissions of one user for one market that both passed the checks before either was
  stored both lock their stake on chain, but only the first is stored: the second fails on the
  unique constraint, with its stake recorded nowhere.
\<close>

theorem concurrent_submit_orphans_stake:
  assumes "submit_validate sor e dto user s = (Inr ps, s1)"
    and "submit_validate sor' e' dto' user s1 = (Inr ps', s2)"
    and "sp_market_id dto' = sp_market_id dto"
    and "submit_persist e'' ps s2 = (Inr p, s3)"
  shows "submit_persist e3 ps' s3 = (Inl query_failed, s3) \<and>
    (\<exists>m. calls s3 = calls s @
       [SubmitPrediction (stellar_address user) m (sp_chosen_outcome dto) (sp_stake_amount_stroops dto),
        SubmitPrediction (stellar_address user) m (sp_chosen_outcome dto') (sp_stake_amount_stroops dto')])"
proof -
  from assms(1) obtain m where m: "by_id m_id (sp_market_id dto) (markets s) = Some m"
    and ps: "ps_user ps = u_id user" "ps_market ps = m_id m" "ps_dto ps = dto"
    and s1: "s1 = call_chain (SubmitPrediction (stellar_address user) (on_chain_market_id m)
           (sp_chosen_outcome dto) (sp_stake_amount_stroops dto)) s"
    by (auto elim!: submit_validate_Inr)
  from assms(2) obtain m' where m': "by_id m_id (sp_market_id dto') (markets s1) = Some m'"
    and ps': "ps_user ps' = u_id user" "ps_market ps' = m_id m'" "ps_dto ps' = dto'"
    and s2: "s2 = call_chain (SubmitPrediction (stellar_address user) (on_chain_market_id m')
           (sp_chosen_outcome dto') (sp_stake_amount_stroops dto')) s1"
    by (auto elim!: submit_validate_Inr)
  from m m' assms(3) have same: "m' = m" by (simp add: s1)
  from assms(4) obtain stake where p: "p = new_prediction e'' ps stake"
    and s3: "s3 = persisted e'' ps stake s2"
    by (auto elim: submit_persist_Inr)
  have "p \<in> set (predictions s3)" by (simp add: s3 persisted_def p in_save_row)
  then have "find_one (predicted_by (ps_user ps') (ps_market ps')) (predictions s3) \<noteq> None"
    by (auto simp: find_one_None predicted_by_def p ps ps' same intro!: bexI [of _ p])
  then have "submit_persist e3 ps' s3 = (Inl query_failed, s3)"
    by (auto simp: submit_persist_def Let_def split: option.splits)
  moreover have "calls s3 = calls s @
       [SubmitPrediction (stellar_address user) (on_chain_market_id m) (sp_chosen_outcome dto) (sp_stake_amount_stroops dto),
        SubmitPrediction (stellar_address user) (on_chain_market_id m) (sp_chosen_outcome dto') (sp_stake_amount_stroops dto')]"
    by (simp add: s3 persisted_def s2 s1 same)
  ultimately show ?thesis by blast
qed

theorem concurrent_submit_orphans_stake_witness:
  "\<exists>ps ps' p s1 s2 s3.
     submit_validate sample_chain sample_env sample_submit sample_user sample_db = (Inr ps, s1) \<and>
     submit_validate sample_chain sample_env sample_submit sample_user s1 = (Inr ps', s2) \<and>
     submit_persist sample_env ps s2 = (Inr p, s3) \<and>
     submit_persist sample_env ps' s3 = (Inl query_failed, s3) \<and> length (calls s3) = 2"
proof -
  let ?v = "submit_validate sample_chain sample_env sample_submit sample_user"
  obtain ps s1 where 1: "?v sample_db = (Inr ps, s1)"
    by (simp add: submit_validate_def sample_submit_def sample_defs Let_def)
  then have t: "markets s1 = markets sample_db" "predictions s1 = predictions sample_db"
    "users s1 = users sample_db" by (auto dest: submit_validate_tables)
  obtain ps' s2 where 2: "?v s1 = (Inr ps', s2)"
    using t by (simp add: submit_validate_def sample_submit_def sample_defs Let_def)
  then have t2: "markets s2 = markets sample_db" "predictions s2 = predictions sample_db"
    "users s2 = users sample_db" using t by (auto dest: submit_validate_tables)
  have ps: "ps_user ps = ''u1''" "ps_market ps = ''m1''" "ps_dto ps = sample_submit"
    using 1 by (auto elim!: submit_validate_Inr simp: sample_user_def sample_submit_def dest: by_id_Some)
  obtain p s3 where 3: "submit_persist sample_env ps s2 = (Inr p, s3)"
    by (simp add: submit_persist_def Let_def ps t2 sample_submit_def big_int_sample
        add_stake_to_market_def add_stake_to_user_def update_rows_def market_in_range_def
        user_in_range_def pg_int4_def pg_int8_def sample_defs)
  from concurrent_submit_orphans_stake [OF 1 2 refl 3, of sample_env]
  have "submit_persist sample_env ps' s3 = (Inl query_failed, s3)" "length (calls s3) = 2"
    by (auto simp: sample_db_def empty_db_def)
  with 1 2 3 show ?thesis by blast
qed


definition sample_soroban :: soroban where
  "sample_soroban = soroban_service
     \<lparr>contract_id = ''C'', server_secret_key = ''S'', secret_error = (\<lambda>k. None),
      address_error = (\<lambda>a. None), scaddress_error = (\<lambda>a. None), u64_error = (\<lambda>n. None),
      u128_error = (\<lambda>n. None), clock = 7, suffix = ''x''\<rparr>
     \<lparr>rpc_account = Inr (), rpc_simulation = None, rpc_send = Inr ''h'', rpc_status = (\<lambda>n. TxSuccess)\<rparr>"

definition sample_won_db :: db where
  "sample_won_db = sample_db\<lparr>predictions := [sample_prediction],
     markets := [sample_market\<lparr>is_resolved := True, resolved_outcome := Some ''Yes'',
                               m_resolved_at := Some 900\<rparr>]\<rparr>"


text \<open>
  A cancelled market still pays.  Its predictions were refunded on chain when it was cancelled,
  but neither the resolution nor the claim looks at the cancellation: the market is resolved, and
  the winning prediction then claims the full payout.
\<close>

theorem cancelled_market_pays:
  assumes "keyed m_id (markets s)" and "find_market mid (markets s) = Some m" and "m_id m = mid"
    and "m_cancelled m" and "\<not> is_resolved m"
    and "own_prediction pid user s = Some p" and "p_market p = mid" and "\<not> payout_claimed p"
    and "chosen_outcome p \<in> set (outcome_options m)"
    and "sb_resolve_market sor (on_chain_market_id m) (chosen_outcome p) = Inr ()"
    and "sb_claim_payout sor (stellar_address user) (on_chain_market_id m) = Inr receipt"
    and "pr_payout receipt = Some amount"
  shows "\<exists>m' s1 p' s2. resolve_market sor e mid (chosen_outcome p) s = (Inr m', s1) \<and>
    m_cancelled m' \<and> claim sor pid user s1 = (Inr p', s2) \<and> payout_amount_stroops p' = amount"
proof -
  let ?m = "m\<lparr>is_resolved := True, resolved_outcome := Some (chosen_outcome p),
             m_resolved_at := Some (now e)\<rparr>"
  obtain s1 where run: "resolve_market sor e mid (chosen_outcome p) s = (Inr ?m, s1)"
    and s1: "markets s1 = save_row m_id ?m (markets s)" "predictions s1 = predictions s"
    using assms(2,5,9,10)
    by (simp add: resolve_market_def find_by_id_or_on_chain_id_def Let_def)
  have "by_id m_id mid (markets s1) = Some ?m" using assms(3) by (simp add: s1 by_id_save_row)
  moreover have "own_prediction pid user s1 = Some p"
    using assms(6) by (simp add: own_prediction_def s1)
  ultimately obtain s2 where "claim sor pid user s1 = (Inr (record_claim receipt p), s2)"
    using assms(7,8,11) by (simp add: claim_def Let_def)
  with run assms(4,12) show ?thesis by fastforce
qed

theorem cancelled_market_pays_witness:
  "\<exists>m' s1 p' s2.
     resolve_market sample_chain sample_env ''m1'' ''Yes''
       (sample_db\<lparr>predictions := [sample_prediction], markets := [sample_market\<lparr>m_cancelled := True\<rparr>]\<rparr>) =
       (Inr m', s1) \<and> m_cancelled m' \<and>
     claim sample_chain ''p1'' sample_user s1 = (Inr p', s2) \<and> payout_amount_stroops p' = 15000000"
proof -
  let ?m = "sample_market\<lparr>m_cancelled := True\<rparr>"
  let ?s = "sample_db\<lparr>predictions := [sample_prediction], markets := [?m]\<rparr>"
  have "keyed m_id (markets ?s)" "find_market ''m1'' (markets ?s) = Some ?m" "m_id ?m = ''m1''"
    "m_cancelled ?m" "\<not> is_resolved ?m" "own_prediction ''p1'' sample_user ?s = Some sample_prediction"
    "p_market sample_prediction = ''m1''" "\<not> payout_claimed sample_prediction"
    "chosen_outcome sample_prediction \<in> set (outcome_options ?m)"
    by (simp_all add: keyed_def find_market_def own_prediction_def sample_defs)
  from cancelled_market_pays [OF this, where sor = sample_chain and e = sample_env] show ?thesis
    by (simp add: sample_chain_def sample_prediction_def)
qed

text \<open>
  The status filter of the listing, evaluated by the database, selects exactly the predictions
  whose status, computed afterwards in the service, is the requested one, when a resolved market
  has an outcome.
\<close>

theorem find_mine_filter_agrees:
  assumes "list_all market_ok (markets s)"
  shows "list_all (\<lambda>x. pw_status x = st) (data (find_mine user page limit (Some st) s)) \<and>
    total (find_mine user page limit (Some st) s) =
      length (filter (\<lambda>pm. compute_status (fst pm) (snd pm) = st)
        (with_market s (filter (\<lambda>p. p_user p = u_id user) (predictions s))))"
proof -
  let ?mine = "with_market s (filter (\<lambda>p. p_user p = u_id user) (predictions s))"
  have "market_ok m" if "(p, m) \<in> set ?mine" for p m
    using that assms by (auto simp: set_with_market list_all_iff dest: by_id_Some)
  then have agree: "status_condition st pm \<longleftrightarrow> compute_status (fst pm) (snd pm) = st"
    if "pm \<in> set ?mine" for pm
    using that
    by (cases pm; cases st) (fastforce simp: market_ok_def split: option.splits if_splits)+
  then have "filter (status_condition st) ?mine =
      filter (\<lambda>pm. compute_status (fst pm) (snd pm) = st) ?mine"
    by (rule filter_cong [OF refl])
  moreover have "list_all (\<lambda>x. pw_status x = st)
      (map enrich_with_status (page_of pg lim
        (sort_desc f (filter (\<lambda>pm. compute_status (fst pm) (snd pm) = st) ?mine))))" for pg lim f
    using set_page_of [of pg lim "sort_desc f (filter (\<lambda>pm. compute_status (fst pm) (snd pm) = st) ?mine)"]
    by (auto simp: list_all_iff pw_status_enrich simp del: compute_status.simps)
  ultimately show ?thesis by (simp add: find_mine_def Let_def del: compute_status.simps)
qed

theorem find_mine_filter_agrees_witness:
  "total (find_mine sample_user None None (Some PsWon) sample_won_db) = 1"
proof -
  have "list_all market_ok (markets sample_won_db)"
    by (simp add: sample_won_db_def sample_defs market_ok_def)
  from find_mine_filter_agrees [OF this] show ?thesis
    by (simp add: with_market_def map_filter_def sample_won_db_def sample_defs)
qed

end
