(* ===== verification/ChainEvents.thy ===== *)
theory ChainEvents
  imports Soroban
begin

text \<open>
  Reading contract events: \<open>SorobanService.getEvents\<close> with its normalisation of the JSON the RPC
  server returns (\<open>backend/src/soroban/soroban.service.ts\<close>), and the readers with which
  \<open>SorobanListener\<close> takes fields out of an event's payload (\<open>soroban.listener.ts\<close>).
\<close>

section \<open>Events\<close>

record rpc_event =
  ev_id :: string
  ev_ledger :: rat
  ev_topic :: "string list"
  ev_value :: "(string \<times> jsval) list"

definition to_number :: "jsval \<Rightarrow> rat option" where
  "to_number v =
     (case v of
        JNum x \<Rightarrow> finite_num x
      | JStr s \<Rightarrow> finite_num (number_of_text s)
      | _ \<Rightarrow> None)"

definition topic_text :: "jsval \<Rightarrow> string option" where
  "topic_text v =
     (case v of
        JStr s \<Rightarrow> Some s
      | JObj ps \<Rightarrow>
          (case get_prop ps ''symbol'' of
             JStr s \<Rightarrow> Some s
           | _ \<Rightarrow> (case get_prop ps ''value'' of JStr s \<Rightarrow> Some s | _ \<Rightarrow> None))
      | _ \<Rightarrow> None)"

definition to_string_array :: "jsval \<Rightarrow> string list" where
  "to_string_array v = (case v of JArr xs \<Rightarrow> List.map_filter topic_text xs | _ \<Rightarrow> [])"

definition to_record :: "jsval \<Rightarrow> (string \<times> jsval) list option" where
  "to_record v = (case v of JObj ps \<Rightarrow> Some ps | _ \<Rightarrow> None)"

text \<open>\<open>gen\<close> is the random id of an event without one.\<close>

definition normalize_event :: "string \<Rightarrow> jsval \<Rightarrow> rpc_event option" where
  "normalize_event gen raw =
     (case raw of
        JObj ps \<Rightarrow>
          (case to_number (get_prop ps ''ledger'') of
             None \<Rightarrow> None
           | Some ledger \<Rightarrow>
               (case to_record (coalesce (get_prop ps ''value'') (get_prop ps ''data'')) of
                  None \<Rightarrow> None
                | Some value \<Rightarrow>
                    Some \<lparr>ev_id = (case get_prop ps ''id'' of JStr i \<Rightarrow> i | _ \<Rightarrow> gen),
                          ev_ledger = ledger,
                          ev_topic = to_string_array
                            (coalesce (get_prop ps ''topic'') (get_prop ps ''topics'')),
                          ev_value = value\<rparr>))
      | _ \<Rightarrow> None)"

text \<open>
  The reply to the request: the fetch throws, or there is a status and a body, whose text may not
  be JSON.
\<close>

datatype http_reply = FetchFailed string | Replied int "jsval option"

definition prop_of :: "jsval \<Rightarrow> string \<Rightarrow> jsval" where
  "prop_of v k = (case v of JObj ps \<Rightarrow> get_prop ps k | _ \<Rightarrow> JUndefined)"

definition get_events ::
  "bool \<Rightarrow> rat \<Rightarrow> string \<Rightarrow> http_reply \<Rightarrow> (rpc_event list \<times> rat) chain_result" where
  "get_events configured from_ledger gen reply =
     (if \<not> configured then Inr ([], from_ledger)
      else case reply of
        FetchFailed err \<Rightarrow> Inl err
      | Replied status body \<Rightarrow>
          if \<not> (200 \<le> status \<and> status < 300) then Inl (''Soroban RPC error: HTTP '' @ show_int status)
          else case body of
            None \<Rightarrow> Inl ''SyntaxError''
          | Some b \<Rightarrow>
              if b = JNull then Inl ''TypeError''
              else if truthy (prop_of b ''error'') then
                Inl (case prop_of (prop_of b ''error'') ''message'' of
                       JStr msg \<Rightarrow> msg | _ \<Rightarrow> ''Unknown Soroban RPC error'')
              else
                (let result = prop_of b ''result'';
                     latest = (case prop_of result ''latestLedger'' of
                                 JNum (Fin x) \<Rightarrow> x | _ \<Rightarrow> from_ledger) in
                 case prop_of result ''events'' of
                   JUndefined \<Rightarrow> Inr ([], latest)
                 | JNull \<Rightarrow> Inr ([], latest)
                 | JArr raws \<Rightarrow> Inr (List.map_filter (normalize_event gen) raws, latest)
                 | _ \<Rightarrow> Inl ''TypeError''))"

section \<open>Fields of a payload\<close>

type_synonym payload = "(string \<times> jsval) list"

definition read_string :: "payload \<Rightarrow> string \<Rightarrow> string option" where
  "read_string ps k = (case get_prop ps k of JStr s \<Rightarrow> Some s | _ \<Rightarrow> None)"

definition read_number :: "payload \<Rightarrow> string \<Rightarrow> rat option" where
  "read_number ps k =
     (case get_prop ps k of
        JNum x \<Rightarrow> finite_num x
      | JStr s \<Rightarrow> finite_num (number_of_text s)
      | _ \<Rightarrow> None)"

text \<open>The outer option is \<open>null\<close>, the inner one an invalid date.\<close>

definition read_date :: "payload \<Rightarrow> string \<Rightarrow> timestamp option option" where
  "read_date ps k = map_option (\<lambda>seconds. date_of_ms (seconds * 1000)) (read_number ps k)"

definition read_boolean :: "payload \<Rightarrow> string \<Rightarrow> bool option" where
  "read_boolean ps k =
     (case get_prop ps k of
        JBool b \<Rightarrow> Some b
      | JStr s \<Rightarrow> if s = ''true'' then Some True else if s = ''false'' then Some False else None
      | _ \<Rightarrow> None)"

text \<open>\<open>BigInt\<close> of a number that is not an integer throws outside the \<open>try\<close>.\<close>

definition read_big_int_string :: "payload \<Rightarrow> string \<Rightarrow> int option chain_result" where
  "read_big_int_string ps k =
     (case get_prop ps k of
        JStr s \<Rightarrow> Inr (big_int s)
      | JNum (Fin x) \<Rightarrow> if x = of_int \<lfloor>x\<rfloor> then Inr (Some \<lfloor>x\<rfloor>) else Inl ''RangeError''
      | _ \<Rightarrow> Inr None)"

text \<open>The first of several keys with a value; a later key is read only after an absent one.\<close>

fun first_big_int :: "payload \<Rightarrow> string list \<Rightarrow> int \<Rightarrow> int chain_result" where
  "first_big_int ps [] d = Inr d"
| "first_big_int ps (k # ks) d =
     (case read_big_int_string ps k of
        Inl err \<Rightarrow> Inl err
      | Inr (Some i) \<Rightarrow> Inr i
      | Inr None \<Rightarrow> first_big_int ps ks d)"

definition read_string_array :: "payload \<Rightarrow> string \<Rightarrow> string list option" where
  "read_string_array ps k =
     (case get_prop ps k of
        JArr xs \<Rightarrow>
          (let items = List.map_filter (\<lambda>v. case v of JStr s \<Rightarrow> Some s | _ \<Rightarrow> None) xs
           in if items = [] then None else Some items)
      | _ \<Rightarrow> None)"

definition payload_market_id :: "payload \<Rightarrow> string option" where
  "payload_market_id ps =
     nonempty (or_else (read_string ps ''market_id'')
       (or_else (read_string ps ''on_chain_market_id'') (read_string ps ''marketId'')))"

definition payload_predictor :: "payload \<Rightarrow> string option" where
  "payload_predictor ps =
     nonempty (or_else (read_string ps ''predictor'') (read_string ps ''user_address''))"

section \<open>Event types\<close>

datatype market_event = EvMarketCreated | EvMarketResolved | EvPredictionSubmitted | EvPayoutClaimed

definition detect_event_type :: "rpc_event \<Rightarrow> market_event option" where
  "detect_event_type ev =
     (let topics = map to_lower (ev_topic ev) in
      if ''created'' \<in> set topics \<or> ''marketcreated'' \<in> set topics then Some EvMarketCreated
      else if ''reslvd'' \<in> set topics \<or> ''marketresolved'' \<in> set topics then Some EvMarketResolved
      else if ''submitd'' \<in> set topics \<or> ''predictionsubmitted'' \<in> set topics
        then Some EvPredictionSubmitted
      else if ''payclmd'' \<in> set topics \<or> ''payoutclaimed'' \<in> set topics then Some EvPayoutClaimed
      else
        (let explicit = read_string (ev_value ev) ''event'' in
         if explicit = Some ''MarketCreated'' then Some EvMarketCreated
         else if explicit = Some ''MarketResolved'' then Some EvMarketResolved
         else if explicit = Some ''PredictionSubmitted'' then Some EvPredictionSubmitted
         else if explicit = Some ''PayoutClaimed'' then Some EvPayoutClaimed
         else None))"

end
