(* ===== verification/Listener.thy ===== *)
theory Listener
  imports Predictions ChainEvents
begin

text \<open>
  \<open>SorobanListener\<close> (\<open>backend/src/soroban/soroban.listener.ts\<close>): a cron job that polls contract
  events from the ledger after the last processed one and mirrors markets, resolutions,
  predictions and payouts into the tables the API writes too.  Its handlers are not transactions.
\<close>

section \<open>Handlers\<close>

text \<open>
  A handler returns the exception that aborts the poll, or unit, with the state.  \<open>e\<close> has the clock
  and the new ids.
\<close>

definition market_by_chain_id :: "string \<Rightarrow> db \<Rightarrow> market option" where
  "market_by_chain_id cid s = find_one (\<lambda>m. on_chain_market_id m = cid) (markets s)"

definition user_by_address :: "string \<Rightarrow> db \<Rightarrow> user option" where
  "user_by_address a s = find_one (\<lambda>u. stellar_address u = a) (users s)"

definition find_market_from_payload :: "payload \<Rightarrow> db \<Rightarrow> market option" where
  "find_market_from_payload ps s =
     (case payload_market_id ps of None \<Rightarrow> None | Some cid \<Rightarrow> market_by_chain_id cid s)"

definition payload_creator :: "payload \<Rightarrow> db \<Rightarrow> user option" where
  "payload_creator ps s =
     (case nonempty (or_else (read_string ps ''creator'') (read_string ps ''creator_address'')) of
        None \<Rightarrow> None
      | Some a \<Rightarrow> user_by_address a s)"

text \<open>The market of a creation event, with the two dates and the two counters as read.\<close>

definition listened_market ::
  "env \<Rightarrow> payload \<Rightarrow> string \<Rightarrow> uuid option \<Rightarrow> timestamp \<Rightarrow> timestamp \<Rightarrow> stroops \<Rightarrow> int \<Rightarrow> market" where
  "listened_market e ps cid creator end_at res_at pool count =
     \<lparr>m_id = fresh e 0, on_chain_market_id = cid, m_creator = creator,
      m_title = (case read_string ps ''title'' of None \<Rightarrow> ''Market '' @ cid | Some t \<Rightarrow> t),
      m_description =
        (case read_string ps ''description'' of None \<Rightarrow> ''On-chain market'' | Some t \<Rightarrow> t),
      m_category = (case read_string ps ''category'' of None \<Rightarrow> ''OnChain'' | Some t \<Rightarrow> t),
      outcome_options =
        (case read_string_array ps ''outcome_options'' of None \<Rightarrow> [''YES'', ''NO''] | Some xs \<Rightarrow> xs),
      m_end_time = end_at, resolution_time = res_at, is_resolved = False, resolved_outcome = None,
      m_resolved_at = None,
      is_public = (case read_boolean ps ''is_public'' of None \<Rightarrow> True | Some b \<Rightarrow> b),
      m_cancelled = False, is_featured = False, is_paused = False, featured_at = None,
      total_pool_stroops = pool, participant_count = count, m_created_at = now e\<rparr>"

definition default_date :: "timestamp \<Rightarrow> timestamp option option \<Rightarrow> timestamp option" where
  "default_date d x = (case x of None \<Rightarrow> Some d | Some t \<Rightarrow> t)"

text \<open>
  The entity to save, or the error: the pool is no \<open>BigInt\<close>, or saving fails on an invalid date, a
  fractional count or a value outside its column.
\<close>

definition payload_pool :: "payload \<Rightarrow> int chain_result" where
  "payload_pool ps = first_big_int ps [''total_pool_stroops''] 0"

definition payload_count :: "payload \<Rightarrow> rat" where
  "payload_count ps = (case read_number ps ''participant_count'' of None \<Rightarrow> 0 | Some x \<Rightarrow> x)"

definition listen_market :: "env \<Rightarrow> payload \<Rightarrow> string \<Rightarrow> db \<Rightarrow> market result" where
  "listen_market e ps cid s =
     (case payload_pool ps of
        Inl err \<Rightarrow> Inl (InternalError err)
      | Inr pool \<Rightarrow>
          (let count = payload_count ps in
           case (default_date (now e + 24 * 60 * 60 * 1000) (read_date ps ''end_time''),
                 default_date (now e + 48 * 60 * 60 * 1000) (read_date ps ''resolution_time'')) of
             (Some end_at, Some res_at) \<Rightarrow>
               if pg_int8 pool \<and> count = of_int \<lfloor>count\<rfloor> \<and> pg_int4 \<lfloor>count\<rfloor> then
                 Inr (listened_market e ps cid (map_option u_id (payload_creator ps s))
                        end_at res_at pool \<lfloor>count\<rfloor>)
               else Inl query_failed
           | _ \<Rightarrow> Inl query_failed))"

definition handle_market_created :: "env \<Rightarrow> payload \<Rightarrow> db \<Rightarrow> unit result \<times> db" where
  "handle_market_created e ps s =
     (case payload_market_id ps of
        None \<Rightarrow> (Inr (), s)
      | Some cid \<Rightarrow>
          if market_by_chain_id cid s \<noteq> None then (Inr (), s)
          else
            (case listen_market e ps cid s of
               Inl err \<Rightarrow> (Inl err, s)
             | Inr m \<Rightarrow> (Inr (), save_market (stored_market m) s)))"

definition handle_market_resolved :: "payload \<Rightarrow> db \<Rightarrow> unit result \<times> db" where
  "handle_market_resolved ps s =
     (case find_market_from_payload ps s of
        None \<Rightarrow> (Inr (), s)
      | Some m \<Rightarrow>
          (Inr (), save_market
             (m\<lparr>is_resolved := True,
                resolved_outcome := or_else (read_string ps ''resolved_outcome'')
                  (or_else (read_string ps ''outcome'') (resolved_outcome m))\<rparr>) s))"

definition listened_prediction :: "env \<Rightarrow> payload \<Rightarrow> uuid \<Rightarrow> uuid \<Rightarrow> stroops \<Rightarrow> prediction" where
  "listened_prediction e ps uid mid stake =
     \<lparr>p_id = fresh e 0, p_user = uid, p_market = mid,
      chosen_outcome = (case read_string ps ''chosen_outcome'' of None \<Rightarrow> ''UNKNOWN'' | Some t \<Rightarrow> t),
      stake_amount_stroops = stake, payout_claimed = False, payout_amount_stroops = 0,
      tx_hash = read_string ps ''tx_hash'', p_note = None, submitted_at = now e\<rparr>"

definition add_participant :: "stroops \<Rightarrow> market \<Rightarrow> market" where
  "add_participant stake m =
     m\<lparr>participant_count := participant_count m + 1,
       total_pool_stroops := total_pool_stroops m + stake\<rparr>"

definition payload_stake :: "payload \<Rightarrow> int chain_result" where
  "payload_stake ps = first_big_int ps [''stake_amount_stroops'', ''stake_amount''] 0"

text \<open>The two saves; the second can fail after the first.\<close>

definition store_listened ::
  "env \<Rightarrow> payload \<Rightarrow> market \<Rightarrow> user \<Rightarrow> stroops \<Rightarrow> db \<Rightarrow> unit result \<times> db" where
  "store_listened e ps m u stake s =
     (if \<not> pg_int8 stake then (Inl query_failed, s)
      else
        (let s1 = save_prediction (listened_prediction e ps (u_id u) (m_id m) stake) s;
             m' = add_participant stake m in
         if market_in_range m' then (Inr (), save_market m' s1) else (Inl query_failed, s1)))"

definition handle_prediction_submitted :: "env \<Rightarrow> payload \<Rightarrow> db \<Rightarrow> unit result \<times> db" where
  "handle_prediction_submitted e ps s =
     (case find_market_from_payload ps s of
        None \<Rightarrow> (Inr (), s)
      | Some m \<Rightarrow>
          (case payload_predictor ps of
             None \<Rightarrow> (Inr (), s)
           | Some a \<Rightarrow>
               (case user_by_address a s of
                  None \<Rightarrow> (Inr (), s)
                | Some u \<Rightarrow>
                    if find_one (predicted_by (u_id u) (m_id m)) (predictions s) \<noteq> None
                    then (Inr (), s)
                    else
                      (case payload_stake ps of
                         Inl err \<Rightarrow> (Inl (InternalError err), s)
                       | Inr stake \<Rightarrow> store_listened e ps m u stake s))))"

definition listened_claim :: "payload \<Rightarrow> prediction \<Rightarrow> prediction chain_result" where
  "listened_claim ps p =
     (case first_big_int ps [''payout_amount_stroops'', ''payout_amount''] (payout_amount_stroops p) of
        Inl err \<Rightarrow> Inl err
      | Inr amount \<Rightarrow> Inr (p\<lparr>payout_claimed := True, payout_amount_stroops := amount\<rparr>))"

definition handle_payout_claimed :: "payload \<Rightarrow> db \<Rightarrow> unit result \<times> db" where
  "handle_payout_claimed ps s =
     (case find_market_from_payload ps s of
        None \<Rightarrow> (Inr (), s)
      | Some m \<Rightarrow>
          (case payload_predictor ps of
             None \<Rightarrow> (Inr (), s)
           | Some a \<Rightarrow>
               (case user_by_address a s of
                  None \<Rightarrow> (Inr (), s)
                | Some u \<Rightarrow>
                    (case find_one (predicted_by (u_id u) (m_id m)) (predictions s) of
                       None \<Rightarrow> (Inr (), s)
                     | Some p \<Rightarrow>
                         (case listened_claim ps p of
                            Inl err \<Rightarrow> (Inl (InternalError err), s)
                          | Inr p' \<Rightarrow>
                              if pg_int8 (payout_amount_stroops p') then (Inr (), save_prediction p' s)
                              else (Inl query_failed, s))))))"

definition process_event :: "env \<Rightarrow> rpc_event \<Rightarrow> db \<Rightarrow> unit result \<times> db" where
  "process_event e ev s =
     (case detect_event_type ev of
        Some EvMarketCreated \<Rightarrow> handle_market_created e (ev_value ev) s
      | Some EvMarketResolved \<Rightarrow> handle_market_resolved (ev_value ev) s
      | Some EvPredictionSubmitted \<Rightarrow> handle_prediction_submitted e (ev_value ev) s
      | Some EvPayoutClaimed \<Rightarrow> handle_payout_claimed (ev_value ev) s
      | None \<Rightarrow> (Inr (), s))"

section \<open>Polling\<close>

text \<open>
  \<open>checkpoint\<close> is the row \<open>soroban:last_processed_ledger\<close>: \<open>String(ledger)\<close>, which \<open>Number\<close> reads back,
  so the number itself.  \<open>notified\<close> are the ledgers handed to the reconciliation service.
\<close>

record listener_state =
  tables :: db
  checkpoint :: "rat option"
  is_polling :: bool
  notified :: "rat list"

definition last_processed_ledger :: "listener_state \<Rightarrow> rat" where
  "last_processed_ledger st = (case checkpoint st of None \<Rightarrow> 0 | Some x \<Rightarrow> x)"

definition poll_from :: "listener_state \<Rightarrow> rat" where
  "poll_from st = max (last_processed_ledger st + 1) 1"

text \<open>The loop over the ordered events; \<open>envs n\<close> is the environment of the \<open>n\<close>-th event.\<close>

fun process_events ::
  "(nat \<Rightarrow> env) \<Rightarrow> nat \<Rightarrow> rpc_event list \<Rightarrow> rat \<Rightarrow> db \<Rightarrow> rat result \<times> db" where
  "process_events envs n [] mx s = (Inr mx, s)"
| "process_events envs n (ev # evs) mx s =
     (case process_event (envs n) ev s of
        (Inl err, s') \<Rightarrow> (Inl err, s')
      | (Inr _, s') \<Rightarrow>
          process_events envs (Suc n) evs (if ev_ledger ev > mx then ev_ledger ev else mx) s')"

text \<open>
  One run of the cron job.  \<open>contract\<close> is \<open>SOROBAN_CONTRACT_ID\<close> and \<open>reply\<close> what \<open>getEvents\<close> returns for
  the first ledger it is asked for.
\<close>

definition poll_events ::
  "string option \<Rightarrow> (rat \<Rightarrow> (rpc_event list \<times> rat) chain_result) \<Rightarrow> (nat \<Rightarrow> env) \<Rightarrow> listener_state
    \<Rightarrow> listener_state" where
  "poll_events contract reply envs st =
     (if nonempty contract = None \<or> contract = Some ''your-contract-id-here'' then st
      else if is_polling st then st
      else
        (case reply (poll_from st) of
           Inl _ \<Rightarrow> st
         | Inr (events, latest) \<Rightarrow>
             if events = [] then
               (if latest > last_processed_ledger st then st\<lparr>checkpoint := Some latest\<rparr> else st)
             else
               (case process_events envs 0 (sort_key ev_ledger events) (last_processed_ledger st)
                       (tables st) of
                  (Inl _, s') \<Rightarrow> st\<lparr>tables := s'\<rparr>
                | (Inr mx, s') \<Rightarrow>
                    st\<lparr>tables := s', checkpoint := Some (max mx latest),
                       notified := notified st @ [max mx latest]\<rparr>)))"

section \<open>Lemmas on the handlers\<close>

lemma listen_market_Inr:
  assumes "listen_market e ps cid s = Inr m"
  shows "on_chain_market_id m = cid" "m_id m = fresh e 0" "is_resolved m = False"
    "resolved_outcome m = None"
    "payload_pool ps = Inr (total_pool_stroops m)" "payload_count ps = of_int (participant_count m)"
  using assms
  by (simp_all add: listen_market_def Let_def listened_market_def
      split: sum.splits option.splits if_splits) auto

lemma handle_market_created_cases:
  assumes "handle_market_created e ps s = (Inr x, s')"
  obtains (skipped) "s' = s"
      and "case payload_market_id ps of None \<Rightarrow> True | Some cid \<Rightarrow> market_by_chain_id cid s \<noteq> None"
    | (saved) cid m where "payload_market_id ps = Some cid" and "market_by_chain_id cid s = None"
      and "listen_market e ps cid s = Inr m" and "s' = save_market (stored_market m) s"
proof (cases "payload_market_id ps")
  case None
  with assms show thesis by (intro skipped) (simp_all add: handle_market_created_def)
next
  case (Some cid)
  show thesis
  proof (cases "market_by_chain_id cid s")
    case None
    with assms Some obtain m where m: "listen_market e ps cid s = Inr m"
      by (cases "listen_market e ps cid s") (simp_all add: handle_market_created_def)
    with None Some assms have "s' = save_market (stored_market m) s"
      by (simp add: handle_market_created_def)
    with Some None m show thesis by (rule saved)
  next
    case (Some m)
    with \<open>payload_market_id ps = Some cid\<close> assms show thesis
      by (intro skipped) (simp_all add: handle_market_created_def)
  qed
qed

lemma found_by_payload:
  assumes "find_market_from_payload ps s = Some m"
  obtains cid where "payload_market_id ps = Some cid" and "market_by_chain_id cid s = Some m"
    and "m \<in> set (markets s)" and "on_chain_market_id m = cid"
proof -
  from assms obtain cid where cid: "payload_market_id ps = Some cid" "market_by_chain_id cid s = Some m"
    by (auto simp: find_market_from_payload_def split: option.splits)
  moreover from cid(2) have "m \<in> set (markets s) \<and> on_chain_market_id m = cid"
    unfolding market_by_chain_id_def by (rule find_one_Some)
  ultimately show thesis by (intro that) auto
qed

lemma find_market_after_save:
  assumes "keyed m_id (markets s)" and "find_market_from_payload ps s = Some m"
    and "m_id m' = m_id m" and "on_chain_market_id m' = on_chain_market_id m"
    and "markets s' = save_row m_id m' (markets s)"
  shows "find_market_from_payload ps s' = Some m'"
proof -
  obtain cid where cid: "payload_market_id ps = Some cid" "market_by_chain_id cid s = Some m"
    "on_chain_market_id m = cid" using assms(2) by (rule found_by_payload)
  then have "market_by_chain_id cid s' = Some m'"
    using assms(4) find_one_save_row [OF assms(1) _ assms(3)]
    by (simp add: market_by_chain_id_def assms(5))
  with cid show ?thesis by (simp add: find_market_from_payload_def)
qed

lemma add_participant_simps [simp]:
  "m_id (add_participant n m) = m_id m"
  "on_chain_market_id (add_participant n m) = on_chain_market_id m"
  "add_participant n m = market_staked n m"
  by (simp_all add: add_participant_def market_staked_def)

text \<open>The reads a handler makes before it changes anything.\<close>

definition listened_pair :: "payload \<Rightarrow> db \<Rightarrow> (market \<times> user) option" where
  "listened_pair ps s =
     (case (find_market_from_payload ps s, payload_predictor ps) of
        (Some m, Some a) \<Rightarrow> map_option (Pair m) (user_by_address a s)
      | _ \<Rightarrow> None)"

lemma handle_prediction_submitted_eq:
  "handle_prediction_submitted e ps s =
    (case listened_pair ps s of
       None \<Rightarrow> (Inr (), s)
     | Some (m, u) \<Rightarrow>
         if find_one (predicted_by (u_id u) (m_id m)) (predictions s) \<noteq> None then (Inr (), s)
         else
           (case payload_stake ps of
              Inl err \<Rightarrow> (Inl (InternalError err), s)
            | Inr stake \<Rightarrow> store_listened e ps m u stake s))"
  by (simp add: handle_prediction_submitted_def listened_pair_def split: option.split)

lemma handle_payout_claimed_eq:
  "handle_payout_claimed ps s =
    (case listened_pair ps s of
       None \<Rightarrow> (Inr (), s)
     | Some (m, u) \<Rightarrow>
         (case find_one (predicted_by (u_id u) (m_id m)) (predictions s) of
            None \<Rightarrow> (Inr (), s)
          | Some p \<Rightarrow>
              (case listened_claim ps p of
                 Inl err \<Rightarrow> (Inl (InternalError err), s)
               | Inr p' \<Rightarrow>
                   if pg_int8 (payout_amount_stroops p') then (Inr (), save_prediction p' s)
                   else (Inl query_failed, s))))"
  by (simp add: handle_payout_claimed_def listened_pair_def split: option.split)

text \<open>The four ways a prediction event ends.\<close>

lemma handle_prediction_submitted_cases:
  assumes "handle_prediction_submitted e ps s = (r, s')"
  obtains (skipped) "r = Inr ()" and "s' = s"
      and "\<And>e'. handle_prediction_submitted e' ps s = (Inr (), s)"
    | (failed) err where "r = Inl err" and "s' = s"
    | (saved) m u stake where "listened_pair ps s = Some (m, u)"
      and "find_one (predicted_by (u_id u) (m_id m)) (predictions s) = None" and "r = Inr ()"
      and "s' = save_market (market_staked stake m)
             (save_prediction (listened_prediction e ps (u_id u) (m_id m) stake) s)"
    | (half_written) m u stake where "listened_pair ps s = Some (m, u)"
      and "\<not> market_in_range (market_staked stake m)" and "r = Inl query_failed"
      and "s' = save_prediction (listened_prediction e ps (u_id u) (m_id m) stake) s"
proof (cases "listened_pair ps s")
  case None
  with assms show thesis by (intro skipped) (simp_all add: handle_prediction_submitted_eq)
next
  case (Some mu)
  obtain m u where mu: "mu = (m, u)" by (cases mu)
  show thesis
  proof (cases "find_one (predicted_by (u_id u) (m_id m)) (predictions s)")
    case None
    note none = this
    show thesis
    proof (cases "payload_stake ps")
      case (Inl err)
      with assms Some mu none show thesis
        by (intro failed [of "InternalError err"]) (simp_all add: handle_prediction_submitted_eq)
    next
      case (Inr stake)
      with assms Some mu none have "store_listened e ps m u stake s = (r, s')"
        by (simp add: handle_prediction_submitted_eq)
      then consider "r = Inl query_failed" "s' = s"
        | "market_in_range (market_staked stake m)" "r = Inr ()"
          "s' = save_market (market_staked stake m)
             (save_prediction (listened_prediction e ps (u_id u) (m_id m) stake) s)"
        | "\<not> market_in_range (market_staked stake m)" "r = Inl query_failed"
          "s' = save_prediction (listened_prediction e ps (u_id u) (m_id m) stake) s"
        by (auto simp: store_listened_def Let_def split: if_splits)
      then show thesis
        using failed [of query_failed] saved [of m u stake] half_written [of m u stake] Some mu none
        by cases simp_all
    qed
  next
    case (Some p)
    with assms \<open>listened_pair ps s = Some mu\<close> mu show thesis
      by (intro skipped) (simp_all add: handle_prediction_submitted_eq)
  qed
qed

lemma handle_payout_claimed_cases:
  assumes "handle_payout_claimed ps s = (r, s')"
  obtains (unchanged) "s' = s"
    | (saved) m u p p' where "listened_pair ps s = Some (m, u)"
      and "find_one (predicted_by (u_id u) (m_id m)) (predictions s) = Some p"
      and "listened_claim ps p = Inr p'" and "pg_int8 (payout_amount_stroops p')"
      and "s' = save_prediction p' s"
proof (cases "s' = s")
  case False
  with assms obtain m u where mu: "listened_pair ps s = Some (m, u)"
    by (cases "listened_pair ps s") (auto simp: handle_payout_claimed_eq)
  with assms False obtain p where p: "find_one (predicted_by (u_id u) (m_id m)) (predictions s) = Some p"
    by (cases "find_one (predicted_by (u_id u) (m_id m)) (predictions s)")
      (simp_all add: handle_payout_claimed_eq)
  with assms False mu obtain p' where c: "listened_claim ps p = Inr p'"
    by (cases "listened_claim ps p") (simp_all add: handle_payout_claimed_eq)
  with assms False mu p have "pg_int8 (payout_amount_stroops p') \<and> s' = save_prediction p' s"
    by (simp add: handle_payout_claimed_eq split: if_splits)
  with mu p c show thesis by (intro saved [of m u p p']) auto
qed (rule unchanged)

lemma listened_claim_simps:
  assumes "listened_claim ps p = Inr p'"
  shows "p_id p' = p_id p" "p_user p' = p_user p" "p_market p' = p_market p"
    "stake_amount_stroops p' = stake_amount_stroops p" "listened_claim ps p' = Inr p'"
proof -
  have idem: "first_big_int ps ks d = Inr a \<Longrightarrow> first_big_int ps ks a = Inr a" for ks d a
    by (induction ks) (auto split: sum.splits option.splits)
  from assms obtain a where
    a: "first_big_int ps [''payout_amount_stroops'', ''payout_amount''] (payout_amount_stroops p) = Inr a"
    and p': "p' = p\<lparr>payout_claimed := True, payout_amount_stroops := a\<rparr>"
    by (auto simp: listened_claim_def split: sum.splits)
  show "p_id p' = p_id p" "p_user p' = p_user p" "p_market p' = p_market p"
    "stake_amount_stroops p' = stake_amount_stroops p" by (simp_all add: p')
  show "listened_claim ps p' = Inr p'" using idem [OF a] by (simp add: listened_claim_def p')
qed

lemma listened_prediction_simps [simp]:
  "p_id (listened_prediction e ps u m n) = fresh e 0" "p_user (listened_prediction e ps u m n) = u"
  "p_market (listened_prediction e ps u m n) = m"
  "stake_amount_stroops (listened_prediction e ps u m n) = n"
  by (simp_all add: listened_prediction_def)

section \<open>Processing an event twice\<close>

lemma market_created_twice:
  assumes "handle_market_created e ps s = (Inr (), s')"
  shows "handle_market_created e' ps s' = (Inr (), s')"
  using assms
proof (cases rule: handle_market_created_cases)
  case skipped
  then show ?thesis by (auto simp: handle_market_created_def split: option.splits)
next
  case (saved cid m)
  then have "market_by_chain_id cid s' \<noteq> None"
    using listen_market_Inr(1) [OF saved(3)]
    by (auto simp: market_by_chain_id_def find_one_None intro!: bexI [OF _ in_save_row])
  with saved(1) show ?thesis by (simp add: handle_market_created_def)
qed

lemma market_resolved_twice:
  assumes "keyed m_id (markets s)" and "handle_market_resolved ps s = (Inr (), s')"
  shows "handle_market_resolved ps s' = (Inr (), s')"
proof (cases "find_market_from_payload ps s")
  case None
  with assms show ?thesis by (simp add: handle_market_resolved_def)
next
  case (Some m)
  define m' where "m' = m\<lparr>is_resolved := True,
     resolved_outcome := or_else (read_string ps ''resolved_outcome'')
       (or_else (read_string ps ''outcome'') (resolved_outcome m))\<rparr>"
  from Some assms(2) have s': "s' = save_market m' s"
    by (simp add: handle_market_resolved_def m'_def)
  have "find_market_from_payload ps s' = Some m'"
    using assms(1) Some by (rule find_market_after_save) (simp_all add: m'_def s')
  moreover have "m'\<lparr>is_resolved := True,
      resolved_outcome := or_else (read_string ps ''resolved_outcome'')
        (or_else (read_string ps ''outcome'') (resolved_outcome m'))\<rparr> = m'"
    by (simp add: m'_def or_else_def split: option.splits)
  moreover have "save_market m' s' = s'"
    by (simp add: s' save_market_def save_row_same by_id_save_row)
  ultimately show ?thesis by (simp add: handle_market_resolved_def)
qed

lemma listened_pair_Some:
  "listened_pair ps s = Some (m, u) \<longleftrightarrow>
    find_market_from_payload ps s = Some m \<and>
    (\<exists>a. payload_predictor ps = Some a \<and> user_by_address a s = Some u)"
  by (auto simp: listened_pair_def split: option.splits)

lemma prediction_submitted_twice:
  assumes "keyed m_id (markets s)" and "handle_prediction_submitted e ps s = (Inr (), s')"
  shows "handle_prediction_submitted e' ps s' = (Inr (), s')"
proof -
  have skip: "handle_prediction_submitted e' ps s' = (Inr (), s')"
    if "listened_pair ps s' = Some (m, u)" "predicted_by (u_id u) (m_id m) p" "p \<in> set (predictions s')"
    for m u p
    using that by (auto simp: handle_prediction_submitted_eq find_one_None)
  from assms(2) show ?thesis
  proof (cases rule: handle_prediction_submitted_cases)
    case skipped
    then show ?thesis by simp
  next
    case (saved m u stake)
    have "find_market_from_payload ps s = Some m" using saved(1) by (simp add: listened_pair_Some)
    moreover have "markets s' = save_row m_id (market_staked stake m) (markets s)"
      by (simp add: saved(4))
    moreover have "on_chain_market_id (market_staked stake m) = on_chain_market_id m"
      by (simp add: market_staked_def)
    ultimately have "find_market_from_payload ps s' = Some (market_staked stake m)"
      using find_market_after_save [OF assms(1), of ps m "market_staked stake m" s'] by simp
    then have "listened_pair ps s' = Some (market_staked stake m, u)"
      using saved(1) by (auto simp: listened_pair_Some user_by_address_def saved(4))
    then show ?thesis
      by (rule skip [where p = "listened_prediction e ps (u_id u) (m_id m) stake"])
        (simp_all add: saved(4) predicted_by_def in_save_row)
  qed simp_all
qed

lemma payout_claimed_twice:
  assumes "keyed p_id (predictions s)" and "handle_payout_claimed ps s = (Inr (), s')"
  shows "handle_payout_claimed ps s' = (Inr (), s')"
  using assms(2)
proof (cases rule: handle_payout_claimed_cases)
  case (saved m u p p')
  note c' = listened_claim_simps [OF saved(3)]
  have "predicted_by (u_id u) (m_id m) p'"
    using find_one_Some [OF saved(2)] by (simp add: predicted_by_def c')
  then have "find_one (predicted_by (u_id u) (m_id m)) (predictions s') = Some p'"
    using find_one_save_row [OF assms(1) saved(2) c'(1)] by (simp add: saved(5))
  moreover have "listened_pair ps s' = Some (m, u)"
    using saved(1) by (simp add: listened_pair_Some find_market_from_payload_def
        market_by_chain_id_def user_by_address_def saved(5) cong: option.case_cong)
  moreover have "save_prediction p' s' = s'"
    by (simp add: saved(5) save_prediction_def save_row_same by_id_save_row)
  ultimately show ?thesis using saved(4) c'(5) by (simp add: handle_payout_claimed_eq)
qed (use assms in simp)

section \<open>The ledger\<close>

lemma save_row_add_stake:
  assumes "keyed m_id ms" and "m \<in> set ms"
  shows "save_row m_id (market_staked n m) ms = add_stake_to_market (m_id m) n ms"
proof -
  have "x = m" if "x \<in> set ms" "m_id x = m_id m" for x
    using by_id_in [OF assms(1) that(1)] by_id_in [OF assms] that(2) by (metis option.inject)
  with assms show ?thesis
    by (subst save_row_map_eq) (auto simp: add_stake_to_market_def update_rows_def)
qed

text \<open>
  What the environment guarantees about one event: new ids, and no counters in a creation event.
\<close>

definition fresh_event :: "env \<Rightarrow> rpc_event \<Rightarrow> db \<Rightarrow> bool" where
  "fresh_event e ev s \<longleftrightarrow>
     fresh e 0 \<notin> m_id ` set (markets s) \<and> fresh e 0 \<notin> p_id ` set (predictions s) \<and>
     payload_pool (ev_value ev) = Inr 0 \<and> payload_count (ev_value ev) = 0"

lemma process_event_ledger:
  assumes "process_event e ev s = (Inr (), s')" and "ledger_ok s" and "fresh_event e ev s"
  shows "ledger_ok s'"
proof (cases "detect_event_type ev")
  case None
  with assms show ?thesis by (simp add: process_event_def)
next
  case (Some ty)
  let ?ps = "ev_value ev"
  show ?thesis
  proof (cases ty)
    case EvMarketCreated
    with Some assms(1) have "handle_market_created e ?ps s = (Inr (), s')"
      by (simp add: process_event_def)
    then show ?thesis
    proof (cases rule: handle_market_created_cases)
      case (saved cid m)
      note m = listen_market_Inr [OF saved(3)]
      have "m_id (stored_market m) \<notin> m_id ` set (markets s)"
        using assms(3) by (simp add: fresh_event_def m(2))
      then have "markets s' = markets s @ [stored_market m]"
        by (simp add: saved(4) save_row_fresh)
      moreover have "total_pool_stroops m = 0" "participant_count m = 0"
        using m(5,6) assms(3) by (simp_all add: fresh_event_def)
      moreover have "m_id m \<notin> m_id ` set (markets s)"
        using assms(3) by (simp add: fresh_event_def m(2))
      ultimately show ?thesis
        by (intro ledger_new_market [OF assms(2), of "stored_market m"]) (simp_all add: saved(4))
    qed (use assms in simp)
  next
    case EvMarketResolved
    with Some assms(1) have run: "handle_market_resolved ?ps s = (Inr (), s')"
      by (simp add: process_event_def)
    show ?thesis
    proof (cases "find_market_from_payload ?ps s")
      case None
      with run assms(2) show ?thesis by (simp add: handle_market_resolved_def)
    next
      case (Some m)
      then have "m \<in> set (markets s)" by (rule found_by_payload)
      with run Some show ?thesis
        by (intro ledger_save_market [OF assms(2), of m
              "m\<lparr>is_resolved := True, resolved_outcome := or_else (read_string ?ps ''resolved_outcome'')
                  (or_else (read_string ?ps ''outcome'') (resolved_outcome m))\<rparr>"])
          (auto simp: handle_market_resolved_def)
    qed
  next
    case EvPredictionSubmitted
    with Some assms(1) have "handle_prediction_submitted e ?ps s = (Inr (), s')"
      by (simp add: process_event_def)
    then show ?thesis
    proof (cases rule: handle_prediction_submitted_cases)
      case (saved m u stake)
      let ?p = "listened_prediction e ?ps (u_id u) (m_id m) stake"
      have m: "m \<in> set (markets s)"
        using saved(1) by (auto simp: listened_pair_Some elim: found_by_payload)
      have k: "keyed m_id (markets s)" "keyed u_id (users s)"
        using assms(2) by (simp_all add: ledger_ok_def predictions_ok_def)
      have f: "p_id ?p \<notin> p_id ` set (predictions s)" using assms(3) by (simp add: fresh_event_def)
      then have rows: "predictions s' = predictions s @ [?p]" by (simp add: saved(4) save_row_fresh)
      have new: "list_all (\<lambda>q. \<not> predicted_by (p_user ?p) (p_market ?p) q) (predictions s)"
        using saved(2) by (simp add: find_one_None list_all_iff)
      have ms: "markets s' = add_stake_to_market (p_market ?p) (stake_amount_stroops ?p) (markets s)"
        using save_row_add_stake [OF k(1) m] by (simp add: saved(4))
      have "p_market ?p \<in> m_id ` set (markets s)" "keyed u_id (users s')"
        using m k(2) by (simp_all add: saved(4))
      with ledger_new_prediction [OF assms(2) rows f new _ ms] show ?thesis by simp
    qed (use assms in simp_all)
  next
    case EvPayoutClaimed
    with Some assms(1) have "handle_payout_claimed ?ps s = (Inr (), s')"
      by (simp add: process_event_def)
    then show ?thesis
    proof (cases rule: handle_payout_claimed_cases)
      case (saved m u p p')
      note c = listened_claim_simps [OF saved(3)]
      have "keeps_ledger s s'"
        using find_one_Some [OF saved(2)] c
        by (intro keeps_ledger_save_prediction [of p _ p']) (simp_all add: saved(5) ledger_view_def)
      with assms(2) show ?thesis by (simp add: keeps_ledger_def)
    qed (use assms in simp)
  qed
qed

section \<open>Properties\<close>

text \<open>
  C8: event processing is idempotent: after an event was processed without an exception,
  processing it again, whatever the clock and the ids, succeeds and changes nothing, so a range of
  ledgers may be polled twice.
\<close>

theorem process_event_idempotent:
  assumes "keyed m_id (markets s)" and "keyed p_id (predictions s)"
    and "process_event e ev s = (Inr (), s')"
  shows "process_event e' ev s' = (Inr (), s')"
proof (cases "detect_event_type ev")
  case (Some ty)
  with assms show ?thesis
    using market_created_twice market_resolved_twice prediction_submitted_twice payout_claimed_twice
    by (cases ty) (simp_all add: process_event_def)
qed (use assms in \<open>simp add: process_event_def\<close>)

definition sample_event :: rpc_event where
  "sample_event = \<lparr>ev_id = ''e1'', ev_ledger = 12, ev_topic = [''predictionsubmitted''],
     ev_value = [(''market_id'', JStr ''market_1''), (''predictor'', JStr ''GALICE''),
                 (''chosen_outcome'', JStr ''Yes''), (''stake_amount'', JNum (Fin 700))]\<rparr>"

lemma detect_sample: "detect_event_type sample_event = Some EvPredictionSubmitted"
proof -
  have "to_lower ''predictionsubmitted'' = ''predictionsubmitted''" by code_simp
  then show ?thesis by (simp add: detect_event_type_def sample_event_def Let_def)
qed

lemma sample_value: "ev_value sample_event =
    [(''market_id'', JStr ''market_1''), (''predictor'', JStr ''GALICE''),
     (''chosen_outcome'', JStr ''Yes''), (''stake_amount'', JNum (Fin 700))]"
  by (simp add: sample_event_def)

lemma sample_event_stored:
  obtains s' where "handle_prediction_submitted sample_env (ev_value sample_event) sample_db = (Inr (), s')"
    and "length (predictions s') = 1"
proof -
  have m: "find_market_from_payload (ev_value sample_event) sample_db = Some sample_market"
    by (simp add: sample_value find_market_from_payload_def payload_market_id_def read_string_def
        nonempty_def market_by_chain_id_def sample_defs)
  have a: "payload_predictor (ev_value sample_event) = Some ''GALICE''"
    by (simp add: sample_value payload_predictor_def read_string_def nonempty_def)
  have u: "user_by_address ''GALICE'' sample_db = Some sample_user"
    by (simp add: user_by_address_def sample_defs)
  have n: "payload_stake (ev_value sample_event) = Inr 700"
    by (simp add: sample_value payload_stake_def read_big_int_string_def)
  have "market_in_range (market_staked 700 sample_market)" "predictions sample_db = []"
    by (simp_all add: market_in_range_def pg_int4_def pg_int8_def sample_market_def sample_db_def empty_db_def)
  with m a u n have "handle_prediction_submitted sample_env (ev_value sample_event) sample_db =
      (Inr (), save_market (market_staked 700 sample_market)
        (save_prediction (listened_prediction sample_env (ev_value sample_event)
          (u_id sample_user) (m_id sample_market) 700) sample_db))"
    by (simp add: handle_prediction_submitted_def store_listened_def pg_int8_def Let_def)
  then show thesis by (rule that) (simp add: \<open>predictions sample_db = []\<close>)
qed

theorem process_event_idempotent_witness:
  "\<exists>s'. process_event sample_env sample_event sample_db = (Inr (), s') \<and>
     length (predictions s') = 1 \<and> process_event sample_env sample_event s' = (Inr (), s')"
proof -
  obtain s' where "handle_prediction_submitted sample_env (ev_value sample_event) sample_db = (Inr (), s')"
    and one: "length (predictions s') = 1" by (rule sample_event_stored)
  then have run: "process_event sample_env sample_event sample_db = (Inr (), s')"
    by (simp add: process_event_def detect_sample)
  have "keyed m_id (markets sample_db)" "keyed p_id (predictions sample_db)"
    by (simp_all add: keyed_def sample_defs)
  from process_event_idempotent [OF this run] run one show ?thesis by blast
qed

definition run_polls ::
  "string option \<Rightarrow> ((rat \<Rightarrow> (rpc_event list \<times> rat) chain_result) \<times> (nat \<Rightarrow> env)) list
    \<Rightarrow> listener_state \<Rightarrow> listener_state" where
  "run_polls contract runs st = fold (\<lambda>(reply, envs). poll_events contract reply envs) runs st"

lemma process_events_max:
  "process_events envs n evs mx s = (Inr mx', s') \<Longrightarrow> mx \<le> mx' \<and> (\<forall>ev\<in>set evs. ev_ledger ev \<le> mx')"
proof (induction evs arbitrary: n mx s)
  case (Cons ev evs)
  obtain r1 s1 where 1: "process_event (envs n) ev s = (r1, s1)" by fastforce
  with Cons.prems have "process_events envs (Suc n) evs (if ev_ledger ev > mx then ev_ledger ev else mx) s1
      = (Inr mx', s')" by (cases r1) simp_all
  from Cons.IH [OF this] show ?case by (auto split: if_splits)
qed simp

lemma poll_events_mono: "last_processed_ledger st \<le> last_processed_ledger (poll_events c reply envs st)"
proof (cases "reply (poll_from st)")
  case (Inr p)
  obtain events latest where p: "p = (events, latest)" by (cases p)
  obtain r s' where run: "process_events envs 0 (sort_key ev_ledger events)
      (last_processed_ledger st) (tables st) = (r, s')" by fastforce
  show ?thesis
  proof (cases r)
    case (Inr mx)
    with run have "last_processed_ledger st \<le> mx" using process_events_max by blast
    then show ?thesis
      using \<open>reply (poll_from st) = Inr p\<close> Inr run p
      by (auto simp: poll_events_def last_processed_ledger_def)
  qed (use run p \<open>reply (poll_from st) = Inr p\<close> in
      \<open>auto simp: poll_events_def last_processed_ledger_def\<close>)
qed (simp add: poll_events_def)

lemma run_polls_mono: "last_processed_ledger st \<le> last_processed_ledger (run_polls c runs st)"
proof (induction runs arbitrary: st)
  case Nil
  then show ?case by (simp add: run_polls_def)
next
  case (Cons r runs)
  obtain reply envs where r: "r = (reply, envs)" by (cases r)
  have "last_processed_ledger st \<le> last_processed_ledger (poll_events c reply envs st)"
    by (rule poll_events_mono)
  also have "\<dots> \<le> last_processed_ledger (run_polls c runs (poll_events c reply envs st))"
    by (rule Cons.IH)
  finally show ?case by (simp add: run_polls_def r)
qed

text \<open>
  The listener never asks for a ledger again: a poll that succeeds moves the checkpoint to the
  newest ledger the server knows, and no sequence of later polls asks for it or an older one.  The
  server returns at most 200 events a time, so the events of a full page's remaining ledgers are
  never read.
\<close>

theorem listener_skips_unread_ledgers:
  assumes "poll_events (Some c) reply envs st = st'" and "checkpoint st' \<noteq> checkpoint st"
    and "reply (poll_from st) = Inr (events, latest)"
  shows "latest < poll_from (run_polls (Some c) runs st') \<and>
    list_all (\<lambda>ev. ev_ledger ev < poll_from (run_polls (Some c) runs st')) events"
proof -
  have "latest \<le> last_processed_ledger st' \<and> (\<forall>ev\<in>set events. ev_ledger ev \<le> last_processed_ledger st')"
  proof (cases "events = []")
    case True
    with assms show ?thesis by (auto simp: poll_events_def last_processed_ledger_def split: if_splits)
  next
    case False
    obtain r s' where run: "process_events envs 0 (sort_key ev_ledger events)
        (last_processed_ledger st) (tables st) = (r, s')" by fastforce
    with assms False obtain mx where r: "r = Inr mx"
      by (cases r) (auto simp: poll_events_def split: if_splits)
    with assms False run have "checkpoint st' = Some (max mx latest)"
      by (auto simp: poll_events_def split: if_splits)
    moreover from run r have "\<forall>ev\<in>set events. ev_ledger ev \<le> mx"
      using process_events_max by fastforce
    ultimately show ?thesis by (auto simp: last_processed_ledger_def)
  qed
  with run_polls_mono [of st' "Some c" runs] show ?thesis
    by (fastforce simp: poll_from_def list_all_iff)
qed

theorem listener_skips_unread_ledgers_witness:
  "\<exists>st'. poll_events (Some ''C'') (\<lambda>from. Inr ([sample_event], 40)) (\<lambda>n. sample_env)
        \<lparr>tables = sample_db, checkpoint = Some 11, is_polling = False, notified = []\<rparr> = st' \<and>
     40 < poll_from (run_polls (Some ''C'') [(\<lambda>from. Inl ''down'', \<lambda>n. sample_env)] st')"
proof -
  let ?st = "\<lparr>tables = sample_db, checkpoint = Some 11, is_polling = False, notified = []\<rparr>"
  let ?reply = "\<lambda>from::rat. Inr ([sample_event], 40) :: (rpc_event list \<times> rat) chain_result"
  obtain s' where "handle_prediction_submitted sample_env (ev_value sample_event) sample_db = (Inr (), s')"
    by (rule sample_event_stored)
  then have "process_event sample_env sample_event sample_db = (Inr (), s')"
    by (simp add: process_event_def detect_sample)
  then have "checkpoint (poll_events (Some ''C'') ?reply (\<lambda>n. sample_env) ?st) \<noteq> checkpoint ?st"
    by (simp add: poll_events_def nonempty_def last_processed_ledger_def)
  from listener_skips_unread_ledgers [OF refl this refl, of "[(\<lambda>from. Inl ''down'', \<lambda>n. sample_env)]"]
  show ?thesis by blast
qed

text \<open>
  The listener keeps the totals of the market but not those of the user: a prediction it
  stores is missing from the user's counters, which \<open>submit\<close> maintains and the profile and the
  achievements read.
\<close>

theorem listener_forgets_user_totals:
  assumes "handle_prediction_submitted e ps s = (Inr (), s')" and "s' \<noteq> s"
    and "users_balanced s" and "fresh e 0 \<notin> p_id ` set (predictions s)"
  shows "users s' = users s \<and> \<not> users_balanced s'"
  using assms(1)
proof (cases rule: handle_prediction_submitted_cases)
  case (saved m u stake)
  have u: "u \<in> set (users s)"
    using saved(1) by (auto simp: listened_pair_Some user_by_address_def dest: find_one_Some)
  have "user_balanced (predictions s) u" using assms(3) u by (simp add: users_balanced_def list_all_iff)
  then have "\<not> user_balanced (predictions s') u"
    using assms(4) by (simp add: saved(4) save_row_fresh user_balanced_def Let_def)
  with u show ?thesis by (auto simp: users_balanced_def list_all_iff saved(4))
qed (use assms(2) in simp_all)

theorem listener_forgets_user_totals_witness:
  "\<exists>s'. handle_prediction_submitted sample_env (ev_value sample_event) sample_db = (Inr (), s') \<and>
     \<not> users_balanced s'"
proof -
  obtain s' where run: "handle_prediction_submitted sample_env (ev_value sample_event) sample_db = (Inr (), s')"
    and one: "length (predictions s') = 1" by (rule sample_event_stored)
  have "s' \<noteq> sample_db" using one by (auto simp: sample_db_def empty_db_def)
  moreover have "users_balanced sample_db" "fresh sample_env 0 \<notin> p_id ` set (predictions sample_db)"
    by (simp_all add: users_balanced_def user_balanced_def sample_defs)
  ultimately show ?thesis using listener_forgets_user_totals [OF run] run by blast
qed

end
