(* ===== verification/Disputes.thy ===== *)
theory Disputes
  imports Markets
begin

text \<open>
  \<open>DisputesService\<close> (\<open>backend/src/disputes/disputes.service.ts\<close>).  Raising and resolving a dispute
  write the row at once and record it on the chain later, without waiting: the recordings are
  tasks that run at any later time, in any order.  The server's time zone is UTC.
\<close>

section \<open>Tasks\<close>

datatype dispute_task =
    RecordDispute uuid string string
  | RecordResolution uuid string dispute_resolution

fun resolution_text :: "dispute_resolution \<Rightarrow> string" where
  "resolution_text Upheld = ''upheld''"
| "resolution_text Overturned = ''overturned''"

definition save_dispute :: "dispute \<Rightarrow> db \<Rightarrow> db" where
  "save_dispute d s = s\<lparr>disputes := save_row d_id d (disputes s)\<rparr>"

definition find_dispute :: "uuid \<Rightarrow> db \<Rightarrow> dispute result" where
  "find_dispute did s =
     (case by_id d_id did (disputes s) of
        None \<Rightarrow> Inl (NotFound ''Dispute not found'')
      | Some d \<Rightarrow> Inr d)"

section \<open>Raising\<close>

text \<open>A missing resolution time is read as the epoch, as \<open>new Date(null)\<close> does.\<close>

definition dispute_window_end :: "market \<Rightarrow> timestamp" where
  "dispute_window_end m =
     (case m_resolved_at m of None \<Rightarrow> 0 | Some t \<Rightarrow> t) + 7 * 24 * 60 * 60 * 1000"

definition new_dispute :: "env \<Rightarrow> uuid \<Rightarrow> string \<Rightarrow> user \<Rightarrow> dispute" where
  "new_dispute e mid reason user =
     \<lparr>d_id = fresh e 0, d_market = mid, disputant = u_id user, d_reason = reason,
      d_status = DisputePending, resolution = None, d_admin_notes = None, d_resolved_by = None,
      d_resolved_at = None, on_chain_dispute_id = None, on_chain_resolution_tx = None,
      d_created_at = now e\<rparr>"

definition create_dispute ::
  "env \<Rightarrow> uuid \<Rightarrow> string \<Rightarrow> user \<Rightarrow> db \<Rightarrow> dispute result \<times> dispute_task list \<times> db" where
  "create_dispute e mid reason user s =
     (case by_id m_id mid (markets s) of
        None \<Rightarrow> (Inl (NotFound ''Market not found''), [], s)
      | Some m \<Rightarrow>
          if \<not> is_resolved m then
            (Inl (BadRequest ''Disputes can only be raised for resolved markets''), [], s)
          else if now e > dispute_window_end m then
            (Inl (BadRequest ''Dispute window has passed''), [], s)
          else if find_one (\<lambda>d. d_market d = mid) (disputes s) \<noteq> None then
            (Inl (Conflict ''Dispute already raised for this market''), [], s)
          else
            (let d = new_dispute e mid reason user;
                 s' = save_dispute d s
             in (find_dispute (d_id d) s', [RecordDispute (d_id d) (on_chain_market_id m) reason], s')))"

definition check_dispute_window :: "timestamp \<Rightarrow> uuid \<Rightarrow> db \<Rightarrow> bool" where
  "check_dispute_window t0 mid s =
     (case by_id m_id mid (markets s) of
        None \<Rightarrow> False
      | Some m \<Rightarrow> is_resolved m \<and> t0 \<le> dispute_window_end m)"

section \<open>Resolving\<close>

text \<open>
  An upheld dispute calls \<open>handleOverturnedMarket\<close>, which only writes a log line: the market is not
  changed.
\<close>

definition resolved_dispute ::
  "env \<Rightarrow> dispute_resolution \<Rightarrow> string option \<Rightarrow> user \<Rightarrow> dispute \<Rightarrow> dispute" where
  "resolved_dispute e res notes admin d =
     d\<lparr>d_status := DisputeResolved, resolution := Some res, d_admin_notes := nonempty notes,
       d_resolved_by := Some (u_id admin), d_resolved_at := Some (now e)\<rparr>"

definition resolve_dispute ::
  "env \<Rightarrow> uuid \<Rightarrow> dispute_resolution \<Rightarrow> string option \<Rightarrow> user \<Rightarrow> db
    \<Rightarrow> dispute result \<times> dispute_task list \<times> db" where
  "resolve_dispute e did res notes admin s =
     (case find_dispute did s of
        Inl err \<Rightarrow> (Inl err, [], s)
      | Inr d \<Rightarrow>
          if d_status d \<noteq> DisputePending then (Inl (BadRequest ''Dispute is not pending''), [], s)
          else
            (let s' = save_dispute (resolved_dispute e res notes admin d) s in
             case by_id m_id (d_market d) (markets s) of
               None \<Rightarrow> (Inl (InternalError ''TypeError''), [], s')
             | Some m \<Rightarrow>
                 (find_dispute did s', [RecordResolution did (on_chain_market_id m) res], s')))"

section \<open>Recording on the chain\<close>

definition record_dispute_on_chain ::
  "soroban \<Rightarrow> uuid \<Rightarrow> string \<Rightarrow> string \<Rightarrow> db \<Rightarrow> db" where
  "record_dispute_on_chain sor did market_ref reason s =
     (let s1 = call_chain (RaiseDispute market_ref reason) s in
      case sb_raise_dispute sor market_ref reason of
        Inl _ \<Rightarrow> s1
      | Inr (dispute_ref, _) \<Rightarrow>
          s1\<lparr>disputes := update_rows (\<lambda>d. d_id d = did)
               (\<lambda>d. d\<lparr>on_chain_dispute_id := Some dispute_ref\<rparr>) (disputes s1)\<rparr>)"

definition record_resolution_on_chain ::
  "soroban \<Rightarrow> uuid \<Rightarrow> string \<Rightarrow> dispute_resolution \<Rightarrow> db \<Rightarrow> db" where
  "record_resolution_on_chain sor did market_ref res s =
     (case by_id d_id did (disputes s) of
        None \<Rightarrow> s
      | Some d \<Rightarrow>
          (case nonempty (on_chain_dispute_id d) of
             None \<Rightarrow> s
           | Some dispute_ref \<Rightarrow>
               (let s1 = call_chain (ResolveDispute market_ref dispute_ref (resolution_text res)) s in
                case sb_resolve_dispute sor market_ref dispute_ref (resolution_text res) of
                  Inl _ \<Rightarrow> s1
                | Inr (_, hash) \<Rightarrow>
                    s1\<lparr>disputes := update_rows (\<lambda>d. d_id d = did)
                         (\<lambda>d. d\<lparr>on_chain_resolution_tx := Some hash\<rparr>) (disputes s1)\<rparr>)))"

fun run_task :: "soroban \<Rightarrow> dispute_task \<Rightarrow> db \<Rightarrow> db" where
  "run_task sor (RecordDispute did m reason) s = record_dispute_on_chain sor did m reason s"
| "run_task sor (RecordResolution did m res) s = record_resolution_on_chain sor did m res s"

section \<open>Listings\<close>

definition find_disputes_by_market :: "uuid \<Rightarrow> db \<Rightarrow> dispute list" where
  "find_disputes_by_market mid s =
     sort_desc d_created_at (filter (\<lambda>d. d_market d = mid) (disputes s))"

definition find_my_disputes :: "uuid \<Rightarrow> nat \<Rightarrow> nat \<Rightarrow> db \<Rightarrow> dispute page_result" where
  "find_my_disputes uid page limit s =
     (let rows = filter (\<lambda>d. disputant d = uid) (disputes s)
      in \<lparr>data = page_of page limit (sort_desc d_created_at rows), total = length rows,
          pg_page = page, pg_limit = limit\<rparr>)"

definition find_all_disputes ::
  "nat \<Rightarrow> nat \<Rightarrow> dispute_status option \<Rightarrow> db \<Rightarrow> dispute page_result" where
  "find_all_disputes page limit status s =
     (let rows = filter (\<lambda>d. case status of None \<Rightarrow> True | Some st \<Rightarrow> d_status d = st) (disputes s)
      in \<lparr>data = page_of page limit (sort_desc d_created_at rows), total = length rows,
          pg_page = page, pg_limit = limit\<rparr>)"

section \<open>Lemmas\<close>

lemma save_dispute_simps [simp]:
  "users (save_dispute d s) = users s" "markets (save_dispute d s) = markets s"
  "predictions (save_dispute d s) = predictions s" "calls (save_dispute d s) = calls s"
  "disputes (save_dispute d s) = save_row d_id d (disputes s)"
  by (simp_all add: save_dispute_def)

lemma find_saved_dispute: "find_dispute (d_id d) (save_dispute d s) = Inr d"
  by (simp add: find_dispute_def by_id_save_row)

lemma create_dispute_Inr:
  "create_dispute e mid reason user s = (Inr d, ts, s') \<longleftrightarrow>
    check_dispute_window (now e) mid s \<and> find_one (\<lambda>d. d_market d = mid) (disputes s) = None \<and>
    d = new_dispute e mid reason user \<and> s' = save_dispute d s \<and>
    (\<exists>m. by_id m_id mid (markets s) = Some m \<and>
       ts = [RecordDispute (d_id d) (on_chain_market_id m) reason])"
proof (cases "by_id m_id mid (markets s)")
  case (Some m)
  then show ?thesis
    by (auto simp: create_dispute_def check_dispute_window_def Let_def find_saved_dispute)
qed (simp add: create_dispute_def)

lemma resolve_dispute_cases:
  assumes "resolve_dispute e did res notes admin s = (Inr d', ts, s')"
  obtains d m where "by_id d_id did (disputes s) = Some d" and "d_status d = DisputePending"
    and "d_id d = did" and "by_id m_id (d_market d) (markets s) = Some m"
    and "ts = [RecordResolution did (on_chain_market_id m) res]"
    and "s' = save_dispute (resolved_dispute e res notes admin d) s"
    and "d' = resolved_dispute e res notes admin d"
proof -
  from assms obtain d where d: "by_id d_id did (disputes s) = Some d"
    by (cases "by_id d_id did (disputes s)") (simp_all add: resolve_dispute_def find_dispute_def)
  with assms have pend: "d_status d = DisputePending"
    by (auto simp: resolve_dispute_def find_dispute_def split: if_splits)
  from d have id: "d_id d = did" by (auto dest: by_id_Some)
  with assms d pend obtain m where m: "by_id m_id (d_market d) (markets s) = Some m"
    by (cases "by_id m_id (d_market d) (markets s)")
      (simp_all add: resolve_dispute_def find_dispute_def Let_def)
  have "d_id (resolved_dispute e res notes admin d) = did" by (simp add: resolved_dispute_def id)
  then have "find_dispute did (save_dispute (resolved_dispute e res notes admin d) s) =
      Inr (resolved_dispute e res notes admin d)"
    using find_saved_dispute by metis
  with assms d pend m show thesis
    by (intro that [OF d pend id m]) (auto simp: resolve_dispute_def find_dispute_def [of did s] Let_def)
qed

section \<open>Properties\<close>

text \<open>
  C9: a dispute is accepted exactly while the window that \<open>checkDisputeWindow\<close> reports is open and no
  dispute of the market exists, so a market has at most one; a resolution that came from the chain
  listener, which records no time, cannot be disputed at all.
\<close>

theorem dispute_accepted_iff:
  assumes "7 * 24 * 60 * 60 * 1000 < now e"
  shows "(is_ok (fst (create_dispute e mid reason user s)) \<longleftrightarrow>
      check_dispute_window (now e) mid s \<and> list_all (\<lambda>d. d_market d \<noteq> mid) (disputes s)) \<and>
    (case by_id m_id mid (markets s) of
       None \<Rightarrow> True
     | Some m \<Rightarrow> is_resolved m \<and> m_resolved_at m = None \<longrightarrow>
         create_dispute e mid reason user s = (Inl (BadRequest ''Dispute window has passed''), [], s))"
proof -
  obtain r ts s' where run: "create_dispute e mid reason user s = (r, ts, s')"
    by (cases "create_dispute e mid reason user s")
  have "is_ok r \<longleftrightarrow> check_dispute_window (now e) mid s \<and> find_one (\<lambda>d. d_market d = mid) (disputes s) = None"
  proof (cases "by_id m_id mid (markets s)")
    case (Some m)
    with run show ?thesis
      by (auto simp: create_dispute_def check_dispute_window_def Let_def find_saved_dispute split: if_splits)
  qed (use run in \<open>auto simp: create_dispute_def check_dispute_window_def\<close>)
  with assms run show ?thesis
    by (auto simp: find_one_None list_all_iff create_dispute_def dispute_window_end_def split: option.splits)
qed

theorem dispute_accepted_iff_witness:
  "is_ok (fst (create_dispute (sample_env\<lparr>now := 700000000\<rparr>) ''m1'' ''wrong'' sample_user
     (sample_db\<lparr>markets := [sample_market\<lparr>is_resolved := True, m_resolved_at := Some 500000000\<rparr>]\<rparr>)))"
proof -
  have "7 * 24 * 60 * 60 * 1000 < now (sample_env\<lparr>now := 700000000\<rparr>)" by simp
  from dispute_accepted_iff [OF this] show ?thesis
    by (simp add: check_dispute_window_def dispute_window_end_def sample_defs)
qed

text \<open>
  The order of the deferred recordings matters: when a dispute is resolved and its resolution
  is recorded before the dispute itself was, the resolution is never sent to the chain, and
  recording the dispute afterwards leaves the chain with an open dispute for a closed case.
\<close>

theorem late_dispute_recording_loses_resolution:
  assumes "create_dispute e mid reason user s = (Inr d, [t1], s1)"
    and "resolve_dispute e' (d_id d) res notes admin s1 = (Inr d', [t2], s2)"
  shows "let s3 = run_task sor t1 (run_task sor t2 s2) in
    (\<exists>m. calls s3 = calls s @ [RaiseDispute m reason]) \<and>
    map_option d_status (by_id d_id (d_id d) (disputes s3)) = Some DisputeResolved \<and>
    map_option on_chain_resolution_tx (by_id d_id (d_id d) (disputes s3)) = Some None"
proof -
  have d: "d = new_dispute e mid reason user" and s1: "s1 = save_dispute d s"
    and "\<exists>m. t1 = RecordDispute (d_id d) m reason"
    using assms(1) by (auto simp: create_dispute_Inr)
  then obtain m where t1: "t1 = RecordDispute (d_id d) m reason" by blast
  have row: "by_id d_id (d_id d) (disputes s1) = Some d" by (simp add: s1 by_id_save_row)
  from assms(2) obtain m' where t2: "t2 = RecordResolution (d_id d) m' res"
    and s2: "s2 = save_dispute (resolved_dispute e' res notes admin d) s1"
    by (rule resolve_dispute_cases) (use row in auto)
  have row2: "by_id d_id (d_id d) (disputes s2) = Some (resolved_dispute e' res notes admin d)"
    by (simp add: s2 by_id_save_row resolved_dispute_def)
  have "run_task sor t2 s2 = s2"
    using row2 by (simp add: t2 record_resolution_on_chain_def resolved_dispute_def d new_dispute_def nonempty_def)
  moreover have "calls s2 = calls s" by (simp add: s2 s1)
  ultimately show ?thesis
    using row2
    by (auto simp: t1 record_dispute_on_chain_def Let_def by_id_update_rows resolved_dispute_def d
        new_dispute_def split: sum.splits)
qed

theorem late_dispute_recording_loses_resolution_witness:
  "\<exists>d t1 s1 d' t2 s2.
     create_dispute sample_env ''m1'' ''wrong'' sample_user
       (sample_db\<lparr>markets := [sample_market\<lparr>is_resolved := True, m_resolved_at := Some 900\<rparr>]\<rparr>) =
       (Inr d, [t1], s1) \<and>
     resolve_dispute sample_env (d_id d) Upheld None sample_admin s1 = (Inr d', [t2], s2) \<and>
     length (calls (run_task sample_chain t1 (run_task sample_chain t2 s2))) = 1"
proof -
  let ?s = "sample_db\<lparr>markets := [sample_market\<lparr>is_resolved := True, m_resolved_at := Some 900\<rparr>]\<rparr>"
  let ?d = "new_dispute sample_env ''m1'' ''wrong'' sample_user"
  obtain t1 s1 where 1: "create_dispute sample_env ''m1'' ''wrong'' sample_user ?s = (Inr ?d, [t1], s1)"
    by (auto simp: create_dispute_Inr check_dispute_window_def dispute_window_end_def sample_defs)
  then have s1: "s1 = save_dispute ?d ?s" by (simp add: create_dispute_Inr)
  have did: "d_id ?d = ''id-'' @ show_nat 0" by (simp add: new_dispute_def)
  have "by_id d_id (d_id ?d) (disputes s1) = Some ?d" by (simp add: s1 by_id_save_row)
  moreover have "by_id m_id (d_market ?d) (markets s1) \<noteq> None" "d_status ?d = DisputePending"
    by (simp_all add: s1 new_dispute_def sample_defs)
  moreover have "d_id (resolved_dispute sample_env Upheld None sample_admin ?d) = d_id ?d"
    by (simp add: resolved_dispute_def)
  ultimately obtain d' t2 s2 where
    2: "resolve_dispute sample_env (d_id ?d) Upheld None sample_admin s1 = (Inr d', [t2], s2)"
    using find_saved_dispute by (fastforce simp: resolve_dispute_def find_dispute_def Let_def by_id_save_row)
  from late_dispute_recording_loses_resolution [OF 1 2, of sample_chain]
  have "length (calls (run_task sample_chain t1 (run_task sample_chain t2 s2))) = 1"
    by (auto simp: Let_def sample_db_def empty_db_def)
  with 1 2 show ?thesis by blast
qed

end
