(* ===== verification/Flags.thy ===== *)
theory Flags
  imports Disputes
begin

text \<open>
  \<open>FlagsService\<close> (\<open>backend/src/flags/flags.service.ts\<close>): users report markets, an administrator
  settles a report by dismissing it, removing the market or banning a user.
\<close>

section \<open>Reporting\<close>

record create_flag_dto =
  cf_market_id :: uuid
  cf_reason :: flag_reason
  cf_description :: "string option"

definition save_flag :: "flag \<Rightarrow> db \<Rightarrow> db" where
  "save_flag f s = s\<lparr>flags := save_row f_id f (flags s)\<rparr>"

definition new_flag :: "env \<Rightarrow> uuid \<Rightarrow> create_flag_dto \<Rightarrow> flag" where
  "new_flag e user_id dto =
     \<lparr>f_id = fresh e 0, f_market = cf_market_id dto, f_user = user_id, f_reason = cf_reason dto,
      f_status = FlagPending, f_description = cf_description dto, resolution_action = None,
      f_admin_notes = None, f_resolved_by = None, f_resolved_at = None, f_created_at = now e\<rparr>"

definition create_flag :: "env \<Rightarrow> uuid \<Rightarrow> create_flag_dto \<Rightarrow> db \<Rightarrow> flag result \<times> db" where
  "create_flag e user_id dto s =
     (case by_id m_id (cf_market_id dto) (markets s) of
        None \<Rightarrow> (Inl (NotFound ''Market not found''), s)
      | Some m \<Rightarrow>
          if find_one (\<lambda>f. f_user f = user_id \<and> f_market f = cf_market_id dto \<and>
               f_status f = FlagPending) (flags s) \<noteq> None
          then (Inl (Conflict ''You have already flagged this market''), s)
          else
            (let f = new_flag e user_id dto in
             (Inr f, log_activity user_id ''MARKET_FLAGGED''
                [(''market_id'', cf_market_id dto), (''reason'', flag_reason_text (cf_reason dto))]
                (save_flag f s))))"

section \<open>Listing\<close>

record list_flags_query =
  lf_status :: "flag_status option"
  lf_reason :: "flag_reason option"
  lf_user_id :: "string option"
  lf_page :: nat
  lf_limit :: nat
  lf_sort_by :: string
  lf_sort_order :: string

record flag_page =
  fp_data :: "flag list"
  fp_total :: nat
  fp_total_pages :: int

definition flag_filter :: "list_flags_query \<Rightarrow> flag \<Rightarrow> bool" where
  "flag_filter q f \<longleftrightarrow>
     (case lf_status q of None \<Rightarrow> True | Some st \<Rightarrow> f_status f = st) \<and>
     (case lf_reason q of None \<Rightarrow> True | Some r \<Rightarrow> f_reason f = r) \<and>
     (case nonempty (lf_user_id q) of None \<Rightarrow> True | Some u \<Rightarrow> f_user f = u)"

text \<open>
  \<open>rank c\<close> is the database's order of the column \<open>c\<close>, None when there is no such column.  The page
  number and the limit, which the query string carries as text, are positive integers here.
\<close>

definition list_flags ::
  "(string \<Rightarrow> (flag \<Rightarrow> int) option) \<Rightarrow> list_flags_query \<Rightarrow> db \<Rightarrow> flag_page result" where
  "list_flags rank q s =
     (let rows = filter (flag_filter q) (flags s) in
      case rank (lf_sort_by q) of
        None \<Rightarrow> Inl (InternalError ''QueryFailedError'')
      | Some key \<Rightarrow>
          (case (if lf_sort_order q = ''DESC'' then Some (sort_desc key rows)
                 else if lf_sort_order q = ''ASC'' then Some (sort_key key rows) else None) of
             None \<Rightarrow> Inl (InternalError ''TypeORMError'')
           | Some ordered \<Rightarrow>
               Inr \<lparr>fp_data = page_of (lf_page q) (lf_limit q) ordered, fp_total = length rows,
                    fp_total_pages = \<lceil>of_nat (length rows) / of_nat (lf_limit q) :: rat\<rceil>\<rparr>))"

section \<open>Settling\<close>

definition ban_user :: "env \<Rightarrow> uuid \<Rightarrow> flag \<Rightarrow> user \<Rightarrow> user" where
  "ban_user e admin_id f u =
     u\<lparr>is_banned := True,
       ban_reason := Some (''Banned due to flagged content: '' @ flag_reason_text (f_reason f)),
       banned_at := Some (now e), banned_by := Some admin_id\<rparr>"

definition cancel_in_db :: "market \<Rightarrow> market" where
  "cancel_in_db m = m\<lparr>m_cancelled := True\<rparr>"

fun flag_effect :: "env \<Rightarrow> uuid \<Rightarrow> flag \<Rightarrow> flag_action \<Rightarrow> db \<Rightarrow> db" where
  "flag_effect e admin_id f Dismiss s = s"
| "flag_effect e admin_id f RemoveMarket s =
     s\<lparr>markets := update_rows (\<lambda>m. m_id m = f_market f) cancel_in_db (markets s)\<rparr>"
| "flag_effect e admin_id f BanUser s =
     s\<lparr>users := update_rows (\<lambda>u. u_id u = f_user f) (ban_user e admin_id f) (users s)\<rparr>"

definition settled_flag :: "env \<Rightarrow> uuid \<Rightarrow> flag_action \<Rightarrow> string option \<Rightarrow> flag \<Rightarrow> flag" where
  "settled_flag e admin_id action notes f =
     f\<lparr>f_status := (if action = Dismiss then FlagDismissed else FlagResolved),
       resolution_action := Some action, f_admin_notes := nonempty notes,
       f_resolved_by := Some admin_id, f_resolved_at := Some (now e)\<rparr>"

definition resolve_flag ::
  "env \<Rightarrow> uuid \<Rightarrow> flag_action \<Rightarrow> string option \<Rightarrow> uuid \<Rightarrow> db \<Rightarrow> flag result \<times> db" where
  "resolve_flag e flag_id action notes admin_id s =
     (case by_id f_id flag_id (flags s) of
        None \<Rightarrow> (Inl (NotFound ''Flag not found''), s)
      | Some f \<Rightarrow>
          if f_status f \<noteq> FlagPending then (Inl (Conflict ''Flag has already been resolved''), s)
          else
            (let f' = settled_flag e admin_id action notes f in
             (Inr f', log_activity admin_id ''FLAG_RESOLVED''
                [(''flag_id'', flag_id), (''action'', flag_action_text action),
                 (''market_id'', f_market f), (''user_id'', f_user f)]
                (save_flag f' (flag_effect e admin_id f action s)))))"

section \<open>Lemmas\<close>

lemma save_flag_simps [simp]:
  "users (save_flag f s) = users s" "markets (save_flag f s) = markets s"
  "predictions (save_flag f s) = predictions s" "flags (save_flag f s) = save_row f_id f (flags s)"
  "calls (save_flag f s) = calls s" "trending_cache (save_flag f s) = trending_cache s"
  by (simp_all add: save_flag_def)

lemma log_activity_more [simp]:
  "calls (log_activity u a x s) = calls s" "trending_cache (log_activity u a x s) = trending_cache s"
  by (simp_all add: log_activity_def)

lemma flag_effect_flags [simp]:
  "flags (flag_effect e admin f action s) = flags s" "calls (flag_effect e admin f action s) = calls s"
  "predictions (flag_effect e admin f action s) = predictions s"
  "trending_cache (flag_effect e admin f action s) = trending_cache s"
  by (cases action; simp)+

lemma resolve_flag_Inr:
  assumes "resolve_flag e flag_id action notes admin_id s = (Inr f', s')"
  obtains f where "by_id f_id flag_id (flags s) = Some f" and "f_status f = FlagPending"
    and "f' = settled_flag e admin_id action notes f"
    and "s' = log_activity admin_id ''FLAG_RESOLVED''
                [(''flag_id'', flag_id), (''action'', flag_action_text action),
                 (''market_id'', f_market f), (''user_id'', f_user f)]
                (save_flag f' (flag_effect e admin_id f action s))"
  using assms by (auto simp: resolve_flag_def Let_def split: option.splits if_splits)

lemma resolve_flag_Inl: "resolve_flag e flag_id action notes admin_id s = (Inl err, s') \<Longrightarrow> s' = s"
  by (auto simp: resolve_flag_def Let_def split: option.splits if_splits)

section \<open>Properties\<close>

text \<open>
  A report is settled once, and its action reaches the wrong party or only half of the system:
  banning bans the user who sent the report, not the market's creator, and removing a market marks
  the row as cancelled, resolved or not, without asking the chain and without dropping the cached
  trending list.
\<close>

theorem flag_settlement_effects:
  assumes "resolve_flag e flag_id action notes admin_id s = (Inr f, s')"
  shows "resolve_flag e' flag_id action' notes' admin' s' =
      (Inl (Conflict ''Flag has already been resolved''), s') \<and>
    calls s' = calls s \<and> trending_cache s' = trending_cache s \<and>
    by_id u_id uid (users s') = map_option
      (\<lambda>u. if action = BanUser \<and> uid = f_user f then ban_user e admin_id f u else u)
      (by_id u_id uid (users s)) \<and>
    by_id m_id mid (markets s') = map_option
      (\<lambda>m. if action = RemoveMarket \<and> mid = f_market f then cancel_in_db m else m)
      (by_id m_id mid (markets s))"
  using assms
proof (rule resolve_flag_Inr)
  fix g
  assume g: "by_id f_id flag_id (flags s) = Some g" and pend: "f_status g = FlagPending"
    and f: "f = settled_flag e admin_id action notes g"
    and s': "s' = log_activity admin_id ''FLAG_RESOLVED''
                [(''flag_id'', flag_id), (''action'', flag_action_text action),
                 (''market_id'', f_market g), (''user_id'', f_user g)]
                (save_flag f (flag_effect e admin_id g action s))"
  have keys: "f_id f = flag_id" "f_user f = f_user g" "f_market f = f_market g"
    "f_reason f = f_reason g" "f_status f \<noteq> FlagPending"
    using by_id_Some [OF g] by (simp_all add: f settled_flag_def)
  have ban: "ban_user e admin_id g = ban_user e admin_id f" by (simp add: ban_user_def keys fun_eq_iff)
  have "by_id f_id flag_id (flags s') = Some f" by (simp add: s' by_id_save_row keys)
  then have "resolve_flag e' flag_id action' notes' admin' s' =
      (Inl (Conflict ''Flag has already been resolved''), s')"
    using keys by (simp add: resolve_flag_def)
  moreover have "by_id u_id uid (users s') = map_option
      (\<lambda>u. if action = BanUser \<and> uid = f_user f then ban_user e admin_id f u else u)
      (by_id u_id uid (users s))"
    by (cases action)
      (auto simp: s' keys by_id_update_rows ban ban_user_def intro!: option.map_cong
        option.map_ident [symmetric] dest: by_id_Some)
  moreover have "by_id m_id mid (markets s') = map_option
      (\<lambda>m. if action = RemoveMarket \<and> mid = f_market f then cancel_in_db m else m)
      (by_id m_id mid (markets s))"
    by (cases action)
      (auto simp: s' keys by_id_update_rows cancel_in_db_def intro!: option.map_cong
        option.map_ident [symmetric] dest: by_id_Some)
  moreover have "calls s' = calls s" "trending_cache s' = trending_cache s" by (simp_all add: s')
  ultimately show ?thesis by blast
qed

definition sample_flag :: flag where
  "sample_flag = \<lparr>f_id = ''f1'', f_market = ''m1'', f_user = ''u1'', f_reason = Spam,
     f_status = FlagPending, f_description = None, resolution_action = None, f_admin_notes = None,
     f_resolved_by = None, f_resolved_at = None, f_created_at = 5\<rparr>"

theorem flag_settlement_effects_witness:
  "\<exists>f s'. resolve_flag sample_env ''f1'' BanUser None ''u9'' (sample_db\<lparr>flags := [sample_flag]\<rparr>) =
       (Inr f, s') \<and>
     by_id u_id ''u1'' (users s') = Some (ban_user sample_env ''u9'' f sample_user)"
proof -
  obtain f s' where run:
    "resolve_flag sample_env ''f1'' BanUser None ''u9'' (sample_db\<lparr>flags := [sample_flag]\<rparr>) = (Inr f, s')"
    and u: "f_user f = ''u1''"
    by (simp add: resolve_flag_def sample_flag_def settled_flag_def Let_def)
  from flag_settlement_effects [OF run, of sample_env Dismiss None "''u9''" "''u1''" "''m1''"] u run
  show ?thesis by (auto simp: sample_db_def sample_user_def)
qed

end
