(* ===== verification/Seasons.thy ===== *)
theory Seasons
  imports Markets
begin

text \<open>
  \<open>SeasonsService\<close> (\<open>backend/src/seasons/seasons.service.ts\<close>): scheduling seasons, optionally
  mirrored on the chain, the active season, and the finalisation that crowns the player with the
  most points and resets everybody's points.
\<close>

section \<open>Creation\<close>

text \<open>A date that does not parse is None.\<close>

record create_season_dto =
  cs_season_number :: int
  cs_start_time :: "timestamp option"
  cs_end_time :: "timestamp option"
  cs_reward_pool :: string
  cs_sync_soroban :: bool

definition is_positive_big_int_string :: "string \<Rightarrow> bool" where
  "is_positive_big_int_string text = (case big_int text of None \<Rightarrow> False | Some n \<Rightarrow> n > 0)"

definition has_active_overlap :: "timestamp \<Rightarrow> timestamp \<Rightarrow> season list \<Rightarrow> bool" where
  "has_active_overlap start_at end_at ss \<longleftrightarrow>
     0 < count_rows (\<lambda>x. is_active x \<and> starts_at x < end_at \<and> ends_at x > start_at) ss"

definition save_season :: "season \<Rightarrow> db \<Rightarrow> db" where
  "save_season x s = s\<lparr>seasons := save_row s_id x (seasons s)\<rparr>"

definition new_season :: "env \<Rightarrow> create_season_dto \<Rightarrow> timestamp \<Rightarrow> timestamp \<Rightarrow> season" where
  "new_season e dto start_at end_at =
     \<lparr>s_id = fresh e 0, season_number = cs_season_number dto,
      s_name = ''Season '' @ show_int (cs_season_number dto), starts_at = start_at, ends_at = end_at,
      reward_pool_stroops = cs_reward_pool dto, is_active = (start_at \<le> now e \<and> now e < end_at),
      s_finalized = False, top_winner = None, on_chain_season_id = None, soroban_tx_hash = None,
      s_created_at = now e\<rparr>"

definition pool_fits :: "string \<Rightarrow> bool" where
  "pool_fits text = (case big_int text of None \<Rightarrow> False | Some n \<Rightarrow> pg_int8 n)"

text \<open>
  The row is saved first; when the chain refuses, or its id does not fit, the row is removed again
  and the error rethrown.
\<close>

definition sync_season ::
  "soroban \<Rightarrow> create_season_dto \<Rightarrow> season \<Rightarrow> db \<Rightarrow> season result \<times> db" where
  "sync_season sor dto saved s =
     (let a = starts_at saved div 1000; b = ends_at saved div 1000;
          s1 = call_chain (CreateSeason a b (cs_reward_pool dto)) s;
          undo = s1\<lparr>seasons := delete_rows (\<lambda>x. s_id x = s_id saved) (seasons s1)\<rparr> in
      case sb_create_season sor a b (cs_reward_pool dto) of
        Inl err \<Rightarrow> (Inl (InternalError err), undo)
      | Inr (chain_id, hash) \<Rightarrow>
          if pg_int4 chain_id \<and> length hash \<le> 128 then
            (let x = saved\<lparr>on_chain_season_id := Some chain_id, soroban_tx_hash := Some hash\<rparr>
             in (Inr x, save_season x s1))
          else (Inl (InternalError ''QueryFailedError''), undo))"

definition create_season ::
  "soroban \<Rightarrow> env \<Rightarrow> create_season_dto \<Rightarrow> db \<Rightarrow> season result \<times> db" where
  "create_season sor e dto s =
     (case (cs_start_time dto, cs_end_time dto) of
        (Some start_at, Some end_at) \<Rightarrow>
          if end_at \<le> start_at then (Inl (BadRequest ''end_time must be after start_time''), s)
          else if find_one (\<lambda>x. season_number x = cs_season_number dto) (seasons s) \<noteq> None then
            (Inl (Conflict (''Season number '' @ show_int (cs_season_number dto) @
               '' is already in use'')), s)
          else if has_active_overlap start_at end_at (seasons s) then
            (Inl (Conflict ''An active season already exists that overlaps this time range''), s)
          else if \<not> (pg_int4 (cs_season_number dto) \<and> pool_fits (cs_reward_pool dto)) then
            (Inl (InternalError ''QueryFailedError''), s)
          else
            (let saved = new_season e dto start_at end_at; s1 = save_season saved s in
             if cs_sync_soroban dto then sync_season sor dto saved s1 else (Inr saved, s1))
      | _ \<Rightarrow> (Inl (BadRequest ''Invalid start_time or end_time''), s))"

section \<open>Queries\<close>

definition find_active_season :: "timestamp \<Rightarrow> db \<Rightarrow> season result" where
  "find_active_season t0 s =
     (case sort_desc starts_at
             (filter (\<lambda>x. is_active x \<and> starts_at x \<le> t0 \<and> ends_at x > t0) (seasons s)) of
        [] \<Rightarrow> Inl (NotFound (''No active season exists. There is no season that is marked active '' @
                ''and whose start and end times include the current moment.''))
      | x # _ \<Rightarrow> Inr x)"

definition find_season_by_id :: "uuid \<Rightarrow> db \<Rightarrow> season result" where
  "find_season_by_id sid s =
     (case by_id s_id sid (seasons s) of
        None \<Rightarrow> Inl (NotFound (''Season '' @ quoted sid @ '' not found''))
      | Some x \<Rightarrow> Inr x)"

record season_list_item =
  sl_season :: season
  sl_top_winner :: "(uuid \<times> string option \<times> string) option"

definition to_season_list_item :: "db \<Rightarrow> season \<Rightarrow> season_list_item" where
  "to_season_list_item s x =
     \<lparr>sl_season = x,
      sl_top_winner =
        (case (s_finalized x, top_winner x) of
           (True, Some w) \<Rightarrow>
             map_option (\<lambda>u. (u_id u, username u, stellar_address u)) (by_id u_id w (users s))
         | _ \<Rightarrow> None)\<rparr>"

definition find_all_seasons ::
  "nat option \<Rightarrow> nat option \<Rightarrow> db \<Rightarrow> season_list_item page_result" where
  "find_all_seasons page limit s =
     (let pg = (case page of None \<Rightarrow> 1 | Some n \<Rightarrow> n);
          lim = min (case limit of None \<Rightarrow> 20 | Some n \<Rightarrow> n) 50
      in \<lparr>data = map (to_season_list_item s) (page_of pg lim (sort_desc season_number (seasons s))),
          total = length (seasons s), pg_page = pg, pg_limit = lim\<rparr>)"

section \<open>Finalisation\<close>

text \<open>
  \<open>update_all_ok\<close> tells whether the ORM executes an update with the empty criteria \<open>{}\<close> or throws;
  \<open>notify_ok\<close> whether the notification can be stored.  The notification is sent after the commit,
  inside the same \<open>try\<close>; the emoji of its title is left out.
\<close>

definition top_user :: "db \<Rightarrow> user option" where
  "top_user s = (case sort_desc season_points (users s) of [] \<Rightarrow> None | u # _ \<Rightarrow> Some u)"

definition finalized_season :: "user option \<Rightarrow> season \<Rightarrow> season" where
  "finalized_season w x =
     x\<lparr>is_active := False, s_finalized := True, top_winner := map_option u_id w\<rparr>"

definition reset_points :: "user list \<Rightarrow> user list" where
  "reset_points us = update_rows (\<lambda>u. True) (\<lambda>u. u\<lparr>season_points := 0\<rparr>) us"

definition winner_notification :: "season \<Rightarrow> user \<Rightarrow> notification" where
  "winner_notification x u =
     \<lparr>n_user_address = stellar_address u, n_type = ''EventCreated'', n_title = ''Season Winner!'',
      n_message = ''Congratulations! You are the winner of the '' @ s_name x @
        '' season with the highest points!''\<rparr>"

definition finalize_season :: "bool \<Rightarrow> bool \<Rightarrow> uuid \<Rightarrow> db \<Rightarrow> season result \<times> db" where
  "finalize_season update_all_ok notify_ok sid s =
     (case by_id s_id sid (seasons s) of
        None \<Rightarrow> (Inl (NotFound (''Season '' @ quoted sid @ '' not found'')), s)
      | Some x \<Rightarrow>
          if s_finalized x then (Inl (Conflict ''Season is already finalized''), s)
          else if \<not> update_all_ok then (Inl (InternalError ''TypeORMError''), s)
          else
            (let w = top_user s; x' = finalized_season w x;
                 s1 = (save_season x' s)\<lparr>users := reset_points (users s)\<rparr> in
             case w of
               None \<Rightarrow> (find_season_by_id sid s1, s1)
             | Some u \<Rightarrow>
                 if notify_ok then
                   (let s2 = s1\<lparr>notifications := notifications s1 @ [winner_notification x u]\<rparr>
                    in (find_season_by_id sid s2, s2))
                 else (Inl (InternalError ''notification failed''), s1)))"

section \<open>Reachable tables\<close>

text \<open>
  Seasons are only changed by the two operations.  The database generates new ids; the chain keeps
  the contract of the gateway.
\<close>

inductive season_step :: "db \<Rightarrow> db \<Rightarrow> bool" where
  create: "create_season (soroban_service cfg rpc) e dto s = (r, s') \<Longrightarrow>
     fresh e 0 \<notin> s_id ` set (seasons s) \<Longrightarrow> season_step s s'"
| finalize: "finalize_season update_ok notify_ok sid s = (r, s') \<Longrightarrow> season_step s s'"

definition season_ok :: "season \<Rightarrow> bool" where
  "season_ok x \<longleftrightarrow>
     starts_at x < ends_at x \<and> \<not> (is_active x \<and> s_finalized x) \<and>
     (case on_chain_season_id x of None \<Rightarrow> True | Some i \<Rightarrow> 1 \<le> i \<and> i < 2 ^ 31)"

definition apart :: "season \<Rightarrow> season \<Rightarrow> bool" where
  "apart x y \<longleftrightarrow> \<not> (is_active x \<and> is_active y) \<or> ends_at x \<le> starts_at y \<or> ends_at y \<le> starts_at x"

definition seasons_ok :: "db \<Rightarrow> bool" where
  "seasons_ok s \<longleftrightarrow>
     keyed s_id (seasons s) \<and> distinct (map season_number (seasons s)) \<and>
     list_all season_ok (seasons s) \<and> sorted_wrt apart (seasons s)"

section \<open>Lemmas\<close>

lemma season_table_simps [simp]:
  "seasons (save_season x s) = save_row s_id x (seasons s)"
  "users (save_season x s) = users s" "calls (save_season x s) = calls s"
  "notifications (save_season x s) = notifications s"
  by (simp_all add: save_season_def)

text \<open>Replacing a row by one with the same window that is active only if the old one was.\<close>

lemma sorted_apart_save_row:
  "sorted_wrt apart ss \<Longrightarrow> by_id s_id (s_id x') ss = Some x \<Longrightarrow> starts_at x' = starts_at x \<Longrightarrow>
    ends_at x' = ends_at x \<Longrightarrow> (is_active x' \<longrightarrow> is_active x) \<Longrightarrow>
    sorted_wrt apart (save_row s_id x' ss)"
proof (induction ss)
  case (Cons y ss)
  show ?case
  proof (cases "s_id y = s_id x'")
    case True
    with Cons.prems show ?thesis by (auto simp: apart_def)
  next
    case False
    with Cons.prems have found: "by_id s_id (s_id x') ss = Some x" by simp
    then have "x \<in> set ss" by (auto dest: by_id_Some)
    with Cons.prems have "apart y x" by simp
    with Cons.prems have "apart y x'" by (auto simp: apart_def)
    with False Cons found set_save_row [of s_id x' ss] show ?thesis by auto
  qed
qed simp

lemma seasons_ok_save:
  assumes "seasons_ok s" and "by_id s_id (s_id x') (seasons s) = Some x"
    and "starts_at x' = starts_at x" and "ends_at x' = ends_at x"
    and "is_active x' \<longrightarrow> is_active x" and "season_number x' = season_number x" and "season_ok x'"
    and "seasons s' = save_row s_id x' (seasons s)"
  shows "seasons_ok s'"
  using assms map_save_row_same [OF assms(2), of season_number]
  by (simp add: seasons_ok_def keyed_save_row list_all_save_row sorted_apart_save_row)

lemma seasons_ok_append:
  assumes "seasons_ok s" and "s_id x \<notin> s_id ` set (seasons s)"
    and "season_number x \<notin> season_number ` set (seasons s)" and "season_ok x"
    and "\<not> has_active_overlap (starts_at x) (ends_at x) (seasons s)"
    and "seasons s' = seasons s @ [x]"
  shows "seasons_ok s'"
  using assms
  by (auto simp: seasons_ok_def keyed_snoc sorted_wrt_append has_active_overlap_def count_rows_0
      apart_def not_less)

lemma seasons_ok_same: "seasons_ok s \<Longrightarrow> seasons s' = seasons s \<Longrightarrow> seasons_ok s'"
  by (simp add: seasons_ok_def)

text \<open>What a creation leaves: nothing new, or one new row, possibly with its chain id.\<close>

lemma create_season_cases:
  assumes "create_season sor e dto s = (r, s')" and "fresh e 0 \<notin> s_id ` set (seasons s)"
  obtains (refused) "seasons s' = seasons s" and "\<not> is_ok r"
    | (created) x where "r = Inr x" and "seasons s' = seasons s @ [x]" and "s_id x = fresh e 0"
      and "season_number x = cs_season_number dto"
      and "season_number x \<notin> season_number ` set (seasons s)"
      and "starts_at x < ends_at x" and "\<not> s_finalized x"
      and "\<not> has_active_overlap (starts_at x) (ends_at x) (seasons s)"
      and "is_active x \<longleftrightarrow> starts_at x \<le> now e \<and> now e < ends_at x"
      and "case on_chain_season_id x of None \<Rightarrow> \<not> cs_sync_soroban dto
           | Some i \<Rightarrow> cs_sync_soroban dto \<and> (\<exists>a b h. sb_create_season sor a b (cs_reward_pool dto) = Inr (i, h))"
proof (cases "\<exists>a b. cs_start_time dto = Some a \<and> cs_end_time dto = Some b \<and> a < b \<and>
    find_one (\<lambda>x. season_number x = cs_season_number dto) (seasons s) = None \<and>
    \<not> has_active_overlap a b (seasons s) \<and> pg_int4 (cs_season_number dto) \<and> pool_fits (cs_reward_pool dto)")
  case False
  with assms(1) show thesis
    by (intro refused) (auto simp: create_season_def split: option.splits if_splits)
next
  case True
  then obtain a b where ab: "cs_start_time dto = Some a" "cs_end_time dto = Some b" "a < b"
    "find_one (\<lambda>x. season_number x = cs_season_number dto) (seasons s) = None"
    "\<not> has_active_overlap a b (seasons s)" "pg_int4 (cs_season_number dto)" "pool_fits (cs_reward_pool dto)"
    by blast
  let ?x = "new_season e dto a b"
  have new: "s_id ?x \<notin> s_id ` set (seasons s)" using assms(2) by (simp add: new_season_def)
  have num: "cs_season_number dto \<notin> season_number ` set (seasons s)"
    using ab(4) by (auto simp: find_one_None)
  have run: "(if cs_sync_soroban dto then sync_season sor dto ?x (save_season ?x s)
      else (Inr ?x, save_season ?x s)) = (r, s')"
    using assms(1) ab by (simp add: create_season_def Let_def)
  show thesis
  proof (cases "cs_sync_soroban dto")
    case False
    with run show thesis
      using new num ab by (intro created [of ?x]) (auto simp: new_season_def save_row_fresh)
  next
    case True
    let ?reply = "sb_create_season sor (starts_at ?x div 1000) (ends_at ?x div 1000) (cs_reward_pool dto)"
    show thesis
    proof (cases "\<exists>i h. ?reply = Inr (i, h) \<and> pg_int4 i \<and> length h \<le> 128")
      case True
      then obtain i h where ih: "?reply = Inr (i, h)" "pg_int4 i" "length h \<le> 128" by blast
      let ?y = "?x\<lparr>on_chain_season_id := Some i, soroban_tx_hash := Some h\<rparr>"
      have "r = Inr ?y" "seasons s' = save_row s_id ?y (save_row s_id ?x (seasons s))"
        using run \<open>cs_sync_soroban dto\<close> ih by (auto simp: sync_season_def Let_def)
      moreover have "save_row s_id ?y (save_row s_id ?x (seasons s)) = seasons s @ [?y]"
        using new by (simp add: save_row_fresh save_row_last)
      ultimately show thesis
        using num ab ih \<open>cs_sync_soroban dto\<close>
        by (intro created [of ?y]) (auto simp: new_season_def)
    next
      case False
      with run \<open>cs_sync_soroban dto\<close> new show thesis
        by (intro refused)
          (auto simp: sync_season_def Let_def delete_save_row_fresh split: sum.splits if_splits)
    qed
  qed
qed

lemma finalize_season_cases:
  assumes "finalize_season update_ok notify_ok sid s = (r, s')"
  obtains (refused) "s' = s" and "\<not> is_ok r"
    | (finalized) x where "by_id s_id sid (seasons s) = Some x" and "\<not> s_finalized x" and "update_ok"
      and "seasons s' = save_row s_id (finalized_season (top_user s) x) (seasons s)"
      and "users s' = reset_points (users s)"
      and "notifications s' = notifications s @
             (case top_user s of None \<Rightarrow> [] | Some u \<Rightarrow> if notify_ok then [winner_notification x u] else [])"
      and "is_ok r \<longleftrightarrow> top_user s = None \<or> notify_ok"
proof (cases "by_id s_id sid (seasons s)")
  case None
  with assms show thesis by (intro refused) (auto simp: finalize_season_def)
next
  case (Some x)
  note x = this
  show thesis
  proof (cases "s_finalized x \<or> \<not> update_ok")
    case True
    with assms x show thesis by (intro refused) (auto simp: finalize_season_def split: if_splits)
  next
    case False
    have id: "s_id (finalized_season (top_user s) x) = sid"
      using by_id_Some [OF x] by (simp add: finalized_season_def)
    then have "by_id s_id sid (save_row s_id (finalized_season (top_user s) x) (seasons s)) \<noteq> None"
      by (simp add: by_id_save_row)
    with assms x False show thesis
      by (intro finalized [OF x])
        (auto simp: finalize_season_def Let_def find_season_by_id_def split: option.splits if_splits)
  qed
qed

lemma season_step_ok:
  assumes "season_step s s'" and "seasons_ok s" shows "seasons_ok s'"
  using assms(1)
proof cases
  case (create cfg rpc e dto r)
  then show ?thesis
  proof (cases rule: create_season_cases)
    case (created x)
    have "season_ok x"
      using created(6,7,10) soroban_gateway.season_id
      by (fastforce simp: season_ok_def split: option.splits)
    with created create(2) show ?thesis
      by (intro seasons_ok_append [OF assms(2), of x]) auto
  qed (use assms(2) in \<open>auto intro: seasons_ok_same\<close>)
next
  case (finalize update_ok notify_ok sid r)
  then show ?thesis
  proof (cases rule: finalize_season_cases)
    case (finalized x)
    have "season_ok x" using assms(2) by_id_Some [OF finalized(1)] by (auto simp: seasons_ok_def list_all_iff)
    with finalized(1) by_id_Some [OF finalized(1)] show ?thesis
      by (intro seasons_ok_save [OF assms(2) _ _ _ _ _ _ finalized(4), of x])
        (auto simp: finalized_season_def season_ok_def)
  qed (use assms(2) in simp)
qed

lemma seasons_ok_empty: "seasons s = [] \<Longrightarrow> seasons_ok s"
  by (simp add: seasons_ok_def keyed_def)

lemma season_steps_ok: "season_step\<^sup>*\<^sup>* s s' \<Longrightarrow> seasons_ok s \<Longrightarrow> seasons_ok s'"
  by (induction rule: rtranclp_induct) (auto intro: season_step_ok)

lemma sorted_wrt_apart_members:
  "sorted_wrt apart ss \<Longrightarrow> x \<in> set ss \<Longrightarrow> y \<in> set ss \<Longrightarrow> x = y \<or> apart x y \<or> apart y x"
  by (induction ss) auto

text \<open>A season that is not active stays so.\<close>

lemma season_step_inactive:
  assumes "season_step s s'" and "by_id s_id sid (seasons s) = Some x" and "\<not> is_active x"
  shows "\<exists>x'. by_id s_id sid (seasons s') = Some x' \<and> \<not> is_active x'"
  using assms(1)
proof cases
  case (create cfg rpc e dto r)
  then show ?thesis
  proof (cases rule: create_season_cases)
    case (created y)
    with assms show ?thesis by (simp add: by_id_def find_one_append)
  qed (use assms in auto)
next
  case (finalize update_ok notify_ok k r)
  then show ?thesis
  proof (cases rule: finalize_season_cases)
    case (finalized y)
    then have "by_id s_id sid (seasons s') =
        (if sid = k then Some (finalized_season (top_user s) y) else by_id s_id sid (seasons s))"
      using by_id_Some [OF finalized(1)] by (simp add: by_id_save_row finalized_season_def)
    with assms show ?thesis by (simp add: finalized_season_def)
  qed (use assms in auto)
qed

section \<open>Properties\<close>


definition sample_season_dto :: create_season_dto where
  "sample_season_dto = \<lparr>cs_season_number = 1, cs_start_time = Some 5000, cs_end_time = Some 9000,
     cs_reward_pool = ''20000000'', cs_sync_soroban = False\<rparr>"

definition sample_season :: season where
  "sample_season = new_season sample_env sample_season_dto 5000 9000"

lemma big_int_pool: "big_int ''20000000'' = Some 20000000"
  by (simp add: big_int_def trim_def trim_left_def trim_right_def is_space_def signed_literal_def
      read_nat_def digit_val_def char_code_def)

lemma sample_season_step: "season_step sample_db (save_season sample_season sample_db)"
proof (rule season_step.create)
  show "create_season (soroban_service undefined undefined) sample_env sample_season_dto sample_db =
      (Inr sample_season, save_season sample_season sample_db)"
    by (simp add: create_season_def sample_season_dto_def sample_season_def has_active_overlap_def
        sample_db_def empty_db_def pg_int4_def pool_fits_def big_int_pool pg_int8_def Let_def)
  show "fresh sample_env 0 \<notin> s_id ` set (seasons sample_db)" by (simp add: sample_db_def empty_db_def)
qed


text \<open>
  Finalising a season happens once and as a whole or not at all: the winner is a user with the
  most points, all points are reset, and a second attempt answers 409.  When the ORM refuses an
  update with empty criteria, as recent versions do, no season can ever be finalised; when only
  the notification fails, the caller gets an error although everything is committed.
\<close>

theorem finalize_season_effect:
  assumes "finalize_season update_ok notify_ok sid s = (r, s')" and "keyed s_id (seasons s)"
  shows "(\<not> update_ok \<longrightarrow> \<not> is_ok r \<and> s' = s) \<and>
    (s' \<noteq> s \<longrightarrow>
       (case by_id s_id sid (seasons s') of
          None \<Rightarrow> False
        | Some x \<Rightarrow> s_finalized x \<and> \<not> is_active x \<and>
            (case top_winner x of
               None \<Rightarrow> users s = []
             | Some w \<Rightarrow> \<exists>u\<in>set (users s). u_id u = w \<and> (\<forall>v\<in>set (users s). season_points v \<le> season_points u))) \<and>
       list_all (\<lambda>u. season_points u = 0) (users s') \<and>
       (is_ok r \<longleftrightarrow> users s = [] \<or> notify_ok) \<and>
       finalize_season update_ok' notify_ok' sid s' = (Inl (Conflict ''Season is already finalized''), s'))"
  using assms(1)
proof (cases rule: finalize_season_cases)
  case (finalized x)
  let ?x = "finalized_season (top_user s) x"
  have id: "s_id ?x = sid" using by_id_Some [OF finalized(1)] by (simp add: finalized_season_def)
  have row: "by_id s_id sid (seasons s') = Some ?x" by (simp add: finalized(4) by_id_save_row id)
  have none: "top_user s = None \<longleftrightarrow> users s = []"
    using sort_desc_Nil_iff [of season_points "users s"]
    by (cases "sort_desc season_points (users s)") (simp_all add: top_user_def del: sort_desc_Nil_iff)
  have winner: "u \<in> set (users s) \<and> (\<forall>v\<in>set (users s). season_points v \<le> season_points u)"
    if "top_user s = Some u" for u
  proof -
    from that obtain us where "sort_desc season_points (users s) = u # us"
      by (auto simp: top_user_def split: list.splits)
    then show ?thesis
      using sorted_sort_desc [of season_points "users s"] set_sort_desc [of season_points "users s"]
      by auto
  qed
  have again: "finalize_season update_ok' notify_ok' sid s' =
      (Inl (Conflict ''Season is already finalized''), s')"
    using row by (simp add: finalize_season_def finalized_season_def)
  have "case top_winner ?x of None \<Rightarrow> users s = []
      | Some w \<Rightarrow> \<exists>u\<in>set (users s). u_id u = w \<and> (\<forall>v\<in>set (users s). season_points v \<le> season_points u)"
    using none winner by (cases "top_user s") (auto simp: finalized_season_def)
  moreover have "list_all (\<lambda>u. season_points u = 0) (users s')"
    by (simp add: finalized(5) reset_points_def update_rows_def list_all_iff)
  moreover have "is_ok r \<longleftrightarrow> users s = [] \<or> notify_ok" using finalized(7) none by simp
  moreover have "s_finalized ?x" "\<not> is_active ?x" by (simp_all add: finalized_season_def)
  ultimately show ?thesis using finalized(3) row again by simp
qed (use assms in simp)

theorem finalize_season_effect_witness:
  "\<exists>r s'. finalize_season True False (s_id sample_season) (save_season sample_season sample_db) = (r, s') \<and>
     \<not> is_ok r \<and> (case by_id s_id (s_id sample_season) (seasons s') of None \<Rightarrow> False | Some x \<Rightarrow> s_finalized x)"
proof -
  let ?s = "save_season sample_season sample_db"
  have k: "keyed s_id (seasons ?s)" by (simp add: keyed_def sample_db_def empty_db_def)
  obtain r s' where run: "finalize_season True False (s_id sample_season) ?s = (r, s')" by fastforce
  have "top_user ?s = Some sample_user"
    by (simp add: top_user_def sample_db_def sample_admin_def sample_user_def)
  moreover have "by_id s_id (s_id sample_season) (seasons ?s) = Some sample_season"
    by (simp add: sample_db_def empty_db_def)
  moreover have fin: "\<not> s_finalized sample_season" by (simp add: sample_season_def new_season_def)
  ultimately have "s' = (save_season (finalized_season (Some sample_user) sample_season) ?s)
      \<lparr>users := reset_points (users ?s)\<rparr>"
    using run by (simp add: finalize_season_def Let_def)
  then have "seasons s' = [finalized_season (Some sample_user) sample_season]"
    by (simp add: sample_db_def empty_db_def finalized_season_def)
  moreover have "seasons ?s = [sample_season]" by (simp add: sample_db_def empty_db_def)
  moreover have "finalized_season (Some sample_user) sample_season \<noteq> sample_season"
    using fin by (metis finalized_season_def season.select_convs(8) season.surjective season.update_convs(8,9))
  ultimately have "s' \<noteq> ?s" by auto
  with finalize_season_effect [OF run k, of True True] run show ?thesis
    by (auto simp: sample_db_def empty_db_def split: option.splits)
qed

text \<open>
  A season scheduled ahead never becomes active.  The flag is computed once, when the row is
  created, and no operation sets it later: from then on the lookup of the active season does not
  return it, whatever the time and whatever is done in between.
\<close>

theorem scheduled_season_never_active:
  assumes "create_season (soroban_service cfg rpc) e dto s = (Inr x, s')" and "now e < starts_at x"
    and "fresh e 0 \<notin> s_id ` set (seasons s)" and "season_step\<^sup>*\<^sup>* s' s''" and "keyed s_id (seasons s'')"
  shows "find_active_season t0 s'' \<noteq> Inr y \<or> s_id y \<noteq> s_id x"
proof -
  from assms(1,3) have start: "\<exists>z. by_id s_id (s_id x) (seasons s') = Some z \<and> \<not> is_active z"
  proof (cases rule: create_season_cases)
    case (created z)
    moreover from assms(3) have "find_one (\<lambda>r. s_id r = fresh e 0) (seasons s) = None"
      using by_id_None [of s_id "fresh e 0" "seasons s"] by (simp add: by_id_def)
    ultimately show ?thesis using assms(2) by (auto simp: by_id_def find_one_append)
  qed simp
  from assms(4) have "\<exists>z. by_id s_id (s_id x) (seasons s'') = Some z \<and> \<not> is_active z"
    by (induction rule: rtranclp_induct) (use start season_step_inactive in blast)+
  then obtain z where z: "by_id s_id (s_id x) (seasons s'') = Some z" "\<not> is_active z" by blast
  show ?thesis
  proof (rule ccontr)
    assume "\<not> ?thesis"
    then have act: "find_active_season t0 s'' = Inr y" and id: "s_id y = s_id x" by auto
    from act have "y \<in> set (sort_desc starts_at
        (filter (\<lambda>x. is_active x \<and> starts_at x \<le> t0 \<and> ends_at x > t0) (seasons s'')))"
      unfolding find_active_season_def
      by (cases "sort_desc starts_at
        (filter (\<lambda>x. is_active x \<and> starts_at x \<le> t0 \<and> ends_at x > t0) (seasons s''))") auto
    then have "y \<in> set (seasons s'')" "is_active y" by auto
    with by_id_in [OF assms(5)] id z show False by fastforce
  qed
qed

theorem scheduled_season_never_active_witness:
  "create_season (soroban_service undefined undefined) sample_env sample_season_dto sample_db =
     (Inr sample_season, save_season sample_season sample_db) \<and>
   find_active_season 6000 (save_season sample_season sample_db) \<noteq> Inr sample_season"
proof -
  have run: "create_season (soroban_service undefined undefined) sample_env sample_season_dto sample_db =
      (Inr sample_season, save_season sample_season sample_db)"
    by (simp add: create_season_def sample_season_dto_def sample_season_def has_active_overlap_def
        sample_db_def empty_db_def pg_int4_def pool_fits_def big_int_pool pg_int8_def Let_def)
  have "now sample_env < starts_at sample_season" "fresh sample_env 0 \<notin> s_id ` set (seasons sample_db)"
    "keyed s_id (seasons (save_season sample_season sample_db))"
    by (simp_all add: sample_season_def new_season_def sample_db_def empty_db_def keyed_def)
  from scheduled_season_never_active [OF run this(1,2) rtranclp.rtrancl_refl this(3), of 6000 sample_season]
  show ?thesis using run by simp
qed

end
