(* ===== verification/JsText.thy ===== *)
theory JsText
  imports Js Prelude
begin

text \<open>
  Values as text and text as values: \<open>String(v)\<close>, \<open>Number(v)\<close>, \<open>JSON.stringify\<close> and \<open>JSON.parse\<close>, as
  the event indexer applies them to the fields of a payload.  Numbers are exact; the printed form
  covers integers and fractions with at most twenty decimals, without exponents.
\<close>

section \<open>Text of a value\<close>

definition show_num :: "jsnum \<Rightarrow> string" where
  "show_num v =
     (case v of
        NaN \<Rightarrow> ''NaN'' | PosInf \<Rightarrow> ''Infinity'' | NegInf \<Rightarrow> ''-Infinity''
      | Fin x \<Rightarrow>
          if x = of_int \<lfloor>x\<rfloor> then show_int \<lfloor>x\<rfloor>
          else (case List.find (\<lambda>f. x * 10 ^ f = of_int \<lfloor>x * 10 ^ f\<rfloor>) [1..<21] of
                  Some f \<Rightarrow> to_fixed f x | None \<Rightarrow> to_fixed 20 x))"

definition show_bool :: "bool \<Rightarrow> string" where
  "show_bool b = (if b then ''true'' else ''false'')"

fun js_string :: "jsval \<Rightarrow> string" where
  "js_string JUndefined = ''undefined''"
| "js_string JNull = ''null''"
| "js_string (JBool b) = show_bool b"
| "js_string (JNum x) = show_num x"
| "js_string (JBigInt i) = show_int i"
| "js_string (JStr s) = s"
| "js_string (JArr xs) =
     join_with '','' (map (\<lambda>x. if x = JUndefined \<or> x = JNull then [] else js_string x) xs)"
| "js_string (JObj _) = ''[object Object]''"

fun js_number :: "jsval \<Rightarrow> jsnum" where
  "js_number JUndefined = NaN"
| "js_number JNull = Fin 0"
| "js_number (JBool b) = Fin (if b then 1 else 0)"
| "js_number (JNum x) = x"
| "js_number (JBigInt i) = to_num (of_int i)"
| "js_number (JStr s) = number_of_text s"
| "js_number (JArr xs) = number_of_text (js_string (JArr xs))"
| "js_number (JObj _) = NaN"

section \<open>JSON text\<close>

definition escape_char :: "char \<Rightarrow> string" where
  "escape_char c =
     (let n = char_code c in
      if n = 34 then [CHR 0x5C, CHR 0x22]
      else if n = 92 then [CHR 0x5C, CHR 0x5C]
      else if n = 8 then CHR 0x5C # ''b'' else if n = 9 then CHR 0x5C # ''t''
      else if n = 10 then CHR 0x5C # ''n'' else if n = 12 then CHR 0x5C # ''f''
      else if n = 13 then CHR 0x5C # ''r''
      else if n < 32 then CHR 0x5C # ''u00'' @ [digit_char (n div 16),
        (if n mod 16 < 10 then digit_char (n mod 16) else char_of (n mod 16 + 87))]
      else [c])"

definition json_quote :: "string \<Rightarrow> string" where
  "json_quote s = CHR 0x22 # concat (map escape_char s) @ [CHR 0x22]"

text \<open>None: a \<open>bigint\<close> inside, on which \<open>JSON.stringify\<close> throws.\<close>

fun all_some :: "'a option list \<Rightarrow> 'a list option" where
  "all_some [] = Some []"
| "all_some (x # xs) =
     (case (x, all_some xs) of (Some a, Some as) \<Rightarrow> Some (a # as) | _ \<Rightarrow> None)"

fun json_text :: "jsval \<Rightarrow> string option" where
  "json_text JUndefined = Some ''null''"
| "json_text JNull = Some ''null''"
| "json_text (JBool b) = Some (show_bool b)"
| "json_text (JNum x) = Some (case x of Fin _ \<Rightarrow> show_num x | _ \<Rightarrow> ''null'')"
| "json_text (JBigInt i) = None"
| "json_text (JStr s) = Some (json_quote s)"
| "json_text (JArr xs) =
     map_option (\<lambda>ts. ''['' @ join_with '','' ts @ '']'') (all_some (map json_text xs))"
| "json_text (JObj ps) =
     map_option (\<lambda>ts. ''{'' @ join_with '','' ts @ ''}'')
       (all_some (map (\<lambda>(k, v). map_option (\<lambda>t. json_quote k @ '':'' @ t) (json_text v))
          (filter (\<lambda>(k, v). v \<noteq> JUndefined) ps)))"

section \<open>Reading JSON\<close>

definition json_space :: "char \<Rightarrow> bool" where
  "json_space c \<longleftrightarrow> char_code c \<in> {32, 9, 10, 13}"

abbreviation skip_space :: "string \<Rightarrow> string" where
  "skip_space \<equiv> dropWhile json_space"

definition unescape :: "char \<Rightarrow> char option" where
  "unescape c =
     (let n = char_code c in
      if n = 34 \<or> n = 92 \<or> n = 47 then Some c
      else if n = 98 then Some (char_of (8::nat)) else if n = 102 then Some (char_of (12::nat))
      else if n = 110 then Some (char_of (10::nat)) else if n = 114 then Some (char_of (13::nat))
      else if n = 116 then Some (char_of (9::nat)) else None)"

text \<open>The rest of a string literal after its opening quote.\<close>

fun json_chars :: "string \<Rightarrow> (string \<times> string) option" where
  "json_chars [] = None"
| "json_chars (c # s) =
     (if char_code c = 34 then Some ([], s)
      else if char_code c < 32 then None
      else if char_code c = 92 then
        (case s of
           [] \<Rightarrow> None
         | d # t \<Rightarrow>
             (case unescape d of
                Some x \<Rightarrow> map_option (\<lambda>(r, u). (x # r, u)) (json_chars t)
              | None \<Rightarrow>
                  (case (d = CHR ''u'', t) of
                     (True, h1 # h2 # h3 # h4 # u) \<Rightarrow>
                       (case read_nat 16 [h1, h2, h3, h4] of
                          None \<Rightarrow> None
                        | Some n \<Rightarrow> map_option (\<lambda>(r, w). (char_of n # r, w)) (json_chars u))
                   | _ \<Rightarrow> None)))
      else map_option (\<lambda>(r, u). (c # r, u)) (json_chars s))"

definition json_number :: "string \<Rightarrow> rat option" where
  "json_number tok =
     (let body = snd (split_sign tok);
          intpart = takeWhile is_digit body;
          rest = dropWhile is_digit body
      in if (tok \<noteq> [] \<and> hd tok = CHR ''+'') \<or> intpart = [] \<or> (hd intpart = CHR ''0'' \<and> length intpart > 1)
            \<or> (rest \<noteq> [] \<and> hd rest = CHR ''.'' \<and> takeWhile is_digit (tl rest) = [])
         then None
         else map_option (\<lambda>x. if fst (split_sign tok) then - x else x) (decimal_literal body))"

definition number_char :: "char \<Rightarrow> bool" where
  "number_char c \<longleftrightarrow> is_digit c \<or> c \<in> set ''+-.eE''"

fun json_value :: "nat \<Rightarrow> string \<Rightarrow> (jsval \<times> string) option"
and json_items :: "nat \<Rightarrow> string \<Rightarrow> (jsval list \<times> string) option"
and json_members :: "nat \<Rightarrow> string \<Rightarrow> ((string \<times> jsval) list \<times> string) option" where
  "json_value 0 s = None"
| "json_value (Suc n) s =
     (case skip_space s of
        [] \<Rightarrow> None
      | c # t \<Rightarrow>
          if char_code c = 34 then map_option (\<lambda>(r, u). (JStr r, u)) (json_chars t)
          else if c = CHR ''['' then
            (case skip_space t of
               CHR '']'' # u \<Rightarrow> Some (JArr [], u)
             | u \<Rightarrow> map_option (\<lambda>(xs, w). (JArr xs, w)) (json_items n u))
          else if c = CHR ''{'' then
            (case skip_space t of
               CHR ''}'' # u \<Rightarrow> Some (JObj [], u)
             | u \<Rightarrow> map_option (\<lambda>(xs, w). (JObj xs, w)) (json_members n u))
          else if starts_with (c # t) ''true'' then Some (JBool True, drop 4 (c # t))
          else if starts_with (c # t) ''false'' then Some (JBool False, drop 5 (c # t))
          else if starts_with (c # t) ''null'' then Some (JNull, drop 4 (c # t))
          else map_option (\<lambda>x. (JNum (to_num x), dropWhile number_char (c # t)))
                 (json_number (takeWhile number_char (c # t))))"
| "json_items 0 s = None"
| "json_items (Suc n) s =
     (case json_value n s of
        None \<Rightarrow> None
      | Some (x, t) \<Rightarrow>
          (case skip_space t of
             CHR '']'' # u \<Rightarrow> Some ([x], u)
           | CHR '','' # u \<Rightarrow> map_option (\<lambda>(xs, w). (x # xs, w)) (json_items n u)
           | _ \<Rightarrow> None))"
| "json_members 0 s = None"
| "json_members (Suc n) s =
     (case skip_space s of
        c # t \<Rightarrow>
          if char_code c \<noteq> 34 then None
          else
            (case json_chars t of
               None \<Rightarrow> None
             | Some (k, u) \<Rightarrow>
                 (case skip_space u of
                    CHR '':'' # w \<Rightarrow>
                      (case json_value n w of
                         None \<Rightarrow> None
                       | Some (x, y) \<Rightarrow>
                           (case skip_space y of
                              CHR ''}'' # z \<Rightarrow> Some ([(k, x)], z)
                            | CHR '','' # z \<Rightarrow> map_option (\<lambda>(xs, q). ((k, x) # xs, q)) (json_members n z)
                            | _ \<Rightarrow> None))
                  | _ \<Rightarrow> None))
      | [] \<Rightarrow> None)"

text \<open>Each level of recursion reads a character or descends from a value to its parts.\<close>

definition json_parse :: "string \<Rightarrow> jsval option" where
  "json_parse s =
     (case json_value (2 * length s + 2) s of
        Some (v, rest) \<Rightarrow> if skip_space rest = [] then Some v else None
      | None \<Rightarrow> None)"



section \<open>Reading back a printed integer\<close>

lemma digit_not_letter:
  "is_digit c \<Longrightarrow> c \<noteq> CHR ''e'' \<and> c \<noteq> CHR ''E'' \<and> c \<noteq> CHR ''.'' \<and> c \<noteq> CHR ''I'' \<and>
    c \<noteq> CHR ''x'' \<and> c \<noteq> CHR ''X'' \<and> c \<noteq> CHR ''o'' \<and> c \<noteq> CHR ''O'' \<and> c \<noteq> CHR ''b'' \<and>
    c \<noteq> CHR ''B'' \<and> c \<noteq> CHR '':''"
  by (auto simp: is_digit_def char_code_def)

lemma split_exponent_digits: "list_all is_digit s \<Longrightarrow> split_exponent s = (s, None)"
  by (induction s) (auto dest: digit_not_letter)

lemma split_on_none: "sep \<notin> set s \<Longrightarrow> split_on sep s = [s]"
  by (induction s) auto

lemma split_on_append: "sep \<notin> set a \<Longrightarrow> split_on sep (a @ sep # b) = a # split_on sep b"
  by (induction a) auto

lemma decimal_digits:
  assumes "list_all is_digit s" and "read_nat 10 s = Some n"
  shows "decimal_literal s = Some (of_nat n)"
proof -
  have "CHR ''.'' \<notin> set s" using assms(1) by (auto simp: list_all_iff dest: digit_not_letter)
  then show ?thesis
    using assms by (simp add: decimal_literal_def split_exponent_digits mantissa_def split_on_none
        scale10_def)
qed

lemma radix_digits: "list_all is_digit s \<Longrightarrow> radix_literal s = None"
  by (auto simp: radix_literal_def split: list.split dest: digit_not_letter)

lemma number_of_digits:
  assumes "list_all is_digit s" and "read_nat 10 s = Some n"
  shows "number_of_text s = to_num (of_nat n)" and "number_of_text (CHR ''-'' # s) = to_num (- of_nat n)"
proof -
  from assms(2) obtain c cs where s: "s = c # cs" by (cases s) (auto simp: read_nat_def)
  then have c: "is_digit c" and l: "is_digit (last s)"
    using assms(1) by (auto simp: list_all_iff)
  have "trim s = s" using s c l digit_facts by (intro trim_id) auto
  moreover have "trim (CHR ''-'' # s) = CHR ''-'' # s"
    using s l digit_facts by (intro trim_id) (auto simp: is_space_def)
  moreover have "s \<noteq> ''Infinity''" using s c digit_not_letter by auto
  moreover have "split_sign s = (False, s)" using s c digit_facts by (auto simp: split_sign_def)
  moreover have "radix_literal (CHR ''-'' # s) = None" by (simp add: radix_literal_def split: list.split)
  ultimately show "number_of_text s = to_num (of_nat n)"
    and "number_of_text (CHR ''-'' # s) = to_num (- of_nat n)"
    using s decimal_digits [OF assms] radix_digits [OF assms(1)]
    by (auto simp: number_of_text_def split_sign_def)
qed

lemma to_num_small: "\<bar>x\<bar> \<le> 2 ^ 100 \<Longrightarrow> to_num x = Fin x"
proof -
  assume "\<bar>x\<bar> \<le> 2 ^ 100"
  moreover have "(2::rat) ^ 100 < 2 ^ 1024 - 2 ^ 970" by simp
  ultimately show ?thesis by (auto simp: to_num_def)
qed

lemma number_of_show_int:
  assumes "pg_int8 i"
  shows "number_of_text (show_int i) = Fin (of_int i)"
proof -
  have "\<bar>i\<bar> \<le> 2 ^ 100" using assms by (auto simp: pg_int8_def)
  then have "\<bar>of_int i :: rat\<bar> \<le> of_int (2 ^ 100)" by (simp only: of_int_abs [symmetric] of_int_le_iff)
  then have small: "to_num (of_int i) = Fin (of_int i)" by (intro to_num_small) simp
  show ?thesis
    using small number_of_digits [OF show_nat_digits read_show_nat, of "nat \<bar>i\<bar>"]
    by (cases "i < 0") (simp_all add: show_int_def of_nat_nat)
qed

text \<open>The text of a number with a digit 1 appended is ten times the number plus one.\<close>

lemma number_of_appended:
  assumes "pg_int8 i" and "0 \<le> i"
  shows "number_of_text (show_int i @ ''1'') = Fin (of_int (10 * i + 1))"
proof -
  let ?n = "nat i"
  have "digits_val 10 0 (show_nat ?n @ ''1'') = Some (10 * ?n + 1)"
    by (simp add: digits_val_append digits_val_show_nat digit_val_def char_code_def)
  then have "read_nat 10 (show_nat ?n @ ''1'') = Some (10 * ?n + 1)" by (simp add: read_nat_def)
  moreover have "list_all is_digit (show_nat ?n @ ''1'')"
    using show_nat_digits [of ?n] by (simp add: is_digit_def char_code_def)
  ultimately have "number_of_text (show_nat ?n @ ''1'') = to_num (of_nat (10 * ?n + 1))"
    by (rule number_of_digits(1) [rotated])
  moreover have "rat_of_nat (10 * ?n + 1) = of_int (10 * i + 1)" using assms(2) by simp
  moreover have "to_num (of_int (10 * i + 1)) = Fin (of_int (10 * i + 1))"
  proof (rule to_num_small)
    have "\<bar>10 * i + 1\<bar> \<le> 2 ^ 100" using assms by (auto simp: pg_int8_def)
    then have "\<bar>of_int (10 * i + 1) :: rat\<bar> \<le> of_int (2 ^ 100)"
      by (simp only: of_int_abs [symmetric] of_int_le_iff)
    then show "\<bar>of_int (10 * i + 1) :: rat\<bar> \<le> 2 ^ 100" by simp
  qed
  ultimately show ?thesis using assms(2) by (simp add: show_int_def add.commute)
qed

end
