(* ===== verification/EventEntities.thy ===== *)
theory EventEntities
  imports Entities JsText
begin

text \<open>
  The rows of the creator-event tables and of the event indexer (the entities under
  \<open>backend/src/matches/entities\<close>, \<open>indexer/entities\<close> and \<open>users/entities/user-preferences.entity.ts\<close>),
  and the part of the database the event-side services share.  A relation column holds the id of the
  row it refers to; a \<open>bigint\<close> amount, kept as a decimal string by the code, is the integer.
\<close>

section \<open>Rows\<close>

record creator_event =
  ce_id :: uuid
  on_chain_event_id :: int
  creator_address :: string
  ce_title :: string
  ce_description :: string
  creation_fee_paid :: stroops
  on_chain_created_at :: timestamp
  start_time :: timestamp
  end_time :: timestamp
  prize_pool :: stroops
  reward_distribution :: "int list"
  entry_fee :: stroops
  total_entry_fees_collected :: stroops
  ce_category :: string
  banner_url :: "string option"
  ce_active :: bool
  ce_cancelled :: bool
  invite_code :: "string option"
  max_participants :: int
  ce_participants :: int
  match_count :: int
  ce_finalized :: bool
  ce_created_at :: timestamp

datatype winning_team = WtTeamA | WtTeamB | WtDraw

datatype predicted_outcome = PoTeamA | PoTeamB | PoDraw

fun winning_team_text :: "winning_team \<Rightarrow> string" where
  "winning_team_text WtTeamA = ''TEAM_A''"
| "winning_team_text WtTeamB = ''TEAM_B''"
| "winning_team_text WtDraw = ''DRAW''"

fun predicted_outcome_text :: "predicted_outcome \<Rightarrow> string" where
  "predicted_outcome_text PoTeamA = ''TEAM_A''"
| "predicted_outcome_text PoTeamB = ''TEAM_B''"
| "predicted_outcome_text PoDraw = ''DRAW''"

record match_row =
  mt_id :: uuid
  on_chain_match_id :: int
  mt_event :: uuid
  team_a :: string
  team_b :: string
  match_time :: timestamp
  result_submitted :: bool
  home_score :: "int option"
  away_score :: "int option"
  points_multiplier :: int
  winning_team :: "winning_team option"
  submitted_by :: "string option"
  mt_submitted_at :: "timestamp option"
  mt_created_at :: timestamp

record match_prediction =
  mp_row_id :: uuid
  mp_match :: uuid
  mp_user :: uuid
  predicted_outcome :: predicted_outcome
  predicted_home :: "int option"
  predicted_away :: "int option"
  points_earned :: int
  is_correct :: "bool option"
  predicted_at :: timestamp

record board_entry =
  be_id :: uuid
  be_event :: string
  be_address :: string
  be_rank :: int
  be_total :: int
  be_correct :: int
  be_accuracy :: rat
  be_winner :: bool
  be_created_at :: timestamp

record payout =
  po_id :: uuid
  po_event :: string
  po_address :: string
  po_amount :: stroops
  po_claimed :: bool
  po_entry :: uuid
  po_created_at :: timestamp

datatype event_status = EsPending | EsProcessed | EsFailed | EsDlq

record contract_event =
  ct_id :: uuid
  ct_ledger :: int
  ct_log_index :: int
  ct_type :: string
  ct_data :: jsval
  ct_tx_hash :: "string option"
  ct_status :: event_status
  ct_error :: "string option"
  ct_retries :: int
  ct_created_at :: timestamp
  ct_processed_at :: "timestamp option"

record fee_history =
  fh_id :: uuid
  old_fee :: stroops
  new_fee :: stroops
  fh_updated_by :: "string option"
  fh_created_at :: timestamp

record chain_sync =
  cs_contract :: string
  last_indexed_ledger :: int
  chain_head_ledger :: int
  last_reconciled_from :: int
  last_reconciled_to :: int
  last_reconciled_at :: "timestamp option"
  last_backfill_count :: int

datatype digest_frequency = DigestDaily | DigestWeekly | DigestOff

record user_preferences =
  up_user :: uuid
  email_on :: bool
  market_resolution_on :: bool
  competition_on :: bool
  leaderboard_on :: bool
  marketing_on :: bool
  event_created_on :: bool
  match_added_on :: bool
  prediction_submitted_on :: bool
  match_resolved_on :: bool
  winner_verified_on :: bool
  event_cancelled_on :: bool
  digest_frequency :: digest_frequency

datatype notification_type =
    NtEventCreated | NtMatchAdded | NtPredictionSubmitted
  | NtMatchResolved | NtWinnerVerified | NtEventCancelled

text \<open>A notification waiting in memory, before it is a row.\<close>

record notice =
  nc_user_address :: string
  nc_type :: notification_type
  nc_title :: string
  nc_message :: string

section \<open>The state\<close>

text \<open>
  The tables, the ledger checkpoints by key (\<open>indexer_checkpoints\<close>), the checkpoints of the
  reconciliation, and the notification queue, a list of batches.
\<close>

record event_db =
  e_users :: "user list"
  preferences :: "user_preferences list"
  creator_events :: "creator_event list"
  event_matches :: "match_row list"
  match_predictions :: "match_prediction list"
  board_entries :: "board_entry list"
  payouts :: "payout list"
  contract_events :: "contract_event list"
  fee_rows :: "fee_history list"
  checkpoints :: "(string \<times> int) list"
  chain_syncs :: "chain_sync list"
  notice_queue :: "notice list list"
  saved_notices :: "notice list"

definition empty_event_db :: event_db where
  "empty_event_db =
     \<lparr>e_users = [], preferences = [], creator_events = [], event_matches = [],
      match_predictions = [], board_entries = [], payouts = [], contract_events = [],
      fee_rows = [], checkpoints = [], chain_syncs = [], notice_queue = [], saved_notices = []\<rparr>"

text \<open>
  What a step gets from outside: the clock, the ids of new rows, and whether the database still
  answers when the notification generator asks it.
\<close>

record job_env =
  clock :: timestamp
  new_id :: "nat \<Rightarrow> uuid"
  db_answers :: bool

definition save_creator_event :: "creator_event \<Rightarrow> event_db \<Rightarrow> event_db" where
  "save_creator_event x s = s\<lparr>creator_events := save_row ce_id x (creator_events s)\<rparr>"

definition save_match :: "match_row \<Rightarrow> event_db \<Rightarrow> event_db" where
  "save_match x s = s\<lparr>event_matches := save_row mt_id x (event_matches s)\<rparr>"

definition save_contract_event :: "contract_event \<Rightarrow> event_db \<Rightarrow> event_db" where
  "save_contract_event x s = s\<lparr>contract_events := save_row ct_id x (contract_events s)\<rparr>"

definition save_event_user :: "user \<Rightarrow> event_db \<Rightarrow> event_db" where
  "save_event_user u s = s\<lparr>e_users := save_row u_id u (e_users s)\<rparr>"

definition event_by_chain_id :: "int \<Rightarrow> event_db \<Rightarrow> creator_event option" where
  "event_by_chain_id n s = find_one (\<lambda>x. on_chain_event_id x = n) (creator_events s)"

definition match_by_chain_id :: "int \<Rightarrow> event_db \<Rightarrow> match_row option" where
  "match_by_chain_id n s = find_one (\<lambda>x. on_chain_match_id x = n) (event_matches s)"

definition event_user :: "string \<Rightarrow> event_db \<Rightarrow> user option" where
  "event_user a s = find_one (\<lambda>u. stellar_address u = a) (e_users s)"

lemma save_creator_event_simps [simp]:
  "creator_events (save_creator_event x s) = save_row ce_id x (creator_events s)"
  "event_matches (save_creator_event x s) = event_matches s"
  "match_predictions (save_creator_event x s) = match_predictions s"
  "e_users (save_creator_event x s) = e_users s" "payouts (save_creator_event x s) = payouts s"
  "board_entries (save_creator_event x s) = board_entries s"
  "contract_events (save_creator_event x s) = contract_events s"
  "checkpoints (save_creator_event x s) = checkpoints s"
  by (simp_all add: save_creator_event_def)

lemma save_match_simps [simp]:
  "event_matches (save_match x s) = save_row mt_id x (event_matches s)"
  "creator_events (save_match x s) = creator_events s"
  "match_predictions (save_match x s) = match_predictions s" "e_users (save_match x s) = e_users s"
  "contract_events (save_match x s) = contract_events s" "payouts (save_match x s) = payouts s"
  "board_entries (save_match x s) = board_entries s" "checkpoints (save_match x s) = checkpoints s"
  by (simp_all add: save_match_def)

interpretation creator_event_rows: repository ce_id "by_id ce_id" "save_row ce_id"
    "\<lambda>k. delete_rows (\<lambda>r. ce_id r = k)" "keyed ce_id"
  by (rule rows_repository)

interpretation match_rows: repository mt_id "by_id mt_id" "save_row mt_id"
    "\<lambda>k. delete_rows (\<lambda>r. mt_id r = k)" "keyed mt_id"
  by (rule rows_repository)

end
