(* ===== verification/IndexerParse.thy ===== *)
theory IndexerParse
  imports EventEntities ChainEvents
begin

text \<open>
  Reading the events of the creator-event contract (\<open>backend/src/indexer/indexer.service.ts\<close>): the
  readers that unwrap XDR-JSON values, the detection of the event type, the extraction of its data,
  and the request to the RPC server.
\<close>

section \<open>Unwrapping\<close>

definition wrapper_keys :: "string list" where
  "wrapper_keys =
     [''value'', ''symbol'', ''sym'', ''string'', ''str'', ''address'', ''u64'', ''i64'', ''u32'', ''i32'',
      ''u128'', ''i128'', ''bool'', ''boolean'']"

definition wrapped_in :: "(string \<times> jsval) list \<Rightarrow> jsval option" where
  "wrapped_in ps =
     (case List.find (\<lambda>k. map_of ps k \<noteq> None) wrapper_keys of
        None \<Rightarrow> None
      | Some k \<Rightarrow> map_of ps k)"

lemma size_map_of: "map_of ps k = Some v \<Longrightarrow> size v < size (JObj ps)"
  by (induction ps) (auto split: if_splits)

lemma wrapped_in_size: "wrapped_in ps = Some v \<Longrightarrow> size v < size (JObj ps)"
  unfolding wrapped_in_def by (auto simp del: jsval.size split: option.splits intro: size_map_of)

function unwrap :: "jsval \<Rightarrow> jsval" where
  "unwrap v =
     (case v of
        JObj ps \<Rightarrow> (case wrapped_in ps of None \<Rightarrow> v | Some w \<Rightarrow> unwrap w)
      | _ \<Rightarrow> v)"
  by pat_completeness auto
termination
  by (relation "measure size") (auto dest: wrapped_in_size)

declare unwrap.simps [simp del]

lemma unwrap_simps [simp]:
  "unwrap (JStr t) = JStr t" "unwrap (JNum x) = JNum x" "unwrap (JBool b) = JBool b"
  "unwrap JNull = JNull" "unwrap JUndefined = JUndefined" "unwrap (JArr xs) = JArr xs"
  "unwrap (JBigInt i) = JBigInt i"
  "unwrap (JObj ps) = (case wrapped_in ps of None \<Rightarrow> JObj ps | Some w \<Rightarrow> unwrap w)"
  by (subst unwrap.simps; simp)+

text \<open>What unwrapping leaves is not a wrapper, so unwrapping again changes nothing.\<close>

lemma unwrap_idem: "unwrap (unwrap v) = unwrap v"
proof (induction v rule: unwrap.induct)
  case (1 v)
  show ?case
  proof (cases v)
    case (JObj ps)
    then show ?thesis using "1.IH" by (cases "wrapped_in ps") auto
  qed simp_all
qed

section \<open>Readers\<close>

definition safe_int :: "rat \<Rightarrow> bool" where
  "safe_int x \<longleftrightarrow> x = of_int \<lfloor>x\<rfloor> \<and> \<bar>x\<bar> \<le> 2 ^ 53 - 1"

definition ix_to_number :: "jsval \<Rightarrow> rat option" where
  "ix_to_number value =
     (case unwrap value of
        JNum x \<Rightarrow> finite_num x
      | JBigInt i \<Rightarrow> if safe_int (of_int i) then Some (of_int i) else None
      | JStr s \<Rightarrow> if trim s = [] then None else finite_num (number_of_text (trim s))
      | _ \<Rightarrow> None)"

definition read_num :: "payload \<Rightarrow> string \<Rightarrow> rat option" where
  "read_num ps k = ix_to_number (get_prop ps k)"

definition ix_read_str :: "payload \<Rightarrow> string \<Rightarrow> string" where
  "ix_read_str ps k =
     (let v = unwrap (get_prop ps k) in
      case v of
        JUndefined \<Rightarrow> [] | JNull \<Rightarrow> []
      | JStr s \<Rightarrow> s
      | JNum _ \<Rightarrow> js_string v | JBool _ \<Rightarrow> js_string v | JBigInt _ \<Rightarrow> js_string v
      | _ \<Rightarrow> (case json_text v of None \<Rightarrow> [] | Some t \<Rightarrow> t))"

text \<open>The decimal text \<open>readBigInt\<close> returns, as the integer it denotes.\<close>

definition ix_read_big_int :: "payload \<Rightarrow> string \<Rightarrow> int" where
  "ix_read_big_int ps k =
     (case unwrap (get_prop ps k) of
        JBigInt i \<Rightarrow> i
      | JNum (Fin x) \<Rightarrow> if safe_int x then \<lfloor>x\<rfloor> else 0
      | JStr s \<Rightarrow> if trim s = [] then 0 else (case big_int (trim s) of None \<Rightarrow> 0 | Some i \<Rightarrow> i)
      | _ \<Rightarrow> 0)"

definition read_unsigned :: "payload \<Rightarrow> string \<Rightarrow> int" where
  "read_unsigned ps k = (let n = ix_read_big_int ps k in if n < 0 then 0 else n)"

definition read_bool :: "payload \<Rightarrow> string \<Rightarrow> bool option" where
  "read_bool ps k =
     (case unwrap (get_prop ps k) of
        JBool b \<Rightarrow> Some b
      | JNum (Fin x) \<Rightarrow> if x = 1 then Some True else if x = 0 then Some False else None
      | JBigInt i \<Rightarrow> if i = 1 then Some True else if i = 0 then Some False else None
      | JStr s \<Rightarrow>
          (let t = to_lower (trim s) in
           if t \<in> {''true'', ''1'', ''yes''} then Some True
           else if t \<in> {''false'', ''0'', ''no''} then Some False else None)
      | _ \<Rightarrow> None)"

definition normalize_numbers :: "jsval list \<Rightarrow> rat list" where
  "normalize_numbers vs = filter (\<lambda>x. safe_int x \<and> x \<ge> 0) (List.map_filter ix_to_number vs)"

definition read_numbers :: "payload \<Rightarrow> string \<Rightarrow> rat list" where
  "read_numbers ps k =
     (let u = unwrap (get_prop ps k);
          v = (case prop_of u ''vec'' of JArr xs \<Rightarrow> JArr xs | _ \<Rightarrow> u) in
      case v of
        JArr xs \<Rightarrow> normalize_numbers xs
      | JStr s \<Rightarrow>
          (let t = trim s in
           if t = [] then []
           else (case json_parse t of
                   Some (JArr xs) \<Rightarrow> normalize_numbers xs
                 | _ \<Rightarrow> normalize_numbers (map JStr (split_on CHR '','' t))))
      | _ \<Rightarrow> [])"

definition read_unix_timestamp :: "payload \<Rightarrow> string \<Rightarrow> timestamp option" where
  "read_unix_timestamp ps k =
     (case read_num ps k of
        None \<Rightarrow> None
      | Some seconds \<Rightarrow>
          if seconds \<le> 0 \<or> \<not> safe_int seconds then None else date_of_ms (seconds * 1000))"

section \<open>Text fields\<close>

definition slug_char :: "char \<Rightarrow> bool" where
  "slug_char c \<longleftrightarrow> is_lower c \<or> is_digit c \<or> c = CHR ''_'' \<or> c = CHR ''-''"

text \<open>Every maximal run of characters outside the class becomes one dash.\<close>

fun dash_runs :: "bool \<Rightarrow> string \<Rightarrow> string" where
  "dash_runs run [] = []"
| "dash_runs run (c # s) =
     (if slug_char c then c # dash_runs False s
      else if run then dash_runs True s else CHR ''-'' # dash_runs True s)"

fun squeeze_dashes :: "string \<Rightarrow> string" where
  "squeeze_dashes (c # d # s) =
     (if c = CHR ''-'' \<and> d = CHR ''-'' then squeeze_dashes (d # s) else c # squeeze_dashes (d # s))"
| "squeeze_dashes s = s"

definition strip_dashes :: "string \<Rightarrow> string" where
  "strip_dashes s =
     rev (dropWhile (\<lambda>c. c = CHR ''-'') (rev (dropWhile (\<lambda>c. c = CHR ''-'') s)))"

definition normalize_category :: "string \<Rightarrow> string" where
  "normalize_category category =
     (let s = strip_dashes (take 100 (strip_dashes (squeeze_dashes
                (dash_runs False (to_lower (trim category))))))
      in if s = [] then ''general'' else s)"

definition normalize_nullable :: "string \<Rightarrow> nat \<Rightarrow> string option" where
  "normalize_nullable v n = (let t = trim v in if t = [] then None else Some (take n t))"

section \<open>Event types\<close>

definition read_topic :: "jsval \<Rightarrow> string list" where
  "read_topic v =
     (case v of
        JArr xs \<Rightarrow> List.map_filter (\<lambda>x. case unwrap x of JStr s \<Rightarrow> Some s | _ \<Rightarrow> None) xs
      | _ \<Rightarrow> [])"

fun topic_pair :: "string \<Rightarrow> string \<Rightarrow> string list \<Rightarrow> bool" where
  "topic_pair a b (x # y # zs) = ((x = a \<and> y = b) \<or> topic_pair a b (y # zs))"
| "topic_pair a b _ = False"

definition ix_detect_event_type :: "string list \<Rightarrow> jsval \<Rightarrow> string option" where
  "ix_detect_event_type topic value =
     (let lower = map to_lower topic;
          text = join_with ''.'' lower;
          has = (\<lambda>t. has_substring text t);
          pair = (\<lambda>a b. topic_pair a b lower) in
      case unwrap (coalesce (prop_of value ''event'') (prop_of value ''event_type'')) of
        JStr (c # cs) \<Rightarrow> Some (c # cs)
      | _ \<Rightarrow>
          if has ''eventcreated'' \<or> pair ''event'' ''created'' then Some ''EventCreated''
          else if has ''matchadded'' \<or> pair ''match'' ''created'' then Some ''MatchAdded''
          else if has ''userjoined'' \<or> pair ''event'' ''joined'' then Some ''UserJoinedEvent''
          else if has ''predictionsubmitted'' \<or> pair ''prediction'' ''submitted''
          then Some ''PredictionSubmitted''
          else if has ''matchresultsubmitted'' \<or> has ''reslvd'' \<or> pair ''match'' ''result_submitted''
          then Some ''MatchResultSubmitted''
          else if has ''winnersverified'' \<or> pair ''event'' ''winners_verified'' then Some ''WinnersVerified''
          else if has ''eventfinalized'' \<or> pair ''event'' ''finalized'' then Some ''EventFinalized''
          else if has ''eventcancelled'' \<or> pair ''event'' ''cancelled'' then Some ''EventCancelled''
          else if has ''feeupdated'' then Some ''FeeUpdated''
          else if has ''addressverified'' then Some ''AddressVerified''
          else if has ''addressunverified'' then Some ''AddressUnverified''
          else if has ''payclmd'' \<or> has ''payoutclaimed'' then Some ''PayoutClaimed''
          else if has ''submitd'' \<or> has ''predictionsubmitted'' then Some ''PredictionSubmitted''
          else None)"

section \<open>Event data\<close>

text \<open>\<open>{ ...value }\<close>.\<close>

definition spread :: "jsval \<Rightarrow> payload" where
  "spread v =
     (case v of
        JObj ps \<Rightarrow> ps
      | JArr xs \<Rightarrow> map (\<lambda>i. (show_nat i, xs ! i)) [0..<length xs]
      | JStr s \<Rightarrow> map (\<lambda>i. (show_nat i, JStr [s ! i])) [0..<length s]
      | _ \<Rightarrow> [])"

definition positional_values :: "jsval \<Rightarrow> jsval list" where
  "positional_values raw =
     (let v = unwrap raw in
      case v of
        JArr xs \<Rightarrow> xs
      | JObj ps \<Rightarrow>
          (case get_prop ps ''vec'' of
             JArr xs \<Rightarrow> xs
           | _ \<Rightarrow> (case get_prop ps ''values'' of JArr xs \<Rightarrow> xs | _ \<Rightarrow> []))
      | _ \<Rightarrow> [])"

definition event_created_keys :: "nat \<Rightarrow> string list" where
  "event_created_keys n =
     (if 0 < n \<and> n \<le> 3 then [''event_id'', ''creator'', ''invite_code'']
      else if 0 < n \<and> n \<le> 8 then
        [''event_id'', ''creator'', ''title'', ''description'', ''creation_fee_paid'', ''created_at'',
         ''invite_code'', ''max_participants'']
      else
        [''event_id'', ''creator'', ''title'', ''description'', ''creation_fee_paid'', ''created_at'',
         ''start_time'', ''end_time'', ''invite_code'', ''max_participants'', ''prize_pool'',
         ''reward_distribution'', ''entry_fee'', ''category'', ''banner_url'', ''is_finalized''])"

definition read_event_created_payload :: "jsval \<Rightarrow> payload" where
  "read_event_created_payload raw =
     (let base = (case raw of JObj ps \<Rightarrow> ps | _ \<Rightarrow> []);
          vals = positional_values raw;
          keys = event_created_keys (length vals);
          read = (\<lambda>i. let v = get_prop base (keys ! i) in
             if v \<noteq> JUndefined then v else if i < length vals then vals ! i else JUndefined)
      in map (\<lambda>i. (keys ! i, read i)) [0..<length keys] @ base)"

definition j_num :: "rat option \<Rightarrow> jsval" where
  "j_num x = (case x of None \<Rightarrow> JNull | Some r \<Rightarrow> JNum (Fin r))"

text \<open>A decimal text.\<close>

abbreviation j_dec :: "int \<Rightarrow> jsval" where
  "j_dec i \<equiv> JStr (show_int i)"

definition array_or_empty :: "jsval \<Rightarrow> jsval" where
  "array_or_empty v = (case v of JArr xs \<Rightarrow> JArr xs | _ \<Rightarrow> JArr [])"

definition extract_event_data :: "string \<Rightarrow> jsval \<Rightarrow> payload" where
  "extract_event_data type raw =
     (let base = spread raw;
          dec = (\<lambda>k. (k, j_dec (ix_read_big_int base k)));
          str = (\<lambda>k. (k, JStr (ix_read_str base k)));
          num = (\<lambda>k. (k, j_num (read_num base k))) in
      if type = ''EventCreated'' then
        (let ps = read_event_created_payload raw in
         [(''event_id'', j_dec (ix_read_big_int ps ''event_id'')),
          (''creator'', JStr (ix_read_str ps ''creator'')),
          (''title'', JStr (ix_read_str ps ''title'')),
          (''description'', JStr (ix_read_str ps ''description'')),
          (''creation_fee_paid'', j_dec (ix_read_big_int ps ''creation_fee_paid'')),
          (''created_at'', j_num (read_num ps ''created_at'')),
          (''start_time'', j_num (read_num ps ''start_time'')),
          (''end_time'', j_num (read_num ps ''end_time'')),
          (''invite_code'', JStr (ix_read_str ps ''invite_code'')),
          (''max_participants'', j_num (read_num ps ''max_participants'')),
          (''prize_pool'', j_dec (read_unsigned ps ''prize_pool'')),
          (''reward_distribution'', JArr (map (\<lambda>x. JNum (Fin x)) (read_numbers ps ''reward_distribution''))),
          (''entry_fee'', j_dec (read_unsigned ps ''entry_fee'')),
          (''category'', JStr (normalize_category (ix_read_str ps ''category''))),
          (''banner_url'', (case normalize_nullable (ix_read_str ps ''banner_url'') 2048 of
                             None \<Rightarrow> JNull | Some t \<Rightarrow> JStr t)),
          (''is_finalized'', JBool (case read_bool ps ''is_finalized'' of None \<Rightarrow> False | Some b \<Rightarrow> b))])
      else if type = ''MatchAdded'' then
        [dec ''match_id'', dec ''event_id'', str ''team_a'', str ''team_b'', num ''match_time'',
         num ''points_multiplier'']
      else if type = ''UserJoinedEvent'' then
        [str ''user_address'', dec ''event_id'', num ''joined_at'',
         (''entry_fee_paid'', j_dec (read_unsigned base ''entry_fee_paid''))]
      else if type = ''PredictionSubmitted'' then
        [dec ''prediction_id'', dec ''match_id'', dec ''event_id'', str ''predictor'',
         str ''predicted_outcome'', num ''predicted_home_score'', num ''predicted_away_score'',
         num ''predicted_at'']
      else if type = ''MatchResultSubmitted'' then
        [dec ''match_id'', dec ''event_id'', num ''winning_team'', str ''submitted_by'',
         num ''submitted_at'', num ''home_score'', num ''away_score'']
      else if type = ''WinnersVerified'' then
        [dec ''event_id'', num ''verified_at'', (''winners'', array_or_empty (get_prop base ''winners''))]
      else if type = ''EventFinalized'' then
        [dec ''event_id'', num ''finalized_at'',
         (''leaderboard'', array_or_empty (get_prop base ''leaderboard''))]
      else if type = ''EventCancelled'' then [dec ''event_id'', num ''cancelled_at'']
      else if type = ''FeeUpdated'' then
        [dec ''old_fee'', dec ''new_fee'', str ''updated_by'', num ''updated_at'']
      else if type = ''AddressVerified'' then [str ''address'', num ''verified_at'']
      else if type = ''AddressUnverified'' then [str ''address'', num ''unverified_at'']
      else base)"

section \<open>Events of a reply\<close>

record raw_event =
  re_id :: string
  re_ledger :: rat
  re_log_index :: rat
  re_type :: string
  re_data :: payload
  re_tx_hash :: "string option"

definition event_value :: "payload \<Rightarrow> jsval" where
  "event_value ps =
     (case get_prop ps ''value'' of
        JObj qs \<Rightarrow> JObj qs
      | JArr xs \<Rightarrow> JArr xs
      | _ \<Rightarrow> coalesce (get_prop ps ''data'') (JObj []))"

definition parse_raw_event :: "string \<Rightarrow> jsval \<Rightarrow> nat \<Rightarrow> raw_event option" where
  "parse_raw_event gen raw index =
     (case raw of
        JNull \<Rightarrow> None
      | _ \<Rightarrow>
         (if \<not> (case raw of JObj _ \<Rightarrow> True | JArr _ \<Rightarrow> True | _ \<Rightarrow> False) then None
          else
            (let ps = spread raw in
             case ix_to_number (get_prop ps ''ledger'') of
               None \<Rightarrow> None
             | Some ledger \<Rightarrow>
                 (let value = event_value ps;
                      topic = read_topic (coalesce (get_prop ps ''topic'') (get_prop ps ''topics'')) in
                  case ix_detect_event_type topic value of
                    None \<Rightarrow> None
                  | Some type \<Rightarrow>
                      Some \<lparr>re_id = (case get_prop ps ''id'' of JStr i \<Rightarrow> i | _ \<Rightarrow> gen),
                            re_ledger = ledger,
                            re_log_index =
                              (case ix_to_number (get_prop ps ''log_index'') of
                                 None \<Rightarrow> of_nat index | Some x \<Rightarrow> x),
                            re_type = type,
                            re_data = extract_event_data type value,
                            re_tx_hash =
                              (case get_prop ps ''tx_hash'' of
                                 JStr h \<Rightarrow> Some h
                               | _ \<Rightarrow> (case get_prop ps ''id'' of JStr i \<Rightarrow> Some i | _ \<Rightarrow> None))\<rparr>))))"

text \<open>
  A reply that cannot be used counts as a page without events whose latest ledger is the one asked
  for.
\<close>

definition fetch_events :: "bool \<Rightarrow> rat \<Rightarrow> string \<Rightarrow> http_reply \<Rightarrow> raw_event list \<times> rat" where
  "fetch_events configured from_ledger gen reply =
     (if \<not> configured then ([], from_ledger)
      else case reply of
        FetchFailed err \<Rightarrow> ([], from_ledger)
      | Replied status body \<Rightarrow>
          if \<not> (200 \<le> status \<and> status < 300) then ([], from_ledger)
          else case body of
            None \<Rightarrow> ([], from_ledger)
          | Some b \<Rightarrow>
              if truthy (prop_of b ''error'') then ([], from_ledger)
              else
                (let result = prop_of b ''result'';
                     latest = (case prop_of result ''latestLedger'' of
                                 JNum (Fin x) \<Rightarrow> x | _ \<Rightarrow> from_ledger) in
                 case coalesce (prop_of result ''events'') (JArr []) of
                   JArr raws \<Rightarrow>
                     (List.map_filter (\<lambda>(i, raw). parse_raw_event gen raw i) (enumerate 0 raws), latest)
                 | _ \<Rightarrow> ([], from_ledger)))"

end
