(* ===== verification/Notifier.thy ===== *)
theory Notifier
  imports EventEntities ChainEvents
begin

text \<open>
  The notification generator (\<open>backend/src/notifications/notification-generator.service.ts\<close>): for each
  indexed event it decides who is told what, and puts the notifications in batches on a queue that a
  timer empties one batch at a time.
\<close>

section \<open>The queue\<close>

text \<open>\<open>queueBatchNotifications\<close> cuts its list into batches of \<open>BATCH_SIZE\<close>.\<close>

definition notice_batch_size :: nat where
  "notice_batch_size = 50"

function batches :: "'a list \<Rightarrow> 'a list list" where
  "batches xs =
     (if xs = [] then []
      else take notice_batch_size xs # batches (drop notice_batch_size xs))"
  by pat_completeness auto
termination
  by (relation "measure length") (auto simp: notice_batch_size_def)

declare batches.simps [simp del]

definition queue_notification :: "notice \<Rightarrow> event_db \<Rightarrow> event_db" where
  "queue_notification n s = s\<lparr>notice_queue := notice_queue s @ [[n]]\<rparr>"

definition queue_batch_notifications :: "notice list \<Rightarrow> event_db \<Rightarrow> event_db" where
  "queue_batch_notifications ns s = s\<lparr>notice_queue := notice_queue s @ batches ns\<rparr>"

text \<open>
  One tick of the timer.  The batch is taken off the queue before it is written: a write the
  database refuses is logged, and the batch is gone.
\<close>

definition process_queue :: "bool \<Rightarrow> event_db \<Rightarrow> event_db" where
  "process_queue write_ok s =
     (case notice_queue s of
        [] \<Rightarrow> s
      | b # bs \<Rightarrow>
          s\<lparr>notice_queue := bs, saved_notices := saved_notices s @ (if write_ok then b else [])\<rparr>)"

text \<open>\<open>flushQueue\<close> when no tick is under way.\<close>

function flush_queue :: "bool \<Rightarrow> event_db \<Rightarrow> event_db" where
  "flush_queue write_ok s =
     (if notice_queue s = [] then s else flush_queue write_ok (process_queue write_ok s))"
  by pat_completeness auto
termination
  by (relation "measure (\<lambda>(w, s). length (notice_queue s))")
    (auto simp: process_queue_def split: list.splits)

declare flush_queue.simps [simp del]

section \<open>Recipients\<close>

text \<open>Missing preferences, and an error while reading them, count as a yes.\<close>

fun wants :: "notification_type \<Rightarrow> user_preferences \<Rightarrow> bool" where
  "wants NtEventCreated p = event_created_on p"
| "wants NtMatchAdded p = match_added_on p"
| "wants NtPredictionSubmitted p = prediction_submitted_on p"
| "wants NtMatchResolved p = match_resolved_on p"
| "wants NtWinnerVerified p = winner_verified_on p"
| "wants NtEventCancelled p = event_cancelled_on p"

definition should_send :: "job_env \<Rightarrow> string \<Rightarrow> notification_type \<Rightarrow> event_db \<Rightarrow> bool" where
  "should_send e address type s =
     (if \<not> db_answers e then True
      else case event_user address s of
        None \<Rightarrow> True
      | Some u \<Rightarrow>
          (case by_id up_user (u_id u) (preferences s) of None \<Rightarrow> True | Some p \<Rightarrow> wants type p))"

text \<open>A JavaScript \<open>Set\<close> keeps the order of first insertion.\<close>

definition js_set :: "'a list \<Rightarrow> 'a list" where
  "js_set xs = rev (remdups (rev xs))"

definition matches_of :: "creator_event \<Rightarrow> event_db \<Rightarrow> match_row list" where
  "matches_of x s = filter (\<lambda>m. mt_event m = ce_id x) (event_matches s)"

definition predictions_of :: "match_row \<Rightarrow> event_db \<Rightarrow> match_prediction list" where
  "predictions_of m s = filter (\<lambda>p. mp_match p = mt_id m) (match_predictions s)"

definition predictor_addresses :: "match_prediction list \<Rightarrow> event_db \<Rightarrow> string list" where
  "predictor_addresses ps s =
     List.map_filter (\<lambda>p. map_option stellar_address (by_id u_id (mp_user p) (e_users s))) ps"

definition event_participants :: "creator_event \<Rightarrow> event_db \<Rightarrow> string list" where
  "event_participants x s =
     js_set (creator_address x #
       concat (map (\<lambda>m. predictor_addresses (predictions_of m s) s) (matches_of x s)))"

section \<open>Fields of the event data\<close>

definition js_falsy_num :: "jsnum \<Rightarrow> bool" where
  "js_falsy_num x \<longleftrightarrow> x = Fin 0 \<or> x = NaN"

text \<open>
  A value for a \<open>bigint\<close> or \<open>int\<close> column, in a condition or in a row: PostgreSQL refuses a fraction,
  an infinity, NaN and a value out of range.
\<close>

definition int8_of :: "jsnum \<Rightarrow> int option" where
  "int8_of x =
     (case x of Fin r \<Rightarrow> if r = of_int \<lfloor>r\<rfloor> \<and> pg_int8 \<lfloor>r\<rfloor> then Some \<lfloor>r\<rfloor> else None | _ \<Rightarrow> None)"

definition int4_of :: "jsnum \<Rightarrow> int option" where
  "int4_of x =
     (case x of Fin r \<Rightarrow> if r = of_int \<lfloor>r\<rfloor> \<and> pg_int4 \<lfloor>r\<rfloor> then Some \<lfloor>r\<rfloor> else None | _ \<Rightarrow> None)"

definition gen_read_string :: "payload \<Rightarrow> string \<Rightarrow> string" where
  "gen_read_string ps k =
     (case get_prop ps k of JStr s \<Rightarrow> s | JNum x \<Rightarrow> show_num x | _ \<Rightarrow> [])"

definition gen_error :: http_error where
  "gen_error = InternalError ''QueryFailedError''"

text \<open>The lookups of the generator, which throw when the database does not answer.\<close>

definition gen_find_event :: "job_env \<Rightarrow> jsnum \<Rightarrow> event_db \<Rightarrow> creator_event option result" where
  "gen_find_event e x s =
     (if \<not> db_answers e then Inl gen_error
      else case int8_of x of None \<Rightarrow> Inl gen_error | Some n \<Rightarrow> Inr (event_by_chain_id n s))"

definition gen_find_match :: "job_env \<Rightarrow> jsnum \<Rightarrow> event_db \<Rightarrow> match_row option result" where
  "gen_find_match e x s =
     (if \<not> db_answers e then Inl gen_error
      else case int8_of x of None \<Rightarrow> Inl gen_error | Some n \<Rightarrow> Inr (match_by_chain_id n s))"

section \<open>The handlers\<close>

definition notify_event_created :: "job_env \<Rightarrow> payload \<Rightarrow> event_db \<Rightarrow> unit result \<times> event_db" where
  "notify_event_created e ps s =
     (let id = js_number (get_prop ps ''event_id'');
          creator = gen_read_string ps ''creator'';
          title = gen_read_string ps ''title'' in
      if js_falsy_num id \<or> creator = [] then (Inr (), s)
      else if \<not> should_send e creator NtEventCreated s then (Inr (), s)
      else (Inr (), queue_notification
        \<lparr>nc_user_address = creator, nc_type = NtEventCreated, nc_title = ''Event Created Successfully'',
         nc_message = ''Your event '' @ quoted (if title = [] then ''Event #'' @ show_num id else title) @
           '' has been created successfully.''\<rparr> s))"

definition notify_match_added :: "job_env \<Rightarrow> payload \<Rightarrow> event_db \<Rightarrow> unit result \<times> event_db" where
  "notify_match_added e ps s =
     (let match_id = js_number (get_prop ps ''match_id'');
          id = js_number (get_prop ps ''event_id'') in
      if js_falsy_num match_id \<or> js_falsy_num id then (Inr (), s)
      else case gen_find_event e id s of
        Inl err \<Rightarrow> (Inl err, s)
      | Inr None \<Rightarrow> (Inr (), s)
      | Inr (Some x) \<Rightarrow>
          (Inr (), queue_batch_notifications
             (map (\<lambda>a. \<lparr>nc_user_address = a, nc_type = NtMatchAdded, nc_title = ''New Match Added'',
                        nc_message = ''A new match between '' @ gen_read_string ps ''team_a'' @ '' and '' @
                          gen_read_string ps ''team_b'' @ '' has been added to your event.''\<rparr>)
               (filter (\<lambda>a. a \<noteq> creator_address x) (event_participants x s))) s))"

text \<open>The type and the preference are those of an added match.\<close>

definition notify_user_joined :: "job_env \<Rightarrow> payload \<Rightarrow> event_db \<Rightarrow> unit result \<times> event_db" where
  "notify_user_joined e ps s =
     (let id = js_number (get_prop ps ''event_id'') in
      if js_falsy_num id \<or> gen_read_string ps ''user_address'' = [] then (Inr (), s)
      else case gen_find_event e id s of
        Inl err \<Rightarrow> (Inl err, s)
      | Inr None \<Rightarrow> (Inr (), s)
      | Inr (Some x) \<Rightarrow>
          if \<not> should_send e (creator_address x) NtMatchAdded s then (Inr (), s)
          else (Inr (), queue_notification
            \<lparr>nc_user_address = creator_address x, nc_type = NtMatchAdded,
             nc_title = ''New Participant Joined'',
             nc_message = ''A new participant has joined your event '' @ quoted (ce_title x) @ ''.''\<rparr> s))"

definition notify_prediction_submitted :: "job_env \<Rightarrow> payload \<Rightarrow> event_db \<Rightarrow> unit result \<times> event_db" where
  "notify_prediction_submitted e ps s =
     (let match_id = js_number (get_prop ps ''match_id'');
          predictor = gen_read_string ps ''predictor'' in
      if js_falsy_num match_id \<or> predictor = [] then (Inr (), s)
      else if \<not> should_send e predictor NtPredictionSubmitted s then (Inr (), s)
      else (Inr (), queue_notification
        \<lparr>nc_user_address = predictor, nc_type = NtPredictionSubmitted, nc_title = ''Prediction Submitted'',
         nc_message = ''Your prediction for match #'' @ show_num match_id @
           '' has been submitted successfully.''\<rparr> s))"

definition notify_match_result :: "job_env \<Rightarrow> payload \<Rightarrow> event_db \<Rightarrow> unit result \<times> event_db" where
  "notify_match_result e ps s =
     (let match_id = js_number (get_prop ps ''match_id'') in
      if js_falsy_num match_id then (Inr (), s)
      else case gen_find_match e match_id s of
        Inl err \<Rightarrow> (Inl err, s)
      | Inr None \<Rightarrow> (Inr (), s)
      | Inr (Some m) \<Rightarrow>
          (Inr (), queue_batch_notifications
             (map (\<lambda>a. \<lparr>nc_user_address = a, nc_type = NtMatchResolved, nc_title = ''Match Result Submitted'',
                        nc_message = ''The result for match between '' @ team_a m @ '' and '' @ team_b m @
                          '' has been submitted.''\<rparr>)
               (predictor_addresses (predictions_of m s) s)) s))"

text \<open>The winners are computed from the graded predictions; the list in the event is not read.\<close>

definition notify_winners_verified :: "job_env \<Rightarrow> payload \<Rightarrow> event_db \<Rightarrow> unit result \<times> event_db" where
  "notify_winners_verified e ps s =
     (let id = js_number (get_prop ps ''event_id'') in
      if js_falsy_num id then (Inr (), s)
      else case gen_find_event e id s of
        Inl err \<Rightarrow> (Inl err, s)
      | Inr None \<Rightarrow> (Inr (), s)
      | Inr (Some x) \<Rightarrow>
          (Inr (), queue_batch_notifications
             (map (\<lambda>a. \<lparr>nc_user_address = a, nc_type = NtWinnerVerified, nc_title = ''Congratulations! You Won!'',
                        nc_message = ''You have been verified as a winner for event '' @ quoted (ce_title x) @ ''.''\<rparr>)
               (js_set (concat (map (\<lambda>m. predictor_addresses
                   (filter (\<lambda>p. is_correct p = Some True) (predictions_of m s)) s) (matches_of x s))))) s))"

definition notify_event_cancelled :: "job_env \<Rightarrow> payload \<Rightarrow> event_db \<Rightarrow> unit result \<times> event_db" where
  "notify_event_cancelled e ps s =
     (let id = js_number (get_prop ps ''event_id'') in
      if js_falsy_num id then (Inr (), s)
      else case gen_find_event e id s of
        Inl err \<Rightarrow> (Inl err, s)
      | Inr None \<Rightarrow> (Inr (), s)
      | Inr (Some x) \<Rightarrow>
          (Inr (), queue_batch_notifications
             (map (\<lambda>a. \<lparr>nc_user_address = a, nc_type = NtEventCancelled, nc_title = ''Event Cancelled'',
                        nc_message = ''The event '' @ quoted (ce_title x) @ '' has been cancelled.''\<rparr>)
               (event_participants x s)) s))"

section \<open>Lemmas\<close>

lemma concat_batches: "concat (batches xs) = xs"
proof (induction xs rule: batches.induct)
  case (1 xs)
  then show ?case by (cases "xs = []") (simp_all add: batches.simps [of xs] batches.simps [of "[]"])
qed

lemma batches_size: "b \<in> set (batches xs) \<Longrightarrow> b \<noteq> [] \<and> length b \<le> notice_batch_size"
proof (induction xs rule: batches.induct)
  case (1 xs)
  show ?case
  proof (cases "xs = []")
    case False
    with "1.prems" have "b = take notice_batch_size xs \<or> b \<in> set (batches (drop notice_batch_size xs))"
      by (simp add: batches.simps [of xs])
    with False "1.IH" show ?thesis by (auto simp: notice_batch_size_def)
  qed (use "1.prems" in \<open>simp add: batches.simps [of "[]"]\<close>)
qed

lemma set_js_set [simp]: "set (js_set xs) = set xs"
  by (simp add: js_set_def)

lemma distinct_js_set [simp]: "distinct (js_set xs)"
  by (simp add: js_set_def)

text \<open>The handlers change the queue only.\<close>

definition only_queues :: "event_db \<Rightarrow> event_db \<Rightarrow> bool" where
  "only_queues s s' \<longleftrightarrow> s' = s\<lparr>notice_queue := notice_queue s'\<rparr>"

lemma only_queues_refl [simp]: "only_queues s s"
  by (simp add: only_queues_def)

lemma only_queues_ops [simp]:
  "only_queues s (queue_notification n s)" "only_queues s (queue_batch_notifications ns s)"
  by (simp_all add: only_queues_def queue_notification_def queue_batch_notifications_def)

lemmas notify_defs = notify_event_created_def notify_match_added_def notify_user_joined_def
  notify_prediction_submitted_def notify_match_result_def notify_winners_verified_def
  notify_event_cancelled_def

lemma notify_only_queues:
  "only_queues s (snd (notify_event_created e ps s))"
  "only_queues s (snd (notify_match_added e ps s))"
  "only_queues s (snd (notify_user_joined e ps s))"
  "only_queues s (snd (notify_prediction_submitted e ps s))"
  "only_queues s (snd (notify_match_result e ps s))"
  "only_queues s (snd (notify_winners_verified e ps s))"
  "only_queues s (snd (notify_event_cancelled e ps s))"
  by (simp_all add: notify_defs Let_def split: sum.split option.split)

lemma only_queues_tables:
  assumes "only_queues s s'"
  shows "creator_events s' = creator_events s" and "event_matches s' = event_matches s"
    and "match_predictions s' = match_predictions s" and "e_users s' = e_users s"
    and "payouts s' = payouts s" and "board_entries s' = board_entries s"
    and "contract_events s' = contract_events s" and "checkpoints s' = checkpoints s"
    and "fee_rows s' = fee_rows s" and "chain_syncs s' = chain_syncs s"
proof -
  obtain q where "s' = s\<lparr>notice_queue := q\<rparr>" using assms by (metis only_queues_def)
  then show "creator_events s' = creator_events s" and "event_matches s' = event_matches s"
    and "match_predictions s' = match_predictions s" and "e_users s' = e_users s"
    and "payouts s' = payouts s" and "board_entries s' = board_entries s"
    and "contract_events s' = contract_events s" and "checkpoints s' = checkpoints s"
    and "fee_rows s' = fee_rows s" and "chain_syncs s' = chain_syncs s" by simp_all
qed

lemma flush_queue_all:
  "flush_queue ok s =
    s\<lparr>notice_queue := [], saved_notices := saved_notices s @ (if ok then concat (notice_queue s) else [])\<rparr>"
proof (induction ok s rule: flush_queue.induct)
  case (1 ok s)
  show ?case
  proof (cases "notice_queue s")
    case Nil
    then show ?thesis by (subst flush_queue.simps) simp
  next
    case (Cons b bs)
    then show ?thesis
      using "1.IH" by (subst flush_queue.simps) (simp add: process_queue_def)
  qed
qed

text \<open>
  Every notification queued in a batch is written, in order and in batches of 1 to 50, once the
  queue is flushed and the database accepts the writes; a batch whose write fails is lost, because
  it left the queue before it was written.
\<close>

theorem queued_notifications_delivered:
  "saved_notices (flush_queue True (queue_batch_notifications ns s)) =
      saved_notices s @ concat (notice_queue s) @ ns \<and>
    notice_queue (flush_queue ok s) = [] \<and>
    saved_notices (flush_queue False s) = saved_notices s \<and>
    filter (\<lambda>b. b = [] \<or> length b > notice_batch_size) (batches ns) = []"
  by (simp add: flush_queue_all queue_batch_notifications_def concat_batches filter_empty_conv)
    (auto dest: batches_size)

end
