(* ===== verification/Reconciliation.thy ===== *)
theory Reconciliation
  imports IndexerParse Notifier
begin

text \<open>
  The reconciliation of the event table with the chain
  (\<open>backend/src/indexer/reconciliation.service.ts\<close>): once a minute it fetches the events between the
  last indexed ledger and the head of the chain and stores those the indexer does not have.
\<close>

section \<open>Configuration and checkpoints\<close>

record ix_config =
  rpc_url :: "string option"
  ix_contract :: "string option"
  reconcile_enabled :: "string option"
  reconcile_window :: "int option"

definition active_contract :: "ix_config \<Rightarrow> string option" where
  "active_contract cfg =
     (case nonempty (ix_contract cfg) of
        None \<Rightarrow> None
      | Some c \<Rightarrow> if c = ''your-contract-id-here'' then None else Some c)"

definition recon_enabled :: "ix_config \<Rightarrow> bool" where
  "recon_enabled cfg \<longleftrightarrow> reconcile_enabled cfg \<noteq> Some ''false'' \<and> reconcile_enabled cfg \<noteq> Some ''0''"

definition get_reconcile_window :: "ix_config \<Rightarrow> int" where
  "get_reconcile_window cfg =
     (case reconcile_window cfg of None \<Rightarrow> 200 | Some w \<Rightarrow> if w > 0 then w else 200)"

definition new_chain_sync :: "string \<Rightarrow> chain_sync" where
  "new_chain_sync c =
     \<lparr>cs_contract = c, last_indexed_ledger = 0, chain_head_ledger = 0, last_reconciled_from = 0,
      last_reconciled_to = 0, last_reconciled_at = None, last_backfill_count = 0\<rparr>"

definition save_chain_sync :: "chain_sync \<Rightarrow> event_db \<Rightarrow> event_db" where
  "save_chain_sync c s = s\<lparr>chain_syncs := save_row cs_contract c (chain_syncs s)\<rparr>"

definition get_or_create_checkpoint :: "string \<Rightarrow> event_db \<Rightarrow> chain_sync \<times> event_db" where
  "get_or_create_checkpoint c s =
     (case by_id cs_contract c (chain_syncs s) of
        Some cp \<Rightarrow> (cp, s)
      | None \<Rightarrow> (new_chain_sync c, save_chain_sync (new_chain_sync c) s))"

definition advance_checkpoint :: "string \<Rightarrow> int \<Rightarrow> event_db \<Rightarrow> event_db" where
  "advance_checkpoint c ledger s =
     (let (cp, s1) = get_or_create_checkpoint c s in
      if ledger > last_indexed_ledger cp
      then save_chain_sync (cp\<lparr>last_indexed_ledger := ledger\<rparr>) s1 else s1)"

section \<open>The head of the chain\<close>

definition fetch_chain_head :: "http_reply \<Rightarrow> rat option" where
  "fetch_chain_head reply =
     (case reply of
        FetchFailed _ \<Rightarrow> None
      | Replied status body \<Rightarrow>
          if \<not> (200 \<le> status \<and> status < 300) then None
          else case body of
            None \<Rightarrow> None
          | Some b \<Rightarrow>
              (case prop_of (prop_of b ''result'') ''latestLedger'' of
                 JNum (Fin x) \<Rightarrow> Some x | _ \<Rightarrow> None))"

section \<open>Backfilling\<close>

definition extract_event_type :: "payload \<Rightarrow> string option" where
  "extract_event_type ps =
     (case get_prop ps ''type'' of
        JStr t \<Rightarrow> Some t
      | _ \<Rightarrow>
          (case prop_of (get_prop ps ''value'') ''event'' of
             JStr t \<Rightarrow> Some t
           | _ \<Rightarrow> (case prop_of (get_prop ps ''value'') ''event_type'' of JStr t \<Rightarrow> Some t | _ \<Rightarrow> None)))"

definition event_at :: "int \<Rightarrow> int \<Rightarrow> contract_event \<Rightarrow> bool" where
  "event_at ledger idx x \<longleftrightarrow> ct_ledger x = ledger \<and> ct_log_index x = idx"

definition backfill_row :: "job_env \<Rightarrow> nat \<Rightarrow> payload \<Rightarrow> int \<Rightarrow> int \<Rightarrow> contract_event" where
  "backfill_row e i ps ledger idx =
     \<lparr>ct_id = new_id e i, ct_ledger = ledger, ct_log_index = idx,
      ct_type = (case nonempty (extract_event_type ps) of None \<Rightarrow> ''unknown'' | Some t \<Rightarrow> t),
      ct_data = event_value ps,
      ct_tx_hash = (case get_prop ps ''tx_hash'' of JStr h \<Rightarrow> Some h | _ \<Rightarrow> None),
      ct_status = EsPending, ct_error = None, ct_retries = 0, ct_created_at = clock e,
      ct_processed_at = None\<rparr>"

definition contract_event_fits :: "contract_event \<Rightarrow> bool" where
  "contract_event_fits x \<longleftrightarrow> length (ct_type x) \<le> 128 \<and>
     (case ct_tx_hash x of None \<Rightarrow> True | Some h \<Rightarrow> length h \<le> 255)"

text \<open>
  One raw event.  None: a query fails, which ends the loop.  A number the columns cannot hold
  already fails in the lookup.
\<close>

definition backfill_event ::
  "job_env \<Rightarrow> rat \<Rightarrow> nat \<Rightarrow> jsval \<Rightarrow> event_db \<Rightarrow> (nat \<times> event_db) option" where
  "backfill_event e to_ledger i raw s =
     (case raw of
        JObj ps \<Rightarrow>
          (case get_prop ps ''ledger'' of
             JNum ledger \<Rightarrow>
               if (case ledger of Fin x \<Rightarrow> x > to_ledger | PosInf \<Rightarrow> True | _ \<Rightarrow> False) then Some (0, s)
               else
                 (case (int8_of ledger, case get_prop ps ''log_index'' of JNum x \<Rightarrow> int4_of x | _ \<Rightarrow> Some 0) of
                    (Some l, Some idx) \<Rightarrow>
                      if find_one (event_at l idx) (contract_events s) \<noteq> None then Some (0, s)
                      else
                        (let row = backfill_row e i ps l idx in
                         if contract_event_fits row then Some (1, save_contract_event row s) else None)
                  | _ \<Rightarrow> None)
           | _ \<Rightarrow> Some (0, s))
      | _ \<Rightarrow> Some (0, s))"

fun backfill_loop ::
  "job_env \<Rightarrow> rat \<Rightarrow> nat \<Rightarrow> jsval list \<Rightarrow> nat \<Rightarrow> event_db \<Rightarrow> nat \<times> event_db" where
  "backfill_loop e to_ledger i [] n s = (n, s)"
| "backfill_loop e to_ledger i (raw # raws) n s =
     (case backfill_event e to_ledger i raw s of
        None \<Rightarrow> (n, s)
      | Some (k, s') \<Rightarrow> backfill_loop e to_ledger (Suc i) raws (n + k) s')"

definition backfill_gap :: "job_env \<Rightarrow> rat \<Rightarrow> http_reply \<Rightarrow> event_db \<Rightarrow> nat \<times> event_db" where
  "backfill_gap e to_ledger reply s =
     (case reply of
        FetchFailed _ \<Rightarrow> (0, s)
      | Replied status body \<Rightarrow>
          if \<not> (200 \<le> status \<and> status < 300) then (0, s)
          else case body of
            None \<Rightarrow> (0, s)
          | Some b \<Rightarrow>
              if truthy (prop_of b ''error'') then (0, s)
              else case coalesce (prop_of (prop_of b ''result'') ''events'') (JArr []) of
                JArr raws \<Rightarrow> backfill_loop e to_ledger 0 raws 0 s
              | JStr text \<Rightarrow> backfill_loop e to_ledger 0 (map (\<lambda>c. JStr [c]) text) 0 s
              | _ \<Rightarrow> (0, s))"

section \<open>A run\<close>

record recon_state =
  rc_db :: event_db
  rc_running :: bool
  rc_last_run :: "timestamp option"
  rc_backfilled :: nat

text \<open>
  \<open>head\<close> answers the first request, \<open>gap from\<close> the second.  A head that is no \<open>bigint\<close> makes the
  final write of the checkpoint fail, after the events were stored.
\<close>

definition run_reconciliation ::
  "ix_config \<Rightarrow> job_env \<Rightarrow> http_reply \<Rightarrow> (int \<Rightarrow> http_reply) \<Rightarrow> string \<Rightarrow> recon_state \<Rightarrow> recon_state" where
  "run_reconciliation cfg e head gap contract st =
     (let (cp, s) = get_or_create_checkpoint contract (rc_db st); st1 = st\<lparr>rc_db := s\<rparr> in
      case (nonempty (rpc_url cfg), fetch_chain_head head) of
        (Some _, Some chain_head) \<Rightarrow>
          if of_int (last_indexed_ledger cp) \<ge> chain_head then
            (case int8_of (Fin chain_head) of
               None \<Rightarrow> st1
             | Some h \<Rightarrow>
                 st1\<lparr>rc_db := save_chain_sync (cp\<lparr>chain_head_ledger := h\<rparr>) s, rc_last_run := Some (clock e)\<rparr>)
          else
            (let from_ledger = max (last_indexed_ledger cp + 1) 1;
                 to_ledger = min (of_int (from_ledger + get_reconcile_window cfg - 1)) chain_head;
                 (n, s') = backfill_gap e to_ledger (gap from_ledger) s
             in case (int8_of (Fin chain_head), int8_of (Fin to_ledger)) of
               (Some h, Some t) \<Rightarrow>
                 st1\<lparr>rc_db := save_chain_sync
                       (cp\<lparr>chain_head_ledger := h, last_reconciled_from := from_ledger,
                           last_reconciled_to := t, last_reconciled_at := Some (clock e),
                           last_backfill_count := int n, last_indexed_ledger := t\<rparr>) s',
                     rc_last_run := Some (clock e), rc_backfilled := n\<rparr>
             | _ \<Rightarrow> st1\<lparr>rc_db := s'\<rparr>)
      | _ \<Rightarrow> st1)"

definition reconcile ::
  "ix_config \<Rightarrow> job_env \<Rightarrow> http_reply \<Rightarrow> (int \<Rightarrow> http_reply) \<Rightarrow> recon_state \<Rightarrow> recon_state" where
  "reconcile cfg e head gap st =
     (if \<not> recon_enabled cfg then st
      else case active_contract cfg of
        None \<Rightarrow> st
      | Some c \<Rightarrow>
          if rc_running st then st
          else (run_reconciliation cfg e head gap c (st\<lparr>rc_running := True\<rparr>))\<lparr>rc_running := False\<rparr>)"

section \<open>Lemmas\<close>

interpretation chain_sync_rows: repository cs_contract "by_id cs_contract" "save_row cs_contract"
    "\<lambda>k. delete_rows (\<lambda>r. cs_contract r = k)" "keyed cs_contract"
  by (rule rows_repository)

interpretation contract_event_rows: repository ct_id "by_id ct_id" "save_row ct_id"
    "\<lambda>k. delete_rows (\<lambda>r. ct_id r = k)" "keyed ct_id"
  by (rule rows_repository)

definition indexed_ledger :: "string \<Rightarrow> event_db \<Rightarrow> int" where
  "indexed_ledger c s =
     (case by_id cs_contract c (chain_syncs s) of None \<Rightarrow> 0 | Some cp \<Rightarrow> last_indexed_ledger cp)"

lemma save_chain_sync_simps [simp]:
  "chain_syncs (save_chain_sync c s) = save_row cs_contract c (chain_syncs s)"
  "contract_events (save_chain_sync c s) = contract_events s"
  "checkpoints (save_chain_sync c s) = checkpoints s"
  "creator_events (save_chain_sync c s) = creator_events s"
  "event_matches (save_chain_sync c s) = event_matches s"
  by (simp_all add: save_chain_sync_def)

lemma get_or_create_facts:
  assumes "get_or_create_checkpoint c s = (cp, s1)"
  shows "cs_contract cp = c" and "by_id cs_contract c (chain_syncs s1) = Some cp"
    and "last_indexed_ledger cp = indexed_ledger c s" and "contract_events s1 = contract_events s"
  using assms
  by (auto simp: get_or_create_checkpoint_def indexed_ledger_def new_chain_sync_def table_simps
      split: option.splits dest: by_id_Some)

lemma indexed_ledger_save [simp]:
  "indexed_ledger c (save_chain_sync cp s) =
    (if cs_contract cp = c then last_indexed_ledger cp else indexed_ledger c s)"
  by (simp add: indexed_ledger_def by_id_save_row)

text \<open>The indexer only moves the mark forward.\<close>

lemma advance_checkpoint_max:
  "indexed_ledger c (advance_checkpoint c n s) = max (indexed_ledger c s) n"
proof -
  obtain cp s1 where cp: "get_or_create_checkpoint c s = (cp, s1)" by fastforce
  note facts = get_or_create_facts [OF cp]
  have "indexed_ledger c s1 = last_indexed_ledger cp"
    using facts(2) by (simp add: indexed_ledger_def)
  then show ?thesis using cp facts(1,3) by (simp add: advance_checkpoint_def max_def)
qed

lemma advance_checkpoint_events [simp]:
  "contract_events (advance_checkpoint c n s) = contract_events s"
  "checkpoints (advance_checkpoint c n s) = checkpoints s"
  by (auto simp: advance_checkpoint_def get_or_create_checkpoint_def Let_def split: option.splits prod.splits)

text \<open>
  What the loop does with a page: an entry is skipped, fails, or names the place \<open>(ledger, index)\<close> of
  an event that has to be in the table.
\<close>

definition place_of :: "rat \<Rightarrow> jsval \<Rightarrow> (int \<times> int) option option" where
  "place_of to_ledger raw =
     (case raw of
        JObj ps \<Rightarrow>
          (case get_prop ps ''ledger'' of
             JNum ledger \<Rightarrow>
               if (case ledger of Fin x \<Rightarrow> x > to_ledger | PosInf \<Rightarrow> True | _ \<Rightarrow> False) then Some None
               else
                 (case (int8_of ledger, case get_prop ps ''log_index'' of JNum x \<Rightarrow> int4_of x | _ \<Rightarrow> Some 0) of
                    (Some l, Some idx) \<Rightarrow>
                      if contract_event_fits (backfill_row \<lparr>clock = 0, new_id = (\<lambda>n. []), db_answers = True\<rparr> 0 ps l idx)
                      then Some (Some (l, idx)) else None
                  | _ \<Rightarrow> None)
           | _ \<Rightarrow> Some None)
      | _ \<Rightarrow> Some None)"

definition placed :: "int \<times> int \<Rightarrow> event_db \<Rightarrow> bool" where
  "placed p s \<longleftrightarrow> find_one (event_at (fst p) (snd p)) (contract_events s) \<noteq> None"

definition pending_only :: "contract_event list \<Rightarrow> bool" where
  "pending_only xs \<longleftrightarrow> list_all (\<lambda>x. ct_status x = EsPending \<and> ct_retries x = 0) xs"

lemma contract_event_fits_row:
  "contract_event_fits (backfill_row e i ps l idx) = contract_event_fits (backfill_row e' i' ps l' idx')"
  by (simp add: contract_event_fits_def backfill_row_def)

lemma backfill_event_placed:
  assumes "place_of to_ledger raw \<noteq> None" and "new_id e i \<notin> ct_id ` set (contract_events s)"
  shows "\<exists>k news. backfill_event e to_ledger i raw s = Some (k, s\<lparr>contract_events := contract_events s @ news\<rparr>) \<and>
    k = length news \<and> pending_only news \<and> list_all (\<lambda>x. ct_id x = new_id e i) news \<and>
    (case place_of to_ledger raw of Some (Some p) \<Rightarrow>
       placed p (s\<lparr>contract_events := contract_events s @ news\<rparr>) | _ \<Rightarrow> True)"
proof (cases "\<exists>ps ledger. raw = JObj ps \<and> get_prop ps ''ledger'' = JNum ledger")
  case False
  then have "backfill_event e to_ledger i raw s = Some (0, s)" "place_of to_ledger raw = Some None"
    by (auto simp: backfill_event_def place_of_def split: jsval.split)
  then show ?thesis by (intro exI [of _ 0] exI [of _ "[]"]) (simp add: pending_only_def)
next
  case True
  then obtain ps ledger where raw: "raw = JObj ps" "get_prop ps ''ledger'' = JNum ledger" by blast
  show ?thesis
  proof (cases "case ledger of Fin x \<Rightarrow> x > to_ledger | PosInf \<Rightarrow> True | _ \<Rightarrow> False")
    case True
    with raw have "backfill_event e to_ledger i raw s = Some (0, s)" "place_of to_ledger raw = Some None"
      by (simp_all add: backfill_event_def place_of_def)
    then show ?thesis by (intro exI [of _ 0] exI [of _ "[]"]) (simp add: pending_only_def)
  next
    case False
    with raw assms(1) obtain l idx where int: "int8_of ledger = Some l"
      "(case get_prop ps ''log_index'' of JNum x \<Rightarrow> int4_of x | _ \<Rightarrow> Some 0) = Some idx"
      and fits: "contract_event_fits (backfill_row e i ps l idx)"
      and place: "place_of to_ledger raw = Some (Some (l, idx))"
      by (fastforce simp: place_of_def split: option.splits if_splits
          intro: contract_event_fits_row [THEN iffD1])
    show ?thesis
    proof (cases "find_one (event_at l idx) (contract_events s)")
      case None
      with raw False int fits have "backfill_event e to_ledger i raw s =
          Some (1, save_contract_event (backfill_row e i ps l idx) s)"
        by (simp add: backfill_event_def Let_def)
      moreover have "save_contract_event (backfill_row e i ps l idx) s =
          s\<lparr>contract_events := contract_events s @ [backfill_row e i ps l idx]\<rparr>"
        using assms(2) by (simp add: save_contract_event_def save_row_fresh backfill_row_def)
      ultimately show ?thesis using place None
        by (intro exI [of _ 1] exI [of _ "[backfill_row e i ps l idx]"])
          (simp add: pending_only_def backfill_row_def placed_def find_one_append event_at_def)
    next
      case (Some x)
      with raw False int have "backfill_event e to_ledger i raw s = Some (0, s)"
        by (simp add: backfill_event_def)
      with Some place show ?thesis
        by (intro exI [of _ 0] exI [of _ "[]"]) (simp add: pending_only_def placed_def)
    qed
  qed
qed

lemma placed_append: "placed p s \<Longrightarrow> placed p (s\<lparr>contract_events := contract_events s @ xs\<rparr>)"
  by (auto simp: placed_def find_one_append)

lemma backfill_loop_placed:
  assumes "list_all (\<lambda>raw. place_of to_ledger raw \<noteq> None) raws" and "inj (new_id e)"
    and "\<And>j. i \<le> j \<Longrightarrow> new_id e j \<notin> ct_id ` set (contract_events s)"
  shows "\<exists>news. backfill_loop e to_ledger i raws n s =
      (n + length news, s\<lparr>contract_events := contract_events s @ news\<rparr>) \<and> pending_only news \<and>
    list_all (\<lambda>raw. case place_of to_ledger raw of
        Some (Some p) \<Rightarrow> placed p (s\<lparr>contract_events := contract_events s @ news\<rparr>) | _ \<Rightarrow> True) raws"
  using assms(1,3)
proof (induction raws arbitrary: i n s)
  case Nil
  then show ?case by (intro exI [of _ "[]"]) (simp add: pending_only_def)
next
  case (Cons raw raws)
  obtain k news where step: "backfill_event e to_ledger i raw s =
      Some (k, s\<lparr>contract_events := contract_events s @ news\<rparr>)" "k = length news" "pending_only news"
      "list_all (\<lambda>x. ct_id x = new_id e i) news"
    and here: "case place_of to_ledger raw of Some (Some p) \<Rightarrow>
       placed p (s\<lparr>contract_events := contract_events s @ news\<rparr>) | _ \<Rightarrow> True"
    using backfill_event_placed [of to_ledger raw e i s] Cons.prems by auto
  let ?s = "s\<lparr>contract_events := contract_events s @ news\<rparr>"
  have "new_id e j \<notin> ct_id ` set (contract_events ?s)" if "Suc i \<le> j" for j
  proof -
    have "new_id e j \<noteq> new_id e i" using that assms(2) by (auto simp: inj_eq)
    then show ?thesis using Cons.prems(2) [of j] that step(4) by (auto simp: list_all_iff)
  qed
  then obtain more where rest: "backfill_loop e to_ledger (Suc i) raws (n + k) ?s =
      (n + k + length more, ?s\<lparr>contract_events := contract_events ?s @ more\<rparr>)" "pending_only more"
      "list_all (\<lambda>raw. case place_of to_ledger raw of
        Some (Some p) \<Rightarrow> placed p (?s\<lparr>contract_events := contract_events ?s @ more\<rparr>) | _ \<Rightarrow> True) raws"
    using Cons.IH [of "Suc i" ?s "n + k"] Cons.prems(1) by auto
  have "case place_of to_ledger raw of Some (Some p) \<Rightarrow>
       placed p (?s\<lparr>contract_events := contract_events ?s @ more\<rparr>) | _ \<Rightarrow> True"
    using here placed_append [of _ ?s more] by (auto split: option.split)
  moreover have eq: "?s\<lparr>contract_events := contract_events ?s @ more\<rparr> =
      s\<lparr>contract_events := contract_events s @ news @ more\<rparr>" by simp
  ultimately show ?case
    using step rest [unfolded eq] unfolding eq
    by (intro exI [of _ "news @ more"]) (simp add: pending_only_def)
qed

text \<open>
  A page of events the server returned is stored completely: afterwards each of its events up
  to the end of the gap is in the table at its ledger and index, the rows that were there are
  unchanged, and the count is that of the added rows, all of them pending.
\<close>

theorem backfill_stores_page:
  assumes "reply = Replied 200 (Some (JObj [(''result'', JObj [(''events'', JArr raws)])]))"
    and "list_all (\<lambda>raw. place_of to_ledger raw \<noteq> None) raws" and "inj (new_id e)"
    and "\<And>j. new_id e j \<notin> ct_id ` set (contract_events s)"
  shows "\<exists>news. backfill_gap e to_ledger reply s =
      (length news, s\<lparr>contract_events := contract_events s @ news\<rparr>) \<and> pending_only news \<and>
    list_all (\<lambda>raw. case place_of to_ledger raw of
        Some (Some p) \<Rightarrow> placed p (s\<lparr>contract_events := contract_events s @ news\<rparr>) | _ \<Rightarrow> True) raws"
  using backfill_loop_placed [OF assms(2,3), of 0 s 0] assms(1,4)
  by (simp add: backfill_gap_def prop_of_def coalesce_def)

definition sample_job :: job_env where
  "sample_job = \<lparr>clock = 1000, new_id = (\<lambda>n. ''row-'' @ show_nat n), db_answers = True\<rparr>"

lemma sample_job_simps [simp]:
  "clock sample_job = 1000" "new_id sample_job n = ''row-'' @ show_nat n" "db_answers sample_job"
  by (simp_all add: sample_job_def)

lemma inj_sample_job: "inj (new_id sample_job)"
  by (simp add: inj_def show_nat_inj)

definition sample_raw :: jsval where
  "sample_raw = JObj [(''type'', JStr ''contract''), (''ledger'', j_int 7), (''tx_hash'', JStr ''aa'')]"

lemma sample_raw_place: "place_of 9 sample_raw = Some (Some (7, 0))"
  by (simp add: place_of_def sample_raw_def int8_of_def pg_int8_def contract_event_fits_def
      backfill_row_def nonempty_def extract_event_type_def)

theorem backfill_stores_page_witness:
  "\<exists>news. backfill_gap sample_job 9
       (Replied 200 (Some (JObj [(''result'', JObj [(''events'', JArr [sample_raw])])]))) empty_event_db =
      (length news, empty_event_db\<lparr>contract_events := contract_events empty_event_db @ news\<rparr>) \<and>
    pending_only news \<and>
    placed (7, 0) (empty_event_db\<lparr>contract_events := contract_events empty_event_db @ news\<rparr>)"
  using backfill_stores_page [of _ "[sample_raw]" 9 sample_job empty_event_db, OF refl]
  by (simp add: sample_raw_place inj_sample_job empty_event_db_def)

text \<open>
  A gap counts as indexed although nothing of it was read.  When the request for its events
  fails, no row is added, but the mark moves to the end of the window, and every later run starts
  behind it.
\<close>

theorem failed_backfill_advances:
  assumes "recon_enabled cfg" and "active_contract cfg = Some c" and "\<not> rc_running st"
    and "nonempty (rpc_url cfg) \<noteq> None"
    and "fetch_chain_head head = Some (of_int h)" and "pg_int8 h" and "indexed_ledger c (rc_db st) < h"
    and "0 \<le> indexed_ledger c (rc_db st)"
    and "gap (indexed_ledger c (rc_db st) + 1) \<in> {FetchFailed msg, Replied 503 body}"
  shows "let st' = reconcile cfg e head gap st in
    contract_events (rc_db st') = contract_events (rc_db st) \<and>
    indexed_ledger c (rc_db st') = min (indexed_ledger c (rc_db st) + get_reconcile_window cfg) h \<and>
    \<not> rc_running st'"
proof -
  obtain cp s where cp: "get_or_create_checkpoint c (rc_db st) = (cp, s)" by fastforce
  note facts = get_or_create_facts [OF cp]
  let ?v = "indexed_ledger c (rc_db st)" and ?w = "get_reconcile_window cfg"
  have "0 < ?w" by (simp add: get_reconcile_window_def split: option.split)
  then have "pg_int8 (min (?v + ?w) h)" using assms(6,8) by (auto simp: pg_int8_def)
  moreover have "min (rat_of_int (?v + ?w)) (of_int h) = of_int (min (?v + ?w) h)"
    by (simp add: min_def)
  ultimately have "int8_of (Fin (min (rat_of_int (?v + ?w)) (of_int h))) = Some (min (?v + ?w) h)"
    by (simp only: int8_of_def) simp
  moreover have "int8_of (Fin (of_int h)) = Some h" using assms(6) by (simp add: int8_of_def)
  moreover have "backfill_gap e' to' (gap (?v + 1)) s = (0, s)" for e' to'
    using assms(9) by (auto simp: backfill_gap_def)
  moreover have "max (?v + 1) 1 = ?v + 1" using assms(8) by simp
  moreover obtain url where "nonempty (rpc_url cfg) = Some url" using assms(4) by auto
  ultimately show ?thesis
    using assms(1-3,5,7) cp facts
    by (simp add: reconcile_def run_reconciliation_def Let_def)
qed

definition sample_config :: ix_config where
  "sample_config = \<lparr>rpc_url = Some ''http://rpc'', ix_contract = Some ''CEVENTS'',
     reconcile_enabled = None, reconcile_window = None\<rparr>"

lemma sample_config_simps [simp]:
  "rpc_url sample_config = Some ''http://rpc''" "active_contract sample_config = Some ''CEVENTS''"
  "recon_enabled sample_config" "get_reconcile_window sample_config = 200"
  by (simp_all add: sample_config_def active_contract_def recon_enabled_def get_reconcile_window_def
      nonempty_def)

theorem failed_backfill_advances_witness:
  "indexed_ledger ''CEVENTS'' (rc_db (reconcile sample_config sample_job
      (Replied 200 (Some (JObj [(''result'', JObj [(''latestLedger'', j_int 500)])])))
      (\<lambda>n. FetchFailed ''timeout'')
      \<lparr>rc_db = empty_event_db, rc_running = False, rc_last_run = None, rc_backfilled = 0\<rparr>)) = 200"
  using failed_backfill_advances [of sample_config "''CEVENTS''"
      "\<lparr>rc_db = empty_event_db, rc_running = False, rc_last_run = None, rc_backfilled = 0\<rparr>"
      "Replied 200 (Some (JObj [(''result'', JObj [(''latestLedger'', j_int 500)])]))" 500
      "\<lambda>n. FetchFailed ''timeout''" "''timeout''" None sample_job]
  by (simp add: nonempty_def fetch_chain_head_def prop_of_def pg_int8_def indexed_ledger_def
      empty_event_db_def Let_def)

end
