(* ===== verification/Indexer.thy ===== *)
theory Indexer
  imports Reconciliation "HOL-Library.Product_Lexorder"
begin

text \<open>
  The event indexer (\<open>backend/src/indexer/indexer.service.ts\<close>): the handler of each contract event,
  the event table with its retry states, and the poll that reads the chain and moves the checkpoint.
  A handler is not a transaction: what it wrote before an exception stays.
\<close>

section \<open>Rows and columns\<close>

definition query_error :: http_error where
  "query_error = InternalError ''QueryFailedError''"

text \<open>A date of the data: absent or falsy it is the clock, an invalid date cannot be stored.\<close>

definition date_field :: "job_env \<Rightarrow> payload \<Rightarrow> string \<Rightarrow> timestamp option" where
  "date_field e ps k =
     (let v = get_prop ps k in
      if truthy v then (case js_number v of Fin x \<Rightarrow> date_of_ms (x * 1000) | _ \<Rightarrow> None)
      else Some (clock e))"

definition creator_event_fits :: "creator_event \<Rightarrow> bool" where
  "creator_event_fits x \<longleftrightarrow>
     pg_int8 (on_chain_event_id x) \<and> length (creator_address x) \<le> 255 \<and> length (ce_title x) \<le> 200 \<and>
     pg_int8 (creation_fee_paid x) \<and> pg_int8 (prize_pool x) \<and> list_all pg_int4 (reward_distribution x) \<and>
     pg_int8 (entry_fee x) \<and> pg_int8 (total_entry_fees_collected x) \<and> length (ce_category x) \<le> 100 \<and>
     (case banner_url x of None \<Rightarrow> True | Some u \<Rightarrow> length u \<le> 2048) \<and>
     (case invite_code x of None \<Rightarrow> True | Some c \<Rightarrow> length c \<le> 8) \<and>
     pg_int4 (max_participants x) \<and> pg_int4 (ce_participants x) \<and> pg_int4 (match_count x)"

definition store_creator_event :: "creator_event \<Rightarrow> event_db \<Rightarrow> event_db option" where
  "store_creator_event x s = (if creator_event_fits x then Some (save_creator_event x s) else None)"

section \<open>Events of the contract\<close>

definition default_event_duration_ms :: int where
  "default_event_duration_ms = 7776000 * 1000"

text \<open>None: a column of the row cannot hold its value.\<close>

definition indexed_event :: "job_env \<Rightarrow> payload \<Rightarrow> int \<Rightarrow> creator_event option" where
  "indexed_event e ps chain_id =
     (let created = (case read_unix_timestamp ps ''created_at'' of None \<Rightarrow> clock e | Some t \<Rightarrow> t);
          start = (case read_unix_timestamp ps ''start_time'' of None \<Rightarrow> created | Some t \<Rightarrow> t);
          ending = (case read_unix_timestamp ps ''end_time'' of
             Some t \<Rightarrow> if t > start then Some t else date_of_ms (of_int (start + default_event_duration_ms))
           | None \<Rightarrow> date_of_ms (of_int (start + default_event_duration_ms)));
          title = ix_read_str ps ''title'';
          maximum = (case read_num ps ''max_participants'' of None \<Rightarrow> 0 | Some x \<Rightarrow> x) in
      case (ending, int4_of (Fin maximum)) of
        (Some stop, Some most) \<Rightarrow>
          Some \<lparr>ce_id = new_id e 1, on_chain_event_id = chain_id,
                creator_address = ix_read_str ps ''creator'',
                ce_title = (if title = [] then ''Event '' @ show_int chain_id else title),
                ce_description = ix_read_str ps ''description'',
                creation_fee_paid = read_unsigned ps ''creation_fee_paid'',
                on_chain_created_at = created, start_time = start, end_time = stop,
                prize_pool = read_unsigned ps ''prize_pool'',
                reward_distribution = map floor (read_numbers ps ''reward_distribution''),
                entry_fee = read_unsigned ps ''entry_fee'', total_entry_fees_collected = 0,
                ce_category = normalize_category (ix_read_str ps ''category''),
                banner_url = normalize_nullable (ix_read_str ps ''banner_url'') 2048,
                ce_active = True, ce_cancelled = False,
                invite_code = nonempty (Some (ix_read_str ps ''invite_code'')),
                max_participants = most, ce_participants = 0, match_count = 0,
                ce_finalized = (case read_bool ps ''is_finalized'' of None \<Rightarrow> False | Some b \<Rightarrow> b),
                ce_created_at = clock e\<rparr>
      | _ \<Rightarrow> None)"

definition handle_event_created :: "job_env \<Rightarrow> payload \<Rightarrow> event_db \<Rightarrow> unit result \<times> event_db" where
  "handle_event_created e ps s =
     (let id = js_number (get_prop ps ''event_id'') in
      if js_falsy_num id then (Inr (), s)
      else case int8_of id of
        None \<Rightarrow> (Inl query_error, s)
      | Some n \<Rightarrow>
          if event_by_chain_id n s \<noteq> None then (Inr (), s)
          else
            (case indexed_event e ps n of
               None \<Rightarrow> (Inl query_error, s)
             | Some x \<Rightarrow>
                 (case store_creator_event x s of
                    None \<Rightarrow> (Inl query_error, s)
                  | Some s' \<Rightarrow> notify_event_created e ps s')))"

definition match_multiplier :: "payload \<Rightarrow> jsnum" where
  "match_multiplier ps =
     (let v = get_prop ps ''points_multiplier'';
          x = (if v = JUndefined then Fin 1 else js_number v) in
      case x of Fin r \<Rightarrow> if r < 1 \<or> r > 3 then Fin 1 else Fin r | _ \<Rightarrow> Fin 1)"

definition indexed_match :: "job_env \<Rightarrow> payload \<Rightarrow> int \<Rightarrow> creator_event \<Rightarrow> match_row option" where
  "indexed_match e ps chain_id event =
     (let a = ix_read_str ps ''team_a''; b = ix_read_str ps ''team_b'' in
      case (date_field e ps ''match_time'', int4_of (match_multiplier ps)) of
        (Some t, Some mult) \<Rightarrow>
          if length a > 100 \<or> length b > 100 then None
          else Some \<lparr>mt_id = new_id e 1, on_chain_match_id = chain_id, mt_event = ce_id event,
                team_a = (if a = [] then ''Team A'' else a), team_b = (if b = [] then ''Team B'' else b),
                match_time = t, result_submitted = False, home_score = None, away_score = None,
                points_multiplier = mult, winning_team = None, submitted_by = None,
                mt_submitted_at = None, mt_created_at = clock e\<rparr>
      | _ \<Rightarrow> None)"

definition handle_match_added :: "job_env \<Rightarrow> payload \<Rightarrow> event_db \<Rightarrow> unit result \<times> event_db" where
  "handle_match_added e ps s =
     (let match_id = js_number (get_prop ps ''match_id'');
          id = js_number (get_prop ps ''event_id'') in
      if js_falsy_num match_id \<or> js_falsy_num id then (Inr (), s)
      else case int8_of match_id of
        None \<Rightarrow> (Inl query_error, s)
      | Some k \<Rightarrow>
          if match_by_chain_id k s \<noteq> None then (Inr (), s)
          else case int8_of id of
            None \<Rightarrow> (Inl query_error, s)
          | Some n \<Rightarrow>
              (case event_by_chain_id n s of
                 None \<Rightarrow> (Inr (), s)
               | Some x \<Rightarrow>
                   (case indexed_match e ps k x of
                      None \<Rightarrow> (Inl query_error, s)
                    | Some m \<Rightarrow>
                        (let s1 = save_match m s in
                         case store_creator_event (x\<lparr>match_count := match_count x + 1\<rparr>) s1 of
                           None \<Rightarrow> (Inl query_error, s1)
                         | Some s2 \<Rightarrow> notify_match_added e ps s2))))"

definition joined_event :: "int \<Rightarrow> creator_event \<Rightarrow> creator_event" where
  "joined_event fee x =
     (let y = x\<lparr>ce_participants := ce_participants x + 1\<rparr> in
      if fee > 0 then
        y\<lparr>prize_pool := prize_pool y + fee,
          total_entry_fees_collected := total_entry_fees_collected y + fee\<rparr>
      else y)"

definition handle_user_joined :: "job_env \<Rightarrow> payload \<Rightarrow> event_db \<Rightarrow> unit result \<times> event_db" where
  "handle_user_joined e ps s =
     (let id = js_number (get_prop ps ''event_id'') in
      if js_falsy_num id \<or> ix_read_str ps ''user_address'' = [] then (Inr (), s)
      else case int8_of id of
        None \<Rightarrow> (Inl query_error, s)
      | Some n \<Rightarrow>
          (case event_by_chain_id n s of
             None \<Rightarrow> (Inr (), s)
           | Some x \<Rightarrow>
               (case store_creator_event (joined_event (read_unsigned ps ''entry_fee_paid'') x) s of
                  None \<Rightarrow> (Inl query_error, s)
                | Some s' \<Rightarrow> notify_user_joined e ps s')))"

section \<open>Predictions and results\<close>

text \<open>A score: \<open>None\<close> when absent or null.\<close>

definition score_field :: "payload \<Rightarrow> string \<Rightarrow> jsnum option" where
  "score_field ps k =
     (let v = get_prop ps k in if v = JUndefined \<or> v = JNull then None else Some (js_number v))"

definition jsnum_less :: "jsnum \<Rightarrow> jsnum \<Rightarrow> bool" where
  "jsnum_less a b =
     (case (a, b) of
        (Fin x, Fin y) \<Rightarrow> x < y
      | (NaN, _) \<Rightarrow> False | (_, NaN) \<Rightarrow> False
      | (NegInf, NegInf) \<Rightarrow> False | (NegInf, _) \<Rightarrow> True
      | (_, PosInf) \<Rightarrow> a \<noteq> PosInf
      | _ \<Rightarrow> False)"

definition read_outcome :: "string \<Rightarrow> predicted_outcome option" where
  "read_outcome raw =
     (let t = to_upper raw in
      List.find (\<lambda>x. predicted_outcome_text x = t) [PoTeamA, PoTeamB, PoDraw])"

definition outcome_of :: "payload \<Rightarrow> predicted_outcome option" where
  "outcome_of ps =
     (case (score_field ps ''predicted_home_score'', score_field ps ''predicted_away_score'') of
        (Some h, Some a) \<Rightarrow>
          Some (if jsnum_less a h then PoTeamA else if jsnum_less h a then PoTeamB else PoDraw)
      | _ \<Rightarrow> read_outcome (ix_read_str ps ''predicted_outcome''))"

definition score_column :: "jsnum option \<Rightarrow> int option option" where
  "score_column x =
     (case x of None \<Rightarrow> Some None | Some v \<Rightarrow> map_option Some (int4_of v))"

definition indexed_prediction ::
  "job_env \<Rightarrow> match_row \<Rightarrow> user \<Rightarrow> predicted_outcome \<Rightarrow> int option \<Rightarrow> int option \<Rightarrow> match_prediction" where
  "indexed_prediction e m u oc h a =
     \<lparr>mp_row_id = new_id e 1, mp_match = mt_id m, mp_user = u_id u, predicted_outcome = oc,
      predicted_home = h, predicted_away = a, points_earned = 0, is_correct = None,
      predicted_at = clock e\<rparr>"

definition handle_prediction_indexed :: "job_env \<Rightarrow> payload \<Rightarrow> event_db \<Rightarrow> unit result \<times> event_db" where
  "handle_prediction_indexed e ps s =
     (let match_id = js_number (get_prop ps ''match_id'');
          predictor = ix_read_str ps ''predictor'' in
      if js_falsy_num match_id \<or> predictor = [] then (Inr (), s)
      else case int8_of match_id of
        None \<Rightarrow> (Inl query_error, s)
      | Some k \<Rightarrow>
          (case (match_by_chain_id k s, event_user predictor s) of
             (Some m, Some u) \<Rightarrow>
               if find_one (\<lambda>p. mp_match p = mt_id m \<and> mp_user p = u_id u) (match_predictions s) \<noteq> None
               then (Inr (), s)
               else
                 (case outcome_of ps of
                    None \<Rightarrow> (Inr (), s)
                  | Some oc \<Rightarrow>
                      (case (score_column (score_field ps ''predicted_home_score''),
                             score_column (score_field ps ''predicted_away_score'')) of
                         (Some h, Some a) \<Rightarrow>
                           notify_prediction_submitted e ps
                             (s\<lparr>match_predictions := save_row mp_row_id
                                 (indexed_prediction e m u oc h a) (match_predictions s)\<rparr>)
                       | _ \<Rightarrow> (Inl query_error, s)))
           | _ \<Rightarrow> (Inr (), s)))"

definition winning_team_of :: "jsnum \<Rightarrow> winning_team option" where
  "winning_team_of x =
     (if x = Fin 0 then Some WtTeamA else if x = Fin 1 then Some WtTeamB
      else if x = Fin 2 then Some WtDraw else None)"

text \<open>A result's score: only an absent one is kept as null; \<open>Number(null)\<close> is 0.\<close>

definition result_score :: "payload \<Rightarrow> string \<Rightarrow> int option option" where
  "result_score ps k =
     (let v = get_prop ps k in
      if v = JUndefined then Some None else map_option Some (int4_of (js_number v)))"

definition recorded_result :: "job_env \<Rightarrow> payload \<Rightarrow> winning_team \<Rightarrow> match_row \<Rightarrow> match_row option" where
  "recorded_result e ps w m =
     (case (date_field e ps ''submitted_at'', result_score ps ''home_score'', result_score ps ''away_score'') of
        (Some t, Some h, Some a) \<Rightarrow>
          if length (ix_read_str ps ''submitted_by'') > 255 then None
          else Some (m\<lparr>result_submitted := True, winning_team := Some w,
                 submitted_by := Some (ix_read_str ps ''submitted_by''), mt_submitted_at := Some t,
                 home_score := h, away_score := a\<rparr>)
      | _ \<Rightarrow> None)"

definition grade :: "match_row \<Rightarrow> match_prediction \<Rightarrow> match_prediction" where
  "grade m p =
     (let correct = (case winning_team m of None \<Rightarrow> False
                     | Some w \<Rightarrow> predicted_outcome_text (predicted_outcome p) = winning_team_text w);
          points =
            (if \<not> correct then 0
             else case (home_score m, away_score m, predicted_home p, predicted_away p) of
               (Some h, Some a, Some ph, Some pa) \<Rightarrow>
                 if ph = h \<and> pa = a then 4 * points_multiplier m
                 else if ph - pa = h - a then 3 * points_multiplier m
                 else points_multiplier m
             | _ \<Rightarrow> points_multiplier m)
      in p\<lparr>is_correct := Some correct, points_earned := points\<rparr>)"

definition grade_predictions :: "match_row \<Rightarrow> event_db \<Rightarrow> event_db" where
  "grade_predictions m s =
     s\<lparr>match_predictions := update_rows (\<lambda>p. mp_match p = mt_id m) (grade m) (match_predictions s)\<rparr>"

definition handle_match_result :: "job_env \<Rightarrow> payload \<Rightarrow> event_db \<Rightarrow> unit result \<times> event_db" where
  "handle_match_result e ps s =
     (let match_id = js_number (get_prop ps ''match_id'') in
      if js_falsy_num match_id then (Inr (), s)
      else case int8_of match_id of
        None \<Rightarrow> (Inl query_error, s)
      | Some k \<Rightarrow>
          (case match_by_chain_id k s of
             None \<Rightarrow> (Inr (), s)
           | Some m \<Rightarrow>
               if result_submitted m then (Inr (), s)
               else
                 (case winning_team_of (js_number (get_prop ps ''winning_team'')) of
                    None \<Rightarrow> (Inr (), s)
                  | Some w \<Rightarrow>
                      (case recorded_result e ps w m of
                         None \<Rightarrow> (Inl query_error, s)
                       | Some m' \<Rightarrow>
                           notify_match_result e ps (grade_predictions m' (save_match m' s))))))"

section \<open>Final rankings, cancellation, fees and reputation\<close>

definition board_entry_fits :: "board_entry \<Rightarrow> bool" where
  "board_entry_fits x \<longleftrightarrow> length (be_address x) \<le> 255 \<and> pg_int4 (be_rank x) \<and> pg_int4 (be_total x) \<and>
     pg_int4 (be_correct x) \<and> \<bar>be_accuracy x\<bar> < 1000"

definition board_key :: "string \<Rightarrow> string \<Rightarrow> board_entry \<Rightarrow> bool" where
  "board_key ev a x \<longleftrightarrow> be_event x = ev \<and> be_address x = a"

definition payout_key :: "string \<Rightarrow> string \<Rightarrow> payout \<Rightarrow> bool" where
  "payout_key ev a x \<longleftrightarrow> po_event x = ev \<and> po_address x = a"

definition accuracy_percentage :: "rat \<Rightarrow> rat \<Rightarrow> rat" where
  "accuracy_percentage tot correct =
     (if tot > 0 then of_int (math_round (correct / tot * 10000)) / 100 else 0)"

text \<open>The entry of the ranking: the row of the database, overwritten, or a new one.\<close>

definition ranked_entry ::
  "job_env \<Rightarrow> nat \<Rightarrow> string \<Rightarrow> payload \<Rightarrow> rat \<Rightarrow> event_db \<Rightarrow> board_entry option" where
  "ranked_entry e i ev ps rank s =
     (let a = ix_read_str ps ''address'';
          tot = (case read_num ps ''total_predictions'' of None \<Rightarrow> 0 | Some x \<Rightarrow> x);
          correct = (case read_num ps ''correct_predictions'' of None \<Rightarrow> 0 | Some x \<Rightarrow> x) in
      case (int4_of (Fin rank), int4_of (Fin tot), int4_of (Fin correct)) of
        (Some r, Some t, Some c) \<Rightarrow>
          (let x = (case find_one (board_key ev a) (board_entries s) of
                 Some x \<Rightarrow> x\<lparr>be_rank := r, be_total := t, be_correct := c,
                   be_accuracy := accuracy_percentage tot correct,
                   be_winner := read_unsigned ps ''payout_amount'' > 0\<rparr>
               | None \<Rightarrow> \<lparr>be_id = new_id e (2 * i + 1), be_event = ev, be_address = a, be_rank = r,
                   be_total = t, be_correct = c, be_accuracy = accuracy_percentage tot correct,
                   be_winner = read_unsigned ps ''payout_amount'' > 0, be_created_at = clock e\<rparr>)
           in if board_entry_fits x then Some x else None)
      | _ \<Rightarrow> None)"

definition process_leaderboard_entry ::
  "job_env \<Rightarrow> nat \<Rightarrow> string \<Rightarrow> jsval \<Rightarrow> event_db \<Rightarrow> unit result \<times> event_db" where
  "process_leaderboard_entry e i ev raw s =
     (case raw of
        JObj ps \<Rightarrow>
          (let a = ix_read_str ps ''address''; amount = read_unsigned ps ''payout_amount'' in
           case (a, read_num ps ''rank'') of
             (_ # _, Some rank) \<Rightarrow>
               (case ranked_entry e i ev ps rank s of
                  None \<Rightarrow> (Inl query_error, s)
                | Some x \<Rightarrow>
                    (let s1 = s\<lparr>board_entries := save_row be_id x (board_entries s)\<rparr> in
                     if find_one (payout_key ev a) (payouts s) \<noteq> None \<or> \<not> pg_int8 amount
                     then (Inl query_error, s1)
                     else (Inr (), s1\<lparr>payouts := save_row po_id
                       \<lparr>po_id = new_id e (2 * i + 2), po_event = ev, po_address = a, po_amount = amount,
                        po_claimed = False, po_entry = be_id x, po_created_at = clock e\<rparr> (payouts s1)\<rparr>)))
           | _ \<Rightarrow> (Inr (), s))
      | _ \<Rightarrow> (Inr (), s))"

text \<open>An entry that fails is logged and the loop goes on.\<close>

fun process_entries :: "job_env \<Rightarrow> nat \<Rightarrow> string \<Rightarrow> jsval list \<Rightarrow> event_db \<Rightarrow> event_db" where
  "process_entries e i ev [] s = s"
| "process_entries e i ev (raw # raws) s =
     process_entries e (Suc i) ev raws (snd (process_leaderboard_entry e i ev raw s))"

definition handle_event_finalized :: "job_env \<Rightarrow> payload \<Rightarrow> event_db \<Rightarrow> unit result \<times> event_db" where
  "handle_event_finalized e ps s =
     (let id = js_number (get_prop ps ''event_id'') in
      if js_falsy_num id then (Inr (), s)
      else case int8_of id of
        None \<Rightarrow> (Inl query_error, s)
      | Some n \<Rightarrow>
          (case event_by_chain_id n s of
             None \<Rightarrow> (Inr (), s)
           | Some x \<Rightarrow>
               if count_rows (\<lambda>p. po_event p = show_int n) (payouts s) > 0 then (Inr (), s)
               else
                 (let s1 = (if ce_finalized x then s else save_creator_event (x\<lparr>ce_finalized := True\<rparr>) s);
                      board = (case get_prop ps ''leaderboard'' of JArr xs \<Rightarrow> xs | _ \<Rightarrow> [])
                  in (Inr (), process_entries e 0 (show_int n) board s1))))"

definition handle_event_cancelled :: "job_env \<Rightarrow> payload \<Rightarrow> event_db \<Rightarrow> unit result \<times> event_db" where
  "handle_event_cancelled e ps s =
     (let id = js_number (get_prop ps ''event_id'') in
      if js_falsy_num id then (Inr (), s)
      else case int8_of id of
        None \<Rightarrow> (Inl query_error, s)
      | Some n \<Rightarrow>
          (case event_by_chain_id n s of
             None \<Rightarrow> (Inr (), s)
           | Some x \<Rightarrow>
               notify_event_cancelled e ps
                 (save_creator_event (x\<lparr>ce_active := False, ce_cancelled := True\<rparr>) s)))"

definition bigint_text :: "string \<Rightarrow> int option" where
  "bigint_text t =
     (case signed_literal (trim t) of Some i \<Rightarrow> if pg_int8 i then Some i else None | None \<Rightarrow> None)"

definition or_zero :: "string \<Rightarrow> string" where
  "or_zero t = (if t = [] then ''0'' else t)"

definition handle_fee_updated :: "job_env \<Rightarrow> payload \<Rightarrow> event_db \<Rightarrow> unit result \<times> event_db" where
  "handle_fee_updated e ps s =
     (case (bigint_text (or_zero (ix_read_str ps ''old_fee'')), bigint_text (or_zero (ix_read_str ps ''new_fee''))) of
        (Some a, Some b) \<Rightarrow>
          if length (ix_read_str ps ''updated_by'') > 255 then (Inl query_error, s)
          else (Inr (), s\<lparr>fee_rows := save_row fh_id
            \<lparr>fh_id = new_id e 1, old_fee = a, new_fee = b,
             fh_updated_by = nonempty (Some (ix_read_str ps ''updated_by'')), fh_created_at = clock e\<rparr>
            (fee_rows s)\<rparr>)
      | _ \<Rightarrow> (Inl query_error, s))"

definition handle_address_verified :: "payload \<Rightarrow> event_db \<Rightarrow> unit result \<times> event_db" where
  "handle_address_verified ps s =
     (let a = ix_read_str ps ''address'' in
      if a = [] then (Inr (), s)
      else case event_user a s of
        None \<Rightarrow> (Inr (), s)
      | Some u \<Rightarrow>
          if pg_int4 (reputation_score u + 1)
          then (Inr (), save_event_user (u\<lparr>reputation_score := reputation_score u + 1\<rparr>) s)
          else (Inl query_error, s))"

definition handle_address_unverified :: "payload \<Rightarrow> event_db \<Rightarrow> unit result \<times> event_db" where
  "handle_address_unverified ps s =
     (let a = ix_read_str ps ''address'' in
      if a = [] then (Inr (), s)
      else case event_user a s of
        None \<Rightarrow> (Inr (), s)
      | Some u \<Rightarrow>
          if reputation_score u > 0
          then (Inr (), save_event_user (u\<lparr>reputation_score := max 0 (reputation_score u - 1)\<rparr>) s)
          else (Inr (), s))"

section \<open>Dispatch\<close>

text \<open>\<open>handleWinnersVerified\<close> is not awaited: whether it fails is not seen here.\<close>

definition process_event_by_type :: "job_env \<Rightarrow> string \<Rightarrow> payload \<Rightarrow> event_db \<Rightarrow> unit result \<times> event_db" where
  "process_event_by_type e type ps s =
     (if type = ''EventCreated'' then handle_event_created e ps s
      else if type = ''MatchAdded'' then handle_match_added e ps s
      else if type = ''UserJoinedEvent'' then handle_user_joined e ps s
      else if type = ''PredictionSubmitted'' then handle_prediction_indexed e ps s
      else if type = ''MatchResultSubmitted'' then handle_match_result e ps s
      else if type = ''WinnersVerified'' then (Inr (), snd (notify_winners_verified e ps s))
      else if type = ''EventFinalized'' then handle_event_finalized e ps s
      else if type = ''EventCancelled'' then handle_event_cancelled e ps s
      else if type = ''FeeUpdated'' then handle_fee_updated e ps s
      else if type = ''AddressVerified'' then handle_address_verified ps s
      else if type = ''AddressUnverified'' then handle_address_unverified ps s
      else (Inr (), s))"

section \<open>Lemmas\<close>

lemma find_one_saved: "P r \<Longrightarrow> find_one P (save_row key r t) \<noteq> None"
  using in_save_row [of r key t] by (auto simp: find_one_None)

lemma store_creator_event_Some:
  "store_creator_event x s = Some s' \<longleftrightarrow> creator_event_fits x \<and> s' = save_creator_event x s"
  by (auto simp: store_creator_event_def)

lemma indexed_event_id: "indexed_event e ps n = Some x \<Longrightarrow> on_chain_event_id x = n"
  by (auto simp: indexed_event_def Let_def split: option.splits)

lemma indexed_match_ids:
  "indexed_match e ps k x = Some m \<Longrightarrow> on_chain_match_id m = k \<and> mt_event m = ce_id x"
  by (auto simp: indexed_match_def Let_def split: option.splits if_splits)

lemma recorded_result_ids:
  "recorded_result e ps w m = Some m' \<Longrightarrow>
    mt_id m' = mt_id m \<and> on_chain_match_id m' = on_chain_match_id m \<and> result_submitted m' \<and>
    winning_team m' = Some w \<and> points_multiplier m' = points_multiplier m"
  by (auto simp: recorded_result_def split: option.splits if_splits)

lemma grade_predictions_simps [simp]:
  "event_matches (grade_predictions m s) = event_matches s"
  "creator_events (grade_predictions m s) = creator_events s"
  "e_users (grade_predictions m s) = e_users s"
  "match_predictions (grade_predictions m s) =
     update_rows (\<lambda>p. mp_match p = mt_id m) (grade m) (match_predictions s)"
  by (simp_all add: grade_predictions_def)

lemma grade_keeps [simp]:
  "mp_match (grade m p) = mp_match p" "mp_user (grade m p) = mp_user p"
  "mp_row_id (grade m p) = mp_row_id p" "predicted_home (grade m p) = predicted_home p"
  "predicted_away (grade m p) = predicted_away p"
  "predicted_outcome (grade m p) = predicted_outcome p"
  by (simp_all add: grade_def Let_def)

text \<open>The notifications of a handler leave the lookups of the next one alone.\<close>

lemma only_queues_lookups:
  assumes "only_queues s s'"
  shows "event_by_chain_id n s' = event_by_chain_id n s"
    and "match_by_chain_id k s' = match_by_chain_id k s" and "event_user a s' = event_user a s"
  using only_queues_tables [OF assms]
  by (simp_all add: event_by_chain_id_def match_by_chain_id_def event_user_def)

lemma created_again:
  assumes "handle_event_created e ps s = (Inr (), s')"
  shows "handle_event_created e' ps s' = (Inr (), s')"
proof -
  let ?id = "js_number (get_prop ps ''event_id'')"
  show ?thesis
  proof (cases "js_falsy_num ?id")
    case False
    with assms obtain n where n: "int8_of ?id = Some n"
      by (auto simp: handle_event_created_def Let_def split: option.splits)
    show ?thesis
    proof (cases "event_by_chain_id n s")
      case None
      with assms n False obtain x where x: "indexed_event e ps n = Some x"
        and s': "notify_event_created e ps (save_creator_event x s) = (Inr (), s')"
        by (auto simp: handle_event_created_def Let_def store_creator_event_Some split: option.splits)
      have "only_queues (save_creator_event x s) s'"
        using notify_only_queues(1) [of "save_creator_event x s" e ps] s' by simp
      from only_queues_tables(1) [OF this] have "event_by_chain_id n s' \<noteq> None"
        using indexed_event_id [OF x]
        by (simp add: event_by_chain_id_def find_one_saved del: not_None_eq)
      then show ?thesis using n False by (simp add: handle_event_created_def)
    qed (use assms n False in \<open>auto simp: handle_event_created_def\<close>)
  qed (use assms in \<open>simp add: handle_event_created_def\<close>)
qed

lemma added_again:
  assumes "handle_match_added e ps s = (Inr (), s')"
  shows "handle_match_added e' ps s' = (Inr (), s')"
proof -
  let ?k = "js_number (get_prop ps ''match_id'')" and ?id = "js_number (get_prop ps ''event_id'')"
  consider "js_falsy_num ?k \<or> js_falsy_num ?id"
    | (go) k where "\<not> js_falsy_num ?k" "\<not> js_falsy_num ?id" "int8_of ?k = Some k"
    using assms by (cases "int8_of ?k"; cases "js_falsy_num ?k \<or> js_falsy_num ?id")
      (auto simp: handle_match_added_def)
  then show ?thesis
  proof cases
    case (go k)
    consider y where "match_by_chain_id k s = Some y"
      | (look) n where "match_by_chain_id k s = None" "int8_of ?id = Some n"
      using assms go by (cases "match_by_chain_id k s"; cases "int8_of ?id")
        (auto simp: handle_match_added_def split: if_splits)
    then show ?thesis
    proof cases
      case (look n)
      show ?thesis
      proof (cases "event_by_chain_id n s")
        case (Some x)
        with assms go look obtain m where m: "indexed_match e ps k x = Some m"
          and s': "notify_match_added e ps
            (save_creator_event (x\<lparr>match_count := match_count x + 1\<rparr>) (save_match m s)) = (Inr (), s')"
          by (auto simp: handle_match_added_def Let_def store_creator_event_Some split: option.splits)
        have "only_queues (save_creator_event (x\<lparr>match_count := match_count x + 1\<rparr>) (save_match m s)) s'"
          using notify_only_queues(2) s' by (metis snd_conv)
        from only_queues_tables(2) [OF this] have "match_by_chain_id k s' \<noteq> None"
          using indexed_match_ids [OF m]
          by (simp add: match_by_chain_id_def find_one_saved del: not_None_eq)
        with go show ?thesis by (auto simp: handle_match_added_def)
      qed (use assms go look in \<open>simp add: handle_match_added_def\<close>)
    qed (use assms go in \<open>simp add: handle_match_added_def\<close>)
  qed (use assms in \<open>auto simp: handle_match_added_def\<close>)
qed

lemma predicted_cases:
  assumes "handle_prediction_indexed e ps s = (Inr (), s')"
  obtains (skipped) "s' = s" "handle_prediction_indexed e' ps s = (Inr (), s)"
  | (stored) k m u oc h a where "\<not> js_falsy_num (js_number (get_prop ps ''match_id''))"
      "ix_read_str ps ''predictor'' \<noteq> []" "int8_of (js_number (get_prop ps ''match_id'')) = Some k"
      "match_by_chain_id k s = Some m" "event_user (ix_read_str ps ''predictor'') s = Some u"
      "outcome_of ps = Some oc" "score_column (score_field ps ''predicted_home_score'') = Some h"
      "score_column (score_field ps ''predicted_away_score'') = Some a"
      "notify_prediction_submitted e ps (s\<lparr>match_predictions :=
         save_row mp_row_id (indexed_prediction e m u oc h a) (match_predictions s)\<rparr>) = (Inr (), s')"
proof (cases "js_falsy_num (js_number (get_prop ps ''match_id'')) \<or> ix_read_str ps ''predictor'' = []")
  case True
  then show thesis using assms by (intro skipped) (auto simp: handle_prediction_indexed_def)
next
  case F: False
  then obtain k where k: "int8_of (js_number (get_prop ps ''match_id'')) = Some k"
    using assms by (cases "int8_of (js_number (get_prop ps ''match_id''))")
      (auto simp: handle_prediction_indexed_def)
  show thesis
  proof (cases "\<exists>m u. match_by_chain_id k s = Some m \<and> event_user (ix_read_str ps ''predictor'') s = Some u \<and>
      find_one (\<lambda>p. mp_match p = mt_id m \<and> mp_user p = u_id u) (match_predictions s) = None \<and>
      outcome_of ps \<noteq> None")
    case True
    then obtain m u oc where w: "match_by_chain_id k s = Some m"
      "event_user (ix_read_str ps ''predictor'') s = Some u"
      "find_one (\<lambda>p. mp_match p = mt_id m \<and> mp_user p = u_id u) (match_predictions s) = None"
      "outcome_of ps = Some oc" by blast
    show thesis
      using assms F k w stored [of k m u oc]
      by (cases "score_column (score_field ps ''predicted_home_score'')";
          cases "score_column (score_field ps ''predicted_away_score'')")
        (simp_all add: handle_prediction_indexed_def)
  next
    case False
    then show thesis
      using assms F k
      by (intro skipped; cases "match_by_chain_id k s"; cases "event_user (ix_read_str ps ''predictor'') s";
          cases "outcome_of ps") (auto simp: handle_prediction_indexed_def split: if_splits)
  qed
qed

lemma predicted_again:
  assumes "handle_prediction_indexed e ps s = (Inr (), s')"
  shows "handle_prediction_indexed e' ps s' = (Inr (), s')"
  using assms
proof (cases rule: predicted_cases [of e ps s s' e'])
  case (stored k m u oc h a)
  let ?row = "indexed_prediction e m u oc h a"
  have oq: "only_queues (s\<lparr>match_predictions := save_row mp_row_id ?row (match_predictions s)\<rparr>) s'"
    using notify_only_queues(4) stored(9) by (metis snd_conv)
  have "find_one (\<lambda>p. mp_match p = mt_id m \<and> mp_user p = u_id u) (match_predictions s') \<noteq> None"
    using only_queues_tables(3) [OF oq]
    by (simp add: find_one_saved indexed_prediction_def del: not_None_eq)
  moreover have "match_by_chain_id k s' = Some m"
    "event_user (ix_read_str ps ''predictor'') s' = Some u"
    using only_queues_tables(2,4) [OF oq] stored(4,5)
    by (simp_all add: match_by_chain_id_def event_user_def)
  ultimately show ?thesis using stored(1-3) by (auto simp: handle_prediction_indexed_def)
qed simp

lemma result_cases:
  assumes "handle_match_result e ps s = (Inr (), s')"
  obtains (skipped) "s' = s" "handle_match_result e' ps s = (Inr (), s)"
  | (recorded) k m w m' where "\<not> js_falsy_num (js_number (get_prop ps ''match_id''))"
      "int8_of (js_number (get_prop ps ''match_id'')) = Some k" "match_by_chain_id k s = Some m"
      "\<not> result_submitted m" "winning_team_of (js_number (get_prop ps ''winning_team'')) = Some w"
      "recorded_result e ps w m = Some m'"
      "notify_match_result e ps (grade_predictions m' (save_match m' s)) = (Inr (), s')"
proof (cases "js_falsy_num (js_number (get_prop ps ''match_id''))")
  case True
  then show thesis using assms by (intro skipped) (simp_all add: handle_match_result_def)
next
  case F: False
  then obtain k where k: "int8_of (js_number (get_prop ps ''match_id'')) = Some k"
    using assms by (cases "int8_of (js_number (get_prop ps ''match_id''))")
      (auto simp: handle_match_result_def)
  show thesis
  proof (cases "\<exists>m w. match_by_chain_id k s = Some m \<and> \<not> result_submitted m \<and>
      winning_team_of (js_number (get_prop ps ''winning_team'')) = Some w")
    case True
    then obtain m w where w: "match_by_chain_id k s = Some m" "\<not> result_submitted m"
      "winning_team_of (js_number (get_prop ps ''winning_team'')) = Some w" by blast
    show thesis
      using assms F k w recorded [of k m w]
      by (cases "recorded_result e ps w m") (simp_all add: handle_match_result_def)
  next
    case False
    then show thesis
      using assms F k
      by (intro skipped; cases "match_by_chain_id k s";
          cases "winning_team_of (js_number (get_prop ps ''winning_team''))")
        (auto simp: handle_match_result_def split: if_splits)
  qed
qed

text \<open>The state after a recorded result: the match row, and all its predictions graded.\<close>

lemma recorded_state:
  assumes "keyed mt_id (event_matches s)" and "match_by_chain_id k s = Some m"
    and "recorded_result e ps w m = Some m'"
    and "notify_match_result e ps (grade_predictions m' (save_match m' s)) = (r, s')"
  shows "match_by_chain_id k s' = Some m'"
    and "match_predictions s' =
      update_rows (\<lambda>p. mp_match p = mt_id m) (grade m') (match_predictions s)"
    and "event_matches s' = save_row mt_id m' (event_matches s)"
proof -
  have oq: "only_queues (grade_predictions m' (save_match m' s)) s'"
    using notify_only_queues(5) assms(4) by (metis snd_conv)
  note ids = recorded_result_ids [OF assms(3)]
  show ms: "event_matches s' = save_row mt_id m' (event_matches s)"
    using only_queues_tables(2) [OF oq] by simp
  show "match_predictions s' =
      update_rows (\<lambda>p. mp_match p = mt_id m) (grade m') (match_predictions s)"
    using only_queues_tables(3) [OF oq] ids by simp
  have "on_chain_match_id m' = k"
    using assms(2) ids by (auto simp: match_by_chain_id_def dest: find_one_Some)
  with ms show "match_by_chain_id k s' = Some m'"
    using find_one_save_row [OF assms(1,2) [unfolded match_by_chain_id_def], of m'] ids
    by (simp add: match_by_chain_id_def)
qed

lemma result_again:
  assumes "keyed mt_id (event_matches s)" and "handle_match_result e ps s = (Inr (), s')"
  shows "handle_match_result e' ps s' = (Inr (), s')"
  using assms(2)
proof (cases rule: result_cases [of e ps s s' e'])
  case (recorded k m w m')
  then show ?thesis
    using recorded_state(1) [OF assms(1) recorded(3,6,7)] recorded_result_ids [OF recorded(6)]
    by (simp add: handle_match_result_def)
qed simp

lemma cancelled_again:
  assumes "keyed ce_id (creator_events s)" and "handle_event_cancelled e ps s = (Inr (), s')"
    and "handle_event_cancelled e' ps s' = (r, s'')"
  shows "only_queues s' s''"
proof -
  let ?id = "js_number (get_prop ps ''event_id'')"
  show ?thesis
  proof (cases "\<exists>n x. \<not> js_falsy_num ?id \<and> int8_of ?id = Some n \<and> event_by_chain_id n s = Some x")
    case True
    then obtain n x where n: "\<not> js_falsy_num ?id" "int8_of ?id = Some n"
      and x: "event_by_chain_id n s = Some x" by blast
    let ?x = "x\<lparr>ce_active := False, ce_cancelled := True\<rparr>"
    have "only_queues (save_creator_event ?x s) s'"
      using notify_only_queues(7) [of "save_creator_event ?x s" e ps] n x assms(2)
      by (simp add: handle_event_cancelled_def)
    then have ev: "creator_events s' = save_row ce_id ?x (creator_events s)"
      using only_queues_tables(1) by fastforce
    have "event_by_chain_id n s' = Some ?x"
      using find_one_save_row [OF assms(1) x [unfolded event_by_chain_id_def], of ?x] x ev
      by (auto simp: event_by_chain_id_def dest: find_one_Some)
    moreover have "save_creator_event ?x s' = s'"
      using save_row_same [of ce_id ?x "creator_events s'"] ev
      by (simp add: save_creator_event_def by_id_save_row)
    ultimately show ?thesis
      using notify_only_queues(7) [of s' e' ps] n assms(3)
      by (simp add: handle_event_cancelled_def)
  qed (use assms in \<open>auto simp: handle_event_cancelled_def Let_def split: option.splits if_splits\<close>)
qed

text \<open>
  C13: the five handlers with a guard are idempotent: an event of one of these types that was
  processed without an exception changes no table when it is processed again, whatever the clock
  and the new ids are; at most the participants are notified once more of a cancellation.
\<close>

theorem replayed_event_changes_nothing:
  assumes "type \<in> {''EventCreated'', ''MatchAdded'', ''PredictionSubmitted'', ''MatchResultSubmitted'',
      ''EventCancelled''}"
    and "keyed mt_id (event_matches s)" and "keyed ce_id (creator_events s)"
    and "process_event_by_type e type ps s = (Inr (), s')"
    and "process_event_by_type e' type ps s' = (r, s'')"
  shows "only_queues s' s'' \<and> (type \<noteq> ''EventCancelled'' \<longrightarrow> r = Inr () \<and> s'' = s')"
  using assms created_again [of e ps s s' e'] added_again [of e ps s s' e']
    predicted_again [of e ps s s' e'] result_again [of s e ps s' e']
    cancelled_again [of s e ps s' e' r s'']
  by (auto simp: process_event_by_type_def)

definition sample_creator_event :: creator_event where
  "sample_creator_event =
     \<lparr>ce_id = ''e1'', on_chain_event_id = 7, creator_address = ''GADMIN'', ce_title = ''Cup'',
      ce_description = [], creation_fee_paid = 0, on_chain_created_at = 10, start_time = 10,
      end_time = 500, prize_pool = 100, reward_distribution = [60, 40], entry_fee = 5,
      total_entry_fees_collected = 0, ce_category = ''general'', banner_url = None, ce_active = True,
      ce_cancelled = False, invite_code = None, max_participants = 0, ce_participants = 1,
      match_count = 1, ce_finalized = False, ce_created_at = 10\<rparr>"

definition sample_match :: match_row where
  "sample_match =
     \<lparr>mt_id = ''m1'', on_chain_match_id = 3, mt_event = ''e1'', team_a = ''Reds'', team_b = ''Blues'',
      match_time = 100, result_submitted = False, home_score = None, away_score = None,
      points_multiplier = 2, winning_team = None, submitted_by = None, mt_submitted_at = None,
      mt_created_at = 20\<rparr>"

definition sample_match_prediction :: match_prediction where
  "sample_match_prediction =
     \<lparr>mp_row_id = ''q1'', mp_match = ''m1'', mp_user = ''u1'', predicted_outcome = PoTeamA,
      predicted_home = Some 2, predicted_away = Some 1, points_earned = 0, is_correct = None,
      predicted_at = 50\<rparr>"

definition sample_event_db :: event_db where
  "sample_event_db = empty_event_db\<lparr>creator_events := [sample_creator_event],
     event_matches := [sample_match], match_predictions := [sample_match_prediction]\<rparr>"

lemmas sample_event_defs = sample_event_db_def sample_creator_event_def sample_match_def
  sample_match_prediction_def empty_event_db_def

definition sample_cancel_data :: payload where
  "sample_cancel_data = [(''event_id'', j_int 7)]"

lemma sample_int8: "int8_of (Fin 7) = Some 7" "int8_of (Fin 3) = Some 3"
  by (simp_all add: int8_of_def pg_int8_def)

lemma sample_cancelled:
  "fst (handle_event_cancelled sample_job sample_cancel_data sample_event_db) = Inr ()"
  by (simp add: handle_event_cancelled_def sample_cancel_data_def js_falsy_num_def sample_int8
      event_by_chain_id_def sample_event_defs notify_event_cancelled_def gen_find_event_def
      save_creator_event_def)

theorem replayed_event_changes_nothing_witness:
  "let s' = snd (process_event_by_type sample_job ''EventCancelled'' sample_cancel_data sample_event_db) in
    only_queues s' (snd (process_event_by_type sample_job ''EventCancelled'' sample_cancel_data s'))"
proof -
  let ?p = "process_event_by_type sample_job ''EventCancelled'' sample_cancel_data"
  have "keyed mt_id (event_matches sample_event_db)" "keyed ce_id (creator_events sample_event_db)"
    by (simp_all add: sample_event_defs keyed_def)
  moreover have "?p sample_event_db = (Inr (), snd (?p sample_event_db))"
    using sample_cancelled by (simp add: process_event_by_type_def prod_eq_iff)
  ultimately show ?thesis
    using replayed_event_changes_nothing [of "''EventCancelled''" sample_event_db sample_job
        sample_cancel_data "snd (?p sample_event_db)" sample_job
        "fst (?p (snd (?p sample_event_db)))" "snd (?p (snd (?p sample_event_db)))"]
    by simp
qed

end
