(* ===== verification/IndexerResults.thy ===== *)
theory IndexerResults
  imports Indexer
begin

text \<open>
  What the indexer's handlers establish: the points of the predictions of a match, the result an
  incomplete event leaves, and the payouts of a finalized event.
\<close>

section \<open>Grading\<close>

text \<open>
  A prediction with a scoreline predicts the outcome of that scoreline.  The indexer stores no
  other.
\<close>

definition outcome_fits :: "match_prediction \<Rightarrow> bool" where
  "outcome_fits p \<longleftrightarrow>
     (case (predicted_home p, predicted_away p) of
        (Some h, Some a) \<Rightarrow>
          predicted_outcome p = (if h > a then PoTeamA else if h < a then PoTeamB else PoDraw)
      | _ \<Rightarrow> True)"

lemma score_column_Some:
  "score_column x = Some (Some n) \<Longrightarrow> x = Some (Fin (of_int n))"
  by (cases x) (auto simp: score_column_def int4_of_def split: jsnum.splits if_splits)

lemma indexed_outcome_fits:
  assumes "outcome_of ps = Some oc"
    and "score_column (score_field ps ''predicted_home_score'') = Some h"
    and "score_column (score_field ps ''predicted_away_score'') = Some a"
  shows "outcome_fits (indexed_prediction e m u oc h a)"
proof (cases "\<exists>x y. h = Some x \<and> a = Some y")
  case True
  then obtain x y where "h = Some x" "a = Some y" by blast
  with assms(2,3) have "score_field ps ''predicted_home_score'' = Some (Fin (of_int x))"
    "score_field ps ''predicted_away_score'' = Some (Fin (of_int y))"
    using score_column_Some by auto
  with assms(1) \<open>h = Some x\<close> \<open>a = Some y\<close> show ?thesis
    by (auto simp: outcome_of_def outcome_fits_def indexed_prediction_def jsnum_less_def)
next
  case False
  then show ?thesis by (cases h; cases a) (simp_all add: outcome_fits_def indexed_prediction_def)
qed

lemma handle_prediction_fits:
  assumes "list_all outcome_fits (match_predictions s)"
    and "handle_prediction_indexed e ps s = (Inr (), s')"
  shows "list_all outcome_fits (match_predictions s')"
  using assms(2)
proof (cases rule: predicted_cases [of e ps s s' e])
  case (stored k m u oc h a)
  have "only_queues (s\<lparr>match_predictions :=
      save_row mp_row_id (indexed_prediction e m u oc h a) (match_predictions s)\<rparr>) s'"
    using notify_only_queues(4) stored(9) by (metis snd_conv)
  from only_queues_tables(3) [OF this] show ?thesis
    using assms(1) indexed_outcome_fits [OF stored(6-8)] by (simp add: list_all_save_row)
qed (use assms in simp)

text \<open>The winner of a scoreline, as the contract numbers the teams.\<close>

definition winner_of :: "int \<Rightarrow> int \<Rightarrow> winning_team" where
  "winner_of h a = (if h > a then WtTeamA else if h < a then WtTeamB else WtDraw)"

lemma graded_points:
  assumes "outcome_fits p" and "home_score m = Some h" and "away_score m = Some a"
    and "winning_team m = Some (winner_of h a)" and "1 \<le> points_multiplier m"
  shows "0 \<le> points_earned (grade m p) \<and> points_earned (grade m p) \<le> 4 * points_multiplier m \<and>
    (points_earned (grade m p) = 4 * points_multiplier m \<longleftrightarrow>
      predicted_home p = Some h \<and> predicted_away p = Some a) \<and>
    is_correct (grade m p) = Some (points_earned (grade m p) > 0)"
proof (cases "predicted_home p"; cases "predicted_away p")
  fix ph pa assume "predicted_home p = Some ph" "predicted_away p = Some pa"
  with assms show ?thesis
    by (auto simp: grade_def outcome_fits_def winner_of_def Let_def)
qed (use assms in \<open>auto simp: grade_def winner_of_def Let_def split: predicted_outcome.split\<close>)


definition sample_result_data :: payload where
  "sample_result_data = [(''match_id'', j_int 3), (''winning_team'', j_int 0), (''home_score'', j_int 2),
     (''away_score'', j_int 1), (''submitted_by'', JStr ''GORACLE'')]"

lemma sample_result_handled:
  "fst (handle_match_result sample_job sample_result_data sample_event_db) = Inr ()"
  "match_by_chain_id 3 (snd (handle_match_result sample_job sample_result_data sample_event_db)) =
    Some (sample_match\<lparr>result_submitted := True, winning_team := Some WtTeamA,
      submitted_by := Some ''GORACLE'', mt_submitted_at := Some 1000, home_score := Some 2,
      away_score := Some 1\<rparr>)"
proof -
  let ?m = "sample_match\<lparr>result_submitted := True, winning_team := Some WtTeamA,
      submitted_by := Some ''GORACLE'', mt_submitted_at := Some 1000, home_score := Some 2,
      away_score := Some 1\<rparr>"
  have rec: "recorded_result sample_job sample_result_data WtTeamA sample_match = Some ?m"
    by (simp add: recorded_result_def date_field_def result_score_def sample_result_data_def int4_of_def
        pg_int4_def ix_read_str_def)
  have step: "handle_match_result sample_job sample_result_data sample_event_db =
      notify_match_result sample_job sample_result_data
        (grade_predictions ?m (save_match ?m sample_event_db))"
    using rec by (simp add: handle_match_result_def sample_result_data_def js_falsy_num_def sample_int8
        match_by_chain_id_def sample_event_db_def sample_match_def winning_team_of_def)
  have found: "match_by_chain_id 3 (grade_predictions ?m (save_match ?m sample_event_db)) = Some ?m"
    by (simp add: match_by_chain_id_def sample_event_db_def sample_match_def)
  then show "fst (handle_match_result sample_job sample_result_data sample_event_db) = Inr ()"
    unfolding step
    by (simp add: notify_match_result_def sample_result_data_def js_falsy_num_def sample_int8
        gen_find_match_def)
  show "match_by_chain_id 3 (snd (handle_match_result sample_job sample_result_data sample_event_db)) = Some ?m"
    unfolding step
    using only_queues_lookups(2) [OF notify_only_queues(5)] found by simp
qed


section \<open>A result with fields missing\<close>

text \<open>
  An event without a winner and without scores is recorded as a result.  \<open>extractEventData\<close>
  writes null for a field it cannot read, \<open>Number(null)\<close> is 0, and so the match gets team A as its
  winner, the score 0:0 and its predictions their final grades.
\<close>

theorem incomplete_result_recorded:
  assumes "keyed mt_id (event_matches s)" and "match_by_chain_id k s = Some m"
    and "\<not> result_submitted m" and "pg_int8 k" and "k \<noteq> 0"
    and "ix_read_big_int (spread raw) ''match_id'' = k"
    and "read_num (spread raw) ''winning_team'' = None"
    and "read_num (spread raw) ''home_score'' = None" and "read_num (spread raw) ''away_score'' = None"
    and "read_num (spread raw) ''submitted_at'' = None"
    and "length (ix_read_str (spread raw) ''submitted_by'') \<le> 255"
  shows "map_option (\<lambda>m'. (result_submitted m', winning_team m', home_score m', away_score m'))
      (match_by_chain_id k (snd (process_event_by_type e ''MatchResultSubmitted''
        (extract_event_data ''MatchResultSubmitted'' raw) s))) =
    Some (True, Some WtTeamA, Some 0, Some 0)"
proof -
  let ?ps = "extract_event_data ''MatchResultSubmitted'' raw"
  have field: "get_prop ?ps ''match_id'' = j_dec k" "get_prop ?ps ''winning_team'' = JNull"
    "get_prop ?ps ''home_score'' = JNull" "get_prop ?ps ''away_score'' = JNull"
    "get_prop ?ps ''submitted_at'' = JNull"
    "get_prop ?ps ''submitted_by'' = JStr (ix_read_str (spread raw) ''submitted_by'')"
    using assms(6-10) by (simp_all add: extract_event_data_def Let_def j_num_def)
  then have id: "js_number (get_prop ?ps ''match_id'') = Fin (of_int k)"
    using number_of_show_int [OF assms(4)] by simp
  obtain m' where m': "recorded_result e ?ps WtTeamA m = Some m'"
      "home_score m' = Some 0" "away_score m' = Some 0"
    using field assms(11)
    by (simp add: recorded_result_def date_field_def result_score_def int4_of_def ix_read_str_def
        Let_def)
  obtain r s' where run: "notify_match_result e ?ps (grade_predictions m' (save_match m' s)) = (r, s')"
    by fastforce
  have "process_event_by_type e ''MatchResultSubmitted'' ?ps s = (r, s')"
    using id assms(2-5) field(2) m'(1) run
    by (simp add: process_event_by_type_def handle_match_result_def js_falsy_num_def int8_of_def
        winning_team_of_def)
  with recorded_state(1) [OF assms(1,2) m'(1) run] recorded_result_ids [OF m'(1)] m'(2,3)
  show ?thesis by simp
qed

theorem incomplete_result_recorded_witness:
  "map_option (\<lambda>m'. (result_submitted m', winning_team m', home_score m', away_score m'))
      (match_by_chain_id 3 (snd (process_event_by_type sample_job ''MatchResultSubmitted''
        (extract_event_data ''MatchResultSubmitted'' (JObj [(''match_id'', j_int 3)])) sample_event_db))) =
    Some (True, Some WtTeamA, Some 0, Some 0)"
  by (rule incomplete_result_recorded [of _ _ sample_match])
    (simp_all add: sample_event_defs keyed_def match_by_chain_id_def pg_int8_def spread_def
      ix_read_big_int_def safe_int_def read_num_def ix_to_number_def ix_read_str_def)

section \<open>Payouts of a finalized event\<close>

definition payouts_unique :: "payout list \<Rightarrow> bool" where
  "payouts_unique xs \<longleftrightarrow> distinct (map (\<lambda>p. (po_event p, po_address p)) xs)"

text \<open>An entry of the ranking whose fields its two rows can hold.\<close>

definition payable :: "jsval \<Rightarrow> string option" where
  "payable raw =
     (case raw of
        JObj ps \<Rightarrow>
          (let a = ix_read_str ps ''address'';
               t = (case read_num ps ''total_predictions'' of None \<Rightarrow> 0 | Some x \<Rightarrow> x);
               c = (case read_num ps ''correct_predictions'' of None \<Rightarrow> 0 | Some x \<Rightarrow> x) in
           case read_num ps ''rank'' of
             None \<Rightarrow> None
           | Some r \<Rightarrow>
               if a \<noteq> [] \<and> length a \<le> 255 \<and> int4_of (Fin r) \<noteq> None \<and> int4_of (Fin t) \<noteq> None \<and>
                  int4_of (Fin c) \<noteq> None \<and> \<bar>accuracy_percentage t c\<bar> < 1000 \<and>
                  pg_int8 (read_unsigned ps ''payout_amount'')
               then Some a else None)
      | _ \<Rightarrow> None)"

lemma int4_of_range: "int4_of x = Some n \<Longrightarrow> pg_int4 n"
  by (auto simp: int4_of_def split: jsnum.splits if_splits)

lemma ranked_entry_payable:
  assumes "payable (JObj ps) = Some a" and "read_num ps ''rank'' = Some r"
  shows "\<exists>x. ranked_entry e i ev ps r s = Some x"
proof (cases "find_one (board_key ev (ix_read_str ps ''address'')) (board_entries s)")
  case (Some x)
  then have "be_address x = ix_read_str ps ''address''"
    by (auto simp: board_key_def dest: find_one_Some)
  with Some assms show ?thesis
    by (auto simp: payable_def ranked_entry_def board_entry_fits_def Let_def
        split: if_splits option.splits dest: int4_of_range)
qed (use assms in \<open>auto simp: payable_def ranked_entry_def board_entry_fits_def Let_def
      split: if_splits option.splits dest: int4_of_range\<close>)

definition paid :: "string \<Rightarrow> string \<Rightarrow> event_db \<Rightarrow> bool" where
  "paid ev a s \<longleftrightarrow> find_one (payout_key ev a) (payouts s) \<noteq> None"

definition event_payouts :: "string \<Rightarrow> payout list \<Rightarrow> bool" where
  "event_payouts ev xs \<longleftrightarrow> list_all (\<lambda>p. po_event p = ev \<and> 0 \<le> po_amount p \<and> \<not> po_claimed p) xs"

lemma payout_key_new:
  assumes "payouts_unique xs" and "find_one (payout_key (po_event r) (po_address r)) xs = None"
  shows "payouts_unique (xs @ [r])"
  using assms by (auto simp: payouts_unique_def find_one_None payout_key_def)

lemma process_entry_payouts:
  assumes "new_id e (2 * i + 2) \<notin> po_id ` set (payouts s)"
    and "process_leaderboard_entry e i ev raw s = (r, s')"
  shows "\<exists>news. payouts s' = payouts s @ news \<and> event_payouts ev news \<and>
    list_all (\<lambda>p. po_id p = new_id e (2 * i + 2)) news \<and>
    (payouts_unique (payouts s) \<longrightarrow> payouts_unique (payouts s')) \<and>
    (case payable raw of Some a \<Rightarrow> paid ev a s' | None \<Rightarrow> True) \<and>
    creator_events s' = creator_events s"
proof (cases "\<exists>ps x. raw = JObj ps \<and> ix_read_str ps ''address'' \<noteq> [] \<and>
    (case read_num ps ''rank'' of None \<Rightarrow> False | Some rk \<Rightarrow> ranked_entry e i ev ps rk s = Some x)")
  case False
  have "s' = s \<and> payable raw = None"
  proof (cases raw)
    case (JObj ps)
    show ?thesis
    proof (cases "ix_read_str ps ''address''"; cases "read_num ps ''rank''")
      fix c cs rk
      assume rk: "ix_read_str ps ''address'' = c # cs" "read_num ps ''rank'' = Some rk"
      with False JObj have none: "ranked_entry e i ev ps rk s = None" by auto
      then have "payable raw = None"
        using ranked_entry_payable [OF _ rk(2), of _ e i ev s] JObj by (cases "payable raw") auto
      with none rk JObj assms(2) show ?thesis by (simp add: process_leaderboard_entry_def)
    qed (use assms(2) JObj in \<open>simp_all add: process_leaderboard_entry_def payable_def\<close>)
  qed (use assms(2) in \<open>simp_all add: process_leaderboard_entry_def payable_def\<close>)
  then show ?thesis by (intro exI [of _ "[]"]) (simp add: event_payouts_def)
next
  case True
  then obtain ps rk x where raw: "raw = JObj ps" "ix_read_str ps ''address'' \<noteq> []"
    "read_num ps ''rank'' = Some rk" "ranked_entry e i ev ps rk s = Some x"
    by (auto split: option.splits)
  let ?a = "ix_read_str ps ''address''" and ?m = "read_unsigned ps ''payout_amount''"
  let ?row = "\<lparr>po_id = new_id e (2 * i + 2), po_event = ev, po_address = ?a, po_amount = ?m,
      po_claimed = False, po_entry = be_id x, po_created_at = clock e\<rparr>"
  obtain c cs where a: "?a = c # cs" using raw(2) by (cases ?a) auto
  have m: "0 \<le> ?m" by (simp add: read_unsigned_def Let_def)
  have pay: "payable raw = None \<or> payable raw = Some ?a \<and> pg_int8 ?m"
    using raw by (auto simp: payable_def Let_def)
  show ?thesis
  proof (cases "find_one (payout_key ev ?a) (payouts s) \<noteq> None \<or> \<not> pg_int8 ?m")
    case True
    then have "s' = s\<lparr>board_entries := save_row be_id x (board_entries s)\<rparr>"
      using assms(2) raw a by (auto simp: process_leaderboard_entry_def Let_def)
    then show ?thesis
      using True pay
      by (intro exI [of _ "[]"]) (auto simp: event_payouts_def paid_def split: option.split)
  next
    case False
    then have s': "s' = s\<lparr>board_entries := save_row be_id x (board_entries s),
        payouts := save_row po_id ?row (payouts s)\<rparr>"
      using assms(2) raw a by (auto simp: process_leaderboard_entry_def Let_def)
    then have "payouts s' = payouts s @ [?row]" using assms(1) by (simp add: save_row_fresh)
    then show ?thesis
      using False pay m s' payout_key_new [of "payouts s" ?row]
      by (intro exI [of _ "[?row]"])
        (auto simp: event_payouts_def paid_def find_one_append payout_key_def split: option.split)
  qed
qed

lemma paid_append: "paid ev a s \<Longrightarrow> payouts s' = payouts s @ xs \<Longrightarrow> paid ev a s'"
  by (auto simp: paid_def find_one_append)

lemma process_entries_payouts:
  assumes "inj (new_id e)" and "\<And>j. i \<le> j \<Longrightarrow> new_id e (2 * j + 2) \<notin> po_id ` set (payouts s)"
    and "payouts_unique (payouts s)"
  shows "\<exists>news. payouts (process_entries e i ev raws s) = payouts s @ news \<and> event_payouts ev news \<and>
    payouts_unique (payouts (process_entries e i ev raws s)) \<and>
    list_all (\<lambda>raw. case payable raw of
      Some a \<Rightarrow> paid ev a (process_entries e i ev raws s) | None \<Rightarrow> True) raws \<and>
    creator_events (process_entries e i ev raws s) = creator_events s"
  using assms(2,3)
proof (induction raws arbitrary: i s)
  case Nil
  then show ?case by (intro exI [of _ "[]"]) (simp add: event_payouts_def)
next
  case (Cons raw raws)
  obtain r s1 where step: "process_leaderboard_entry e i ev raw s = (r, s1)" by fastforce
  obtain news where n: "payouts s1 = payouts s @ news" "event_payouts ev news"
      "list_all (\<lambda>p. po_id p = new_id e (2 * i + 2)) news" "payouts_unique (payouts s1)"
      "case payable raw of Some a \<Rightarrow> paid ev a s1 | None \<Rightarrow> True" "creator_events s1 = creator_events s"
    using process_entry_payouts [OF _ step] Cons.prems by blast
  have "new_id e (2 * j + 2) \<notin> po_id ` set (payouts s1)" if "Suc i \<le> j" for j
  proof -
    have "new_id e (2 * j + 2) \<noteq> new_id e (2 * i + 2)" using that assms(1) by (auto simp: inj_eq)
    then show ?thesis using Cons.prems(1) [of j] that n(1,3) by (auto simp: list_all_iff)
  qed
  then obtain more where m: "payouts (process_entries e (Suc i) ev raws s1) = payouts s1 @ more"
      "event_payouts ev more" "payouts_unique (payouts (process_entries e (Suc i) ev raws s1))"
      "list_all (\<lambda>raw. case payable raw of
        Some a \<Rightarrow> paid ev a (process_entries e (Suc i) ev raws s1) | None \<Rightarrow> True) raws"
      "creator_events (process_entries e (Suc i) ev raws s1) = creator_events s1"
    using Cons.IH [of "Suc i" s1] n(4) by blast
  have "case payable raw of Some a \<Rightarrow> paid ev a (process_entries e (Suc i) ev raws s1) | None \<Rightarrow> True"
    using n(5) paid_append [OF _ m(1)] by (auto split: option.split)
  moreover have "process_entries e i ev (raw # raws) s = process_entries e (Suc i) ev raws s1"
    using step by simp
  ultimately show ?case
    using m n by (intro exI [of _ "news @ more"]) (simp only: event_payouts_def, simp)
qed

text \<open>
  C15: the payouts of an event are created once.  Indexing its final ranking keeps one payout per
  event and address, gives every entry whose fields fit its columns a payout of this event,
  unclaimed and not negative, and leaves the payouts that existed; as soon as one exists, no later
  final ranking of the event changes anything, so an entry that failed is never paid.
\<close>

theorem finalized_payouts_once:
  assumes "handle_event_finalized e ps s = (Inr (), s')"
    and "js_number (get_prop ps ''event_id'') = Fin (of_int n)" and "n \<noteq> 0" and "pg_int8 n"
    and "event_by_chain_id n s = Some x" and "count_rows (\<lambda>p. po_event p = show_int n) (payouts s) = 0"
    and "payouts_unique (payouts s)" and "inj (new_id e)"
    and "\<And>j. new_id e j \<notin> po_id ` set (payouts s)"
    and "get_prop ps ''leaderboard'' = JArr board"
  shows "\<exists>news. payouts s' = payouts s @ news \<and> event_payouts (show_int n) news \<and>
    payouts_unique (payouts s') \<and>
    list_all (\<lambda>raw. case payable raw of Some a \<Rightarrow> paid (show_int n) a s' | None \<Rightarrow> True) board \<and>
    (news \<noteq> [] \<and> get_prop ps' ''event_id'' = get_prop ps ''event_id'' \<longrightarrow>
      handle_event_finalized e' ps' s' = (Inr (), s'))"
proof -
  let ?s1 = "if ce_finalized x then s else save_creator_event (x\<lparr>ce_finalized := True\<rparr>) s"
  have id: "\<not> js_falsy_num (Fin (of_int n))" "int8_of (Fin (of_int n)) = Some n"
    using assms(3,4) by (simp_all add: js_falsy_num_def int8_of_def)
  have s': "s' = process_entries e 0 (show_int n) board ?s1"
    using assms(1,2,5,6,10) id by (simp add: handle_event_finalized_def)
  have s1: "payouts ?s1 = payouts s" by simp
  obtain news where news: "payouts s' = payouts s @ news" "event_payouts (show_int n) news"
      "payouts_unique (payouts s')"
      "list_all (\<lambda>raw. case payable raw of Some a \<Rightarrow> paid (show_int n) a s' | None \<Rightarrow> True) board"
      "creator_events s' = creator_events ?s1"
    using process_entries_payouts [OF assms(8), of 0 ?s1 "show_int n" board] assms(7,9)
    unfolding s' s1 by blast
  have "find_one (\<lambda>y. on_chain_event_id y = n) (creator_events s') \<noteq> None"
  proof -
    have "find_one (\<lambda>y. on_chain_event_id y = n) (creator_events s) = Some x" "on_chain_event_id x = n"
      using assms(5) by (auto simp: event_by_chain_id_def dest: find_one_Some)
    then show ?thesis
      unfolding news(5) by (simp add: find_one_saved del: not_None_eq)
  qed
  then obtain y where y: "event_by_chain_id n s' = Some y" by (auto simp: event_by_chain_id_def)
  have "handle_event_finalized e' ps' s' = (Inr (), s')"
    if "news \<noteq> []" "get_prop ps' ''event_id'' = get_prop ps ''event_id''"
  proof -
    have "count_rows (\<lambda>p. po_event p = show_int n) (payouts s') > 0"
      using that(1) news(1,2) by (cases news) (auto simp: event_payouts_def)
    then show ?thesis using that(2) assms(2) id y by (simp add: handle_event_finalized_def)
  qed
  with news show ?thesis by blast
qed

definition sample_final_data :: payload where
  "sample_final_data = [(''event_id'', j_int 7), (''leaderboard'',
     JArr [JObj [(''address'', JStr ''GALICE''), (''rank'', j_int 1), (''payout_amount'', j_int 60)]])]"

theorem finalized_payouts_once_witness:
  "paid ''7'' ''GALICE'' (snd (handle_event_finalized sample_job sample_final_data sample_event_db))"
proof -
  let ?h = "handle_event_finalized sample_job sample_final_data sample_event_db"
  have seven: "show_int 7 = ''7''" by code_simp
  have ok: "?h = (Inr (), snd ?h)"
    by (simp add: prod_eq_iff handle_event_finalized_def sample_final_data_def js_falsy_num_def
        sample_int8 event_by_chain_id_def sample_event_defs)
  have "payable (JObj [(''address'', JStr ''GALICE''), (''rank'', j_int 1), (''payout_amount'', j_int 60)])
      = Some ''GALICE''"
    by (simp add: payable_def ix_read_str_def read_num_def ix_to_number_def int4_of_def pg_int4_def
        accuracy_percentage_def read_unsigned_def ix_read_big_int_def safe_int_def pg_int8_def)
  then show ?thesis
    using finalized_payouts_once [OF ok, of 7 sample_creator_event
        "[JObj [(''address'', JStr ''GALICE''), (''rank'', j_int 1), (''payout_amount'', j_int 60)]]"
        sample_final_data sample_job]
    by (simp add: sample_final_data_def pg_int8_def event_by_chain_id_def sample_event_defs
        payouts_unique_def inj_sample_job [unfolded sample_job_def, simplified] inj_sample_job seven)
qed

end
