(* ===== verification/IndexerLoop.thy ===== *)
theory IndexerLoop
  imports Indexer
begin

text \<open>
  The event table and the poll of the indexer (\<open>backend/src/indexer/indexer.service.ts\<close>) with its
  health report (\<open>indexer/health.service.ts\<close>): storing an event and its outcome, retries and the dead
  letter queue, the checkpoint of the ledger, the listing with a cursor, the metrics.
\<close>

section \<open>Storing and processing one event\<close>

definition dlq_threshold :: int where
  "dlq_threshold = 5"

definition pending_row :: "job_env \<Rightarrow> raw_event \<Rightarrow> int \<Rightarrow> int \<Rightarrow> contract_event" where
  "pending_row e raw l i =
     \<lparr>ct_id = new_id e 0, ct_ledger = l, ct_log_index = i, ct_type = re_type raw,
      ct_data = JObj (re_data raw), ct_tx_hash = re_tx_hash raw, ct_status = EsPending, ct_error = None,
      ct_retries = 0, ct_created_at = clock e, ct_processed_at = None\<rparr>"

definition settled_row :: "timestamp \<Rightarrow> unit result \<Rightarrow> contract_event \<Rightarrow> contract_event" where
  "settled_row t0 r x =
     (case r of
        Inr _ \<Rightarrow> x\<lparr>ct_status := EsProcessed, ct_processed_at := Some t0\<rparr>
      | Inl err \<Rightarrow>
          (let n = ct_retries x + 1 in
           x\<lparr>ct_retries := n, ct_status := (if n \<ge> dlq_threshold then EsDlq else EsFailed),
             ct_error := Some (error_text err)\<rparr>))"

definition store_and_process_event :: "job_env \<Rightarrow> raw_event \<Rightarrow> event_db \<Rightarrow> unit result \<times> event_db" where
  "store_and_process_event e raw s =
     (case (int8_of (Fin (re_ledger raw)), int4_of (Fin (re_log_index raw))) of
        (Some l, Some i) \<Rightarrow>
          (let existing = find_one (event_at l i) (contract_events s) in
           if map_option ct_status existing = Some EsProcessed then (Inr (), s)
           else
             (let row = (case existing of
                    None \<Rightarrow> pending_row e raw l i
                  | Some x \<Rightarrow> x\<lparr>ct_data := JObj (re_data raw), ct_tx_hash := re_tx_hash raw\<rparr>) in
              if \<not> contract_event_fits row then (Inl query_error, s)
              else
                (let s1 = save_contract_event row s;
                     (r, s2) = process_event_by_type e (re_type raw) (re_data raw) s1
                 in (Inr (), save_contract_event (settled_row (clock e) r row) s2))))
      | _ \<Rightarrow> (Inl query_error, s))"

section \<open>Checkpoints\<close>

definition checkpoint_ledger_key :: string where
  "checkpoint_ledger_key = ''indexer:last_processed_ledger''"

definition checkpoint_latest_key :: string where
  "checkpoint_latest_key = ''indexer:latest_contract_ledger''"

definition checkpoint_value :: "string \<Rightarrow> event_db \<Rightarrow> int" where
  "checkpoint_value k s = (case by_id fst k (checkpoints s) of None \<Rightarrow> 0 | Some (_, v) \<Rightarrow> v)"

definition set_checkpoint :: "string \<Rightarrow> int \<Rightarrow> event_db \<Rightarrow> event_db" where
  "set_checkpoint k v s = s\<lparr>checkpoints := save_row fst (k, v) (checkpoints s)\<rparr>"

definition save_checkpoint :: "string \<Rightarrow> rat \<Rightarrow> event_db \<Rightarrow> event_db option" where
  "save_checkpoint k v s = map_option (\<lambda>n. set_checkpoint k n s) (int8_of (Fin v))"

definition ensure_checkpoint :: "string \<Rightarrow> event_db \<Rightarrow> event_db" where
  "ensure_checkpoint k s =
     (if by_id fst k (checkpoints s) = None then set_checkpoint k 0 s else s)"

definition ensure_checkpoints :: "event_db \<Rightarrow> event_db" where
  "ensure_checkpoints s = ensure_checkpoint checkpoint_latest_key (ensure_checkpoint checkpoint_ledger_key s)"

text \<open>
  How the database driver hands over a \<open>bigint\<close> column, which the entity declares as a \<open>number\<close>: as a
  number, or as its decimal text.  With a text, \<open>lastLedger + 1\<close> appends the digit 1.
\<close>

datatype bigint_format = AsNumber | AsText

definition next_ledger :: "bigint_format \<Rightarrow> int \<Rightarrow> rat" where
  "next_ledger fmt last_ledger =
     (case fmt of
        AsNumber \<Rightarrow> max (of_int last_ledger + 1) 1
      | AsText \<Rightarrow>
          (case number_of_text (show_int last_ledger @ ''1'') of
             Fin x \<Rightarrow> max x 1 | _ \<Rightarrow> 1))"

section \<open>The poll\<close>

record indexer =
  ix_db :: event_db
  ix_running :: bool
  events_processed :: nat
  event_timestamps :: "timestamp list"
  last_processed_at :: timestamp
  processing_rate :: rat
  ix_started :: timestamp

definition record_processed_event :: "timestamp \<Rightarrow> indexer \<Rightarrow> indexer" where
  "record_processed_event t0 st =
     st\<lparr>event_timestamps := filter (\<lambda>t. t \<ge> t0 - 60000) (event_timestamps st @ [t0])\<rparr>"

text \<open>\<open>envs i\<close> is the environment in which the \<open>i\<close>-th event of the batch is handled.\<close>

fun process_batch ::
  "(nat \<Rightarrow> job_env) \<Rightarrow> nat \<Rightarrow> raw_event list \<Rightarrow> rat \<Rightarrow> indexer \<Rightarrow> rat \<times> indexer" where
  "process_batch envs i [] m st = (m, st)"
| "process_batch envs i (raw # raws) m st =
     (case store_and_process_event (envs i) raw (ix_db st) of
        (Inl err, s') \<Rightarrow> process_batch envs (Suc i) raws m (st\<lparr>ix_db := s'\<rparr>)
      | (Inr _, s') \<Rightarrow>
          process_batch envs (Suc i) raws (if re_ledger raw > m then re_ledger raw else m)
            (record_processed_event (clock (envs i))
              (st\<lparr>ix_db := s', events_processed := events_processed st + 1\<rparr>)))"

definition sort_events :: "raw_event list \<Rightarrow> raw_event list" where
  "sort_events = sort_key (\<lambda>r. (re_ledger r, re_log_index r))"

definition move_checkpoint :: "string \<Rightarrow> rat \<Rightarrow> event_db \<Rightarrow> event_db" where
  "move_checkpoint contract v s =
     (case int8_of (Fin v) of
        None \<Rightarrow> s
      | Some n \<Rightarrow> advance_checkpoint contract n (set_checkpoint checkpoint_ledger_key n s))"

text \<open>
  \<open>t0\<close> and \<open>t1\<close> are the clock before and after the batch.  A checkpoint that does not fit its column
  throws, which ends the poll.
\<close>

definition poll_body ::
  "bigint_format \<Rightarrow> ix_config \<Rightarrow> string \<Rightarrow> string \<Rightarrow> (rat \<Rightarrow> http_reply) \<Rightarrow> (nat \<Rightarrow> job_env)
    \<Rightarrow> timestamp \<Rightarrow> timestamp \<Rightarrow> indexer \<Rightarrow> indexer" where
  "poll_body fmt cfg contract gen reply envs t0 t1 st =
     (let last = checkpoint_value checkpoint_ledger_key (ix_db st);
          from_ledger = next_ledger fmt last;
          (events, latest) = fetch_events (nonempty (rpc_url cfg) \<noteq> None) from_ledger gen (reply from_ledger);
          moved = (if latest > of_int last then save_checkpoint checkpoint_latest_key latest (ix_db st)
                   else Some (ix_db st)) in
      case moved of
        None \<Rightarrow> st
      | Some s1 \<Rightarrow>
          (let st1 = st\<lparr>ix_db := s1\<rparr> in
           if events = [] then
             (if latest > of_int last then st1\<lparr>ix_db := move_checkpoint contract latest s1\<rparr> else st1)
           else
             (let (m, st2) = process_batch envs 0 (sort_events events) (of_int last) st1;
                  final = max m latest in
              if int8_of (Fin final) = None then st2
              else st2\<lparr>ix_db := move_checkpoint contract final (ix_db st2),
                       processing_rate :=
                         (if t1 - t0 > 0 then round2 (of_nat (length events) / of_int (t1 - t0) * 1000) else 0),
                       last_processed_at := t1\<rparr>)))"

definition poll_contract_events ::
  "bigint_format \<Rightarrow> ix_config \<Rightarrow> string \<Rightarrow> (rat \<Rightarrow> http_reply) \<Rightarrow> (nat \<Rightarrow> job_env)
    \<Rightarrow> timestamp \<Rightarrow> timestamp \<Rightarrow> indexer \<Rightarrow> indexer" where
  "poll_contract_events fmt cfg gen reply envs t0 t1 st =
     (case active_contract cfg of
        None \<Rightarrow> st
      | Some c \<Rightarrow>
          if ix_running st then st
          else (poll_body fmt cfg c gen reply envs t0 t1 (st\<lparr>ix_running := True\<rparr>))\<lparr>ix_running := False\<rparr>)"

definition reindex :: "int \<Rightarrow> event_db \<Rightarrow> event_db" where
  "reindex from_ledger s = set_checkpoint checkpoint_ledger_key (max 0 (from_ledger - 1)) s"

section \<open>Retries and cleanup\<close>

definition max_retries :: int where
  "max_retries = 5"

text \<open>The rows are read once; a retry that fails leaves the row as it is.\<close>

definition retry_event :: "job_env \<Rightarrow> contract_event \<Rightarrow> event_db \<Rightarrow> event_db" where
  "retry_event e x s =
     (if ct_retries x \<ge> max_retries then s
      else
        (case process_event_by_type e (ct_type x) (spread (ct_data x)) s of
           (Inl err, s') \<Rightarrow> s'
         | (Inr _, s') \<Rightarrow>
             save_contract_event
               (x\<lparr>ct_status := EsProcessed, ct_processed_at := Some (clock e), ct_error := None\<rparr>) s'))"

fun retry_loop :: "(nat \<Rightarrow> job_env) \<Rightarrow> nat \<Rightarrow> contract_event list \<Rightarrow> event_db \<Rightarrow> event_db" where
  "retry_loop envs i [] s = s"
| "retry_loop envs i (x # xs) s = retry_loop envs (Suc i) xs (retry_event (envs i) x s)"

definition retry_failed_events :: "(nat \<Rightarrow> job_env) \<Rightarrow> event_db \<Rightarrow> nat \<times> event_db" where
  "retry_failed_events envs s =
     (let failed = filter (\<lambda>x. ct_status x = EsFailed \<or> ct_status x = EsDlq) (contract_events s)
      in (length failed, retry_loop envs 0 failed s))"

definition cleanup_old_events :: "timestamp \<Rightarrow> int \<Rightarrow> event_db \<Rightarrow> nat \<times> event_db" where
  "cleanup_old_events t0 retention_days s =
     (let old = (\<lambda>x. ct_created_at x < t0 - retention_days * 86400000 \<and> ct_status x = EsProcessed)
      in (count_rows old (contract_events s),
          s\<lparr>contract_events := delete_rows old (contract_events s)\<rparr>))"

section \<open>Listing with a cursor\<close>

text \<open>\<open>encode\<close> and \<open>decode\<close> are the two directions of \<open>base64\<close>.\<close>

definition decode_cursor :: "(string \<Rightarrow> string) \<Rightarrow> string option \<Rightarrow> (rat \<times> rat) option" where
  "decode_cursor decode cursor =
     (case nonempty cursor of
        None \<Rightarrow> None
      | Some c \<Rightarrow>
          (case map number_of_text (split_on CHR '':'' (decode c)) of
             Fin l # Fin i # _ \<Rightarrow> Some (l, i)
           | _ \<Rightarrow> None))"

definition event_place :: "contract_event \<Rightarrow> int \<times> int" where
  "event_place x = (ct_ledger x, ct_log_index x)"

definition before_cursor :: "(rat \<times> rat) option \<Rightarrow> contract_event \<Rightarrow> bool" where
  "before_cursor c x =
     (case c of
        None \<Rightarrow> True
      | Some (l, i) \<Rightarrow> of_int (ct_ledger x) < l \<or> (of_int (ct_ledger x) = l \<and> of_int (ct_log_index x) < i))"

definition get_events_paginated ::
  "(string \<Rightarrow> string) \<Rightarrow> (string \<Rightarrow> string) \<Rightarrow> string option \<Rightarrow> nat \<Rightarrow> event_db
    \<Rightarrow> contract_event list \<times> string option \<times> bool" where
  "get_events_paginated encode decode cursor limit s =
     (let rows = take (limit + 1) (sort_desc event_place
                   (filter (before_cursor (decode_cursor decode cursor)) (contract_events s)));
          has_more = length rows > limit;
          page = (if has_more then butlast rows else rows);
          next = (if has_more \<and> page \<noteq> []
                  then Some (encode (show_int (ct_ledger (last page)) @ '':'' @ show_int (ct_log_index (last page))))
                  else None)
      in (page, next, has_more))"

section \<open>Metrics and health\<close>

record indexer_metrics =
  im_rate :: rat
  im_lag :: int
  im_processed :: nat
  im_pending :: nat
  im_failed :: nat
  im_dlq :: nat
  im_last :: int
  im_latest :: int
  im_running :: bool
  im_uptime :: int

definition count_status :: "event_status \<Rightarrow> event_db \<Rightarrow> nat" where
  "count_status st s = count_rows (\<lambda>x. ct_status x = st) (contract_events s)"

definition get_metrics :: "timestamp \<Rightarrow> indexer \<Rightarrow> indexer_metrics" where
  "get_metrics t0 st =
     (let s = ix_db st;
          last = checkpoint_value checkpoint_ledger_key s;
          latest = checkpoint_value checkpoint_latest_key s in
      \<lparr>im_rate = processing_rate st, im_lag = max 0 (latest - last),
       im_processed = count_status EsProcessed s, im_pending = count_status EsPending s,
       im_failed = count_status EsFailed s, im_dlq = count_status EsDlq s,
       im_last = last, im_latest = latest, im_running = ix_running st,
       im_uptime = (t0 - ix_started st) div 1000\<rparr>)"

definition events_per_minute :: "timestamp \<Rightarrow> indexer \<Rightarrow> nat" where
  "events_per_minute t0 st = length (filter (\<lambda>t. t \<ge> t0 - 60000) (event_timestamps st))"

record health_metrics =
  hm_base :: indexer_metrics
  hm_per_minute :: nat
  hm_failed :: nat
  hm_error_rate :: rat
  hm_last_sync :: timestamp

definition build_metrics :: "timestamp \<Rightarrow> indexer \<Rightarrow> health_metrics" where
  "build_metrics t0 st =
     (let b = get_metrics t0 st;
          attempts = im_processed b + im_failed b + im_dlq b in
      \<lparr>hm_base = b, hm_per_minute = events_per_minute t0 st, hm_failed = im_failed b + im_dlq b,
       hm_error_rate =
         (if attempts > 0
          then of_int (math_round (of_nat (im_failed b + im_dlq b) / of_nat attempts * 10000)) / 100 else 0),
       hm_last_sync = last_processed_at st\<rparr>)"

datatype alert = LagHigh | Stale | ErrorRateHigh

fun critical :: "alert \<Rightarrow> bool" where
  "critical LagHigh = True" | "critical Stale = False" | "critical ErrorRateHigh = True"

definition evaluate_alerts :: "timestamp \<Rightarrow> health_metrics \<Rightarrow> alert list" where
  "evaluate_alerts t0 h =
     (if im_lag (hm_base h) > 100 then [LagHigh] else []) @
     (if hm_per_minute h = 0 \<and> rat_of_int (t0 - hm_last_sync h) / 60000 \<ge> 5 then [Stale] else []) @
     (if hm_error_rate h > 5 then [ErrorRateHigh] else [])"

datatype health_status = Healthy | Degraded | Unhealthy

definition resolve_status :: "alert list \<Rightarrow> health_status" where
  "resolve_status alerts =
     (if list_ex critical alerts then Unhealthy else if alerts \<noteq> [] then Degraded else Healthy)"

definition get_health :: "timestamp \<Rightarrow> indexer \<Rightarrow> health_status \<times> health_metrics \<times> alert list" where
  "get_health t0 st =
     (let h = build_metrics t0 st; alerts = evaluate_alerts t0 h in (resolve_status alerts, h, alerts))"

section \<open>The handlers and the event table\<close>

text \<open>No handler reads or writes the event table or the checkpoints.\<close>

definition same_log :: "event_db \<Rightarrow> event_db \<Rightarrow> bool" where
  "same_log s s' \<longleftrightarrow> contract_events s' = contract_events s \<and> checkpoints s' = checkpoints s"

lemma same_log_refl [simp]: "same_log s s"
  by (simp add: same_log_def)

lemma same_log_trans: "same_log s s' \<Longrightarrow> same_log s' s'' \<Longrightarrow> same_log s s''"
  by (simp add: same_log_def)

lemma same_log_queues: "only_queues s s' \<Longrightarrow> same_log s s'"
  using only_queues_tables by (simp add: same_log_def)

lemma same_log_saves [simp]:
  "same_log s (save_creator_event x s)" "same_log s (save_match m s)"
  "same_log s (grade_predictions m s)" "same_log s (save_event_user u s)"
  "same_log s (s\<lparr>match_predictions := ps\<rparr>)" "same_log s (s\<lparr>fee_rows := fs\<rparr>)"
  by (simp_all add: same_log_def grade_predictions_def save_event_user_def)

lemma same_log_notify [simp]:
  "same_log s (snd (notify_event_created e ps s))" "same_log s (snd (notify_match_added e ps s))"
  "same_log s (snd (notify_user_joined e ps s))" "same_log s (snd (notify_prediction_submitted e ps s))"
  "same_log s (snd (notify_match_result e ps s))" "same_log s (snd (notify_winners_verified e ps s))"
  "same_log s (snd (notify_event_cancelled e ps s))"
  by (simp_all add: same_log_queues notify_only_queues)

lemma same_log_entries: "same_log s (process_entries e i ev raws s)"
proof (induction raws arbitrary: i s)
  case (Cons raw raws)
  have "same_log s (snd (process_leaderboard_entry e i ev raw s))"
    by (auto simp: process_leaderboard_entry_def same_log_def Let_def
        split: jsval.split list.split option.split)
  with Cons show ?case by (auto intro: same_log_trans)
qed simp

lemma same_log_created: "same_log s (snd (handle_event_created e ps s))"
  by (auto simp: handle_event_created_def Let_def store_creator_event_def split: option.split
      intro: same_log_trans [OF same_log_saves(1) same_log_notify(1)])

lemma same_log_added: "same_log s (snd (handle_match_added e ps s))"
  by (auto simp: handle_match_added_def Let_def store_creator_event_def split: option.split
      intro: same_log_trans [OF same_log_trans [OF same_log_saves(2) same_log_saves(1)] same_log_notify(2)])

lemma same_log_joined: "same_log s (snd (handle_user_joined e ps s))"
  by (auto simp: handle_user_joined_def Let_def store_creator_event_def split: option.split
      intro: same_log_trans [OF same_log_saves(1) same_log_notify(3)])

lemma same_log_predicted: "same_log s (snd (handle_prediction_indexed e ps s))"
  by (auto simp: handle_prediction_indexed_def Let_def split: option.split
      intro: same_log_trans [OF same_log_saves(5) same_log_notify(4)])

lemma same_log_result: "same_log s (snd (handle_match_result e ps s))"
  by (auto simp: handle_match_result_def Let_def split: option.split
      intro: same_log_trans [OF same_log_trans [OF same_log_saves(2) same_log_saves(3)] same_log_notify(5)])

lemma same_log_finalized: "same_log s (snd (handle_event_finalized e ps s))"
  by (auto simp: handle_event_finalized_def Let_def same_log_entries split: option.split
      intro: same_log_trans [OF same_log_saves(1) same_log_entries])

lemma same_log_cancelled: "same_log s (snd (handle_event_cancelled e ps s))"
  by (auto simp: handle_event_cancelled_def Let_def split: option.split
      intro: same_log_trans [OF same_log_saves(1) same_log_notify(7)])

lemma same_log_others:
  "same_log s (snd (handle_fee_updated e ps s))" "same_log s (snd (handle_address_verified ps s))"
  "same_log s (snd (handle_address_unverified ps s))"
  by (auto simp: handle_fee_updated_def handle_address_verified_def handle_address_unverified_def
      Let_def split: option.split)

lemma same_log_process: "same_log s (snd (process_event_by_type e type ps s))"
  by (simp add: process_event_by_type_def same_log_created same_log_added same_log_joined
      same_log_predicted same_log_result same_log_finalized same_log_cancelled same_log_others)

section \<open>Invariant of the event table\<close>

definition event_row_ok :: "contract_event \<Rightarrow> bool" where
  "event_row_ok x \<longleftrightarrow> 0 \<le> ct_retries x \<and>
     (ct_status x = EsFailed \<longrightarrow> 0 < ct_retries x \<and> ct_retries x < dlq_threshold) \<and>
     (ct_status x = EsDlq \<longrightarrow> dlq_threshold \<le> ct_retries x) \<and>
     (ct_status x = EsProcessed \<longleftrightarrow> ct_processed_at x \<noteq> None)"

definition events_ok :: "event_db \<Rightarrow> bool" where
  "events_ok s \<longleftrightarrow> keyed ct_id (contract_events s) \<and>
     distinct (map event_place (contract_events s)) \<and> list_all event_row_ok (contract_events s)"

lemma events_ok_same_log: "same_log s s' \<Longrightarrow> events_ok s \<Longrightarrow> events_ok s'"
  by (simp add: events_ok_def same_log_def)

lemma distinct_place_save:
  assumes "keyed ct_id t" and "by_id ct_id (ct_id r) t = Some x" and "event_place r = event_place x"
  shows "map event_place (save_row ct_id r t) = map event_place t"
  using map_save_row_same [OF assms(2,3)] .

lemma events_ok_resave:
  assumes "events_ok s" and "by_id ct_id (ct_id r) (contract_events s) = Some x"
    and "event_place r = event_place x" and "event_row_ok r"
  shows "events_ok (save_contract_event r s)"
  using assms map_save_row_same [OF assms(2,3)]
  by (simp add: events_ok_def save_contract_event_def keyed_save_row list_all_save_row)

lemma events_ok_insert:
  assumes "events_ok s" and "ct_id r \<notin> ct_id ` set (contract_events s)"
    and "find_one (event_at (ct_ledger r) (ct_log_index r)) (contract_events s) = None" and "event_row_ok r"
  shows "events_ok (save_contract_event r s)"
  using assms
  by (auto simp: events_ok_def save_contract_event_def save_row_fresh keyed_snoc event_place_def
      find_one_None event_at_def)

lemma settled_row_keeps [simp]:
  "ct_id (settled_row t0 r x) = ct_id x" "event_place (settled_row t0 r x) = event_place x"
  by (simp_all add: settled_row_def event_place_def Let_def split: sum.split)

lemma settled_row_ok: "event_row_ok x \<Longrightarrow> ct_status x \<noteq> EsProcessed \<Longrightarrow> event_row_ok (settled_row t0 r x)"
  by (auto simp: settled_row_def event_row_ok_def Let_def dlq_threshold_def split: sum.split)

lemma store_and_process_ok:
  assumes "events_ok s" and "new_id e 0 \<notin> ct_id ` set (contract_events s)"
  shows "events_ok (snd (store_and_process_event e raw s))"
proof (cases "int8_of (Fin (re_ledger raw))"; cases "int4_of (Fin (re_log_index raw))")
  fix l i
  assume li: "int8_of (Fin (re_ledger raw)) = Some l" "int4_of (Fin (re_log_index raw)) = Some i"
  let ?ex = "find_one (event_at l i) (contract_events s)"
  let ?row = "case ?ex of None \<Rightarrow> pending_row e raw l i
      | Some x \<Rightarrow> x\<lparr>ct_data := JObj (re_data raw), ct_tx_hash := re_tx_hash raw\<rparr>"
  show ?thesis
  proof (cases "map_option ct_status ?ex = Some EsProcessed \<or> \<not> contract_event_fits ?row")
    case True
    then show ?thesis using assms(1) li by (auto simp: store_and_process_event_def Let_def)
  next
    case False
    let ?s1 = "save_contract_event ?row s"
    let ?p = "process_event_by_type e (re_type raw) (re_data raw) ?s1"
    have row: "events_ok ?s1 \<and> event_row_ok ?row \<and> ct_status ?row \<noteq> EsProcessed"
    proof (cases ?ex)
      case None
      have "event_row_ok (pending_row e raw l i)" by (simp add: event_row_ok_def pending_row_def)
      then show ?thesis
        using None assms events_ok_insert [of s "pending_row e raw l i"] by (simp add: pending_row_def)
    next
      case (Some x)
      let ?x = "x\<lparr>ct_data := JObj (re_data raw), ct_tx_hash := re_tx_hash raw\<rparr>"
      have x: "x \<in> set (contract_events s)" using Some by (auto dest: find_one_Some)
      then have ok: "event_row_ok x" using assms(1) by (auto simp: events_ok_def list_all_iff)
      then have "event_row_ok ?x" by (simp add: event_row_ok_def)
      moreover have "by_id ct_id (ct_id ?x) (contract_events s) = Some x"
        using by_id_in [of ct_id "contract_events s" x] x assms(1) by (simp add: events_ok_def)
      ultimately show ?thesis
        using Some False events_ok_resave [OF assms(1), of ?x x] by (simp add: event_place_def)
    qed
    have log: "same_log ?s1 (snd ?p)" by (rule same_log_process)
    have "by_id ct_id (ct_id ?row) (contract_events (snd ?p)) = Some ?row"
      using log by (simp add: same_log_def save_contract_event_def by_id_save_row)
    then have "events_ok (save_contract_event (settled_row (clock e) (fst ?p) ?row) (snd ?p))"
      using row events_ok_same_log [OF log]
      by (intro events_ok_resave [of _ _ ?row] settled_row_ok) simp_all
    moreover have "snd (store_and_process_event e raw s) =
        save_contract_event (settled_row (clock e) (fst ?p) ?row) (snd ?p)"
      using li False by (auto simp: store_and_process_event_def Let_def case_prod_beta)
    ultimately show ?thesis by simp
  qed
qed (use assms in \<open>simp_all add: store_and_process_event_def\<close>)

lemma store_and_process_ids:
  "ct_id ` set (contract_events (snd (store_and_process_event e raw s))) \<subseteq>
    insert (new_id e 0) (ct_id ` set (contract_events s))"
proof (cases "int8_of (Fin (re_ledger raw))"; cases "int4_of (Fin (re_log_index raw))")
  fix l i
  assume li: "int8_of (Fin (re_ledger raw)) = Some l" "int4_of (Fin (re_log_index raw)) = Some i"
  let ?ex = "find_one (event_at l i) (contract_events s)"
  let ?row = "case ?ex of None \<Rightarrow> pending_row e raw l i
      | Some x \<Rightarrow> x\<lparr>ct_data := JObj (re_data raw), ct_tx_hash := re_tx_hash raw\<rparr>"
  have row: "ct_id ?row \<in> insert (new_id e 0) (ct_id ` set (contract_events s))"
    by (auto simp: pending_row_def split: option.split dest: find_one_Some)
  let ?p = "process_event_by_type e (re_type raw) (re_data raw) (save_contract_event ?row s)"
  have "contract_events (snd ?p) = save_row ct_id ?row (contract_events s)"
    using same_log_process [of "save_contract_event ?row s" e "re_type raw" "re_data raw"]
    by (simp add: same_log_def save_contract_event_def)
  then have "ct_id ` set (contract_events (save_contract_event (settled_row (clock e) (fst ?p) ?row) (snd ?p)))
      \<subseteq> insert (new_id e 0) (ct_id ` set (contract_events s))"
    using row by (simp add: save_contract_event_def keys_save_row) blast
  then show ?thesis
    using li by (auto simp: store_and_process_event_def Let_def case_prod_beta)
qed (auto simp: store_and_process_event_def)

lemma move_checkpoint_events [simp]: "contract_events (move_checkpoint c v s) = contract_events s"
  by (simp add: move_checkpoint_def set_checkpoint_def split: option.split)

lemma events_ok_same_events:
  "contract_events s' = contract_events s \<Longrightarrow> events_ok s \<Longrightarrow> events_ok s'"
  by (simp add: events_ok_def)

lemma process_batch_ok:
  assumes "events_ok (ix_db st)" and "inj (\<lambda>j. new_id (envs j) 0)"
    and "\<And>j. i \<le> j \<Longrightarrow> new_id (envs j) 0 \<notin> ct_id ` set (contract_events (ix_db st))"
  shows "events_ok (ix_db (snd (process_batch envs i raws m st)))"
  using assms(1,3)
proof (induction raws arbitrary: i m st)
  case (Cons raw raws)
  obtain r s' where step: "store_and_process_event (envs i) raw (ix_db st) = (r, s')" by fastforce
  have ok: "events_ok s'"
    using store_and_process_ok [OF Cons.prems(1) Cons.prems(2) [of i], of raw] step by simp
  have free: "new_id (envs j) 0 \<notin> ct_id ` set (contract_events s')" if "Suc i \<le> j" for j
  proof -
    have "new_id (envs j) 0 \<noteq> new_id (envs i) 0" using that assms(2) by (auto dest: injD)
    then show ?thesis
      using store_and_process_ids [of "envs i" raw "ix_db st"] step Cons.prems(2) [of j] that by auto
  qed
  show ?case
    using step Cons.IH [of "st\<lparr>ix_db := s'\<rparr>" "Suc i" m] ok free
      Cons.IH [of "record_processed_event (clock (envs i))
        (st\<lparr>ix_db := s', events_processed := events_processed st + 1\<rparr>)" "Suc i"
        "if re_ledger raw > m then re_ledger raw else m"]
    by (cases r) (simp_all add: record_processed_event_def)
qed simp

definition fresh_batch :: "(nat \<Rightarrow> job_env) \<Rightarrow> event_db \<Rightarrow> bool" where
  "fresh_batch envs s \<longleftrightarrow> inj (\<lambda>j. new_id (envs j) 0) \<and>
     (\<forall>j. new_id (envs j) 0 \<notin> ct_id ` set (contract_events s))"

lemma save_checkpoint_events:
  "save_checkpoint k v s = Some s' \<Longrightarrow> contract_events s' = contract_events s"
  by (auto simp: save_checkpoint_def set_checkpoint_def)

lemma poll_body_ok:
  assumes "events_ok (ix_db st)" and "fresh_batch envs (ix_db st)"
  shows "events_ok (ix_db (poll_body fmt cfg c gen reply envs t0 t1 st))"
proof -
  let ?v = "checkpoint_value checkpoint_ledger_key (ix_db st)"
  let ?from = "next_ledger fmt ?v"
  obtain events latest where f: "fetch_events (nonempty (rpc_url cfg) \<noteq> None) ?from gen (reply ?from) =
      (events, latest)" by fastforce
  define moved where "moved = (if latest > of_int ?v
    then save_checkpoint checkpoint_latest_key latest (ix_db st) else Some (ix_db st))"
  show ?thesis
  proof (cases moved)
    case None
    then show ?thesis using f assms(1) by (simp add: poll_body_def moved_def Let_def)
  next
    case (Some s1)
    then have s1: "contract_events s1 = contract_events (ix_db st)"
      by (auto simp: moved_def dest: save_checkpoint_events split: if_splits)
    show ?thesis
    proof (cases "events = []")
      case True
      then show ?thesis
        using f Some s1 assms(1) events_ok_same_events [of _ "ix_db st"]
        by (simp add: poll_body_def moved_def Let_def)
    next
      case False
      obtain m st2 where b: "process_batch envs 0 (sort_events events) (of_int ?v) (st\<lparr>ix_db := s1\<rparr>) = (m, st2)"
        by fastforce
      have "events_ok (ix_db st2)"
        using process_batch_ok [of "st\<lparr>ix_db := s1\<rparr>" envs 0 "sort_events events" "of_int ?v"] b
          assms events_ok_same_events [OF s1] s1 by (simp add: fresh_batch_def)
      then show ?thesis
        using f Some False b events_ok_same_events [of _ "ix_db st2"]
        by (simp add: poll_body_def moved_def Let_def)
    qed
  qed
qed

lemma poll_ok:
  "events_ok (ix_db st) \<Longrightarrow> fresh_batch envs (ix_db st) \<Longrightarrow>
    events_ok (ix_db (poll_contract_events fmt cfg gen reply envs t0 t1 st))"
  by (auto simp: poll_contract_events_def poll_body_ok split: option.split)

section \<open>Retries\<close>

lemma filter_save_row:
  "by_id key (key r) t = Some x \<Longrightarrow> \<not> P x \<Longrightarrow> \<not> P r \<Longrightarrow> filter P (save_row key r t) = filter P t"
  by (induction t) (auto split: if_splits)

lemma retry_loop_facts:
  assumes "events_ok s" and "distinct (map ct_id xs)"
    and "list_all (\<lambda>x. by_id ct_id (ct_id x) (contract_events s) = Some x) xs"
  shows "events_ok (retry_loop envs i xs s) \<and>
    filter (\<lambda>x. ct_status x = EsDlq) (contract_events (retry_loop envs i xs s)) =
      filter (\<lambda>x. ct_status x = EsDlq) (contract_events s)"
  using assms
proof (induction xs arbitrary: i s)
  case (Cons x xs)
  let ?s' = "retry_event (envs i) x s"
  have x: "by_id ct_id (ct_id x) (contract_events s) = Some x" using Cons.prems(3) by simp
  have xok: "event_row_ok x"
    using by_id_Some [OF x] Cons.prems(1) by (auto simp: events_ok_def list_all_iff)
  let ?x = "x\<lparr>ct_status := EsProcessed, ct_processed_at := Some (clock (envs i)), ct_error := None\<rparr>"
  let ?p = "process_event_by_type (envs i) (ct_type x) (spread (ct_data x)) s"
  have log: "same_log s (snd ?p)" by (rule same_log_process)
  have ce: "contract_events (snd ?p) = contract_events s" using log by (simp add: same_log_def)
  have "events_ok ?s' \<and> filter (\<lambda>x. ct_status x = EsDlq) (contract_events ?s') =
      filter (\<lambda>x. ct_status x = EsDlq) (contract_events s) \<and>
      list_all (\<lambda>y. by_id ct_id (ct_id y) (contract_events ?s') = Some y) xs"
  proof (cases "ct_retries x \<ge> max_retries \<or> \<not> is_ok (fst ?p)")
    case True
    then have "contract_events ?s' = contract_events s"
      using ce by (cases ?p; cases "fst ?p") (auto simp: retry_event_def)
    then show ?thesis
      using Cons.prems(1,3) events_ok_same_events [of ?s' s] by simp
  next
    case False
    then have s': "?s' = save_contract_event ?x (snd ?p)"
      by (cases ?p; cases "fst ?p") (auto simp: retry_event_def)
    have "event_row_ok ?x" using xok by (simp add: event_row_ok_def)
    then have ok: "events_ok ?s'"
      using events_ok_resave [of "snd ?p" ?x x] x ce events_ok_same_log [OF log Cons.prems(1)] s'
      by (simp add: event_place_def)
    have "ct_status x \<noteq> EsDlq"
      using False xok by (auto simp: event_row_ok_def max_retries_def dlq_threshold_def)
    then have "filter (\<lambda>x. ct_status x = EsDlq) (contract_events ?s') =
        filter (\<lambda>x. ct_status x = EsDlq) (contract_events s)"
      using filter_save_row [of ct_id ?x "contract_events s" x "\<lambda>x. ct_status x = EsDlq"] x ce
      by (simp add: s' save_contract_event_def)
    moreover have "list_all (\<lambda>y. by_id ct_id (ct_id y) (contract_events ?s') = Some y) xs"
    proof -
      have "by_id ct_id (ct_id y) (contract_events ?s') = Some y" if "y \<in> set xs" for y
      proof -
        have "ct_id y \<noteq> ct_id x" using that Cons.prems(2) by (metis distinct.simps(2) image_eqI list.set_map list.simps(9))
        moreover have "by_id ct_id (ct_id y) (contract_events s) = Some y"
          using that Cons.prems(3) by (simp add: list_all_iff)
        ultimately show ?thesis by (simp add: s' save_contract_event_def by_id_save_row ce)
      qed
      then show ?thesis by (simp add: list_all_iff)
    qed
    ultimately show ?thesis using ok by simp
  qed
  then show ?case using Cons.IH [of ?s' "Suc i"] Cons.prems(2) by simp
qed simp

lemma retry_facts:
  assumes "events_ok s" and "retry_failed_events envs s = (n, s')"
  shows "events_ok s' \<and> n = count_status EsFailed s + count_status EsDlq s \<and>
    filter (\<lambda>x. ct_status x = EsDlq) (contract_events s') =
      filter (\<lambda>x. ct_status x = EsDlq) (contract_events s)"
proof -
  let ?xs = "filter (\<lambda>x. ct_status x = EsFailed \<or> ct_status x = EsDlq) (contract_events s)"
  have k: "keyed ct_id (contract_events s)" using assms(1) by (simp add: events_ok_def)
  then have "distinct (map ct_id ?xs)" by (simp add: keyed_def distinct_map_filter)
  moreover have "list_all (\<lambda>x. by_id ct_id (ct_id x) (contract_events s) = Some x) ?xs"
    using k by (simp add: list_all_iff by_id_in)
  moreover have "length (filter (\<lambda>x. ct_status x = EsFailed \<or> ct_status x = EsDlq) t) =
      count_rows (\<lambda>x. ct_status x = EsFailed) t + count_rows (\<lambda>x. ct_status x = EsDlq) t" for t
    by (induction t) auto
  ultimately show ?thesis
    using retry_loop_facts [OF assms(1), of ?xs envs 0] assms(2)
    by (auto simp: retry_failed_events_def Let_def count_status_def)
qed

text \<open>
  An event in the dead letter queue is never processed again.  \<open>retryFailedEvents\<close> selects those
  rows and counts them in its answer, but skips every row with five failures, which is exactly the
  condition for being there: the queue is the same after any retry.
\<close>

theorem dead_letters_stay:
  assumes "events_ok s" and "retry_failed_events envs s = (n, s')"
  shows "filter (\<lambda>x. ct_status x = EsDlq) (contract_events s') =
      filter (\<lambda>x. ct_status x = EsDlq) (contract_events s) \<and>
    count_status EsDlq s \<le> n \<and> events_ok s'"
  using retry_facts [OF assms] by simp

definition sample_dead_letter :: contract_event where
  "sample_dead_letter =
     \<lparr>ct_id = ''x1'', ct_ledger = 12, ct_log_index = 0, ct_type = ''FeeUpdated'', ct_data = JObj [],
      ct_tx_hash = None, ct_status = EsDlq, ct_error = Some ''QueryFailedError'', ct_retries = 5,
      ct_created_at = 10, ct_processed_at = None\<rparr>"

theorem dead_letters_stay_witness:
  "filter (\<lambda>x. ct_status x = EsDlq) (contract_events (snd (retry_failed_events (\<lambda>i. sample_job)
      (empty_event_db\<lparr>contract_events := [sample_dead_letter]\<rparr>)))) = [sample_dead_letter]"
proof -
  let ?s = "empty_event_db\<lparr>contract_events := [sample_dead_letter]\<rparr>"
  have "events_ok ?s"
    by (simp add: events_ok_def keyed_def event_row_ok_def sample_dead_letter_def dlq_threshold_def)
  from dead_letters_stay [OF this, of "\<lambda>i. sample_job" "fst (retry_failed_events (\<lambda>i. sample_job) ?s)"
      "snd (retry_failed_events (\<lambda>i. sample_job) ?s)"]
  show ?thesis by (simp add: sample_dead_letter_def)
qed

end
