(* ===== verification/IndexerProps.thy ===== *)
theory IndexerProps
  imports IndexerLoop IndexerResults
begin

text \<open>
  What holds of the indexer over time: the invariant of the event table under every job, the events
  a poll does not read, the listing page by page, the joins counted twice.
\<close>

section \<open>The jobs as a step relation\<close>

inductive event_step :: "event_db \<Rightarrow> event_db \<Rightarrow> bool" where
  started: "event_step s (ensure_checkpoints s)"
| polled: "fresh_batch envs (ix_db st) \<Longrightarrow>
    event_step (ix_db st) (ix_db (poll_contract_events fmt cfg gen reply envs t0 t1 st))"
| retried: "event_step s (snd (retry_failed_events envs s))"
| cleaned: "event_step s (snd (cleanup_old_events t0 days s))"
| reindexed: "event_step s (reindex from_ledger s)"
| reconciled: "inj (new_id e) \<Longrightarrow> (\<And>j. new_id e j \<notin> ct_id ` set (contract_events (rc_db st))) \<Longrightarrow>
    event_step (rc_db st) (rc_db (reconcile cfg e head gap st))"

lemma backfill_event_ok:
  assumes "events_ok s" and "new_id e i \<notin> ct_id ` set (contract_events s)"
    and "backfill_event e to_ledger i raw s = Some (k, s')"
  shows "events_ok s' \<and>
    ct_id ` set (contract_events s') \<subseteq> insert (new_id e i) (ct_id ` set (contract_events s))"
proof (cases "s' = s")
  case False
  then obtain ps l idx where s': "s' = save_contract_event (backfill_row e i ps l idx) s"
    and new: "find_one (event_at l idx) (contract_events s) = None"
    using assms(3)
    by (auto simp: backfill_event_def Let_def split: jsval.splits if_splits option.splits)
  have "event_row_ok (backfill_row e i ps l idx)" by (simp add: event_row_ok_def backfill_row_def)
  then have "events_ok s'"
    using events_ok_insert [OF assms(1), of "backfill_row e i ps l idx"] assms(2) new s'
    by (simp add: backfill_row_def)
  then show ?thesis using s' by (simp add: save_contract_event_def keys_save_row backfill_row_def)
qed (use assms in auto)

lemma backfill_loop_ok:
  assumes "inj (new_id e)" and "events_ok s"
    and "\<And>j. i \<le> j \<Longrightarrow> new_id e j \<notin> ct_id ` set (contract_events s)"
  shows "events_ok (snd (backfill_loop e to_ledger i raws n s))"
  using assms(2,3)
proof (induction raws arbitrary: i n s)
  case (Cons raw raws)
  show ?case
  proof (cases "backfill_event e to_ledger i raw s")
    case (Some p)
    obtain k s' where p: "p = (k, s')" by fastforce
    have step: "events_ok s'"
      "ct_id ` set (contract_events s') \<subseteq> insert (new_id e i) (ct_id ` set (contract_events s))"
      using backfill_event_ok [OF Cons.prems(1) Cons.prems(2), of i to_ledger raw k s'] Some p
      by simp_all
    have "new_id e j \<notin> ct_id ` set (contract_events s')" if "Suc i \<le> j" for j
    proof -
      have "new_id e j \<noteq> new_id e i" using that assms(1) by (auto simp: inj_eq)
      with step(2) Cons.prems(2) [of j] that show ?thesis by auto
    qed
    with Cons.IH [of s' "Suc i"] step(1) Some p show ?thesis by simp
  qed (use Cons.prems in simp)
qed simp

lemma reconcile_ok:
  assumes "inj (new_id e)" and "events_ok (rc_db st)"
    and "\<And>j. new_id e j \<notin> ct_id ` set (contract_events (rc_db st))"
  shows "events_ok (rc_db (reconcile cfg e head gap st))"
proof -
  have gap_ok: "events_ok (snd (backfill_gap e t reply s))"
    if "contract_events s = contract_events (rc_db st)" for t reply s
  proof -
    have "events_ok s" using that assms(2) by (simp add: events_ok_def)
    moreover have "new_id e j \<notin> ct_id ` set (contract_events s)" for j using assms(3) that by simp
    ultimately show ?thesis
      using backfill_loop_ok [OF assms(1), of s 0]
      by (auto simp: backfill_gap_def split: http_reply.split option.split jsval.split)
  qed
  have save: "events_ok s \<Longrightarrow> events_ok (save_chain_sync c s)" for c s
    by (simp add: events_ok_def)
  have "events_ok (rc_db (run_reconciliation cfg e head gap c st'))" if "rc_db st' = rc_db st" for c st'
  proof -
    obtain cp s where cp: "get_or_create_checkpoint c (rc_db st') = (cp, s)" by fastforce
    have ev: "contract_events s = contract_events (rc_db st)"
      using get_or_create_facts(4) [OF cp] that by simp
    then have ok: "events_ok s" using assms(2) by (simp add: events_ok_def)
    show ?thesis
      using cp ok save gap_ok [OF ev]
      by (auto simp: run_reconciliation_def Let_def case_prod_beta split: option.split)
  qed
  then show ?thesis using assms(2) by (auto simp: reconcile_def split: option.split)
qed

lemma event_step_ok: "event_step s s' \<Longrightarrow> events_ok s \<Longrightarrow> events_ok s'"
proof (induction rule: event_step.induct)
  case (started s)
  then show ?case
    by (simp add: events_ok_def ensure_checkpoints_def ensure_checkpoint_def set_checkpoint_def)
next
  case (retried s envs)
  then show ?case using retry_facts [of s envs] by (metis prod.collapse)
next
  case (cleaned s t0 days)
  then show ?case
    by (simp add: events_ok_def cleanup_old_events_def keyed_delete_rows Let_def)
      (auto simp: delete_rows_def list_all_iff intro: distinct_map_filter)
next
  case (reindexed s from_ledger)
  then show ?case by (simp add: events_ok_def reindex_def set_checkpoint_def)
next
  case (reconciled e st cfg head gap)
  then show ?case by (intro reconcile_ok) simp_all
qed (rule poll_ok)

lemma event_steps_ok: "event_step\<^sup>*\<^sup>* s s' \<Longrightarrow> events_ok s \<Longrightarrow> events_ok s'"
  by (induction rule: rtranclp_induct) (auto intro: event_step_ok)



section \<open>The ledger the poll asks for\<close>

text \<open>The server refuses a start beyond its newest ledger, and the poll takes that for an empty page.\<close>

definition refused :: "http_reply \<Rightarrow> bool" where
  "refused reply \<longleftrightarrow>
     (case reply of
        Replied _ (Some b) \<Rightarrow> truthy (prop_of b ''error'')
      | _ \<Rightarrow> True)"

lemma fetch_refused: "refused reply \<Longrightarrow> fetch_events conf from_ledger gen reply = ([], from_ledger)"
  by (auto simp: refused_def fetch_events_def split: http_reply.splits option.splits)

lemma next_ledger_cases:
  assumes "pg_int8 v" and "0 \<le> v"
  shows "next_ledger fmt v = of_int (case fmt of AsNumber \<Rightarrow> v + 1 | AsText \<Rightarrow> 10 * v + 1)"
  using assms number_of_appended [OF assms] by (cases fmt) (simp_all add: next_ledger_def)

lemma checkpoint_set [simp]:
  "checkpoint_value k (set_checkpoint k' v s) = (if k = k' then v else checkpoint_value k s)"
  by (simp add: checkpoint_value_def set_checkpoint_def by_id_save_row)

lemma checkpoint_keys [simp]: "checkpoint_latest_key \<noteq> checkpoint_ledger_key"
  by (simp add: checkpoint_latest_key_def checkpoint_ledger_key_def)

lemma checkpoint_advance [simp]:
  "checkpoint_value k (advance_checkpoint c n s) = checkpoint_value k s"
  by (simp add: checkpoint_value_def)

text \<open>A refused poll, from a checkpoint \<open>v\<close>.\<close>

lemma refused_poll:
  assumes "active_contract cfg = Some c" and "\<not> ix_running st"
    and "checkpoint_value checkpoint_ledger_key (ix_db st) = v" and "pg_int8 v" and "0 \<le> v"
    and "refused (reply (next_ledger fmt v))"
  shows "let st' = poll_contract_events fmt cfg gen reply envs t0 t1 st;
      w = (case fmt of AsNumber \<Rightarrow> v + 1 | AsText \<Rightarrow> 10 * v + 1) in
    checkpoint_value checkpoint_ledger_key (ix_db st') = (if pg_int8 w then w else v) \<and>
    contract_events (ix_db st') = contract_events (ix_db st) \<and> \<not> ix_running st'"
proof -
  let ?w = "case fmt of AsNumber \<Rightarrow> v + 1 | AsText \<Rightarrow> 10 * v + 1"
  have asks: "next_ledger fmt v = of_int ?w" by (rule next_ledger_cases [OF assms(4,5)])
  have gt: "v < ?w" using assms(5) by (cases fmt) simp_all
  have i8: "int8_of (Fin (of_int ?w)) = (if pg_int8 ?w then Some ?w else None)"
    by (simp add: int8_of_def)
  show ?thesis
    using assms(1-3,6) fetch_refused [OF assms(6)] asks gt i8
    by (simp add: poll_contract_events_def poll_body_def save_checkpoint_def move_checkpoint_def Let_def)
      (simp add: set_checkpoint_def)
qed

definition poll_all ::
  "bigint_format \<Rightarrow> ix_config \<Rightarrow> (rat \<Rightarrow> http_reply) \<Rightarrow> (string \<times> (nat \<Rightarrow> job_env) \<times> timestamp \<times> timestamp) list
    \<Rightarrow> indexer \<Rightarrow> indexer" where
  "poll_all fmt cfg reply runs st =
     fold (\<lambda>(gen, envs, t0, t1). poll_contract_events fmt cfg gen reply envs t0 t1) runs st"

text \<open>
  C17: the checkpoint runs away from the chain.  When the driver returns a \<open>bigint\<close> column as text, as
  it does, the poll after ledger \<open>v\<close> asks for ledger \<open>10 v + 1\<close>; the server knows no such ledger, and
  the refusal moves the checkpoint there.  However often the indexer then polls, it stores no event
  and its checkpoint stays beyond the chain.  With numbers the first of these polls asks for \<open>v + 1\<close>.
\<close>

theorem text_checkpoint_runs_away:
  assumes "active_contract cfg = Some c" and "\<not> ix_running st"
    and "checkpoint_value checkpoint_ledger_key (ix_db st) = v" and "0 < v"
    and "v \<le> newest" and "newest < 10 * v + 1" and "pg_int8 (10 * v + 1)"
    and "\<And>x. of_int newest < x \<Longrightarrow> refused (reply x)"
  shows "next_ledger AsNumber v = of_int (v + 1) \<and> next_ledger AsText v = of_int (10 * v + 1) \<and>
    (let st' = poll_all AsText cfg reply (run # runs) st in
      newest < checkpoint_value checkpoint_ledger_key (ix_db st') \<and>
      contract_events (ix_db st') = contract_events (ix_db st))"
proof -
  have v8: "pg_int8 v" using assms(4,7) by (auto simp: pg_int8_def)
  have later: "newest < checkpoint_value checkpoint_ledger_key (ix_db (poll_all AsText cfg reply rs st1)) \<and>
      contract_events (ix_db (poll_all AsText cfg reply rs st1)) = contract_events (ix_db st1)"
    if "\<not> ix_running st1" "newest < w" "pg_int8 w"
      "checkpoint_value checkpoint_ledger_key (ix_db st1) = w" for rs st1 w
    using that
  proof (induction rs arbitrary: st1 w)
    case (Cons r rs)
    obtain gen envs t0 t1 where r: "r = (gen, envs, t0, t1)" by (cases r) auto
    let ?st2 = "poll_contract_events AsText cfg gen reply envs t0 t1 st1"
    have w0: "0 \<le> w" using Cons.prems(2) assms(4,5) by simp
    have "of_int newest < next_ledger AsText w"
      using next_ledger_cases [OF Cons.prems(3) w0, of AsText] Cons.prems(2) w0 by simp
    then have "refused (reply (next_ledger AsText w))" by (rule assms(8))
    note step = refused_poll [where reply = reply and fmt = AsText and st = st1 and v = w,
        OF assms(1) Cons.prems(1,4,3) w0 this, of gen envs t0 t1, unfolded Let_def]
    let ?w = "if pg_int8 (10 * w + 1) then 10 * w + 1 else w"
    have "newest < ?w" "pg_int8 ?w" using Cons.prems(2,3) w0 by auto
    then show ?case
      using Cons.IH [of ?st2 ?w] step r by (simp add: poll_all_def)
  qed (simp add: poll_all_def)
  obtain gen envs t0 t1 where run: "run = (gen, envs, t0, t1)" by (cases run) auto
  let ?st1 = "poll_contract_events AsText cfg gen reply envs t0 t1 st"
  have asks: "next_ledger AsText v = of_int (10 * v + 1)" "next_ledger AsNumber v = of_int (v + 1)"
    using next_ledger_cases [OF v8, of AsText] next_ledger_cases [OF v8, of AsNumber] assms(4) by simp_all
  have "refused (reply (next_ledger AsText v))"
    unfolding asks by (rule assms(8)) (use assms(6) in simp)
  note step = refused_poll [where reply = reply and fmt = AsText and st = st and v = v,
      OF assms(1,2,3) v8 _ this, of gen envs t0 t1, unfolded Let_def]
  show ?thesis
    using later [of ?st1 "10 * v + 1" runs] step asks assms(4,6,7) run
    by (simp add: poll_all_def Let_def)
qed

definition sample_indexer :: indexer where
  "sample_indexer = \<lparr>ix_db = empty_event_db\<lparr>checkpoints := [(checkpoint_ledger_key, 120)]\<rparr>,
     ix_running = False, events_processed = 0, event_timestamps = [], last_processed_at = 0,
     processing_rate = 0, ix_started = 0\<rparr>"

definition refusing_server :: "rat \<Rightarrow> http_reply" where
  "refusing_server x = Replied 200 (Some (JObj [(''error'', JObj [(''message'', JStr ''out of range'')])]))"

theorem text_checkpoint_runs_away_witness:
  "130 < checkpoint_value checkpoint_ledger_key (ix_db (poll_all AsText sample_config refusing_server
      [(''g'', (\<lambda>i. sample_job), 0, 1), (''g'', (\<lambda>i. sample_job), 30000, 30001)] sample_indexer))"
  using text_checkpoint_runs_away [of sample_config "''CEVENTS''" sample_indexer 120 130 refusing_server]
  by (simp add: sample_indexer_def checkpoint_value_def pg_int8_def refused_def refusing_server_def
      prop_of_def Let_def)

section \<open>Listing all pages\<close>

text \<open>A client that follows the cursor until there is none.\<close>

fun read_pages ::
  "(string \<Rightarrow> string) \<Rightarrow> (string \<Rightarrow> string) \<Rightarrow> nat \<Rightarrow> nat \<Rightarrow> string option \<Rightarrow> event_db \<Rightarrow> contract_event list" where
  "read_pages encode decode limit 0 cursor s = []"
| "read_pages encode decode limit (Suc n) cursor s =
     (let (page, next_cursor, more) = get_events_paginated encode decode cursor limit s in
      page @ (case next_cursor of
                None \<Rightarrow> []
              | Some c \<Rightarrow> read_pages encode decode limit n (Some c) s))"

lemma colon_show_int: "CHR '':'' \<notin> set (show_int i)"
  using show_nat_digits [of "nat i"] show_nat_digits [of "nat (- i)"]
  by (auto simp: show_int_def list_all_iff dest: digit_not_letter)

lemma decode_place:
  assumes "decode (encode t) = t" and "encode t \<noteq> []" and "t = show_int l @ '':'' @ show_int i"
    and "pg_int8 l" and "pg_int4 i"
  shows "before_cursor (decode_cursor decode (Some (encode t))) x \<longleftrightarrow> event_place x < (l, i)"
proof -
  have "pg_int8 i" using assms(5) by (auto simp: pg_int4_def pg_int8_def)
  then have "map number_of_text (split_on CHR '':'' t) = [Fin (of_int l), Fin (of_int i)]"
    using assms(3,4) colon_show_int
    by (simp add: split_on_append split_on_none number_of_show_int)
  then show ?thesis
    using assms(1,2)
    by (auto simp: decode_cursor_def nonempty_def before_cursor_def event_place_def less_prod_def)
qed

lemma page_after:
  assumes "distinct (map event_place (contract_events s))"
    and "\<And>x. before_cursor (decode_cursor decode cursor) x \<longleftrightarrow>
      (case k of 0 \<Rightarrow> True | Suc j \<Rightarrow> event_place x < event_place (sort_desc event_place (contract_events s) ! j))"
    and "k \<le> length (contract_events s)" and "0 < limit"
  shows "let rest = drop k (sort_desc event_place (contract_events s)) in
    get_events_paginated encode decode cursor limit s =
      (take limit rest,
       if length rest > limit then
         Some (encode (show_int (ct_ledger (rest ! (limit - 1))) @ '':'' @ show_int (ct_log_index (rest ! (limit - 1)))))
       else None, length rest > limit)"
proof -
  let ?L = "sort_desc event_place (contract_events s)"
  have "sorted_wrt (\<lambda>a b. event_place a > event_place b) ?L"
    using assms(1) by (rule strictly_sorted_desc)
  moreover have "before_cursor (decode_cursor decode cursor) =
      (\<lambda>x. case k of 0 \<Rightarrow> True | Suc j \<Rightarrow> event_place x < event_place (?L ! j))"
    by (rule ext) (rule assms(2))
  ultimately have rest: "filter (before_cursor (decode_cursor decode cursor)) ?L = drop k ?L"
    using assms(3) filter_below [of event_place ?L "k - 1"] by (cases k) simp_all
  have page: "butlast (take (Suc limit) xs) = take limit xs" if "limit < length xs" for xs :: "contract_event list"
    using that by (simp add: butlast_take)
  have last: "last (take limit xs) = xs ! (limit - 1)" if "limit < length xs" for xs :: "contract_event list"
    using that assms(4) by (subst last_conv_nth) (auto simp: min_def)
  define xs where "xs = drop k ?L"
  have rows: "(if length xs > limit then butlast (take (limit + 1) xs)
      else take (limit + 1) xs) = take limit xs" "(length (take (limit + 1) xs) > limit) = (length xs > limit)"
    using page [of xs] by auto
  have "get_events_paginated encode decode cursor limit s =
      (take limit xs,
       if length xs > limit \<and> take limit xs \<noteq> [] then
         Some (encode (show_int (ct_ledger (last (take limit xs))) @ '':'' @
           show_int (ct_log_index (last (take limit xs))))) else None, length xs > limit)"
    unfolding get_events_paginated_def sort_desc_filter rest xs_def [symmetric] Let_def rows by (rule refl)
  moreover have "length xs > limit \<Longrightarrow> take limit xs \<noteq> []" using assms(4) by auto
  ultimately show ?thesis
    unfolding xs_def [symmetric] Let_def using last [of xs] by (cases "length xs > limit") simp_all
qed

text \<open>
  Following the cursor from page to page shows every stored event exactly once, newest first,
  whatever the page size, for any encoding of the cursor that can be decoded.
\<close>

theorem event_pages_complete:
  assumes "events_ok s" and "list_all (\<lambda>x. pg_int8 (ct_ledger x) \<and> pg_int4 (ct_log_index x)) (contract_events s)"
    and "\<And>t. decode (encode t) = t" and "\<And>t. encode t = [] \<longleftrightarrow> t = []" and "0 < limit"
    and "length (contract_events s) < n"
  shows "read_pages encode decode limit n None s = sort_desc event_place (contract_events s) \<and>
    set (read_pages encode decode limit n None s) = set (contract_events s) \<and>
    sorted_wrt (\<lambda>a b. event_place a > event_place b) (read_pages encode decode limit n None s)"
proof -
  let ?L = "sort_desc event_place (contract_events s)"
  have d: "distinct (map event_place (contract_events s))" using assms(1) by (simp add: events_ok_def)
  have "read_pages encode decode limit n cursor s = drop k ?L"
    if "length (contract_events s) < n + k" "k \<le> length (contract_events s)"
      "\<And>x. before_cursor (decode_cursor decode cursor) x \<longleftrightarrow>
        (case k of 0 \<Rightarrow> True | Suc j \<Rightarrow> event_place x < event_place (?L ! j))" for cursor k
    using that
  proof (induction n arbitrary: cursor k)
    case (Suc n)
    note page = page_after [OF d Suc.prems(3,2) assms(5), of encode, unfolded Let_def]
    show ?case
    proof (cases "length (drop k ?L) > limit")
      case True
      let ?k = "k + limit"
      let ?x = "?L ! (?k - 1)"
      have x: "drop k ?L ! (limit - 1) = ?x" using True assms(5) by simp
      have "?x \<in> set ?L" using True by (intro nth_mem) auto
      then have range: "pg_int8 (ct_ledger ?x)" "pg_int4 (ct_log_index ?x)"
        using assms(2) by (auto simp: list_all_iff)
      let ?t = "show_int (ct_ledger ?x) @ '':'' @ show_int (ct_log_index ?x)"
      have place: "before_cursor (decode_cursor decode (Some (encode ?t))) y \<longleftrightarrow>
          event_place y < (ct_ledger ?x, ct_log_index ?x)" for y
        by (rule decode_place [where decode = decode and encode = encode and t = ?t,
              OF assms(3) _ refl range]) (simp add: assms(4))
      obtain j where j: "?k = Suc j" using assms(5) by (cases ?k) auto
      have "read_pages encode decode limit n (Some (encode ?t)) s = drop ?k ?L"
      proof (rule Suc.IH)
        show "length (contract_events s) < n + ?k" using Suc.prems(1) assms(5) by simp
        show "?k \<le> length (contract_events s)" using True by simp
        show "before_cursor (decode_cursor decode (Some (encode ?t))) y \<longleftrightarrow>
            (case ?k of 0 \<Rightarrow> True | Suc i \<Rightarrow> event_place y < event_place (?L ! i))" for y
          using place [of y] j by (simp add: event_place_def [of "?L ! j"])
      qed
      moreover have "take limit (drop k ?L) @ drop ?k ?L = drop k ?L"
        using append_take_drop_id [of limit "drop k ?L"] by (simp add: add.commute)
      ultimately show ?thesis using True page unfolding x by simp
    next
      case False
      then show ?thesis using page by simp
    qed
  qed simp
  from this [of 0 None] assms(6)
  have "read_pages encode decode limit n None s = ?L"
    by (simp add: decode_cursor_def nonempty_def before_cursor_def)
  then show ?thesis using strictly_sorted_desc [OF d] by simp
qed

theorem event_pages_complete_witness:
  "read_pages id id 1 3 None (empty_event_db\<lparr>contract_events :=
      [sample_dead_letter, sample_dead_letter\<lparr>ct_id := ''x2'', ct_ledger := 13\<rparr>]\<rparr>) =
    [sample_dead_letter\<lparr>ct_id := ''x2'', ct_ledger := 13\<rparr>, sample_dead_letter]"
proof -
  let ?s = "empty_event_db\<lparr>contract_events :=
      [sample_dead_letter, sample_dead_letter\<lparr>ct_id := ''x2'', ct_ledger := 13\<rparr>]\<rparr>"
  have "events_ok ?s"
    by (simp add: events_ok_def keyed_def event_row_ok_def sample_dead_letter_def dlq_threshold_def
        event_place_def)
  moreover have "list_all (\<lambda>x. pg_int8 (ct_ledger x) \<and> pg_int4 (ct_log_index x)) (contract_events ?s)"
    by (simp add: sample_dead_letter_def pg_int8_def pg_int4_def)
  ultimately show ?thesis
    using event_pages_complete [of ?s id id 1 3]
    by (simp add: sample_dead_letter_def event_place_def less_eq_prod_def)
qed

section \<open>Joins after a reindex\<close>

lemma joined_stored:
  assumes "handle_user_joined e ps s = (r, s')" and "js_number (get_prop ps ''event_id'') = Fin (of_int n)"
    and "n \<noteq> 0" and "pg_int8 n" and "ix_read_str ps ''user_address'' \<noteq> []"
    and "keyed ce_id (creator_events s)" and "event_by_chain_id n s = Some x"
    and "creator_event_fits (joined_event (read_unsigned ps ''entry_fee_paid'') x)"
  shows "event_by_chain_id n s' = Some (joined_event (read_unsigned ps ''entry_fee_paid'') x)"
    and "keyed ce_id (creator_events s')"
proof -
  let ?y = "joined_event (read_unsigned ps ''entry_fee_paid'') x"
  have y: "ce_id ?y = ce_id x" "on_chain_event_id ?y = on_chain_event_id x"
    by (simp_all add: joined_event_def Let_def)
  have x: "on_chain_event_id x = n"
    using assms(7) by (auto simp: event_by_chain_id_def dest: find_one_Some)
  have "notify_user_joined e ps (save_creator_event ?y s) = (r, s')"
    using assms(1-5,7,8) by (simp add: handle_user_joined_def js_falsy_num_def int8_of_def
        store_creator_event_def)
  then have "only_queues (save_creator_event ?y s) s'"
    using notify_only_queues(3) by (metis snd_conv)
  from only_queues_tables(1) [OF this]
  have ev: "creator_events s' = save_row ce_id ?y (creator_events s)" by simp
  then show "event_by_chain_id n s' = Some ?y"
    using find_one_save_row [OF assms(6) assms(7) [unfolded event_by_chain_id_def], of ?y] x y
    by (simp add: event_by_chain_id_def)
  show "keyed ce_id (creator_events s')" using ev assms(6) by (simp add: keyed_save_row)
qed

text \<open>
  A join is counted once for every place at which its event is stored.  The server's events carry
  no index of their own, so the index is the position in the fetched page; read again from another
  ledger, as after a reindex, the same event has another position, is stored a second time, and the
  participant and the entry fee are added again.
\<close>

theorem rejoined_after_reindex:
  assumes "re_type raw = ''UserJoinedEvent''" and "js_number (get_prop (re_data raw) ''event_id'') = Fin (of_int n)"
    and "n \<noteq> 0" and "pg_int8 n" and "ix_read_str (re_data raw) ''user_address'' \<noteq> []"
    and "keyed ce_id (creator_events s)" and "event_by_chain_id n s = Some x"
    and "creator_event_fits (joined_event fee x)" and "creator_event_fits (joined_event fee (joined_event fee x))"
    and "fee = read_unsigned (re_data raw) ''entry_fee_paid''"
    and "int8_of (Fin (re_ledger raw)) = Some l" and "int4_of (Fin (re_log_index raw)) = Some i"
    and "int4_of (Fin other) = Some j" and "i \<noteq> j"
    and "contract_event_fits (pending_row e raw l i)"
    and "find_one (event_at l i) (contract_events s) = None"
    and "find_one (event_at l j) (contract_events s) = None"
    and "new_id e 0 \<notin> ct_id ` set (contract_events s)"
    and "store_and_process_event e raw s = (r1, s1)"
    and "store_and_process_event e' (raw\<lparr>re_log_index := other\<rparr>) s1 = (r2, s2)"
  shows "event_by_chain_id n s2 = Some (joined_event fee (joined_event fee x)) \<and>
    ce_participants (joined_event fee (joined_event fee x)) = ce_participants x + 2"
proof -
  let ?ps = "re_data raw"
  have fits: "contract_event_fits (pending_row e' (raw\<lparr>re_log_index := other\<rparr>) l j)"
    using assms(15) by (simp add: contract_event_fits_def pending_row_def)
  define t1 where "t1 = save_contract_event (pending_row e raw l i) s"
  obtain r u1 where u1: "handle_user_joined e ?ps t1 = (r, u1)" by fastforce
  have t1: "creator_events t1 = creator_events s" "event_by_chain_id n t1 = Some x"
    using assms(7) by (simp_all add: t1_def save_contract_event_def event_by_chain_id_def)
  note first = joined_stored [OF u1 assms(2-5)]
  have e1: "event_by_chain_id n u1 = Some (joined_event fee x)" "keyed ce_id (creator_events u1)"
    using first assms(6,8,10) t1 by simp_all
  have s1: "s1 = save_contract_event (settled_row (clock e) r (pending_row e raw l i)) u1"
    using assms(1,11,12,15,16,19) u1
    by (simp add: store_and_process_event_def process_event_by_type_def t1_def)
  have "contract_events u1 = contract_events s @ [pending_row e raw l i]"
    using same_log_joined [of t1 e ?ps] u1 assms(18)
    by (simp add: same_log_def t1_def save_contract_event_def save_row_fresh pending_row_def)
  then have ev1: "contract_events s1 = contract_events s @ [settled_row (clock e) r (pending_row e raw l i)]"
    using assms(18) by (simp add: s1 save_contract_event_def save_row_last pending_row_def)
  have "event_place (settled_row (clock e) r (pending_row e raw l i)) = (l, i)"
    unfolding settled_row_keeps by (simp add: event_place_def pending_row_def)
  then have none: "find_one (event_at l j) (contract_events s1) = None"
    using assms(14,17) by (simp add: ev1 find_one_append event_at_def event_place_def)
  define t2 where "t2 = save_contract_event (pending_row e' (raw\<lparr>re_log_index := other\<rparr>) l j) s1"
  obtain r' u2 where u2: "handle_user_joined e' ?ps t2 = (r', u2)" by fastforce
  have t2: "creator_events t2 = creator_events u1" "event_by_chain_id n t2 = Some (joined_event fee x)"
    using e1(1) by (simp_all add: t2_def s1 save_contract_event_def event_by_chain_id_def)
  have "event_by_chain_id n u2 = Some (joined_event fee (joined_event fee x))"
    using joined_stored(1) [OF u2 assms(2-5)] assms(9,10) t2 e1(2) by simp
  moreover have "event_by_chain_id n s2 = event_by_chain_id n u2"
    using assms(1,11,13,20) fits none u2
    by (auto simp: store_and_process_event_def process_event_by_type_def t2_def save_contract_event_def
        event_by_chain_id_def Let_def)
  ultimately show ?thesis by (simp add: joined_event_def Let_def)
qed

definition sample_join :: raw_event where
  "sample_join = \<lparr>re_id = ''ev'', re_ledger = 40, re_log_index = 1, re_type = ''UserJoinedEvent'',
     re_data = [(''event_id'', j_int 7), (''user_address'', JStr ''GALICE''), (''entry_fee_paid'', j_int 5)],
     re_tx_hash = None\<rparr>"

theorem rejoined_after_reindex_witness:
  "let s1 = snd (store_and_process_event sample_job sample_join sample_event_db);
       s2 = snd (store_and_process_event sample_job (sample_join\<lparr>re_log_index := 0\<rparr>) s1) in
    map_option (\<lambda>x. (ce_participants x, prize_pool x)) (event_by_chain_id 7 s2) = Some (3, 110)"
proof -
  let ?s1 = "store_and_process_event sample_job sample_join sample_event_db"
  let ?s2 = "store_and_process_event sample_job (sample_join\<lparr>re_log_index := 0\<rparr>) (snd ?s1)"
  have "event_by_chain_id 7 (snd ?s2) = Some (joined_event 5 (joined_event 5 sample_creator_event)) \<and>
    ce_participants (joined_event 5 (joined_event 5 sample_creator_event)) = ce_participants sample_creator_event + 2"
    by (rule rejoined_after_reindex [of sample_join 7 sample_event_db _ 5 40 1 0 0 sample_job "fst ?s1" "snd ?s1"
          sample_job "fst ?s2"])
      (simp_all add: sample_join_def sample_event_defs keyed_def event_by_chain_id_def pg_int8_def
        pg_int4_def creator_event_fits_def joined_event_def ix_read_str_def read_unsigned_def
        ix_read_big_int_def safe_int_def int8_of_def int4_of_def contract_event_fits_def pending_row_def)
  then show ?thesis by (simp add: Let_def joined_event_def sample_creator_event_def)
qed

end
