(* ===== verification/SortFacts.thy ===== *)
theory SortFacts
  imports Store "HOL-Library.Multiset"
begin

text \<open>
  Sorting and paging as multisets of rows, and saving several changed rows of one table.
\<close>

lemma mset_insert_desc: "mset (insert_desc f x xs) = add_mset x (mset xs)"
  by (induction xs) auto

lemma mset_sort_desc: "mset (sort_desc f xs) = mset xs"
  by (induction xs) (simp_all add: mset_insert_desc)

text \<open>Saving changed versions of some rows of a table changes exactly these rows.\<close>

lemma fold_save_changed:
  assumes "keyed key t" and "distinct xs" and "set xs \<subseteq> set t" and "\<And>x. key (f x) = key x"
  shows "fold (save_row key) (map f xs) t = map (\<lambda>y. if y \<in> set xs then f y else y) t"
  using assms(2,3)
proof (induction xs rule: rev_induct)
  case (snoc x xs)
  let ?t = "map (\<lambda>y. if y \<in> set xs then f y else y) t"
  have keys: "map key ?t = map key t" by (rule nth_equalityI) (simp_all add: assms(4))
  have x: "x \<in> set t" "x \<notin> set xs" using snoc.prems by simp_all
  have one: "y = x" if "y \<in> set t" "key y = key x" for y
    using by_id_in [OF assms(1) that(1)] by_id_in [OF assms(1) x(1)] that(2) by (metis option.inject)
  have "key (f x) \<in> set (map key ?t)" unfolding keys using x(1) by (simp add: assms(4))
  then have "key (f x) \<in> key ` set ?t" by (simp only: list.set_map)
  moreover have "keyed key ?t" using assms(1) unfolding keyed_def keys .
  ultimately have "save_row key (f x) ?t = map (\<lambda>z. if key z = key (f x) then f x else z) ?t"
    by (intro save_row_map_eq)
  also have "\<dots> = map (\<lambda>y. if y \<in> set (xs @ [x]) then f y else y) t"
    using one by (auto simp: assms(4))
  finally show ?case using snoc by simp
qed simp

text \<open>Going through enough pages of a list shows it once.\<close>

lemma all_pages:
  assumes "0 < limit" and "length xs \<le> k"
  shows "concat (map (\<lambda>p. page_of p limit xs) [1..<Suc k]) = xs"
proof -
  have "length xs \<le> k * limit" using assms by (metis One_nat_def Suc_leI le_trans mult.right_neutral mult_le_mono2)
  then show ?thesis by (subst pages_tile) simp
qed

end
