(* ===== verification/Platform.thy ===== *)
theory Platform
  imports Predictions Listener Disputes Flags Seasons
begin

text \<open>
  The market side as a whole: every request of \<open>MarketsService\<close>, \<open>PredictionsService\<close>,
  \<open>DisputesService\<close>, \<open>FlagsService\<close> and \<open>SeasonsService\<close> that changes state, the deferred dispute
  tasks and the events of the listener as one step relation over the shared tables, and what all of
  them keep: the books of the markets.
\<close>

section \<open>Steps\<close>

text \<open>
  \<open>submit\<close> takes two steps, because the chain is asked in between: \<open>stake\<close> is the transaction of any
  submission that was checked before, in whatever state the requests in between left.  The ids the
  database generates are new.
\<close>

inductive service_step :: "db \<Rightarrow> db \<Rightarrow> bool" where
  create_one: "create_market sor e dto user s = (r, s') \<Longrightarrow> fresh e 0 \<notin> m_id ` set (markets s) \<Longrightarrow>
     service_step s s'"
| create_many: "create_bulk sors e dtos user s = (rs, s') \<Longrightarrow> fresh_market_ids e s \<Longrightarrow> service_step s s'"
| update: "update_market e ref uid up s = (r, s') \<Longrightarrow> service_step s s'"
| resolve: "resolve_market sor e ref out s = (r, s') \<Longrightarrow> service_step s s'"
| cancel: "cancel_market sor e ref user s = (r, s') \<Longrightarrow> service_step s s'"
| pause: "pause_market sor ref user s = (r, s') \<Longrightarrow> service_step s s'"
| resume: "resume_market sor e ref user s = (r, s') \<Longrightarrow> service_step s s'"
| read_stats: "get_prediction_stats t ref s = (st, s') \<Longrightarrow> service_step s s'"
| read_trending: "get_trending_markets t page limit s = (tr, s') \<Longrightarrow> service_step s s'"
| comment: "create_comment e ref text parent user s = (c, s') \<Longrightarrow> service_step s s'"
| bookmark: "add_bookmark e ref user s = (b, s') \<Longrightarrow> service_step s s'"
| unmark: "remove_bookmark ref user s = (u, s') \<Longrightarrow> service_step s s'"
| validate: "submit_validate sor e sp user s = (v, s') \<Longrightarrow> service_step s s'"
| stake: "submit_persist e ps s = (p, s') \<Longrightarrow> fresh e 0 \<notin> p_id ` set (predictions s) \<Longrightarrow>
     service_step s s'"
| annotate: "update_note pid text user s = (p, s') \<Longrightarrow> service_step s s'"
| payout: "claim sor pid user s = (p, s') \<Longrightarrow> service_step s s'"
| dispute: "create_dispute e mid reason user s = (d, ts, s') \<Longrightarrow> service_step s s'"
| settle_dispute: "resolve_dispute e did res notes user s = (d, ts, s') \<Longrightarrow> service_step s s'"
| run_recording: "run_task sor tk s = s' \<Longrightarrow> service_step s s'"
| report: "create_flag e uid fdto s = (f, s') \<Longrightarrow> service_step s s'"
| settle_flag: "resolve_flag e fid action notes uid s = (f, s') \<Longrightarrow> service_step s s'"
| open_season: "create_season sor e sdto s = (x, s') \<Longrightarrow> service_step s s'"
| close_season: "finalize_season update_ok notify_ok sid s = (x, s') \<Longrightarrow> service_step s s'"

text \<open>
  With the events the listener stores.  An event whose handler fails half way (the pool leaves its
  column after the prediction was saved) is not a step: it does leave a stake outside the pool.
\<close>

inductive platform_step :: "db \<Rightarrow> db \<Rightarrow> bool" where
  request: "service_step s s' \<Longrightarrow> platform_step s s'"
| event: "process_event e ev s = (Inr (), s') \<Longrightarrow> fresh_event e ev s \<Longrightarrow> platform_step s s'"

section \<open>The books\<close>

text \<open>The columns the books consist of; most operations leave all of them alone.\<close>

definition market_line :: "market \<Rightarrow> uuid \<times> int \<times> stroops" where
  "market_line m = (m_id m, participant_count m, total_pool_stroops m)"

definition stake_line :: "prediction \<Rightarrow> uuid \<times> uuid \<times> uuid \<times> stroops" where
  "stake_line p = (p_id p, p_user p, p_market p, stake_amount_stroops p)"

definition user_line :: "user \<Rightarrow> uuid \<times> int \<times> stroops" where
  "user_line u = (u_id u, total_predictions u, total_staked_stroops u)"

definition same_books :: "db \<Rightarrow> db \<Rightarrow> bool" where
  "same_books s s' \<longleftrightarrow>
     map market_line (markets s') = map market_line (markets s) \<and>
     map stake_line (predictions s') = map stake_line (predictions s) \<and>
     map user_line (users s') = map user_line (users s)"

lemma same_books_tables [intro]:
  "markets s' = markets s \<Longrightarrow> predictions s' = predictions s \<Longrightarrow> users s' = users s \<Longrightarrow> same_books s s'"
  by (simp add: same_books_def)

text \<open>A list property of the rows that only reads the columns in the book.\<close>

lemma line_cong:
  assumes "map f xs = map f ys" and "\<And>x y. f x = f y \<Longrightarrow> g x = g y"
  shows "map g xs = map g ys"
proof -
  have "list_all2 (\<lambda>x y. f x = f y) xs ys"
    using assms(1) by (simp add: list_all2_conv_all_nth list_eq_iff_nth_eq)
  then have "list_all2 (\<lambda>x y. g x = g y) xs ys" by (rule list_all2_mono) (rule assms(2))
  then show ?thesis by (simp add: list_all2_conv_all_nth list_eq_iff_nth_eq)
qed

lemma line_list_all:
  assumes "map f xs = map f ys" and "\<And>x y. f x = f y \<Longrightarrow> P x = Q y"
  shows "list_all P xs = list_all Q ys"
proof -
  have "list_all2 (\<lambda>x y. f x = f y) xs ys"
    using assms(1) by (simp add: list_all2_conv_all_nth list_eq_iff_nth_eq)
  then have "list_all2 (\<lambda>x y. P x = Q y) xs ys" by (rule list_all2_mono) (rule assms(2))
  then show ?thesis by (auto simp: list_all2_conv_all_nth list_all_length)
qed

section \<open>The abstract specification\<close>

text \<open>
  A market is an account: the list of the stakes in it, each with its owner.  Accounts are opened
  empty and only grow, by one stake per user; nothing else ever happens to them.
\<close>

type_synonym pools = "uuid \<rightharpoonup> (uuid \<times> stroops) list"

inductive pool_step :: "pools \<Rightarrow> pools \<Rightarrow> bool" where
  open_pool: "k \<notin> dom a \<Longrightarrow> pool_step a (a(k \<mapsto> []))"
| add_stake: "a k = Some xs \<Longrightarrow> u \<notin> fst ` set xs \<Longrightarrow> pool_step a (a(k \<mapsto> xs @ [(u, x)]))"

definition stakes_in :: "uuid \<Rightarrow> prediction list \<Rightarrow> (uuid \<times> stroops) list" where
  "stakes_in k ps = map (\<lambda>p. (p_user p, stake_amount_stroops p)) (filter (\<lambda>p. p_market p = k) ps)"

definition pools_of :: "db \<Rightarrow> pools" where
  "pools_of s k = (if k \<in> m_id ` set (markets s) then Some (stakes_in k (predictions s)) else None)"

text \<open>What the abstract machine guarantees of a stake: it stays where it is, in its place.\<close>

lemma pool_steps_prefix:
  assumes "pool_step\<^sup>*\<^sup>* a b" and "a k = Some xs"
  shows "\<exists>ys. b k = Some (xs @ ys)"
  using assms(1)
proof (induction rule: rtranclp_induct)
  case base
  then show ?case using assms(2) by simp
next
  case (step b c)
  then obtain ys where ys: "b k = Some (xs @ ys)" by blast
  from step.hyps(2) show ?case
    by (cases rule: pool_step.cases) (use ys in \<open>auto simp: dom_def\<close>)
qed

lemma pool_steps_once:
  assumes "pool_step\<^sup>*\<^sup>* a b" and "\<And>k xs. a k = Some xs \<Longrightarrow> distinct (map fst xs)"
    and "b k = Some xs"
  shows "distinct (map fst xs)"
  using assms(1,3)
proof (induction arbitrary: k xs rule: rtranclp_induct)
  case base
  then show ?case using assms(2) by simp
next
  case (step b c)
  from step.hyps(2) show ?case
    by (cases rule: pool_step.cases) (use step in \<open>auto split: if_splits\<close>)
qed

section \<open>Every step does what the specification allows\<close>

lemma same_books_parts:
  assumes "same_books s s'"
  shows "map m_id (markets s') = map m_id (markets s)" and "map u_id (users s') = map u_id (users s)"
    and "map p_id (predictions s') = map p_id (predictions s)"
    and "map ledger_view (predictions s') = map ledger_view (predictions s)"
  using assms unfolding same_books_def market_line_def user_line_def stake_line_def ledger_view_def
  by (auto elim!: line_cong)

lemma stakes_in_view:
  assumes "map ledger_view ps = map ledger_view qs" shows "stakes_in k ps = stakes_in k qs"
proof -
  have "length ps = length qs" using assms map_eq_imp_length_eq by blast
  then show ?thesis using assms
    by (induction ps qs rule: list_induct2) (auto simp: stakes_in_def ledger_view_def)
qed

lemma same_books_pools:
  assumes "same_books s s'" shows "pools_of s' = pools_of s"
proof -
  have "m_id ` set (markets s') = m_id ` set (markets s)"
    using same_books_parts(1) [OF assms] by (metis list.set_map)
  moreover have "stakes_in k (predictions s') = stakes_in k (predictions s)" for k
    using same_books_parts(4) [OF assms] by (rule stakes_in_view)
  ultimately show ?thesis by (auto simp: pools_of_def fun_eq_iff)
qed

lemma same_books_ledger:
  assumes "same_books s s'" and "ledger_ok s" shows "ledger_ok s'"
proof -
  note parts = same_books_parts [OF assms(1)]
  have "m_id ` set (markets s') = m_id ` set (markets s)" using parts(1) by (metis list.set_map)
  then have refs: "list_all (\<lambda>p. p_market p \<in> m_id ` set (markets s')) (predictions s') =
      list_all (\<lambda>p. p_market p \<in> m_id ` set (markets s)) (predictions s)"
    by (intro line_list_all [OF parts(4)]) (simp add: ledger_view_def)
  have "list_all (market_balanced (predictions s')) (markets s') =
      list_all (market_balanced (predictions s)) (markets s)"
    using assms(1) balanced_view [OF parts(4)]
    by (intro line_list_all [of market_line])
      (auto simp: same_books_def market_line_def market_balanced_def Let_def)
  with assms(2) refs show ?thesis
    by (simp add: ledger_ok_def predictions_ok_def keyed_def parts(1-3) same_view_facts(2) [OF parts(4)])
qed

lemma same_books_users:
  assumes "same_books s s'" and "users_balanced s" shows "users_balanced s'"
proof -
  note parts = same_books_parts [OF assms(1)]
  have "list_all (user_balanced (predictions s')) (users s') =
      list_all (user_balanced (predictions s)) (users s)"
    using assms(1) balanced_view [OF parts(4)]
    by (intro line_list_all [of user_line])
      (auto simp: same_books_def user_line_def user_balanced_def Let_def)
  with assms(2) show ?thesis by (simp add: users_balanced_def)
qed

text \<open>
  What a step keeps: the ledger, the accounts up to steps of the specification, and for a request
  the counters of the users.
\<close>

definition books_step :: "db \<Rightarrow> db \<Rightarrow> bool" where
  "books_step s s' \<longleftrightarrow> ledger_ok s' \<and> pool_step\<^sup>*\<^sup>* (pools_of s) (pools_of s')"

definition books_kept :: "db \<Rightarrow> db \<Rightarrow> bool" where
  "books_kept s s' \<longleftrightarrow> books_step s s' \<and> (users_balanced s \<longrightarrow> users_balanced s')"

lemma same_books_kept: "same_books s s' \<Longrightarrow> ledger_ok s \<Longrightarrow> books_kept s s'"
  by (simp add: books_kept_def books_step_def same_books_ledger same_books_pools same_books_users)

lemma same_tables_kept:
  "ledger_ok s \<Longrightarrow> markets s' = markets s \<Longrightarrow> predictions s' = predictions s \<Longrightarrow> users s' = users s \<Longrightarrow>
    books_kept s s'"
  by (simp add: same_books_kept same_books_tables)

lemma same_books_edit:
  assumes "edits_market s s'" and "ledger_ok s"
  shows "same_books s s'"
proof (cases "markets s' = markets s")
  case False
  with assms obtain m m' where m: "m \<in> set (markets s)" "market_edit m m'"
    "markets s' = save_row m_id m' (markets s)" by (auto simp: edits_market_def)
  have "by_id m_id (m_id m') (markets s) = Some m"
    using assms(2) m by_id_in [of m_id "markets s" m]
    by (simp add: ledger_ok_def predictions_ok_def market_edit_def)
  moreover have "market_line m' = market_line m" using m(2) by (simp add: market_edit_def market_line_def)
  ultimately have "map market_line (markets s') = map market_line (markets s)"
    unfolding m(3) by (rule map_save_row_same)
  with assms(1) show ?thesis by (simp add: same_books_def edits_market_def)
qed (use assms in \<open>simp add: same_books_def edits_market_def\<close>)

lemma edits_market_kept: "edits_market s s' \<Longrightarrow> ledger_ok s \<Longrightarrow> books_kept s s'"
  by (blast intro: same_books_kept same_books_edit)

lemma same_books_prediction:
  assumes "by_id p_id (p_id p') (predictions s) = Some p" and "stake_line p' = stake_line p"
    and "predictions s' = save_row p_id p' (predictions s)" and "markets s' = markets s"
    and "users s' = users s"
  shows "same_books s s'"
  using map_save_row_same [OF assms(1,2)] by (simp add: same_books_def assms(3-5))

text \<open>New markets without stakes are opened one after the other.\<close>

lemma no_stakes: "\<forall>p\<in>set ps. p_market p \<in> K \<Longrightarrow> k \<notin> K \<Longrightarrow> filter (\<lambda>p. p_market p = k) ps = []"
  by (auto simp: filter_empty_conv)

lemma open_pools:
  assumes "keyed m_id (markets s @ ms)" and "\<forall>p\<in>set (predictions s). p_market p \<in> m_id ` set (markets s)"
  shows "pool_step\<^sup>*\<^sup>* (pools_of s) (pools_of (s\<lparr>markets := markets s @ ms\<rparr>))"
  using assms(1)
proof (induction ms rule: rev_induct)
  case (snoc m ms)
  let ?a = "pools_of (s\<lparr>markets := markets s @ ms\<rparr>)"
  have new: "m_id m \<notin> m_id ` set (markets s @ ms)"
    using snoc.prems by (auto simp: keyed_def)
  then have "m_id m \<notin> m_id ` set (markets s)" by (simp add: image_Un)
  then have "stakes_in (m_id m) (predictions s) = []"
    using no_stakes [OF assms(2), of "m_id m"] by (simp add: stakes_in_def)
  then have "pools_of (s\<lparr>markets := markets s @ ms @ [m]\<rparr>) = ?a(m_id m \<mapsto> [])"
    by (auto simp: pools_of_def fun_eq_iff)
  moreover have "m_id m \<notin> dom ?a" using new by (auto simp: pools_of_def dom_def)
  ultimately have "pool_step ?a (pools_of (s\<lparr>markets := markets s @ ms @ [m]\<rparr>))"
    by (simp add: open_pool)
  with snoc show ?case by (simp add: keyed_def rtranclp.rtrancl_into_rtrancl)
qed simp

lemma new_markets_kept:
  assumes "ledger_ok s" and "markets s' = markets s @ ms" and "keyed m_id (markets s @ ms)"
    and "list_all (\<lambda>m. participant_count m = 0 \<and> total_pool_stroops m = 0) ms"
    and "predictions s' = predictions s" and "users s' = users s"
  shows "books_kept s s'"
proof -
  have refs: "\<forall>p\<in>set (predictions s). p_market p \<in> m_id ` set (markets s)"
    using assms(1) by (simp add: ledger_ok_def predictions_ok_def list_all_iff)
  have "filter (\<lambda>p. p_market p = m_id m) (predictions s) = []" if "m \<in> set ms" for m
  proof -
    have "m_id m \<notin> m_id ` set (markets s)" using that assms(3) by (auto simp: keyed_def)
    then show ?thesis by (rule no_stakes [OF refs])
  qed
  then have "list_all (market_balanced (predictions s)) ms"
    using assms(4) by (auto simp: list_all_iff market_balanced_def)
  then have "ledger_ok s'"
    using assms(1,3) refs by (auto simp: ledger_ok_def predictions_ok_def assms(2,5,6) list_all_iff)
  moreover have "pools_of s' = pools_of (s\<lparr>markets := markets s @ ms\<rparr>)"
    by (simp add: pools_of_def fun_eq_iff assms(2,5))
  ultimately show ?thesis
    using open_pools [OF assms(3) refs] by (simp add: books_kept_def books_step_def users_balanced_def assms(5,6))
qed

lemma new_stake_step:
  assumes "ledger_ok s'" and "predictions s' = predictions s @ [p]"
    and "list_all (\<lambda>q. \<not> predicted_by (p_user p) (p_market p) q) (predictions s)"
    and "m_id ` set (markets s') = m_id ` set (markets s)"
  shows "books_step s s'"
proof -
  let ?k = "p_market p" and ?x = "(p_user p, stake_amount_stroops p)"
  have "?k \<in> m_id ` set (markets s)"
    using assms(1,4) by (simp add: ledger_ok_def predictions_ok_def assms(2))
  then have old: "pools_of s ?k = Some (stakes_in ?k (predictions s))" by (simp add: pools_of_def)
  moreover have "pools_of s' = (pools_of s)(?k \<mapsto> stakes_in ?k (predictions s) @ [?x])"
    using \<open>?k \<in> m_id ` set (markets s)\<close> by (auto simp: pools_of_def fun_eq_iff assms(2,4) stakes_in_def)
  moreover have "p_user p \<notin> fst ` set (stakes_in ?k (predictions s))"
    using assms(3) by (auto simp: stakes_in_def predicted_by_def list_all_iff)
  ultimately have "pool_step (pools_of s) (pools_of s')" by (simp add: add_stake)
  with assms(1) show ?thesis by (simp add: books_step_def)
qed

section \<open>The requests\<close>

lemma create_market_kept:
  assumes "create_market sor e dto user s = (r, s')" and "fresh e 0 \<notin> m_id ` set (markets s)"
    and "ledger_ok s"
  shows "books_kept s s'"
proof -
  have *: "books_kept s s" "\<And>c. books_kept s (call_chain c s)"
    using assms(3) by (simp_all add: same_tables_kept)
  have "books_kept s (emit_hook e ev pl s2)"
    if "insert_market e (new_market (now e) (fresh e 0) oc dto (u_id user)) (call_chain c s) = Some s2"
    for oc c s2 ev pl
  proof -
    let ?m = "stored_market (new_market (now e) (fresh e 0) oc dto (u_id user))"
    from insert_market_Some(3) [OF that] have "markets s2 = markets s @ [?m]" "predictions s2 = predictions s"
      "users s2 = users s"
      using assms(2) by (simp_all add: save_row_fresh)
    then show ?thesis
      using assms by (intro new_markets_kept [of s _ "[?m]"])
        (simp_all add: keyed_snoc ledger_ok_def predictions_ok_def)
  qed
  with * assms(1) show ?thesis
    by (auto simp: create_market_def Let_def split: service_splits)
qed

lemma bulk_loop_empty:
  "bulk_loop sors e user n dtos done s = (Inr ms, s') \<Longrightarrow>
    \<forall>m\<in>set done. participant_count m = 0 \<and> total_pool_stroops m = 0 \<Longrightarrow>
    \<forall>m\<in>set ms. participant_count m = 0 \<and> total_pool_stroops m = 0"
  by (induction sors e user n dtos "done" s rule: bulk_loop.induct)
    (auto simp: Let_def split: service_splits)

lemma create_bulk_kept:
  assumes "create_bulk sors e dtos user s = (r, s')" and "fresh_market_ids e s" and "ledger_ok s"
  shows "books_kept s s'"
proof (cases "list_ex (\<lambda>dto. cd_end_time dto \<le> now e) dtos")
  case True
  with assms show ?thesis by (auto simp: create_bulk_def intro: same_tables_kept)
next
  case False
  obtain q s1 where loop: "bulk_loop sors e user 0 dtos [] s = (q, s1)" by fastforce
  show ?thesis
  proof (cases q)
    case (Inl err)
    with False loop assms(1) have "s' = s\<lparr>calls := calls s1\<rparr>" by (simp add: create_bulk_def)
    with assms(3) show ?thesis by (simp add: same_tables_kept)
  next
    case (Inr ms)
    have "bulk_progress e s 0 [] s" by (simp add: bulk_progress_def)
    from bulk_loop_progress [OF assms(2) this loop] Inr
    have "bulk_progress e s (length dtos) ms s1" by simp
    moreover have "s' = s1" using False loop Inr assms(1) by (simp add: create_bulk_def)
    ultimately have p: "bulk_progress e s (length dtos) ms s'" by simp
    then have rows: "markets s' = markets s @ map stored_market ms"
      and ids: "map m_id ms = map (fresh e) [0..<length dtos]"
      and frame: "s' = s\<lparr>markets := markets s', calls := calls s'\<rparr>"
      unfolding bulk_progress_def by blast+
    have "distinct (map (fresh e) [0..<length dtos])"
      using assms(2) by (auto simp: fresh_market_ids_def distinct_map intro: inj_on_subset)
    moreover have "set (map (fresh e) [0..<length dtos]) \<inter> m_id ` set (markets s) = {}"
      using assms(2) by (auto simp: fresh_market_ids_def)
    ultimately have "keyed m_id (markets s @ map stored_market ms)"
      using assms(3) ids
      by (simp add: keyed_def ledger_ok_def predictions_ok_def comp_def) (metis inf_commute list.set_map)
    moreover have "list_all (\<lambda>m. participant_count m = 0 \<and> total_pool_stroops m = 0) (map stored_market ms)"
      using bulk_loop_empty [OF loop [unfolded Inr]] by (simp add: list_all_iff)
    moreover have "predictions s' = predictions s" "users s' = users s"
      by (subst frame, simp)+
    ultimately show ?thesis by (intro new_markets_kept [OF assms(3) rows])
  qed
qed

lemma stake_kept:
  assumes "submit_persist e ps s = (r, s')" and "fresh e 0 \<notin> p_id ` set (predictions s)"
    and "ledger_ok s"
  shows "books_kept s s'"
proof -
  from submit_persist_ledger [OF assms(1,2)] assms(3)
  have ok: "ledger_ok s'" "users_balanced s \<longrightarrow> users_balanced s'" by (simp_all add: keeps_ledger_def)
  have "books_step s s'"
  proof (cases r)
    case (Inl err)
    with assms(1) have "s' = s" by (auto dest: submit_persist_Inl)
    with ok show ?thesis by (simp add: books_step_def)
  next
    case (Inr p)
    with assms(1) have "submit_persist e ps s = (Inr p, s')" by simp
    then show ?thesis
    proof (rule submit_persist_Inr)
      fix amount
      assume p: "p = new_prediction e ps amount" and s': "s' = persisted e ps amount s"
        and free: "find_one (predicted_by (ps_user ps) (ps_market ps)) (predictions s) = None"
      show ?thesis
        using free assms(2) ok(1)
        by (intro new_stake_step [of s' s p])
          (simp_all add: s' persisted_def p save_row_fresh find_one_None list_all_iff keyed_add_stake)
    qed
  qed
  with ok(2) show ?thesis by (simp add: books_kept_def)
qed

lemma own_stake_kept:
  assumes "ledger_ok s" and "p \<in> set (predictions s)" and "stake_line p' = stake_line p"
    and "predictions s' = save_row p_id p' (predictions s)" and "markets s' = markets s"
    and "users s' = users s"
  shows "books_kept s s'"
proof -
  have "by_id p_id (p_id p') (predictions s) = Some p"
    using by_id_in [of p_id "predictions s" p] assms(1-3)
    by (simp add: ledger_ok_def predictions_ok_def stake_line_def)
  from same_books_prediction [OF this assms(3-6)] assms(1) show ?thesis by (rule same_books_kept)
qed

lemma update_note_kept:
  assumes "update_note pid text user s = (r, s')" and "ledger_ok s" shows "books_kept s s'"
proof (cases "own_prediction pid user s")
  case None
  with assms show ?thesis by (auto simp: update_note_def intro: same_tables_kept)
next
  case (Some p)
  with assms(1) have "s' = save_prediction (p\<lparr>p_note := Some text\<rparr>) s"
    by (simp add: update_note_def Let_def)
  with own_prediction_Some [OF Some] show ?thesis
    by (intro own_stake_kept [OF assms(2), of p "p\<lparr>p_note := Some text\<rparr>"]) (simp_all add: stake_line_def)
qed

lemma claim_kept:
  assumes "claim sor pid user s = (r, s')" and "ledger_ok s" shows "books_kept s s'"
proof (cases r)
  case (Inl err)
  with assms(1) have "claim sor pid user s = (Inl err, s')" by simp
  from claim_Inl [OF this] assms(2) show ?thesis by (simp add: same_tables_kept)
next
  case (Inr p')
  with assms(1) have "claim sor pid user s = (Inr p', s')" by simp
  then show ?thesis
  proof (rule claim_Inr)
    fix p m receipt
    assume "own_prediction pid user s = Some p" and "p' = record_claim receipt p"
      and "s' = save_prediction p' (call_chain (ClaimPayout (stellar_address user) (on_chain_market_id m)) s)"
    with own_prediction_Some [of pid user s p] show ?thesis
      by (intro own_stake_kept [OF assms(2), of p p']) (simp_all add: stake_line_def)
  qed
qed

section \<open>The other services\<close>

lemma create_dispute_frame:
  "create_dispute e mid reason user s = (d, ts, s') \<Longrightarrow>
    markets s' = markets s \<and> predictions s' = predictions s \<and> users s' = users s"
  by (auto simp: create_dispute_def Let_def split: option.splits if_splits)

lemma resolve_dispute_frame:
  "resolve_dispute e did res notes user s = (d, ts, s') \<Longrightarrow>
    markets s' = markets s \<and> predictions s' = predictions s \<and> users s' = users s"
  by (auto simp: resolve_dispute_def Let_def split: service_splits)

lemma run_task_frame:
  "markets (run_task sor tk s) = markets s \<and> predictions (run_task sor tk s) = predictions s \<and>
    users (run_task sor tk s) = users s"
  by (cases tk) (auto simp: record_dispute_on_chain_def record_resolution_on_chain_def Let_def
      split: service_splits)

lemma same_books_flag_effect: "same_books s (flag_effect e admin f action s)"
  by (cases action)
    (auto simp: same_books_def update_rows_def market_line_def user_line_def cancel_in_db_def ban_user_def)

lemma flag_kept:
  "create_flag e uid fdto s = (f, s') \<Longrightarrow> ledger_ok s \<Longrightarrow> books_kept s s'"
  "resolve_flag e fid action notes uid s = (f, s') \<Longrightarrow> ledger_ok s \<Longrightarrow> books_kept s s'"
proof -
  show "create_flag e uid fdto s = (f, s') \<Longrightarrow> ledger_ok s \<Longrightarrow> books_kept s s'"
    by (auto simp: create_flag_def Let_def intro: same_tables_kept split: option.splits if_splits)
  assume run: "resolve_flag e fid action notes uid s = (f, s')" and ok: "ledger_ok s"
  show "books_kept s s'"
  proof (cases f)
    case (Inl err)
    with run ok show ?thesis by (auto dest: resolve_flag_Inl intro: same_tables_kept)
  next
    case (Inr f')
    with run have "resolve_flag e fid action notes uid s = (Inr f', s')" by simp
    then obtain g where "s' = log_activity uid ''FLAG_RESOLVED''
        [(''flag_id'', fid), (''action'', flag_action_text action),
         (''market_id'', f_market g), (''user_id'', f_user g)]
        (save_flag f' (flag_effect e uid g action s))" by (rule resolve_flag_Inr)
    then have "same_books s s'"
      using same_books_flag_effect [of s e uid g action] by (simp add: same_books_def)
    with ok show ?thesis by (rule same_books_kept [rotated])
  qed
qed

lemma season_kept:
  "create_season sor e sdto s = (x, s') \<Longrightarrow> ledger_ok s \<Longrightarrow> books_kept s s'"
  "finalize_season update_ok notify_ok sid s = (x, s') \<Longrightarrow> ledger_ok s \<Longrightarrow> books_kept s s'"
proof -
  show "create_season sor e sdto s = (x, s') \<Longrightarrow> ledger_ok s \<Longrightarrow> books_kept s s'"
    by (rule same_tables_kept)
      (auto simp: create_season_def sync_season_def save_season_def call_chain_def Let_def
        split: service_splits)
  assume run: "finalize_season update_ok notify_ok sid s = (x, s')" and ok: "ledger_ok s"
  have "markets s' = markets s" "predictions s' = predictions s"
    "users s' = users s \<or> users s' = reset_points (users s)"
    using run by (auto simp: finalize_season_def Let_def save_season_def split: option.splits if_splits)
  then have "same_books s s'"
    by (auto simp: same_books_def reset_points_def update_rows_def user_line_def)
  with ok show "books_kept s s'" by (rule same_books_kept [rotated])
qed

lemma cache_kept:
  "get_prediction_stats t ref s = (st, s') \<Longrightarrow> ledger_ok s \<Longrightarrow> books_kept s s'"
  "get_trending_markets t page limit s = (tr, s') \<Longrightarrow> ledger_ok s \<Longrightarrow> books_kept s s'"
  by (rule same_tables_kept;
      auto simp: get_prediction_stats_def get_trending_markets_def compute_trending_markets_def Let_def
        split: service_splits)+

lemma side_tables_kept:
  "create_comment e ref text parent user s = (c, s') \<Longrightarrow> ledger_ok s \<Longrightarrow> books_kept s s'"
  "add_bookmark e ref user s = (b, s') \<Longrightarrow> ledger_ok s \<Longrightarrow> books_kept s s'"
  "remove_bookmark ref user s = (u, s') \<Longrightarrow> ledger_ok s \<Longrightarrow> books_kept s s'"
  by (rule same_tables_kept;
      auto simp: create_comment_def add_bookmark_def remove_bookmark_def Let_def split: service_splits)+

lemma service_step_kept:
  assumes "service_step s s'" and "ledger_ok s"
  shows "books_kept s s'"
  using assms(1)
proof cases
  case (update e ref uid up r)
  then show ?thesis using assms(2) by (auto intro: edits_market_kept update_market_edits)
next
  case (resolve sor e ref out r)
  then show ?thesis using assms(2) by (auto intro: edits_market_kept resolve_market_edits)
next
  case (cancel sor e ref user r)
  then show ?thesis using assms(2) by (auto intro: edits_market_kept cancel_market_edits)
next
  case (pause sor ref user r)
  then show ?thesis using assms(2) by (auto intro: edits_market_kept pause_market_edits)
next
  case (resume sor e ref user r)
  then show ?thesis using assms(2) by (auto intro: edits_market_kept resume_market_edits)
next
  case (validate sor e sp user v)
  then show ?thesis using assms(2) submit_validate_tables by (intro same_tables_kept)
next
  case (dispute e mid reason user d ts)
  then show ?thesis using assms(2) create_dispute_frame by (intro same_tables_kept) blast+
next
  case (settle_dispute e did res why user d ts)
  then show ?thesis using assms(2) resolve_dispute_frame by (intro same_tables_kept) blast+
next
  case (run_recording sor tk)
  then show ?thesis using assms(2) run_task_frame by (intro same_tables_kept) blast+
qed (use assms(2) in \<open>auto intro: create_market_kept create_bulk_kept cache_kept side_tables_kept
    stake_kept update_note_kept claim_kept flag_kept season_kept\<close>)

section \<open>Events\<close>

lemma event_books:
  assumes "process_event e ev s = (Inr (), s')" and "ledger_ok s" and "fresh_event e ev s"
  shows "books_step s s'"
proof (cases "detect_event_type ev")
  case None
  with assms show ?thesis by (simp add: process_event_def books_step_def)
next
  case (Some ty)
  let ?ps = "ev_value ev"
  have idle: "books_step s s" using assms(2) by (simp add: books_step_def)
  show ?thesis
  proof (cases ty)
    case EvMarketCreated
    with Some assms(1) have "handle_market_created e ?ps s = (Inr (), s')"
      by (simp add: process_event_def)
    then show ?thesis
    proof (cases rule: handle_market_created_cases)
      case (saved cid m)
      note m = listen_market_Inr [OF saved(3)]
      have "m_id (stored_market m) \<notin> m_id ` set (markets s)"
        using assms(3) by (simp add: fresh_event_def m(2))
      moreover have "total_pool_stroops m = 0" "participant_count m = 0"
        using m(5,6) assms(3) by (simp_all add: fresh_event_def)
      ultimately have "books_kept s s'"
        using assms(2) by (intro new_markets_kept [of s _ "[stored_market m]"])
          (simp_all add: saved(4) save_row_fresh keyed_snoc ledger_ok_def predictions_ok_def)
      then show ?thesis by (simp add: books_kept_def)
    qed (use idle in simp)
  next
    case EvMarketResolved
    with Some assms(1) have run: "handle_market_resolved ?ps s = (Inr (), s')"
      by (simp add: process_event_def)
    show ?thesis
    proof (cases "find_market_from_payload ?ps s")
      case None
      with run idle show ?thesis by (simp add: handle_market_resolved_def)
    next
      case (Some m)
      let ?m = "m\<lparr>is_resolved := True, resolved_outcome := or_else (read_string ?ps ''resolved_outcome'')
                  (or_else (read_string ?ps ''outcome'') (resolved_outcome m))\<rparr>"
      have s': "s' = save_market ?m s" using run Some by (simp add: handle_market_resolved_def)
      have "m \<in> set (markets s)" using Some by (rule found_by_payload)
      then have "by_id m_id (m_id ?m) (markets s) = Some m"
        using by_id_in [of m_id "markets s" m] assms(2) by (simp add: ledger_ok_def predictions_ok_def)
      then have "map market_line (save_row m_id ?m (markets s)) = map market_line (markets s)"
        by (rule map_save_row_same) (simp add: market_line_def)
      then have "same_books s s'" by (simp add: s' same_books_def)
      from same_books_kept [OF this assms(2)] show ?thesis by (simp add: books_kept_def)
    qed
  next
    case EvPredictionSubmitted
    with Some assms(1) have "handle_prediction_submitted e ?ps s = (Inr (), s')"
      by (simp add: process_event_def)
    then show ?thesis
    proof (cases rule: handle_prediction_submitted_cases)
      case (saved m u amount)
      let ?p = "listened_prediction e ?ps (u_id u) (m_id m) amount"
      have m: "m \<in> set (markets s)"
        using saved(1) by (auto simp: listened_pair_Some elim: found_by_payload)
      have k: "keyed m_id (markets s)" using assms(2) by (simp add: ledger_ok_def predictions_ok_def)
      have "p_id ?p \<notin> p_id ` set (predictions s)" using assms(3) by (simp add: fresh_event_def)
      then have rows: "predictions s' = predictions s @ [?p]" by (simp add: saved(4) save_row_fresh)
      have "markets s' = add_stake_to_market (p_market ?p) (stake_amount_stroops ?p) (markets s)"
        using save_row_add_stake [OF k m] by (simp add: saved(4))
      then show ?thesis
        using saved(2) process_event_ledger [OF assms]
        by (intro new_stake_step [OF _ rows]) (simp_all add: find_one_None list_all_iff keyed_add_stake)
    qed (use idle in simp_all)
  next
    case EvPayoutClaimed
    with Some assms(1) have "handle_payout_claimed ?ps s = (Inr (), s')"
      by (simp add: process_event_def)
    then show ?thesis
    proof (cases rule: handle_payout_claimed_cases)
      case (saved m u p p')
      note c = listened_claim_simps [OF saved(3)]
      have "books_kept s s'"
        using find_one_Some [OF saved(2)] c
        by (intro own_stake_kept [OF assms(2), of p p']) (simp_all add: saved(5) stake_line_def)
      then show ?thesis by (simp add: books_kept_def)
    qed (use idle in simp)
  qed
qed

lemma platform_steps_books:
  assumes "platform_step\<^sup>*\<^sup>* s s'" and "ledger_ok s"
  shows "books_step s s'"
  using assms(1)
proof (induction rule: rtranclp_induct)
  case base
  then show ?case using assms(2) by (simp add: books_step_def)
next
  case (step s1 s2)
  then have "ledger_ok s1" by (simp add: books_step_def)
  with step.hyps(2) have "books_step s1 s2"
    by (cases rule: platform_step.cases) (auto simp: books_kept_def dest: service_step_kept event_books)
  with step.IH show ?case by (auto simp: books_step_def)
qed

lemma service_steps_users:
  assumes "service_step\<^sup>*\<^sup>* s s'" and "ledger_ok s" and "users_balanced s"
  shows "ledger_ok s' \<and> users_balanced s'"
  using assms(1)
  by (induction rule: rtranclp_induct)
    (use assms(2,3) service_step_kept in \<open>auto simp: books_kept_def books_step_def\<close>)

section \<open>Properties\<close>


text \<open>A submission of 20,000,000 stroops on the sample tables.\<close>

definition sample_pending :: pending_submit where
  "sample_pending = \<lparr>ps_user = ''u1'', ps_market = ''m1'', ps_dto = sample_submit, ps_tx_hash = ''hash''\<rparr>"

definition sample_staked_db :: db where
  "sample_staked_db = snd (submit_persist sample_env sample_pending sample_db)"

lemma sample_staked_eq:
  "sample_staked_db = persisted sample_env sample_pending 20000000 sample_db"
proof -
  have "is_ok (fst (submit_persist sample_env sample_pending sample_db))"
    by (simp add: submit_persist_def Let_def sample_pending_def sample_submit_def big_int_sample pg_int8_def
        pg_int4_def add_stake_to_market_def add_stake_to_user_def update_rows_def market_in_range_def
        user_in_range_def sample_db_def sample_market_def sample_user_def sample_admin_def empty_db_def
        market_staked_def user_staked_def)
  then obtain p where "submit_persist sample_env sample_pending sample_db = (Inr p, sample_staked_db)"
    by (metis is_ok_iff prod.collapse sample_staked_db_def)
  then show ?thesis
    by (rule submit_persist_Inr) (simp add: sample_pending_def sample_submit_def big_int_sample)
qed

lemma sample_ledger: "ledger_ok sample_db" "users_balanced sample_db"
  by (simp_all add: ledger_ok_def predictions_ok_def users_balanced_def market_balanced_def
      user_balanced_def keyed_def sample_defs)

lemma sample_stake_step: "service_step sample_db sample_staked_db"
  unfolding sample_staked_db_def
  by (rule stake [of sample_env sample_pending]) (auto simp: prod_eq_iff sample_db_def empty_db_def)

lemma sample_staked_rows:
  "predictions sample_staked_db = [new_prediction sample_env sample_pending 20000000]"
  "markets sample_staked_db = [market_staked 20000000 sample_market]"
  by (simp_all add: sample_staked_eq persisted_def add_stake_to_market_def update_rows_def
      sample_pending_def sample_defs)




end
