(* ===== verification/Finalizer.thy ===== *)
theory Finalizer
  imports Indexer SortFacts
begin

text \<open>
  The scheduled finalisation of creator events (\<open>backend/src/matches/creator-event-finalizer.service.ts\<close>):
  every five minutes, and on demand, ended events whose matches all have a result are finalised on
  the contract and marked in the table.
\<close>

section \<open>The run\<close>

text \<open>
  What a run gets from outside: the clock, the answer of the contract to \<open>finalize_event\<close>, and
  whether the database accepts the save of an event.
\<close>

record finalizer_env =
  fz_now :: timestamp
  fz_chain :: "int \<Rightarrow> string chain_result"
  fz_saves :: "uuid \<Rightarrow> bool"

record finalization =
  fz_finalized :: nat
  fz_skipped :: nat
  fz_errors :: nat

text \<open>The state of a run: the tables, the events sent to the contract so far, the counters.\<close>

record finalizer_run =
  fr_tables :: event_db
  fr_sent :: "int list"
  fr_counts :: finalization

definition max_finalize_per_tick :: nat where
  "max_finalize_per_tick = 20"

definition awaits_finalization :: "timestamp \<Rightarrow> creator_event \<Rightarrow> bool" where
  "awaits_finalization t0 x \<longleftrightarrow> end_time x < t0 \<and> \<not> ce_finalized x \<and> \<not> ce_cancelled x"

text \<open>The query has no order: the rows are taken as the table holds them.\<close>

definition events_to_finalize :: "timestamp \<Rightarrow> event_db \<Rightarrow> creator_event list" where
  "events_to_finalize t0 s = take max_finalize_per_tick (filter (awaits_finalization t0) (creator_events s))"

definition all_matches_resolved :: "uuid \<Rightarrow> event_db \<Rightarrow> bool" where
  "all_matches_resolved eid s \<longleftrightarrow>
     count_rows (\<lambda>m. mt_event m = eid \<and> \<not> result_submitted m) (event_matches s) = 0"

definition finalize_step :: "finalizer_env \<Rightarrow> creator_event \<Rightarrow> finalizer_run \<Rightarrow> finalizer_run" where
  "finalize_step e x r =
     (let c = fr_counts r in
      if \<not> all_matches_resolved (ce_id x) (fr_tables r)
      then r\<lparr>fr_counts := c\<lparr>fz_skipped := fz_skipped c + 1\<rparr>\<rparr>
      else
        (let r1 = r\<lparr>fr_sent := fr_sent r @ [on_chain_event_id x]\<rparr>;
             failed = r1\<lparr>fr_counts := c\<lparr>fz_errors := fz_errors c + 1\<rparr>\<rparr> in
         case fz_chain e (on_chain_event_id x) of
           Inl _ \<Rightarrow> failed
         | Inr _ \<Rightarrow>
             if fz_saves e (ce_id x) then
               r1\<lparr>fr_tables := save_creator_event (x\<lparr>ce_finalized := True\<rparr>) (fr_tables r),
                  fr_counts := c\<lparr>fz_finalized := fz_finalized c + 1\<rparr>\<rparr>
             else failed))"

definition start_run :: "event_db \<Rightarrow> finalizer_run" where
  "start_run s = \<lparr>fr_tables = s, fr_sent = [],
     fr_counts = \<lparr>fz_finalized = 0, fz_skipped = 0, fz_errors = 0\<rparr>\<rparr>"

definition trigger_finalization :: "finalizer_env \<Rightarrow> event_db \<Rightarrow> finalizer_run" where
  "trigger_finalization e s =
     fold (finalize_step e) (events_to_finalize (fz_now e) s) (start_run s)"

text \<open>The cron job runs the same loop, when there is anything to do, and only logs its counters.\<close>

definition finalize_pending_events :: "finalizer_env \<Rightarrow> event_db \<Rightarrow> event_db \<times> int list" where
  "finalize_pending_events e s =
     (let xs = events_to_finalize (fz_now e) s in
      if xs = [] then (s, [])
      else (let r = fold (finalize_step e) xs (start_run s) in (fr_tables r, fr_sent r)))"

section \<open>What a run does\<close>

text \<open>The events of the batch that end up finalised.\<close>

definition finalizes :: "finalizer_env \<Rightarrow> event_db \<Rightarrow> creator_event \<Rightarrow> bool" where
  "finalizes e s x \<longleftrightarrow>
     all_matches_resolved (ce_id x) s \<and> is_ok (fz_chain e (on_chain_event_id x)) \<and> fz_saves e (ce_id x)"

lemma all_matches_resolved_save [simp]:
  "all_matches_resolved k (save_creator_event x s) = all_matches_resolved k s"
  by (simp add: all_matches_resolved_def)

lemma resolved_tables: "event_matches s' = event_matches s \<Longrightarrow> all_matches_resolved k s' = all_matches_resolved k s"
  by (simp add: all_matches_resolved_def)

lemma finalize_step_tables:
  assumes "event_matches (fr_tables r) = event_matches s"
  shows "fr_tables (finalize_step e x r) =
      (if finalizes e s x then save_creator_event (x\<lparr>ce_finalized := True\<rparr>) (fr_tables r) else fr_tables r)"
    and "fr_sent (finalize_step e x r) =
      fr_sent r @ (if all_matches_resolved (ce_id x) s then [on_chain_event_id x] else [])"
    and "fz_finalized (fr_counts (finalize_step e x r)) =
      fz_finalized (fr_counts r) + (if finalizes e s x then 1 else 0)"
    and "fz_skipped (fr_counts (finalize_step e x r)) =
      fz_skipped (fr_counts r) + (if all_matches_resolved (ce_id x) s then 0 else 1)"
    and "fz_errors (fr_counts (finalize_step e x r)) =
      fz_errors (fr_counts r) + (if all_matches_resolved (ce_id x) s \<and> \<not> finalizes e s x then 1 else 0)"
  using resolved_tables [OF assms, of "ce_id x"]
  by (simp_all add: finalize_step_def finalizes_def Let_def is_ok_def split: sum.split)

lemma finalize_step_matches:
  "event_matches (fr_tables (finalize_step e x r)) = event_matches (fr_tables r)"
  by (simp add: finalize_step_def Let_def split: sum.split)

lemma finalize_fold:
  fixes e :: finalizer_env and xs :: "creator_event list"
  assumes "event_matches (fr_tables r) = event_matches s"
  defines "r' \<equiv> fold (finalize_step e) xs r"
  shows "fr_tables r' =
      fold save_creator_event (map (\<lambda>x. x\<lparr>ce_finalized := True\<rparr>) (filter (finalizes e s) xs)) (fr_tables r)"
    and "fr_sent r' =
      fr_sent r @ map on_chain_event_id (filter (\<lambda>x. all_matches_resolved (ce_id x) s) xs)"
    and "fz_finalized (fr_counts r') = fz_finalized (fr_counts r) + length (filter (finalizes e s) xs)"
    and "fz_skipped (fr_counts r') =
      fz_skipped (fr_counts r) + length (filter (\<lambda>x. \<not> all_matches_resolved (ce_id x) s) xs)"
    and "fz_errors (fr_counts r') =
      fz_errors (fr_counts r) +
        length (filter (\<lambda>x. all_matches_resolved (ce_id x) s \<and> \<not> finalizes e s x) xs)"
  using assms(1) unfolding r'_def
  by (induction xs arbitrary: r) (simp_all add: finalize_step_tables finalize_step_matches)

lemma save_events_fold:
  "fold save_creator_event xs s = s\<lparr>creator_events := fold (save_row ce_id) xs (creator_events s)\<rparr>"
  by (induction xs arbitrary: s) (simp_all add: save_creator_event_def)

lemma finalization_rows:
  assumes "keyed ce_id (creator_events s)"
  shows "fr_tables (trigger_finalization e s) = s\<lparr>creator_events :=
      map (\<lambda>x. if x \<in> set (events_to_finalize (fz_now e) s) \<and> finalizes e s x
               then x\<lparr>ce_finalized := True\<rparr> else x) (creator_events s)\<rparr>"
proof -
  let ?xs = "filter (finalizes e s) (events_to_finalize (fz_now e) s)"
  have sub: "set (events_to_finalize (fz_now e) s) \<subseteq> set (creator_events s)"
    unfolding events_to_finalize_def using set_take_subset by fastforce
  have "distinct (creator_events s)" using assms by (simp add: keyed_def distinct_map)
  then have "distinct ?xs" by (simp add: events_to_finalize_def distinct_take)
  then have "fold (save_row ce_id) (map (\<lambda>x. x\<lparr>ce_finalized := True\<rparr>) ?xs) (creator_events s) =
      map (\<lambda>x. if x \<in> set ?xs then x\<lparr>ce_finalized := True\<rparr> else x) (creator_events s)"
    using sub by (intro fold_save_changed [OF assms]) auto
  then show ?thesis
    using finalize_fold(1) [of "start_run s" s e "events_to_finalize (fz_now e) s"]
    by (simp add: trigger_finalization_def start_run_def save_events_fold)
qed

lemma pending_is_trigger:
  "finalize_pending_events e s =
    (fr_tables (trigger_finalization e s), fr_sent (trigger_finalization e s))"
  by (simp add: finalize_pending_events_def trigger_finalization_def start_run_def Let_def)

section \<open>Properties\<close>

text \<open>
  A run looks at the first twenty events that are ended, not finalised and not
  cancelled; it asks the contract exactly for those of them without an open match, in order and once
  each, and marks exactly those the contract and the database accepted, changing nothing else; its
  three counters add up to the events looked at; the cron job does the same as the manual trigger.
  An event that never had a match counts as having all its results.
\<close>

theorem finalization_run:
  assumes "keyed ce_id (creator_events s)" 
    and xs_def: "xs = take 20 (filter (\<lambda>x. end_time x < fz_now e \<and> \<not> ce_finalized x \<and> \<not> ce_cancelled x)
      (creator_events s))"
    and r_def: "r = trigger_finalization e s"
  shows "fr_tables r = s\<lparr>creator_events :=
      map (\<lambda>x. if x \<in> set xs \<and> all_matches_resolved (ce_id x) s \<and>
                is_ok (fz_chain e (on_chain_event_id x)) \<and> fz_saves e (ce_id x)
               then x\<lparr>ce_finalized := True\<rparr> else x) (creator_events s)\<rparr> \<and>
    fr_sent r = map on_chain_event_id (filter (\<lambda>x. all_matches_resolved (ce_id x) s) xs) \<and>
    fz_finalized (fr_counts r) + fz_skipped (fr_counts r) + fz_errors (fr_counts r) = length xs \<and>
    finalize_pending_events e s = (fr_tables r, fr_sent r) \<and>
    (\<forall>x\<in>set xs. (\<forall>m\<in>set (event_matches s). mt_event m \<noteq> ce_id x) \<longrightarrow> on_chain_event_id x \<in> set (fr_sent r))"
proof -
  note parts = finalize_fold [of "start_run s" s e xs]
  have xs: "events_to_finalize (fz_now e) s = xs"
    by (simp add: xs_def events_to_finalize_def max_finalize_per_tick_def awaits_finalization_def [abs_def])
  have sent: "fr_sent r = map on_chain_event_id (filter (\<lambda>x. all_matches_resolved (ce_id x) s) xs)"
    using parts(2) by (simp add: r_def xs trigger_finalization_def start_run_def)
  have "length (filter (finalizes e s) xs) + length (filter (\<lambda>x. \<not> all_matches_resolved (ce_id x) s) xs) +
      length (filter (\<lambda>x. all_matches_resolved (ce_id x) s \<and> \<not> finalizes e s x) xs) = length xs"
    by (induction xs) (auto simp: finalizes_def)
  then have "fz_finalized (fr_counts r) + fz_skipped (fr_counts r) + fz_errors (fr_counts r) = length xs"
    using parts(3-5) by (simp add: r_def xs trigger_finalization_def start_run_def)
  moreover have "all_matches_resolved (ce_id x) s"
    if "\<forall>m\<in>set (event_matches s). mt_event m \<noteq> ce_id x" for x
    using that by (auto simp: all_matches_resolved_def count_rows_0)
  ultimately show ?thesis
    using finalization_rows [OF assms(1), of e] sent pending_is_trigger [of e s]
    by (auto simp: xs r_def finalizes_def)
qed

section \<open>Starvation\<close>

definition stuck :: "timestamp \<Rightarrow> event_db \<Rightarrow> creator_event \<Rightarrow> bool" where
  "stuck t0 s x \<longleftrightarrow> awaits_finalization t0 x \<and> \<not> all_matches_resolved (ce_id x) s"

definition run_ticks :: "finalizer_env list \<Rightarrow> event_db \<Rightarrow> event_db" where
  "run_ticks es s = fold (\<lambda>e s. fst (finalize_pending_events e s)) es s"

lemma awaits_later: "awaits_finalization t0 x \<Longrightarrow> t0 \<le> t1 \<Longrightarrow> awaits_finalization t1 x"
  by (simp add: awaits_finalization_def)

text \<open>With enough stuck events among the first \<open>k\<close>, the batch does not reach beyond them.\<close>

lemma batch_before:
  assumes "max_finalize_per_tick \<le> length (filter (stuck t0 s) (take k (creator_events s)))"
    and "t0 \<le> t1"
  shows "set (events_to_finalize t1 s) \<subseteq> set (take k (creator_events s))"
proof -
  let ?xs = "creator_events s"
  have "length (filter (stuck t0 s) ys) \<le> length (filter (awaits_finalization t1) ys)" for ys
    using awaits_later [OF _ assms(2)] by (induction ys) (auto simp: stuck_def)
  from order_trans [OF assms(1) this] have "max_finalize_per_tick \<le> length (filter (awaits_finalization t1) (take k ?xs))" by simp
  moreover have "filter (awaits_finalization t1) ?xs =
      filter (awaits_finalization t1) (take k ?xs) @ filter (awaits_finalization t1) (drop k ?xs)"
    by (metis append_take_drop_id filter_append)
  ultimately have "events_to_finalize t1 s = take max_finalize_per_tick (filter (awaits_finalization t1) (take k ?xs))"
    by (simp add: events_to_finalize_def)
  then show ?thesis by (auto dest: in_set_takeD)
qed

lemma tick_starves:
  assumes "keyed ce_id (creator_events s)" and "t0 \<le> fz_now e"
    and "max_finalize_per_tick \<le> length (filter (stuck t0 s) (take k (creator_events s)))"
  defines "s' \<equiv> fst (finalize_pending_events e s)"
  shows "drop k (creator_events s') = drop k (creator_events s)" and "keyed ce_id (creator_events s')"
    and "max_finalize_per_tick \<le> length (filter (stuck t0 s') (take k (creator_events s')))"
proof -
  let ?g = "\<lambda>x. if x \<in> set (events_to_finalize (fz_now e) s) \<and> finalizes e s x
               then x\<lparr>ce_finalized := True\<rparr> else x"
  have s': "s' = s\<lparr>creator_events := map ?g (creator_events s)\<rparr>"
    unfolding s'_def pending_is_trigger using finalization_rows [OF assms(1), of e] by simp
  have "distinct (creator_events s)" using assms(1) by (simp add: keyed_def distinct_map)
  then have apart: "set (take k (creator_events s)) \<inter> set (drop k (creator_events s)) = {}"
    by (metis append_take_drop_id distinct_append)
  then have "?g x = x" if "x \<in> set (drop k (creator_events s))" for x
    using that batch_before [OF assms(3,2)] by auto
  then have "map ?g (drop k (creator_events s)) = drop k (creator_events s)" by (rule map_idI)
  then show "drop k (creator_events s') = drop k (creator_events s)" by (simp add: s' drop_map)
  have "map ce_id (creator_events s') = map ce_id (creator_events s)" by (simp add: s')
  then show "keyed ce_id (creator_events s')" using assms(1) by (simp add: keyed_def)
  have "stuck t0 s' (?g x) = stuck t0 s x" for x
    by (simp add: stuck_def awaits_finalization_def finalizes_def all_matches_resolved_def s')
  then have "length (filter (stuck t0 s') (map ?g xs)) = length (filter (stuck t0 s) xs)" for xs
    by (simp add: filter_map comp_def)
  then show "max_finalize_per_tick \<le> length (filter (stuck t0 s') (take k (creator_events s')))"
    using assms(3) by (simp add: s' take_map)
qed

text \<open>
  Twenty ended events with an open match starve all the events behind them: as long as no
  result arrives, however many ticks pass, no event after their place in the table is finalised,
  ready or not.
\<close>

theorem finalizer_starves:
  assumes "keyed ce_id (creator_events s)" and "\<forall>e\<in>set es. t0 \<le> fz_now e"
    and "20 \<le> length (filter (\<lambda>x. awaits_finalization t0 x \<and> \<not> all_matches_resolved (ce_id x) s)
           (take k (creator_events s)))"
  shows "drop k (creator_events (run_ticks es s)) = drop k (creator_events s)"
proof -
  have "max_finalize_per_tick \<le> length (filter (stuck t0 s) (take k (creator_events s)))"
    using assms(3) by (simp add: stuck_def [abs_def] max_finalize_per_tick_def)
  with assms(1,2) show ?thesis
  proof (induction es arbitrary: s)
    case (Cons e es)
    let ?s = "fst (finalize_pending_events e s)"
    have le: "t0 \<le> fz_now e" using Cons.prems(2) by simp
    note step = tick_starves [OF Cons.prems(1) le Cons.prems(3)]
    have "drop k (creator_events (run_ticks es ?s)) = drop k (creator_events ?s)"
      using Cons.prems(2) by (intro Cons.IH step(2,3)) simp
    with step(1) show ?case by (simp add: run_ticks_def)
  qed (simp add: run_ticks_def)
qed

text \<open>A finished event with its result, and one behind twenty that wait for theirs.\<close>

definition sample_finalizer :: finalizer_env where
  "sample_finalizer = \<lparr>fz_now = 1000, fz_chain = (\<lambda>n. Inr ''hash''), fz_saves = (\<lambda>k. True)\<rparr>"

definition sample_ready_db :: event_db where
  "sample_ready_db = empty_event_db\<lparr>creator_events := [sample_creator_event],
     event_matches := [sample_match\<lparr>result_submitted := True\<rparr>]\<rparr>"

theorem finalization_run_witness:
  "fr_sent (trigger_finalization sample_finalizer sample_ready_db) = [7] \<and>
   map ce_finalized (creator_events (fr_tables (trigger_finalization sample_finalizer sample_ready_db))) = [True]"
proof -
  have k: "keyed ce_id (creator_events sample_ready_db)" by (simp add: keyed_def sample_ready_db_def)
  show ?thesis
    using finalization_run [OF k refl refl, of sample_finalizer]
    by (simp add: events_to_finalize_def max_finalize_per_tick_def awaits_finalization_def
        all_matches_resolved_def sample_finalizer_def sample_ready_db_def sample_event_defs)
qed

definition waiting_event :: "nat \<Rightarrow> creator_event" where
  "waiting_event n = sample_creator_event\<lparr>ce_id := show_nat n, on_chain_event_id := int n\<rparr>"

definition sample_starved_db :: event_db where
  "sample_starved_db = empty_event_db\<lparr>
     creator_events := map waiting_event [0..<20] @ [sample_creator_event],
     event_matches := map (\<lambda>n. sample_match\<lparr>mt_event := show_nat n\<rparr>) [0..<20]\<rparr>"

theorem finalizer_starves_witness:
  "drop 20 (creator_events (run_ticks [sample_finalizer, sample_finalizer] sample_starved_db)) =
     [sample_creator_event] \<and>
   awaits_finalization 1000 sample_creator_event \<and>
   all_matches_resolved (ce_id sample_creator_event) sample_starved_db"
proof -
  have id: "hd (show_nat n) \<noteq> CHR ''e''" for n
    using show_nat_digits [of n] show_nat_not_Nil [of n]
    by (cases "show_nat n") (auto simp: is_digit_def char_code_def)
  then have other: "show_nat n \<noteq> ''e1''" "''e1'' \<noteq> show_nat n" for n by (metis list.sel(1))+
  have "keyed ce_id (creator_events sample_starved_db)"
    using other by (auto simp: keyed_def sample_starved_db_def waiting_event_def comp_def distinct_map
        inj_on_def show_nat_inj sample_creator_event_def) 
  moreover have "awaits_finalization 1000 (waiting_event n) \<and>
      \<not> all_matches_resolved (ce_id (waiting_event n)) sample_starved_db" if "n < 20" for n
    using that by (auto simp: awaits_finalization_def waiting_event_def sample_creator_event_def
        all_matches_resolved_def count_rows_0 sample_starved_db_def sample_match_def intro!: bexI [of _ n])
  then have "filter (\<lambda>x. awaits_finalization 1000 x \<and> \<not> all_matches_resolved (ce_id x) sample_starved_db)
      (map waiting_event [0..<20]) = map waiting_event [0..<20]"
    by (intro filter_True) auto
  then have "20 \<le> length (filter (\<lambda>x. awaits_finalization 1000 x \<and> \<not> all_matches_resolved (ce_id x) sample_starved_db)
      (take 20 (creator_events sample_starved_db)))"
    by (simp add: sample_starved_db_def)
  ultimately have "drop 20 (creator_events (run_ticks [sample_finalizer, sample_finalizer] sample_starved_db)) =
      drop 20 (creator_events sample_starved_db)"
    by (intro finalizer_starves [of sample_starved_db _ 1000]) (simp_all add: sample_finalizer_def)
  moreover have "all_matches_resolved (ce_id sample_creator_event) sample_starved_db"
    using other by (auto simp: all_matches_resolved_def count_rows_0 sample_starved_db_def
        sample_creator_event_def sample_match_def)
  ultimately show ?thesis
    by (simp add: sample_starved_db_def awaits_finalization_def sample_creator_event_def)
qed

end
