(* ===== verification/ContractView.thy ===== *)
theory ContractView
  imports JsText
begin

text \<open>
  Read-only calls of the creator-event contract (\<open>backend/src/contract/contract.service.ts\<close>): the
  retry loop of \<open>viewCall\<close>, and the operations that rebuild their answer from the decoded value.
  The RPC server is a parameter; the operations that only pass a decoded value on under a declared
  type have no definition here, their results are the fields of \<open>contract_view\<close>.
\<close>

section \<open>The view call\<close>

text \<open>
  What one attempt meets: whether the source account is found at the first or the second try, and
  the simulation, which may throw, report an error, have no return value or carry one.
\<close>

datatype simulation = SimThrows | SimFails string | SimEmpty | SimValue jsval

record view_attempt =
  va_account :: bool
  va_account_again :: bool
  va_simulation :: simulation

fun view_loop :: "(nat \<Rightarrow> view_attempt) \<Rightarrow> nat \<Rightarrow> nat \<Rightarrow> jsval option" where
  "view_loop rpc attempt 0 = None"
| "view_loop rpc attempt (Suc left) =
     (let a = rpc attempt in
      if \<not> va_account a \<and> \<not> va_account_again a then None
      else case va_simulation a of
        SimThrows \<Rightarrow> view_loop rpc (Suc attempt) left
      | SimFails _ \<Rightarrow> None
      | SimEmpty \<Rightarrow> None
      | SimValue v \<Rightarrow> Some v)"

definition max_view_attempts :: nat where
  "max_view_attempts = 3"

text \<open>A decoded \<open>null\<close> or missing value is the \<open>null\<close> of the caller.\<close>

definition nullish :: "jsval \<Rightarrow> jsval option" where
  "nullish v = (if v = JUndefined \<or> v = JNull then None else Some v)"

definition view_call :: "string \<Rightarrow> (nat \<Rightarrow> view_attempt) \<Rightarrow> jsval option" where
  "view_call contract_id rpc =
     (if contract_id = [] then None
      else Option.bind (view_loop rpc 0 max_view_attempts) nullish)"

text \<open>A value is the answer of the first attempt that does not throw, among the first three.\<close>

lemma view_loop_value:
  "view_loop rpc n k = Some v \<longleftrightarrow>
    (\<exists>j<k. (\<forall>i<j. (va_account (rpc (n + i)) \<or> va_account_again (rpc (n + i))) \<and>
                va_simulation (rpc (n + i)) = SimThrows) \<and>
       (va_account (rpc (n + j)) \<or> va_account_again (rpc (n + j))) \<and>
       va_simulation (rpc (n + j)) = SimValue v)"
proof (induction k arbitrary: n)
  case (Suc k)
  let ?here = "va_account (rpc n) \<or> va_account_again (rpc n)"
  show ?case
  proof (cases "?here \<and> va_simulation (rpc n) = SimThrows")
    case True
    then have "view_loop rpc n (Suc k) = view_loop rpc (Suc n) k" by (auto simp: Let_def)
    then show ?thesis
      using True Suc.IH [of "Suc n"] unfolding Ex_less_Suc2 by (simp add: All_less_Suc2 del: view_loop.simps)
  next
    case False
    then have "view_loop rpc n (Suc k) = Some v \<longleftrightarrow> ?here \<and> va_simulation (rpc n) = SimValue v"
      by (auto simp: Let_def split: simulation.splits)
    then show ?thesis using False unfolding Ex_less_Suc2 by (auto simp: All_less_Suc2)
  qed
qed simp

section \<open>Answers of declared type\<close>

record chain_event =
  xe_id :: string
  xe_invite_code :: string
  xe_creator :: string
  xe_title :: string
  xe_description :: string
  xe_start :: int
  xe_end :: int
  xe_max_participants :: int
  xe_participants :: int
  xe_active :: bool
  xe_prize_pool :: "string option"
  xe_rewards :: "int list option"
  xe_entry_fee :: "string option"
  xe_category :: "string option"
  xe_banner_url :: "string option"
  xe_finalized :: "bool option"

record chain_match =
  xm_id :: string
  xm_event :: string
  xm_home :: string
  xm_away :: string
  xm_home_score :: "int option"
  xm_away_score :: "int option"
  xm_start :: int
  xm_resolved :: bool
  xm_outcome :: "string option"

text \<open>\<open>xp_correct\<close> is a field the contract type lacks but one caller looks for.\<close>

record chain_participant =
  xp_address :: string
  xp_joined :: int
  xp_predictions :: int
  xp_correct :: "int option"

record chain_winner =
  xw_address :: string
  xw_total_stake :: string
  xw_payout :: string

record chain_config =
  xc_admin :: string
  xc_ai_agent :: string
  xc_treasury :: string
  xc_celo_token :: string
  xc_creation_fee :: string
  xc_paused :: bool

section \<open>Rebuilt answers\<close>

record chain_board_line =
  xb_rank :: jsval
  xb_address :: jsval
  xb_total :: jsnum
  xb_correct :: jsnum
  xb_accuracy :: jsnum
  xb_winner :: bool
  xb_completion :: "jsval option"

text \<open>The properties of an object of the contract; another value has none of those read here.\<close>

fun props_of :: "jsval \<Rightarrow> (string \<times> jsval) list" where
  "props_of (JObj ps) = ps"
| "props_of _ = []"

definition count_prop :: "(string \<times> jsval) list \<Rightarrow> string \<Rightarrow> jsnum" where
  "count_prop ps k = js_number (coalesce (get_prop ps k) (j_int 0))"

definition board_line :: "nat \<Rightarrow> jsval \<Rightarrow> chain_board_line" where
  "board_line i entry =
     (let ps = props_of entry in
      \<lparr>xb_rank = coalesce (get_prop ps ''rank'') (j_int (int i + 1)), xb_address = get_prop ps ''address'',
       xb_total = count_prop ps ''total_predictions'', xb_correct = count_prop ps ''correct_predictions'',
       xb_accuracy = count_prop ps ''accuracy_percentage'',
       xb_winner = truthy (coalesce (get_prop ps ''is_winner'') (JBool False)),
       xb_completion = nullish (get_prop ps ''completion_time'')\<rparr>)"

definition get_event_leaderboard :: "jsval option \<Rightarrow> chain_board_line list" where
  "get_event_leaderboard answer =
     (case answer of
        Some (JArr entries) \<Rightarrow> map (\<lambda>(i, x). board_line i x) (enumerate 0 entries)
      | _ \<Rightarrow> [])"

definition view_creation_fee :: "jsval option \<Rightarrow> jsval" where
  "view_creation_fee answer = (case answer of None \<Rightarrow> JStr ''0'' | Some v \<Rightarrow> v)"

definition is_verified :: "jsval option \<Rightarrow> jsval" where
  "is_verified answer = (case answer of None \<Rightarrow> JBool False | Some v \<Rightarrow> v)"

record event_statistics =
  xs_event :: string
  xs_participants :: jsnum
  xs_matches :: jsnum
  xs_predictions :: jsnum
  xs_all_resolved :: bool
  xs_winners_verified :: bool
  xs_winners :: jsnum

text \<open>
  An id that is a number is sent as \<open>u64\<close>; the conversion of a fraction or of a number outside the
  range throws.
\<close>

definition u64_of :: "jsnum \<Rightarrow> int option" where
  "u64_of x = (case x of Fin r \<Rightarrow> if r = of_int \<lfloor>r\<rfloor> \<and> 0 \<le> r \<and> r < 2 ^ 64 then Some \<lfloor>r\<rfloor> else None | _ \<Rightarrow> None)"

definition either_prop :: "(string \<times> jsval) list \<Rightarrow> string \<Rightarrow> string \<Rightarrow> jsval \<Rightarrow> jsval" where
  "either_prop ps k1 k2 d = coalesce (get_prop ps k1) (coalesce (get_prop ps k2) d)"

definition statistics_of :: "string \<Rightarrow> (string \<times> jsval) list \<Rightarrow> event_statistics" where
  "statistics_of event_id ps =
     (let num = (\<lambda>k1 k2. js_number (either_prop ps k1 k2 (j_int 0)));
          flag = (\<lambda>k1 k2. truthy (either_prop ps k1 k2 (JBool False))) in
      \<lparr>xs_event = (case either_prop ps ''eventId'' ''event_id'' (JStr event_id) of
           JStr t \<Rightarrow> t | JNum x \<Rightarrow> show_num x | _ \<Rightarrow> event_id),
       xs_participants = num ''participantCount'' ''participant_count'',
       xs_matches = num ''matchCount'' ''match_count'',
       xs_predictions = num ''totalPredictions'' ''total_predictions'',
       xs_all_resolved = flag ''allMatchesResolved'' ''all_matches_resolved'',
       xs_winners_verified = flag ''winnersVerified'' ''winners_verified'',
       xs_winners = num ''winnerCount'' ''winner_count''\<rparr>)"

text \<open>\<open>view n\<close> is the answer of the contract to the call with the argument \<open>n\<close>.\<close>

definition get_event_statistics ::
  "(int \<Rightarrow> jsval option) \<Rightarrow> string \<Rightarrow> event_statistics option result" where
  "get_event_statistics view event_id =
     (case number_of_text event_id of
        Fin r \<Rightarrow>
          (case u64_of (Fin r) of
             None \<Rightarrow> Inl (InternalError ''RangeError'')
           | Some n \<Rightarrow>
               (case view n of
                  None \<Rightarrow> Inr None
                | Some v \<Rightarrow> Inr (if truthy v then Some (statistics_of event_id (props_of v)) else None)))
      | _ \<Rightarrow> Inr None)"

record distribution =
  ds_team_a :: jsnum
  ds_team_b :: jsnum
  ds_draw :: jsnum

definition no_distribution :: distribution where
  "no_distribution = \<lparr>ds_team_a = Fin 0, ds_team_b = Fin 0, ds_draw = Fin 0\<rparr>"

definition get_prediction_distribution ::
  "(int \<Rightarrow> jsval option) \<Rightarrow> string \<Rightarrow> distribution result" where
  "get_prediction_distribution view match_id =
     (case number_of_text match_id of
        Fin r \<Rightarrow>
          (case u64_of (Fin r) of
             None \<Rightarrow> Inl (InternalError ''RangeError'')
           | Some n \<Rightarrow>
               (case view n of
                  Some (JArr (a # b # d # rest)) \<Rightarrow>
                    Inr \<lparr>ds_team_a = js_number (coalesce a (j_int 0)),
                         ds_team_b = js_number (coalesce b (j_int 0)),
                         ds_draw = js_number (coalesce d (j_int 0))\<rparr>
                | _ \<Rightarrow> Inr no_distribution))
      | _ \<Rightarrow> Inr no_distribution)"

section \<open>The service as its callers see it\<close>

text \<open>
  An address that is not one makes \<open>getUserPredictions\<close> and \<open>isVerified\<close> throw; the other reads
  answer null or an empty list when the call fails.
\<close>

record contract_view =
  vw_event :: "string \<Rightarrow> chain_event option"
  vw_event_by_code :: "string \<Rightarrow> chain_event option"
  vw_matches :: "string \<Rightarrow> chain_match list"
  vw_user_predictions :: "string \<Rightarrow> string \<Rightarrow> (string \<times> jsval) list list result"
  vw_participants :: "string \<Rightarrow> chain_participant list"
  vw_winners :: "string \<Rightarrow> chain_winner list"
  vw_board :: "string \<Rightarrow> chain_board_line list"
  vw_config :: "chain_config option"
  vw_verified :: "string \<Rightarrow> bool result"
  vw_statistics :: "string \<Rightarrow> event_statistics option result"
  vw_distribution :: "string \<Rightarrow> distribution result"

end
