(* ===== verification/EventSearch.thy ===== *)
theory EventSearch
  imports Indexer Markets SortFacts
begin

text \<open>
  The search over creator events (\<open>searchEvents\<close> in
  \<open>backend/src/creator-events/creator-events.service.ts\<close>): the query with its filters and order, and
  the highlighting of the found texts.  The full-text match and its rank are functions of the
  database, parameters here.
\<close>

section \<open>Escaping\<close>

definition html_char :: "char \<Rightarrow> string" where
  "html_char c =
     (if c = CHR ''&'' then ''&amp;''
      else if c = CHR ''<'' then ''&lt;''
      else if c = CHR ''>'' then ''&gt;''
      else if c = CHR 0x22 then ''&quot;''
      else if c = CHR 0x27 then ''&#39;'' else [c])"

definition escape_html :: "string \<Rightarrow> string" where
  "escape_html value = concat (map html_char value)"

definition escape_like_pattern :: "string \<Rightarrow> string" where
  "escape_like_pattern value =
     concat (map (\<lambda>c. if c = CHR 0x5C \<or> c = CHR ''%'' \<or> c = CHR ''_'' then [CHR 0x5C, c] else [c]) value)"

section \<open>Highlighting\<close>

text \<open>\<open>text.split(/\s+/)\<close>: the pieces between runs of white space, empty ones at the ends included.\<close>

fun split_space :: "string \<Rightarrow> string list" where
  "split_space [] = [[]]"
| "split_space (c # s) =
     (if is_space c then
        (if s \<noteq> [] \<and> is_space (hd s) then split_space s else [] # split_space s)
      else (case split_space s of [] \<Rightarrow> [[c]] | w # ws \<Rightarrow> (c # w) # ws))"

text \<open>The elements of a \<open>Set\<close> in the order of their first insertion.\<close>

definition unique :: "'a list \<Rightarrow> 'a list" where
  "unique xs = rev (remdups (rev xs))"

definition get_highlight_terms :: "string \<Rightarrow> string list" where
  "get_highlight_terms search_term =
     unique (filter (\<lambda>t. t \<noteq> [])
       (map (\<lambda>t. trim (filter (\<lambda>c. c \<noteq> CHR 0x22 \<and> c \<noteq> CHR 0x27) t)) (split_space (to_lower search_term))))"

text \<open>
  The regular expression is the alternation of the quoted terms, so of literal texts, compared
  without case: at each position the first term that fits is taken.
\<close>

definition starts_like :: "string \<Rightarrow> string \<Rightarrow> bool" where
  "starts_like s t \<longleftrightarrow> to_lower (take (length t) s) = to_lower t"

definition first_term :: "string list \<Rightarrow> string \<Rightarrow> nat option" where
  "first_term terms s = map_option length (List.find (\<lambda>t. t \<noteq> [] \<and> starts_like s t) terms)"

lemma first_term_Some:
  assumes "first_term terms s = Some n"
  shows "0 < n" and "n \<le> length s"
    and "\<exists>t\<in>set terms. to_lower (take n s) = to_lower t"
proof -
  obtain t where t: "List.find (\<lambda>t. t \<noteq> [] \<and> starts_like s t) terms = Some t" "n = length t"
    using assms by (auto simp: first_term_def)
  then have "t \<in> set terms" "t \<noteq> []" "to_lower (take (length t) s) = to_lower t"
    by (auto simp: find_Some_iff starts_like_def)
  moreover from this(3) have "length (take (length t) s) = length t" by (metis length_map to_lower_def)
  ultimately show "0 < n" "n \<le> length s" "\<exists>t\<in>set terms. to_lower (take n s) = to_lower t"
    using t(2) by auto
qed

function mark_terms :: "string list \<Rightarrow> string \<Rightarrow> string" where
  "mark_terms terms [] = []"
| "mark_terms terms (c # s) =
     (case first_term terms (c # s) of
        None \<Rightarrow> c # mark_terms terms s
      | Some n \<Rightarrow> ''<mark>'' @ take n (c # s) @ ''</mark>'' @ mark_terms terms (drop n (c # s)))"
  by pat_completeness auto
termination
  by (relation "measure (\<lambda>(terms, s). length s)") (auto dest: first_term_Some(1))

definition highlight_matches :: "string \<Rightarrow> string \<Rightarrow> string" where
  "highlight_matches value search_term =
     (let escaped = escape_html value; terms = get_highlight_terms search_term in
      if terms = [] then escaped else mark_terms terms escaped)"

section \<open>The query\<close>

datatype search_status = SsActive | SsFinished | SsUpcoming | SsAll

record search_query =
  sq_q :: "string option"
  sq_page :: nat
  sq_limit :: nat
  sq_status :: search_status
  sq_creator :: "string option"

fun status_filter :: "timestamp \<Rightarrow> search_status \<Rightarrow> creator_event \<Rightarrow> bool" where
  "status_filter t0 SsActive x = (ce_active x \<and> \<not> ce_cancelled x)"
| "status_filter t0 SsFinished x = (end_time x < t0 \<or> \<not> ce_active x)"
| "status_filter t0 SsUpcoming x = (start_time x > t0)"
| "status_filter t0 SsAll x = True"

record search_highlights =
  sh_title :: string
  sh_description :: string
  sh_creator :: string

text \<open>A result carries the columns of its row, its rank and the highlighted texts.\<close>

record search_result =
  sr_event :: creator_event
  sr_rank :: rat
  sr_highlights :: search_highlights

definition to_search_result :: "rat \<Rightarrow> string \<Rightarrow> creator_event \<Rightarrow> search_result" where
  "to_search_result rank search_term x =
     \<lparr>sr_event = x, sr_rank = rank,
      sr_highlights =
        \<lparr>sh_title = highlight_matches (ce_title x) search_term,
         sh_description = highlight_matches (ce_description x) search_term,
         sh_creator = highlight_matches (creator_address x) search_term\<rparr>\<rparr>"

record search_response =
  sp_data :: "search_result list"
  sp_total :: nat
  sp_page :: nat
  sp_limit :: nat
  sp_total_pages :: int
  sp_query :: string

definition creator_condition :: "string option \<Rightarrow> creator_event \<Rightarrow> bool" where
  "creator_condition creator x =
     (case creator of
        None \<Rightarrow> True
      | Some c \<Rightarrow> trim c = [] \<or> to_lower (creator_address x) = to_lower (trim c))"

definition total_pages :: "nat \<Rightarrow> nat \<Rightarrow> int" where
  "total_pages n limit = \<lceil>of_nat n / of_nat limit :: rat\<rceil>"

text \<open>\<open>fts q x\<close>: the row matches the web-search query; \<open>rank q x\<close>: its \<open>ts_rank_cd\<close>.\<close>

definition search_condition ::
  "(string \<Rightarrow> creator_event \<Rightarrow> bool) \<Rightarrow> timestamp \<Rightarrow> search_query \<Rightarrow> string \<Rightarrow> creator_event \<Rightarrow> bool" where
  "search_condition fts t0 q term x \<longleftrightarrow>
     (fts term x \<or> ilike (search_pattern (escape_like_pattern term)) (creator_address x)) \<and>
     status_filter t0 (sq_status q) x \<and> creator_condition (sq_creator q) x"

definition search_events ::
  "(string \<Rightarrow> creator_event \<Rightarrow> bool) \<Rightarrow> (string \<Rightarrow> creator_event \<Rightarrow> rat) \<Rightarrow> timestamp \<Rightarrow> search_query
    \<Rightarrow> event_db \<Rightarrow> search_response" where
  "search_events fts rank t0 q s =
     (let term = (case sq_q q of None \<Rightarrow> [] | Some t \<Rightarrow> trim t) in
      if term = [] then
        \<lparr>sp_data = [], sp_total = 0, sp_page = sq_page q, sp_limit = sq_limit q, sp_total_pages = 0,
         sp_query = term\<rparr>
      else
        (let rows = filter (search_condition fts t0 q term) (creator_events s);
             ordered = sort_desc (\<lambda>x. (rank term x, ce_participants x, ce_created_at x)) rows in
         \<lparr>sp_data = map (\<lambda>x. to_search_result (rank term x) term x)
            (page_of (sq_page q) (sq_limit q) ordered),
          sp_total = length rows, sp_page = sq_page q, sp_limit = sq_limit q,
          sp_total_pages = total_pages (length rows) (sq_limit q), sp_query = term\<rparr>))"

section \<open>Lemmas\<close>

text \<open>A text cut into pieces, some of them marked.\<close>

definition show_pieces :: "(bool \<times> string) list \<Rightarrow> string" where
  "show_pieces ps = concat (map (\<lambda>(marked, t). if marked then ''<mark>'' @ t @ ''</mark>'' else t) ps)"

definition marks_of :: "string list \<Rightarrow> (bool \<times> string) list \<Rightarrow> bool" where
  "marks_of terms ps \<longleftrightarrow>
     (\<forall>(marked, t)\<in>set ps. marked \<longrightarrow> (\<exists>u\<in>set terms. to_lower t = to_lower u))"

lemma mark_terms_pieces:
  "\<exists>ps. concat (map snd ps) = s \<and> mark_terms terms s = show_pieces ps \<and> marks_of terms ps"
proof (induction terms s rule: mark_terms.induct)
  case (1 terms)
  show ?case by (rule exI [of _ "[]"]) (simp add: show_pieces_def marks_of_def)
next
  case (2 terms c s)
  show ?case
  proof (cases "first_term terms (c # s)")
    case None
    with "2.IH"(1) obtain ps where
      "concat (map snd ps) = s" "mark_terms terms s = show_pieces ps" "marks_of terms ps" by blast
    with None show ?thesis
      by (intro exI [of _ "(False, [c]) # ps"]) (simp add: show_pieces_def marks_of_def)
  next
    case (Some n)
    with "2.IH"(2) obtain ps where
      "concat (map snd ps) = drop n (c # s)" "mark_terms terms (drop n (c # s)) = show_pieces ps"
      "marks_of terms ps" by blast
    with Some first_term_Some(3) [OF Some] show ?thesis
      by (intro exI [of _ "(True, take n (c # s)) # ps"]) (simp add: show_pieces_def marks_of_def)
  qed
qed

lemma html_safe: "set (escape_html v) \<inter> {CHR ''<'', CHR ''>'', CHR 0x22, CHR 0x27} = {}"
  by (auto simp: escape_html_def html_char_def split: if_splits)

text \<open>The quoted text, as a pattern, stands for itself.\<close>

lemma like_match_escaped_prefix:
  "like_match (escape_like_pattern t @ ''%'') s \<longleftrightarrow> starts_with s t"
proof (induction t arbitrary: s)
  case Nil
  have "like_match ''%'' s" for s by (induction s) (simp_all add: like_match.simps(2))
  then show ?case by (simp add: starts_with_def escape_like_pattern_def)
next
  case (Cons c t)
  have IH: "like_match (concat (map (\<lambda>c. if c = CHR 0x5C \<or> c = CHR ''%'' \<or> c = CHR ''_'' then [CHR 0x5C, c] else [c]) t) @ ''%'') s'
      \<longleftrightarrow> starts_with s' t" for s'
    using Cons unfolding escape_like_pattern_def .
  show ?case
    by (cases s) (auto simp: escape_like_pattern_def like_match.simps(2) IH starts_with_def)
qed

lemma like_match_escaped:
  "like_match (search_pattern (escape_like_pattern t)) s \<longleftrightarrow> has_substring s t"
proof (induction s)
  case Nil
  show ?case
    using like_match_escaped_prefix [of t "[]"]
    by (auto simp: search_pattern_def like_match.simps(2) starts_with_def)
next
  case (Cons x s)
  then show ?case
    using like_match_escaped_prefix [of t "x # s"]
    by (simp add: search_pattern_def like_match.simps(2) [of "CHR ''%''"])
qed

lemma lower_char_special:
  assumes "char_code x = 92 \<or> char_code x = 37 \<or> char_code x = 95"
  shows "lower_char c = x \<longleftrightarrow> c = x"
proof -
  have inj: "a = b \<longleftrightarrow> char_code a = char_code b" for a b by (simp add: char_code_def)
  have "char_code (lower_char c) =
      (if (65 \<le> char_code c \<and> char_code c \<le> 90) \<or> (192 \<le> char_code c \<and> char_code c \<le> 222 \<and> char_code c \<noteq> 215)
       then char_code c + 32 else char_code c)"
    by (simp add: lower_char_def Let_def char_code_char_of)
  with assms show ?thesis unfolding inj by (auto split: if_splits)
qed

lemma to_lower_escape: "to_lower (escape_like_pattern t) = escape_like_pattern (to_lower t)"
proof (induction t)
  case (Cons c t)
  have "lower_char c = CHR 0x5C \<longleftrightarrow> c = CHR 0x5C" "lower_char c = CHR ''%'' \<longleftrightarrow> c = CHR ''%''"
    "lower_char c = CHR ''_'' \<longleftrightarrow> c = CHR ''_''"
    by (rule lower_char_special, simp add: char_code_def)+
  moreover have "lower_char (CHR 0x5C) = CHR 0x5C" "lower_char CHR ''%'' = CHR ''%''"
    "lower_char CHR ''_'' = CHR ''_''" by code_simp+
  ultimately show ?case using Cons by (simp add: escape_like_pattern_def to_lower_def)
qed (simp add: escape_like_pattern_def to_lower_def)

lemma ilike_literal:
  "ilike (search_pattern (escape_like_pattern t)) s \<longleftrightarrow> has_substring (to_lower s) (to_lower t)"
proof -
  have "to_lower ''%'' = ''%''" by code_simp
  then have "to_lower (search_pattern u) = search_pattern (to_lower u)" for u
    by (simp add: search_pattern_def to_lower_def)
  then show ?thesis by (simp add: ilike_def to_lower_escape like_match_escaped)
qed

section \<open>Properties\<close>

text \<open>
  Highlighting is safe and faithful: the shown text is the escaped column, cut into pieces of
  which some are wrapped in a mark; each marked piece is one of the search terms up to case, and the
  column contributes no angle bracket or quote of its own.
\<close>

theorem highlight_only_marks:
  "\<exists>ps. concat (map snd ps) = escape_html value \<and> highlight_matches value q = show_pieces ps \<and>
     (\<forall>(marked, t)\<in>set ps. marked \<longrightarrow> (\<exists>u\<in>set (get_highlight_terms q). to_lower t = to_lower u)) \<and>
     set (concat (map snd ps)) \<inter> {CHR ''<'', CHR ''>'', CHR 0x22, CHR 0x27} = {}"
proof (cases "get_highlight_terms q = []")
  case True
  then show ?thesis
    using html_safe [of "value"]
    by (intro exI [of _ "[(False, escape_html value)]"]) (simp add: highlight_matches_def show_pieces_def)
next
  case False
  obtain ps where ps: "concat (map snd ps) = escape_html value"
    "mark_terms (get_highlight_terms q) (escape_html value) = show_pieces ps"
    "marks_of (get_highlight_terms q) ps"
    using mark_terms_pieces by blast
  then show ?thesis
    using False html_safe [of "value"] unfolding highlight_matches_def Let_def marks_of_def
    by (intro exI [of _ ps]) simp
qed

theorem highlight_only_marks_witness:
  "highlight_matches ''a<b Cup'' ''cup'' = ''a&lt;b <mark>Cup</mark>'' \<and>
   (\<exists>ps. concat (map snd ps) = ''a&lt;b Cup'' \<and> ''a&lt;b <mark>Cup</mark>'' = show_pieces ps)"
proof -
  have "highlight_matches ''a<b Cup'' ''cup'' = ''a&lt;b <mark>Cup</mark>''"
    "escape_html ''a<b Cup'' = ''a&lt;b Cup''" by code_simp+
  then show ?thesis using highlight_only_marks [of "''a<b Cup''" "''cup''"] by auto
qed

text \<open>
  The matching runs on the escaped text, so a term can hit inside an entity and break it: a search
  for \<open>amp\<close> shows the title \<open>R&D\<close> as the text \<open>R&amp;D\<close>.
\<close>

lemma highlight_breaks_entity: "highlight_matches ''R&D'' ''amp'' = ''R&<mark>amp</mark>;D''"
  by code_simp

text \<open>
  The search returns, page by page, exactly the events that match the text query, or whose
  creator address contains the trimmed search text literally (wildcards included, case ignored), and
  that pass the status and creator filters: going through the pages shows each such row as often as
  it is stored, by falling rank; a blank search returns nothing.
\<close>

theorem search_pages_complete:
  assumes "sq_q q = Some t" and "trim t \<noteq> []" and "0 < sq_limit q"
  shows "mset (concat (map (\<lambda>p. map sr_event (sp_data (search_events fts rank t0 (q\<lparr>sq_page := p\<rparr>) s)))
        [1..<Suc (sp_total (search_events fts rank t0 q s))])) =
      filter_mset (\<lambda>x. (fts (trim t) x \<or> has_substring (to_lower (creator_address x)) (to_lower (trim t))) \<and>
        status_filter t0 (sq_status q) x \<and> creator_condition (sq_creator q) x) (mset (creator_events s)) \<and>
    sorted_wrt (\<lambda>a b. sr_rank a \<ge> sr_rank b) (sp_data (search_events fts rank t0 q s))"
proof -
  define rows where "rows = filter (search_condition fts t0 q (trim t)) (creator_events s)"
  define ordered where
    "ordered = sort_desc (\<lambda>x. (rank (trim t) x, ce_participants x, ce_created_at x)) rows"
  have same: "search_condition fts t0 (q\<lparr>sq_page := p\<rparr>) = search_condition fts t0 q" for p
    by (simp add: search_condition_def fun_eq_iff)
  have data: "map sr_event (sp_data (search_events fts rank t0 (q\<lparr>sq_page := p\<rparr>) s)) =
      page_of p (sq_limit q) ordered" for p
    using assms(1,2)
    by (simp add: search_events_def Let_def same rows_def ordered_def to_search_result_def comp_def)
  have count: "sp_total (search_events fts rank t0 q s) = length ordered"
    using assms(1,2) by (simp add: search_events_def Let_def rows_def ordered_def)
  have all: "concat (map (\<lambda>p. page_of p (sq_limit q) ordered) [1..<Suc (length ordered)]) = ordered"
    using assms(3) by (intro all_pages) simp_all
  have "mset ordered = mset rows" unfolding ordered_def by (rule mset_sort_desc)
  moreover have "mset rows = filter_mset (\<lambda>x. (fts (trim t) x \<or> has_substring (to_lower (creator_address x)) (to_lower (trim t))) \<and>
        status_filter t0 (sq_status q) x \<and> creator_condition (sq_creator q) x) (mset (creator_events s))"
    by (simp add: rows_def search_condition_def ilike_literal)
  moreover have "sorted_wrt (\<lambda>a b. rank (trim t) a \<ge> rank (trim t) b) ordered"
    unfolding ordered_def
    by (rule sorted_wrt_mono_rel [OF _ sorted_sort_desc]) (auto simp: less_eq_prod_def)
  then have "sorted_wrt (\<lambda>a b. rank (trim t) a \<ge> rank (trim t) b) (page_of (sq_page q) (sq_limit q) ordered)"
    unfolding page_of_def by (intro sorted_wrt_take sorted_wrt_drop)
  then have "sorted_wrt (\<lambda>a b. sr_rank a \<ge> sr_rank b) (sp_data (search_events fts rank t0 q s))"
    using assms(1,2)
    by (simp add: search_events_def Let_def rows_def [symmetric] ordered_def [symmetric] sorted_wrt_map to_search_result_def)
  ultimately show ?thesis unfolding data count all by simp
qed

definition sample_search :: search_query where
  "sample_search = \<lparr>sq_q = Some '' cup '', sq_page = 1, sq_limit = 20, sq_status = SsActive, sq_creator = None\<rparr>"

definition title_matches :: "string \<Rightarrow> creator_event \<Rightarrow> bool" where
  "title_matches t x = has_substring (to_lower (ce_title x)) (to_lower t)"

theorem search_pages_complete_witness:
  "mset (concat (map (\<lambda>p. map sr_event (sp_data (search_events title_matches (\<lambda>t x. 1) 1000
        (sample_search\<lparr>sq_page := p\<rparr>) sample_event_db)))
      [1..<Suc (sp_total (search_events title_matches (\<lambda>t x. 1) 1000 sample_search sample_event_db))])) =
    {# sample_creator_event #}"
proof -
  have t: "trim '' cup '' = ''cup''" "to_lower ''cup'' = ''cup''" "to_lower ''Cup'' = ''cup''" by code_simp+
  have "sq_q sample_search = Some '' cup ''" "trim '' cup '' \<noteq> []" "0 < sq_limit sample_search"
    by (simp_all add: sample_search_def t)
  note search_pages_complete [OF this, of title_matches "\<lambda>t x. 1" 1000 sample_event_db]
  then show ?thesis
    by (simp add: t title_matches_def sample_event_db_def empty_event_db_def sample_creator_event_def
        sample_search_def creator_condition_def starts_with_def)
qed

end
