(* ===== verification/CreatorEvents.thy ===== *)
theory CreatorEvents
  imports EventSearch ContractView
begin

text \<open>
  The reads of \<open>backend/src/creator-events/creator-events.service.ts\<close> that join the contract with
  the tables: participants, matches, predictions and scores of a user, statistics, payouts and
  rankings of an event; and \<open>utils/prediction.util.ts\<close>.
\<close>

section \<open>Predictions of the contract\<close>

record normalized_prediction =
  np_id :: string
  np_match :: string
  np_outcome :: string
  np_predicted_at :: jsnum
  np_correct :: "bool option"

fun normalize_string :: "jsval \<Rightarrow> string" where
  "normalize_string (JStr s) = s"
| "normalize_string (JNum x) = show_num x"
| "normalize_string _ = []"

text \<open>\<open>raw.a ?? raw.b ?? raw.c\<close>; the last value is taken as it is.\<close>

definition first_prop :: "(string \<times> jsval) list \<Rightarrow> string list \<Rightarrow> jsval" where
  "first_prop ps ks = foldr (\<lambda>k v. coalesce (get_prop ps k) v) ks JUndefined"

definition normalize_contract_prediction :: "(string \<times> jsval) list \<Rightarrow> normalized_prediction" where
  "normalize_contract_prediction ps =
     \<lparr>np_id = normalize_string (first_prop ps [''predictionId'', ''prediction_id'', ''id'']),
      np_match = normalize_string (first_prop ps [''matchId'', ''match_id'']),
      np_outcome = normalize_string (first_prop ps [''chosenOutcome'', ''predictedOutcome'', ''predicted_outcome'']),
      np_predicted_at = js_number (coalesce (get_prop ps ''predictedAt'')
        (coalesce (get_prop ps ''predicted_at'') (j_int 0))),
      np_correct = (case first_prop ps [''isCorrect'', ''is_correct''] of JBool b \<Rightarrow> Some b | _ \<Rightarrow> None)\<rparr>"

definition resolve_correctness :: "normalized_prediction \<Rightarrow> bool \<Rightarrow> string option \<Rightarrow> bool option" where
  "resolve_correctness p resolved outcome =
     (case np_correct p of
        Some b \<Rightarrow> Some b
      | None \<Rightarrow>
          (if \<not> resolved then None
           else case nonempty outcome of None \<Rightarrow> None | Some r \<Rightarrow> Some (r = np_outcome p)))"

definition percent :: "nat \<Rightarrow> nat \<Rightarrow> int" where
  "percent part whole = (if whole > 0 then math_round (of_nat part / of_nat whole * 100) else 0)"

definition event_not_found :: "string \<Rightarrow> http_error" where
  "event_not_found event_id = NotFound (''Event '' @ event_id @ '' not found'')"

section \<open>Events\<close>

record match_preview =
  pv_match :: string
  pv_home :: string
  pv_away :: string
  pv_start :: int

definition preview_of :: "chain_match \<Rightarrow> match_preview" where
  "preview_of m = \<lparr>pv_match = xm_id m, pv_home = xm_home m, pv_away = xm_away m, pv_start = xm_start m\<rparr>"

record enriched_event =
  en_event :: chain_event
  en_match_count :: nat
  en_preview :: "match_preview list"
  en_winner_count :: nat
  en_creator_verified :: bool

definition get_event_by_id :: "contract_view \<Rightarrow> string \<Rightarrow> enriched_event result" where
  "get_event_by_id v event_id =
     (case vw_event v event_id of
        None \<Rightarrow> Inl (event_not_found event_id)
      | Some x \<Rightarrow>
          (case vw_verified v (xe_creator x) of
             Inl err \<Rightarrow> Inl err
           | Inr verified \<Rightarrow>
               Inr \<lparr>en_event = x, en_match_count = length (vw_matches v event_id),
                    en_preview = map preview_of (take 5 (vw_matches v event_id)),
                    en_winner_count = length (vw_winners v event_id), en_creator_verified = verified\<rparr>))"

definition get_contract_config :: "contract_view \<Rightarrow> chain_config" where
  "get_contract_config v =
     (case vw_config v of
        None \<Rightarrow> \<lparr>xc_admin = [], xc_ai_agent = [], xc_treasury = [], xc_celo_token = [],
                 xc_creation_fee = ''0'', xc_paused = False\<rparr>
      | Some c \<Rightarrow> c)"

datatype invite_status = InviteActive | InviteFull | InviteCancelled

definition invite_status_of :: "chain_event \<Rightarrow> invite_status" where
  "invite_status_of x =
     (if \<not> xe_active x then InviteCancelled
      else if xe_participants x \<ge> xe_max_participants x then InviteFull else InviteActive)"

record invited_event =
  ie_event :: chain_event
  ie_match_count :: nat
  ie_status :: invite_status
  ie_preview :: "match_preview list"

definition get_event_by_invite_code :: "contract_view \<Rightarrow> string \<Rightarrow> invited_event result" where
  "get_event_by_invite_code v code =
     (case vw_event_by_code v code of
        None \<Rightarrow> Inl (NotFound (''Event with invite code '' @ code @ '' not found''))
      | Some x \<Rightarrow>
          (let ms = vw_matches v (xe_id x) in
           Inr \<lparr>ie_event = x, ie_match_count = length ms, ie_status = invite_status_of x,
                ie_preview = map preview_of (take 5 ms)\<rparr>))"

section \<open>Participants\<close>

record participant_stats =
  ps_address :: string
  ps_joined :: int
  ps_predictions :: int
  ps_correct :: int
  ps_accuracy :: int
  ps_rank :: nat

datatype participant_sort = ByJoined | ByScore | ByAddress

definition participant_of :: "nat \<Rightarrow> chain_participant \<Rightarrow> participant_stats" where
  "participant_of i p =
     (let correct = (case xp_correct p of None \<Rightarrow> 0 | Some n \<Rightarrow> n) in
      \<lparr>ps_address = xp_address p, ps_joined = xp_joined p, ps_predictions = xp_predictions p,
       ps_correct = correct,
       ps_accuracy = (if xp_predictions p > 0
         then math_round (of_int correct / of_int (xp_predictions p) * 100) else 0),
       ps_rank = i + 1\<rparr>)"

text \<open>\<open>coll\<close> is the rank of a text in the order of \<open>localeCompare\<close>.\<close>

definition sort_participants ::
  "(string \<Rightarrow> int) \<Rightarrow> participant_sort \<Rightarrow> bool \<Rightarrow> participant_stats list \<Rightarrow> participant_stats list" where
  "sort_participants coll by asc ps =
     (let key = (\<lambda>p. case by of ByJoined \<Rightarrow> ps_joined p | ByScore \<Rightarrow> ps_accuracy p
                     | ByAddress \<Rightarrow> coll (ps_address p)) in
      if asc then sort_key key ps else sort_desc key ps)"

definition ranked :: "participant_stats list \<Rightarrow> participant_stats list" where
  "ranked ps = map (\<lambda>(i, p). p\<lparr>ps_rank := i + 1\<rparr>) (enumerate 0 ps)"

record participants_page =
  pp_data :: "participant_stats list"
  pp_total :: nat
  pp_page :: nat
  pp_limit :: nat
  pp_total_pages :: int

definition get_participants ::
  "(string \<Rightarrow> int) \<Rightarrow> contract_view \<Rightarrow> string \<Rightarrow> nat \<Rightarrow> nat \<Rightarrow> participant_sort \<Rightarrow> bool \<Rightarrow> participants_page" where
  "get_participants coll v event_id page limit by asc =
     (let stats = map (\<lambda>(i, p). participant_of i p) (enumerate 0 (vw_participants v event_id));
          sorted = ranked (sort_participants coll by asc stats) in
      \<lparr>pp_data = page_of page limit sorted, pp_total = length sorted, pp_page = page, pp_limit = limit,
       pp_total_pages = total_pages (length sorted) limit\<rparr>)"

section \<open>Matches\<close>

datatype match_status = MtPending | MtCompleted | MtAll

fun match_passes :: "match_status \<Rightarrow> chain_match \<Rightarrow> bool" where
  "match_passes MtPending m = (\<not> xm_resolved m)"
| "match_passes MtCompleted m = xm_resolved m"
| "match_passes MtAll m = True"

text \<open>Both sort keys, the time of the match and of its creation, are the start time.\<close>

definition sort_matches :: "bool \<Rightarrow> chain_match list \<Rightarrow> chain_match list" where
  "sort_matches asc ms = (if asc then sort_key xm_start ms else sort_desc xm_start ms)"

definition get_event_matches ::
  "contract_view \<Rightarrow> string \<Rightarrow> match_status \<Rightarrow> bool \<Rightarrow> (chain_match \<times> nat) list result" where
  "get_event_matches v event_id status asc =
     (case vw_event v event_id of
        None \<Rightarrow> Inl (event_not_found event_id)
      | Some _ \<Rightarrow>
          Inr (map (\<lambda>m. (m, 0)) (sort_matches asc (filter (match_passes status) (vw_matches v event_id)))))"

text \<open>An event id of a request as the \<open>bigint\<close> key of the table; another text is a query error.\<close>

definition event_of_request :: "string \<Rightarrow> event_db \<Rightarrow> creator_event option result" where
  "event_of_request event_id s =
     (case int8_of (number_of_text event_id) of
        None \<Rightarrow> Inl query_error
      | Some n \<Rightarrow> Inr (event_by_chain_id n s))"

definition get_upcoming_matches :: "timestamp \<Rightarrow> string \<Rightarrow> event_db \<Rightarrow> match_row list result" where
  "get_upcoming_matches t0 event_id s =
     (case event_of_request event_id s of
        Inl err \<Rightarrow> Inl err
      | Inr None \<Rightarrow> Inl (event_not_found event_id)
      | Inr (Some x) \<Rightarrow>
          Inr (sort_key match_time
            (filter (\<lambda>m. mt_event m = ce_id x \<and> match_time m > t0 \<and> \<not> result_submitted m) (event_matches s))))"

section \<open>Predictions of a user\<close>

record shown_prediction =
  sw_prediction :: normalized_prediction
  sw_match :: chain_match
  sw_result :: "string option"
  sw_correct :: "bool option"

record prediction_score =
  sc_total :: nat
  sc_correct :: nat
  sc_accuracy :: int
  sc_remaining :: nat

text \<open>The \<open>Map\<close> of the matches by id keeps the last of two with the same id.\<close>

definition last_match :: "chain_match list \<Rightarrow> string \<Rightarrow> chain_match option" where
  "last_match ms k = find_one (\<lambda>m. xm_id m = k) (rev ms)"

definition show_prediction :: "chain_match list \<Rightarrow> (string \<times> jsval) list \<Rightarrow> shown_prediction option" where
  "show_prediction ms raw =
     (let p = normalize_contract_prediction raw in
      map_option (\<lambda>m. \<lparr>sw_prediction = p, sw_match = m,
          sw_result = (if xm_resolved m then xm_outcome m else None),
          sw_correct = resolve_correctness p (xm_resolved m) (xm_outcome m)\<rparr>)
        (last_match ms (np_match p)))"

definition get_user_predictions_for_event ::
  "contract_view \<Rightarrow> string \<Rightarrow> string \<Rightarrow> (prediction_score \<times> shown_prediction list) result" where
  "get_user_predictions_for_event v event_id address =
     (case vw_event v event_id of
        None \<Rightarrow> Inl (event_not_found event_id)
      | Some _ \<Rightarrow>
          (case vw_user_predictions v address event_id of
             Inl err \<Rightarrow> Inl err
           | Inr raws \<Rightarrow>
               (let ms = vw_matches v event_id;
                    shown = List.map_filter (show_prediction ms) raws;
                    resolved = filter (\<lambda>w. xm_resolved (sw_match w)) shown;
                    correct = length (filter (\<lambda>w. sw_correct w = Some True) resolved);
                    predicted = map (\<lambda>w. np_match (sw_prediction w)) shown in
                Inr (\<lparr>sc_total = length shown, sc_correct = correct,
                      sc_accuracy = percent correct (length resolved),
                      sc_remaining = length (filter (\<lambda>m. xm_id m \<notin> set predicted) ms)\<rparr>,
                     sort_key (\<lambda>w. xm_start (sw_match w)) shown))))"

section \<open>Score\<close>

record verdicts =
  vd_correct :: nat
  vd_incorrect :: nat
  vd_pending :: nat

definition count_verdict :: "chain_match list \<Rightarrow> (string \<times> jsval) list \<Rightarrow> verdicts \<Rightarrow> verdicts" where
  "count_verdict ms raw vd =
     (let p = normalize_contract_prediction raw in
      case find_one (\<lambda>m. xm_id m = np_match p) ms of
        None \<Rightarrow> vd
      | Some m \<Rightarrow>
          if \<not> xm_resolved m then vd\<lparr>vd_pending := vd_pending vd + 1\<rparr>
          else if resolve_correctness p (xm_resolved m) (xm_outcome m) = Some True
          then vd\<lparr>vd_correct := vd_correct vd + 1\<rparr>
          else vd\<lparr>vd_incorrect := vd_incorrect vd + 1\<rparr>)"

definition count_verdicts :: "chain_match list \<Rightarrow> (string \<times> jsval) list list \<Rightarrow> verdicts" where
  "count_verdicts ms raws =
     fold (count_verdict ms) raws \<lparr>vd_correct = 0, vd_incorrect = 0, vd_pending = 0\<rparr>"

fun index_of :: "('a \<Rightarrow> bool) \<Rightarrow> 'a list \<Rightarrow> nat option" where
  "index_of P [] = None"
| "index_of P (x # xs) = (if P x then Some 0 else map_option Suc (index_of P xs))"

record user_score =
  us_matches :: nat
  us_predictions :: nat
  us_verdicts :: verdicts
  us_accuracy :: int
  us_rank :: nat
  us_winner :: bool
  us_points :: int

text \<open>The points the indexer credited; only looked up when the contract has matches of the event.\<close>

definition points_of_user ::
  "string \<Rightarrow> string \<Rightarrow> nat \<Rightarrow> event_db \<Rightarrow> int result" where
  "points_of_user event_id address matches s =
     (case event_user address s of
        None \<Rightarrow> Inr 0
      | Some u \<Rightarrow>
          if matches = 0 then Inr 0
          else case int8_of (number_of_text event_id) of
            None \<Rightarrow> Inl query_error
          | Some n \<Rightarrow>
              (let ids = map mt_id (filter (\<lambda>m. \<exists>x\<in>set (creator_events s).
                    ce_id x = mt_event m \<and> on_chain_event_id x = n) (event_matches s)) in
               Inr (sum_list (map points_earned
                 (filter (\<lambda>p. mp_user p = u_id u \<and> mp_match p \<in> set ids) (match_predictions s))))))"

definition get_user_score ::
  "contract_view \<Rightarrow> string \<Rightarrow> string \<Rightarrow> event_db \<Rightarrow> user_score result" where
  "get_user_score v event_id address s =
     (case vw_event v event_id of
        None \<Rightarrow> Inl (event_not_found event_id)
      | Some _ \<Rightarrow>
          (case vw_user_predictions v address event_id of
             Inl err \<Rightarrow> Inl err
           | Inr raws \<Rightarrow>
               (let ms = vw_matches v event_id; ps = vw_participants v event_id;
                    vd = count_verdicts ms raws in
                case points_of_user event_id address (length ms) s of
                  Inl err \<Rightarrow> Inl err
                | Inr points \<Rightarrow>
                    Inr \<lparr>us_matches = length ms, us_predictions = length raws, us_verdicts = vd,
                         us_accuracy = percent (vd_correct vd) (vd_correct vd + vd_incorrect vd),
                         us_rank = (case index_of (\<lambda>p. xp_address p = address) ps of
                            Some i \<Rightarrow> i + 1 | None \<Rightarrow> length ps + 1),
                         us_winner = (length raws > 0 \<and> vd_incorrect vd = 0 \<and> vd_pending vd = 0),
                         us_points = points\<rparr>)))"

section \<open>Statistics\<close>

fun num_add :: "jsnum \<Rightarrow> jsnum \<Rightarrow> jsnum" where
  "num_add (Fin a) (Fin b) = Fin (a + b)"
| "num_add NaN _ = NaN"
| "num_add _ NaN = NaN"
| "num_add PosInf NegInf = NaN"
| "num_add NegInf PosInf = NaN"
| "num_add PosInf _ = PosInf"
| "num_add NegInf _ = NegInf"
| "num_add _ PosInf = PosInf"
| "num_add _ NegInf = NegInf"

text \<open>A quotient by a divisor above 0, scaled and rounded.\<close>

definition positive_num :: "jsnum \<Rightarrow> bool" where
  "positive_num x = (case x of Fin r \<Rightarrow> r > 0 | PosInf \<Rightarrow> True | _ \<Rightarrow> False)"

fun scaled_quotient :: "jsnum \<Rightarrow> jsnum \<Rightarrow> jsnum" where
  "scaled_quotient (Fin a) (Fin b) = Fin (of_int (math_round (a / b * 100)))"
| "scaled_quotient (Fin a) PosInf = Fin 0"
| "scaled_quotient PosInf (Fin b) = PosInf"
| "scaled_quotient NegInf (Fin b) = NegInf"
| "scaled_quotient _ _ = NaN"

fun num_div_100 :: "jsnum \<Rightarrow> jsnum" where
  "num_div_100 (Fin a) = Fin (a / 100)"
| "num_div_100 x = x"

record match_distribution =
  md_match :: chain_match
  md_distribution :: distribution
  md_total :: jsnum

definition distribution_of :: "contract_view \<Rightarrow> chain_match \<Rightarrow> match_distribution result" where
  "distribution_of v m =
     (case vw_distribution v (xm_id m) of
        Inl err \<Rightarrow> Inl err
      | Inr d \<Rightarrow> Inr \<lparr>md_match = m, md_distribution = d,
          md_total = num_add (num_add (ds_team_a d) (ds_team_b d)) (ds_draw d)\<rparr>)"

fun all_right :: "'a result list \<Rightarrow> 'a list result" where
  "all_right [] = Inr []"
| "all_right (Inl err # xs) = Inl err"
| "all_right (Inr x # xs) = (case all_right xs of Inl err \<Rightarrow> Inl err | Inr ys \<Rightarrow> Inr (x # ys))"

record event_stats =
  st_participants :: jsnum
  st_matches :: jsnum
  st_resolved :: nat
  st_pending :: nat
  st_predictions :: jsnum
  st_distributions :: "match_distribution list"
  st_winners_verified :: bool
  st_winners :: jsnum
  st_average :: jsnum
  st_completion :: jsnum
  st_prize_pool :: stroops
  st_fees :: stroops

definition num_nat :: "nat \<Rightarrow> jsnum" where
  "num_nat n = Fin (of_nat n)"

text \<open>\<open>statistics?.field ?? fallback\<close>.\<close>

definition from_chain :: "event_statistics option \<Rightarrow> (event_statistics \<Rightarrow> 'a) \<Rightarrow> 'a \<Rightarrow> 'a" where
  "from_chain stats f d = (case stats of None \<Rightarrow> d | Some x \<Rightarrow> f x)"

definition get_event_stats :: "contract_view \<Rightarrow> string \<Rightarrow> event_db \<Rightarrow> event_stats result" where
  "get_event_stats v event_id s =
     (case vw_event v event_id of
        None \<Rightarrow> Inl (event_not_found event_id)
      | Some _ \<Rightarrow>
          (let ms = vw_matches v event_id; ps = vw_participants v event_id in
           case (vw_statistics v event_id, event_of_request event_id s) of
             (Inl err, _) \<Rightarrow> Inl err
           | (Inr _, Inl err) \<Rightarrow> Inl err
           | (Inr stats, Inr cached) \<Rightarrow>
               (case all_right (map (distribution_of v) ms) of
                  Inl err \<Rightarrow> Inl err
                | Inr ds \<Rightarrow>
                    (let resolved = length (filter xm_resolved ms);
                         participants = from_chain stats xs_participants (num_nat (length ps));
                         predictions = from_chain stats xs_predictions
                           (foldl (\<lambda>sum d. num_add sum (md_total d)) (Fin 0) ds);
                         full = length (filter (\<lambda>p. xp_predictions p \<ge> int (length ms) \<and> length ms > 0) ps) in
                     Inr \<lparr>st_participants = participants,
                          st_matches = from_chain stats xs_matches (num_nat (length ms)),
                          st_resolved = resolved, st_pending = length ms - resolved,
                          st_predictions = predictions, st_distributions = ds,
                          st_winners_verified = from_chain stats xs_winners_verified False,
                          st_winners = from_chain stats xs_winners (Fin 0),
                          st_average = (if positive_num participants
                            then num_div_100 (scaled_quotient predictions participants) else Fin 0),
                          st_completion = (if positive_num participants
                            then scaled_quotient (num_nat full) participants else Fin 0),
                          st_prize_pool = (case cached of None \<Rightarrow> 0 | Some x \<Rightarrow> prize_pool x),
                          st_fees = (case cached of None \<Rightarrow> 0 | Some x \<Rightarrow> total_entry_fees_collected x)\<rparr>))))"

section \<open>Payouts and ranking\<close>

record payout_view =
  py_payout :: payout
  py_rank :: int
  py_winner :: bool

definition to_payout_dto :: "event_db \<Rightarrow> payout \<Rightarrow> payout_view" where
  "to_payout_dto s p =
     (case by_id be_id (po_entry p) (board_entries s) of
        None \<Rightarrow> \<lparr>py_payout = p, py_rank = 0, py_winner = False\<rparr>
      | Some x \<Rightarrow> \<lparr>py_payout = p, py_rank = be_rank x, py_winner = be_winner x\<rparr>)"

text \<open>An ascending order puts the payouts without a ranking entry last.\<close>

definition payout_order :: "event_db \<Rightarrow> payout \<Rightarrow> int \<times> int" where
  "payout_order s p =
     (case by_id be_id (po_entry p) (board_entries s) of None \<Rightarrow> (1, 0) | Some x \<Rightarrow> (0, be_rank x))"

record 'a event_page =
  ep_data :: "'a list"
  ep_total :: nat
  ep_page :: nat
  ep_limit :: nat
  ep_total_pages :: int
  ep_source :: string

definition event_page :: "nat \<Rightarrow> nat \<Rightarrow> string \<Rightarrow> 'a list \<Rightarrow> 'a event_page" where
  "event_page page limit source rows =
     \<lparr>ep_data = page_of page limit rows, ep_total = length rows, ep_page = page, ep_limit = limit,
      ep_total_pages = total_pages (length rows) limit, ep_source = source\<rparr>"

definition is_finalized_event :: "creator_event option \<Rightarrow> bool" where
  "is_finalized_event x = (case x of None \<Rightarrow> False | Some e \<Rightarrow> ce_finalized e)"

definition get_payouts :: "string \<Rightarrow> nat \<Rightarrow> nat \<Rightarrow> event_db \<Rightarrow> payout_view event_page result" where
  "get_payouts event_id page limit s =
     (case event_of_request event_id s of
        Inl err \<Rightarrow> Inl err
      | Inr cached \<Rightarrow>
          if \<not> is_finalized_event cached then
            Inl (NotFound (''Event '' @ event_id @ '' is not finalized or does not exist''))
          else Inr (event_page page limit ''table'' (map (to_payout_dto s)
            (sort_key (payout_order s) (filter (\<lambda>p. po_event p = event_id) (payouts s))))))"

definition get_payout_by_address :: "string \<Rightarrow> string \<Rightarrow> event_db \<Rightarrow> payout_view result" where
  "get_payout_by_address event_id address s =
     (case find_one (\<lambda>p. po_event p = event_id \<and> po_address p = address) (payouts s) of
        None \<Rightarrow> Inl (NotFound (''No payout found for address '' @ address @ '' in event '' @ event_id))
      | Some p \<Rightarrow> Inr (to_payout_dto s p))"

text \<open>
  A stored entry has no completion time: the indexer always writes null, as it does for the line.
\<close>

definition board_line_of_entry :: "board_entry \<Rightarrow> chain_board_line" where
  "board_line_of_entry x =
     \<lparr>xb_rank = j_int (be_rank x), xb_address = JStr (be_address x),
      xb_total = Fin (of_int (be_total x)), xb_correct = Fin (of_int (be_correct x)),
      xb_accuracy = Fin (be_accuracy x), xb_winner = be_winner x, xb_completion = None\<rparr>"

definition get_leaderboard ::
  "contract_view \<Rightarrow> string \<Rightarrow> nat \<Rightarrow> nat \<Rightarrow> event_db \<Rightarrow> chain_board_line event_page result" where
  "get_leaderboard v event_id page limit s =
     (case event_of_request event_id s of
        Inl err \<Rightarrow> Inl err
      | Inr cached \<Rightarrow>
          if is_finalized_event cached then
            Inr (event_page page limit ''cache'' (map board_line_of_entry
              (sort_key be_rank (filter (\<lambda>x. be_event x = event_id) (board_entries s)))))
          else Inr (event_page page limit ''contract'' (vw_board v event_id)))"

section \<open>Lemmas\<close>

definition verdict_counts :: "chain_match list \<Rightarrow> (string \<times> jsval) list \<Rightarrow> bool \<Rightarrow> bool option \<Rightarrow> bool" where
  "verdict_counts ms raw resolved b =
     (case find_one (\<lambda>m. xm_id m = np_match (normalize_contract_prediction raw)) ms of
        None \<Rightarrow> False
      | Some m \<Rightarrow> xm_resolved m = resolved \<and>
          (b = None \<or> b = Some (resolve_correctness (normalize_contract_prediction raw)
             (xm_resolved m) (xm_outcome m) = Some True)))"

lemma count_verdicts_exact:
  "vd_correct (count_verdicts ms raws) = count_rows (\<lambda>r. verdict_counts ms r True (Some True)) raws"
  "vd_incorrect (count_verdicts ms raws) = count_rows (\<lambda>r. verdict_counts ms r True (Some False)) raws"
  "vd_pending (count_verdicts ms raws) = count_rows (\<lambda>r. verdict_counts ms r False None) raws"
proof -
  have gen: "vd_correct (fold (count_verdict ms) raws vd) =
        vd_correct vd + count_rows (\<lambda>r. verdict_counts ms r True (Some True)) raws \<and>
      vd_incorrect (fold (count_verdict ms) raws vd) =
        vd_incorrect vd + count_rows (\<lambda>r. verdict_counts ms r True (Some False)) raws \<and>
      vd_pending (fold (count_verdict ms) raws vd) =
        vd_pending vd + count_rows (\<lambda>r. verdict_counts ms r False None) raws" for vd
    by (induction raws arbitrary: vd)
      (auto simp: count_verdict_def verdict_counts_def Let_def split: option.splits)
  then show "vd_correct (count_verdicts ms raws) = count_rows (\<lambda>r. verdict_counts ms r True (Some True)) raws"
    "vd_incorrect (count_verdicts ms raws) = count_rows (\<lambda>r. verdict_counts ms r True (Some False)) raws"
    "vd_pending (count_verdicts ms raws) = count_rows (\<lambda>r. verdict_counts ms r False None) raws"
    by (simp_all add: count_verdicts_def)
qed

lemma percent_bounds: "part \<le> whole \<Longrightarrow> 0 \<le> percent part whole \<and> percent part whole \<le> 100"
  by (auto simp: percent_def intro!: math_round_ge math_round_le simp: field_simps)

lemma get_user_score_Inr:
  assumes "get_user_score v event_id address s = Inr sc"
  obtains raws points where "vw_event v event_id \<noteq> None"
    and "vw_user_predictions v address event_id = Inr raws"
    and "points_of_user event_id address (length (vw_matches v event_id)) s = Inr points"
    and "us_predictions sc = length raws" and "us_points sc = points"
    and "us_verdicts sc = count_verdicts (vw_matches v event_id) raws"
    and "us_accuracy sc = percent (vd_correct (us_verdicts sc))
           (vd_correct (us_verdicts sc) + vd_incorrect (us_verdicts sc))"
    and "us_winner sc \<longleftrightarrow> raws \<noteq> [] \<and> vd_incorrect (us_verdicts sc) = 0 \<and> vd_pending (us_verdicts sc) = 0"
  using assms by (auto simp: get_user_score_def Let_def split: option.splits sum.splits)

text \<open>A prediction is on a match of the event, or it is not counted at all.\<close>

definition on_match :: "chain_match list \<Rightarrow> (string \<times> jsval) list \<Rightarrow> bool" where
  "on_match ms raw \<longleftrightarrow> np_match (normalize_contract_prediction raw) \<in> xm_id ` set ms"

definition right_on_resolved :: "chain_match list \<Rightarrow> (string \<times> jsval) list \<Rightarrow> bool" where
  "right_on_resolved ms raw = verdict_counts ms raw True (Some True)"

lemma on_match_iff:
  "on_match ms r \<longleftrightarrow> find_one (\<lambda>m. xm_id m = np_match (normalize_contract_prediction r)) ms \<noteq> None"
  unfolding on_match_def find_one_None by (metis image_iff)

lemma verdict_partition:
  "count_rows (\<lambda>r. verdict_counts ms r True (Some True)) raws +
   count_rows (\<lambda>r. verdict_counts ms r True (Some False)) raws +
   count_rows (\<lambda>r. verdict_counts ms r False None) raws = count_rows (on_match ms) raws"
proof (induction raws)
  case (Cons r raws)
  then show ?case by (auto simp: on_match_iff verdict_counts_def split: option.splits)
qed simp

lemma verdict_exclusive:
  "on_match ms r \<Longrightarrow> verdict_counts ms r True (Some True) \<longleftrightarrow>
    \<not> verdict_counts ms r True (Some False) \<and> \<not> verdict_counts ms r False None"
  by (auto simp: on_match_iff verdict_counts_def split: option.splits)

lemma verdict_on_match: "verdict_counts ms r b x \<Longrightarrow> on_match ms r"
  by (auto simp: on_match_iff verdict_counts_def split: option.splits)

section \<open>Properties\<close>

text \<open>
  The score of a user sorts exactly the predictions on matches of the event into correct,
  incorrect and pending, with an accuracy between 0 and 100; the user counts as a winner exactly
  when there is a prediction and every one on a match of the event is right and its match resolved.
  Matches the user did not predict are not asked for, and predictions of other matches do not count.
\<close>

theorem user_score_exact:
  assumes "get_user_score v event_id address s = Inr sc"
    and "vw_user_predictions v address event_id = Inr raws"
  shows "vd_correct (us_verdicts sc) + vd_incorrect (us_verdicts sc) + vd_pending (us_verdicts sc) =
      count_rows (on_match (vw_matches v event_id)) raws \<and>
    vd_correct (us_verdicts sc) = count_rows (right_on_resolved (vw_matches v event_id)) raws \<and>
    0 \<le> us_accuracy sc \<and> us_accuracy sc \<le> 100 \<and>
    (us_winner sc \<longleftrightarrow> raws \<noteq> [] \<and>
      (\<forall>r\<in>set raws. on_match (vw_matches v event_id) r \<longrightarrow> right_on_resolved (vw_matches v event_id) r))"
  using assms(1)
proof (rule get_user_score_Inr)
  fix raws'
  let ?ms = "vw_matches v event_id"
  assume raws': "vw_user_predictions v address event_id = Inr raws'"
    and vd: "us_verdicts sc = count_verdicts ?ms raws'"
    and acc: "us_accuracy sc = percent (vd_correct (us_verdicts sc))
           (vd_correct (us_verdicts sc) + vd_incorrect (us_verdicts sc))"
    and win: "us_winner sc \<longleftrightarrow> raws' \<noteq> [] \<and> vd_incorrect (us_verdicts sc) = 0 \<and> vd_pending (us_verdicts sc) = 0"
  have eq: "raws' = raws" using raws' assms(2) by simp
  have "(\<forall>r\<in>set raws. \<not> verdict_counts ?ms r True (Some False) \<and> \<not> verdict_counts ?ms r False None) \<longleftrightarrow>
      (\<forall>r\<in>set raws. on_match ?ms r \<longrightarrow> right_on_resolved ?ms r)"
    using verdict_exclusive [of ?ms] verdict_on_match [of ?ms] unfolding right_on_resolved_def by blast
  then have "us_winner sc \<longleftrightarrow> raws \<noteq> [] \<and> (\<forall>r\<in>set raws. on_match ?ms r \<longrightarrow> right_on_resolved ?ms r)"
    unfolding win vd eq count_verdicts_exact count_rows_0 by blast
  then show ?thesis
    using verdict_partition [of ?ms raws] percent_bounds [of "vd_correct (us_verdicts sc)"
        "vd_correct (us_verdicts sc) + vd_incorrect (us_verdicts sc)"] acc
    by (simp add: vd eq count_verdicts_exact right_on_resolved_def [abs_def])
qed

text \<open>
  The contract numbers its matches with \<open>u64\<close>, which the SDK decodes to a \<open>bigint\<close>; the
  normalisation reads only strings and numbers, so such a prediction matches nothing: a user whose
  predictions carry these ids has none correct, incorrect or pending, and is reported as a winner.
\<close>

theorem bigint_predictions_win:
  assumes "get_user_score v event_id address s = Inr sc"
    and "vw_user_predictions v address event_id = Inr raws" and "raws \<noteq> []"
    and "\<forall>r\<in>set raws. \<exists>n. first_prop r [''matchId'', ''match_id''] = JBigInt n"
    and "\<forall>m\<in>set (vw_matches v event_id). xm_id m \<noteq> []"
  shows "us_winner sc \<and> us_accuracy sc = 0 \<and>
    us_verdicts sc = \<lparr>vd_correct = 0, vd_incorrect = 0, vd_pending = 0\<rparr>"
  using assms(1)
proof (rule get_user_score_Inr)
  fix raws'
  let ?ms = "vw_matches v event_id"
  assume raws': "vw_user_predictions v address event_id = Inr raws'"
    and vd: "us_verdicts sc = count_verdicts ?ms raws'"
    and acc: "us_accuracy sc = percent (vd_correct (us_verdicts sc))
           (vd_correct (us_verdicts sc) + vd_incorrect (us_verdicts sc))"
    and win: "us_winner sc \<longleftrightarrow> raws' \<noteq> [] \<and> vd_incorrect (us_verdicts sc) = 0 \<and> vd_pending (us_verdicts sc) = 0"
  have eq: "raws' = raws" using raws' assms(2) by simp
  have "np_match (normalize_contract_prediction r) = []" if "r \<in> set raws" for r
    using assms(4) that by (auto simp: normalize_contract_prediction_def)
  then have "\<not> on_match ?ms r" if "r \<in> set raws" for r
    using assms(5) that by (auto simp: on_match_def)
  then have "\<not> verdict_counts ?ms r b x" if "r \<in> set raws" for r b x
    using that verdict_on_match by blast
  then have none: "count_rows (\<lambda>r. verdict_counts ?ms r b x) raws = 0" for b x
    by (simp add: count_rows_0)
  have "us_verdicts sc = \<lparr>vd_correct = 0, vd_incorrect = 0, vd_pending = 0\<rparr>"
    by (rule verdicts.equality) (simp_all add: vd eq count_verdicts_exact none)
  then show ?thesis using win acc assms(3) eq by (simp add: percent_def)
qed

definition sample_chain_match :: chain_match where
  "sample_chain_match = \<lparr>xm_id = ''3'', xm_event = ''7'', xm_home = ''Reds'', xm_away = ''Blues'',
     xm_home_score = Some 2, xm_away_score = Some 1, xm_start = 100, xm_resolved = True,
     xm_outcome = Some ''TEAM_A''\<rparr>"

definition sample_chain_event :: chain_event where
  "sample_chain_event = \<lparr>xe_id = ''7'', xe_invite_code = ''CUP'', xe_creator = ''GADMIN'', xe_title = ''Cup'',
     xe_description = [], xe_start = 10, xe_end = 500, xe_max_participants = 10, xe_participants = 1,
     xe_active = True, xe_prize_pool = None, xe_rewards = None, xe_entry_fee = None, xe_category = None,
     xe_banner_url = None, xe_finalized = None\<rparr>"

definition sample_view :: "jsval \<Rightarrow> contract_view" where
  "sample_view match_id =
     \<lparr>vw_event = (\<lambda>n. Some sample_chain_event), vw_event_by_code = (\<lambda>c. None),
      vw_matches = (\<lambda>n. [sample_chain_match]),
      vw_user_predictions = (\<lambda>a n. Inr [[(''match_id'', match_id), (''predicted_outcome'', JStr ''TEAM_B'')]]),
      vw_participants = (\<lambda>n. []), vw_winners = (\<lambda>n. []), vw_board = (\<lambda>n. []), vw_config = None,
      vw_verified = (\<lambda>a. Inr False), vw_statistics = (\<lambda>n. Inr None),
      vw_distribution = (\<lambda>n. Inr no_distribution)\<rparr>"

lemma sample_score_defined: "\<exists>sc. get_user_score (sample_view i) ''7'' ''GX'' empty_event_db = Inr sc"
  by (simp add: get_user_score_def sample_view_def Let_def points_of_user_def event_user_def empty_event_db_def)

text \<open>The user predicted the wrong winner: read with a text id the score says so, with a bigint not.\<close>

theorem user_score_exact_witness:
  "\<exists>sc. get_user_score (sample_view (JStr ''3'')) ''7'' ''GX'' empty_event_db = Inr sc \<and> \<not> us_winner sc"
proof -
  obtain sc where sc: "get_user_score (sample_view (JStr ''3'')) ''7'' ''GX'' empty_event_db = Inr sc"
    using sample_score_defined by blast
  let ?raw = "[(''match_id'', JStr ''3''), (''predicted_outcome'', JStr ''TEAM_B'')]"
  have p: "vw_user_predictions (sample_view (JStr ''3'')) ''GX'' ''7'' = Inr [?raw]"
    by (simp add: sample_view_def)
  have "on_match (vw_matches (sample_view (JStr ''3'')) ''7'') ?raw"
    "\<not> right_on_resolved (vw_matches (sample_view (JStr ''3'')) ''7'') ?raw"
    by (simp_all add: sample_view_def sample_chain_match_def on_match_def right_on_resolved_def
        verdict_counts_def normalize_contract_prediction_def first_prop_def coalesce_def
        resolve_correctness_def nonempty_def)
  then have "\<not> us_winner sc" using user_score_exact [OF sc p] by simp
  with sc show ?thesis by blast
qed

theorem bigint_predictions_win_witness:
  "\<exists>sc. get_user_score (sample_view (JBigInt 3)) ''7'' ''GX'' empty_event_db = Inr sc \<and> us_winner sc"
proof -
  obtain sc where sc: "get_user_score (sample_view (JBigInt 3)) ''7'' ''GX'' empty_event_db = Inr sc"
    using sample_score_defined by blast
  let ?raw = "[(''match_id'', JBigInt 3), (''predicted_outcome'', JStr ''TEAM_B'')]"
  have "vw_user_predictions (sample_view (JBigInt 3)) ''GX'' ''7'' = Inr [?raw]"
    by (simp add: sample_view_def)
  moreover have "\<forall>r\<in>set [?raw]. \<exists>n. first_prop r [''matchId'', ''match_id''] = JBigInt n"
    by (simp add: first_prop_def coalesce_def)
  moreover have "\<forall>m\<in>set (vw_matches (sample_view (JBigInt 3)) ''7''). xm_id m \<noteq> []"
    by (simp add: sample_view_def sample_chain_match_def)
  ultimately have "us_winner sc" using bigint_predictions_win [OF sc, of "[?raw]"] by simp
  with sc show ?thesis by blast
qed

end
