(* ===== verification/MatchViews.thy ===== *)
theory MatchViews
  imports Indexer
begin

text \<open>
  The reads of matches and their predictions (\<open>backend/src/matches/matches.service.ts\<close>).
\<close>

section \<open>Lookup\<close>

text \<open>
  A reference that is a finite number is also compared with the on-chain id, a \<open>bigint\<close> column:
  a fraction or a number out of its range is a query error.
\<close>

definition find_match :: "string \<Rightarrow> event_db \<Rightarrow> match_row result" where
  "find_match match_ref s =
     (let missing = NotFound (''Match with ID '' @ quoted match_ref @ '' not found'');
          found = (\<lambda>P. case find_one P (event_matches s) of None \<Rightarrow> Inl missing | Some m \<Rightarrow> Inr m) in
      case number_of_text match_ref of
        Fin r \<Rightarrow>
          (case int8_of (Fin r) of
             None \<Rightarrow> Inl query_error
           | Some n \<Rightarrow> found (\<lambda>m. mt_id m = match_ref \<or> on_chain_match_id m = n))
      | _ \<Rightarrow> found (\<lambda>m. mt_id m = match_ref))"

section \<open>Distribution\<close>

record outcome_count =
  oc_outcome :: predicted_outcome
  oc_count :: nat
  oc_percentage :: string

definition predictions_of :: "uuid \<Rightarrow> event_db \<Rightarrow> match_prediction list" where
  "predictions_of k s = filter (\<lambda>p. mp_match p = k) (match_predictions s)"

definition get_distribution :: "uuid \<Rightarrow> nat \<Rightarrow> event_db \<Rightarrow> outcome_count list" where
  "get_distribution k n s =
     map (\<lambda>o'. let c = count_rows (\<lambda>p. mp_match p = k \<and> predicted_outcome p = o') (match_predictions s) in
           \<lparr>oc_outcome = o', oc_count = c,
            oc_percentage = (if n > 0 then to_fixed 2 (of_nat c / of_nat n * 100) else ''0.00'')\<rparr>)
       [PoTeamA, PoTeamB, PoDraw]"

section \<open>Answers\<close>

record match_detail =
  mv_match :: match_row
  mv_total :: nat
  mv_distribution :: "outcome_count list"
  mv_event :: creator_event

text \<open>The match is read with its event, which the foreign key guarantees; without one the code fails.\<close>

definition get_match_detail :: "string \<Rightarrow> event_db \<Rightarrow> match_detail result" where
  "get_match_detail match_ref s =
     (case find_match match_ref s of
        Inl err \<Rightarrow> Inl err
      | Inr m \<Rightarrow>
          (let n = length (predictions_of (mt_id m) s) in
           case by_id ce_id (mt_event m) (creator_events s) of
             None \<Rightarrow> Inl (InternalError ''TypeError'')
           | Some x \<Rightarrow> Inr \<lparr>mv_match = m, mv_total = n,
               mv_distribution = get_distribution (mt_id m) n s, mv_event = x\<rparr>))"

record predictor_row =
  pd_id :: uuid
  pd_address :: string
  pd_outcome :: predicted_outcome
  pd_at :: timestamp
  pd_correct :: "bool option"

record match_predictions_page =
  pm_distribution :: "outcome_count list"
  pm_total :: nat
  pm_users :: "predictor_row list option"
  pm_pages :: "int option"

definition predictor_of :: "event_db \<Rightarrow> match_prediction \<Rightarrow> predictor_row option" where
  "predictor_of s p =
     map_option (\<lambda>u. \<lparr>pd_id = mp_row_id p, pd_address = stellar_address u,
         pd_outcome = predicted_outcome p, pd_at = predicted_at p, pd_correct = is_correct p\<rparr>)
       (by_id u_id (mp_user p) (e_users s))"

definition get_match_predictions ::
  "string \<Rightarrow> bool \<Rightarrow> nat \<Rightarrow> nat \<Rightarrow> event_db \<Rightarrow> match_predictions_page result" where
  "get_match_predictions match_ref include_users page limit s =
     (case find_match match_ref s of
        Inl err \<Rightarrow> Inl err
      | Inr m \<Rightarrow>
          (let rows = predictions_of (mt_id m) s;
               answer = \<lparr>pm_distribution = get_distribution (mt_id m) (length rows) s,
                 pm_total = length rows, pm_users = None, pm_pages = None\<rparr> in
           if \<not> include_users then Inr answer
           else case all_some (map (predictor_of s) (page_of page limit (sort_desc predicted_at rows))) of
             None \<Rightarrow> Inl (InternalError ''TypeError'')
           | Some found \<Rightarrow> Inr (answer\<lparr>pm_users := Some found,
               pm_pages := Some \<lceil>of_nat (length rows) / of_nat limit :: rat\<rceil>\<rparr>)))"

section \<open>Lemmas\<close>

text \<open>Every prediction of the match is counted under exactly one outcome.\<close>

lemma distribution_total:
  "sum_list (map oc_count (get_distribution k n s)) = length (predictions_of k s)"
proof -
  have "count_rows (\<lambda>p. mp_match p = k \<and> predicted_outcome p = PoTeamA) ps +
      (count_rows (\<lambda>p. mp_match p = k \<and> predicted_outcome p = PoTeamB) ps +
       count_rows (\<lambda>p. mp_match p = k \<and> predicted_outcome p = PoDraw) ps) =
      length (filter (\<lambda>p. mp_match p = k) ps)" for ps
  proof (induction ps)
    case (Cons p ps)
    then show ?case by (cases "predicted_outcome p") auto
  qed simp
  then show ?thesis by (simp add: get_distribution_def predictions_of_def Let_def)
qed

lemma match_detail_distribution:
  assumes "get_match_detail match_ref s = Inr d"
  shows "sum_list (map oc_count (mv_distribution d)) = mv_total d"
  using assms by (auto simp: get_match_detail_def Let_def distribution_total split: sum.splits option.splits)

end
