(* ===== verification/Leaderboard.thy ===== *)
theory Leaderboard
  imports Seasons SortFacts Js
begin

text \<open>
  The leaderboard of the platform (\<open>backend/src/leaderboard/leaderboard.service.ts\<close>): the hourly
  recalculation of the ranks, the daily snapshot, and the listings with their caches.
\<close>

section \<open>Rows and state\<close>

record leaderboard_entry =
  le_id :: uuid
  le_user :: uuid
  le_season :: "uuid option"
  le_rank :: int
  le_reputation :: int
  le_points :: int
  le_predictions :: int
  le_correct :: int
  le_winnings :: stroops

record leaderboard_history =
  lh_id :: uuid
  lh_user :: uuid
  lh_date :: timestamp
  lh_rank :: int
  lh_reputation :: int
  lh_points :: int
  lh_predictions :: int
  lh_correct :: int
  lh_winnings :: stroops
  lh_season :: "uuid option"

record entry_response =
  er_rank :: int
  er_user :: uuid
  er_username :: "string option"
  er_address :: string
  er_reputation :: int
  er_accuracy :: string
  er_winnings :: stroops
  er_points :: int

record cursor_page =
  cu_data :: "entry_response list"
  cu_next :: "string option"
  cu_more :: bool
  cu_limit :: nat

datatype cached_board = CachedPage cursor_page | CachedTop "entry_response list"

text \<open>The shared tables, the two of the leaderboard, and its keys of the cache with their expiry.\<close>

record board_db =
  base :: db
  entries :: "leaderboard_entry list"
  history :: "leaderboard_history list"
  board_cache :: "(string \<times> cached_board \<times> timestamp) list"

definition board_cache_ttl_ms :: int where
  "board_cache_ttl_ms = 1 * 60 * 60 * 1000"

text \<open>The cache answers until the time to live has passed.\<close>

definition cache_read :: "timestamp \<Rightarrow> string \<Rightarrow> board_db \<Rightarrow> cached_board option" where
  "cache_read t0 k s =
     (case by_id fst k (board_cache s) of
        None \<Rightarrow> None
      | Some (_, v, expires) \<Rightarrow> if t0 < expires then Some v else None)"

definition cache_write :: "timestamp \<Rightarrow> string \<Rightarrow> cached_board \<Rightarrow> board_db \<Rightarrow> board_db" where
  "cache_write t0 k v s =
     s\<lparr>board_cache := save_row fst (k, v, t0 + board_cache_ttl_ms) (board_cache s)\<rparr>"

definition cache_drop :: "string \<Rightarrow> board_db \<Rightarrow> board_db" where
  "cache_drop k s = s\<lparr>board_cache := delete_rows (\<lambda>r. fst r = k) (board_cache s)\<rparr>"

section \<open>Keys\<close>

definition season_key :: "uuid option \<Rightarrow> string" where
  "season_key season = (case season of None \<Rightarrow> ''all'' | Some k \<Rightarrow> k)"

definition leaderboard_cursor_key :: "uuid option \<Rightarrow> nat \<Rightarrow> string" where
  "leaderboard_cursor_key season page =
     ''leaderboard:cursor:'' @ season_key season @ '':page:'' @ show_nat page"

definition leaderboard_top_key :: "nat \<Rightarrow> uuid option \<Rightarrow> string" where
  "leaderboard_top_key n season = ''leaderboard:top:'' @ show_nat n @ '':'' @ season_key season"

section \<open>Listings\<close>

definition accuracy_text :: "int \<Rightarrow> int \<Rightarrow> string" where
  "accuracy_text correct n = (if n > 0 then to_fixed 1 (of_int correct / of_int n * 100) else ''0.0'')"

definition entry_response_of :: "user list \<Rightarrow> leaderboard_entry \<Rightarrow> entry_response" where
  "entry_response_of us x =
     (let u = by_id u_id (le_user x) us in
      \<lparr>er_rank = le_rank x, er_user = le_user x, er_username = Option.bind u username,
       er_address = (case u of None \<Rightarrow> [] | Some v \<Rightarrow> stellar_address v),
       er_reputation = le_reputation x, er_accuracy = accuracy_text (le_correct x) (le_predictions x),
       er_winnings = le_winnings x, er_points = le_points x\<rparr>)"

text \<open>An empty season id counts as none.\<close>

definition board_rows :: "string option \<Rightarrow> leaderboard_entry list \<Rightarrow> leaderboard_entry list" where
  "board_rows season xs =
     (case nonempty season of
        Some k \<Rightarrow> sort_desc le_points (sort_key le_rank (filter (\<lambda>x. le_season x = Some k) xs))
      | None \<Rightarrow> sort_desc le_reputation (sort_key le_rank (filter (\<lambda>x. le_season x = None) xs)))"

definition get_board :: "nat \<Rightarrow> nat \<Rightarrow> string option \<Rightarrow> board_db \<Rightarrow> entry_response page_result" where
  "get_board page limit season s =
     (let cap = min limit 100; rows = board_rows season (entries s) in
      \<lparr>data = map (entry_response_of (users (base s))) (page_of page cap rows), total = length rows,
       pg_page = page, pg_limit = cap\<rparr>)"

definition get_top_leaderboard :: "timestamp \<Rightarrow> nat \<Rightarrow> board_db \<Rightarrow> entry_response list result" where
  "get_top_leaderboard t0 limit s =
     (case find_active_season t0 (base s) of
        Inl err \<Rightarrow> Inl err
      | Inr x \<Rightarrow>
          Inr (map (entry_response_of (users (base s)))
            (take (min limit 20) (sort_key le_rank (filter (\<lambda>y. le_season y = Some (s_id x)) (entries s))))))"

definition get_top_n :: "timestamp \<Rightarrow> nat \<Rightarrow> string option \<Rightarrow> board_db \<Rightarrow> entry_response list \<times> board_db" where
  "get_top_n t0 n season s =
     (let cap = min n 20; k = leaderboard_top_key cap season in
      case cache_read t0 k s of
        Some (CachedTop rows) \<Rightarrow> (rows, s)
      | _ \<Rightarrow>
          (let rows = map (entry_response_of (users (base s))) (take cap (board_rows season (entries s)))
           in (rows, cache_write t0 k (CachedTop rows) s)))"

text \<open>
  A cursor is \<open>rank:user\<close>.  Its entry is looked up whatever its season; when there is none (the ranks
  have moved, or the text is no cursor) the listing starts again.  \<open>parseInt\<close> reads the sign and the
  leading digits.
\<close>

definition cursor_entry :: "string \<Rightarrow> leaderboard_entry list \<Rightarrow> leaderboard_entry option result" where
  "cursor_entry cursor xs =
     (case split_on CHR '':'' cursor of
        r # rest \<Rightarrow>
          (case parse_int r of
             None \<Rightarrow> Inl (InternalError ''QueryFailedError'')
           | Some n \<Rightarrow>
               Inr (find_one (\<lambda>x. le_rank x = n \<and> (case rest of [] \<Rightarrow> True | u # _ \<Rightarrow> le_user x = u)) xs))
      | [] \<Rightarrow> Inr None)"

definition after_entry :: "string option \<Rightarrow> leaderboard_entry option \<Rightarrow> leaderboard_entry \<Rightarrow> bool" where
  "after_entry season c x =
     (case c of
        None \<Rightarrow> True
      | Some y \<Rightarrow>
          (case nonempty season of
             Some _ \<Rightarrow> le_points x < le_points y \<or> (le_points x = le_points y \<and> le_rank x > le_rank y)
           | None \<Rightarrow> le_reputation x < le_reputation y \<or>
               (le_reputation x = le_reputation y \<and> le_rank x > le_rank y)))"

definition cursor_of :: "entry_response \<Rightarrow> string" where
  "cursor_of r = show_int (er_rank r) @ '':'' @ er_user r"

definition cursor_page_from ::
  "nat \<Rightarrow> string option \<Rightarrow> leaderboard_entry option \<Rightarrow> board_db \<Rightarrow> cursor_page" where
  "cursor_page_from cap season c s =
     (let found = take (cap + 1) (filter (after_entry season c) (board_rows season (entries s)));
          rows = map (entry_response_of (users (base s))) (take cap found);
          further = length found > cap in
      \<lparr>cu_data = rows, cu_next = (if further \<and> rows \<noteq> [] then Some (cursor_of (last rows)) else None),
       cu_more = further, cu_limit = cap\<rparr>)"

definition get_leaderboard_cursor ::
  "timestamp \<Rightarrow> nat \<Rightarrow> string option \<Rightarrow> string option \<Rightarrow> board_db \<Rightarrow> cursor_page result \<times> board_db" where
  "get_leaderboard_cursor t0 limit season cursor s =
     (let cap = min limit 100; cur = nonempty cursor;
          k = leaderboard_cursor_key season (if cur = None then 0 else 1) in
      case cur of
        None \<Rightarrow>
          (case cache_read t0 k s of
             Some (CachedPage p) \<Rightarrow> (Inr p, s)
           | _ \<Rightarrow> (let p = cursor_page_from cap season None s in (Inr p, cache_write t0 k (CachedPage p) s)))
      | Some c \<Rightarrow>
          (case cursor_entry c (entries s) of
             Inl err \<Rightarrow> (Inl err, s)
           | Inr y \<Rightarrow> (Inr (cursor_page_from cap season y s), s)))"

section \<open>Recalculation\<close>

definition scored :: "int \<Rightarrow> user \<Rightarrow> leaderboard_entry \<Rightarrow> leaderboard_entry" where
  "scored rank u x =
     x\<lparr>le_rank := rank, le_reputation := reputation_score u, le_points := season_points u,
       le_predictions := total_predictions u, le_correct := correct_predictions u,
       le_winnings := total_winnings_stroops u\<rparr>"

definition new_entry :: "uuid \<Rightarrow> int \<Rightarrow> user \<Rightarrow> leaderboard_entry" where
  "new_entry k rank u = scored rank u
     \<lparr>le_id = k, le_user = u_id u, le_season = None, le_rank = 0, le_reputation = 0, le_points = 0,
      le_predictions = 0, le_correct = 0, le_winnings = 0\<rparr>"

definition own_entry :: "uuid \<Rightarrow> leaderboard_entry \<Rightarrow> bool" where
  "own_entry uid x \<longleftrightarrow> le_user x = uid \<and> le_season x = None"

definition rank_user ::
  "(nat \<Rightarrow> uuid) \<Rightarrow> nat \<times> user \<Rightarrow> leaderboard_entry list \<Rightarrow> leaderboard_entry list" where
  "rank_user ids iu xs =
     (case iu of (i, u) \<Rightarrow>
        (case find_one (own_entry (u_id u)) xs of
           Some x \<Rightarrow> update_rows (\<lambda>y. le_id y = le_id x) (scored (int i + 1) u) xs
         | None \<Rightarrow> save_row le_id (new_entry (ids i) (int i + 1) u) xs))"

text \<open>\<open>invalidateLeaderboardCache\<close> without a season drops the two cursor keys of the global board.\<close>

definition invalidate_leaderboard_cache :: "string option \<Rightarrow> board_db \<Rightarrow> board_db" where
  "invalidate_leaderboard_cache season s =
     cache_drop (''leaderboard:cursor:'' @ season_key season @ '':page:1'')
       (cache_drop (''leaderboard:cursor:'' @ season_key season @ '':page:0'') s)"

definition recalculate_ranks :: "(nat \<Rightarrow> uuid) \<Rightarrow> board_db \<Rightarrow> board_db" where
  "recalculate_ranks ids s =
     (let sorted = sort_desc reputation_score (users (base s)) in
      invalidate_leaderboard_cache None
        (s\<lparr>entries := fold (rank_user ids) (enumerate 0 sorted) (entries s)\<rparr>))"

section \<open>History\<close>

text \<open>An undefined season in the criteria is no condition: any row of the user and day counts.\<close>

definition snapshot_exists :: "timestamp \<Rightarrow> leaderboard_entry \<Rightarrow> leaderboard_history list \<Rightarrow> bool" where
  "snapshot_exists day x hs \<longleftrightarrow>
     find_one (\<lambda>h. lh_user h = le_user x \<and> lh_date h = day \<and>
       (case le_season x of None \<Rightarrow> True | Some k \<Rightarrow> lh_season h = Some k)) hs \<noteq> None"

definition snapshot_of :: "uuid \<Rightarrow> timestamp \<Rightarrow> leaderboard_entry \<Rightarrow> leaderboard_history" where
  "snapshot_of k day x =
     \<lparr>lh_id = k, lh_user = le_user x, lh_date = day, lh_rank = le_rank x, lh_reputation = le_reputation x,
      lh_points = le_points x, lh_predictions = le_predictions x, lh_correct = le_correct x,
      lh_winnings = le_winnings x, lh_season = le_season x\<rparr>"

definition snapshot_step ::
  "(nat \<Rightarrow> uuid) \<Rightarrow> timestamp \<Rightarrow> nat \<times> leaderboard_entry \<Rightarrow> leaderboard_history list
    \<Rightarrow> leaderboard_history list" where
  "snapshot_step ids day ix hs =
     (case ix of (i, x) \<Rightarrow>
        if snapshot_exists day x hs then hs else save_row lh_id (snapshot_of (ids i) day x) hs)"

text \<open>\<open>day\<close> is the local midnight of the clock.\<close>

definition create_daily_snapshot :: "(nat \<Rightarrow> uuid) \<Rightarrow> timestamp \<Rightarrow> board_db \<Rightarrow> board_db" where
  "create_daily_snapshot ids day s =
     s\<lparr>history := fold (snapshot_step ids day) (enumerate 0 (entries s)) (history s)\<rparr>"

record history_query =
  hq_date :: "timestamp option"
  hq_season :: "string option"
  hq_user :: "string option"
  hq_page :: nat
  hq_limit :: nat

definition history_condition :: "history_query \<Rightarrow> leaderboard_history \<Rightarrow> bool" where
  "history_condition q h \<longleftrightarrow>
     (case hq_date q of None \<Rightarrow> True | Some d \<Rightarrow> lh_date h = d) \<and>
     (case nonempty (hq_season q) of
        Some k \<Rightarrow> lh_season h = Some k
      | None \<Rightarrow> hq_date q \<noteq> None \<or> lh_season h = None) \<and>
     (case nonempty (hq_user q) of None \<Rightarrow> True | Some u \<Rightarrow> lh_user h = u)"

definition previous_rank :: "leaderboard_history list \<Rightarrow> leaderboard_history \<Rightarrow> int option" where
  "previous_rank hs h =
     (case sort_desc lh_date (filter (\<lambda>p. lh_user p = lh_user h \<and> lh_date p < lh_date h \<and>
        (case lh_season h of None \<Rightarrow> True | Some k \<Rightarrow> lh_season p = Some k)) hs) of
        [] \<Rightarrow> None
      | p # _ \<Rightarrow> Some (lh_rank p - lh_rank h))"

record history_row =
  hr_row :: leaderboard_history
  hr_username :: "string option"
  hr_address :: string
  hr_accuracy :: string
  hr_change :: "int option"

definition get_history :: "history_query \<Rightarrow> board_db \<Rightarrow> history_row page_result" where
  "get_history q s =
     (let cap = min (hq_limit q) 100; rows = filter (history_condition q) (history s);
          ordered = sort_desc lh_date (sort_key lh_rank rows) in
      \<lparr>data = map (\<lambda>h. let u = by_id u_id (lh_user h) (users (base s)) in
           \<lparr>hr_row = h, hr_username = Option.bind u username,
            hr_address = (case u of None \<Rightarrow> [] | Some v \<Rightarrow> stellar_address v),
            hr_accuracy = accuracy_text (lh_correct h) (lh_predictions h),
            hr_change = (if nonempty (hq_user q) = None then None else previous_rank (history s) h)\<rparr>)
         (page_of (hq_page q) cap ordered),
       total = length rows, pg_page = hq_page q, pg_limit = cap\<rparr>)"

record user_rank =
  ur_rank :: int
  ur_reputation :: int
  ur_points :: int
  ur_predictions :: int
  ur_correct :: int
  ur_accuracy :: string
  ur_winnings :: stroops

definition get_user_rank :: "string \<Rightarrow> board_db \<Rightarrow> user_rank result" where
  "get_user_rank address s =
     (case find_one (\<lambda>u. stellar_address u = address) (users (base s)) of
        None \<Rightarrow> Inl (NotFound (''User with address '' @ quoted address @ '' not found''))
      | Some u \<Rightarrow>
          (case find_one (own_entry (u_id u)) (entries s) of
             None \<Rightarrow> Inl (NotFound (''No leaderboard entry found for user '' @ quoted address))
           | Some x \<Rightarrow>
               Inr \<lparr>ur_rank = le_rank x, ur_reputation = le_reputation x, ur_points = le_points x,
                    ur_predictions = le_predictions x, ur_correct = le_correct x,
                    ur_accuracy = accuracy_text (le_correct x) (le_predictions x),
                    ur_winnings = le_winnings x\<rparr>))"

text \<open>The last 1 to 90 days, 30 when the number is missing or 0; days are of 24 hours here.\<close>

definition get_history_for_address ::
  "timestamp \<Rightarrow> string \<Rightarrow> int option \<Rightarrow> board_db \<Rightarrow> leaderboard_history list result" where
  "get_history_for_address t0 address days s =
     (let n = (case days of None \<Rightarrow> 30 | Some d \<Rightarrow> if d = 0 then 30 else d); valid = min (max n 1) 90 in
      case find_one (\<lambda>u. stellar_address u = address) (users (base s)) of
        None \<Rightarrow> Inl (NotFound (''User with address '' @ address @ '' not found''))
      | Some u \<Rightarrow>
          Inr (sort_desc lh_date (filter (\<lambda>h. lh_user h = u_id u \<and>
            lh_date h \<ge> t0 - valid * 24 * 60 * 60 * 1000) (history s))))"

section \<open>Lemmas on the recalculation\<close>

text \<open>At most one global entry per user, as the recalculation leaves it.\<close>

definition one_each :: "leaderboard_entry list \<Rightarrow> bool" where
  "one_each xs \<longleftrightarrow> (\<forall>uid. length (filter (own_entry uid) xs) \<le> 1)"

definition ids_new :: "(nat \<Rightarrow> uuid) \<Rightarrow> nat \<Rightarrow> leaderboard_entry list \<Rightarrow> bool" where
  "ids_new ids n xs \<longleftrightarrow> inj ids \<and> (\<forall>k\<ge>n. ids k \<notin> le_id ` set xs)"

lemma scored_simps [simp]:
  "le_id (scored r u x) = le_id x" "le_user (scored r u x) = le_user x"
  "le_season (scored r u x) = le_season x" "le_rank (scored r u x) = r"
  "le_reputation (scored r u x) = reputation_score u" "le_points (scored r u x) = season_points u"
  "le_predictions (scored r u x) = total_predictions u" "le_correct (scored r u x) = correct_predictions u"
  "le_winnings (scored r u x) = total_winnings_stroops u" "scored r u (scored r' u' x) = scored r u x"
  by (simp_all add: scored_def)

lemma own_entry_scored [simp]: "own_entry uid (scored r u x) = own_entry uid x"
  by (simp add: own_entry_def)

lemma find_one_filter: "filter P xs = [x] \<Longrightarrow> find_one P xs = Some x"
  by (induction xs) (auto split: if_splits)

lemma filter_find_one: "find_one P xs = Some x \<Longrightarrow> length (filter P xs) \<le> 1 \<Longrightarrow> filter P xs = [x]"
  by (induction xs) (auto split: if_splits)

lemma rank_user_step:
  fixes u :: user
  assumes "keyed le_id xs" and "one_each xs" and "ids_new ids i xs"
  defines "ys \<equiv> rank_user ids (i, u) xs"
  shows "keyed le_id ys" and "ids_new ids (Suc i) ys"
    and "uid \<noteq> u_id u \<Longrightarrow> filter (own_entry uid) ys = filter (own_entry uid) xs"
    and "\<exists>x. filter (own_entry (u_id u)) ys = [scored (int i + 1) u x]"
    and "filter (\<lambda>x. le_season x \<noteq> None) ys = filter (\<lambda>x. le_season x \<noteq> None) xs"
proof -
  have "keyed le_id ys \<and> ids_new ids (Suc i) ys \<and>
    (\<forall>uid. uid \<noteq> u_id u \<longrightarrow> filter (own_entry uid) ys = filter (own_entry uid) xs) \<and>
    (\<exists>x. filter (own_entry (u_id u)) ys = [scored (int i + 1) u x]) \<and>
    filter (\<lambda>x. le_season x \<noteq> None) ys = filter (\<lambda>x. le_season x \<noteq> None) xs"
  proof (cases "find_one (own_entry (u_id u)) xs")
    case None
    have fresh: "ids i \<notin> le_id ` set xs" using assms(3) by (simp add: ids_new_def)
    then have ys: "ys = xs @ [new_entry (ids i) (int i + 1) u]"
      using None by (simp add: ys_def rank_user_def save_row_fresh new_entry_def)
    have "filter (own_entry (u_id u)) xs = []" using None by (simp add: find_one_None filter_empty_conv)
    moreover have "own_entry (u_id u) (new_entry (ids i) (int i + 1) u)"
      by (simp add: own_entry_def new_entry_def)
    moreover have "\<not> own_entry uid (new_entry (ids i) (int i + 1) u)" if "uid \<noteq> u_id u" for uid
      using that by (simp add: own_entry_def new_entry_def)
    moreover have "ids k \<noteq> ids i" if "Suc i \<le> k" for k
      using assms(3) that by (auto simp: ids_new_def dest: injD)
    ultimately show ?thesis
      using fresh assms(1,3)
      by (auto simp: ys keyed_snoc ids_new_def) (auto simp: new_entry_def)
  next
    case (Some x)
    let ?f = "\<lambda>y. if le_id y = le_id x then scored (int i + 1) u y else y"
    have ys: "ys = map ?f xs" using Some by (simp add: ys_def rank_user_def update_rows_def)
    have x: "x \<in> set xs" "own_entry (u_id u) x" using find_one_Some [OF Some] by simp_all
    have one: "y = x" if "y \<in> set xs" "le_id y = le_id x" for y
      using by_id_in [OF assms(1) that(1)] by_id_in [OF assms(1) x(1)] that(2) by (metis option.inject)
    have ids: "map le_id ys = map le_id xs" by (simp add: ys)
    then have "le_id ` set ys = le_id ` set xs" by (metis list.set_map)
    then have new: "ids_new ids (Suc i) ys" using assms(3) by (simp add: ids_new_def)
    have same: "filter P ys = filter P xs" if "\<And>y. P (?f y) = P y" "\<not> P x" for P
    proof -
      have "filter P ys = map ?f (filter P xs)" using that(1) by (simp add: ys filter_map comp_def)
      also have "\<dots> = filter P xs" using one that(2) by (intro map_idI) auto
      finally show ?thesis .
    qed
    have "filter (own_entry uid) ys = filter (own_entry uid) xs" if "uid \<noteq> u_id u" for uid
      using x(2) that by (intro same) (simp_all add: own_entry_def)
    moreover have "filter (\<lambda>x. le_season x \<noteq> None) ys = filter (\<lambda>x. le_season x \<noteq> None) xs"
      using x(2) by (intro same) (simp_all add: own_entry_def)
    moreover have "filter (own_entry (u_id u)) xs = [x]"
      using Some assms(2) by (intro filter_find_one) (simp_all add: one_each_def)
    then have "filter (own_entry (u_id u)) ys = [scored (int i + 1) u x]"
      by (simp add: ys filter_map comp_def if_distrib [of "own_entry (u_id u)"])
    moreover have "keyed le_id ys" using assms(1) ids by (simp add: keyed_def)
    ultimately show ?thesis using new by blast
  qed
  then show "keyed le_id ys" and "ids_new ids (Suc i) ys"
    and "uid \<noteq> u_id u \<Longrightarrow> filter (own_entry uid) ys = filter (own_entry uid) xs"
    and "\<exists>x. filter (own_entry (u_id u)) ys = [scored (int i + 1) u x]"
    and "filter (\<lambda>x. le_season x \<noteq> None) ys = filter (\<lambda>x. le_season x \<noteq> None) xs"
    by blast+
qed

lemma rank_user_one_each:
  assumes "keyed le_id xs" and "one_each xs" and "ids_new ids i xs"
  shows "one_each (rank_user ids (i, u) xs)"
  unfolding one_each_def
proof
  fix uid
  show "length (filter (own_entry uid) (rank_user ids (i, u) xs)) \<le> 1"
    using rank_user_step(3) [OF assms, of uid u] rank_user_step(4) [OF assms, of u] assms(2)
    by (cases "uid = u_id u") (auto simp: one_each_def)
qed

lemma rank_users:
  assumes "keyed le_id xs" and "one_each xs" and "ids_new ids n xs" and "distinct (map u_id us)"
  shows "let ys = fold (rank_user ids) (enumerate n us) xs in
    keyed le_id ys \<and> one_each ys \<and>
    (\<forall>uid. uid \<notin> u_id ` set us \<longrightarrow> filter (own_entry uid) ys = filter (own_entry uid) xs) \<and>
    (\<forall>i<length us. \<exists>x. filter (own_entry (u_id (us ! i))) ys = [scored (int (n + i) + 1) (us ! i) x]) \<and>
    filter (\<lambda>x. le_season x \<noteq> None) ys = filter (\<lambda>x. le_season x \<noteq> None) xs"
  using assms
proof (induction us arbitrary: n xs)
  case (Cons u us)
  let ?zs = "rank_user ids (n, u) xs"
  note step = rank_user_step [OF Cons.prems(1-3), where u = u]
  let ?ys = "fold (rank_user ids) (enumerate (Suc n) us) ?zs"
  have IH: "keyed le_id ?ys" "one_each ?ys"
    "\<And>uid. uid \<notin> u_id ` set us \<Longrightarrow> filter (own_entry uid) ?ys = filter (own_entry uid) ?zs"
    "\<And>i. i < length us \<Longrightarrow> \<exists>x. filter (own_entry (u_id (us ! i))) ?ys = [scored (int (Suc n + i) + 1) (us ! i) x]"
    "filter (\<lambda>x. le_season x \<noteq> None) ?ys = filter (\<lambda>x. le_season x \<noteq> None) ?zs"
    using Cons.IH [OF step(1) rank_user_one_each [OF Cons.prems(1-3)] step(2)] Cons.prems(4)
    by (simp_all add: Let_def)
  have "\<exists>x. filter (own_entry (u_id ((u # us) ! i))) ?ys = [scored (int (n + i) + 1) ((u # us) ! i) x]"
    if "i < length (u # us)" for i
  proof (cases i)
    case 0
    then show ?thesis using step(4) IH(3) [of "u_id u"] Cons.prems(4) by simp
  next
    case (Suc j)
    then show ?thesis using IH(4) [of j] that by simp
  qed
  moreover have "filter (own_entry uid) ?ys = filter (own_entry uid) xs" if "uid \<notin> u_id ` set (u # us)" for uid
    using that IH(3) [of uid] step(3) [of uid] by simp
  ultimately show ?case using IH(1,2,5) step(5) by (simp add: Let_def)
qed simp

lemma recalculate_entries:
  "entries (recalculate_ranks ids s) =
    fold (rank_user ids) (enumerate 0 (sort_desc reputation_score (users (base s)))) (entries s)"
  "base (recalculate_ranks ids s) = base s"
  by (simp_all add: recalculate_ranks_def invalidate_leaderboard_cache_def cache_drop_def Let_def)

lemma rank_users_again:
  assumes "keyed le_id xs"
    and "\<And>i. i < length us \<Longrightarrow> \<exists>x. filter (own_entry (u_id (us ! i))) xs = [scored (int (n + i) + 1) (us ! i) x]"
  shows "fold (rank_user ids) (enumerate n us) xs = xs"
  using assms(2)
proof (induction us arbitrary: n)
  case (Cons u us)
  obtain x where x: "filter (own_entry (u_id u)) xs = [scored (int n + 1) u x]"
    using Cons.prems [of 0] by auto
  let ?z = "scored (int n + 1) u x"
  have "?z \<in> set (filter (own_entry (u_id u)) xs)" unfolding x by simp
  then have z: "?z \<in> set xs" by simp
  have "y = ?z" if "y \<in> set xs" "le_id y = le_id ?z" for y
    using by_id_in [OF assms(1) that(1)] by_id_in [OF assms(1) z] that(2) by (metis option.inject)
  then have "map (\<lambda>y. if le_id y = le_id ?z then scored (int n + 1) u y else y) xs = xs"
    by (intro map_idI) (metis scored_simps(10))
  then have "rank_user ids (n, u) xs = xs"
    using find_one_filter [OF x] by (simp add: rank_user_def update_rows_def)
  moreover have "fold (rank_user ids) (enumerate (Suc n) us) xs = xs"
    using Cons.prems [of "Suc i" for i] by (intro Cons.IH) force
  ultimately show ?case by simp
qed simp

section \<open>Properties\<close>

text \<open>
  C18: a recalculation orders all users by reputation and leaves each of them exactly one global
  entry, with the figures of the user and as rank the position in that order, so the ranks are
  1, 2, 3, ... without gap or tie; entries of seasons keep as they are, and running it again changes
  nothing.
\<close>

theorem recalculated_ranks:
  assumes "keyed le_id (entries s)" and "one_each (entries s)" and "ids_new ids 0 (entries s)"
    and "keyed u_id (users (base s))"
    and us_def: "us = sort_desc reputation_score (users (base s))"
    and s'_def: "s' = recalculate_ranks ids s"
  shows "mset us = mset (users (base s)) \<and>
    sorted_wrt (\<lambda>u v. reputation_score u \<ge> reputation_score v) us \<and>
    (\<forall>i<length us. \<exists>x. filter (own_entry (u_id (us ! i))) (entries s') = [x] \<and>
      le_rank x = int i + 1 \<and> le_reputation x = reputation_score (us ! i) \<and>
      le_points x = season_points (us ! i) \<and> le_predictions x = total_predictions (us ! i) \<and>
      le_correct x = correct_predictions (us ! i) \<and> le_winnings x = total_winnings_stroops (us ! i)) \<and>
    filter (\<lambda>x. le_season x \<noteq> None) (entries s') = filter (\<lambda>x. le_season x \<noteq> None) (entries s) \<and>
    entries (recalculate_ranks ids' s') = entries s'"
proof -
  have "distinct (map u_id us)" using assms(4) by (simp add: us_def keyed_def)
  note run = rank_users [OF assms(1-3) this]
  have e: "entries s' = fold (rank_user ids) (enumerate 0 us) (entries s)"
    by (simp add: s'_def us_def recalculate_entries)
  have each: "\<exists>x. filter (own_entry (u_id (us ! i))) (entries s') = [scored (int i + 1) (us ! i) x]"
    if "i < length us" for i
    using run that unfolding Let_def e by simp
  have "keyed le_id (entries s')" using run unfolding Let_def e by blast
  then have "fold (rank_user ids') (enumerate 0 us) (entries s') = entries s'"
    by (rule rank_users_again) (use each in simp)
  then have "entries (recalculate_ranks ids' s') = entries s'"
    by (simp add: recalculate_entries us_def s'_def)
  moreover have "filter (\<lambda>x. le_season x \<noteq> None) (entries s') = filter (\<lambda>x. le_season x \<noteq> None) (entries s)"
    using run unfolding Let_def e by blast
  moreover have "\<exists>x. filter (own_entry (u_id (us ! i))) (entries s') = [x] \<and>
      le_rank x = int i + 1 \<and> le_reputation x = reputation_score (us ! i) \<and>
      le_points x = season_points (us ! i) \<and> le_predictions x = total_predictions (us ! i) \<and>
      le_correct x = correct_predictions (us ! i) \<and> le_winnings x = total_winnings_stroops (us ! i)"
    if "i < length us" for i
    using each [OF that] by auto
  ultimately show ?thesis
    using sorted_sort_desc [of reputation_score "users (base s)"] by (simp add: us_def mset_sort_desc)
qed

definition sample_board :: board_db where
  "sample_board = \<lparr>base = sample_db\<lparr>users := [sample_user\<lparr>reputation_score := 3\<rparr>,
       sample_admin\<lparr>reputation_score := 8\<rparr>]\<rparr>, entries = [], history = [], board_cache = []\<rparr>"

definition sample_board_id :: "nat \<Rightarrow> uuid" where
  "sample_board_id n = ''entry-'' @ show_nat n"

theorem recalculated_ranks_witness:
  "\<exists>x. filter (own_entry ''u9'') (entries (recalculate_ranks sample_board_id sample_board)) = [x] \<and>
     le_rank x = 1 \<and> le_reputation x = 8"
proof -
  let ?us = "sort_desc reputation_score (users (base sample_board))"
  have "keyed le_id (entries sample_board)" "one_each (entries sample_board)"
    "ids_new sample_board_id 0 (entries sample_board)" "keyed u_id (users (base sample_board))"
    by (simp_all add: sample_board_def keyed_def one_each_def ids_new_def sample_board_id_def inj_def
        show_nat_inj sample_admin_def sample_user_def)
  note recalculated_ranks [OF this refl refl]
  moreover have "?us ! 0 = sample_admin\<lparr>reputation_score := 8\<rparr>" "0 < length ?us"
    by (simp_all add: sample_board_def sample_admin_def sample_user_def)
  ultimately show ?thesis by (fastforce simp: sample_admin_def)
qed

text \<open>
  The states the service reaches; between its own operations the rest of the backend changes the
  shared tables in any way.
\<close>

inductive board_step :: "board_db \<Rightarrow> board_db \<Rightarrow> bool" where
  recalculate: "board_step s (recalculate_ranks ids s)"
| snapshot: "board_step s (create_daily_snapshot ids day s)"
| read_top: "board_step s (snd (get_top_n t0 n season s))"
| read_cursor: "board_step s (snd (get_leaderboard_cursor t0 cap season cursor s))"
| elsewhere: "board_step s (s\<lparr>base := b\<rparr>)"

lemma rank_users_global:
  "list_all (\<lambda>x. le_season x = None) xs \<Longrightarrow> list_all (\<lambda>x. le_season x = None) (fold (rank_user ids) ius xs)"
proof (induction ius arbitrary: xs)
  case (Cons iu ius)
  obtain i u where iu: "iu = (i, u)" by (cases iu)
  have "list_all (\<lambda>x. le_season x = None) (rank_user ids iu xs)"
    using Cons.prems
    by (auto simp: iu rank_user_def new_entry_def list_all_iff update_rows_def
        dest!: set_save_row [THEN subsetD] split: option.splits)
  then show ?case by (simp add: Cons.IH)
qed simp

lemma board_step_global:
  assumes "board_step s s'" and "list_all (\<lambda>x. le_season x = None) (entries s)"
  shows "list_all (\<lambda>x. le_season x = None) (entries s')"
  using assms
  by (cases rule: board_step.cases)
    (auto simp: recalculate_entries rank_users_global create_daily_snapshot_def get_top_n_def
      get_leaderboard_cursor_def cache_write_def Let_def split: option.splits cached_board.splits sum.splits)

text \<open>
  The entries of a season are never written: from an empty table, whatever is recalculated,
  snapshotted and read and whatever happens elsewhere, the board of any season is empty, and the top
  of the active season is an error or an empty list.
\<close>

theorem season_boards_stay_empty:
  assumes "board_step\<^sup>*\<^sup>* s s'" and "entries s = []" and "season = Some (c # k)"
  shows "data (get_board page cap season s') = [] \<and> total (get_board page cap season s') = 0 \<and>
    (\<forall>rows. get_top_leaderboard t0 limit s' = Inr rows \<longrightarrow> rows = [])"
proof -
  from assms(1) have "list_all (\<lambda>x. le_season x = None) (entries s')"
    by (induction rule: rtranclp_induct) (simp_all add: assms(2) board_step_global)
  then have none: "filter (\<lambda>x. le_season x = Some j) (entries s') = []" for j
    by (auto simp: filter_empty_conv list_all_iff)
  then show ?thesis
    by (auto simp: get_board_def board_rows_def assms(3) nonempty_def get_top_leaderboard_def page_of_def
        Let_def split: sum.splits)
qed

theorem season_boards_stay_empty_witness:
  "let s = recalculate_ranks sample_board_id sample_board in
     entries s \<noteq> [] \<and> data (get_board 1 20 (Some ''season-1'') s) = []"
proof -
  have "board_step\<^sup>*\<^sup>* sample_board (recalculate_ranks sample_board_id sample_board)"
    by (rule r_into_rtranclp) (rule recalculate)
  then have "data (get_board 1 20 (Some ''season-1'') (recalculate_ranks sample_board_id sample_board)) = []"
    using season_boards_stay_empty [of sample_board _ "Some ''season-1''" "CHR ''s''" "''eason-1''" 1 20]
    by (simp add: sample_board_def)
  moreover obtain x where "filter (own_entry ''u9'') (entries (recalculate_ranks sample_board_id sample_board)) = [x]"
    using rank_users [of "[]" sample_board_id 0 "sort_desc reputation_score (users (base sample_board))"]
    by (force simp: keyed_def one_each_def ids_new_def sample_board_id_def inj_def show_nat_inj Let_def
        recalculate_entries sample_board_def sample_admin_def sample_user_def All_less_Suc2 less_Suc_eq numeral_2_eq_2)
  ultimately show ?thesis unfolding Let_def by (metis filter.simps(1) list.distinct(1))
qed

lemma cache_read_drop: "k' \<noteq> k \<Longrightarrow> cache_read t k (cache_drop k' s) = cache_read t k s"
proof -
  assume "k' \<noteq> k"
  then have "by_id fst k (delete_rows (\<lambda>r. fst r = k') c) = by_id fst k c"
    for c :: "(string \<times> cached_board \<times> timestamp) list"
    by (induction c) (auto simp: delete_rows_def)
  then show ?thesis by (simp add: cache_read_def cache_drop_def)
qed

text \<open>
  The caches answer with something else than was asked: within an hour of the first request, the
  first page read without a cursor is served again whatever limit is asked for, and the best n are
  served as they were even after a recalculation, which drops only the pages of the cursor.
\<close>

theorem board_caches_answer_stale:
  assumes "t1 < t0 + board_cache_ttl_ms"
    and "cache_read t0 (leaderboard_cursor_key season 0) s = None"
    and "cache_read t0 (leaderboard_top_key (min n 20) season) s = None"
  shows "fst (get_leaderboard_cursor t1 other season None
        (snd (get_leaderboard_cursor t0 cap season None s))) =
      Inr (cursor_page_from (min cap 100) season None s) \<and>
    fst (get_top_n t1 n season (recalculate_ranks ids (snd (get_top_n t0 n season s)\<lparr>base := b\<rparr>))) =
      fst (get_top_n t0 n season s)"
proof -
  let ?ck = "leaderboard_cursor_key season 0" and ?tk = "leaderboard_top_key (min n 20) season"
  have hit: "cache_read t1 k (cache_write t0 k v x) = Some v" for k v x
    using assms(1) by (simp add: cache_read_def cache_write_def by_id_save_row)
  have page: "fst (get_leaderboard_cursor t1 other season None (snd (get_leaderboard_cursor t0 cap season None s))) =
      Inr (cursor_page_from (min cap 100) season None s)"
    using assms(2) by (simp add: get_leaderboard_cursor_def nonempty_def Let_def hit)
  have miss: "get_top_n t0 n season s =
      (let rows = map (entry_response_of (users (base s))) (take (min n 20) (board_rows season (entries s)))
       in (rows, cache_write t0 ?tk (CachedTop rows) s))"
    using assms(3) by (simp add: get_top_n_def Let_def)
  have other: "''leaderboard:cursor:'' @ x \<noteq> ?tk" for x
    by (simp add: leaderboard_top_key_def)
  have kept: "cache_read t ?tk (recalculate_ranks ids (x\<lparr>base := b\<rparr>)) = cache_read t ?tk x" for t x
    unfolding recalculate_ranks_def invalidate_leaderboard_cache_def Let_def
      cache_read_drop [OF other] by (simp add: cache_read_def)
  have "fst (get_top_n t1 n season (recalculate_ranks ids (snd (get_top_n t0 n season s)\<lparr>base := b\<rparr>))) =
      fst (get_top_n t0 n season s)"
    unfolding miss by (simp add: get_top_n_def Let_def kept hit)
  with page show ?thesis by blast
qed

theorem board_caches_answer_stale_witness:
  "fst (get_leaderboard_cursor 60000 100 None None (snd (get_leaderboard_cursor 0 1 None None sample_board))) =
     Inr (cursor_page_from 1 None None sample_board)"
proof -
  have "cache_read 0 k sample_board = None" for k by (simp add: cache_read_def sample_board_def)
  then show ?thesis
    using board_caches_answer_stale [of 60000 0 None sample_board 1 100 1 sample_board_id "base sample_board"]
    by (simp add: board_cache_ttl_ms_def)
qed

end
