(* ===== verification/Competitions.thy ===== *)
theory Competitions
  imports Entities Samples SortFacts "HOL-Library.Product_Lexorder"
begin

text \<open>
  Competitions (\<open>backend/src/competitions/competitions.service.ts\<close>): creation and editing, joining
  and leaving, the listings and the rank of a user with its cache.
\<close>

section \<open>Rows and state\<close>

datatype visibility = Public | Private

record competition =
  cp_id :: uuid
  cp_title :: string
  cp_description :: string
  cp_start :: timestamp
  cp_end :: timestamp
  cp_prize :: stroops
  cp_max :: int
  cp_count :: int
  cp_finalized :: bool
  cp_cancelled :: bool
  cp_visibility :: visibility
  cp_invite :: "string option"
  cp_creator :: "uuid option"
  cp_created :: timestamp

record competitor =
  pt_id :: uuid
  pt_user :: uuid
  pt_competition :: uuid
  pt_score :: int
  pt_rank :: "int option"
  pt_joined :: timestamp

record rank_answer =
  ra_rank :: nat
  ra_score :: int
  ra_total :: nat
  ra_percentile :: rat

record comp_db =
  cd_users :: "user list"
  competitions :: "competition list"
  competitors :: "competitor list"
  rank_cache :: "(string \<times> rank_answer \<times> timestamp) list"

definition competition_missing :: "uuid \<Rightarrow> http_error" where
  "competition_missing k = NotFound (''Competition with ID '' @ quoted k @ '' not found'')"

definition failed_query :: http_error where
  "failed_query = InternalError ''QueryFailedError''"

definition save_competition :: "competition \<Rightarrow> comp_db \<Rightarrow> comp_db" where
  "save_competition x s = s\<lparr>competitions := save_row cp_id x (competitions s)\<rparr>"

section \<open>Creating and editing\<close>

record create_competition_dto =
  cc_title :: string
  cc_description :: string
  cc_start :: timestamp
  cc_end :: timestamp
  cc_prize :: string
  cc_max :: "int option"
  cc_visibility :: visibility

text \<open>\<open>bytes\<close> are the three random bytes of a private invite code, whose column is unique.\<close>

definition create_competition ::
  "env \<Rightarrow> string \<Rightarrow> create_competition_dto \<Rightarrow> user \<Rightarrow> comp_db \<Rightarrow> competition result \<times> comp_db" where
  "create_competition e bytes dto user s =
     (let code = (if cc_visibility dto = Private then Some (to_upper (hex_of bytes)) else None);
          most = (case cc_max dto of None \<Rightarrow> 0 | Some n \<Rightarrow> n) in
      case big_int (cc_prize dto) of
        None \<Rightarrow> (Inl failed_query, s)
      | Some prize \<Rightarrow>
          if \<not> pg_int8 prize \<or> \<not> pg_int4 most \<or> (code \<noteq> None \<and> code \<in> cp_invite ` set (competitions s))
          then (Inl failed_query, s)
          else
            (let x = \<lparr>cp_id = fresh e 0, cp_title = cc_title dto, cp_description = cc_description dto,
               cp_start = cc_start dto, cp_end = cc_end dto, cp_prize = prize, cp_max = most, cp_count = 0,
               cp_finalized = False, cp_cancelled = False, cp_visibility = cc_visibility dto,
               cp_invite = code, cp_creator = Some (u_id user), cp_created = now e\<rparr>
             in (Inr x, save_competition x s)))"

record update_competition_dto =
  uc_title :: "string option"
  uc_description :: "string option"
  uc_prize :: "string option"
  uc_max :: "int option"

definition apply_update :: "update_competition_dto \<Rightarrow> competition \<Rightarrow> competition option" where
  "apply_update dto x =
     (let y = x\<lparr>cp_title := (case uc_title dto of None \<Rightarrow> cp_title x | Some t \<Rightarrow> t),
                cp_description := (case uc_description dto of None \<Rightarrow> cp_description x | Some t \<Rightarrow> t),
                cp_max := (case uc_max dto of None \<Rightarrow> cp_max x | Some n \<Rightarrow> n)\<rparr> in
      if \<not> pg_int4 (cp_max y) then None
      else case uc_prize dto of
        None \<Rightarrow> Some y
      | Some t \<Rightarrow>
          (case big_int t of
             None \<Rightarrow> None
           | Some n \<Rightarrow> if pg_int8 n then Some (y\<lparr>cp_prize := n\<rparr>) else None))"

text \<open>A competition whose creator was removed has a null creator, whose id cannot be read.\<close>

definition update_competition ::
  "timestamp \<Rightarrow> uuid \<Rightarrow> update_competition_dto \<Rightarrow> uuid \<Rightarrow> comp_db \<Rightarrow> competition result \<times> comp_db" where
  "update_competition t0 k dto uid s =
     (case by_id cp_id k (competitions s) of
        None \<Rightarrow> (Inl (competition_missing k), s)
      | Some x \<Rightarrow>
          (case cp_creator x of
             None \<Rightarrow> (Inl (InternalError ''TypeError''), s)
           | Some c \<Rightarrow>
               if c \<noteq> uid then (Inl (Forbidden ''Only the creator can update this competition''), s)
               else if t0 \<ge> cp_start x then
                 (Inl (BadRequest ''Cannot update a competition that has already started''), s)
               else
                 (case apply_update dto x of
                    None \<Rightarrow> (Inl failed_query, s)
                  | Some y \<Rightarrow> (Inr y, save_competition y s))))"

section \<open>Joining and leaving\<close>

definition joined_by :: "uuid \<Rightarrow> uuid \<Rightarrow> competitor \<Rightarrow> bool" where
  "joined_by uid k p \<longleftrightarrow> pt_user p = uid \<and> pt_competition p = k"

definition in_competition :: "uuid \<Rightarrow> competitor list \<Rightarrow> competitor list" where
  "in_competition k ps = filter (\<lambda>p. pt_competition p = k) ps"

text \<open>
  \<open>joinCompetition\<close> in two steps, its reads and its writes, between which another request may run.
  The insert fails on a second row of the user, which the unique index forbids.
\<close>

definition join_check :: "timestamp \<Rightarrow> uuid \<Rightarrow> uuid \<Rightarrow> comp_db \<Rightarrow> unit result" where
  "join_check t0 k uid s =
     (case by_id cp_id k (competitions s) of
        None \<Rightarrow> Inl (competition_missing k)
      | Some x \<Rightarrow>
          if t0 \<ge> cp_end x then Inl (BadRequest ''Competition has already ended'')
          else if find_one (joined_by uid k) (competitors s) \<noteq> None then
            Inl (Conflict ''You have already joined this competition'')
          else if cp_max x > 0 \<and> int (length (in_competition k (competitors s))) \<ge> cp_max x then
            Inl (BadRequest ''Competition is full'')
          else Inr ())"

definition count_one_more :: "uuid \<Rightarrow> int \<Rightarrow> competition list \<Rightarrow> competition list" where
  "count_one_more k d xs = update_rows (\<lambda>x. cp_id x = k) (\<lambda>x. x\<lparr>cp_count := cp_count x + d\<rparr>) xs"

definition new_competitor :: "env \<Rightarrow> uuid \<Rightarrow> uuid \<Rightarrow> competitor" where
  "new_competitor e k uid =
     \<lparr>pt_id = fresh e 0, pt_user = uid, pt_competition = k, pt_score = 0, pt_rank = None, pt_joined = now e\<rparr>"

definition join_save :: "env \<Rightarrow> uuid \<Rightarrow> uuid \<Rightarrow> comp_db \<Rightarrow> competitor result \<times> comp_db" where
  "join_save e k uid s =
     (if find_one (joined_by uid k) (competitors s) \<noteq> None \<or> by_id cp_id k (competitions s) = None
      then (Inl failed_query, s)
      else (let p = new_competitor e k uid in
        (Inr p, s\<lparr>competitors := save_row pt_id p (competitors s),
                  competitions := count_one_more k 1 (competitions s)\<rparr>)))"

definition join_competition :: "env \<Rightarrow> uuid \<Rightarrow> user \<Rightarrow> comp_db \<Rightarrow> competitor result \<times> comp_db" where
  "join_competition e k user s =
     (case join_check (now e) k (u_id user) s of
        Inl err \<Rightarrow> (Inl err, s)
      | Inr _ \<Rightarrow> join_save e k (u_id user) s)"

definition leave_competition :: "timestamp \<Rightarrow> uuid \<Rightarrow> uuid \<Rightarrow> comp_db \<Rightarrow> unit result \<times> comp_db" where
  "leave_competition t0 k uid s =
     (case by_id cp_id k (competitions s) of
        None \<Rightarrow> (Inl (competition_missing k), s)
      | Some x \<Rightarrow>
          if t0 \<ge> cp_start x then
            (Inl (BadRequest ''Cannot leave competition after it has started''), s)
          else
            (case find_one (joined_by uid k) (competitors s) of
               None \<Rightarrow> (Inl (NotFound ''You are not a participant in this competition''), s)
             | Some p \<Rightarrow>
                 (Inr (), s\<lparr>competitors := delete_rows (\<lambda>q. pt_id q = pt_id p) (competitors s),
                            competitions := count_one_more k (- 1) (competitions s)\<rparr>)))"

section \<open>Status and listings\<close>

datatype competition_status = CsActive | CsUpcoming | CsEnded | CsCancelled

definition get_competition_status :: "competition \<Rightarrow> timestamp \<Rightarrow> competition_status" where
  "get_competition_status x t0 =
     (if cp_cancelled x then CsCancelled
      else if t0 < cp_start x then CsUpcoming
      else if t0 \<ge> cp_start x \<and> t0 \<le> cp_end x then CsActive
      else CsEnded)"

text \<open>The condition \<open>applyStatusFilter\<close> hands to the database.\<close>

fun competition_status_filter :: "competition_status \<Rightarrow> timestamp \<Rightarrow> competition \<Rightarrow> bool" where
  "competition_status_filter CsActive t0 x = (cp_start x \<le> t0 \<and> cp_end x \<ge> t0 \<and> \<not> cp_cancelled x)"
| "competition_status_filter CsUpcoming t0 x = (cp_start x > t0 \<and> \<not> cp_cancelled x)"
| "competition_status_filter CsEnded t0 x = (cp_end x < t0 \<and> \<not> cp_cancelled x)"
| "competition_status_filter CsCancelled t0 x = cp_cancelled x"

definition get_time_remaining :: "competition \<Rightarrow> timestamp \<Rightarrow> int option" where
  "get_time_remaining x t0 =
     (if t0 \<ge> cp_end x then None
      else if t0 < cp_start x then Some (cp_start x - t0)
      else Some (cp_end x - t0))"

definition find_all_competitions :: "comp_db \<Rightarrow> competition list" where
  "find_all_competitions s =
     sort_desc cp_created (filter (\<lambda>x. cp_visibility x = Public \<and> \<not> cp_cancelled x) (competitions s))"

record competition_item =
  ci_competition :: competition
  ci_participants :: nat
  ci_status :: competition_status
  ci_remaining :: "int option"

record 'a listing =
  ls_data :: "'a list"
  ls_total :: nat
  ls_page :: nat
  ls_limit :: nat

text \<open>The list shows 0 participants for every competition, whatever its counter says.\<close>

definition list_competitions ::
  "timestamp \<Rightarrow> nat \<Rightarrow> nat \<Rightarrow> competition_status option \<Rightarrow> visibility option \<Rightarrow> comp_db
    \<Rightarrow> competition_item listing" where
  "list_competitions t0 page limit status vis s =
     (let rows = filter (\<lambda>x. (case status of None \<Rightarrow> True | Some st \<Rightarrow> competition_status_filter st t0 x) \<and>
            (case vis of None \<Rightarrow> True | Some v \<Rightarrow> cp_visibility x = v)) (competitions s) in
      \<lparr>ls_data = map (\<lambda>x. \<lparr>ci_competition = x, ci_participants = 0,
           ci_status = get_competition_status x t0, ci_remaining = get_time_remaining x t0\<rparr>)
         (page_of page limit (sort_desc cp_created rows)),
       ls_total = length rows, ls_page = page, ls_limit = limit\<rparr>)"

definition find_competition :: "uuid \<Rightarrow> comp_db \<Rightarrow> competition option" where
  "find_competition k s = by_id cp_id k (competitions s)"

section \<open>Ranking\<close>

definition board_place :: "competitor \<Rightarrow> int \<times> int" where
  "board_place p = (pt_score p, - pt_joined p)"

record competitor_item =
  pi_competitor :: competitor
  pi_username :: "string option"
  pi_address :: string
  pi_rank :: int

definition competitor_item_of :: "user list \<Rightarrow> nat \<Rightarrow> competitor \<Rightarrow> competitor_item" where
  "competitor_item_of us i p =
     (let u = by_id u_id (pt_user p) us in
      \<lparr>pi_competitor = p, pi_username = Option.bind u username,
       pi_address = (case u of None \<Rightarrow> [] | Some v \<Rightarrow> stellar_address v),
       pi_rank = (case pt_rank p of Some r \<Rightarrow> r | None \<Rightarrow> int (i + 1))\<rparr>)"

definition get_competitors ::
  "uuid \<Rightarrow> nat \<Rightarrow> nat \<Rightarrow> comp_db \<Rightarrow> competitor_item listing result" where
  "get_competitors k page limit s =
     (case by_id cp_id k (competitions s) of
        None \<Rightarrow> Inl (competition_missing k)
      | Some _ \<Rightarrow>
          (let most = min limit 50; rows = in_competition k (competitors s);
               skip = (page - 1) * most;
               shown = page_of page most (sort_desc board_place rows) in
           Inr \<lparr>ls_data = map (\<lambda>(i, p). competitor_item_of (cd_users s) (skip + i) p) (enumerate 0 shown),
            ls_total = length rows, ls_page = page, ls_limit = most\<rparr>))"

definition rank_cache_ttl_ms :: int where
  "rank_cache_ttl_ms = 5 * 60 * 1000"

definition is_ahead :: "competitor \<Rightarrow> competitor \<Rightarrow> bool" where
  "is_ahead p q \<longleftrightarrow> pt_score q > pt_score p \<or> (pt_score q = pt_score p \<and> pt_joined q < pt_joined p)"

definition rank_of :: "competitor \<Rightarrow> competitor list \<Rightarrow> rank_answer" where
  "rank_of p rows =
     (let r = length (filter (is_ahead p) rows) + 1; n = length rows in
      \<lparr>ra_rank = r, ra_score = pt_score p, ra_total = n,
       ra_percentile = (if n > 0 then of_int (math_round ((1 - of_nat (r - 1) / of_nat n) * 10000)) / 100 else 100)\<rparr>)"

definition rank_key :: "uuid \<Rightarrow> uuid \<Rightarrow> string" where
  "rank_key k uid = k @ '':'' @ uid"

definition cached_rank :: "timestamp \<Rightarrow> string \<Rightarrow> comp_db \<Rightarrow> rank_answer option" where
  "cached_rank t0 key s =
     (case by_id fst key (rank_cache s) of
        None \<Rightarrow> None
      | Some (_, a, at_) \<Rightarrow> if t0 - at_ < rank_cache_ttl_ms then Some a else None)"

definition get_my_rank :: "timestamp \<Rightarrow> uuid \<Rightarrow> uuid \<Rightarrow> comp_db \<Rightarrow> rank_answer result \<times> comp_db" where
  "get_my_rank t0 k uid s =
     (case cached_rank t0 (rank_key k uid) s of
        Some a \<Rightarrow> (Inr a, s)
      | None \<Rightarrow>
          (case by_id cp_id k (competitions s) of
             None \<Rightarrow> (Inl (competition_missing k), s)
           | Some _ \<Rightarrow>
               (case find_one (joined_by uid k) (competitors s) of
                  None \<Rightarrow> (Inl (NotFound (''User is not a participant in competition '' @ quoted k)), s)
                | Some p \<Rightarrow>
                    (let a = rank_of p (in_competition k (competitors s)) in
                     (Inr a, s\<lparr>rank_cache := save_row fst (rank_key k uid, a, t0) (rank_cache s)\<rparr>)))))"

section \<open>The counter of participants\<close>

text \<open>The states the service reaches; the insert of a join runs in whatever state it meets.\<close>

inductive comp_step :: "comp_db \<Rightarrow> comp_db \<Rightarrow> bool" where
  create: "create_competition e bytes dto user s = (r, s') \<Longrightarrow> fresh e 0 \<notin> cp_id ` set (competitions s) \<Longrightarrow>
     comp_step s s'"
| change: "update_competition t0 k udto uid s = (r, s') \<Longrightarrow> comp_step s s'"
| join: "join_save e k uid s = (p, s') \<Longrightarrow> fresh e 0 \<notin> pt_id ` set (competitors s) \<Longrightarrow> comp_step s s'"
| leave: "leave_competition t0 k uid s = (u, s') \<Longrightarrow> comp_step s s'"
| rank: "get_my_rank t0 k uid s = (a, s') \<Longrightarrow> comp_step s s'"

definition counted :: "competitor list \<Rightarrow> competition \<Rightarrow> bool" where
  "counted ps x \<longleftrightarrow> cp_count x = int (length (in_competition (cp_id x) ps))"

definition comp_ok :: "comp_db \<Rightarrow> bool" where
  "comp_ok s \<longleftrightarrow>
     keyed cp_id (competitions s) \<and> keyed pt_id (competitors s) \<and>
     distinct (map (\<lambda>p. (pt_user p, pt_competition p)) (competitors s)) \<and>
     list_all (\<lambda>p. pt_competition p \<in> cp_id ` set (competitions s)) (competitors s) \<and>
     list_all (counted (competitors s)) (competitions s)"

lemma count_one_more_facts:
  "map cp_id (count_one_more k d xs) = map cp_id xs"
  "cp_id ` set (count_one_more k d xs) = cp_id ` set xs"
  "keyed cp_id (count_one_more k d xs) = keyed cp_id xs"
proof -
  show ids: "map cp_id (count_one_more k d xs) = map cp_id xs"
    unfolding count_one_more_def by (rule keys_update_rows) simp
  then show "cp_id ` set (count_one_more k d xs) = cp_id ` set xs" by (metis list.set_map)
  show "keyed cp_id (count_one_more k d xs) = keyed cp_id xs" by (simp add: keyed_def ids)
qed

lemma count_one_more_counted:
  assumes "list_all (counted ps) xs"
    and "\<And>j. int (length (in_competition j qs)) = int (length (in_competition j ps)) + (if j = k then d else 0)"
  shows "list_all (counted qs) (count_one_more k d xs)"
  using assms by (auto simp: list_all_iff count_one_more_def update_rows_def counted_def)

lemma in_competition_snoc:
  "in_competition j (ps @ [p]) = in_competition j ps @ (if pt_competition p = j then [p] else [])"
  by (simp add: in_competition_def)

lemma length_delete_row:
  assumes "keyed pt_id ps" and "p \<in> set ps"
  shows "int (length (in_competition j (delete_rows (\<lambda>q. pt_id q = pt_id p) ps))) =
    int (length (in_competition j ps)) + (if j = pt_competition p then - 1 else 0)"
  using assms
proof (induction ps)
  case (Cons q ps)
  show ?case
  proof (cases "pt_id q = pt_id p")
    case True
    with Cons.prems have "pt_id p \<notin> pt_id ` set ps" by (auto simp: keyed_def)
    then have "delete_rows (\<lambda>q. pt_id q = pt_id p) ps = ps"
      unfolding delete_rows_def filter_id_conv by (metis image_eqI)
    moreover have "q = p" using True Cons.prems(2) \<open>pt_id p \<notin> pt_id ` set ps\<close> by auto
    ultimately show ?thesis by (simp add: delete_rows_def in_competition_def)
  next
    case False
    with Cons have "p \<in> set ps" "keyed pt_id ps" by (auto simp: keyed_def)
    with Cons.IH False show ?thesis by (auto simp: delete_rows_def in_competition_def)
  qed
qed simp

lemma apply_update_fields:
  "apply_update dto x = Some y \<Longrightarrow> cp_id y = cp_id x \<and> cp_count y = cp_count x \<and> cp_start y = cp_start x \<and>
    cp_end y = cp_end x"
  by (auto simp: apply_update_def Let_def split: if_splits option.splits)

lemma create_competition_ok:
  assumes "create_competition e bytes dto user s = (r, s')"
    and "fresh e 0 \<notin> cp_id ` set (competitions s)" and "comp_ok s"
  shows "comp_ok s'"
proof (cases "s' = s")
  case False
  with assms(1) obtain x where x: "s' = save_competition x s" "cp_id x = fresh e 0" "cp_count x = 0"
    by (auto simp: create_competition_def Let_def split: option.splits if_splits)
  have rows: "competitions s' = competitions s @ [x]" "competitors s' = competitors s"
    using x assms(2) by (simp_all add: save_competition_def save_row_fresh)
  have "in_competition (fresh e 0) (competitors s) = []"
    using assms(2,3) unfolding in_competition_def filter_empty_conv comp_ok_def list_all_iff by metis
  with assms(2,3) x(2,3) show ?thesis
    by (auto simp: comp_ok_def rows keyed_snoc counted_def list_all_iff)
qed (use assms in simp)

lemma update_competition_ok:
  assumes "update_competition t0 k dto uid s = (r, s')" and "comp_ok s"
  shows "comp_ok s'"
proof (cases "s' = s")
  case False
  with assms(1) obtain x y where x: "by_id cp_id k (competitions s) = Some x" "apply_update dto x = Some y"
    "s' = save_competition y s"
    by (auto simp: update_competition_def split: option.splits if_splits)
  have xm: "x \<in> set (competitions s)" "cp_id x = k" using by_id_Some [OF x(1)] by simp_all
  have y: "cp_id y = k" "cp_count y = cp_count x" using apply_update_fields [OF x(2)] xm by simp_all
  have ids: "cp_id ` set (save_row cp_id y (competitions s)) = cp_id ` set (competitions s)"
    using xm by (auto simp: keys_save_row y)
  have "counted (competitors s) y"
    using assms(2) xm y by (simp add: comp_ok_def list_all_iff counted_def)
  with assms(2) show ?thesis
    by (simp add: x(3) save_competition_def comp_ok_def keyed_save_row list_all_save_row ids)
qed (use assms in simp)

lemma join_save_Inr:
  assumes "join_save e k uid s = (Inr p, s')" and "fresh e 0 \<notin> pt_id ` set (competitors s)"
  shows "p = new_competitor e k uid" and "competitors s' = competitors s @ [p]"
    and "competitions s' = count_one_more k 1 (competitions s)"
    and "\<forall>q\<in>set (competitors s). \<not> joined_by uid k q" and "k \<in> cp_id ` set (competitions s)"
  using assms
  by (auto simp: join_save_def Let_def save_row_fresh new_competitor_def find_one_None by_id_None
      split: if_splits)

lemma join_save_ok:
  assumes "join_save e k uid s = (r, s')" and "fresh e 0 \<notin> pt_id ` set (competitors s)" and "comp_ok s"
  shows "comp_ok s'"
proof (cases r)
  case (Inl err)
  with assms show ?thesis by (simp add: join_save_def Let_def split: if_splits)
next
  case (Inr p)
  with assms(1) have run: "join_save e k uid s = (Inr p, s')" by simp
  note j = join_save_Inr [OF run assms(2)]
  have p: "pt_user p = uid" "pt_competition p = k" "pt_id p = fresh e 0"
    by (simp_all add: j(1) new_competitor_def)
  have "(uid, k) \<notin> (\<lambda>p. (pt_user p, pt_competition p)) ` set (competitors s)"
    using j(4) by (auto simp: joined_by_def)
  moreover have "list_all (counted (competitors s @ [p])) (count_one_more k 1 (competitions s))"
    using assms(3) p by (intro count_one_more_counted [of "competitors s"])
      (simp_all add: comp_ok_def in_competition_snoc)
  ultimately show ?thesis
    using assms(2,3) j(5) p
    by (simp add: comp_ok_def j(2,3) count_one_more_facts keyed_snoc)
qed

lemma leave_competition_ok:
  assumes "leave_competition t0 k uid s = (r, s')" and "comp_ok s"
  shows "comp_ok s'"
proof (cases "s' = s")
  case False
  with assms(1) obtain p where p: "find_one (joined_by uid k) (competitors s) = Some p"
    "s' = s\<lparr>competitors := delete_rows (\<lambda>q. pt_id q = pt_id p) (competitors s),
           competitions := count_one_more k (- 1) (competitions s)\<rparr>"
    by (auto simp: leave_competition_def split: option.splits if_splits)
  have pm: "p \<in> set (competitors s)" "pt_competition p = k"
    using find_one_Some [OF p(1)] by (simp_all add: joined_by_def)
  have k: "keyed pt_id (competitors s)" using assms(2) by (simp add: comp_ok_def)
  have "list_all (counted (delete_rows (\<lambda>q. pt_id q = pt_id p) (competitors s)))
      (count_one_more k (- 1) (competitions s))"
    using assms(2) length_delete_row [OF k pm(1)] pm(2)
    by (intro count_one_more_counted [of "competitors s"]) (simp_all add: comp_ok_def)
  moreover have "distinct (map (\<lambda>p. (pt_user p, pt_competition p))
      (delete_rows (\<lambda>q. pt_id q = pt_id p) (competitors s)))"
    using assms(2) by (simp add: comp_ok_def delete_rows_def distinct_map_filter)
  ultimately show ?thesis
    using assms(2) keyed_delete_rows [OF k]
    by (simp add: p(2) comp_ok_def count_one_more_facts)
      (auto simp: delete_rows_def list_all_iff)
qed (use assms in simp)

lemma comp_step_ok:
  assumes "comp_step s s'" and "comp_ok s" shows "comp_ok s'"
  using assms(1)
proof cases
  case (rank t0 k uid a)
  then have "competitions s' = competitions s" "competitors s' = competitors s"
    by (auto simp: get_my_rank_def Let_def split: option.splits)
  with assms(2) show ?thesis by (simp add: comp_ok_def)
qed (use assms(2) in \<open>auto intro: create_competition_ok update_competition_ok join_save_ok
    leave_competition_ok\<close>)

section \<open>Ranking lemmas\<close>

lemma is_ahead_iff: "is_ahead p q \<longleftrightarrow> board_place p < board_place q"
  by (auto simp: is_ahead_def board_place_def less_prod_def)

lemma filter_above:
  fixes f :: "'a \<Rightarrow> 'k::linorder"
  assumes "sorted_wrt (\<lambda>a b. f a > f b) xs" and "k < length xs"
  shows "filter (\<lambda>x. f (xs ! k) < f x) xs = take k xs"
proof -
  have above: "f (xs ! k) < f x" if mem: "x \<in> set (take k xs)" for x
  proof -
    obtain j where "j < length (take k xs)" "take k xs ! j = x"
      using mem unfolding in_set_conv_nth by blast
    then have "x = xs ! j" "j < k" by simp_all
    then show ?thesis using sorted_wrt_nth_less [OF assms(1), of j k] assms(2) by simp
  qed
  have below: "\<not> f (xs ! k) < f x" if mem: "x \<in> set (drop k xs)" for x
  proof -
    obtain j where "j < length (drop k xs)" "drop k xs ! j = x"
      using mem unfolding in_set_conv_nth by blast
    then have j: "x = xs ! (k + j)" "k + j < length xs" by simp_all
    show ?thesis
    proof (cases "j = 0")
      case False
      then have "f (xs ! (k + j)) < f (xs ! k)"
        using j sorted_wrt_nth_less [OF assms(1), of k "k + j"] by simp
      then show ?thesis using j(1) by simp
    qed (simp add: j(1))
  qed
  have "filter (\<lambda>x. f (xs ! k) < f x) (take k xs @ drop k xs) = take k xs"
    unfolding filter_append using above below by (simp add: filter_id_conv filter_empty_conv)
  then show ?thesis by simp
qed

lemma rank_at:
  assumes "distinct (map board_place rows)" and "i < length rows"
  shows "ra_rank (rank_of (sort_desc board_place rows ! i) rows) = i + 1"
proof -
  let ?L = "sort_desc board_place rows"
  have "mset (filter (is_ahead (?L ! i)) rows) = mset (filter (is_ahead (?L ! i)) ?L)"
    by (simp add: mset_sort_desc)
  then have "length (filter (is_ahead (?L ! i)) rows) = length (filter (is_ahead (?L ! i)) ?L)"
    by (metis size_mset)
  also have "filter (is_ahead (?L ! i)) ?L = take i ?L"
    unfolding is_ahead_iff using filter_above [OF strictly_sorted_desc [OF assms(1)], of i] assms(2) by simp
  finally show ?thesis using assms(2) by (simp add: rank_of_def Let_def)
qed

lemma competitors_listed:
  assumes "get_competitors k page limit s = Inr l"
  shows "ls_data l = map (\<lambda>(i, p). competitor_item_of (cd_users s) ((page - 1) * min limit 50 + i) p)
      (enumerate 0 (page_of page (min limit 50) (sort_desc board_place (in_competition k (competitors s)))))"
    and "by_id cp_id k (competitions s) \<noteq> None"
    and "map pi_competitor (ls_data l) =
      page_of page (min limit 50) (sort_desc board_place (in_competition k (competitors s)))"
proof -
  show l: "ls_data l = map (\<lambda>(i, p). competitor_item_of (cd_users s) ((page - 1) * min limit 50 + i) p)
      (enumerate 0 (page_of page (min limit 50) (sort_desc board_place (in_competition k (competitors s)))))"
    and "by_id cp_id k (competitions s) \<noteq> None"
    using assms unfolding get_competitors_def Let_def by (cases "by_id cp_id k (competitions s)"; auto)+
  have item: "pi_competitor (competitor_item_of us n p) = p" for us n p
    by (simp add: competitor_item_of_def Let_def)
  have "map pi_competitor (ls_data l) = map snd (enumerate 0
      (page_of page (min limit 50) (sort_desc board_place (in_competition k (competitors s)))))"
    unfolding l by (simp add: comp_def split_beta item)
  then show "map pi_competitor (ls_data l) =
      page_of page (min limit 50) (sort_desc board_place (in_competition k (competitors s)))" by simp
qed

section \<open>Properties\<close>


definition sample_competition :: competition where
  "sample_competition =
     \<lparr>cp_id = ''c1'', cp_title = ''Derby'', cp_description = ''Weekly derby'', cp_start = 2000, cp_end = 5000,
      cp_prize = 0, cp_max = 1, cp_count = 0, cp_finalized = False, cp_cancelled = True,
      cp_visibility = Public, cp_invite = None, cp_creator = Some ''u9'', cp_created = 10\<rparr>"

definition sample_comp_db :: comp_db where
  "sample_comp_db = \<lparr>cd_users = [sample_user, sample_admin], competitions = [sample_competition],
     competitors = [], rank_cache = []\<rparr>"

lemmas sample_comp_defs = sample_comp_db_def sample_competition_def

lemma sample_comp_ok: "comp_ok sample_comp_db"
  by (simp add: comp_ok_def sample_comp_defs keyed_def counted_def in_competition_def)


text \<open>
  The rank \<open>getMyRank\<close> computes by counting the participants ahead is the position the
  participants listing shows, on every page, as long as no stored rank overrides it and no two
  participants joined at the same instant with the same score.
\<close>

theorem rank_is_listed_position:
  assumes "get_competitors k page limit s = Inr l"
    and "distinct (map board_place (in_competition k (competitors s)))"
    and "list_all (\<lambda>p. pt_rank p = None) (competitors s)"
    and "i < length (ls_data l)"
    and "cached_rank t0 (rank_key k (pt_user (pi_competitor (ls_data l ! i)))) s = None"
    and "find_one (joined_by (pt_user (pi_competitor (ls_data l ! i))) k) (competitors s) =
           Some (pi_competitor (ls_data l ! i))"
  shows "\<exists>a s'. get_my_rank t0 k (pt_user (pi_competitor (ls_data l ! i))) s = (Inr a, s') \<and>
    pi_rank (ls_data l ! i) = int (ra_rank a)"
proof -
  let ?rows = "in_competition k (competitors s)" and ?most = "min limit 50"
  let ?L = "sort_desc board_place ?rows" and ?skip = "(page - 1) * min limit 50"
  let ?shown = "page_of page ?most ?L"
  note l = competitors_listed(1) [OF assms(1)]
  obtain x where x: "by_id cp_id k (competitions s) = Some x" using competitors_listed(2) [OF assms(1)] by blast
  have i: "i < length ?shown" using assms(4) by (simp add: l)
  have "?shown ! i = ?L ! (?skip + i)" "?skip + i < length ?L"
    using i by (auto simp: page_of_def)
  then have place: "?shown ! i = ?L ! (?skip + i)" "?skip + i < length ?rows" by simp_all
  have "?shown ! i \<in> set ?rows" using place nth_mem [of "?skip + i" ?L] by simp
  then have "pt_rank (?shown ! i) = None"
    using assms(3) by (auto simp: in_competition_def list_all_iff)
  moreover have item: "pi_competitor (ls_data l ! i) = ?shown ! i"
    using i by (simp add: l nth_enumerate_eq competitor_item_of_def Let_def)
  ultimately have shown_rank: "pi_rank (ls_data l ! i) = int (?skip + i + 1)"
    using i by (simp add: l nth_enumerate_eq competitor_item_of_def Let_def)
  have "ra_rank (rank_of (?shown ! i) ?rows) = ?skip + i + 1"
    unfolding place(1) by (rule rank_at [OF assms(2) place(2)])
  then show ?thesis
    using x assms(5,6) shown_rank by (simp add: get_my_rank_def item Let_def)
qed

definition sample_ranked_db :: comp_db where
  "sample_ranked_db = sample_comp_db\<lparr>competitors :=
     [\<lparr>pt_id = ''p1'', pt_user = ''u1'', pt_competition = ''c1'', pt_score = 4, pt_rank = None, pt_joined = 20\<rparr>,
      \<lparr>pt_id = ''p2'', pt_user = ''u9'', pt_competition = ''c1'', pt_score = 4, pt_rank = None, pt_joined = 10\<rparr>]\<rparr>"

theorem rank_is_listed_position_witness:
  "\<exists>l a s'. get_competitors ''c1'' 1 20 sample_ranked_db = Inr l \<and> pt_user (pi_competitor (ls_data l ! 1)) = ''u1'' \<and>
     get_my_rank 100 ''c1'' ''u1'' sample_ranked_db = (Inr a, s') \<and> pi_rank (ls_data l ! 1) = int (ra_rank a)"
proof -
  have rows: "in_competition ''c1'' (competitors sample_ranked_db) = competitors sample_ranked_db"
    by (simp add: in_competition_def sample_ranked_db_def)
  have order: "sort_desc board_place (competitors sample_ranked_db) =
      [competitors sample_ranked_db ! 1, competitors sample_ranked_db ! 0]"
    by (simp add: sample_ranked_db_def board_place_def less_eq_prod_def)
  have "by_id cp_id ''c1'' (competitions sample_ranked_db) \<noteq> None"
    by (simp add: sample_ranked_db_def sample_comp_defs)
  then obtain l where l: "get_competitors ''c1'' 1 20 sample_ranked_db = Inr l"
    by (auto simp: get_competitors_def Let_def)
  have d: "map pi_competitor (ls_data l) = sort_desc board_place (competitors sample_ranked_db)"
    using competitors_listed(3) [OF l] by (simp add: rows order page_of_def)
  have len: "length (ls_data l) = 2" using arg_cong [OF d, of length] by (simp add: order)
  have user: "pi_competitor (ls_data l ! 1) = competitors sample_ranked_db ! 0"
    using arg_cong [OF d, of "\<lambda>xs. xs ! 1"] len by (simp add: order)
  then have id: "pt_user (pi_competitor (ls_data l ! 1)) = ''u1''" by (simp add: sample_ranked_db_def)
  have "distinct (map board_place (in_competition ''c1'' (competitors sample_ranked_db)))"
    "list_all (\<lambda>p. pt_rank p = None) (competitors sample_ranked_db)"
    "cached_rank 100 (rank_key ''c1'' (pt_user (pi_competitor (ls_data l ! 1)))) sample_ranked_db = None"
    "find_one (joined_by (pt_user (pi_competitor (ls_data l ! 1))) ''c1'') (competitors sample_ranked_db) =
       Some (pi_competitor (ls_data l ! 1))"
    unfolding rows user
    by (simp_all add: sample_ranked_db_def sample_comp_db_def board_place_def cached_rank_def joined_by_def)
  from rank_is_listed_position [OF l this(1,2) _ this(3,4)] len id l show ?thesis by auto
qed

text \<open>
  Joining is decided on what was read before the insert: two users who both read a competition
  with one place left are both let in, and it ends with one participant more than its maximum.
\<close>

theorem concurrent_joins_overfill:
  assumes "by_id cp_id k (competitions s) = Some x" and "now e < cp_end x" and "now e' < cp_end x"
    and "cp_max x = int (length (in_competition k (competitors s))) + 1" and "u \<noteq> v"
    and "\<forall>p\<in>set (competitors s). \<not> joined_by u k p \<and> \<not> joined_by v k p"
    and "fresh e 0 \<noteq> fresh e' 0" and "fresh e 0 \<notin> pt_id ` set (competitors s)"
    and "fresh e' 0 \<notin> pt_id ` set (competitors s)"
  shows "join_check (now e) k u s = Inr () \<and> join_check (now e') k v s = Inr () \<and>
    (let (r1, s1) = join_save e k u s; (r2, s2) = join_save e' k v s1 in
      is_ok r1 \<and> is_ok r2 \<and> int (length (in_competition k (competitors s2))) = cp_max x + 1)"
proof -
  have "join_check (now e) k u s = Inr ()" "join_check (now e') k v s = Inr ()"
    using assms(1-4,6) by (simp_all add: join_check_def find_one_None)
  moreover obtain s1 where one: "join_save e k u s = (Inr (new_competitor e k u), s1)"
    using assms(1,6) by (simp add: join_save_def find_one_None Let_def)
  note j1 = join_save_Inr [OF one assms(8)]
  have free: "\<forall>p\<in>set (competitors s1). \<not> joined_by v k p"
    using assms(5,6) by (simp add: j1(2) new_competitor_def joined_by_def)
  have "k \<in> cp_id ` set (competitions s1)" using j1(5) by (simp add: j1(3) count_one_more_facts)
  then have "by_id cp_id k (competitions s1) \<noteq> None" by (simp add: by_id_None)
  then obtain s2 where two: "join_save e' k v s1 = (Inr (new_competitor e' k v), s2)"
    using free by (simp add: join_save_def find_one_None Let_def)
  have "fresh e' 0 \<notin> pt_id ` set (competitors s1)"
    using assms(7,9) by (simp add: j1(2) new_competitor_def)
  note j2 = join_save_Inr [OF two this]
  have "int (length (in_competition k (competitors s2))) = cp_max x + 1"
    using assms(4) by (simp add: j2(2) j1(2) in_competition_def new_competitor_def)
  ultimately show ?thesis using one two by simp
qed

theorem concurrent_joins_overfill_witness:
  "let s1 = snd (join_save sample_env ''c1'' ''u1'' sample_comp_db);
       s2 = snd (join_save (sample_env\<lparr>fresh := \<lambda>n. ''other''\<rparr>) ''c1'' ''u9'' s1) in
     length (in_competition ''c1'' (competitors s2)) = 2 \<and> cp_max sample_competition = 1"
proof -
  let ?e = "sample_env\<lparr>fresh := \<lambda>n. ''other''\<rparr>"
  have "by_id cp_id ''c1'' (competitions sample_comp_db) = Some sample_competition"
    "now sample_env < cp_end sample_competition" "now ?e < cp_end sample_competition"
    "cp_max sample_competition = int (length (in_competition ''c1'' (competitors sample_comp_db))) + 1"
    "''u1'' \<noteq> ''u9''"
    "\<forall>p\<in>set (competitors sample_comp_db). \<not> joined_by ''u1'' ''c1'' p \<and> \<not> joined_by ''u9'' ''c1'' p"
    "fresh sample_env 0 \<noteq> fresh ?e 0" "fresh sample_env 0 \<notin> pt_id ` set (competitors sample_comp_db)"
    "fresh ?e 0 \<notin> pt_id ` set (competitors sample_comp_db)"
    by (simp_all add: sample_comp_defs in_competition_def)
  from concurrent_joins_overfill [OF this] show ?thesis
    by (simp add: Let_def split_beta sample_competition_def)
qed

text \<open>The filter of the list and the status shown beside each competition agree.\<close>

lemma status_filter_agrees:
  "cp_start x \<le> cp_end x \<Longrightarrow> competition_status_filter st t0 x \<longleftrightarrow> get_competition_status x t0 = st"
  by (cases st) (auto simp: get_competition_status_def)

end
