(* ===== verification/Achievements.thy ===== *)
theory Achievements
  imports Entities Samples SortFacts
begin

text \<open>
  Achievements (\<open>backend/src/achievements/achievements.service.ts\<close>): the catalogue, the conditions on
  the columns of a user, and the unlocking.
\<close>

section \<open>Rows and state\<close>

datatype achievement_type =
    FirstPrediction | Correct10 | Correct50 | Correct100 | Accuracy75 | Accuracy90
  | Staked1M | Staked10M | Reputation500 | Reputation1000

record achievement =
  ac_id :: uuid
  ac_type :: achievement_type
  ac_title :: string
  ac_description :: string
  ac_icon :: "string option"
  ac_points :: int

record user_achievement =
  ua_user :: uuid
  ua_achievement :: uuid
  ua_unlocked :: bool
  ua_unlocked_at :: timestamp

record ach_db =
  ad_users :: "user list"
  achievements :: "achievement list"
  unlocked :: "user_achievement list"

section \<open>The catalogue\<close>

definition achievement_catalogue :: "(achievement_type \<times> string \<times> string \<times> int) list" where
  "achievement_catalogue =
     [(FirstPrediction, ''First Step'', ''Make your first prediction'', 10),
      (Correct10, ''Rising Star'', ''Get 10 correct predictions'', 50),
      (Correct50, ''Seasoned Predictor'', ''Get 50 correct predictions'', 150),
      (Correct100, ''Master Predictor'', ''Get 100 correct predictions'', 300),
      (Accuracy75, ''Accurate Mind'', ''Achieve 75% prediction accuracy'', 100),
      (Accuracy90, ''Legendary Accuracy'', ''Achieve 90% prediction accuracy'', 250),
      (Staked1M, ''High Roller'', ''Stake 1,000,000 stroops total'', 75),
      (Staked10M, ''Whale Predictor'', ''Stake 10,000,000 stroops total'', 200),
      (Reputation500, ''Respected Voice'', ''Reach 500 reputation score'', 100),
      (Reputation1000, ''Community Legend'', ''Reach 1000 reputation score'', 300)]"

definition catalogue_row :: "(nat \<Rightarrow> uuid) \<Rightarrow> nat \<times> achievement_type \<times> string \<times> string \<times> int \<Rightarrow> achievement" where
  "catalogue_row ids r =
     (case r of (i, ty, title, description, points) \<Rightarrow>
        \<lparr>ac_id = ids i, ac_type = ty, ac_title = title, ac_description = description, ac_icon = None,
         ac_points = points\<rparr>)"

definition initialize_achievements :: "(nat \<Rightarrow> uuid) \<Rightarrow> ach_db \<Rightarrow> ach_db" where
  "initialize_achievements ids s =
     (if length (achievements s) > 0 then s
      else s\<lparr>achievements := fold (save_row ac_id)
        (map (catalogue_row ids) (enumerate 0 achievement_catalogue)) (achievements s)\<rparr>)"

section \<open>Unlocking\<close>

fun achievement_condition :: "user \<Rightarrow> achievement_type \<Rightarrow> bool" where
  "achievement_condition u FirstPrediction = (total_predictions u \<ge> 1)"
| "achievement_condition u Correct10 = (correct_predictions u \<ge> 10)"
| "achievement_condition u Correct50 = (correct_predictions u \<ge> 50)"
| "achievement_condition u Correct100 = (correct_predictions u \<ge> 100)"
| "achievement_condition u Accuracy75 =
     (total_predictions u > 0 \<and>
      of_int (correct_predictions u) / of_int (total_predictions u) * 100 \<ge> (75 :: rat))"
| "achievement_condition u Accuracy90 =
     (total_predictions u > 0 \<and>
      of_int (correct_predictions u) / of_int (total_predictions u) * 100 \<ge> (90 :: rat))"
| "achievement_condition u Staked1M = (total_staked_stroops u \<ge> 1000000)"
| "achievement_condition u Staked10M = (total_staked_stroops u \<ge> 10000000)"
| "achievement_condition u Reputation500 = (reputation_score u \<ge> 500)"
| "achievement_condition u Reputation1000 = (reputation_score u \<ge> 1000)"

definition checked_types :: "achievement_type list" where
  "checked_types =
     [FirstPrediction, Correct10, Correct50, Correct100, Accuracy75, Accuracy90, Staked1M, Staked10M,
      Reputation500, Reputation1000]"

definition has_achievement :: "uuid \<Rightarrow> uuid \<Rightarrow> user_achievement \<Rightarrow> bool" where
  "has_achievement uid aid x \<longleftrightarrow> ua_user x = uid \<and> ua_achievement x = aid"

definition unlock_step ::
  "timestamp \<Rightarrow> achievement list \<Rightarrow> user \<Rightarrow> achievement_type \<Rightarrow> user_achievement list
    \<Rightarrow> user_achievement list" where
  "unlock_step t0 as u ty xs =
     (if \<not> achievement_condition u ty then xs
      else case find_one (\<lambda>a. ac_type a = ty) as of
        None \<Rightarrow> xs
      | Some a \<Rightarrow>
          if find_one (has_achievement (u_id u) (ac_id a)) xs \<noteq> None then xs
          else xs @ [\<lparr>ua_user = u_id u, ua_achievement = ac_id a, ua_unlocked = True, ua_unlocked_at = t0\<rparr>])"

definition check_and_unlock_achievements :: "timestamp \<Rightarrow> uuid \<Rightarrow> ach_db \<Rightarrow> ach_db" where
  "check_and_unlock_achievements t0 uid s =
     (case by_id u_id uid (ad_users s) of
        None \<Rightarrow> s
      | Some u \<Rightarrow> s\<lparr>unlocked := fold (unlock_step t0 (achievements s) u) checked_types (unlocked s)\<rparr>)"

record achievement_view =
  av_achievement :: achievement
  av_unlocked :: bool
  av_unlocked_at :: "timestamp option"

definition get_user_achievements :: "string \<Rightarrow> ach_db \<Rightarrow> achievement_view list result" where
  "get_user_achievements address s =
     (case find_one (\<lambda>u. stellar_address u = address) (ad_users s) of
        None \<Rightarrow> Inl (NotFound ''User not found'')
      | Some u \<Rightarrow>
          Inr (map (\<lambda>a.
            let mine = find_one (\<lambda>x. ua_achievement x = ac_id a) (filter (\<lambda>x. ua_user x = u_id u) (unlocked s)) in
            \<lparr>av_achievement = a, av_unlocked = (case mine of None \<Rightarrow> False | Some x \<Rightarrow> ua_unlocked x),
             av_unlocked_at = map_option ua_unlocked_at mine\<rparr>) (achievements s)))"

section \<open>Lemmas\<close>

text \<open>The user holds the achievement of that type.\<close>

definition holds_type :: "achievement list \<Rightarrow> user \<Rightarrow> achievement_type \<Rightarrow> user_achievement list \<Rightarrow> bool" where
  "holds_type as u ty xs \<longleftrightarrow>
     (case find_one (\<lambda>a. ac_type a = ty) as of
        None \<Rightarrow> False
      | Some a \<Rightarrow> find_one (has_achievement (u_id u) (ac_id a)) xs \<noteq> None)"

definition offered :: "achievement list \<Rightarrow> achievement_type \<Rightarrow> bool" where
  "offered as ty \<longleftrightarrow> find_one (\<lambda>a. ac_type a = ty) as \<noteq> None"

lemma find_one_snoc: "(\<exists>y. find_one P (xs @ [x]) = Some y) \<longleftrightarrow> (\<exists>y. find_one P xs = Some y) \<or> P x"
  by (auto simp: find_one_append split: option.split)

lemma types_apart:
  assumes "keyed ac_id as" and "find_one (\<lambda>a. ac_type a = ty) as = Some a"
    and "find_one (\<lambda>a. ac_type a = ty') as = Some b" and "ac_id a = ac_id b"
  shows "ty = ty'"
proof -
  have "a \<in> set as" "ac_type a = ty" "b \<in> set as" "ac_type b = ty'"
    using find_one_Some [OF assms(2)] find_one_Some [OF assms(3)] by simp_all
  moreover from this have "a = b"
    using by_id_in [OF assms(1), of a] by_id_in [OF assms(1), of b] assms(4) by (metis option.inject)
  ultimately show ?thesis by simp
qed

lemma unlock_step_holds:
  assumes "keyed ac_id as"
  shows "holds_type as u ty (unlock_step t0 as u ty' xs) \<longleftrightarrow>
    holds_type as u ty xs \<or> (ty = ty' \<and> achievement_condition u ty \<and> offered as ty)"
proof (cases "find_one (\<lambda>a. ac_type a = ty) as")
  case None
  then show ?thesis by (simp add: holds_type_def offered_def)
next
  case (Some a)
  show ?thesis
  proof (cases "find_one (\<lambda>a. ac_type a = ty') as")
    case None
    with Some show ?thesis by (auto simp: holds_type_def unlock_step_def offered_def)
  next
    case (Some b)
    note b = this
    have "ty = ty'" if "ac_id a = ac_id b"
      using types_apart [OF assms \<open>find_one (\<lambda>a. ac_type a = ty) as = Some a\<close> b that] .
    moreover have "ac_id a = ac_id b" if "ty = ty'"
      using b \<open>find_one (\<lambda>a. ac_type a = ty) as = Some a\<close> that by simp
    ultimately have same: "ac_id a = ac_id b \<longleftrightarrow> ty = ty'" by blast
    show ?thesis
      using same b \<open>find_one (\<lambda>a. ac_type a = ty) as = Some a\<close>
      by (auto simp: holds_type_def unlock_step_def offered_def find_one_snoc has_achievement_def)
  qed
qed

lemma unlock_fold_holds:
  assumes "keyed ac_id as"
  shows "holds_type as u ty (fold (unlock_step t0 as u) tys xs) \<longleftrightarrow>
    holds_type as u ty xs \<or> (ty \<in> set tys \<and> achievement_condition u ty \<and> offered as ty)"
  by (induction tys arbitrary: xs) (auto simp: unlock_step_holds [OF assms])

lemma unlock_step_others:
  "filter (\<lambda>x. ua_user x \<noteq> u_id u) (unlock_step t0 as u ty xs) = filter (\<lambda>x. ua_user x \<noteq> u_id u) xs"
  by (simp add: unlock_step_def split: option.split)

lemma unlock_fold_others:
  "filter (\<lambda>x. ua_user x \<noteq> u_id u) (fold (unlock_step t0 as u) tys xs) = filter (\<lambda>x. ua_user x \<noteq> u_id u) xs"
  by (induction tys arbitrary: xs) (simp_all add: unlock_step_others)

lemma unlock_step_prefix: "\<exists>ys. unlock_step t0 as u ty xs = xs @ ys"
  by (simp add: unlock_step_def split: option.split)

lemma unlock_fold_prefix: "\<exists>ys. fold (unlock_step t0 as u) tys xs = xs @ ys"
proof (induction tys arbitrary: xs)
  case (Cons ty tys)
  obtain ys where "unlock_step t0 as u ty xs = xs @ ys" using unlock_step_prefix by blast
  with Cons.IH [of "xs @ ys"] show ?case by auto
qed simp

lemma unlock_step_idle: "achievement_condition u ty \<longrightarrow> holds_type as u ty xs \<or> \<not> offered as ty \<Longrightarrow> unlock_step t0 as u ty xs = xs"
  by (auto simp: unlock_step_def holds_type_def offered_def split: option.splits)

lemma unlock_fold_idle:
  "(\<And>ty. ty \<in> set tys \<Longrightarrow> achievement_condition u ty \<Longrightarrow> holds_type as u ty xs \<or> \<not> offered as ty) \<Longrightarrow>
    fold (unlock_step t0 as u) tys xs = xs"
  by (induction tys) (simp_all add: unlock_step_idle)

section \<open>Properties\<close>

text \<open>
  Checking a user adds exactly the achievements of the catalogue whose condition the user meets
  and does not hold yet; nothing held is lost, no other user is affected, and checking again, at any
  time, changes nothing.
\<close>

theorem unlocks_exactly_the_earned:
  assumes "keyed ac_id (achievements s)" and "by_id u_id uid (ad_users s) = Some u"
    and "s' = check_and_unlock_achievements t0 uid s"
  shows "(\<forall>ty. holds_type (achievements s) u ty (unlocked s') \<longleftrightarrow>
      holds_type (achievements s) u ty (unlocked s) \<or>
      achievement_condition u ty \<and> offered (achievements s) ty) \<and>
    (\<exists>new. unlocked s' = unlocked s @ new \<and> (\<forall>x\<in>set new. ua_user x = uid)) \<and>
    check_and_unlock_achievements t1 uid s' = s'"
proof -
  have uid: "u_id u = uid" using by_id_Some [OF assms(2)] by simp
  have s': "s' = s\<lparr>unlocked := fold (unlock_step t0 (achievements s) u) checked_types (unlocked s)\<rparr>"
    using assms(2,3) by (simp add: check_and_unlock_achievements_def)
  have all: "ty \<in> set checked_types" for ty by (cases ty) (simp_all add: checked_types_def)
  have holds: "holds_type (achievements s) u ty (unlocked s') \<longleftrightarrow>
      holds_type (achievements s) u ty (unlocked s) \<or>
      achievement_condition u ty \<and> offered (achievements s) ty" for ty
    using unlock_fold_holds [OF assms(1)] all by (simp add: s')
  obtain new where new: "unlocked s' = unlocked s @ new"
    using unlock_fold_prefix [of t0 "achievements s" u checked_types "unlocked s"] by (auto simp: s')
  have "filter (\<lambda>x. ua_user x \<noteq> uid) (unlocked s') = filter (\<lambda>x. ua_user x \<noteq> uid) (unlocked s)"
    using unlock_fold_others [of u t0 "achievements s" checked_types "unlocked s"] by (simp add: s' uid)
  then have "\<forall>x\<in>set new. ua_user x = uid" by (simp add: new filter_empty_conv)
  moreover have "fold (unlock_step t1 (achievements s) u) checked_types (unlocked s') = unlocked s'"
    by (rule unlock_fold_idle) (use holds in blast)
  then have "check_and_unlock_achievements t1 uid s' = s'"
    using assms(2) by (simp add: check_and_unlock_achievements_def s')
  ultimately show ?thesis using holds new by blast
qed

definition sample_ach_db :: ach_db where
  "sample_ach_db = initialize_achievements (\<lambda>n. ''a'' @ show_nat n)
     \<lparr>ad_users = [sample_user\<lparr>total_predictions := 1\<rparr>], achievements = [], unlocked = []\<rparr>"

lemma sample_catalogue:
  "achievements sample_ach_db = map (catalogue_row (\<lambda>n. ''a'' @ show_nat n)) (enumerate 0 achievement_catalogue)"
proof -
  have "fold (save_row key) rs [] = rs" if "distinct (map key rs)" for key :: "achievement \<Rightarrow> uuid" and rs
    using that by (induction rs rule: rev_induct) (auto simp: save_row_fresh)
  moreover have "distinct (map ac_id (map (catalogue_row (\<lambda>n. ''a'' @ show_nat n)) (enumerate 0 achievement_catalogue)))"
    by (simp add: achievement_catalogue_def catalogue_row_def show_nat_inj)
  ultimately show ?thesis by (simp add: sample_ach_db_def initialize_achievements_def)
qed

theorem unlocks_exactly_the_earned_witness:
  "map ua_achievement (unlocked (check_and_unlock_achievements 50 ''u1'' sample_ach_db)) = [''a0''] \<and>
   check_and_unlock_achievements 60 ''u1'' (check_and_unlock_achievements 50 ''u1'' sample_ach_db) =
     check_and_unlock_achievements 50 ''u1'' sample_ach_db"
proof -
  have "keyed ac_id (achievements sample_ach_db)"
    unfolding sample_catalogue by (simp add: keyed_def achievement_catalogue_def catalogue_row_def show_nat_inj)
  moreover have u: "by_id u_id ''u1'' (ad_users sample_ach_db) = Some (sample_user\<lparr>total_predictions := 1\<rparr>)"
    by (simp add: sample_ach_db_def initialize_achievements_def sample_user_def)
  ultimately have "check_and_unlock_achievements 60 ''u1'' (check_and_unlock_achievements 50 ''u1'' sample_ach_db) =
      check_and_unlock_achievements 50 ''u1'' sample_ach_db"
    using unlocks_exactly_the_earned [OF _ _ refl] by blast
  moreover have "unlocked sample_ach_db = []" by (simp add: sample_ach_db_def initialize_achievements_def)
  moreover have "show_nat 0 = ''0''" by code_simp
  ultimately show ?thesis
    using u by (simp add: check_and_unlock_achievements_def sample_catalogue achievement_catalogue_def
        catalogue_row_def checked_types_def unlock_step_def sample_user_def)
qed

end
