(* ===== verification/Merits.thy ===== *)
theory Merits
  imports Platform Achievements
begin

text \<open>
  The columns the rewards read.  Achievements (\<open>backend/src/achievements\<close>), seasons and the profile
  rate a user by \<open>correct_predictions\<close>, \<open>total_winnings_stroops\<close>, \<open>reputation_score\<close> and
  \<open>season_points\<close>; this theory follows these columns through every step of the market side.
\<close>

definition merit_line :: "user \<Rightarrow> uuid \<times> int \<times> stroops \<times> int" where
  "merit_line u = (u_id u, correct_predictions u, total_winnings_stroops u, reputation_score u)"

definition no_points :: "user \<Rightarrow> bool" where
  "no_points u \<longleftrightarrow> season_points u = 0"

definition same_merits :: "db \<Rightarrow> db \<Rightarrow> bool" where
  "same_merits s s' \<longleftrightarrow>
     map merit_line (users s') = map merit_line (users s) \<and>
     (list_all no_points (users s) \<longrightarrow> list_all no_points (users s'))"

lemma same_users_merits: "users s' = users s \<Longrightarrow> same_merits s s'"
  by (simp add: same_merits_def)

lemma same_merits_trans: "same_merits s s1 \<Longrightarrow> same_merits s1 s2 \<Longrightarrow> same_merits s s2"
  by (simp add: same_merits_def)

lemma update_rows_merits:
  assumes "users s' = update_rows P f (users s)" and "\<And>u. merit_line (f u) = merit_line u"
    and "\<And>u. no_points u \<Longrightarrow> no_points (f u)"
  shows "same_merits s s'"
  using assms(2,3) by (auto simp: same_merits_def assms(1) update_rows_def list_all_iff)

section \<open>Every step\<close>

lemma edits_market_merits: "edits_market s s' \<Longrightarrow> same_merits s s'"
  by (auto simp: edits_market_def intro: same_users_merits)

lemma create_market_users: "create_market sor e dto user s = (r, s') \<Longrightarrow> users s' = users s"
  by (auto simp: create_market_def Let_def insert_market_Some(3) split: service_splits
      dest: insert_market_Some(3))

lemma bulk_loop_users: "bulk_loop sors e user n dtos done s = (r, s') \<Longrightarrow> users s' = users s"
  by (induction sors e user n dtos "done" s rule: bulk_loop.induct)
    (auto simp: Let_def split: service_splits dest: insert_market_Some(3))

lemma create_bulk_users: "create_bulk sors e dtos user s = (r, s') \<Longrightarrow> users s' = users s"
  by (auto simp: create_bulk_def split: service_splits dest: bulk_loop_users)

lemma stake_merits:
  assumes "submit_persist e ps s = (r, s')" shows "same_merits s s'"
proof (cases r)
  case (Inl err)
  with assms show ?thesis by (auto dest: submit_persist_Inl intro: same_users_merits)
next
  case (Inr p)
  with assms have "submit_persist e ps s = (Inr p, s')" by simp
  then obtain amount where "s' = persisted e ps amount s" by (rule submit_persist_Inr)
  then have "users s' = update_rows (\<lambda>u. u_id u = ps_user ps) (user_staked amount) (users s)"
    by (simp add: persisted_def add_stake_to_user_def)
  then show ?thesis by (rule update_rows_merits) (simp_all add: merit_line_def no_points_def user_staked_def)
qed

lemma update_note_users: "update_note pid text user s = (r, s') \<Longrightarrow> users s' = users s"
  by (auto simp: update_note_def save_prediction_def Let_def split: option.splits)

lemma claim_users: "claim sor pid user s = (r, s') \<Longrightarrow> users s' = users s"
  by (auto simp: claim_def save_prediction_def call_chain_def Let_def split: service_splits)

lemma create_flag_users: "create_flag e uid fdto s = (f, s') \<Longrightarrow> users s' = users s"
  by (auto simp: create_flag_def Let_def split: option.splits if_splits)

lemma flag_effect_merits: "same_merits s (flag_effect e admin f action s)"
proof (cases "action = BanUser")
  case True
  then have "users (flag_effect e admin f action s) =
      update_rows (\<lambda>u. u_id u = f_user f) (ban_user e admin f) (users s)" by simp
  then show ?thesis by (rule update_rows_merits) (simp_all add: merit_line_def no_points_def ban_user_def)
next
  case False
  then show ?thesis by (cases action) (simp_all add: same_users_merits)
qed

lemma resolve_flag_merits:
  assumes "resolve_flag e fid action notes uid s = (f, s')" shows "same_merits s s'"
proof (cases f)
  case (Inl err)
  with assms show ?thesis by (auto dest: resolve_flag_Inl intro: same_users_merits)
next
  case (Inr f')
  with assms have "resolve_flag e fid action notes uid s = (Inr f', s')" by simp
  then obtain g where "s' = log_activity uid ''FLAG_RESOLVED''
      [(''flag_id'', fid), (''action'', flag_action_text action),
       (''market_id'', f_market g), (''user_id'', f_user g)]
      (save_flag f' (flag_effect e uid g action s))" by (rule resolve_flag_Inr)
  then show ?thesis
    using flag_effect_merits [of s e uid g action] by (simp add: same_merits_def)
qed

lemma create_season_users: "create_season sor e sdto s = (x, s') \<Longrightarrow> users s' = users s"
  by (auto simp: create_season_def sync_season_def save_season_def call_chain_def Let_def
      split: service_splits)

lemma finalize_season_merits:
  assumes "finalize_season update_ok notify_ok sid s = (x, s')" shows "same_merits s s'"
proof -
  have "users s' = users s \<or> users s' = reset_points (users s)"
    using assms by (auto simp: finalize_season_def Let_def save_season_def split: option.splits if_splits)
  then show ?thesis
  proof
    assume "users s' = reset_points (users s)"
    then have "users s' = update_rows (\<lambda>u. True) (\<lambda>u. u\<lparr>season_points := 0\<rparr>) (users s)"
      by (simp add: reset_points_def)
    then show ?thesis by (rule update_rows_merits) (simp_all add: merit_line_def no_points_def)
  qed (rule same_users_merits)
qed

lemma cache_users:
  "get_prediction_stats t ref s = (st, s') \<Longrightarrow> users s' = users s"
  "get_trending_markets t page limit s = (tr, s') \<Longrightarrow> users s' = users s"
  by (auto simp: get_prediction_stats_def get_trending_markets_def compute_trending_markets_def Let_def
      split: service_splits)

lemma side_tables_users:
  "create_comment e ref text parent user s = (c, s') \<Longrightarrow> users s' = users s"
  "add_bookmark e ref user s = (b, s') \<Longrightarrow> users s' = users s"
  "remove_bookmark ref user s = (u, s') \<Longrightarrow> users s' = users s"
  by (auto simp: create_comment_def add_bookmark_def remove_bookmark_def Let_def split: service_splits)

lemma service_step_merits:
  assumes "service_step s s'" shows "same_merits s s'"
  using assms
proof cases
  case (run_recording sor tk)
  then show ?thesis using run_task_frame [of sor tk s] by (auto intro: same_users_merits)
qed (auto intro: edits_market_merits update_market_edits resolve_market_edits cancel_market_edits
    pause_market_edits resume_market_edits same_users_merits create_market_users create_bulk_users
    submit_validate_tables(1) stake_merits update_note_users claim_users create_flag_users
    resolve_flag_merits create_season_users finalize_season_merits cache_users side_tables_users
    dest: create_dispute_frame resolve_dispute_frame)

lemma process_event_users:
  assumes "process_event e ev s = (Inr (), s')" shows "users s' = users s"
proof (cases "detect_event_type ev")
  case (Some ty)
  show ?thesis
  proof (cases ty)
    case EvMarketCreated
    with Some assms have "handle_market_created e (ev_value ev) s = (Inr (), s')"
      by (simp add: process_event_def)
    then show ?thesis by (cases rule: handle_market_created_cases) simp_all
  next
    case EvMarketResolved
    with Some assms show ?thesis
      by (auto simp: process_event_def handle_market_resolved_def split: option.splits)
  next
    case EvPredictionSubmitted
    with Some assms have "handle_prediction_submitted e (ev_value ev) s = (Inr (), s')"
      by (simp add: process_event_def)
    then show ?thesis by (cases rule: handle_prediction_submitted_cases) simp_all
  next
    case EvPayoutClaimed
    with Some assms have "handle_payout_claimed (ev_value ev) s = (Inr (), s')"
      by (simp add: process_event_def)
    then show ?thesis by (cases rule: handle_payout_claimed_cases) simp_all
  qed
qed (use assms in \<open>simp add: process_event_def\<close>)

lemma platform_steps_merits: "platform_step\<^sup>*\<^sup>* s s' \<Longrightarrow> same_merits s s'"
proof (induction rule: rtranclp_induct)
  case (step s1 s2)
  from step.hyps(2) have "same_merits s1 s2"
    by (cases rule: platform_step.cases)
      (auto intro: service_step_merits same_users_merits process_event_users)
  with step.IH show ?case by (rule same_merits_trans)
qed (simp add: same_users_merits)

section \<open>Property\<close>



end
