(* ===== verification/Accounts.thy ===== *)
theory Accounts
  imports Entities EventEntities
begin

text \<open>
  The user table with all its rows (\<open>backend/src/users/entities\<close>).  A deleted account keeps its row:
  \<open>deleted_at\<close> is the ORM's soft-delete column, so every query of a repository leaves such rows out,
  while the unique constraint on \<open>stellar_address\<close> still counts them.  The table \<open>users\<close> of the market
  side holds the rows its queries see.
\<close>

record account_db =
  accounts :: "user list"
  account_prefs :: "user_preferences list"

definition live :: "user \<Rightarrow> bool" where
  "live u \<longleftrightarrow> deleted_at u = None"

definition live_by_id :: "uuid \<Rightarrow> user list \<Rightarrow> user option" where
  "live_by_id uid us = find_one (\<lambda>u. u_id u = uid \<and> live u) us"

definition live_by_address :: "string \<Rightarrow> user list \<Rightarrow> user option" where
  "live_by_address a us = find_one (\<lambda>u. stellar_address u = a \<and> live u) us"

definition new_account :: "uuid \<Rightarrow> timestamp \<Rightarrow> string \<Rightarrow> user" where
  "new_account uid t a =
     \<lparr>u_id = uid, stellar_address = a, username = None, avatar_url = None, total_predictions = 0,
      correct_predictions = 0, total_staked_stroops = 0, total_winnings_stroops = 0,
      reputation_score = 0, season_points = 0, role = ''user'', email = None, is_banned = False,
      ban_reason = None, banned_at = None, banned_by = None, u_created_at = t, deleted_at = None\<rparr>"

definition default_preferences :: "uuid \<Rightarrow> user_preferences" where
  "default_preferences uid =
     \<lparr>up_user = uid, email_on = True, market_resolution_on = True, competition_on = True,
      leaderboard_on = True, marketing_on = False, event_created_on = True, match_added_on = True,
      prediction_submitted_on = True, match_resolved_on = True, winner_verified_on = True,
      event_cancelled_on = True, digest_frequency = DigestOff\<rparr>"

text \<open>
  What the client sees of a violated unique constraint: the exception filter turns the database
  error 23505 into a 409.
\<close>

definition already_exists :: http_error where
  "already_exists = Conflict ''A record with these details already exists.''"

section \<open>The tables are sound\<close>

definition accounts_ok :: "user list \<Rightarrow> bool" where
  "accounts_ok us \<longleftrightarrow> keyed u_id us \<and> distinct (map stellar_address us)"

lemma live_by_id_Some: "live_by_id uid us = Some u \<Longrightarrow> u \<in> set us \<and> u_id u = uid \<and> live u"
  by (auto simp: live_by_id_def dest: find_one_Some)

lemma live_by_address_Some:
  "live_by_address a us = Some u \<Longrightarrow> u \<in> set us \<and> stellar_address u = a \<and> live u"
  by (auto simp: live_by_address_def dest: find_one_Some)

lemma live_by_id_Nil [simp]: "live_by_id uid [] = None" "live_by_address a [] = None"
  by (simp_all add: live_by_id_def live_by_address_def)

lemma new_account_simps [simp]:
  "u_id (new_account uid t a) = uid" "stellar_address (new_account uid t a) = a"
  "live (new_account uid t a)"
  by (simp_all add: new_account_def live_def)

text \<open>An address whose account was deleted has no live row, since the addresses are unique.\<close>

lemma deleted_not_live:
  assumes "accounts_ok us" and "u \<in> set us" and "\<not> live u"
  shows "live_by_address (stellar_address u) us = None"
proof -
  have "v = u" if "v \<in> set us" "stellar_address v = stellar_address u" for v
    using assms(1,2) that by (auto simp: accounts_ok_def distinct_map inj_on_def)
  then show ?thesis using assms(3) by (auto simp: live_by_address_def find_one_None)
qed

end
