(* ===== verification/Auth.thy ===== *)
theory Auth
  imports Accounts Js
begin

text \<open>
  Signing in with a wallet (\<open>backend/src/auth/auth.service.ts\<close>): the server hands out a challenge,
  the wallet signs it, and the signature opens a session.  The challenges live in a map in memory,
  in insertion order.  The check of an Ed25519 signature is a library function, the parameter \<open>sg_ok\<close>;
  the random part of a challenge comes from outside.
\<close>

section \<open>Challenges\<close>

record challenge_entry =
  expires_at :: timestamp
  used :: bool

record auth_db = account_db +
  challenges :: "(string \<times> challenge_entry) list"

definition challenge_ttl_ms :: int where
  "challenge_ttl_ms = 5 * 60 * 1000"

definition challenge_text :: "timestamp \<Rightarrow> string \<Rightarrow> string \<Rightarrow> string" where
  "challenge_text t random address =
     ''PayaStakes:nonce:'' @ show_int t @ '':'' @ random @ '':'' @ address"

definition generate_challenge :: "timestamp \<Rightarrow> string \<Rightarrow> string \<Rightarrow> auth_db \<Rightarrow> string \<times> auth_db" where
  "generate_challenge t random address s =
     (let c = challenge_text t random address in
      (c, s\<lparr>challenges := save_row fst (c, \<lparr>expires_at = t + challenge_ttl_ms, used = False\<rparr>) (challenges s)\<rparr>))"

definition cleanup_expired_challenges :: "timestamp \<Rightarrow> auth_db \<Rightarrow> auth_db" where
  "cleanup_expired_challenges t s =
     s\<lparr>challenges := delete_rows (\<lambda>(c, x). t > expires_at x) (challenges s)\<rparr>"

definition remove_challenge :: "string \<Rightarrow> auth_db \<Rightarrow> auth_db" where
  "remove_challenge c s = s\<lparr>challenges := delete_rows (\<lambda>r. fst r = c) (challenges s)\<rparr>"

definition is_valid_challenge :: "timestamp \<Rightarrow> string \<Rightarrow> auth_db \<Rightarrow> bool \<times> auth_db" where
  "is_valid_challenge t c s =
     (case by_id fst c (challenges s) of
        None \<Rightarrow> (False, s)
      | Some (_, x) \<Rightarrow> if t > expires_at x then (False, remove_challenge c s) else (True, s))"

definition ends_with :: "string \<Rightarrow> string \<Rightarrow> bool" where
  "ends_with s p \<longleftrightarrow> length p \<le> length s \<and> drop (length s - length p) s = p"

text \<open>The first entry of the map that has not expired, used or not.\<close>

definition find_valid_challenge_for_address ::
  "timestamp \<Rightarrow> string \<Rightarrow> (string \<times> challenge_entry) list \<Rightarrow> (string \<times> challenge_entry) option" where
  "find_valid_challenge_for_address t address cs =
     find_one (\<lambda>(c, x). ends_with c (CHR '':'' # address) \<and> t \<le> expires_at x) cs"

section \<open>Signing in\<close>

text \<open>Finding the user, or inserting one with default preferences.\<close>

definition upsert_user :: "timestamp \<Rightarrow> uuid \<Rightarrow> string \<Rightarrow> auth_db \<Rightarrow> user result \<times> auth_db" where
  "upsert_user t uid address s =
     (case live_by_address address (accounts s) of
        Some u \<Rightarrow> (Inr u, s)
      | None \<Rightarrow>
          if find_one (\<lambda>u. stellar_address u = address) (accounts s) \<noteq> None then (Inl already_exists, s)
          else
            (let u = new_account uid t address;
                 s1 = s\<lparr>accounts := accounts s @ [u]\<rparr> in
             (Inr u,
              if by_id up_user uid (account_prefs s1) \<noteq> None then s1
              else s1\<lparr>account_prefs := account_prefs s1 @ [default_preferences uid]\<rparr>)))"

definition mark_used :: "string \<Rightarrow> auth_db \<Rightarrow> auth_db" where
  "mark_used c s = s\<lparr>challenges := update_rows (\<lambda>r. fst r = c) (\<lambda>(k, x). (k, x\<lparr>used := True\<rparr>)) (challenges s)\<rparr>"

definition verify_signature ::
  "(string \<Rightarrow> string \<Rightarrow> string \<Rightarrow> bool) \<Rightarrow> timestamp \<Rightarrow> uuid \<Rightarrow> string \<Rightarrow> string \<Rightarrow> auth_db
    \<Rightarrow> user result \<times> auth_db" where
  "verify_signature sg_ok t uid address signed s =
     (case find_valid_challenge_for_address t address (challenges s) of
        None \<Rightarrow> (Inl (Unauthorized ''No valid challenge found or challenge expired''), s)
      | Some (c, x) \<Rightarrow>
          if used x then (Inl (Unauthorized ''Challenge already used''), s)
          else if \<not> sg_ok address c signed then (Inl (Unauthorized ''Invalid signature''), s)
          else upsert_user t uid address (mark_used c s))"

record jwt_payload =
  jp_sub :: uuid
  jp_address :: string

definition payload_of :: "user \<Rightarrow> jwt_payload" where
  "payload_of u = \<lparr>jp_sub = u_id u, jp_address = stellar_address u\<rparr>"

definition verify_challenge ::
  "(string \<Rightarrow> string \<Rightarrow> string \<Rightarrow> bool) \<Rightarrow> timestamp \<Rightarrow> uuid \<Rightarrow> string \<Rightarrow> string \<Rightarrow> auth_db
    \<Rightarrow> (jwt_payload \<times> user) result \<times> auth_db" where
  "verify_challenge sg_ok t uid address signed s =
     (case verify_signature sg_ok t uid address signed s of
        (Inl err, s') \<Rightarrow> (Inl err, s')
      | (Inr u, s') \<Rightarrow> (Inr (payload_of u, u), s'))"

definition refresh_token :: "uuid \<Rightarrow> auth_db \<Rightarrow> jwt_payload result" where
  "refresh_token uid s =
     (case live_by_id uid (accounts s) of
        None \<Rightarrow> Inl (Unauthorized ''User not found or has been deleted'')
      | Some u \<Rightarrow> Inr (payload_of u))"

section \<open>Traces\<close>

text \<open>
  What happened, the latest event first.  The random part makes each challenge a new one; requests
  may come in any order and with any clock.
\<close>

datatype auth_event =
    Issued string timestamp string
  | SignedIn string string timestamp string

fun signed_challenges :: "auth_event list \<Rightarrow> string list" where
  "signed_challenges [] = []"
| "signed_challenges (SignedIn c a t sg # tr) = c # signed_challenges tr"
| "signed_challenges (Issued c t a # tr) = signed_challenges tr"

fun issued_challenges :: "auth_event list \<Rightarrow> string list" where
  "issued_challenges [] = []"
| "issued_challenges (SignedIn c a t sg # tr) = issued_challenges tr"
| "issued_challenges (Issued c t a # tr) = c # issued_challenges tr"

inductive auth_run ::
  "(string \<Rightarrow> string \<Rightarrow> string \<Rightarrow> bool) \<Rightarrow> auth_event list \<Rightarrow> auth_db \<Rightarrow> bool" for sg_ok where
  start: "challenges s = [] \<Longrightarrow> auth_run sg_ok [] s"
| issue: "auth_run sg_ok tr s \<Longrightarrow> generate_challenge t random a s = (c, s') \<Longrightarrow>
     c \<notin> set (issued_challenges tr) \<Longrightarrow> auth_run sg_ok (Issued c t a # tr) s'"
| sign_in: "auth_run sg_ok tr s \<Longrightarrow> verify_challenge sg_ok t uid a sg s = (Inr (p, u), s') \<Longrightarrow>
     find_valid_challenge_for_address t a (challenges s) = Some (c, x) \<Longrightarrow>
     auth_run sg_ok (SignedIn c a t sg # tr) s'"
| refused: "auth_run sg_ok tr s \<Longrightarrow> verify_challenge sg_ok t uid a sg s = (Inl err, s') \<Longrightarrow>
     auth_run sg_ok tr s'"
| tidy: "auth_run sg_ok tr s \<Longrightarrow> auth_run sg_ok tr (cleanup_expired_challenges t s)"
| drop_one: "auth_run sg_ok tr s \<Longrightarrow> auth_run sg_ok tr (remove_challenge c s)"
| check: "auth_run sg_ok tr s \<Longrightarrow> is_valid_challenge t c s = (b, s') \<Longrightarrow> auth_run sg_ok tr s'"
| other: "auth_run sg_ok tr s \<Longrightarrow> challenges s' = challenges s \<Longrightarrow> auth_run sg_ok tr s'"

section \<open>Lemmas\<close>

lemma ends_withD: "ends_with s p \<Longrightarrow> \<exists>q. s = q @ p"
  unfolding ends_with_def by (metis append_take_drop_id)

lemma ends_with_append [simp]: "ends_with (q @ p) p"
  by (simp add: ends_with_def)

text \<open>The part behind the last colon is determined.\<close>

lemma last_part:
  assumes "ends_with c (CHR '':'' # a)" and "ends_with c (CHR '':'' # b)"
    and "CHR '':'' \<notin> set a" and "CHR '':'' \<notin> set b"
  shows "a = b"
proof -
  obtain p q where c: "c = p @ CHR '':'' # a" "c = q @ CHR '':'' # b"
    using ends_withD [OF assms(1)] ends_withD [OF assms(2)] by blast
  have "takeWhile (\<lambda>x. x \<noteq> CHR '':'') (rev c) = rev a"
    unfolding c(1) using assms(3) by (simp add: takeWhile_append)
  moreover have "takeWhile (\<lambda>x. x \<noteq> CHR '':'') (rev c) = rev b"
    unfolding c(2) using assms(4) by (simp add: takeWhile_append)
  ultimately show ?thesis by simp
qed

lemma challenge_text_ends: "ends_with (challenge_text t random a) (CHR '':'' # a)"
  using ends_with_append [of "''PayaStakes:nonce:'' @ show_int t @ '':'' @ random" "CHR '':'' # a"]
  by (simp add: challenge_text_def)

lemma found_challenge:
  assumes "find_valid_challenge_for_address t a cs = Some (c, x)"
  shows "(c, x) \<in> set cs" and "ends_with c (CHR '':'' # a)" and "t \<le> expires_at x"
  using find_one_Some [OF assms [unfolded find_valid_challenge_for_address_def]] by auto

lemma mark_used_simps [simp]:
  "accounts (mark_used c s) = accounts s" "account_prefs (mark_used c s) = account_prefs s"
  by (simp_all add: mark_used_def)

lemma in_mark_used:
  "(k, x) \<in> set (challenges (mark_used c s)) \<Longrightarrow>
    \<exists>y. (k, y) \<in> set (challenges s) \<and> expires_at x = expires_at y \<and> used x = (used y \<or> k = c)"
  by (auto simp: mark_used_def update_rows_def split: if_splits)

lemma upsert_challenges: "upsert_user t uid a s = (r, s') \<Longrightarrow> challenges s' = challenges s"
  by (auto simp: upsert_user_def Let_def split: option.splits if_splits)

lemma verify_challenge_Inr:
  assumes "verify_challenge sg_ok t uid a sg s = (Inr (p, u), s')"
  obtains c x where "find_valid_challenge_for_address t a (challenges s) = Some (c, x)" and "\<not> used x"
    and "sg_ok a c sg" and "upsert_user t uid a (mark_used c s) = (Inr u, s')" and "p = payload_of u"
  using assms by (auto simp: verify_challenge_def verify_signature_def split: prod.splits sum.splits option.splits if_splits)

lemma verify_challenge_Inl:
  assumes "verify_challenge sg_ok t uid a sg s = (Inl err, s')"
  shows "challenges s' = challenges s \<or> (\<exists>c. challenges s' = challenges (mark_used c s))"
  using assms by (auto simp: verify_challenge_def verify_signature_def dest: upsert_challenges
      split: prod.splits sum.splits option.splits if_splits)

section \<open>The invariant of the traces\<close>

definition entry_ok :: "auth_event list \<Rightarrow> string \<Rightarrow> challenge_entry \<Rightarrow> bool" where
  "entry_ok tr c x \<longleftrightarrow>
     (\<exists>t a. Issued c t a \<in> set tr \<and> expires_at x = t + challenge_ttl_ms) \<and>
     (c \<in> set (signed_challenges tr) \<longrightarrow> used x)"

definition cache_ok :: "auth_event list \<Rightarrow> (string \<times> challenge_entry) list \<Rightarrow> bool" where
  "cache_ok tr cs \<longleftrightarrow> (\<forall>c x. (c, x) \<in> set cs \<longrightarrow> entry_ok tr c x)"

fun event_ok :: "(string \<Rightarrow> string \<Rightarrow> string \<Rightarrow> bool) \<Rightarrow> auth_event list \<Rightarrow> auth_event \<Rightarrow> bool" where
  "event_ok sg_ok tr (Issued c t a) = ends_with c (CHR '':'' # a)"
| "event_ok sg_ok tr (SignedIn c a t sg) =
     (sg_ok a c sg \<and> ends_with c (CHR '':'' # a) \<and>
      (\<exists>t0 b. Issued c t0 b \<in> set tr \<and> t \<le> t0 + challenge_ttl_ms))"

definition trace_ok :: "(string \<Rightarrow> string \<Rightarrow> string \<Rightarrow> bool) \<Rightarrow> auth_event list \<Rightarrow> bool" where
  "trace_ok sg_ok tr \<longleftrightarrow>
     distinct (signed_challenges tr) \<and> (\<forall>ev\<in>set tr. event_ok sg_ok tr ev)"

lemma event_ok_mono: "event_ok sg_ok tr ev \<Longrightarrow> event_ok sg_ok (e # tr) ev"
  by (cases ev) auto

lemma in_issued: "Issued c t a \<in> set tr \<Longrightarrow> c \<in> set (issued_challenges tr)"
  by (induction tr rule: issued_challenges.induct) auto

lemma signed_in_trace: "c \<in> set (signed_challenges tr) \<Longrightarrow> \<exists>a t sg. SignedIn c a t sg \<in> set tr"
  by (induction tr rule: signed_challenges.induct) auto

lemma signed_issued: "trace_ok sg_ok tr \<Longrightarrow> c \<in> set (signed_challenges tr) \<Longrightarrow> c \<in> set (issued_challenges tr)"
  using signed_in_trace [of c tr] by (fastforce simp: trace_ok_def dest: in_issued)

lemma cache_ok_subset: "cache_ok tr cs \<Longrightarrow> set cs' \<subseteq> set cs \<Longrightarrow> cache_ok tr cs'"
  unfolding cache_ok_def by blast

lemma entry_ok_marked:
  "entry_ok tr c y \<Longrightarrow> expires_at x = expires_at y \<Longrightarrow> used x = (used y \<or> c = k) \<Longrightarrow> entry_ok tr c x"
  by (auto simp: entry_ok_def)

lemma cache_ok_marked: "cache_ok tr (challenges s) \<Longrightarrow> cache_ok tr (challenges (mark_used c s))"
  unfolding cache_ok_def using in_mark_used entry_ok_marked by metis

lemma entry_ok_issue: "entry_ok tr k x \<Longrightarrow> entry_ok (Issued c t a # tr) k x"
  by (auto simp: entry_ok_def)

lemma entry_ok_sign:
  "entry_ok tr k y \<Longrightarrow> expires_at x = expires_at y \<Longrightarrow> used x = (used y \<or> k = c) \<Longrightarrow>
    entry_ok (SignedIn c a t sg # tr) k x"
  by (auto simp: entry_ok_def)

lemma auth_run_ok: "auth_run sg_ok tr s \<Longrightarrow> trace_ok sg_ok tr \<and> cache_ok tr (challenges s)"
proof (induction rule: auth_run.induct)
  case (start s)
  then show ?case by (simp add: trace_ok_def cache_ok_def)
next
  case (issue tr s t random a c s')
  have c: "c = challenge_text t random a" using issue.hyps(2) by (simp add: generate_challenge_def Let_def)
  have cs: "set (challenges s') \<subseteq>
      insert (c, \<lparr>expires_at = t + challenge_ttl_ms, used = False\<rparr>) (set (challenges s))"
    using issue.hyps(2) set_save_row
      [of fst "(c, \<lparr>expires_at = t + challenge_ttl_ms, used = False\<rparr>)" "challenges s"]
    by (auto simp: generate_challenge_def Let_def)
  have "c \<notin> set (signed_challenges tr)" using signed_issued issue.hyps(3) issue.IH by blast
  then have "entry_ok (Issued c t a # tr) c \<lparr>expires_at = t + challenge_ttl_ms, used = False\<rparr>"
    by (auto simp: entry_ok_def)
  with issue.IH cs have "cache_ok (Issued c t a # tr) (challenges s')"
    unfolding cache_ok_def using entry_ok_issue by blast
  moreover have "trace_ok sg_ok (Issued c t a # tr)"
    using issue.IH challenge_text_ends by (auto simp: trace_ok_def c intro: event_ok_mono)
  ultimately show ?case by blast
next
  case (sign_in tr s t uid a sg p u s' c x)
  from sign_in.hyps(2) show ?case
  proof (rule verify_challenge_Inr)
    fix c' x'
    assume found': "find_valid_challenge_for_address t a (challenges s) = Some (c', x')"
      and fresh: "\<not> used x'" and sg: "sg_ok a c' sg" and up: "upsert_user t uid a (mark_used c' s) = (Inr u, s')"
    have same: "c' = c" "x' = x" using found' sign_in.hyps(3) by simp_all
    note found = found_challenge [OF sign_in.hyps(3)]
    have "c \<notin> set (signed_challenges tr)"
      using sign_in.IH found(1) fresh by (auto simp: cache_ok_def entry_ok_def same)
    moreover obtain t0 b where "Issued c t0 b \<in> set tr" "expires_at x = t0 + challenge_ttl_ms"
      using sign_in.IH found(1) unfolding cache_ok_def entry_ok_def by blast
    ultimately have "trace_ok sg_ok (SignedIn c a t sg # tr)"
      using sign_in.IH found(2,3) sg by (auto simp: trace_ok_def same intro: event_ok_mono)
    moreover have "challenges s' = challenges (mark_used c s)" using upsert_challenges [OF up] by (simp add: same)
    then have "cache_ok (SignedIn c a t sg # tr) (challenges s')"
      using sign_in.IH in_mark_used entry_ok_sign unfolding cache_ok_def by metis
    ultimately show ?thesis by blast
  qed
next
  case (refused tr s t uid a sg err s')
  then show ?case using verify_challenge_Inl [OF refused.hyps(2)] cache_ok_marked by metis
next
  case (tidy tr s t)
  then show ?case
    by (auto simp: cleanup_expired_challenges_def delete_rows_def elim: cache_ok_subset)
next
  case (drop_one tr s c)
  then show ?case by (auto simp: remove_challenge_def delete_rows_def elim: cache_ok_subset)
next
  case (check tr s t c b s')
  then have "set (challenges s') \<subseteq> set (challenges s)"
    by (auto simp: is_valid_challenge_def remove_challenge_def delete_rows_def split: option.splits prod.splits if_splits)
  with check.IH show ?case using cache_ok_subset by blast
qed simp

section \<open>Properties\<close>


text \<open>A signature scheme to run the examples with: the signature is the reversed text behind the address.\<close>

definition sample_signature :: "string \<Rightarrow> string \<Rightarrow> string \<Rightarrow> bool" where
  "sample_signature a c sg \<longleftrightarrow> sg = a @ rev c"

definition sample_challenge :: string where
  "sample_challenge = challenge_text 1000 ''ab'' ''GALICE''"

definition sample_auth :: auth_db where
  "sample_auth = snd (generate_challenge 1000 ''ab'' ''GALICE''
     \<lparr>accounts = [], account_prefs = [], challenges = []\<rparr>)"

definition sample_signed :: auth_db where
  "sample_signed = snd (verify_challenge sample_signature 2000 ''u1'' ''GALICE''
     (''GALICE'' @ rev sample_challenge) sample_auth)"

lemma sample_auth_challenges:
  "challenges sample_auth = [(sample_challenge, \<lparr>expires_at = 301000, used = False\<rparr>)]"
  by (simp add: sample_auth_def generate_challenge_def sample_challenge_def challenge_ttl_ms_def Let_def)

lemma sample_found:
  "t \<le> 301000 \<Longrightarrow> find_valid_challenge_for_address t ''GALICE'' (challenges sample_auth) =
    Some (sample_challenge, \<lparr>expires_at = 301000, used = False\<rparr>)"
  using challenge_text_ends [of 1000 "''ab''" "''GALICE''"]
  by (simp add: find_valid_challenge_for_address_def sample_auth_challenges sample_challenge_def)

lemma sample_sign_in:
  "verify_challenge sample_signature 2000 ''u1'' ''GALICE'' (''GALICE'' @ rev sample_challenge) sample_auth =
    (Inr (\<lparr>jp_sub = ''u1'', jp_address = ''GALICE''\<rparr>, new_account ''u1'' 2000 ''GALICE''), sample_signed)"
proof -
  have "accounts sample_auth = []" "account_prefs sample_auth = []"
    by (simp_all add: sample_auth_def generate_challenge_def Let_def)
  then have "fst (verify_challenge sample_signature 2000 ''u1'' ''GALICE''
      (''GALICE'' @ rev sample_challenge) sample_auth) =
      Inr (\<lparr>jp_sub = ''u1'', jp_address = ''GALICE''\<rparr>, new_account ''u1'' 2000 ''GALICE'')"
    using sample_found [of 2000]
    by (simp add: verify_challenge_def verify_signature_def sample_signature_def upsert_user_def Let_def
        payload_of_def)
  then show ?thesis unfolding sample_signed_def by (metis prod.collapse)
qed


text \<open>Once used, a challenge stays the first one found; the challenges of later requests come behind it.\<close>

lemma used_still_first:
  assumes "find_one (\<lambda>(c, x). ends_with c q \<and> t \<le> expires_at x) cs = Some (c, x)"
    and "t \<le> t2" and "t2 \<le> expires_at x"
  shows "find_one (\<lambda>(c, x). ends_with c q \<and> t2 \<le> expires_at x)
      (update_rows (\<lambda>r. fst r = c) (\<lambda>(k, x). (k, x\<lparr>used := True\<rparr>)) cs) = Some (c, x\<lparr>used := True\<rparr>)"
  using assms(1)
proof (induction cs)
  case (Cons r cs)
  obtain k y where r: "r = (k, y)" by fastforce
  show ?case
  proof (cases "ends_with k q \<and> t \<le> expires_at y")
    case True
    with Cons.prems assms(3) show ?thesis by (simp add: r update_rows_def)
  next
    case False
    then have "\<not> (ends_with k q \<and> t2 \<le> expires_at y)" using assms(2) by auto
    moreover have "find_one (\<lambda>(c, x). ends_with c q \<and> t \<le> expires_at x) cs = Some (c, x)"
      using Cons.prems False by (simp add: r split: if_splits)
    ultimately show ?thesis using Cons.IH by (cases "k = c") (auto simp: r update_rows_def)
  qed
qed simp

definition ask_challenges :: "string \<Rightarrow> (timestamp \<times> string) list \<Rightarrow> auth_db \<Rightarrow> auth_db" where
  "ask_challenges a news s = fold (\<lambda>(t, r) s. snd (generate_challenge t r a s)) news s"

lemma new_challenges_behind:
  assumes "distinct (map (\<lambda>(t, r). challenge_text t r a) news)"
    and "set (map (\<lambda>(t, r). challenge_text t r a) news) \<inter> fst ` set (challenges s) = {}"
  shows "\<exists>zs. challenges (ask_challenges a news s) = challenges s @ zs"
  using assms
proof (induction news arbitrary: s)
  case (Cons n news)
  obtain t r where n: "n = (t, r)" by fastforce
  let ?k = "challenge_text t r a" and ?s = "snd (generate_challenge t r a s)"
  have new: "challenges ?s = challenges s @ [(?k, \<lparr>expires_at = t + challenge_ttl_ms, used = False\<rparr>)]"
    using Cons.prems(2) by (simp add: n generate_challenge_def Let_def save_row_fresh)
  then have "fst ` set (challenges ?s) = insert ?k (fst ` set (challenges s))" by simp
  moreover have "?k \<notin> set (map (\<lambda>(t, r). challenge_text t r a) news)" using Cons.prems(1) by (simp add: n)
  ultimately have "set (map (\<lambda>(t, r). challenge_text t r a) news) \<inter> fst ` set (challenges ?s) = {}"
    using Cons.prems(2) by (simp only: list.map set_simps) blast
  moreover have "distinct (map (\<lambda>(t, r). challenge_text t r a) news)" using Cons.prems(1) by simp
  ultimately obtain zs where "challenges (ask_challenges a news ?s) = challenges ?s @ zs"
    using Cons.IH by blast
  moreover have "ask_challenges a (n # news) s = ask_challenges a news ?s" by (simp add: ask_challenges_def n)
  ultimately show ?case by (simp add: new)
qed (simp add: ask_challenges_def)

lemma mark_used_keys: "fst ` set (challenges (mark_used c s)) = fst ` set (challenges s)"
proof -
  have "map fst (challenges (mark_used c s)) = map fst (challenges s)"
    by (auto simp: mark_used_def update_rows_def)
  then show ?thesis by (metis list.set_map)
qed

text \<open>
  The challenge looked up is the oldest one that has not expired, used or not: for the rest of
  its five minutes a used challenge refuses every further sign-in of its address, whatever new
  challenges are asked for and however they are signed.
\<close>

theorem used_challenge_blocks:
  assumes "verify_challenge sg_ok t uid a sg s = (Inr (p, u), s1)"
    and "find_valid_challenge_for_address t a (challenges s) = Some (c, x)"
    and "t \<le> t2" and "t2 \<le> expires_at x"
    and "distinct (map (\<lambda>(t1, r). challenge_text t1 r a) news)"
    and "set (map (\<lambda>(t1, r). challenge_text t1 r a) news) \<inter> fst ` set (challenges s) = {}"
    and s2_def: "s2 = ask_challenges a news s1"
  shows "verify_challenge sg_ok t2 uid2 a sg2 s2 = (Inl (Unauthorized ''Challenge already used''), s2)"
proof -
  have s1: "challenges s1 = challenges (mark_used c s)"
    using assms(1) by (rule verify_challenge_Inr) (simp add: assms(2) upsert_challenges)
  have "find_valid_challenge_for_address t2 a (challenges s1) = Some (c, x\<lparr>used := True\<rparr>)"
    using used_still_first [OF assms(2) [unfolded find_valid_challenge_for_address_def] assms(3,4)]
    by (simp add: s1 mark_used_def find_valid_challenge_for_address_def)
  moreover obtain zs where "challenges s2 = challenges s1 @ zs"
    using new_challenges_behind [OF assms(5), of s1] assms(6) mark_used_keys [of c s] s1 s2_def by auto
  ultimately have "find_valid_challenge_for_address t2 a (challenges s2) = Some (c, x\<lparr>used := True\<rparr>)"
    by (simp add: find_valid_challenge_for_address_def find_one_append)
  then show ?thesis by (simp add: verify_challenge_def verify_signature_def)
qed

theorem used_challenge_blocks_witness:
  "let s2 = snd (generate_challenge 60000 ''cd'' ''GALICE'' sample_signed);
       c2 = challenge_text 60000 ''cd'' ''GALICE'' in
     fst (verify_challenge sample_signature 61000 ''u2'' ''GALICE'' (''GALICE'' @ rev c2) s2) =
       Inl (Unauthorized ''Challenge already used'')"
proof -
  have "take 2 (drop 7 (rev (challenge_text t r ''GALICE''))) = rev r" if "length r = 2" for t r
    using that by (simp add: challenge_text_def)
  from this [of "''cd''" 60000] this [of "''ab''" 1000]
  have "challenge_text 60000 ''cd'' ''GALICE'' \<noteq> sample_challenge"
    by (auto simp: sample_challenge_def)
  then have "set (map (\<lambda>(t1, r). challenge_text t1 r ''GALICE'') [(60000, ''cd'')]) \<inter> fst ` set (challenges sample_auth) = {}"
    by (simp add: sample_auth_challenges)
  then have "verify_challenge sample_signature 61000 ''u2'' ''GALICE'' (''GALICE'' @ rev (challenge_text 60000 ''cd'' ''GALICE''))
      (ask_challenges ''GALICE'' [(60000, ''cd'')] sample_signed) =
      (Inl (Unauthorized ''Challenge already used''), ask_challenges ''GALICE'' [(60000, ''cd'')] sample_signed)"
    by (intro used_challenge_blocks [OF sample_sign_in sample_found _ _ _ _ refl]) simp_all
  then show ?thesis unfolding Let_def ask_challenges_def by (simp only: fold_simps prod.case fst_conv)
qed

end
