(* ===== verification/ApiKeys.thy ===== *)
theory ApiKeys
  imports Auth
begin

text \<open>
  API keys (\<open>backend/src/auth/api-key.service.ts\<close>, \<open>entities/api-key.entity.ts\<close>).  A raw key is shown
  once; the table holds a prefix of it and its bcrypt hash.  bcrypt is a library: comparing a raw key
  with a hash is the parameter \<open>matches\<close>, and the hash of a new key comes with the request.
\<close>

section \<open>Rows and operations\<close>

record api_key =
  ak_id :: uuid
  ak_user :: uuid
  ak_name :: string
  ak_prefix :: string
  ak_hash :: string
  ak_scopes :: "string list"
  ak_expires_at :: "timestamp option"
  ak_revoked_at :: "timestamp option"
  ak_last_used_at :: "timestamp option"
  ak_created_at :: timestamp

record create_key_dto =
  ck_name :: string
  ck_scopes :: "string list"
  ck_expires_at :: "timestamp option"

text \<open>The clock, the id of the row, 32 random bytes in hexadecimal, and the hash of the key made of them.\<close>

record key_env =
  ke_now :: timestamp
  ke_id :: uuid
  ke_random :: string
  ke_hash :: string

definition key_mark :: string where
  "key_mark = ''ia_''"

definition new_key :: "key_env \<Rightarrow> uuid \<Rightarrow> create_key_dto \<Rightarrow> api_key" where
  "new_key e uid dto =
     \<lparr>ak_id = ke_id e, ak_user = uid, ak_name = ck_name dto,
      ak_prefix = take 10 (key_mark @ ke_random e), ak_hash = ke_hash e, ak_scopes = ck_scopes dto,
      ak_expires_at = ck_expires_at dto, ak_revoked_at = None, ak_last_used_at = None,
      ak_created_at = ke_now e\<rparr>"

text \<open>The answer shows the raw key next to the columns of the row.\<close>

definition create_api_key ::
  "key_env \<Rightarrow> uuid \<Rightarrow> create_key_dto \<Rightarrow> api_key list \<Rightarrow> (string \<times> api_key) \<times> api_key list" where
  "create_api_key e uid dto ks =
     (let k = new_key e uid dto in ((key_mark @ ke_random e, k), save_row ak_id k ks))"

text \<open>A listed key shows everything but the hash and the owner.\<close>

record key_item =
  ki_id :: uuid
  ki_name :: string
  ki_prefix :: string
  ki_scopes :: "string list"
  ki_expires_at :: "timestamp option"
  ki_last_used_at :: "timestamp option"
  ki_revoked_at :: "timestamp option"
  ki_created_at :: timestamp

definition to_key_item :: "api_key \<Rightarrow> key_item" where
  "to_key_item k =
     \<lparr>ki_id = ak_id k, ki_name = ak_name k, ki_prefix = ak_prefix k, ki_scopes = ak_scopes k,
      ki_expires_at = ak_expires_at k, ki_last_used_at = ak_last_used_at k,
      ki_revoked_at = ak_revoked_at k, ki_created_at = ak_created_at k\<rparr>"

definition list_keys_for_user :: "uuid \<Rightarrow> api_key list \<Rightarrow> key_item list" where
  "list_keys_for_user uid ks =
     map to_key_item (sort_desc ak_created_at (filter (\<lambda>k. ak_user k = uid) ks))"

definition revoke_api_key :: "timestamp \<Rightarrow> uuid \<Rightarrow> uuid \<Rightarrow> api_key list \<Rightarrow> key_item result \<times> api_key list" where
  "revoke_api_key t kid uid ks =
     (case find_one (\<lambda>k. ak_id k = kid \<and> ak_user k = uid) ks of
        None \<Rightarrow> (Inl (NotFound ''API key not found''), ks)
      | Some k \<Rightarrow>
          if ak_revoked_at k \<noteq> None then (Inl (Forbidden ''API key is already revoked''), ks)
          else
            (let k' = k\<lparr>ak_revoked_at := Some t\<rparr> in (Inr (to_key_item k'), save_row ak_id k' ks)))"

definition validate_key ::
  "(string \<Rightarrow> string \<Rightarrow> bool) \<Rightarrow> timestamp \<Rightarrow> string \<Rightarrow> api_key list \<Rightarrow> api_key result" where
  "validate_key matches t raw ks =
     (if \<not> starts_with raw key_mark then Inl (Unauthorized ''Invalid API key format'')
      else
        case filter (\<lambda>k. ak_prefix k = take 10 raw) ks of
          [] \<Rightarrow> Inl (Unauthorized ''Invalid API key'')
        | candidates \<Rightarrow>
            (case find_one (\<lambda>k. matches raw (ak_hash k)) candidates of
               None \<Rightarrow> Inl (Unauthorized ''Invalid API key'')
             | Some k \<Rightarrow>
                 if ak_revoked_at k \<noteq> None then Inl (Unauthorized ''API key has been revoked'')
                 else
                   case ak_expires_at k of
                     None \<Rightarrow> Inr k
                   | Some x \<Rightarrow> if x < t then Inl (Unauthorized ''API key has expired'') else Inr k))"

definition last_used_throttle_ms :: int where
  "last_used_throttle_ms = 60000"

definition touch_last_used :: "timestamp \<Rightarrow> api_key \<Rightarrow> api_key list \<Rightarrow> api_key list" where
  "touch_last_used t k ks =
     (let last = (case ak_last_used_at k of None \<Rightarrow> 0 | Some x \<Rightarrow> x) in
      if t - last < last_used_throttle_ms then ks
      else update_rows (\<lambda>r. ak_id r = ak_id k) (\<lambda>r. r\<lparr>ak_last_used_at := Some t\<rparr>) ks)"

section \<open>The abstract key ring\<close>

text \<open>
  What the service promises: a ring of raw keys, each with the rights it was issued with; a new key
  joins the ring, its owner can revoke it for good, and nothing else touches it.
\<close>

record grant =
  gr_key :: uuid
  gr_owner :: uuid
  gr_scopes :: "string list"
  gr_expiry :: "timestamp option"
  gr_revoked :: bool

type_synonym key_ring = "string \<rightharpoonup> grant"

definition grant_of :: "api_key \<Rightarrow> grant" where
  "grant_of k =
     \<lparr>gr_key = ak_id k, gr_owner = ak_user k, gr_scopes = ak_scopes k, gr_expiry = ak_expires_at k,
      gr_revoked = (ak_revoked_at k \<noteq> None)\<rparr>"

definition usable :: "timestamp \<Rightarrow> grant \<Rightarrow> bool" where
  "usable t g \<longleftrightarrow> \<not> gr_revoked g \<and> (case gr_expiry g of None \<Rightarrow> True | Some x \<Rightarrow> t \<le> x)"

definition revoke_grant :: "uuid \<Rightarrow> uuid \<Rightarrow> key_ring \<Rightarrow> key_ring" where
  "revoke_grant kid uid r =
     (\<lambda>raw. map_option (\<lambda>g. if gr_key g = kid \<and> gr_owner g = uid then g\<lparr>gr_revoked := True\<rparr> else g) (r raw))"

text \<open>The ring a table stands for.\<close>

definition ring_of :: "(string \<Rightarrow> string \<Rightarrow> bool) \<Rightarrow> api_key list \<Rightarrow> key_ring" where
  "ring_of matches ks raw = map_option grant_of (find_one (\<lambda>k. matches raw (ak_hash k)) ks)"

text \<open>
  Each row belongs to one raw key, which carries the mark and the prefix; that is bcrypt's contract
  for the keys the service makes.
\<close>

definition hash_of :: "(string \<Rightarrow> string \<Rightarrow> bool) \<Rightarrow> string \<Rightarrow> string \<Rightarrow> bool" where
  "hash_of matches raw h \<longleftrightarrow> (\<forall>r. matches r h \<longleftrightarrow> r = raw)"

definition row_of_key :: "(string \<Rightarrow> string \<Rightarrow> bool) \<Rightarrow> api_key \<Rightarrow> bool" where
  "row_of_key matches k \<longleftrightarrow>
     (\<exists>raw. starts_with raw key_mark \<and> ak_prefix k = take 10 raw \<and> hash_of matches raw (ak_hash k))"

definition keys_ok :: "(string \<Rightarrow> string \<Rightarrow> bool) \<Rightarrow> api_key list \<Rightarrow> bool" where
  "keys_ok matches ks \<longleftrightarrow> keyed ak_id ks \<and> list_all (row_of_key matches) ks"

text \<open>The random bytes of a new key make it new.\<close>

definition fresh_key :: "(string \<Rightarrow> string \<Rightarrow> bool) \<Rightarrow> key_env \<Rightarrow> api_key list \<Rightarrow> bool" where
  "fresh_key matches e ks \<longleftrightarrow>
     ke_id e \<notin> ak_id ` set ks \<and> hash_of matches (key_mark @ ke_random e) (ke_hash e) \<and>
     ring_of matches ks (key_mark @ ke_random e) = None"

section \<open>The table implements the ring\<close>

lemma starts_with_append [simp]: "starts_with (p @ s) p"
  by (simp add: starts_with_def)

lemma row_of_keyD:
  "row_of_key matches k \<Longrightarrow> matches raw (ak_hash k) \<Longrightarrow> ak_prefix k = take 10 raw \<and> starts_with raw key_mark"
  by (force simp: row_of_key_def hash_of_def)

lemma ring_candidates:
  assumes "list_all (row_of_key matches) ks"
  shows "find_one (\<lambda>k. matches raw (ak_hash k)) (filter (\<lambda>k. ak_prefix k = take 10 raw) ks) =
    find_one (\<lambda>k. matches raw (ak_hash k)) ks"
  using assms by (induction ks) (auto dest: row_of_keyD)

lemma ring_marked:
  assumes "list_all (row_of_key matches) ks" and "ring_of matches ks raw \<noteq> None"
  shows "starts_with raw key_mark"
proof -
  obtain k where "k \<in> set ks" "matches raw (ak_hash k)"
    using assms(2) by (auto simp: ring_of_def dest: find_one_Some)
  then show ?thesis using assms(1) by (auto simp: list_all_iff dest: row_of_keyD)
qed

text \<open>The answer depends on the candidates only through the row that matches.\<close>

lemma validate_key_found:
  assumes "starts_with raw key_mark"
  shows "validate_key matches t raw ks =
    (case find_one (\<lambda>k. matches raw (ak_hash k)) (filter (\<lambda>k. ak_prefix k = take 10 raw) ks) of
       None \<Rightarrow> Inl (Unauthorized ''Invalid API key'')
     | Some k \<Rightarrow>
         if ak_revoked_at k \<noteq> None then Inl (Unauthorized ''API key has been revoked'')
         else
           case ak_expires_at k of
             None \<Rightarrow> Inr k
           | Some x \<Rightarrow> if x < t then Inl (Unauthorized ''API key has expired'') else Inr k)"
  using assms
  by (cases "filter (\<lambda>k. ak_prefix k = take 10 raw) ks") (simp_all add: validate_key_def)

lemma validate_key_ring:
  assumes "list_all (row_of_key matches) ks"
  shows "(\<exists>k. validate_key matches t raw ks = Inr k \<and> grant_of k = g) \<longleftrightarrow>
    ring_of matches ks raw = Some g \<and> usable t g"
proof (cases "starts_with raw key_mark")
  case False
  then have "ring_of matches ks raw = None" using ring_marked [OF assms] by blast
  with False show ?thesis by (simp add: validate_key_def)
next
  case True
  show ?thesis
    unfolding validate_key_found [OF True] ring_candidates [OF assms] ring_of_def
    by (cases "find_one (\<lambda>k. matches raw (ak_hash k)) ks") (auto simp: usable_def grant_of_def split: option.splits)
qed

lemma create_refines:
  assumes "keys_ok matches ks" and "fresh_key matches e ks" and "create_api_key e uid dto ks = ((raw, k), ks')"
  shows "keys_ok matches ks'" and "ring_of matches ks' = (ring_of matches ks)(raw \<mapsto> grant_of k)"
    and "grant_of k = \<lparr>gr_key = ke_id e, gr_owner = uid, gr_scopes = ck_scopes dto,
      gr_expiry = ck_expires_at dto, gr_revoked = False\<rparr>"
proof -
  have k: "k = new_key e uid dto" "raw = key_mark @ ke_random e" and ks': "ks' = ks @ [k]"
    using assms(2,3) by (auto simp: create_api_key_def Let_def fresh_key_def save_row_fresh new_key_def)
  show "keys_ok matches ks'"
  proof -
    have "row_of_key matches k"
      unfolding row_of_key_def k new_key_def
      using assms(2) by (intro exI [of _ "key_mark @ ke_random e"]) (simp add: fresh_key_def)
    with assms(1,2) show ?thesis
      by (simp add: keys_ok_def ks' keyed_snoc fresh_key_def k new_key_def)
  qed
  show "ring_of matches ks' = (ring_of matches ks)(raw \<mapsto> grant_of k)"
  proof (rule ext)
    fix r
    have "matches r (ak_hash k) \<longleftrightarrow> r = raw"
      using assms(2) by (simp add: fresh_key_def hash_of_def k new_key_def)
    moreover have "find_one (\<lambda>k. matches raw (ak_hash k)) ks = None"
      using assms(2) by (simp add: fresh_key_def ring_of_def k)
    ultimately show "ring_of matches ks' r = ((ring_of matches ks)(raw \<mapsto> grant_of k)) r"
      by (auto simp: ring_of_def ks' find_one_append split: option.split)
  qed
  show "grant_of k = \<lparr>gr_key = ke_id e, gr_owner = uid, gr_scopes = ck_scopes dto,
      gr_expiry = ck_expires_at dto, gr_revoked = False\<rparr>"
    by (simp add: grant_of_def k new_key_def)
qed

text \<open>Writing a row back under its key and hash replaces it where it stands.\<close>

lemma ring_update:
  "(\<And>k. ak_hash (f k) = ak_hash k) \<Longrightarrow>
    ring_of matches (update_rows P f ks) raw =
      map_option (\<lambda>k. grant_of (if P k then f k else k)) (find_one (\<lambda>k. matches raw (ak_hash k)) ks)"
  by (simp add: ring_of_def find_one_update_rows option.map_comp comp_def)

lemma save_row_update:
  assumes "keyed key ks" and "k \<in> set ks" and "key (f k) = key k"
  shows "save_row key (f k) ks = update_rows (\<lambda>r. key r = key k) f ks"
  using assms
proof (induction ks)
  case (Cons x xs)
  show ?case
  proof (cases "key x = key k")
    case True
    then have "x = k" using Cons.prems by (auto simp: keyed_def)
    moreover have "\<forall>y\<in>set xs. key y \<noteq> key k" using Cons.prems(1) True by (metis image_eqI keyed_def distinct.simps(2) list.map(2) set_map)
    then have "update_rows (\<lambda>r. key r = key k) f xs = xs" by (auto simp: update_rows_def intro!: map_idI)
    ultimately show ?thesis using Cons.prems(3) by (simp add: update_rows_def)
  next
    case False
    then have "save_row key (f k) xs = update_rows (\<lambda>r. key r = key k) f xs"
      using Cons by (auto simp: keyed_def)
    with False Cons.prems(3) show ?thesis by (simp add: update_rows_def)
  qed
qed simp

lemma keys_ok_update:
  assumes "keys_ok matches ks"
    and "\<And>k. ak_id (f k) = ak_id k \<and> ak_hash (f k) = ak_hash k \<and> ak_prefix (f k) = ak_prefix k"
  shows "keys_ok matches (update_rows P f ks)"
proof -
  have "keyed ak_id (update_rows P f ks)" using assms by (simp add: keys_ok_def keyed_update_rows)
  moreover have "row_of_key matches (if P k then f k else k) = row_of_key matches k" for k
    using assms(2) by (simp add: row_of_key_def)
  then have "list_all (row_of_key matches) (update_rows P f ks) = list_all (row_of_key matches) ks"
    by (simp add: update_rows_def list.pred_map comp_def)
  ultimately show ?thesis using assms(1) by (simp add: keys_ok_def)
qed

text \<open>What a revocation does to each row.\<close>

definition revoked_row :: "timestamp \<Rightarrow> uuid \<Rightarrow> uuid \<Rightarrow> api_key \<Rightarrow> api_key" where
  "revoked_row t kid uid k =
     (if ak_id k = kid \<and> ak_user k = uid \<and> ak_revoked_at k = None then k\<lparr>ak_revoked_at := Some t\<rparr> else k)"

lemma revoked_row_simps [simp]:
  "ak_id (revoked_row t kid uid k) = ak_id k" "ak_hash (revoked_row t kid uid k) = ak_hash k"
  "ak_prefix (revoked_row t kid uid k) = ak_prefix k"
  by (simp_all add: revoked_row_def)

lemma grant_of_revoked:
  "grant_of (revoked_row t kid uid k) =
    (if gr_key (grant_of k) = kid \<and> gr_owner (grant_of k) = uid then (grant_of k)\<lparr>gr_revoked := True\<rparr>
     else grant_of k)"
  by (simp add: revoked_row_def grant_of_def)

lemma revoke_rows:
  assumes "keyed ak_id ks" and "revoke_api_key t kid uid ks = (r, ks')"
  shows "ks' = update_rows (\<lambda>k. True) (revoked_row t kid uid) ks"
proof (cases "find_one (\<lambda>k. ak_id k = kid \<and> ak_user k = uid) ks")
  case None
  then have "update_rows (\<lambda>k. True) (revoked_row t kid uid) ks = ks"
    by (auto simp: update_rows_def find_one_None revoked_row_def intro!: map_idI)
  with None assms(2) show ?thesis by (simp add: revoke_api_key_def)
next
  case (Some k)
  have k: "k \<in> set ks" "ak_id k = kid" "ak_user k = uid" using find_one_Some [OF Some] by auto
  have own: "x = k" if "x \<in> set ks" "ak_id x = kid" for x
    using that k assms(1) by (metis by_id_in option.inject)
  show ?thesis
  proof (cases "ak_revoked_at k")
    case None
    then have "ks' = save_row ak_id (revoked_row t kid uid k) ks"
      using assms(2) Some k by (simp add: revoke_api_key_def Let_def revoked_row_def)
    also have "\<dots> = update_rows (\<lambda>r. ak_id r = ak_id k) (revoked_row t kid uid) ks"
      by (rule save_row_update [OF assms(1) k(1)]) simp
    also have "\<dots> = update_rows (\<lambda>k. True) (revoked_row t kid uid) ks"
      using k(2) by (auto simp: update_rows_def revoked_row_def)
    finally show ?thesis .
  next
    case (Some x)
    then have "update_rows (\<lambda>k. True) (revoked_row t kid uid) ks = ks"
      using own by (auto simp: update_rows_def revoked_row_def intro!: map_idI)
    with Some \<open>find_one _ ks = Some k\<close> assms(2) show ?thesis by (simp add: revoke_api_key_def)
  qed
qed

lemma revoke_refines:
  assumes "keys_ok matches ks" and "revoke_api_key t kid uid ks = (r, ks')"
  shows "keys_ok matches ks'" and "ring_of matches ks' = revoke_grant kid uid (ring_of matches ks)"
proof -
  have ks': "ks' = update_rows (\<lambda>k. True) (revoked_row t kid uid) ks"
    using assms by (simp add: keys_ok_def revoke_rows)
  show "keys_ok matches ks'" unfolding ks' by (rule keys_ok_update [OF assms(1)]) simp
  show "ring_of matches ks' = revoke_grant kid uid (ring_of matches ks)"
    unfolding ks' by (rule ext, subst ring_update)
      (simp_all add: revoke_grant_def ring_of_def option.map_comp comp_def grant_of_revoked)
qed

lemma touch_refines:
  assumes "keys_ok matches ks"
  shows "keys_ok matches (touch_last_used t k ks)" and "ring_of matches (touch_last_used t k ks) = ring_of matches ks"
proof -
  show "keys_ok matches (touch_last_used t k ks)"
    using assms keys_ok_update [OF assms] by (simp add: touch_last_used_def Let_def)
  have "(\<lambda>x. grant_of (if ak_id x = ak_id k then x\<lparr>ak_last_used_at := Some t\<rparr> else x)) = grant_of"
    by (auto simp: grant_of_def)
  then have "ring_of matches (update_rows (\<lambda>r. ak_id r = ak_id k) (\<lambda>r. r\<lparr>ak_last_used_at := Some t\<rparr>) ks) =
      ring_of matches ks"
    by (intro ext, subst ring_update) (simp_all add: ring_of_def)
  then show "ring_of matches (touch_last_used t k ks) = ring_of matches ks"
    by (simp add: touch_last_used_def Let_def)
qed

section \<open>Properties\<close>

inductive ring_step :: "key_ring \<Rightarrow> key_ring \<Rightarrow> bool" where
  join: "raw \<notin> dom r \<Longrightarrow> \<not> gr_revoked g \<Longrightarrow> ring_step r (r(raw \<mapsto> g))"
| revoked: "ring_step r (revoke_grant kid uid r)"

inductive key_step :: "(string \<Rightarrow> string \<Rightarrow> bool) \<Rightarrow> api_key list \<Rightarrow> api_key list \<Rightarrow> bool" for matches where
  issue_key: "create_api_key e uid dto ks = (answer, ks') \<Longrightarrow> fresh_key matches e ks \<Longrightarrow> key_step matches ks ks'"
| revoke_key: "revoke_api_key t kid uid ks = (r, ks') \<Longrightarrow> key_step matches ks ks'"
| use_key: "validate_key matches t raw ks = Inr k \<Longrightarrow> touch_last_used t k ks = ks' \<Longrightarrow> key_step matches ks ks'"

lemma key_step_refines:
  assumes "keys_ok matches ks" and "key_step matches ks ks'"
  shows "keys_ok matches ks' \<and> ring_step\<^sup>*\<^sup>* (ring_of matches ks) (ring_of matches ks')"
  using assms(2)
proof cases
  case (issue_key e uid dto answer)
  obtain raw k where answer: "answer = (raw, k)" by fastforce
  note new = create_refines [OF assms(1) issue_key(2) issue_key(1) [unfolded answer]]
  have "raw = key_mark @ ke_random e" using issue_key(1) by (simp add: answer create_api_key_def Let_def)
  then have "raw \<notin> dom (ring_of matches ks)" using issue_key(2) by (auto simp: fresh_key_def)
  then have "ring_step (ring_of matches ks) (ring_of matches ks')"
    unfolding new(2) by (rule join) (simp add: new(3))
  with new(1) show ?thesis by blast
next
  case (revoke_key t kid uid r)
  note after = revoke_refines [OF assms(1) revoke_key]
  have "ring_step (ring_of matches ks) (ring_of matches ks')" unfolding after(2) by (rule revoked)
  with after(1) show ?thesis by blast
next
  case (use_key t raw k)
  then show ?thesis using touch_refines [OF assms(1), of t k] by auto
qed

lemma ring_steps_revoked:
  "ring_step\<^sup>*\<^sup>* r r' \<Longrightarrow> r raw = Some g \<Longrightarrow> gr_revoked g \<Longrightarrow> \<exists>g'. r' raw = Some g' \<and> gr_revoked g'"
proof (induction rule: rtranclp_induct)
  case (step b c)
  then obtain g' where "b raw = Some g'" "gr_revoked g'" by blast
  with step.hyps(2) show ?case by (cases rule: ring_step.cases) (auto simp: revoke_grant_def)
qed simp

text \<open>
  C21: the table of hashes implements the ring of keys: whatever is issued, revoked and used, a raw
  key is accepted exactly while the ring holds it, unrevoked and unexpired, and with exactly the
  owner and scopes it was issued with; a key once revoked is refused for good.
\<close>

theorem keys_refine_ring:
  assumes "keys_ok matches ks" and "(key_step matches)\<^sup>*\<^sup>* ks ks'"
  shows "ring_step\<^sup>*\<^sup>* (ring_of matches ks) (ring_of matches ks') \<and>
    (\<forall>t raw g. (\<exists>k. validate_key matches t raw ks' = Inr k \<and> grant_of k = g) \<longleftrightarrow>
      ring_of matches ks' raw = Some g \<and> usable t g) \<and>
    (\<forall>t raw g. ring_of matches ks raw = Some g \<and> gr_revoked g \<longrightarrow>
      \<not> is_ok (validate_key matches t raw ks'))"
proof -
  have run: "keys_ok matches ks' \<and> ring_step\<^sup>*\<^sup>* (ring_of matches ks) (ring_of matches ks')"
    using assms(2)
  proof (induction rule: rtranclp_induct)
    case (step b c)
    with key_step_refines [of matches b c] show ?case by (auto intro: rtranclp_trans)
  qed (simp add: assms(1))
  then have rows: "list_all (row_of_key matches) ks'" by (simp add: keys_ok_def)
  have "\<not> is_ok (validate_key matches t raw ks')"
    if "ring_of matches ks raw = Some g" "gr_revoked g" for t raw g
  proof
    assume "is_ok (validate_key matches t raw ks')"
    then obtain k where "validate_key matches t raw ks' = Inr k" by (auto simp: is_ok_iff)
    then have "ring_of matches ks' raw = Some (grant_of k)" "usable t (grant_of k)"
      using validate_key_ring [OF rows, of t raw "grant_of k"] by blast+
    then show False
      using ring_steps_revoked [of "ring_of matches ks" "ring_of matches ks'"] run that
      by (force simp: usable_def)
  qed
  with run validate_key_ring [OF rows] show ?thesis by blast
qed

text \<open>A key of the sample user, hashed by reversing it.\<close>

definition sample_matches :: "string \<Rightarrow> string \<Rightarrow> bool" where
  "sample_matches raw h \<longleftrightarrow> raw = rev h"

definition sample_key_env :: key_env where
  "sample_key_env = \<lparr>ke_now = 1000, ke_id = ''k1'', ke_random = ''0123456789'', ke_hash = rev ''ia_0123456789''\<rparr>"

definition sample_key_dto :: create_key_dto where
  "sample_key_dto = \<lparr>ck_name = ''bot'', ck_scopes = [''markets:read''], ck_expires_at = Some 9000\<rparr>"

definition sample_keys :: "api_key list" where
  "sample_keys = snd (create_api_key sample_key_env ''u1'' sample_key_dto [])"

lemma sample_keys_rows: "sample_keys = [new_key sample_key_env ''u1'' sample_key_dto]"
  by (simp add: sample_keys_def create_api_key_def Let_def)

lemma sample_fresh_key: "fresh_key sample_matches sample_key_env []"
  by (simp add: fresh_key_def sample_key_env_def hash_of_def sample_matches_def key_mark_def ring_of_def)

theorem keys_refine_ring_witness:
  "is_ok (validate_key sample_matches 2000 ''ia_0123456789'' sample_keys) \<and>
   \<not> is_ok (validate_key sample_matches 5000 ''ia_0123456789''
     (snd (revoke_api_key 3000 ''k1'' ''u1'' sample_keys)))"
proof -
  let ?dead = "snd (revoke_api_key 3000 ''k1'' ''u1'' sample_keys)"
  have "keys_ok sample_matches []" by (simp add: keys_ok_def keyed_def)
  moreover have step1: "key_step sample_matches [] sample_keys"
    unfolding sample_keys_def using sample_fresh_key by (intro issue_key) (auto simp: prod_eq_iff)
  moreover have step2: "key_step sample_matches sample_keys ?dead"
    by (rule revoke_key) (auto simp: prod_eq_iff)
  ultimately have "keys_ok sample_matches sample_keys" "keys_ok sample_matches ?dead"
    using key_step_refines by blast+
  then have "\<not> is_ok (validate_key sample_matches 5000 ''ia_0123456789'' ?dead)"
    using keys_refine_ring [of sample_matches ?dead ?dead]
    by (simp add: ring_of_def sample_keys_rows revoke_api_key_def new_key_def sample_key_env_def
        sample_matches_def grant_of_def Let_def)
  moreover have "is_ok (validate_key sample_matches 2000 ''ia_0123456789'' sample_keys)"
    by (simp add: sample_keys_rows validate_key_def new_key_def sample_key_env_def sample_key_dto_def
        sample_matches_def key_mark_def starts_with_def)
  ultimately show ?thesis by blast
qed

end
