(* ===== verification/Access.thy ===== *)
theory Access
  imports ApiKeys JsText Samples
begin

text \<open>
  What stands in front of the handlers: the guards (\<open>backend/src/common/guards\<close>,
  \<open>auth/strategies/jwt.strategy.ts\<close>, \<open>oracle/guards\<close>), the endpoints of \<open>auth/auth.controller.ts\<close> behind
  the global guards of \<open>app.module.ts\<close>, and the exception filter (\<open>common/filters\<close>).  What passport
  makes of the bearer token, the signatures and the HMAC come from libraries and are parameters.
\<close>

section \<open>The global guards\<close>

datatype passport = Verified uuid | TokenExpired | TokenInvalid | NoToken

text \<open>\<open>JwtStrategy.validate\<close> reads the user again, so a deleted account loses its session.\<close>

definition strategy_validate :: "uuid \<Rightarrow> user list \<Rightarrow> user result" where
  "strategy_validate uid us =
     (case live_by_id uid us of None \<Rightarrow> Inl (Unauthorized ''Unauthorized'') | Some u \<Rightarrow> Inr u)"

definition jwt_guard :: "bool \<Rightarrow> passport \<Rightarrow> user list \<Rightarrow> user option result" where
  "jwt_guard public p us =
     (if public then Inr None
      else case p of
        Verified uid \<Rightarrow> (case strategy_validate uid us of Inl err \<Rightarrow> Inl err | Inr u \<Rightarrow> Inr (Some u))
      | TokenExpired \<Rightarrow> Inl (Unauthorized ''Token expired'')
      | TokenInvalid \<Rightarrow> Inl (Unauthorized ''Unauthorized'')
      | NoToken \<Rightarrow> Inl (Unauthorized ''Unauthorized''))"

definition roles_guard :: "string list option \<Rightarrow> user option \<Rightarrow> bool" where
  "roles_guard required u =
     (case required of
        None \<Rightarrow> True
      | Some rs \<Rightarrow> list_ex (\<lambda>r. case u of None \<Rightarrow> False | Some v \<Rightarrow> role v = r) rs)"

section \<open>The guards of single routes\<close>

definition ban_guard :: "user option \<Rightarrow> unit result" where
  "ban_guard u =
     (case u of
        None \<Rightarrow> Inr ()
      | Some v \<Rightarrow>
          if is_banned v
          then Inl (Forbidden (''Your account has been banned. Reason: '' @
            (case ban_reason v of None \<Rightarrow> ''No reason provided''
             | Some r \<Rightarrow> if r = [] then ''No reason provided'' else r)))
          else Inr ())"

text \<open>
  The key's owner becomes the user of the request, whatever the token said; an owner whose account is
  deleted is not joined.
\<close>

definition api_key_guard ::
  "(string \<Rightarrow> string \<Rightarrow> bool) \<Rightarrow> timestamp \<Rightarrow> string option \<Rightarrow> string list \<Rightarrow> user list \<Rightarrow> api_key list
    \<Rightarrow> (user option \<times> api_key) result \<times> api_key list" where
  "api_key_guard matches t header scopes us ks =
     (case nonempty header of
        None \<Rightarrow> (Inl (Unauthorized ''X-API-Key header is required''), ks)
      | Some raw \<Rightarrow>
          (case validate_key matches t raw ks of
             Inl err \<Rightarrow> (Inl err, ks)
           | Inr k \<Rightarrow>
               (let missing = filter (\<lambda>x. x \<notin> set (ak_scopes k)) scopes in
                if missing \<noteq> []
                then (Inl (Forbidden (''API key missing required scope(s): '' @ join_with '', '' missing)), ks)
                else (Inr (live_by_id (ak_user k) us, k), touch_last_used t k ks))))"

record route =
  rt_public :: bool
  rt_roles :: "string list option"
  rt_ban :: bool
  rt_api_key :: bool
  rt_scopes :: "string list"

text \<open>Global guards first, in the order of the module, then the guards of the route.\<close>

definition authorize ::
  "(string \<Rightarrow> string \<Rightarrow> bool) \<Rightarrow> timestamp \<Rightarrow> route \<Rightarrow> passport \<Rightarrow> string option \<Rightarrow> user list
    \<Rightarrow> api_key list \<Rightarrow> user option result \<times> api_key list" where
  "authorize matches t rt p header us ks =
     (case jwt_guard (rt_public rt) p us of
        Inl err \<Rightarrow> (Inl err, ks)
      | Inr u \<Rightarrow>
          if \<not> roles_guard (rt_roles rt) u then (Inl (Forbidden ''Forbidden resource''), ks)
          else
            (case (if rt_ban rt then ban_guard u else Inr ()) of
               Inl err \<Rightarrow> (Inl err, ks)
             | Inr _ \<Rightarrow>
                 if rt_api_key rt then
                   (case api_key_guard matches t header (rt_scopes rt) us ks of
                      (Inl err, ks') \<Rightarrow> (Inl err, ks')
                    | (Inr (v, k), ks') \<Rightarrow> (Inr v, ks'))
                 else (Inr u, ks)))"

section \<open>The auth endpoints\<close>

text \<open>None of the five handlers carries the \<open>@Public\<close> decorator, and the controller has none either.\<close>

definition auth_route :: route where
  "auth_route = \<lparr>rt_public = False, rt_roles = None, rt_ban = False, rt_api_key = False, rt_scopes = []\<rparr>"

datatype auth_request =
    AskChallenge string string
  | SendSignature string string
  | CheckWallet string string string
  | AskRateLimit "nat option"
  | AskRefresh

datatype auth_answer =
    ChallengeAnswer string
  | SessionAnswer jwt_payload user
  | WalletAnswer bool
  | RateAnswer nat int timestamp
  | TokenAnswer jwt_payload timestamp

text \<open>
  Reading the rate limit is itself a hit: the request carries the hits the throttler's storage
  returns, or None when it fails.
\<close>

definition rate_limit_status :: "timestamp \<Rightarrow> nat option \<Rightarrow> auth_answer" where
  "rate_limit_status t hits =
     (let taken = (case hits of None \<Rightarrow> 0 | Some n \<Rightarrow> n) in
      RateAnswer 100 (max 0 (100 - int taken)) (t + 60000))"

text \<open>\<open>/^(\d+)([dhms])$/\<close>, with seven days for anything else.\<close>

definition parse_expiry_ms :: "string \<Rightarrow> int" where
  "parse_expiry_ms text =
     (let ds = takeWhile is_digit text; week = 7 * 24 * 60 * 60 * 1000 in
      if ds = [] then week
      else case read_nat 10 ds of
        None \<Rightarrow> week
      | Some n \<Rightarrow>
          (let rest = drop (length ds) text in
           if rest = ''d'' then int n * 24 * 60 * 60 * 1000
           else if rest = ''h'' then int n * 60 * 60 * 1000
           else if rest = ''m'' then int n * 60 * 1000
           else if rest = ''s'' then int n * 1000
           else week))"

definition jwt_expires_in :: "string option \<Rightarrow> string" where
  "jwt_expires_in setting = (case nonempty setting of None \<Rightarrow> ''7d'' | Some x \<Rightarrow> x)"

definition auth_handler ::
  "(string \<Rightarrow> string \<Rightarrow> string \<Rightarrow> bool) \<Rightarrow> string option \<Rightarrow> timestamp \<Rightarrow> uuid \<Rightarrow> user \<Rightarrow> auth_request \<Rightarrow> auth_db
    \<Rightarrow> auth_answer result \<times> auth_db" where
  "auth_handler sg_ok setting t uid u req s =
     (case req of
        AskChallenge a random \<Rightarrow>
          (case generate_challenge t random a s of (c, s') \<Rightarrow> (Inr (ChallengeAnswer c), s'))
      | SendSignature a sg \<Rightarrow>
          (case verify_challenge sg_ok t uid a sg s of
             (Inl err, s') \<Rightarrow> (Inl err, s')
           | (Inr (p, v), s') \<Rightarrow> (Inr (SessionAnswer p v), s'))
      | CheckWallet a c sg \<Rightarrow> (Inr (WalletAnswer (sg_ok a c sg)), s)
      | AskRateLimit hits \<Rightarrow> (Inr (rate_limit_status t hits), s)
      | AskRefresh \<Rightarrow>
          (case refresh_token (u_id u) s of
             Inl err \<Rightarrow> (Inl err, s)
           | Inr p \<Rightarrow> (Inr (TokenAnswer p (t + parse_expiry_ms (jwt_expires_in setting))), s)))"

definition serve_auth ::
  "(string \<Rightarrow> string \<Rightarrow> string \<Rightarrow> bool) \<Rightarrow> string option \<Rightarrow> timestamp \<Rightarrow> uuid \<Rightarrow> passport \<Rightarrow> auth_request
    \<Rightarrow> auth_db \<Rightarrow> auth_answer result \<times> auth_db" where
  "serve_auth sg_ok setting t uid p req s =
     (case fst (authorize (\<lambda>_ _. False) t auth_route p None (accounts s) []) of
        Inl err \<Rightarrow> (Inl err, s)
      | Inr None \<Rightarrow> (Inl (InternalError ''TypeError''), s)
      | Inr (Some u) \<Rightarrow> auth_handler sg_ok setting t uid u req s)"

section \<open>The guards of the oracle\<close>

record oracle_config =
  oc_api_key :: "string option"
  oc_agent :: "string option"
  oc_node_env :: string

record oracle_headers =
  oh_caller :: "string option"
  oh_api_key :: "string option"
  oh_signature :: "string option"
  oh_message :: "string option"

definition rate_window_ms :: int where
  "rate_window_ms = 60000"

definition rate_max :: nat where
  "rate_max = 100"

text \<open>A record per caller: the count and the instant it is reset.\<close>

definition check_rate_limit ::
  "timestamp \<Rightarrow> string \<Rightarrow> (string \<rightharpoonup> nat \<times> timestamp) \<Rightarrow> bool \<times> (string \<rightharpoonup> nat \<times> timestamp)" where
  "check_rate_limit t caller m =
     (case m caller of
        None \<Rightarrow> (True, m(caller \<mapsto> (1, t + rate_window_ms)))
      | Some (n, reset) \<Rightarrow>
          if t > reset then (True, m(caller \<mapsto> (1, t + rate_window_ms)))
          else if n \<ge> rate_max then (False, m)
          else (True, m(caller \<mapsto> (n + 1, reset))))"

definition verify_oracle_key :: "oracle_config \<Rightarrow> oracle_headers \<Rightarrow> unit result" where
  "verify_oracle_key c h =
     (case nonempty (oc_api_key c) of
        None \<Rightarrow> Inl (Unauthorized ''Oracle API key not configured'')
      | Some k \<Rightarrow>
          if oh_api_key h = Some k then Inr () else Inl (Unauthorized ''Invalid or missing API key''))"

text \<open>The check of a signature raises (None) on a malformed key or signature.\<close>

definition verify_oracle_signature ::
  "(string \<Rightarrow> string \<Rightarrow> string \<Rightarrow> bool option) \<Rightarrow> oracle_config \<Rightarrow> oracle_headers \<Rightarrow> unit result" where
  "verify_oracle_signature check c h =
     (case (nonempty (oh_signature h), nonempty (oh_message h), nonempty (oh_caller h)) of
        (Some sg, Some message, Some caller) \<Rightarrow>
          (case check caller message sg of
             None \<Rightarrow> Inl (Unauthorized ''Signature verification failed'')
           | Some ok \<Rightarrow>
               if \<not> ok then Inl (Unauthorized ''Invalid signature'')
               else if Some caller \<noteq> oc_agent c
               then Inl (Unauthorized ''Caller address does not match authorized AI agent'')
               else Inr ())
      | _ \<Rightarrow> Inl (Unauthorized ''Missing signature, message, or caller address''))"

definition oracle_guard ::
  "(string \<Rightarrow> string \<Rightarrow> string \<Rightarrow> bool option) \<Rightarrow> oracle_config \<Rightarrow> timestamp \<Rightarrow> oracle_headers
    \<Rightarrow> (string \<rightharpoonup> nat \<times> timestamp) \<Rightarrow> unit result \<times> (string \<rightharpoonup> nat \<times> timestamp)" where
  "oracle_guard check c t h m =
     (case check_rate_limit t (case nonempty (oh_caller h) of None \<Rightarrow> ''unknown'' | Some a \<Rightarrow> a) m of
        (False, m') \<Rightarrow> (Inl (Unauthorized ''Rate limit exceeded''), m')
      | (True, m') \<Rightarrow>
          (if oc_node_env c = ''development'' then verify_oracle_key c h
           else verify_oracle_signature check c h, m'))"

text \<open>\<open>Buffer.from(text, 'hex')\<close>: pairs of digits up to the first that is none.\<close>

fun hex_bytes :: "string \<Rightarrow> nat list" where
  "hex_bytes (a # b # s) =
     (case (digit_val a, digit_val b) of
        (Some x, Some y) \<Rightarrow> (16 * x + y) # hex_bytes s
      | _ \<Rightarrow> [])"
| "hex_bytes _ = []"

definition webhook_guard ::
  "(string \<Rightarrow> string \<Rightarrow> string) \<Rightarrow> string \<Rightarrow> timestamp \<Rightarrow> string option \<Rightarrow> string option \<Rightarrow> string
    \<Rightarrow> unit result" where
  "webhook_guard hmac secret t signature timestamp body =
     (if secret = [] then Inl (Unauthorized ''Webhook authentication not configured'')
      else case nonempty signature of
        None \<Rightarrow> Inl (Unauthorized ''Missing signature header'')
      | Some sg \<Rightarrow>
          (case nonempty timestamp of
             None \<Rightarrow> Inl (Unauthorized ''Missing timestamp header'')
           | Some ts \<Rightarrow>
               (let stale = (case parse_int ts of None \<Rightarrow> False | Some n \<Rightarrow> \<bar>t div 1000 - n\<bar> > 300) in
                if stale then Inl (Unauthorized ''Invalid timestamp'')
                else if hex_bytes sg \<noteq> hex_bytes (hmac secret (ts @ ''.'' @ body))
                then Inl (Unauthorized ''Invalid signature'')
                else Inr ())))"

section \<open>The exception filter\<close>

datatype response_body = BodyObject jsval | BodyText string | BodyOther

text \<open>An HTTP exception with its status, its response and its message; a failed query with the code of the database.\<close>

datatype thrown =
    HttpThrown nat response_body string
  | QueryThrown "string option"
  | OtherThrown

definition body_message :: "response_body \<Rightarrow> string \<Rightarrow> string" where
  "body_message body message =
     (case body of
        BodyObject v \<Rightarrow>
          (case v of
             JArr xs \<Rightarrow> join_with '', '' (map (\<lambda>x. if x = JUndefined \<or> x = JNull then [] else js_string x) xs)
           | JStr m \<Rightarrow> m
           | _ \<Rightarrow> message)
      | BodyText m \<Rightarrow> m
      | BodyOther \<Rightarrow> message)"

definition catch_exception :: "thrown \<Rightarrow> nat \<times> string" where
  "catch_exception x =
     (let (status, message) =
        (case x of
           HttpThrown n body m \<Rightarrow> (n, body_message body m)
         | QueryThrown code \<Rightarrow>
             if code = Some ''23505'' then (409, ''A record with these details already exists.'')
             else (500, ''Database query failed'')
         | OtherThrown \<Rightarrow> (500, ''Internal server error''))
      in (status, if status = 500 then ''Internal server error'' else message))"

section \<open>Lemmas\<close>

lemma roles_guard_iff:
  "roles_guard (Some rs) u \<longleftrightarrow> (\<exists>v. u = Some v \<and> role v \<in> set rs)"
  by (cases u) (auto simp: roles_guard_def list_ex_iff)

lemma jwt_guard_Inr:
  "jwt_guard public p us = Inr u \<longleftrightarrow>
    (if public then u = None else \<exists>uid v. p = Verified uid \<and> live_by_id uid us = Some v \<and> u = Some v)"
  by (auto simp: jwt_guard_def strategy_validate_def split: passport.splits option.splits)

lemma jwt_guard_Inl: "jwt_guard public p us = Inl err \<Longrightarrow> \<exists>m. err = Unauthorized m"
  by (auto simp: jwt_guard_def strategy_validate_def split: if_splits passport.splits option.splits)

text \<open>A server error says nothing about its cause.\<close>

lemma filter_hides_internals: "fst (catch_exception x) = 500 \<Longrightarrow> snd (catch_exception x) = ''Internal server error''"
  by (simp add: catch_exception_def split: prod.splits)

lemma filter_status: "catch_exception (HttpThrown n body m) = (n, if n = 500 then ''Internal server error'' else body_message body m)"
  by (simp add: catch_exception_def)

text \<open>
  The signature of the agent covers only the message the caller sends along, no request and no time:
  headers that were accepted once are accepted again for any request, at any time.
\<close>

lemma oracle_signature_replays:
  assumes "fst (oracle_guard check c t h m) = Inr ()" and "fst (check_rate_limit t' (the (nonempty (oh_caller h))) m')"
    and "oc_node_env c \<noteq> ''development''"
  shows "fst (oracle_guard check c t' h m') = Inr ()"
proof -
  have ok: "verify_oracle_signature check c h = Inr ()"
    using assms(1,3) by (auto simp: oracle_guard_def split: prod.splits bool.splits)
  then obtain a where "nonempty (oh_caller h) = Some a"
    by (auto simp: verify_oracle_signature_def split: option.splits)
  with ok assms(2,3) show ?thesis
    by (auto simp: oracle_guard_def split: prod.splits bool.splits)
qed

section \<open>Properties\<close>

text \<open>
  The auth endpoints are behind the token they are there to hand out: without a valid token of an
  existing account every one of them answers 401 and changes nothing, so as long as there is no
  account nobody can ever get a challenge, sign in or create one.
\<close>

theorem sign_in_needs_a_token:
  assumes "\<forall>k. p = Verified k \<longrightarrow> live_by_id k (accounts s) = None"
  shows "\<exists>m. serve_auth sg_ok setting t uid p req s = (Inl (Unauthorized m), s)"
proof (cases "jwt_guard (rt_public auth_route) p (accounts s)")
  case (Inl err)
  with jwt_guard_Inl [OF Inl] show ?thesis by (auto simp: serve_auth_def authorize_def)
next
  case (Inr u)
  then show ?thesis using assms by (auto simp: jwt_guard_Inr auth_route_def)
qed

theorem sign_in_needs_a_token_witness:
  "\<exists>m. serve_auth sample_signature None 1000 ''u1'' (Verified ''u1'') (AskChallenge ''GALICE'' ''ab'')
     \<lparr>accounts = [], account_prefs = [], challenges = []\<rparr> =
   (Inl (Unauthorized m), \<lparr>accounts = [], account_prefs = [], challenges = []\<rparr>)"
  by (rule sign_in_needs_a_token) simp

text \<open>
  C22: a request passes all guards of a route exactly when each of them is satisfied: a live account
  behind a valid token unless the route is public, one of the roles, no ban where the route asks,
  and where it wants an API key one that is accepted and has every scope; then the handler sees the
  key's owner, not the token's user.
\<close>

theorem authorize_iff:
  "fst (authorize matches t rt p header us ks) = Inr u \<longleftrightarrow>
    (\<exists>v. (if rt_public rt then v = None else \<exists>k w. p = Verified k \<and> live_by_id k us = Some w \<and> v = Some w) \<and>
      (case rt_roles rt of None \<Rightarrow> True | Some rs \<Rightarrow> \<exists>w. v = Some w \<and> role w \<in> set rs) \<and>
      (rt_ban rt \<and> v \<noteq> None \<longrightarrow> \<not> is_banned (the v)) \<and>
      (if rt_api_key rt then
        (\<exists>raw k. header = Some raw \<and> raw \<noteq> [] \<and> validate_key matches t raw ks = Inr k \<and>
          set (rt_scopes rt) \<subseteq> set (ak_scopes k) \<and> u = live_by_id (ak_user k) us)
       else u = v))"
proof -
  have ban: "ban_guard v = Inr () \<longleftrightarrow> (v \<noteq> None \<longrightarrow> \<not> is_banned (the v))" for v
    by (cases v) (auto simp: ban_guard_def)
  have key: "(\<exists>k ks'. api_key_guard matches t header (rt_scopes rt) us ks = (Inr (u, k), ks')) \<longleftrightarrow>
      (\<exists>raw k. header = Some raw \<and> raw \<noteq> [] \<and> validate_key matches t raw ks = Inr k \<and>
        set (rt_scopes rt) \<subseteq> set (ak_scopes k) \<and> u = live_by_id (ak_user k) us)"
    by (cases header) (auto simp: api_key_guard_def nonempty_def filter_empty_conv Let_def
        split: if_splits sum.splits)
  have roles: "roles_guard (rt_roles rt) v \<longleftrightarrow>
      (case rt_roles rt of None \<Rightarrow> True | Some rs \<Rightarrow> \<exists>w. v = Some w \<and> role w \<in> set rs)" for v
    by (cases "rt_roles rt") (simp_all add: roles_guard_iff, simp add: roles_guard_def)
  have "fst (authorize matches t rt p header us ks) = Inr u \<longleftrightarrow>
    (\<exists>v. jwt_guard (rt_public rt) p us = Inr v \<and> roles_guard (rt_roles rt) v \<and>
      (rt_ban rt \<longrightarrow> ban_guard v = Inr ()) \<and>
      (if rt_api_key rt then \<exists>k ks'. api_key_guard matches t header (rt_scopes rt) us ks = (Inr (u, k), ks')
       else u = v))"
    by (cases "jwt_guard (rt_public rt) p us")
      (auto simp: authorize_def split: sum.splits prod.splits if_splits)
  then show ?thesis unfolding jwt_guard_Inr roles ban key by blast
qed

text \<open>A route for keys that may read markets.\<close>

definition sample_key_route :: route where
  "sample_key_route = \<lparr>rt_public = False, rt_roles = Some [''user''], rt_ban = True, rt_api_key = True,
     rt_scopes = [''markets:read'']\<rparr>"

theorem authorize_iff_witness:
  "fst (authorize sample_matches 2000 sample_key_route (Verified ''u1'') (Some ''ia_0123456789'')
     [sample_user] sample_keys) = Inr (Some sample_user)"
proof -
  have user: "live_by_id ''u1'' [sample_user] = Some sample_user"
    by (simp add: live_by_id_def sample_user_def live_def)
  have "validate_key sample_matches 2000 ''ia_0123456789'' sample_keys = Inr (new_key sample_key_env ''u1'' sample_key_dto)"
    by (simp add: sample_keys_rows validate_key_def new_key_def sample_key_env_def sample_key_dto_def
        sample_matches_def key_mark_def starts_with_def)
  moreover have "ak_scopes (new_key sample_key_env ''u1'' sample_key_dto) = [''markets:read'']"
    "ak_user (new_key sample_key_env ''u1'' sample_key_dto) = ''u1''"
    by (simp_all add: new_key_def sample_key_dto_def)
  moreover have "role sample_user = ''user''" "\<not> is_banned sample_user" by (simp_all add: sample_user_def)
  ultimately show ?thesis
    unfolding authorize_iff using user by (simp add: sample_key_route_def)
qed

end
