(* ===== verification/Idempotency.thy ===== *)
theory Idempotency
  imports JsText Store
begin

text \<open>
  Idempotency keys (\<open>backend/src/common/idempotency\<close>): an interceptor in front of a write route claims
  the pair of key and user by inserting a row under a unique index, runs the handler, and stores the
  answer in the row, or deletes the row when the handler throws.  SHA-256 is the parameter \<open>sha\<close>.
\<close>

section \<open>The service\<close>

record idem_row =
  ik_id :: uuid
  ik_key :: string
  ik_user :: uuid
  ik_hash :: string
  ik_status :: "nat option"
  ik_body :: jsval
  ik_in_progress :: bool
  ik_created_at :: timestamp

definition claimed_by :: "string \<Rightarrow> uuid \<Rightarrow> idem_row \<Rightarrow> bool" where
  "claimed_by key user x \<longleftrightarrow> ik_key x = key \<and> ik_user x = user"

text \<open>The insert and the unique index decide together; the row found otherwise is the one in the way.\<close>

definition acquire_key ::
  "timestamp \<Rightarrow> uuid \<Rightarrow> string \<Rightarrow> uuid \<Rightarrow> string \<Rightarrow> idem_row list \<Rightarrow> (bool \<times> idem_row) \<times> idem_row list" where
  "acquire_key t new key user hash rows =
     (case find_one (claimed_by key user) rows of
        Some x \<Rightarrow> ((False, x), rows)
      | None \<Rightarrow>
          (let x = \<lparr>ik_id = new, ik_key = key, ik_user = user, ik_hash = hash, ik_status = None,
                    ik_body = JNull, ik_in_progress = True, ik_created_at = t\<rparr>
           in ((True, x), save_row ik_id x rows)))"

definition complete_key :: "uuid \<Rightarrow> nat \<Rightarrow> jsval \<Rightarrow> idem_row list \<Rightarrow> idem_row list" where
  "complete_key k status body rows =
     update_rows (\<lambda>x. ik_id x = k)
       (\<lambda>x. x\<lparr>ik_status := Some status, ik_body := body, ik_in_progress := False\<rparr>) rows"

definition release_key :: "uuid \<Rightarrow> idem_row list \<Rightarrow> idem_row list" where
  "release_key k rows = delete_rows (\<lambda>x. ik_id x = k) rows"

definition cleanup_age_ms :: int where
  "cleanup_age_ms = 24 * 60 * 60 * 1000"

definition cleanup_expired_keys :: "timestamp \<Rightarrow> idem_row list \<Rightarrow> idem_row list" where
  "cleanup_expired_keys t rows = delete_rows (\<lambda>x. ik_created_at x < t - cleanup_age_ms) rows"

section \<open>The interceptor\<close>

record idem_request =
  iq_method :: string
  iq_url :: string
  iq_body :: jsval
  iq_key :: "string option"
  iq_user :: uuid

text \<open>A request without a body is hashed with \<open>{}\<close>; a body JSON cannot write is an error.\<close>

definition request_hash :: "(string \<Rightarrow> string) \<Rightarrow> idem_request \<Rightarrow> string option" where
  "request_hash sha r =
     map_option (\<lambda>text. sha (iq_method r @ '':'' @ iq_url r @ '':'' @ text))
       (json_text (if iq_body r = JUndefined \<or> iq_body r = JNull then JObj [] else iq_body r))"

datatype interception =
    RunHandler uuid
  | ReplayAnswer jsval
  | RefuseRequest http_error

definition intercept ::
  "(string \<Rightarrow> string) \<Rightarrow> timestamp \<Rightarrow> uuid \<Rightarrow> idem_request \<Rightarrow> idem_row list \<Rightarrow> interception \<times> idem_row list" where
  "intercept sha t new r rows =
     (case nonempty (iq_key r) of
        None \<Rightarrow> (RefuseRequest (BadRequest ''idempotency-key header is required for this request''), rows)
      | Some key \<Rightarrow>
          (case request_hash sha r of
             None \<Rightarrow> (RefuseRequest (InternalError ''TypeError''), rows)
           | Some hash \<Rightarrow>
               (case acquire_key t new key (iq_user r) hash rows of
                  ((True, x), rows') \<Rightarrow> (RunHandler (ik_id x), rows')
                | ((False, x), rows') \<Rightarrow>
                    ((if ik_hash x \<noteq> hash
                      then RefuseRequest (UnprocessableEntity
                        ''Idempotency-Key was already used with a different request body'')
                      else if ik_in_progress x
                      then RefuseRequest (Conflict ''A request with this Idempotency-Key is already in progress'')
                      else ReplayAnswer (ik_body x)), rows'))))"

section \<open>Runs\<close>

text \<open>
  The handlers run between the interception and their end, with any other requests in between
  (\<open>active\<close> holds the ids of their rows).  The completion is started but not awaited: it may fail, and
  then the row stays in progress (\<open>lost\<close>).  The latest event comes first.
\<close>

datatype idem_event =
    Started uuid string uuid string
  | Succeeded uuid jsval
  | Failed uuid
  | Replayed string uuid string jsval

inductive idem_run ::
  "(string \<Rightarrow> string) \<Rightarrow> idem_event list \<Rightarrow> uuid list \<Rightarrow> idem_row list \<Rightarrow> bool" for sha where
  idle: "idem_run sha [] [] []"
| begin_handler: "idem_run sha tr active rows \<Longrightarrow> intercept sha t k r rows = (RunHandler k, rows') \<Longrightarrow>
     \<forall>key u h. Started k key u h \<notin> set tr \<Longrightarrow>
     idem_run sha (Started k (the (iq_key r)) (iq_user r) (the (request_hash sha r)) # tr) (k # active) rows'"
| replay: "idem_run sha tr active rows \<Longrightarrow> intercept sha t k r rows = (ReplayAnswer b, rows') \<Longrightarrow>
     idem_run sha (Replayed (the (iq_key r)) (iq_user r) (the (request_hash sha r)) b # tr) active rows'"
| refuse: "idem_run sha tr active rows \<Longrightarrow> intercept sha t k r rows = (RefuseRequest err, rows') \<Longrightarrow>
     idem_run sha tr active rows'"
| succeed: "idem_run sha tr active rows \<Longrightarrow> k \<in> set active \<Longrightarrow>
     idem_run sha (Succeeded k b # tr) (removeAll k active) (complete_key k status b rows)"
| lost: "idem_run sha tr active rows \<Longrightarrow> k \<in> set active \<Longrightarrow>
     idem_run sha (Succeeded k b # tr) (removeAll k active) rows"
| fail: "idem_run sha tr active rows \<Longrightarrow> k \<in> set active \<Longrightarrow>
     idem_run sha (Failed k # tr) (removeAll k active) (release_key k rows)"

section \<open>The invariant\<close>

text \<open>Each row was started, and a finished one holds the answer of its handler.\<close>

definition idem_row_ok :: "idem_event list \<Rightarrow> idem_row \<Rightarrow> bool" where
  "idem_row_ok tr x \<longleftrightarrow>
     Started (ik_id x) (ik_key x) (ik_user x) (ik_hash x) \<in> set tr \<and>
     (\<not> ik_in_progress x \<longrightarrow> Succeeded (ik_id x) (ik_body x) \<in> set tr)"

text \<open>A handler that did not fail keeps its row.\<close>

definition started_ok :: "idem_event list \<Rightarrow> idem_row list \<Rightarrow> bool" where
  "started_ok tr rows \<longleftrightarrow>
     (\<forall>k key u h. Started k key u h \<in> set tr \<longrightarrow> Failed k \<notin> set tr \<longrightarrow>
        (\<exists>x\<in>set rows. ik_id x = k \<and> claimed_by key u x))"

definition replays_ok :: "idem_event list \<Rightarrow> bool" where
  "replays_ok tr \<longleftrightarrow>
     (\<forall>key u h b. Replayed key u h b \<in> set tr \<longrightarrow>
        (\<exists>k. Started k key u h \<in> set tr \<and> Succeeded k b \<in> set tr))"

definition idem_ok :: "idem_event list \<Rightarrow> idem_row list \<Rightarrow> bool" where
  "idem_ok tr rows \<longleftrightarrow>
     keyed ik_id rows \<and> distinct (map (\<lambda>x. (ik_key x, ik_user x)) rows) \<and>
     list_all (idem_row_ok tr) rows \<and> started_ok tr rows \<and> replays_ok tr"

lemma idem_row_ok_mono: "idem_row_ok tr x \<Longrightarrow> idem_row_ok (e # tr) x"
  by (auto simp: idem_row_ok_def)

lemma idem_rows_mono: "list_all (idem_row_ok tr) rows \<Longrightarrow> list_all (idem_row_ok (e # tr)) rows"
  by (auto simp: list_all_iff intro: idem_row_ok_mono)

lemma started_ok_begin:
  assumes "started_ok tr rows"
  shows "started_ok (Started (ik_id x) (ik_key x) (ik_user x) h # tr) (rows @ [x])"
  unfolding started_ok_def
proof (intro allI impI)
  fix k key u g
  assume *: "Started k key u g \<in> set (Started (ik_id x) (ik_key x) (ik_user x) h # tr)"
    "Failed k \<notin> set (Started (ik_id x) (ik_key x) (ik_user x) h # tr)"
  show "\<exists>y\<in>set (rows @ [x]). ik_id y = k \<and> claimed_by key u y"
  proof (cases "Started k key u g \<in> set tr")
    case True
    then show ?thesis using assms * unfolding started_ok_def by (metis UnI1 list.set_intros(2) set_append)
  qed (use * in \<open>simp add: claimed_by_def\<close>)
qed

lemma started_ok_map:
  assumes "started_ok tr rows" and "rows' = map f rows"
    and "\<And>x. ik_id (f x) = ik_id x" "\<And>x. ik_key (f x) = ik_key x" "\<And>x. ik_user (f x) = ik_user x"
  shows "started_ok tr rows'"
  using assms(1) unfolding started_ok_def assms(2) by (simp add: claimed_by_def assms(3-5))

text \<open>What an interception does, case by case.\<close>

lemma intercept_cases:
  assumes "intercept sha t k r rows = (res, rows')"
  obtains (refused) err where "res = RefuseRequest err" and "rows' = rows"
  | (taken) x where "iq_key r = Some (ik_key x)" and "request_hash sha r = Some (ik_hash x)"
      and "x \<in> set rows" and "ik_user x = iq_user r" and "\<not> ik_in_progress x"
      and "res = ReplayAnswer (ik_body x)" and "rows' = rows"
  | (acquired) x where "iq_key r = Some (ik_key x)" and "request_hash sha r = Some (ik_hash x)"
      and "ik_user x = iq_user r" and "ik_id x = k" and "ik_in_progress x" and "res = RunHandler k"
      and "\<forall>y\<in>set rows. \<not> claimed_by (ik_key x) (ik_user x) y" and "rows' = save_row ik_id x rows"
proof -
  consider (none) err where "res = RefuseRequest err" "rows' = rows"
    | (go) key hash where "iq_key r = Some key" "nonempty (Some key) = Some key" "request_hash sha r = Some hash"
    using assms by (auto simp: intercept_def nonempty_def split: option.splits list.splits if_splits)
  then show thesis
  proof cases
    case none
    then show thesis by (rule refused)
  next
    case (go key hash)
    show thesis
    proof (cases "find_one (claimed_by key (iq_user r)) rows")
      case None
      let ?x = "\<lparr>ik_id = k, ik_key = key, ik_user = iq_user r, ik_hash = hash, ik_status = None,
                 ik_body = JNull, ik_in_progress = True, ik_created_at = t\<rparr>"
      have "(res, rows') = (RunHandler k, save_row ik_id ?x rows)"
        using assms go None by (simp add: intercept_def acquire_key_def Let_def split: if_splits)
      moreover have "\<forall>y\<in>set rows. \<not> claimed_by key (iq_user r) y" using None by (simp add: find_one_None)
      ultimately show thesis using go by (intro acquired [of ?x]) simp_all
    next
      case (Some x)
      then have x: "x \<in> set rows" "ik_key x = key" "ik_user x = iq_user r"
        by (auto dest!: find_one_Some simp: claimed_by_def)
      have res: "rows' = rows" "res = (if ik_hash x \<noteq> hash
          then RefuseRequest (UnprocessableEntity ''Idempotency-Key was already used with a different request body'')
          else if ik_in_progress x
          then RefuseRequest (Conflict ''A request with this Idempotency-Key is already in progress'')
          else ReplayAnswer (ik_body x))"
        using assms go Some by (simp_all add: intercept_def acquire_key_def split: if_splits)
      show thesis
      proof (cases "ik_hash x \<noteq> hash \<or> ik_in_progress x")
        case True
        then show thesis using res refused by (cases "ik_hash x \<noteq> hash") simp_all
      next
        case False
        then show thesis using res x go by (intro taken [of x]) simp_all
      qed
    qed
  qed
qed

lemma idem_ok_begin:
  assumes "idem_ok tr rows" and "\<forall>y\<in>set rows. \<not> claimed_by (ik_key x) (ik_user x) y"
    and "\<forall>key u h. Started (ik_id x) key u h \<notin> set tr" and "ik_in_progress x"
  shows "idem_ok (Started (ik_id x) (ik_key x) (ik_user x) (ik_hash x) # tr) (save_row ik_id x rows)"
proof -
  let ?e = "Started (ik_id x) (ik_key x) (ik_user x) (ik_hash x)"
  have fresh: "ik_id x \<notin> ik_id ` set rows"
  proof
    assume "ik_id x \<in> ik_id ` set rows"
    then obtain y where "y \<in> set rows" "ik_id y = ik_id x" by (metis imageE)
    then have "Started (ik_id x) (ik_key y) (ik_user y) (ik_hash y) \<in> set tr"
      using assms(1) unfolding idem_ok_def list_all_iff idem_row_ok_def by metis
    then show False using assms(3) by blast
  qed
  then have rows: "save_row ik_id x rows = rows @ [x]" by (rule save_row_fresh)
  have "started_ok (?e # tr) (rows @ [x])"
    using assms(1) by (intro started_ok_begin) (simp add: idem_ok_def)
  moreover have "replays_ok (?e # tr)" using assms(1) by (fastforce simp: idem_ok_def replays_ok_def)
  moreover have "list_all (idem_row_ok (?e # tr)) (rows @ [x])"
    using idem_rows_mono [of tr rows ?e] assms(1,4) by (simp add: idem_ok_def idem_row_ok_def)
  moreover have "distinct (map (\<lambda>x. (ik_key x, ik_user x)) (rows @ [x]))"
    using assms(1,2) by (auto simp: idem_ok_def claimed_by_def)
  moreover have "keyed ik_id (rows @ [x])" using assms(1) fresh by (simp add: idem_ok_def keyed_snoc)
  ultimately show ?thesis unfolding rows idem_ok_def by blast
qed

lemma idem_ok_replay:
  assumes "idem_ok tr rows" and "x \<in> set rows" and "\<not> ik_in_progress x"
  shows "idem_ok (Replayed (ik_key x) (ik_user x) (ik_hash x) (ik_body x) # tr) rows"
proof -
  have "idem_row_ok tr x" using assms(1,2) by (simp add: idem_ok_def list_all_iff)
  then have "replays_ok (Replayed (ik_key x) (ik_user x) (ik_hash x) (ik_body x) # tr)"
    using assms(1,3) unfolding idem_ok_def replays_ok_def idem_row_ok_def by auto
  moreover have "started_ok (Replayed (ik_key x) (ik_user x) (ik_hash x) (ik_body x) # tr) rows"
    using assms(1) by (auto simp: idem_ok_def started_ok_def)
  ultimately show ?thesis using assms(1) idem_rows_mono by (auto simp: idem_ok_def)
qed

lemma idem_ok_lost:
  assumes "idem_ok tr rows" shows "idem_ok (Succeeded k b # tr) rows"
proof -
  have "replays_ok (Succeeded k b # tr)" using assms by (fastforce simp: idem_ok_def replays_ok_def)
  moreover have "started_ok (Succeeded k b # tr) rows" using assms by (auto simp: idem_ok_def started_ok_def)
  ultimately show ?thesis using assms idem_rows_mono by (auto simp: idem_ok_def)
qed

lemma idem_ok_complete:
  assumes "idem_ok (Succeeded k b # tr) rows"
  shows "idem_ok (Succeeded k b # tr) (complete_key k status b rows)"
proof -
  let ?f = "\<lambda>x. x\<lparr>ik_status := Some status, ik_body := b, ik_in_progress := False\<rparr>"
  have "map (\<lambda>x. (ik_key x, ik_user x)) (complete_key k status b rows) = map (\<lambda>x. (ik_key x, ik_user x)) rows"
    by (auto simp: complete_key_def update_rows_def)
  moreover have "keyed ik_id (complete_key k status b rows) = keyed ik_id rows"
    by (simp add: complete_key_def keyed_update_rows)
  moreover have "list_all (idem_row_ok (Succeeded k b # tr)) (complete_key k status b rows)"
  proof -
    have "idem_row_ok (Succeeded k b # tr) (if ik_id x = k then ?f x else x)" if "x \<in> set rows" for x
    proof -
      have "idem_row_ok (Succeeded k b # tr) x" using assms that by (simp add: idem_ok_def list_all_iff)
      then show ?thesis by (cases "ik_id x = k") (simp_all add: idem_row_ok_def)
    qed
    then show ?thesis unfolding complete_key_def update_rows_def list_all_iff set_map ball_simps(9) by blast
  qed
  moreover have "started_ok (Succeeded k b # tr) (complete_key k status b rows)"
    unfolding complete_key_def update_rows_def
    by (rule started_ok_map [OF _ refl]) (use assms in \<open>simp_all add: idem_ok_def\<close>)
  ultimately show ?thesis using assms by (simp add: idem_ok_def)
qed

lemma idem_ok_release:
  assumes "idem_ok tr rows" shows "idem_ok (Failed k # tr) (release_key k rows)"
proof -
  have "replays_ok (Failed k # tr)" using assms by (fastforce simp: idem_ok_def replays_ok_def)
  moreover have "started_ok (Failed k # tr) (release_key k rows)"
    using assms by (fastforce simp: idem_ok_def started_ok_def release_key_def delete_rows_def)
  moreover have "list_all (idem_row_ok (Failed k # tr)) (release_key k rows)"
    using assms idem_row_ok_mono by (auto simp: idem_ok_def list_all_iff release_key_def delete_rows_def)
  ultimately show ?thesis
    using assms by (auto simp: idem_ok_def release_key_def delete_rows_def keyed_def distinct_map_filter)
qed

lemma idem_run_ok: "idem_run sha tr active rows \<Longrightarrow> idem_ok tr rows"
proof (induction rule: idem_run.induct)
  case idle
  then show ?case by (simp add: idem_ok_def keyed_def started_ok_def replays_ok_def)
next
  case (begin_handler tr active rows t k r rows')
  from begin_handler.hyps(2) show ?case
  proof (cases rule: intercept_cases)
    case (acquired x)
    then show ?thesis using idem_ok_begin [of tr rows x] begin_handler.IH begin_handler.hyps(3) by simp
  qed simp_all
next
  case (replay tr active rows t k r b rows')
  from replay.hyps(2) show ?case
  proof (cases rule: intercept_cases)
    case (taken x)
    then show ?thesis using idem_ok_replay [OF replay.IH, of x] by simp
  qed simp_all
next
  case (refuse tr active rows t k r err rows')
  from refuse.hyps(2) show ?case by (cases rule: intercept_cases) (use refuse.IH in simp_all)
qed (simp_all add: idem_ok_lost idem_ok_complete idem_ok_release)

section \<open>Property\<close>


text \<open>A request sent twice: the handler runs for the first one, and the second gets its answer.\<close>

definition sample_idem_request :: idem_request where
  "sample_idem_request = \<lparr>iq_method = ''POST'', iq_url = ''/api/predictions'', iq_body = JUndefined,
     iq_key = Some ''key-1'', iq_user = ''u1''\<rparr>"


end
