(* ===== verification/Oracle.thy ===== *)
theory Oracle
  imports JsText EventEntities
begin

text \<open>
  The oracle (\<open>backend/src/oracle\<close>): match results come in over a webhook, wait in a queue kept in
  memory and are written to the match by attempts that may fail; the history of submissions and
  the lists of matches without a result.  The table is \<open>creator_event_matches\<close>, which no other code of
  the repository writes.  Parsing a date is the parameter \<open>parse_date\<close>.
\<close>

section \<open>Rows and state\<close>

datatype declared_winner = DeclaredA | DeclaredB | DeclaredDraw

primrec winner_text :: "declared_winner \<Rightarrow> string" where
  "winner_text DeclaredA = ''TEAM_A''"
| "winner_text DeclaredB = ''TEAM_B''"
| "winner_text DeclaredDraw = ''DRAW''"

record oracle_match =
  om_id :: uuid
  om_chain_id :: string
  om_event :: uuid
  om_team_a :: string
  om_team_b :: string
  om_time :: timestamp
  om_submitted :: bool
  om_winner :: "string option"
  om_predictions :: int
  om_created_at :: timestamp

datatype submission_status = SubPending | SubSubmitted | SubFailed

text \<open>The time of a submission is a \<open>bigint\<close>, which the driver returns as text.\<close>

record oracle_submission =
  os_id :: uuid
  os_match :: string
  os_team_a :: string
  os_team_b :: string
  os_winner :: declared_winner
  os_confidence :: int
  os_source :: string
  os_result_at :: timestamp
  os_metadata :: "jsval option"
  os_status :: submission_status
  os_tx :: "string option"
  os_submitted_at :: "timestamp option"
  os_error :: "string option"
  os_retries :: nat
  os_time_ms :: "string option"
  os_created_at :: timestamp

record match_report =
  mr_match :: string
  mr_winner :: declared_winner
  mr_confidence :: int
  mr_source :: string
  mr_timestamp :: string
  mr_metadata :: "jsval option"

record oracle_job =
  jb_id :: string
  jb_match :: string
  jb_winner :: declared_winner
  jb_confidence :: int
  jb_source :: string
  jb_timestamp :: string
  jb_metadata :: "jsval option"
  jb_retries :: nat
  jb_created_at :: timestamp
  jb_next :: timestamp
  jb_error :: "string option"

text \<open>
  The queue maps the ids to job objects that an attempt under way shares: the objects are a store of
  their own, and a job taken off the queue is still written by its attempt.
\<close>

record oracle_db =
  oracle_matches :: "oracle_match list"
  submissions :: "oracle_submission list"
  jobs :: "oracle_job list"
  queue :: "string list"

definition max_oracle_retries :: nat where
  "max_oracle_retries = 3"

definition retry_delays :: "int list" where
  "retry_delays = [60000, 300000, 900000]"

section \<open>Reports\<close>

definition generate_job_id :: "timestamp \<Rightarrow> string \<Rightarrow> string" where
  "generate_job_id t rnd = ''job_'' @ show_int t @ ''_'' @ rnd"

text \<open>\<open>jobId.replace('job_', '').split('_')[0]\<close>: the first occurrence goes.\<close>

fun remove_first :: "string \<Rightarrow> string \<Rightarrow> string" where
  "remove_first p [] = []"
| "remove_first p (c # s) = (if starts_with (c # s) p then drop (length p) (c # s) else c # remove_first p s)"

definition record_key :: "string \<Rightarrow> string" where
  "record_key job = hd (split_on CHR ''_'' (remove_first ''job_'' job))"

text \<open>
  The row of the history; the write is given up when the timestamp is no date or the table refuses
  (\<open>can_save\<close>).
\<close>

definition save_submission ::
  "(string \<Rightarrow> timestamp option) \<Rightarrow> bool \<Rightarrow> timestamp \<Rightarrow> uuid \<Rightarrow> oracle_job \<Rightarrow> oracle_match \<Rightarrow> oracle_db \<Rightarrow> oracle_db" where
  "save_submission parse_date can_save t sid j m s =
     (case (can_save, parse_date (jb_timestamp j)) of
        (True, Some result_time) \<Rightarrow>
          s\<lparr>submissions := save_row os_id
             \<lparr>os_id = sid, os_match = jb_match j, os_team_a = om_team_a m, os_team_b = om_team_b m,
              os_winner = jb_winner j, os_confidence = jb_confidence j, os_source = jb_source j,
              os_result_at = result_time, os_metadata = jb_metadata j, os_status = SubPending, os_tx = None,
              os_submitted_at = None, os_error = None, os_retries = 0, os_time_ms = None,
              os_created_at = t\<rparr> (submissions s)\<rparr>
      | _ \<Rightarrow> s)"

definition update_submission :: "string \<Rightarrow> (oracle_submission \<Rightarrow> oracle_submission) \<Rightarrow> oracle_db \<Rightarrow> oracle_db" where
  "update_submission job upd s =
     (case find_one (\<lambda>x. os_match x = record_key job) (submissions s) of
        None \<Rightarrow> s
      | Some x \<Rightarrow> s\<lparr>submissions := save_row os_id (upd x) (submissions s)\<rparr>)"

text \<open>One hour before its start a match is open for results.\<close>

definition accept_report ::
  "(string \<Rightarrow> timestamp option) \<Rightarrow> bool \<Rightarrow> timestamp \<Rightarrow> string \<Rightarrow> uuid \<Rightarrow> match_report \<Rightarrow> oracle_db
    \<Rightarrow> string result \<times> oracle_db" where
  "accept_report parse_date can_save t rnd sid r s =
     (case find_one (\<lambda>m. om_chain_id m = mr_match r) (oracle_matches s) of
        None \<Rightarrow> (Inl (NotFound (''Match with ID '' @ mr_match r @ '' not found'')), s)
      | Some m \<Rightarrow>
          if om_submitted m
          then (Inl (Conflict (''Match '' @ mr_match r @ '' has already been resolved'')), s)
          else if t - om_time m < - (60 * 60 * 1000)
          then (Inl (Conflict (''Match '' @ mr_match r @ '' has not started yet'')), s)
          else
            (let job = generate_job_id t rnd;
                 j = \<lparr>jb_id = job, jb_match = mr_match r, jb_winner = mr_winner r,
                      jb_confidence = mr_confidence r, jb_source = mr_source r,
                      jb_timestamp = mr_timestamp r, jb_metadata = mr_metadata r, jb_retries = 0,
                      jb_created_at = t, jb_next = t, jb_error = None\<rparr>;
                 s1 = s\<lparr>jobs := save_row jb_id j (jobs s),
                        queue := (if job \<in> set (queue s) then queue s else queue s @ [job])\<rparr>
             in (Inr job, save_submission parse_date can_save t sid j m s1)))"

section \<open>Attempts\<close>

text \<open>An attempt draws a number (below 0.1 it fails), or the tables raise an error.\<close>

datatype luck = Drawn rat | TablesFail string

definition simulate_submission ::
  "luck \<Rightarrow> timestamp \<Rightarrow> string \<Rightarrow> nat \<Rightarrow> oracle_job \<Rightarrow> oracle_db \<Rightarrow> (string + unit) \<times> oracle_db" where
  "simulate_submission luck t rnd ms j s =
     (case luck of
        TablesFail e \<Rightarrow> (Inl e, s)
      | Drawn d \<Rightarrow>
          if d < 1 / 10 then (Inl ''Simulated oracle submission failure'', s)
          else
            (let s1 = (case find_one (\<lambda>m. om_chain_id m = jb_match j) (oracle_matches s) of
                         None \<Rightarrow> s
                       | Some m \<Rightarrow> s\<lparr>oracle_matches := save_row om_id
                           (m\<lparr>om_submitted := True, om_winner := Some (winner_text (jb_winner j))\<rparr>)
                           (oracle_matches s)\<rparr>)
             in (Inr (), update_submission (jb_id j)
                   (\<lambda>x. x\<lparr>os_status := SubSubmitted, os_submitted_at := Some t,
                      os_tx := Some (''tx_'' @ show_int t @ ''_'' @ rnd), os_time_ms := Some (show_nat ms),
                      os_retries := jb_retries j\<rparr>) s1)))"

definition dequeue :: "string \<Rightarrow> oracle_db \<Rightarrow> oracle_db" where
  "dequeue job s = s\<lparr>queue := removeAll job (queue s)\<rparr>"

definition write_job :: "oracle_job \<Rightarrow> oracle_db \<Rightarrow> oracle_db" where
  "write_job j s = s\<lparr>jobs := save_row jb_id j (jobs s)\<rparr>"

definition retry_delay :: "nat \<Rightarrow> int" where
  "retry_delay n = (if n - 1 < length retry_delays then retry_delays ! (n - 1) else last retry_delays)"

definition handle_retry :: "timestamp \<Rightarrow> oracle_job \<Rightarrow> string \<Rightarrow> oracle_db \<Rightarrow> oracle_db" where
  "handle_retry t j e s =
     (let n = jb_retries j + 1;
          j1 = j\<lparr>jb_retries := n, jb_error := Some e\<rparr>;
          s1 = update_submission (jb_id j)
                 (\<lambda>x. x\<lparr>os_status := SubFailed, os_error := Some e, os_retries := n\<rparr>) (write_job j1 s)
      in if n \<ge> max_oracle_retries then dequeue (jb_id j) s1
         else write_job (j1\<lparr>jb_next := t + retry_delay n\<rparr>) s1)"

definition submit_to_oracle :: "luck \<Rightarrow> timestamp \<Rightarrow> string \<Rightarrow> nat \<Rightarrow> string \<Rightarrow> oracle_db \<Rightarrow> oracle_db" where
  "submit_to_oracle luck t rnd ms job s =
     (case by_id jb_id job (jobs s) of
        None \<Rightarrow> s
      | Some j \<Rightarrow>
          (case simulate_submission luck t rnd ms j s of
             (Inr _, s1) \<Rightarrow> dequeue job s1
           | (Inl e, s1) \<Rightarrow> handle_retry t j e s1))"

definition process_match_result ::
  "(string \<Rightarrow> timestamp option) \<Rightarrow> bool \<Rightarrow> luck \<Rightarrow> timestamp \<Rightarrow> string \<Rightarrow> uuid \<Rightarrow> nat \<Rightarrow> match_report \<Rightarrow> oracle_db
    \<Rightarrow> string result \<times> oracle_db" where
  "process_match_result parse_date can_save luck t rnd sid ms r s =
     (case accept_report parse_date can_save t rnd sid r s of
        (Inl e, s1) \<Rightarrow> (Inl e, s1)
      | (Inr job, s1) \<Rightarrow> (Inr job, submit_to_oracle luck (t + int ms) rnd ms job s1))"

text \<open>
  Every minute the jobs that are due then are submitted, one after the other, each with its own
  luck and at its own instant.
\<close>

definition due_jobs :: "timestamp \<Rightarrow> oracle_db \<Rightarrow> string list" where
  "due_jobs t s =
     filter (\<lambda>job. case by_id jb_id job (jobs s) of None \<Rightarrow> False | Some j \<Rightarrow> jb_next j \<le> t) (queue s)"

definition process_retries ::
  "(string \<Rightarrow> luck) \<Rightarrow> (string \<Rightarrow> timestamp) \<Rightarrow> timestamp \<Rightarrow> string \<Rightarrow> nat \<Rightarrow> oracle_db \<Rightarrow> oracle_db" where
  "process_retries draw moment t rnd ms s =
     fold (\<lambda>job s. submit_to_oracle (draw job) (moment job) rnd ms job s) (due_jobs t s) s"

section \<open>Readings\<close>

record queue_status =
  qs_total :: nat
  qs_pending :: nat
  qs_retrying :: nat
  qs_jobs :: "oracle_job list"

definition queued_jobs :: "oracle_db \<Rightarrow> oracle_job list" where
  "queued_jobs s = filter (\<lambda>j. jb_id j \<in> set (queue s)) (jobs s)"

definition get_queue_status :: "oracle_db \<Rightarrow> queue_status" where
  "get_queue_status s =
     (let js = queued_jobs s in
      \<lparr>qs_total = length js, qs_pending = length (filter (\<lambda>j. jb_retries j = 0) js),
       qs_retrying = length (filter (\<lambda>j. jb_retries j > 0) js), qs_jobs = js\<rparr>)"

definition get_job_status :: "string \<Rightarrow> oracle_db \<Rightarrow> oracle_job option" where
  "get_job_status job s = (if job \<in> set (queue s) then by_id jb_id job (jobs s) else None)"

record pending_match =
  pm_match :: oracle_match
  pm_event :: uuid
  pm_chain_event :: string
  pm_title :: string
  pm_creator :: string
  pm_seconds :: int

definition pending_of :: "timestamp \<Rightarrow> creator_event list \<Rightarrow> oracle_match \<Rightarrow> pending_match" where
  "pending_of t evs m =
     (let secs = (t - om_time m) div 1000 in
      case by_id ce_id (om_event m) evs of
        None \<Rightarrow> \<lparr>pm_match = m, pm_event = [], pm_chain_event = [], pm_title = ''Unknown Event'',
                 pm_creator = [], pm_seconds = secs\<rparr>
      | Some e \<Rightarrow> \<lparr>pm_match = m, pm_event = ce_id e, pm_chain_event = show_int (on_chain_event_id e),
                   pm_title = ce_title e, pm_creator = creator_address e, pm_seconds = secs\<rparr>)"

definition get_pending_matches ::
  "timestamp \<Rightarrow> creator_event list \<Rightarrow> nat option \<Rightarrow> nat option \<Rightarrow> oracle_db
    \<Rightarrow> pending_match list \<times> nat \<times> nat \<times> nat" where
  "get_pending_matches t evs page limit s =
     (let p = (case page of None \<Rightarrow> 1 | Some n \<Rightarrow> n);
          k = min (case limit of None \<Rightarrow> 20 | Some n \<Rightarrow> n) 100;
          rows = filter (\<lambda>m. om_time m < t \<and> \<not> om_submitted m) (oracle_matches s)
      in (map (pending_of t evs) (page_of p k (sort_desc (\<lambda>m. - om_time m) rows)), length rows, p, k))"

text \<open>Pending, resolved and overdue: a day after its start a match without a result is overdue.\<close>

definition oracle_stats :: "timestamp \<Rightarrow> oracle_db \<Rightarrow> nat \<times> nat \<times> nat" where
  "oracle_stats t s =
     (let old = t - 24 * 60 * 60 * 1000 in
      (count_rows (\<lambda>m. om_time m < t \<and> \<not> om_submitted m \<and> om_time m \<ge> old) (oracle_matches s),
       count_rows om_submitted (oracle_matches s),
       count_rows (\<lambda>m. om_time m < old \<and> \<not> om_submitted m) (oracle_matches s)))"

text \<open>
  The filters of the history.  Two or more are combined with the ORM's \<open>And\<close>, which is meant for
  operators on one column: what it does with objects is the parameter \<open>combine\<close>.
\<close>

record submission_query =
  sq_page :: "nat option"
  sq_limit :: "nat option"
  sq_status :: "submission_status option"
  sq_match :: "string option"
  sq_from :: "timestamp option"
  sq_until :: "timestamp option"

definition query_conditions :: "submission_query \<Rightarrow> (oracle_submission \<Rightarrow> bool) list" where
  "query_conditions q =
     (case sq_status q of None \<Rightarrow> [] | Some x \<Rightarrow> [\<lambda>r. os_status r = x]) @
     (case nonempty (sq_match q) of None \<Rightarrow> [] | Some x \<Rightarrow> [\<lambda>r. os_match r = x]) @
     (case (sq_from q, sq_until q) of
        (None, None) \<Rightarrow> []
      | (Some a, None) \<Rightarrow> [\<lambda>r. a \<le> os_created_at r]
      | (None, Some b) \<Rightarrow> [\<lambda>r. os_created_at r \<le> b]
      | (Some a, Some b) \<Rightarrow> [\<lambda>r. a \<le> os_created_at r \<and> os_created_at r \<le> b])"

definition build_where ::
  "((oracle_submission \<Rightarrow> bool) list \<Rightarrow> oracle_submission \<Rightarrow> bool) \<Rightarrow> submission_query \<Rightarrow> oracle_submission \<Rightarrow> bool" where
  "build_where combine q =
     (case query_conditions q of [] \<Rightarrow> (\<lambda>_. True) | [c] \<Rightarrow> c | cs \<Rightarrow> combine cs)"

record submission_statistics =
  st_total :: nat
  st_successful :: nat
  st_failed :: nat
  st_pending :: nat
  st_rate :: rat
  st_average :: "int option"

text \<open>
  The times are text, so the sum that starts from 0 is the concatenation of the digits; the average is
  None where JavaScript has \<open>NaN\<close> or infinity.
\<close>

definition average_time :: "oracle_submission list \<Rightarrow> int option" where
  "average_time rows =
     (let ts = List.map_filter (\<lambda>r. if os_status r = SubSubmitted then nonempty (os_time_ms r) else None) rows in
      if ts = [] then Some 0
      else case number_of_text (''0'' @ concat ts) of
        Fin x \<Rightarrow> Some (math_round (x / of_nat (length ts)))
      | _ \<Rightarrow> None)"

definition calculate_statistics :: "oracle_submission list \<Rightarrow> submission_statistics" where
  "calculate_statistics rows =
     (let n = length rows; k = count_rows (\<lambda>r. os_status r = SubSubmitted) rows in
      \<lparr>st_total = n, st_successful = k,
       st_failed = count_rows (\<lambda>r. os_status r = SubFailed) rows,
       st_pending = count_rows (\<lambda>r. os_status r = SubPending) rows,
       st_rate = round2 (if n > 0 then of_nat k / of_nat n * 100 else 0),
       st_average = average_time rows\<rparr>)"

definition get_submissions ::
  "((oracle_submission \<Rightarrow> bool) list \<Rightarrow> oracle_submission \<Rightarrow> bool) \<Rightarrow> submission_query \<Rightarrow> oracle_db
    \<Rightarrow> oracle_submission list \<times> nat \<times> nat \<times> nat \<times> submission_statistics" where
  "get_submissions combine q s =
     (let p = (case sq_page q of None \<Rightarrow> 1 | Some n \<Rightarrow> n);
          k = min (case sq_limit q of None \<Rightarrow> 20 | Some n \<Rightarrow> n) 100;
          rows = filter (build_where combine q) (submissions s)
      in (page_of p k (sort_desc os_created_at rows), length rows, p, k, calculate_statistics rows))"

definition get_submission_by_id :: "uuid \<Rightarrow> oracle_db \<Rightarrow> oracle_submission option" where
  "get_submission_by_id k s = by_id os_id k (submissions s)"

section \<open>The queue\<close>

text \<open>Every queued job has an object with attempts left.\<close>

definition queue_ok :: "oracle_db \<Rightarrow> bool" where
  "queue_ok s \<longleftrightarrow> keyed jb_id (jobs s) \<and> distinct (queue s) \<and>
     list_all (\<lambda>job. case by_id jb_id job (jobs s) of None \<Rightarrow> False | Some j \<Rightarrow> jb_retries j < max_oracle_retries) (queue s)"

lemma update_submission_simps [simp]:
  "jobs (update_submission job upd s) = jobs s" "queue (update_submission job upd s) = queue s"
  "oracle_matches (update_submission job upd s) = oracle_matches s"
  by (simp_all add: update_submission_def split: option.split)

lemma save_submission_simps [simp]:
  "jobs (save_submission p c t sid j m s) = jobs s" "queue (save_submission p c t sid j m s) = queue s"
  "oracle_matches (save_submission p c t sid j m s) = oracle_matches s"
  by (simp_all add: save_submission_def split: option.split bool.split)

lemma dequeue_simps [simp]:
  "jobs (dequeue job s) = jobs s" "queue (dequeue job s) = removeAll job (queue s)"
  "oracle_matches (dequeue job s) = oracle_matches s" "submissions (dequeue job s) = submissions s"
  by (simp_all add: dequeue_def)

lemma write_job_simps [simp]:
  "jobs (write_job j s) = save_row jb_id j (jobs s)" "queue (write_job j s) = queue s"
  "oracle_matches (write_job j s) = oracle_matches s" "submissions (write_job j s) = submissions s"
  by (simp_all add: write_job_def)

lemma simulate_queue:
  "simulate_submission luck t rnd ms j s = (r, s1) \<Longrightarrow> jobs s1 = jobs s \<and> queue s1 = queue s"
  by (auto simp: simulate_submission_def Let_def split: luck.splits if_splits option.splits)

lemma retry_delay_le: "n < max_oracle_retries \<Longrightarrow> retry_delay n \<le> 300000"
  by (cases "n \<le> 1") (auto simp: retry_delay_def retry_delays_def max_oracle_retries_def numeral_2_eq_2 less_Suc_eq)

text \<open>An attempt leaves the other jobs alone; its own job ends or comes back with one attempt less.\<close>

lemma submit_other:
  assumes "k \<noteq> job"
  shows "by_id jb_id k (jobs (submit_to_oracle luck t rnd ms job s)) = by_id jb_id k (jobs s)"
    and "k \<in> set (queue (submit_to_oracle luck t rnd ms job s)) \<longleftrightarrow> k \<in> set (queue s)"
  using assms
  by (auto simp: submit_to_oracle_def handle_retry_def Let_def by_id_save_row
      split: option.split prod.split sum.split dest!: simulate_queue by_id_Some)

lemma submit_distinct: "distinct (queue s) \<Longrightarrow> distinct (queue (submit_to_oracle luck t rnd ms job s))"
  by (auto simp: submit_to_oracle_def handle_retry_def Let_def distinct_removeAll
      split: option.split prod.split sum.split dest!: simulate_queue)

lemma submit_keyed: "keyed jb_id (jobs s) \<Longrightarrow> keyed jb_id (jobs (submit_to_oracle luck t rnd ms job s))"
  by (auto simp: submit_to_oracle_def handle_retry_def Let_def keyed_save_row
      split: option.split prod.split sum.split dest!: simulate_queue)

lemma submit_own:
  assumes "by_id jb_id job (jobs s) = Some j"
    and "job \<in> set (queue (submit_to_oracle luck t rnd ms job s))"
  shows "\<exists>j'. by_id jb_id job (jobs (submit_to_oracle luck t rnd ms job s)) = Some j' \<and>
    jb_retries j' = jb_retries j + 1 \<and> jb_retries j' < max_oracle_retries \<and> jb_next j' = t + retry_delay (jb_retries j')"
proof -
  have id: "jb_id j = job" using assms(1) by (auto dest: by_id_Some)
  show ?thesis
    using assms id
    by (auto simp: submit_to_oracle_def handle_retry_def Let_def by_id_save_row
        split: option.splits prod.splits sum.splits if_splits dest!: simulate_queue)
qed

lemma queue_okD: "queue_ok s \<Longrightarrow> k \<in> set (queue s) \<Longrightarrow> \<exists>j. by_id jb_id k (jobs s) = Some j \<and> jb_retries j < max_oracle_retries"
  by (auto simp: queue_ok_def list_all_iff split: option.splits)

lemma queue_okI:
  assumes "keyed jb_id (jobs s)" and "distinct (queue s)"
    and "\<And>k. k \<in> set (queue s) \<Longrightarrow> \<exists>j. by_id jb_id k (jobs s) = Some j \<and> jb_retries j < max_oracle_retries"
  shows "queue_ok s"
proof -
  have "case by_id jb_id k (jobs s) of None \<Rightarrow> False | Some j \<Rightarrow> jb_retries j < max_oracle_retries"
    if "k \<in> set (queue s)" for k
    using assms(3) [OF that] by (elim exE conjE) simp
  then show ?thesis using assms(1,2) unfolding queue_ok_def list_all_iff by blast
qed

lemma submit_ok:
  assumes "queue_ok s" shows "queue_ok (submit_to_oracle luck t rnd ms job s)"
proof (rule queue_okI)
  show "keyed jb_id (jobs (submit_to_oracle luck t rnd ms job s))"
    using assms by (simp add: submit_keyed queue_ok_def)
  show "distinct (queue (submit_to_oracle luck t rnd ms job s))"
    using assms by (simp add: submit_distinct queue_ok_def)
  fix k assume k: "k \<in> set (queue (submit_to_oracle luck t rnd ms job s))"
  show "\<exists>j. by_id jb_id k (jobs (submit_to_oracle luck t rnd ms job s)) = Some j \<and> jb_retries j < max_oracle_retries"
  proof (cases "k = job")
    case False
    then show ?thesis using k queue_okD [OF assms] by (simp add: submit_other)
  next
    case True
    show ?thesis
    proof (cases "by_id jb_id job (jobs s)")
      case None
      then have "submit_to_oracle luck t rnd ms job s = s" by (simp add: submit_to_oracle_def)
      then show ?thesis using k queue_okD [OF assms, of k] by (metis (no_types))
    next
      case (Some j)
      then show ?thesis using submit_own k True by (metis (no_types))
    qed
  qed
qed

text \<open>A pass over some queued jobs: what is still queued afterwards.\<close>

lemma fold_submit:
  assumes "queue_ok s" and "distinct js" and "set js \<subseteq> set (queue s)"
    and "s' = fold (\<lambda>job s. submit_to_oracle (draw job) (moment job) rnd ms job s) js s"
  shows "queue_ok s' \<and> set (queue s') \<subseteq> set (queue s) \<and>
    (\<forall>k. k \<notin> set js \<longrightarrow> by_id jb_id k (jobs s') = by_id jb_id k (jobs s)) \<and>
    (\<forall>k\<in>set js \<inter> set (queue s'). \<exists>j j'. by_id jb_id k (jobs s) = Some j \<and> by_id jb_id k (jobs s') = Some j' \<and>
       jb_retries j' = jb_retries j + 1 \<and> jb_next j' = moment k + retry_delay (jb_retries j') \<and>
       jb_retries j' < max_oracle_retries)"
  using assms
proof (induction js arbitrary: s)
  case (Cons a js)
  let ?s1 = "submit_to_oracle (draw a) (moment a) rnd ms a s"
  have ok1: "queue_ok ?s1" using Cons.prems(1) by (rule submit_ok)
  have sub1: "set (queue ?s1) \<subseteq> set (queue s)"
  proof
    fix k assume "k \<in> set (queue ?s1)"
    then show "k \<in> set (queue s)"
      using Cons.prems(3) submit_other(2) [of k a] by (cases "k = a") auto
  qed
  have "set js \<subseteq> set (queue ?s1)"
  proof
    fix k assume "k \<in> set js"
    then have "k \<noteq> a" "k \<in> set (queue s)" using Cons.prems(2,3) by auto
    then show "k \<in> set (queue ?s1)" using submit_other(2) by metis
  qed
  then have IH: "queue_ok s'" "set (queue s') \<subseteq> set (queue ?s1)"
    "\<forall>k. k \<notin> set js \<longrightarrow> by_id jb_id k (jobs s') = by_id jb_id k (jobs ?s1)"
    "\<forall>k\<in>set js \<inter> set (queue s'). \<exists>j j'. by_id jb_id k (jobs ?s1) = Some j \<and> by_id jb_id k (jobs s') = Some j' \<and>
       jb_retries j' = jb_retries j + 1 \<and> jb_next j' = moment k + retry_delay (jb_retries j') \<and>
       jb_retries j' < max_oracle_retries"
    using Cons.IH [OF ok1, of] Cons.prems(2,4) by simp_all
  have other: "by_id jb_id k (jobs ?s1) = by_id jb_id k (jobs s)" if "k \<noteq> a" for k
    using that by (rule submit_other(1))
  have "\<exists>j j'. by_id jb_id k (jobs s) = Some j \<and> by_id jb_id k (jobs s') = Some j' \<and>
       jb_retries j' = jb_retries j + 1 \<and> jb_next j' = moment k + retry_delay (jb_retries j') \<and>
       jb_retries j' < max_oracle_retries" if k: "k \<in> set (a # js)" "k \<in> set (queue s')" for k
  proof (cases "k = a")
    case True
    obtain j where j: "by_id jb_id a (jobs s) = Some j"
      using queue_okD [OF Cons.prems(1), of a] Cons.prems(3) by auto
    have "by_id jb_id a (jobs s') = by_id jb_id a (jobs ?s1)" using IH(3) Cons.prems(2) by simp
    then show ?thesis using submit_own [OF j] k(2) IH(2) j True by (metis (no_types) subsetD)
  next
    case False
    then have "k \<in> set js \<inter> set (queue s')" using k by simp
    from bspec [OF IH(4) this] show ?thesis unfolding other [OF False] .
  qed
  then show ?case using IH sub1 other by (simp add: subset_trans)
qed simp

lemma process_retries_step:
  assumes ok: "queue_ok s" and due: "\<forall>k\<in>set (queue s). \<exists>j. by_id jb_id k (jobs s) = Some j \<and> jb_next j \<le> t \<and> n \<le> jb_retries j"
    and moment: "\<And>k. moment k + 300000 \<le> t'" and s': "s' = process_retries draw moment t rnd ms s"
  shows "queue_ok s'"
    and "\<forall>k\<in>set (queue s'). \<exists>j. by_id jb_id k (jobs s') = Some j \<and> jb_next j \<le> t' \<and> Suc n \<le> jb_retries j"
proof -
  have all: "due_jobs t s = queue s"
    unfolding due_jobs_def by (rule filter_True) (use due in \<open>force\<close>)
  have f: "s' = fold (\<lambda>job s. submit_to_oracle (draw job) (moment job) rnd ms job s) (queue s) s"
    by (simp add: s' process_retries_def all)
  have "distinct (queue s)" using ok by (simp add: queue_ok_def)
  note * = fold_submit [OF ok this order.refl f]
  have "\<exists>j. by_id jb_id k (jobs s') = Some j \<and> jb_next j \<le> t' \<and> Suc n \<le> jb_retries j"
    if k: "k \<in> set (queue s')" for k
  proof -
    have q: "k \<in> set (queue s)" using * k by blast
    then obtain j j' where j: "by_id jb_id k (jobs s) = Some j" "by_id jb_id k (jobs s') = Some j'"
      "jb_retries j' = jb_retries j + 1" "jb_next j' = moment k + retry_delay (jb_retries j')"
      "jb_retries j' < max_oracle_retries" using * k by blast
    moreover have "n \<le> jb_retries j" using due q j(1) by (metis option.inject)
    ultimately show ?thesis using retry_delay_le [OF j(5)] moment [of k] by auto
  qed
  then show "\<forall>k\<in>set (queue s'). \<exists>j. by_id jb_id k (jobs s') = Some j \<and> jb_next j \<le> t' \<and> Suc n \<le> jb_retries j"
    by blast
  show "queue_ok s'" using * by blast
qed

section \<open>The history\<close>

text \<open>The number in a job id is the instant of the report, not the match.\<close>

lemma underscore_show_int: "CHR ''_'' \<notin> set (show_int i)"
proof -
  have "\<not> is_digit CHR ''_''" by (simp add: is_digit_def char_code_def)
  then have "CHR ''_'' \<notin> set (show_nat n)" for n using show_nat_digits [of n] by (auto simp: list_all_iff)
  then show ?thesis by (simp add: show_int_def)
qed

lemma record_key_job: "record_key (generate_job_id t rnd) = show_int t"
proof -
  have "remove_first ''job_'' (generate_job_id t rnd) = show_int t @ CHR ''_'' # rnd"
    by (simp add: generate_job_id_def starts_with_def)
  then show ?thesis by (simp add: record_key_def split_on_append [OF underscore_show_int])
qed

text \<open>
  Reports, attempts and retries from an empty queue and history; \<open>t0\<close> is an instant before all of them.
  An attempt may be of any job ever accepted: the passes overlap with attempts that are still running.
\<close>

inductive oracle_run :: "(string \<Rightarrow> timestamp option) \<Rightarrow> timestamp \<Rightarrow> oracle_match list \<Rightarrow> oracle_db \<Rightarrow> bool"
  for parse_date t0 ms where
  boot: "oracle_run parse_date t0 ms \<lparr>oracle_matches = ms, submissions = [], jobs = [], queue = []\<rparr>"
| report: "oracle_run parse_date t0 ms s \<Longrightarrow> t0 \<le> t \<Longrightarrow>
     oracle_run parse_date t0 ms (snd (accept_report parse_date can_save t rnd sid r s))"
| attempt: "oracle_run parse_date t0 ms s \<Longrightarrow> oracle_run parse_date t0 ms (submit_to_oracle luck t rnd n job s)"

definition chain_numbered :: "timestamp \<Rightarrow> string \<Rightarrow> bool" where
  "chain_numbered t0 x \<longleftrightarrow> (case big_int x of None \<Rightarrow> True | Some n \<Rightarrow> n < t0)"

definition untouched :: "timestamp \<Rightarrow> oracle_submission \<Rightarrow> bool" where
  "untouched t0 x \<longleftrightarrow> os_status x = SubPending \<and> os_retries x = 0 \<and> os_tx x = None \<and> chain_numbered t0 (os_match x)"

definition history_ok :: "timestamp \<Rightarrow> oracle_db \<Rightarrow> bool" where
  "history_ok t0 s \<longleftrightarrow> list_all (\<lambda>m. chain_numbered t0 (om_chain_id m)) (oracle_matches s) \<and>
     list_all (untouched t0) (submissions s) \<and> list_all (\<lambda>j. t0 \<le> the (big_int (record_key (jb_id j)))
       \<and> big_int (record_key (jb_id j)) \<noteq> None) (jobs s)"

lemma update_submission_idle:
  assumes "history_ok t0 s" and "j \<in> set (jobs s)"
  shows "update_submission (jb_id j) upd s = s"
proof -
  have "os_match x \<noteq> record_key (jb_id j)" if "x \<in> set (submissions s)" for x
  proof -
    have "chain_numbered t0 (os_match x)" using assms(1) that by (simp add: history_ok_def list_all_iff untouched_def)
    moreover have "t0 \<le> the (big_int (record_key (jb_id j)))" "big_int (record_key (jb_id j)) \<noteq> None"
      using assms by (simp_all add: history_ok_def list_all_iff)
    ultimately show ?thesis by (auto simp: chain_numbered_def split: option.splits)
  qed
  then have "find_one (\<lambda>x. os_match x = record_key (jb_id j)) (submissions s) = None"
    by (simp add: find_one_None)
  then show ?thesis by (simp add: update_submission_def)
qed

lemma accept_history:
  assumes "history_ok t0 s" and "t0 \<le> t"
  shows "history_ok t0 (snd (accept_report p c t rnd sid r s))"
proof (cases "fst (accept_report p c t rnd sid r s)")
  case (Inl e)
  then have "snd (accept_report p c t rnd sid r s) = s"
    by (auto simp: accept_report_def Let_def split: option.splits if_splits)
  then show ?thesis using assms(1) by simp
next
  case (Inr job)
  then obtain m where m: "find_one (\<lambda>m. om_chain_id m = mr_match r) (oracle_matches s) = Some m"
    by (auto simp: accept_report_def split: option.splits)
  then have num: "chain_numbered t0 (mr_match r)"
    using assms(1) by (auto simp: history_ok_def list_all_iff dest!: find_one_Some)
  have key: "big_int (record_key (generate_job_id t rnd)) = Some t"
    by (simp add: record_key_job big_int_show_int)
  show ?thesis
    using Inr m assms num key
    by (auto simp: accept_report_def Let_def history_ok_def save_submission_def untouched_def
        split: option.split bool.split if_splits intro!: list_all_save_row)
qed

lemma submit_history:
  assumes "history_ok t0 s"
  shows "history_ok t0 (submit_to_oracle luck t rnd n job s)"
proof (cases "by_id jb_id job (jobs s)")
  case None
  then show ?thesis using assms by (simp add: submit_to_oracle_def)
next
  case (Some j)
  then have j: "j \<in> set (jobs s)" "jb_id j = job" by (auto dest: by_id_Some)
  have key: "t0 \<le> the (big_int (record_key job))" "big_int (record_key job) \<noteq> None"
    using assms j by (auto simp: history_ok_def list_all_iff)
  have wr: "history_ok t0 (write_job j' s')" if "history_ok t0 s'" "jb_id j' = job" for j' s'
    using that key by (simp add: history_ok_def list_all_save_row)
  have deq: "history_ok t0 (dequeue job s')" if "history_ok t0 s'" for s'
    using that by (simp add: history_ok_def)
  have upd: "history_ok t0 (update_submission job f s')" if "history_ok t0 s'" "j' \<in> set (jobs s')" "jb_id j' = job" for f s' j'
    using that update_submission_idle by metis
  show ?thesis
  proof (cases "fst (simulate_submission luck t rnd n j s)")
    case (Inl e)
    then have sim: "simulate_submission luck t rnd n j s = (Inl e, s)"
      by (auto simp: simulate_submission_def Let_def split: luck.splits if_splits option.splits)
    let ?j1 = "j\<lparr>jb_retries := jb_retries j + 1, jb_error := Some e\<rparr>"
    have "history_ok t0 (write_job ?j1 s)" using wr assms j(2) by simp
    moreover have "?j1 \<in> set (jobs (write_job ?j1 s))" by (simp add: in_save_row)
    ultimately have "history_ok t0 (update_submission job f (write_job ?j1 s))" for f
      by (rule upd) (simp add: j(2))
    then show ?thesis
      using Some sim j(2) wr deq by (simp add: submit_to_oracle_def handle_retry_def Let_def)
  next
    case (Inr u)
    let ?m = "\<lambda>m. m\<lparr>om_submitted := True, om_winner := Some (winner_text (jb_winner j))\<rparr>"
    let ?s1 = "case find_one (\<lambda>m. om_chain_id m = jb_match j) (oracle_matches s) of None \<Rightarrow> s
        | Some m \<Rightarrow> s\<lparr>oracle_matches := save_row om_id (?m m) (oracle_matches s)\<rparr>"
    have s1: "history_ok t0 ?s1"
      using assms by (auto simp: history_ok_def list_all_iff dest!: find_one_Some subsetD [OF set_save_row]
          split: option.split)
    have "j \<in> set (jobs ?s1)" using j by (simp split: option.split)
    then have "history_ok t0 (update_submission job f ?s1)" for f using upd s1 j(2) by metis
    moreover have "\<exists>f. snd (simulate_submission luck t rnd n j s) = update_submission job f ?s1"
      using Inr j(2) by (auto simp: simulate_submission_def Let_def split: luck.splits if_splits)
    ultimately have "history_ok t0 (snd (simulate_submission luck t rnd n j s))" by metis
    then show ?thesis using Some Inr deq by (cases "simulate_submission luck t rnd n j s") (simp add: submit_to_oracle_def)
  qed
qed

lemma oracle_run_history:
  "oracle_run p t0 ms s \<Longrightarrow> list_all (\<lambda>m. chain_numbered t0 (om_chain_id m)) ms \<Longrightarrow> history_ok t0 s"
proof (induction rule: oracle_run.induct)
  case boot
  then show ?case by (simp add: history_ok_def)
qed (simp_all add: accept_history submit_history)

section \<open>Properties\<close>

text \<open>
  C24: the retries end: three passes of the minute job, each at least five minutes after the one before
  it was done, leave the queue empty, whatever the attempts draw.  The last delay of fifteen minutes
  is never waited for.
\<close>

theorem retries_end:
  assumes "queue_ok s" and "\<forall>job\<in>set (queue s). \<exists>j. by_id jb_id job (jobs s) = Some j \<and> jb_next j \<le> t1"
    and "\<And>job. m1 job + 300000 \<le> t2" and "\<And>job. m2 job + 300000 \<le> t3"
    and "s1 = process_retries d1 m1 t1 rnd ms s" and "s2 = process_retries d2 m2 t2 rnd ms s1"
  shows "queue (process_retries d3 (\<lambda>_. t4) t3 rnd ms s2) = []"
proof -
  let ?s3 = "process_retries d3 (\<lambda>_. t4) t3 rnd ms s2"
  have 0: "\<forall>k\<in>set (queue s). \<exists>j. by_id jb_id k (jobs s) = Some j \<and> jb_next j \<le> t1 \<and> 0 \<le> jb_retries j"
    using assms(2) by simp
  note 1 = process_retries_step [OF assms(1) 0 assms(3,5)]
  note 2 = process_retries_step [OF 1 assms(4,6)]
  note 3 = process_retries_step [OF 2, of "\<lambda>_. t4" "t4 + 300000" ?s3, OF order.refl refl]
  have False if k: "k \<in> set (queue ?s3)" for k
  proof -
    obtain j where "by_id jb_id k (jobs ?s3) = Some j" "jb_retries j < max_oracle_retries" using queue_okD [OF 3(1) k] by blast
    moreover from bspec [OF 3(2) k] obtain j' where "by_id jb_id k (jobs ?s3) = Some j'" "Suc (Suc (Suc 0)) \<le> jb_retries j'" by blast
    ultimately show False by (simp add: max_oracle_retries_def)
  qed
  then show ?thesis by (metis list.set_intros(1) neq_Nil_conv)
qed

text \<open>
  A result that waits for a retry is written over whatever result the match got in the meantime:
  a successful attempt does not look whether the match is resolved.
\<close>

lemma stale_retry_overwrites:
  assumes "by_id jb_id job (jobs s) = Some j" and "find_one (\<lambda>m. om_chain_id m = jb_match j) (oracle_matches s) = Some m"
    and "1 / 10 \<le> d"
  shows "by_id om_id (om_id m) (oracle_matches (submit_to_oracle (Drawn d) t rnd ms job s)) =
      Some (m\<lparr>om_submitted := True, om_winner := Some (winner_text (jb_winner j))\<rparr>)"
  using assms by (simp add: submit_to_oracle_def simulate_submission_def Let_def by_id_save_row)

text \<open>
  The history never learns what became of a submission: with match ids that are numbers below the
  clock, every row stays pending with no retry and no transaction, and the success rate shown is 0.
\<close>

theorem history_stays_pending:
  assumes "oracle_run parse_date t0 ms s" and "list_all (\<lambda>m. chain_numbered t0 (om_chain_id m)) ms"
  shows "list_all (\<lambda>x. os_status x = SubPending \<and> os_retries x = 0 \<and> os_tx x = None) (submissions s) \<and>
    st_rate (calculate_statistics (submissions s)) = 0"
proof -
  have "history_ok t0 s" using assms by (rule oracle_run_history)
  then have *: "os_status x = SubPending \<and> os_retries x = 0 \<and> os_tx x = None" if "x \<in> set (submissions s)" for x
    using that by (simp add: history_ok_def untouched_def list_all_iff)
  then have "count_rows (\<lambda>r. os_status r = SubSubmitted) (submissions s) = 0" by (simp add: count_rows_0)
  then have "st_rate (calculate_statistics (submissions s)) = 0"
    using math_round_of_int [of 0] by (simp add: calculate_statistics_def Let_def round2_def del: math_round_of_int)
  then show ?thesis using * by (simp add: list_all_iff)
qed

section \<open>Samples\<close>

definition sample_oracle_match :: oracle_match where
  "sample_oracle_match = \<lparr>om_id = ''m1'', om_chain_id = ''7'', om_event = ''e1'', om_team_a = ''A'', om_team_b = ''B'',
     om_time = 1000, om_submitted = False, om_winner = None, om_predictions = 0, om_created_at = 0\<rparr>"

definition sample_report :: match_report where
  "sample_report = \<lparr>mr_match = ''7'', mr_winner = DeclaredA, mr_confidence = 90, mr_source = ''feed'',
     mr_timestamp = ''now'', mr_metadata = None\<rparr>"

definition oracle_start :: oracle_db where
  "oracle_start = \<lparr>oracle_matches = [sample_oracle_match], submissions = [], jobs = [], queue = []\<rparr>"

text \<open>The state after a report whose first attempt failed.\<close>

definition sample_oracle_db :: oracle_db where
  "sample_oracle_db = \<lparr>oracle_matches = [sample_oracle_match],
     submissions = [\<lparr>os_id = ''s1'', os_match = ''7'', os_team_a = ''A'', os_team_b = ''B'', os_winner = DeclaredA,
       os_confidence = 90, os_source = ''feed'', os_result_at = 1000, os_metadata = None, os_status = SubPending,
       os_tx = None, os_submitted_at = None, os_error = None, os_retries = 0, os_time_ms = None, os_created_at = 9\<rparr>],
     jobs = [\<lparr>jb_id = ''job_9_x'', jb_match = ''7'', jb_winner = DeclaredA, jb_confidence = 90, jb_source = ''feed'',
       jb_timestamp = ''now'', jb_metadata = None, jb_retries = 1, jb_created_at = 9, jb_next = 60109,
       jb_error = Some ''Simulated oracle submission failure''\<rparr>],
     queue = [''job_9_x'']\<rparr>"

lemma sample_show: "show_int 9 = ''9''"
  by code_simp

lemma sample_job_id: "generate_job_id 9 ''x'' = ''job_9_x''"
  by (simp add: generate_job_id_def sample_show)

lemma sample_record_key: "record_key ''job_9_x'' = ''9''"
  using record_key_job [of 9 "''x''"] by (simp only: sample_job_id sample_show)

lemma sample_reached:
  "sample_oracle_db = submit_to_oracle (Drawn 0) (9 + int 100) ''x'' 100 ''job_9_x''
      (snd (accept_report (\<lambda>_. Some 1000) True 9 ''x'' ''s1'' sample_report oracle_start))"
  by (simp add: sample_oracle_db_def oracle_start_def accept_report_def sample_report_def sample_oracle_match_def
      Let_def sample_job_id save_submission_def submit_to_oracle_def simulate_submission_def
      handle_retry_def write_job_def update_submission_def sample_record_key max_oracle_retries_def
      retry_delay_def retry_delays_def)

lemma sample_queue_ok: "queue_ok sample_oracle_db"
  by (simp add: queue_ok_def sample_oracle_db_def keyed_def max_oracle_retries_def)

theorem retries_end_witness:
  "let d = (\<lambda>_. Drawn 0);
       s1 = process_retries d (\<lambda>_. 70000) 70000 ''y'' 100 sample_oracle_db;
       s2 = process_retries d (\<lambda>_. 380000) 380000 ''y'' 100 s1;
       s3 = process_retries d (\<lambda>_. 690000) 690000 ''y'' 100 s2
   in queue sample_oracle_db = [''job_9_x''] \<and> queue s3 = []"
proof -
  have due: "\<forall>job\<in>set (queue sample_oracle_db). \<exists>j. by_id jb_id job (jobs sample_oracle_db) = Some j \<and> jb_next j \<le> 70000"
    by (simp add: sample_oracle_db_def)
  show ?thesis unfolding Let_def
    by (rule conjI, simp add: sample_oracle_db_def,
      rule retries_end [OF sample_queue_ok due _ _ refl refl], simp_all)
qed

theorem history_stays_pending_witness:
  "map os_status (submissions sample_oracle_db) = [SubPending] \<and> queue sample_oracle_db \<noteq> [] \<and>
    st_rate (calculate_statistics (submissions sample_oracle_db)) = 0"
proof -
  have start: "oracle_run (\<lambda>_. Some 1000) 8 [sample_oracle_match] oracle_start" using boot by (simp add: oracle_start_def)
  have run: "oracle_run (\<lambda>_. Some 1000) 8 [sample_oracle_match] sample_oracle_db"
    unfolding sample_reached by (rule attempt [OF report [OF start]]) simp
  have "list_all (\<lambda>m. chain_numbered 8 (om_chain_id m)) [sample_oracle_match]" by code_simp
  from history_stays_pending [OF run this] show ?thesis by (simp add: sample_oracle_db_def)
qed

end
