(* ===== verification/Calendar.thy ===== *)
theory Calendar
  imports Js
begin

text \<open>
  The UTC fields of a JavaScript \<open>Date\<close> from 1970 on, and the ISO week the digests name
  (\<open>backend/src/notifications/digest.service.ts\<close>).
\<close>

section \<open>Days and years\<close>

definition day_ms :: int where
  "day_ms = 24 * 60 * 60 * 1000"

definition day_of :: "timestamp \<Rightarrow> nat" where
  "day_of t = nat (t div day_ms)"

definition utc_hours :: "timestamp \<Rightarrow> int" where
  "utc_hours t = (t div (60 * 60 * 1000)) mod 24"

text \<open>The first of January 1970 was a Thursday; Sunday is 0.\<close>

definition utc_day :: "timestamp \<Rightarrow> nat" where
  "utc_day t = (day_of t + 4) mod 7"

definition leap_year :: "nat \<Rightarrow> bool" where
  "leap_year y \<longleftrightarrow> y mod 4 = 0 \<and> (y mod 100 \<noteq> 0 \<or> y mod 400 = 0)"

definition year_length :: "nat \<Rightarrow> nat" where
  "year_length y = (if leap_year y then 366 else 365)"

lemma year_length_pos [simp]: "0 < year_length y"
  by (simp add: year_length_def)

function year_day :: "nat \<Rightarrow> nat \<Rightarrow> nat \<times> nat" where
  "year_day y d = (if d < year_length y then (y, d) else year_day (y + 1) (d - year_length y))"
  by pat_completeness auto
termination
proof (relation "measure snd")
  fix y d :: nat
  assume "\<not> d < year_length y"
  then have "0 < d" using year_length_pos [of y] by (metis gr0I)
  then show "((y + 1, d - year_length y), y, d) \<in> measure snd"
    using year_length_pos [of y] by (simp add: diff_less)
qed simp

declare year_day.simps [simp del]

definition month_lengths :: "nat \<Rightarrow> nat list" where
  "month_lengths y = [31, if leap_year y then 29 else 28, 31, 30, 31, 30, 31, 31, 30, 31, 30, 31]"

fun month_day :: "nat list \<Rightarrow> nat \<Rightarrow> nat \<times> nat" where
  "month_day [] d = (0, d)"
| "month_day (n # ns) d =
     (if d < n then (0, d) else (let (m, k) = month_day ns (d - n) in (m + 1, k)))"

text \<open>\<open>date.toISOString().slice(0, 10)\<close>.\<close>

definition iso_date :: "nat \<Rightarrow> nat \<Rightarrow> nat \<Rightarrow> string" where
  "iso_date y m d =
     take 10 ((if y \<le> 9999 then pad_left 4 (show_nat y) else CHR ''+'' # pad_left 6 (show_nat y)) @
       ''-'' @ pad_left 2 (show_nat (m + 1)) @ ''-'' @ pad_left 2 (show_nat (d + 1)))"

definition daily_period_key :: "timestamp \<Rightarrow> string" where
  "daily_period_key t =
     (let (y, k) = year_day 1970 (day_of t); (m, d) = month_day (month_lengths y) k in iso_date y m d)"

text \<open>The Thursday of the week, whose year is the year of the week; Sunday is the last day.\<close>

definition week_thursday :: "timestamp \<Rightarrow> nat" where
  "week_thursday t = day_of t + 4 - (if utc_day t = 0 then 7 else utc_day t)"

definition weekly_period_key :: "timestamp \<Rightarrow> string" where
  "weekly_period_key t =
     (let (y, k) = year_day 1970 (week_thursday t) in
      show_nat y @ ''-W'' @ pad_left 2 (show_nat (k div 7 + 1)))"

section \<open>Keys are one to one\<close>

lemma year_day_range: "year_day y d = (y', k) \<Longrightarrow> k < year_length y'"
proof (induction y d arbitrary: y' k rule: year_day.induct)
  case (1 y d)
  show ?case
  proof (cases "d < year_length y")
    case True
    then show ?thesis using "1.prems" by (simp add: year_day.simps [of y d])
  next
    case False
    then show ?thesis using "1.IH" [OF False] "1.prems" by (simp add: year_day.simps [of y d])
  qed
qed

lemma year_day_ge: "year_day y d = (y', k) \<Longrightarrow> y \<le> y'"
proof (induction y d arbitrary: y' k rule: year_day.induct)
  case (1 y d)
  show ?case
  proof (cases "d < year_length y")
    case True
    then show ?thesis using "1.prems" by (simp add: year_day.simps [of y d])
  next
    case False
    then show ?thesis using "1.IH" [OF False] "1.prems" by (simp add: year_day.simps [of y d])
  qed
qed

text \<open>Within one year the days are as far apart as their numbers.\<close>

lemma year_day_diff: "year_day y d = (y', k) \<Longrightarrow> year_day y e = (y', l) \<Longrightarrow> d + l = e + k"
proof (induction y d arbitrary: e y' k l rule: year_day.induct)
  case (1 y d)
  show ?case
  proof (cases "d < year_length y \<or> e < year_length y")
    case False
    then show ?thesis
      using "1.IH" [of y' k "e - year_length y" l] "1.prems" year_day.simps [of y d] year_day.simps [of y e]
      by simp linarith
  next
    case True
    have "y' = y"
    proof (rule ccontr)
      assume "y' \<noteq> y"
      then show False using True "1.prems" year_day.simps [of y d] year_day.simps [of y e] by (auto split: if_splits)
    qed
    then have "d < year_length y" "e < year_length y"
      using "1.prems" year_day.simps [of y d] year_day.simps [of y e] year_day_ge [of "y + 1"]
      by (force split: if_splits)+
    then show ?thesis using "1.prems" year_day.simps [of y d] year_day.simps [of y e] by simp
  qed
qed

lemma month_day_inj: "month_day ns d = month_day ns e \<Longrightarrow> d = e"
proof (induction ns arbitrary: d e)
  case (Cons n ns)
  have "d = e" if "\<not> d < n" "\<not> e < n" "month_day ns (d - n) = month_day ns (e - n)"
    using Cons.IH [OF that(3)] that(1,2) by simp
  then show ?case using Cons.prems by (auto split: if_splits prod.splits simp: Let_def)
qed simp

lemma length_show_nat: "0 < k \<Longrightarrow> n < 10 ^ k \<Longrightarrow> length (show_nat n) \<le> k"
proof (induction k arbitrary: n)
  case (Suc k)
  show ?case
  proof (cases "n < 10")
    case True
    then show ?thesis by (subst show_nat.simps) simp
  next
    case False
    then have "k \<noteq> 0" using Suc.prems by (metis One_nat_def power_one_right)
    then have "length (show_nat (n div 10)) \<le> k" using Suc by (simp add: less_mult_imp_div_less mult.commute)
    then show ?thesis using False by (subst show_nat.simps) simp
  qed
qed simp

lemma digits_val_zeros: "digits_val 10 0 (replicate j CHR ''0'' @ s) = digits_val 10 0 s"
proof (induction j)
  case (Suc j)
  have "digit_val CHR ''0'' = Some 0" by (simp add: digit_val_def char_code_def)
  then show ?case using Suc by simp
qed simp

lemma pad_left_inj: "pad_left k (show_nat m) = pad_left k (show_nat n) \<Longrightarrow> m = n"
  using digits_val_zeros digits_val_show_nat unfolding pad_left_def by (metis option.inject)

lemma length_pad_left: "length s \<le> k \<Longrightarrow> length (pad_left k s) = k"
  by (simp add: pad_left_def)

lemma length_month_day: "(m, d) = month_day ns k \<Longrightarrow> k < sum_list ns \<Longrightarrow> m < length ns \<and> d < Max (set ns)"
proof (induction ns arbitrary: k m d)
  case (Cons n ns)
  show ?case
  proof (cases "k < n")
    case True
    then show ?thesis using Cons.prems by (cases ns) (auto simp: less_max_iff_disj)
  next
    case False
    obtain m' d' where md: "month_day ns (k - n) = (m', d')" by fastforce
    have "k - n < sum_list ns" using False Cons.prems(2) by simp
    with Cons.IH [OF md [symmetric]] have "m' < length ns" "d' < Max (set ns)" by simp_all
    then show ?thesis using Cons.prems(1) md False by (cases ns) (auto simp: Let_def less_max_iff_disj)
  qed
qed simp

lemma month_bounds:
  assumes "month_day (month_lengths y) k = (m, d)" and "k < year_length y"
  shows "m < 12 \<and> d < 31"
proof -
  have "sum_list (month_lengths y) = year_length y" by (simp add: month_lengths_def year_length_def)
  moreover have "Max (set (month_lengths y)) = 31" by (simp add: month_lengths_def)
  ultimately show ?thesis
    using length_month_day [OF assms(1) [symmetric]] assms(2) by (simp add: month_lengths_def)
qed

lemma iso_date_inj:
  assumes "iso_date y m d = iso_date y' m' d'" and "y \<le> 9999" "y' \<le> 9999" "m < 12" "m' < 12" "d < 31" "d' < 31"
  shows "y = y' \<and> m = m' \<and> d = d'"
proof -
  have two: "length (pad_left 2 (show_nat (n + 1))) = 2" if "n < 31" for n
    using length_show_nat [of 2 "n + 1"] that by (intro length_pad_left) simp
  have four: "length (pad_left 4 (show_nat n)) = 4" if "n \<le> 9999" for n
    using length_show_nat [of 4 n] that by (intro length_pad_left) simp
  have key: "iso_date y m d = pad_left 4 (show_nat y) @ ''-'' @ pad_left 2 (show_nat (m + 1)) @ ''-'' @ pad_left 2 (show_nat (d + 1))"
    if "y \<le> 9999" "m < 12" "d < 31" for y m d
    using that two [of m] two [of d] four [of y] by (simp add: iso_date_def)
  have "pad_left 4 (show_nat y) = pad_left 4 (show_nat y')"
    "pad_left 2 (show_nat (m + 1)) = pad_left 2 (show_nat (m' + 1))"
    "pad_left 2 (show_nat (d + 1)) = pad_left 2 (show_nat (d' + 1))"
    using assms(1) key [OF assms(2,4,6)] key [OF assms(3,5,7)] four [OF assms(2)] four [OF assms(3)]
      two [of m] two [of m'] assms(4,5) by simp_all
  then show ?thesis using pad_left_inj by (metis add_right_cancel)
qed

text \<open>Before the year 10000 the daily key names the day.\<close>

definition before_10000 :: "timestamp \<Rightarrow> bool" where
  "before_10000 t \<longleftrightarrow> fst (year_day 1970 (day_of t)) \<le> 9999"

lemma daily_key_iff:
  assumes "before_10000 t" and "before_10000 u"
  shows "daily_period_key t = daily_period_key u \<longleftrightarrow> day_of t = day_of u"
proof
  assume same: "daily_period_key t = daily_period_key u"
  obtain y k where yk: "year_day 1970 (day_of t) = (y, k)" by fastforce
  obtain y' k' where yk': "year_day 1970 (day_of u) = (y', k')" by fastforce
  obtain m d where md: "month_day (month_lengths y) k = (m, d)" by fastforce
  obtain m' d' where md': "month_day (month_lengths y') k' = (m', d')" by fastforce
  note b = month_bounds [OF md year_day_range [OF yk]] and b' = month_bounds [OF md' year_day_range [OF yk']]
  have "iso_date y m d = iso_date y' m' d'" using same by (simp add: daily_period_key_def yk yk' md md')
  then have eq: "y = y'" "m = m'" "d = d'"
    using iso_date_inj b b' assms by (simp_all add: before_10000_def yk yk')
  then have "k = k'" using month_day_inj md md' by metis
  then show "day_of t = day_of u" using year_day_diff [OF yk, of "day_of u" k'] yk' eq(1) by simp
qed (simp add: daily_period_key_def)

text \<open>The weekly key names the week from Monday to Sunday.\<close>

definition week_of :: "timestamp \<Rightarrow> nat" where
  "week_of t = (day_of t + 3) div 7"

lemma thursday_of_week: "week_thursday t = 7 * week_of t"
proof -
  define q where "q = (day_of t + 3) div 7"
  define r where "r = (day_of t + 3) mod 7"
  have d: "day_of t + 4 = Suc (7 * q + r)" "r < 7" by (simp_all add: q_def r_def)
  show ?thesis
  proof (cases "r = 6")
    case True
    then have "day_of t + 4 = 7 * Suc q" using d(1) by simp
    then show ?thesis by (simp add: week_thursday_def week_of_def utc_day_def flip: q_def)
  next
    case False
    then have "Suc r < 7" using d(2) by simp
    then have "(day_of t + 4) mod 7 = Suc r" unfolding d(1) by (metis add_Suc_right mod_less mod_mult_self4)
    then have "utc_day t = Suc r" by (simp only: utc_day_def)
    then show ?thesis using d(1) by (simp add: week_thursday_def week_of_def flip: q_def)
  qed
qed

lemma weekly_key_inj:
  assumes "show_nat y @ ''-W'' @ a = show_nat y' @ ''-W'' @ a'"
  shows "y = y' \<and> a = a'"
proof -
  have cut: "takeWhile is_digit (show_nat n @ ''-W'' @ x) = show_nat n" for n x
  proof -
    have "\<forall>c\<in>set (show_nat n). is_digit c" using show_nat_digits [of n] by (simp add: list_all_iff)
    moreover have "\<not> is_digit CHR ''-''" by (simp add: is_digit_def char_code_def)
    ultimately show ?thesis by (simp add: takeWhile_append2)
  qed
  have "takeWhile is_digit (show_nat y @ ''-W'' @ a) = takeWhile is_digit (show_nat y' @ ''-W'' @ a')"
    by (simp only: assms)
  then have "show_nat y = show_nat y'" unfolding cut .
  moreover from this have "a = a'" using assms by (metis append_same_eq same_append_eq)
  ultimately show ?thesis by (simp only: show_nat_inj simp_thms)
qed

lemma weekly_key_iff: "weekly_period_key t = weekly_period_key u \<longleftrightarrow> week_of t = week_of u"
proof
  assume same: "weekly_period_key t = weekly_period_key u"
  obtain y k where yk: "year_day 1970 (week_thursday t) = (y, k)" by fastforce
  obtain y' k' where yk': "year_day 1970 (week_thursday u) = (y', k')" by fastforce
  have "show_nat y @ ''-W'' @ pad_left 2 (show_nat (k div 7 + 1)) =
      show_nat y' @ ''-W'' @ pad_left 2 (show_nat (k' div 7 + 1))"
    using same by (simp add: weekly_period_key_def yk yk')
  note * = weekly_key_inj [OF this]
  then have "k div 7 + 1 = k' div 7 + 1" by (intro pad_left_inj [of 2]) simp
  with * have eq: "y = y'" "k div 7 = k' div 7" by simp_all
  have "week_thursday t + k' = week_thursday u + k" using year_day_diff [OF yk] yk' eq(1) by simp
  then have "(7 * week_of t + k') div 7 = (7 * week_of u + k) div 7" by (simp only: thursday_of_week)
  then show "week_of t = week_of u" using eq(2) by simp
next
  assume "week_of t = week_of u"
  then show "weekly_period_key t = weekly_period_key u" by (simp add: weekly_period_key_def thursday_of_week)
qed

end
