(* ===== verification/Notifications.thy ===== *)
theory Notifications
  imports JsText Accounts
begin

text \<open>
  The notifications of a user (\<open>backend/src/notifications/notifications.service.ts\<close>) and their way to
  the browser (\<open>websocket/notification-broadcaster.service.ts\<close>): batches per user that a timer, or the
  tenth notification, sends.  A deleted notification keeps its row.
\<close>

section \<open>The broadcaster\<close>

record note_payload =
  np_id :: int
  np_type :: string
  np_title :: string
  np_message :: string
  np_data :: "jsval option"
  np_created_at :: timestamp

record result_payload =
  rp_match :: int
  rp_event :: int
  rp_winning_team :: string
  rp_prediction :: string
  rp_correct :: bool

record winner_payload =
  wp_event :: int
  wp_title :: string
  wp_rank :: int
  wp_winners :: int
  wp_correct :: int
  wp_matches :: int

datatype emission =
    EmitNotes string string "note_payload list"
  | EmitRead string int
  | EmitConfirm string int
  | EmitResult string result_payload
  | EmitWinner string winner_payload

record sockets =
  batch_queue :: "(string \<times> note_payload list) list"
  emitted :: "emission list"
  confirmations :: "(string \<times> int list) list"

definition max_batch_size :: nat where
  "max_batch_size = 10"

definition batch_key :: "string \<Rightarrow> string \<Rightarrow> string" where
  "batch_key address event = address @ '':'' @ event"

definition flush_batch :: "string \<Rightarrow> string \<Rightarrow> sockets \<Rightarrow> sockets" where
  "flush_batch address event k =
     (case by_id fst (batch_key address event) (batch_queue k) of
        None \<Rightarrow> k
      | Some (_, q) \<Rightarrow>
          if q = [] then k
          else k\<lparr>emitted := emitted k @ EmitNotes address event q # map (EmitConfirm address \<circ> np_id) q,
                 batch_queue := delete_rows (\<lambda>b. fst b = batch_key address event) (batch_queue k)\<rparr>)"

definition queue_note :: "string \<Rightarrow> string \<Rightarrow> note_payload \<Rightarrow> sockets \<Rightarrow> sockets" where
  "queue_note address event n k =
     (let key = batch_key address event;
          q = (case by_id fst key (batch_queue k) of None \<Rightarrow> [] | Some b \<Rightarrow> snd b) @ [n];
          k1 = k\<lparr>batch_queue := save_row fst (key, q) (batch_queue k)\<rparr>
      in if length q \<ge> max_batch_size then flush_batch address event k1 else k1)"

definition new_note_event :: string where
  "new_note_event = ''notification:new''"

definition broadcast_new :: "string \<Rightarrow> note_payload \<Rightarrow> sockets \<Rightarrow> sockets" where
  "broadcast_new address n k = queue_note address new_note_event n k"

definition broadcast_read :: "string \<Rightarrow> int \<Rightarrow> sockets \<Rightarrow> sockets" where
  "broadcast_read address n k = k\<lparr>emitted := emitted k @ [EmitRead address n]\<rparr>"

definition broadcast_prediction_result :: "string \<Rightarrow> result_payload \<Rightarrow> sockets \<Rightarrow> sockets" where
  "broadcast_prediction_result address r k = k\<lparr>emitted := emitted k @ [EmitResult address r]\<rparr>"

definition broadcast_event_winner :: "string \<Rightarrow> winner_payload \<Rightarrow> sockets \<Rightarrow> sockets" where
  "broadcast_event_winner address w k = k\<lparr>emitted := emitted k @ [EmitWinner address w]\<rparr>"

definition request_confirmation :: "string \<Rightarrow> int \<Rightarrow> sockets \<Rightarrow> sockets" where
  "request_confirmation address n k = k\<lparr>emitted := emitted k @ [EmitConfirm address n]\<rparr>"

text \<open>The timer goes through the keys; each is cut at its first colon.\<close>

definition cut_key :: "string \<Rightarrow> string \<times> string" where
  "cut_key key = (takeWhile (\<lambda>c. c \<noteq> CHR '':'') key, drop 1 (dropWhile (\<lambda>c. c \<noteq> CHR '':'') key))"

definition batch_tick :: "sockets \<Rightarrow> sockets" where
  "batch_tick k =
     fold (\<lambda>key k. flush_batch (fst (cut_key key)) (snd (cut_key key)) k) (map fst (batch_queue k)) k"

definition confirm_delivery :: "string \<Rightarrow> int \<Rightarrow> sockets \<Rightarrow> sockets" where
  "confirm_delivery address n k =
     (let seen = (case by_id fst address (confirmations k) of None \<Rightarrow> [] | Some b \<Rightarrow> snd b) in
      k\<lparr>confirmations := save_row fst (address, if n \<in> set seen then seen else seen @ [n]) (confirmations k)\<rparr>)"

definition is_delivered :: "string \<Rightarrow> int \<Rightarrow> sockets \<Rightarrow> bool" where
  "is_delivered address n k =
     (case by_id fst address (confirmations k) of None \<Rightarrow> False | Some b \<Rightarrow> n \<in> set (snd b))"

definition cleanup_confirmations :: "sockets \<Rightarrow> sockets" where
  "cleanup_confirmations k = (if length (confirmations k) > 10000 then k\<lparr>confirmations := []\<rparr> else k)"

section \<open>The notifications\<close>

record notification_row =
  nr_id :: int
  nr_address :: string
  nr_type :: string
  nr_title :: string
  nr_message :: string
  nr_data :: "jsval option"
  nr_read :: bool
  nr_created_at :: timestamp
  nr_deleted_at :: "timestamp option"

record notification_db =
  note_rows :: "notification_row list"
  next_note :: int
  sockets :: sockets

definition note_live :: "notification_row \<Rightarrow> bool" where
  "note_live n \<longleftrightarrow> nr_deleted_at n = None"

definition note_payload_of :: "notification_row \<Rightarrow> note_payload" where
  "note_payload_of n = \<lparr>np_id = nr_id n, np_type = nr_type n, np_title = nr_title n,
     np_message = nr_message n, np_data = nr_data n, np_created_at = nr_created_at n\<rparr>"

definition create_notification ::
  "timestamp \<Rightarrow> string \<Rightarrow> string \<Rightarrow> string \<Rightarrow> string \<Rightarrow> jsval option \<Rightarrow> notification_db
    \<Rightarrow> notification_row \<times> notification_db" where
  "create_notification t address type title message data s =
     (let n = \<lparr>nr_id = next_note s, nr_address = address, nr_type = type, nr_title = title,
               nr_message = message, nr_data = data, nr_read = False, nr_created_at = t,
               nr_deleted_at = None\<rparr>
      in (n, s\<lparr>note_rows := note_rows s @ [n], next_note := next_note s + 1,
               sockets := broadcast_new address (note_payload_of n) (sockets s)\<rparr>))"

record note_page =
  nt_data :: "notification_row list"
  nt_total :: nat
  nt_page :: nat
  nt_limit :: nat
  nt_unread :: nat

definition get_unread_count :: "string \<Rightarrow> notification_row list \<Rightarrow> nat" where
  "get_unread_count address rows = count_rows (\<lambda>n. note_live n \<and> nr_address n = address \<and> \<not> nr_read n) rows"

definition find_all_for_user ::
  "string \<Rightarrow> nat \<Rightarrow> nat \<Rightarrow> bool option \<Rightarrow> string option \<Rightarrow> notification_db \<Rightarrow> note_page" where
  "find_all_for_user address page limit read type s =
     (let most = min limit 100;
          rows = filter (\<lambda>n. note_live n \<and> nr_address n = address \<and>
                   (case read of None \<Rightarrow> True | Some b \<Rightarrow> nr_read n = b) \<and>
                   (case nonempty type of None \<Rightarrow> True | Some x \<Rightarrow> nr_type n = x)) (note_rows s)
      in \<lparr>nt_data = page_of page most (sort_desc nr_created_at rows), nt_total = length rows,
          nt_page = page, nt_limit = most, nt_unread = get_unread_count address (note_rows s)\<rparr>)"

text \<open>An update addresses live and deleted rows alike; it reports how many it met.\<close>

definition update_read :: "(notification_row \<Rightarrow> bool) \<Rightarrow> notification_db \<Rightarrow> nat \<times> notification_db" where
  "update_read P s =
     (count_rows P (note_rows s), s\<lparr>note_rows := update_rows P (\<lambda>n. n\<lparr>nr_read := True\<rparr>) (note_rows s)\<rparr>)"

definition mark_as_read :: "int \<Rightarrow> string \<Rightarrow> notification_db \<Rightarrow> unit result \<times> notification_db" where
  "mark_as_read k address s =
     (case update_read (\<lambda>n. nr_id n = k \<and> nr_address n = address) s of
        (0, s1) \<Rightarrow> (Inl (NotFound ''Notification not found''), s1)
      | (_, s1) \<Rightarrow> (Inr (), s1\<lparr>sockets := broadcast_read address k (sockets s1)\<rparr>))"

definition mark_all_as_read :: "string \<Rightarrow> notification_db \<Rightarrow> nat \<times> notification_db" where
  "mark_all_as_read address s = update_read (\<lambda>n. nr_address n = address \<and> \<not> nr_read n) s"

definition mark_multiple_as_read :: "string \<Rightarrow> int list \<Rightarrow> notification_db \<Rightarrow> nat \<times> notification_db" where
  "mark_multiple_as_read address ks s = update_read (\<lambda>n. nr_address n = address \<and> nr_id n \<in> set ks) s"

definition remove_notification :: "timestamp \<Rightarrow> int \<Rightarrow> string \<Rightarrow> notification_db \<Rightarrow> unit result \<times> notification_db" where
  "remove_notification t k address s =
     (case find_one (\<lambda>n. note_live n \<and> nr_id n = k \<and> nr_address n = address) (note_rows s) of
        None \<Rightarrow> (Inl (NotFound ''Notification not found''), s)
      | Some _ \<Rightarrow> (Inr (), s\<lparr>note_rows :=
          update_rows (\<lambda>n. note_live n \<and> nr_id n = k) (\<lambda>n. n\<lparr>nr_deleted_at := Some t\<rparr>) (note_rows s)\<rparr>))"

text \<open>
  The listing of the controller answers another user's request with the status 200 and a body that
  says 401 (None).  The page and the limit are whole numbers from 1 on.
\<close>

definition get_notifications ::
  "user \<Rightarrow> string \<Rightarrow> nat \<Rightarrow> nat \<Rightarrow> string option \<Rightarrow> string option \<Rightarrow> notification_db \<Rightarrow> note_page option" where
  "get_notifications u address page limit read type s =
     (if stellar_address u \<noteq> address then None
      else Some (find_all_for_user address page limit
        (if read = Some ''true'' then Some True else if read = Some ''false'' then Some False else None) type s))"

section \<open>Batches are complete\<close>

text \<open>What a browser of the user was sent, and what waits for it.\<close>

fun sent_to :: "string \<Rightarrow> emission \<Rightarrow> note_payload list" where
  "sent_to a (EmitNotes b e ns) = (if b = a then ns else [])"
| "sent_to a _ = []"

definition delivered :: "string \<Rightarrow> sockets \<Rightarrow> note_payload list" where
  "delivered a k = concat (map (sent_to a) (emitted k))"

definition waiting :: "string \<Rightarrow> sockets \<Rightarrow> note_payload list" where
  "waiting a k = (case by_id fst (batch_key a new_note_event) (batch_queue k) of None \<Rightarrow> [] | Some b \<Rightarrow> snd b)"

datatype socket_op =
    NewNote string note_payload
  | NoteRead string int
  | BatchTick
  | NoteConfirmed string int
  | MatchJudged string result_payload
  | EventWon string winner_payload

fun socket_step :: "socket_op \<Rightarrow> sockets \<Rightarrow> sockets" where
  "socket_step (NewNote a n) k = broadcast_new a n k"
| "socket_step (NoteRead a i) k = broadcast_read a i k"
| "socket_step BatchTick k = batch_tick k"
| "socket_step (NoteConfirmed a i) k = confirm_delivery a i k"
| "socket_step (MatchJudged a r) k = broadcast_prediction_result a r k"
| "socket_step (EventWon a w) k = broadcast_event_winner a w k"

fun pushed :: "string \<Rightarrow> socket_op \<Rightarrow> note_payload list" where
  "pushed a (NewNote b n) = (if b = a then [n] else [])"
| "pushed a _ = []"

fun op_address :: "socket_op \<Rightarrow> string option" where
  "op_address (NewNote a n) = Some a"
| "op_address _ = None"

definition plain_address :: "string \<Rightarrow> bool" where
  "plain_address a \<longleftrightarrow> CHR '':'' \<notin> set a"

definition no_sockets :: sockets where
  "no_sockets = \<lparr>batch_queue = [], emitted = [], confirmations = []\<rparr>"

text \<open>The queue holds short batches under the keys of plain addresses.\<close>

definition batches_ok :: "sockets \<Rightarrow> bool" where
  "batches_ok k \<longleftrightarrow> keyed fst (batch_queue k) \<and>
     list_all (\<lambda>(key, q). (\<exists>a. plain_address a \<and> key = batch_key a new_note_event) \<and> q \<noteq> [] \<and>
       length q < max_batch_size) (batch_queue k) \<and>
     list_all (\<lambda>e. case e of EmitNotes a x ns \<Rightarrow> length ns \<le> max_batch_size | _ \<Rightarrow> True) (emitted k)"

lemma batch_key_inj:
  "plain_address a \<Longrightarrow> plain_address b \<Longrightarrow> batch_key a e = batch_key b e' \<longleftrightarrow> a = b \<and> e = e'"
proof (induction a arbitrary: b)
  case Nil
  then show ?case by (cases b) (auto simp: batch_key_def plain_address_def)
next
  case (Cons c a)
  then show ?case by (cases b) (auto simp: batch_key_def plain_address_def)
qed

lemma cut_batch_key: "plain_address a \<Longrightarrow> cut_key (batch_key a e) = (a, e)"
  by (induction a) (auto simp: cut_key_def batch_key_def plain_address_def)

lemma sent_confirms [simp]: "concat (map (sent_to a) (map (EmitConfirm b \<circ> np_id) ns)) = []"
  by (induction ns) auto

lemma flush_keeps:
  assumes ok: "batches_ok k" and a: "plain_address a" and b: "plain_address b"
  shows "batches_ok (flush_batch a new_note_event k)"
    and "delivered b (flush_batch a new_note_event k) @ waiting b (flush_batch a new_note_event k) =
      delivered b k @ waiting b k"
proof -
  let ?key = "batch_key a new_note_event"
  consider (none) "by_id fst ?key (batch_queue k) = None"
    | (some) q where "by_id fst ?key (batch_queue k) = Some (?key, q)" "(?key, q) \<in> set (batch_queue k)"
    by (cases "by_id fst ?key (batch_queue k)") (auto dest: by_id_Some)
  then have "batches_ok (flush_batch a new_note_event k) \<and>
      delivered b (flush_batch a new_note_event k) @ waiting b (flush_batch a new_note_event k) =
      delivered b k @ waiting b k"
  proof cases
    case none
    then show ?thesis using ok by (simp add: flush_batch_def)
  next
    case (some q)
    have q: "q \<noteq> []" "length q < max_batch_size"
      using ok some(2) by (auto simp: batches_ok_def list_all_iff)
    have f: "flush_batch a new_note_event k =
        k\<lparr>emitted := emitted k @ EmitNotes a new_note_event q # map (EmitConfirm a \<circ> np_id) q,
          batch_queue := delete_rows (\<lambda>x. fst x = ?key) (batch_queue k)\<rparr>"
      using some(1) q(1) by (simp add: flush_batch_def)
    have "delivered b (flush_batch a new_note_event k) = delivered b k @ (if a = b then q else [])"
      using sent_confirms [of b a q] by (simp add: f delivered_def del: sent_confirms)
    moreover have "waiting b (flush_batch a new_note_event k) = (if a = b then [] else waiting b k)"
      using batch_key_inj [OF a b, of new_note_event new_note_event]
      using ok by (auto simp: f waiting_def batches_ok_def by_id_delete_rows)
    moreover have "waiting a k = q" using some(1) by (simp add: waiting_def)
    moreover have "batches_ok (flush_batch a new_note_event k)"
      using ok q(2) keyed_delete_rows [of fst "batch_queue k" "\<lambda>x. fst x = ?key"]
      by (auto simp: f batches_ok_def list_all_iff delete_rows_def)
    ultimately show ?thesis by auto
  qed
  then show "batches_ok (flush_batch a new_note_event k)"
    and "delivered b (flush_batch a new_note_event k) @ waiting b (flush_batch a new_note_event k) =
      delivered b k @ waiting b k" by simp_all
qed

lemma tick_keeps:
  assumes "batches_ok k" and "plain_address b"
  shows "batches_ok (batch_tick k) \<and> delivered b (batch_tick k) @ waiting b (batch_tick k) = delivered b k @ waiting b k"
proof -
  have keys: "\<exists>a. plain_address a \<and> x = batch_key a new_note_event" if "x \<in> set (map fst (batch_queue k))" for x
    using that assms(1) by (auto simp: batches_ok_def list_all_iff)
  have "batches_ok (fold (\<lambda>key k. flush_batch (fst (cut_key key)) (snd (cut_key key)) k) xs j) \<and>
      delivered b (fold (\<lambda>key k. flush_batch (fst (cut_key key)) (snd (cut_key key)) k) xs j) @
      waiting b (fold (\<lambda>key k. flush_batch (fst (cut_key key)) (snd (cut_key key)) k) xs j) =
      delivered b j @ waiting b j"
    if "\<And>x. x \<in> set xs \<Longrightarrow> \<exists>a. plain_address a \<and> x = batch_key a new_note_event" and "batches_ok j" for xs j
    using that
  proof (induction xs arbitrary: j)
    case (Cons x xs)
    then obtain a where a: "plain_address a" "x = batch_key a new_note_event" by (meson list.set_intros(1))
    show ?case
      using Cons.IH [of "flush_batch a new_note_event j"] Cons.prems flush_keeps [OF Cons.prems(2) a(1) assms(2)]
      by (simp add: a(2) cut_batch_key [OF a(1)])
  qed simp
  from this [of "map fst (batch_queue k)" k, OF keys assms(1)] show ?thesis unfolding batch_tick_def .
qed

lemma delete_save_row: "delete_rows (\<lambda>x. key x = key r) (save_row key r t) = delete_rows (\<lambda>x. key x = key r) t"
  by (induction t) (auto simp: delete_rows_def)

lemma push_keeps:
  assumes ok: "batches_ok k" and a: "plain_address a" and b: "plain_address b"
  shows "batches_ok (broadcast_new a n k) \<and>
    delivered b (broadcast_new a n k) @ waiting b (broadcast_new a n k) =
      delivered b k @ waiting b k @ (if a = b then [n] else [])"
proof -
  let ?key = "batch_key a new_note_event"
  let ?q = "waiting a k @ [n]"
  let ?k1 = "k\<lparr>batch_queue := save_row fst (?key, ?q) (batch_queue k)\<rparr>"
  have new: "broadcast_new a n k = (if length ?q \<ge> max_batch_size then flush_batch a new_note_event ?k1 else ?k1)"
    by (simp add: broadcast_new_def queue_note_def waiting_def Let_def)
  have len: "length (waiting a k) < max_batch_size"
    using ok by (auto simp: waiting_def batches_ok_def list_all_iff max_batch_size_def
        split: option.split dest!: by_id_Some)
  have w: "waiting b ?k1 = waiting b k @ (if a = b then [n] else [])"
    using batch_key_inj [OF a b, of new_note_event new_note_event] by (auto simp: waiting_def by_id_save_row)
  have d: "delivered b ?k1 = delivered b k" by (simp add: delivered_def)
  show ?thesis
  proof (cases "length ?q \<ge> max_batch_size")
    case False
    then have "batches_ok ?k1"
      using ok a by (auto simp: batches_ok_def keyed_save_row intro!: list_all_save_row)
    then show ?thesis using False w d by (simp add: new)
  next
    case True
    then have full: "length ?q = max_batch_size" using len by simp
    have f: "flush_batch a new_note_event ?k1 = k\<lparr>
        emitted := emitted k @ EmitNotes a new_note_event ?q # map (EmitConfirm a \<circ> np_id) ?q,
        batch_queue := delete_rows (\<lambda>x. fst x = ?key) (save_row fst (?key, ?q) (batch_queue k))\<rparr>"
      by (simp add: flush_batch_def by_id_save_row)
    have keyed: "keyed fst (save_row fst (?key, ?q) (batch_queue k))"
      using ok by (simp add: batches_ok_def keyed_save_row)
    have "batches_ok (flush_batch a new_note_event ?k1)"
      using ok keyed_delete_rows [of fst "batch_queue k" "\<lambda>x. fst x = ?key"] full
      unfolding f delete_save_row [of fst "(?key, ?q)" "batch_queue k", simplified]
      by (auto simp: batches_ok_def list_all_iff delete_rows_def)
    moreover have "delivered b (flush_batch a new_note_event ?k1) = delivered b k @ (if a = b then ?q else [])"
      using sent_confirms [of b a ?q] by (simp add: f delivered_def del: sent_confirms)
    moreover have "waiting b (flush_batch a new_note_event ?k1) = (if a = b then [] else waiting b k)"
      using batch_key_inj [OF a b, of new_note_event new_note_event] keyed
      unfolding f waiting_def [of b] by (auto simp: by_id_delete_rows by_id_save_row)
    ultimately show ?thesis using True by (auto simp: new)
  qed
qed

section \<open>Properties\<close>

text \<open>
  C25: the batches lose and repeat nothing: what a user's browser was sent, followed by what still waits
  for it, is what was pushed for the user, in order; and no batch is longer than ten.
\<close>

theorem notes_delivered_once:
  assumes "list_all (\<lambda>x. case op_address x of None \<Rightarrow> True | Some a \<Rightarrow> plain_address a) ops"
    and "plain_address b" and "k = fold socket_step ops no_sockets"
  shows "delivered b k @ waiting b k = concat (map (pushed b) ops) \<and>
    list_all (\<lambda>e. case e of EmitNotes a x ns \<Rightarrow> length ns \<le> max_batch_size | _ \<Rightarrow> True) (emitted k)"
proof -
  have "batches_ok k \<and> delivered b k @ waiting b k = concat (map (pushed b) ops)"
    using assms(1) unfolding assms(3)
  proof (induction ops rule: rev_induct)
    case Nil
    then show ?case by (simp add: no_sockets_def batches_ok_def delivered_def waiting_def keyed_def)
  next
    case (snoc x ops)
    then have IH: "batches_ok (fold socket_step ops no_sockets)"
      "delivered b (fold socket_step ops no_sockets) @ waiting b (fold socket_step ops no_sockets) = concat (map (pushed b) ops)"
      by simp_all
    show ?case
    proof (cases x)
      case (NewNote a n)
      then have "plain_address a" using snoc.prems by simp
      then show ?thesis using push_keeps [OF IH(1) _ assms(2), of a n] IH(2) NewNote by simp
    next
      case BatchTick
      then show ?thesis using tick_keeps [OF IH(1) assms(2)] IH(2) by simp
    next
      case (NoteRead a i)
      then show ?thesis using IH by (simp add: broadcast_read_def batches_ok_def delivered_def waiting_def)
    next
      case (NoteConfirmed a i)
      then show ?thesis using IH by (simp add: confirm_delivery_def Let_def batches_ok_def delivered_def waiting_def)
    next
      case (MatchJudged a r)
      then show ?thesis
        using IH by (simp add: broadcast_prediction_result_def batches_ok_def delivered_def waiting_def)
    next
      case (EventWon a w)
      then show ?thesis using IH by (simp add: broadcast_event_winner_def batches_ok_def delivered_def waiting_def)
    qed
  qed
  then show ?thesis by (simp add: batches_ok_def)
qed

theorem notes_delivered_once_witness:
  "let n = \<lparr>np_id = 1, np_type = ''match_added'', np_title = ''T'', np_message = ''M'', np_data = None, np_created_at = 5\<rparr>;
       k = fold socket_step [NewNote ''GA'' n, NewNote ''GB'' n, BatchTick, NewNote ''GA'' n] no_sockets
   in delivered ''GA'' k @ waiting ''GA'' k = [n, n] \<and> length (waiting ''GA'' k) = 1"
proof -
  let ?n = "\<lparr>np_id = 1, np_type = ''match_added'', np_title = ''T'', np_message = ''M'', np_data = None, np_created_at = 5\<rparr>"
  let ?ops = "[NewNote ''GA'' ?n, NewNote ''GB'' ?n, BatchTick, NewNote ''GA'' ?n]"
  have "delivered ''GA'' (fold socket_step ?ops no_sockets) @ waiting ''GA'' (fold socket_step ?ops no_sockets) = [?n, ?n]"
    using notes_delivered_once [of ?ops "''GA''", OF _ _ refl] by (simp add: plain_address_def)
  moreover have "length (waiting ''GA'' (fold socket_step ?ops no_sockets)) = 1" by code_simp
  ultimately show ?thesis unfolding Let_def by blast
qed

end
