(* ===== verification/Mail.thy ===== *)
theory Mail
  imports Calendar Notifications
begin

text \<open>
  Mails: the templates (\<open>backend/src/notifications/email-templates.ts\<close>), the queue with its limit per
  minute (\<open>email.service.ts\<close>), and the daily and weekly digests (\<open>digest.service.ts\<close>).  A character
  beyond Latin-1 in a template stands as its UTF-8 bytes.
\<close>

section \<open>Templates\<close>

datatype email_template = TplEventCreated | TplMatchResult | TplEventWon | TplEventCancelled | TplDigest

record digest_item =
  di_title :: string
  di_message :: string

record email_context =
  ec_event_title :: "string option"
  ec_home :: "string option"
  ec_away :: "string option"
  ec_result :: "string option"
  ec_invite :: "string option"
  ec_weekly :: bool
  ec_items :: "digest_item list"
  ec_period :: "string option"

record email_text =
  et_subject :: string
  et_html :: string
  et_text :: string

definition newline :: string where
  "newline = [CHR 0x0A]"

definition escape_html_char :: "char \<Rightarrow> string" where
  "escape_html_char c =
     (if c = CHR ''&'' then ''&amp;'' else if c = CHR ''<'' then ''&lt;'' else if c = CHR ''>'' then ''&gt;''
      else if c = CHR 0x22 then ''&quot;'' else if c = CHR 0x27 then ''&#39;'' else [c])"

definition escape_mail_html :: "string \<Rightarrow> string" where
  "escape_mail_html s = concat (map escape_html_char s)"

definition base_styles :: string where
  "base_styles = concat (map (\<lambda>l. newline @ ''  '' @ l)
     [''body { font-family: -apple-system, BlinkMacSystemFont, '' @ [CHR 0x27] @ ''Segoe UI'' @ [CHR 0x27] @
        '', sans-serif; color: #1a1a2e; line-height: 1.6; }'',
      ''.container { max-width: 560px; margin: 0 auto; padding: 32px 24px; }'',
      ''.header { background: #6366f1; color: #fff; padding: 24px; border-radius: 8px 8px 0 0; }'',
      ''.content { background: #f8fafc; padding: 24px; border-radius: 0 0 8px 8px; border: 1px solid #e2e8f0; border-top: none; }'',
      ''.cta { display: inline-block; background: #6366f1; color: #fff; padding: 12px 24px; border-radius: 6px; text-decoration: none; margin-top: 16px; }'',
      ''.footer { color: #64748b; font-size: 12px; margin-top: 24px; text-align: center; }'']) @ newline"

definition dquote :: string where
  "dquote = [CHR 0x22]"

definition attr :: "string \<Rightarrow> string \<Rightarrow> string" where
  "attr name value = name @ ''='' @ dquote @ value @ dquote"

definition wrap_html :: "string \<Rightarrow> string \<Rightarrow> string" where
  "wrap_html title body =
     ''<!DOCTYPE html><html><head><style>'' @ base_styles @ ''</style></head>'' @ newline @
     ''    <body><div '' @ attr ''class'' ''container'' @ ''>'' @ newline @
     ''      <div '' @ attr ''class'' ''header'' @ ''><h1 '' @ attr ''style'' ''margin:0;font-size:20px;'' @ ''>'' @
       escape_mail_html title @ ''</h1></div>'' @ newline @
     ''      <div '' @ attr ''class'' ''content'' @ ''>'' @ body @ newline @
     ''        <a '' @ attr ''class'' ''cta'' @ '' '' @ attr ''href'' ''https://payastakes.app'' @
       ''>View on PayaStakes</a>'' @ newline @
     ''      </div>'' @ newline @
     ''      <div '' @ attr ''class'' ''footer'' @
       ''>You received this email because of your PayaStakes notification preferences.</div>'' @ newline @
     ''    </div></body></html>''"

text \<open>\<open>x ?? d\<close> for a field, and a field that is put into a text as it is.\<close>

definition field_or :: "string \<Rightarrow> string option \<Rightarrow> string" where
  "field_or d x = (case x of None \<Rightarrow> d | Some s \<Rightarrow> s)"

definition strong :: "string \<Rightarrow> string" where
  "strong s = ''<strong>'' @ escape_mail_html s @ ''</strong>''"

definition digest_item_html :: "digest_item \<Rightarrow> string" where
  "digest_item_html i =
     ''<div '' @ attr ''style'' ''border-left:3px solid #6366f1;padding:8px 12px;margin:8px 0;'' @ ''>'' @ newline @
     ''               '' @ strong (di_title i) @ newline @
     ''               <p '' @ attr ''style'' ''margin:4px 0 0;color:#475569;'' @ ''>'' @ escape_mail_html (di_message i) @
       ''</p>'' @ newline @
     ''             </div>''"

definition email_body :: "email_template \<Rightarrow> email_context \<Rightarrow> string" where
  "email_body tpl c =
     (case tpl of
        TplEventCreated \<Rightarrow>
          ''<p>Your creator event '' @ strong (field_or ''New Event'' (ec_event_title c)) @
          '' has been created successfully.</p>'' @ newline @
          ''           <p>Share your invite code '' @ strong (field_or [] (ec_invite c)) @
          '' with participants to get started.</p>''
      | TplMatchResult \<Rightarrow>
          ''<p>The match '' @ strong (field_or ''Team A'' (ec_home c)) @ '' vs '' @
          strong (field_or ''Team B'' (ec_away c)) @ '' in event '' @ strong (field_or [] (ec_event_title c)) @
          '' has been resolved.</p>'' @ newline @
          ''           <p>Result: '' @ strong (field_or ''Pending'' (ec_result c)) @ ''</p>''
      | TplEventWon \<Rightarrow>
          ''<p>Congratulations! You are a verified winner of '' @
          strong (field_or ''the event'' (ec_event_title c)) @ ''.</p>'' @ newline @
          ''           <p>Log in to PayaStakes to claim your payout.</p>''
      | TplEventCancelled \<Rightarrow>
          ''<p>The event '' @ strong (field_or ''Event'' (ec_event_title c)) @
          '' has been cancelled by the creator.</p>'' @ newline @
          ''           <p>Any stakes will be refunded according to the event rules.</p>''
      | TplDigest \<Rightarrow>
          ''<p>Here'' @ [CHR 0x27] @ ''s a summary of your recent activity on PayaStakes:</p>'' @ newline @
          ''           '' @ concat (map digest_item_html (ec_items c)) @ newline @
          ''           <p '' @ attr ''style'' ''margin-top:16px;color:#475569;font-size:13px;'' @ ''>You have '' @
          show_nat (length (ec_items c)) @ '' unread notification'' @
          (if length (ec_items c) = 1 then [] else ''s'') @ ''.</p>'')"

definition digest_word :: "email_context \<Rightarrow> string" where
  "digest_word c = (if ec_weekly c then ''Weekly'' else ''Daily'')"

definition email_heading :: "email_template \<Rightarrow> email_context \<Rightarrow> string" where
  "email_heading tpl c =
     (case tpl of TplEventCreated \<Rightarrow> ''Event Created'' | TplMatchResult \<Rightarrow> ''Match Result Available''
      | TplEventWon \<Rightarrow> ''You Won!'' | TplEventCancelled \<Rightarrow> ''Event Cancelled''
      | TplDigest \<Rightarrow> digest_word c @ '' Activity Digest'')"

definition email_subject :: "email_template \<Rightarrow> email_context \<Rightarrow> string" where
  "email_subject tpl c =
     (case tpl of
        TplEventCreated \<Rightarrow> ''Your event '' @ dquote @ field_or ''New Event'' (ec_event_title c) @ dquote @
          '' is live on PayaStakes''
      | TplMatchResult \<Rightarrow> ''Match result: '' @ field_or ''Team A'' (ec_home c) @ '' vs '' @
          field_or ''Team B'' (ec_away c)
      | TplEventWon \<Rightarrow> ''Congratulations! You won '' @ dquote @ field_or ''the event'' (ec_event_title c) @ dquote
      | TplEventCancelled \<Rightarrow> ''Event cancelled: '' @ field_or ''Event'' (ec_event_title c)
      | TplDigest \<Rightarrow> trim_right (''Your '' @ digest_word c @ '' PayaStakes digest '' @
          [CHR 0xE2, CHR 0x80, CHR 0x94] @ '' '' @ field_or [] (ec_period c)))"

definition email_plain :: "email_template \<Rightarrow> email_context \<Rightarrow> string" where
  "email_plain tpl c =
     (case tpl of
        TplEventCreated \<Rightarrow> ''Your event '' @ dquote @ field_or ''New Event'' (ec_event_title c) @ dquote @
          '' is live on PayaStakes. Invite code: '' @ field_or [] (ec_invite c)
      | TplMatchResult \<Rightarrow> ''Match result available for '' @ field_or ''undefined'' (ec_home c) @ '' vs '' @
          field_or ''undefined'' (ec_away c) @ ''. Result: '' @ field_or ''undefined'' (ec_result c)
      | TplEventWon \<Rightarrow> ''Congratulations! You won the event '' @ dquote @
          field_or ''the event'' (ec_event_title c) @ dquote @ ''.''
      | TplEventCancelled \<Rightarrow> ''The event '' @ dquote @ field_or ''Event'' (ec_event_title c) @ dquote @
          '' has been cancelled.''
      | TplDigest \<Rightarrow> ''Your '' @ to_lower (digest_word c) @ '' PayaStakes digest:'' @ newline @ newline @
          join_with newline (map (\<lambda>i. [CHR 0xE2, CHR 0x80, CHR 0xA2] @ '' '' @ di_title i @ '': '' @ di_message i)
            (ec_items c)))"

definition render_email_template :: "email_template \<Rightarrow> email_context \<Rightarrow> email_text" where
  "render_email_template tpl c =
     \<lparr>et_subject = email_subject tpl c, et_html = wrap_html (email_heading tpl c) (email_body tpl c),
      et_text = email_plain tpl c\<rparr>"

section \<open>The queue\<close>

record queued_email =
  qe_id :: string
  qe_to :: string
  qe_text :: email_text
  qe_user :: "string option"
  qe_at :: timestamp

text \<open>The mail under way is what the flag \<open>isProcessing\<close> stands for.\<close>

record mailer =
  mail_queue :: "queued_email list"
  sent_stamps :: "timestamp list"
  under_way :: "queued_email option"

definition default_rate_limit :: jsnum where
  "default_rate_limit = Fin 30"

definition is_email_allowed :: "account_db \<Rightarrow> string \<Rightarrow> email_template option \<Rightarrow> bool" where
  "is_email_allowed s address tpl =
     (case live_by_address address (accounts s) of
        None \<Rightarrow> True
      | Some u \<Rightarrow>
          (case by_id up_user (u_id u) (account_prefs s) of
             None \<Rightarrow> True
           | Some p \<Rightarrow>
               if \<not> email_on p then False
               else case tpl of
                 Some TplEventCancelled \<Rightarrow> competition_on p
               | Some TplEventCreated \<Rightarrow> competition_on p
               | Some TplMatchResult \<Rightarrow> market_resolution_on p
               | Some TplEventWon \<Rightarrow> leaderboard_on p
               | _ \<Rightarrow> True))"

text \<open>The answer is empty when the mail is queued, or the reason why it is not.\<close>

definition opted_out :: string where
  "opted_out = ''User has opted out of email notifications''"

definition queue_email ::
  "account_db \<Rightarrow> timestamp \<Rightarrow> string \<Rightarrow> string option \<Rightarrow> email_text \<Rightarrow> string option \<Rightarrow> mailer
    \<Rightarrow> string option \<times> mailer" where
  "queue_email s t rnd recipient e user m =
     (case nonempty (map_option trim recipient) of
        None \<Rightarrow> (Some ''Recipient email is required'', m)
      | Some a \<Rightarrow>
          if (case nonempty user of None \<Rightarrow> False | Some x \<Rightarrow> \<not> is_email_allowed s x None)
          then (Some opted_out, m)
          else (None, m\<lparr>mail_queue := mail_queue m @
                 [\<lparr>qe_id = show_int t @ ''-'' @ rnd, qe_to = a, qe_text = e, qe_user = user, qe_at = t\<rparr>]\<rparr>))"

definition send_templated_email ::
  "account_db \<Rightarrow> timestamp \<Rightarrow> string \<Rightarrow> string option \<Rightarrow> email_template \<Rightarrow> email_context \<Rightarrow> string option \<Rightarrow> mailer
    \<Rightarrow> string option \<times> mailer" where
  "send_templated_email s t rnd recipient tpl c user m =
     (if (case nonempty user of None \<Rightarrow> False | Some x \<Rightarrow> \<not> is_email_allowed s x (Some tpl))
      then (Some opted_out, m)
      else queue_email s t rnd recipient (render_email_template tpl c) user m)"

fun below_limit :: "nat \<Rightarrow> jsnum \<Rightarrow> bool" where
  "below_limit n (Fin x) = (of_nat n < x)"
| "below_limit n PosInf = True"
| "below_limit n _ = False"

definition can_send_more :: "jsnum \<Rightarrow> timestamp \<Rightarrow> mailer \<Rightarrow> bool \<times> mailer" where
  "can_send_more limit t m =
     (let recent = filter (\<lambda>x. x \<ge> t - 60000) (sent_stamps m) in
      (below_limit (length recent) limit, m\<lparr>sent_stamps := recent\<rparr>))"

text \<open>
  One tick of the timer, up to the delivery and from it on.  A delivery that fails is logged, and the
  mail is gone.
\<close>

definition begin_delivery :: "jsnum \<Rightarrow> timestamp \<Rightarrow> mailer \<Rightarrow> mailer" where
  "begin_delivery limit t m =
     (if under_way m \<noteq> None \<or> mail_queue m = [] then m
      else case can_send_more limit t m of
        (False, m1) \<Rightarrow> m1
      | (True, m1) \<Rightarrow> m1\<lparr>mail_queue := tl (mail_queue m1), under_way := Some (hd (mail_queue m1))\<rparr>)"

definition end_delivery :: "bool \<Rightarrow> timestamp \<Rightarrow> mailer \<Rightarrow> mailer" where
  "end_delivery delivers t m =
     m\<lparr>under_way := None, sent_stamps := sent_stamps m @ (if delivers then [t] else [])\<rparr>"

section \<open>Texts put into a mail stay text\<close>

definition markup :: "char \<Rightarrow> bool" where
  "markup c \<longleftrightarrow> c = CHR ''<'' \<or> c = CHR ''>'' \<or> c = CHR 0x22 \<or> c = CHR 0x27"

lemma escape_no_markup [simp]: "filter markup (escape_mail_html s) = []"
  by (induction s) (auto simp: escape_mail_html_def escape_html_char_def markup_def)

lemma items_markup:
  "length xs = length ys \<Longrightarrow>
    filter markup (concat (map digest_item_html xs)) = filter markup (concat (map digest_item_html ys))"
proof (induction xs ys rule: list_induct2)
  case (Cons x xs y ys)
  have "filter markup (digest_item_html x) = filter markup (digest_item_html y)"
    by (simp only: digest_item_html_def strong_def filter_append escape_no_markup append_Nil)
  then show ?case using Cons.IH by simp
qed simp

lemma wrap_markup:
  "filter markup body = filter markup body' \<Longrightarrow> filter markup (wrap_html t body) = filter markup (wrap_html t' body')"
  by (simp only: wrap_html_def filter_append escape_no_markup append_Nil)

lemma body_markup:
  "length (ec_items c) = length (ec_items c') \<Longrightarrow> filter markup (email_body tpl c) = filter markup (email_body tpl c')"
  by (cases tpl) (simp_all only: email_body_def email_template.case filter_append strong_def escape_no_markup
      append_Nil items_markup [of "ec_items c" "ec_items c'"])

section \<open>The limit\<close>

text \<open>
  The mails handed over, with their instants, latest first; instants do not decrease, and mails may
  be queued at any time.
\<close>

inductive mail_run :: "jsnum \<Rightarrow> timestamp \<Rightarrow> mailer \<Rightarrow> timestamp list \<Rightarrow> bool" for limit where
  mail_boot: "mail_run limit t \<lparr>mail_queue = [], sent_stamps = [], under_way = None\<rparr> []"
| mail_queued: "mail_run limit t m sent \<Longrightarrow> mail_run limit t (m\<lparr>mail_queue := mail_queue m @ [e]\<rparr>) sent"
| mail_tick: "mail_run limit t m sent \<Longrightarrow> t \<le> u \<Longrightarrow> mail_run limit u (begin_delivery limit u m) sent"
| mail_sent: "mail_run limit t m sent \<Longrightarrow> under_way m \<noteq> None \<Longrightarrow> t \<le> u \<Longrightarrow>
     mail_run limit u (end_delivery True u m) (u # sent)"
| mail_failed: "mail_run limit t m sent \<Longrightarrow> under_way m \<noteq> None \<Longrightarrow> t \<le> u \<Longrightarrow>
     mail_run limit u (end_delivery False u m) sent"

definition sent_since :: "timestamp \<Rightarrow> timestamp list \<Rightarrow> nat" where
  "sent_since t sent = length (filter (\<lambda>x. x \<ge> t) sent)"

definition sent_between :: "timestamp \<Rightarrow> timestamp \<Rightarrow> timestamp list \<Rightarrow> nat" where
  "sent_between a b sent = length (filter (\<lambda>x. a \<le> x \<and> x \<le> b) sent)"

text \<open>The stamps kept are those since some instant a minute ago or earlier.\<close>

definition mail_ok :: "jsnum \<Rightarrow> timestamp \<Rightarrow> mailer \<Rightarrow> timestamp list \<Rightarrow> bool" where
  "mail_ok limit t m sent \<longleftrightarrow>
     list_all (\<lambda>x. x \<le> t) sent \<and>
     (\<exists>c\<le>t. sent_stamps m = rev (filter (\<lambda>x. x \<ge> c - 60000) sent) \<and>
       (under_way m \<noteq> None \<longrightarrow> below_limit (sent_since (c - 60000) sent) limit)) \<and>
     (\<forall>x. sent_between (x - 60000) x sent \<noteq> 0 \<longrightarrow> below_limit (sent_between (x - 60000) x sent - 1) limit)"

lemma length_filter_mono: "(\<And>x. P x \<Longrightarrow> Q x) \<Longrightarrow> length (filter P xs) \<le> length (filter Q xs)"
  by (induction xs) auto

lemma below_limit_mono: "below_limit n limit \<Longrightarrow> k \<le> n \<Longrightarrow> below_limit k limit"
  by (cases limit) auto

lemma mail_ok_tick:
  assumes "mail_ok limit t m sent" and "t \<le> u"
  shows "mail_ok limit u (begin_delivery limit u m) sent"
proof -
  obtain c where c: "c \<le> t" "sent_stamps m = rev (filter (\<lambda>x. x \<ge> c - 60000) sent)"
    "under_way m \<noteq> None \<longrightarrow> below_limit (sent_since (c - 60000) sent) limit"
    using assms(1) unfolding mail_ok_def by blast
  have old: "list_all (\<lambda>x. x \<le> u) sent" using assms by (auto simp: mail_ok_def list_all_iff)
  have win: "\<forall>x. sent_between (x - 60000) x sent \<noteq> 0 \<longrightarrow> below_limit (sent_between (x - 60000) x sent - 1) limit"
    using assms(1) unfolding mail_ok_def by blast
  show ?thesis
  proof (cases "under_way m \<noteq> None \<or> mail_queue m = []")
    case True
    then have "begin_delivery limit u m = m" by (simp add: begin_delivery_def)
    then show ?thesis using c assms(2) old win unfolding mail_ok_def by (metis order_trans)
  next
    case False
    have recent: "filter (\<lambda>x. x \<ge> u - 60000) (sent_stamps m) = rev (filter (\<lambda>x. x \<ge> u - 60000) sent)"
      using c(1) assms(2) unfolding c(2) by (simp add: rev_filter) (rule filter_cong, auto)
    have s: "sent_stamps (begin_delivery limit u m) = rev (filter (\<lambda>x. x \<ge> u - 60000) sent)"
      using False recent by (simp add: begin_delivery_def can_send_more_def Let_def split: bool.split)
    have "under_way (begin_delivery limit u m) \<noteq> None \<Longrightarrow> below_limit (sent_since (u - 60000) sent) limit"
      using False recent
      by (auto simp: begin_delivery_def can_send_more_def Let_def sent_since_def split: bool.splits)
    then show ?thesis using s old win unfolding mail_ok_def by blast
  qed
qed

lemma mail_ok_sent:
  assumes "mail_ok limit t m sent" and "t \<le> u" and "under_way m \<noteq> None"
  shows "mail_ok limit u (end_delivery True u m) (u # sent)"
proof -
  obtain c where c: "c \<le> t" "sent_stamps m = rev (filter (\<lambda>x. x \<ge> c - 60000) sent)"
    "below_limit (sent_since (c - 60000) sent) limit"
    using assms(1,3) unfolding mail_ok_def by blast
  have "list_all (\<lambda>x. x \<le> u) (u # sent)" using assms(1,2) by (auto simp: mail_ok_def list_all_iff)
  moreover have "sent_stamps (end_delivery True u m) = rev (filter (\<lambda>x. x \<ge> c - 60000) (u # sent))"
    using c(1,2) assms(2) by (simp add: end_delivery_def)
  moreover have "under_way (end_delivery True u m) = None" by (simp add: end_delivery_def)
  moreover have "below_limit (sent_between (x - 60000) x (u # sent) - 1) limit"
    if n: "sent_between (x - 60000) x (u # sent) \<noteq> 0" for x
  proof (cases "x - 60000 \<le> u \<and> u \<le> x")
    case True
    have "length (filter (\<lambda>y. x - 60000 \<le> y \<and> y \<le> x) sent) \<le> sent_since (c - 60000) sent"
      unfolding sent_since_def using True c(1) assms(2) by (intro length_filter_mono) auto
    then show ?thesis using True below_limit_mono [OF c(3)] by (simp add: sent_between_def)
  next
    case False
    then have "sent_between (x - 60000) x (u # sent) = sent_between (x - 60000) x sent"
      by (simp add: sent_between_def)
    then show ?thesis using n assms(1) unfolding mail_ok_def by metis
  qed
  ultimately show ?thesis using c(1) assms(2) unfolding mail_ok_def by (metis order_trans)
qed

lemma mail_run_ok: "mail_run limit t m sent \<Longrightarrow> mail_ok limit t m sent"
proof (induction rule: mail_run.induct)
  case (mail_boot t)
  then show ?case by (auto simp: mail_ok_def sent_between_def)
next
  case (mail_queued t m sent e)
  then show ?case by (simp add: mail_ok_def)
next
  case (mail_tick t m sent u)
  then show ?case by (simp add: mail_ok_tick)
next
  case (mail_sent t m sent u)
  then show ?case by (simp add: mail_ok_sent)
next
  case (mail_failed t m sent u)
  then have ok: "mail_ok limit t m sent" and u: "t \<le> u" by simp_all
  have e: "sent_stamps (end_delivery False u m) = sent_stamps m" "under_way (end_delivery False u m) = None"
    by (simp_all add: end_delivery_def)
  have "list_all (\<lambda>x. x \<le> u) sent" using ok u by (auto simp: mail_ok_def list_all_iff)
  then show ?case using ok u unfolding mail_ok_def e by (metis order_trans)
qed

section \<open>Digests\<close>

record digest_state =
  dg_user :: uuid
  dg_daily :: "string option"
  dg_weekly :: "string option"

text \<open>The tables the job reads, its own table, and the mails.\<close>

record digest_db =
  dd_accounts :: "user list"
  dd_prefs :: "user_preferences list"
  dd_notes :: "notification_row list"
  dd_states :: "digest_state list"
  dd_mails :: mailer

definition last_period :: "bool \<Rightarrow> uuid \<Rightarrow> digest_db \<Rightarrow> string option" where
  "last_period weekly uid s =
     (case by_id dg_user uid (dd_states s) of
        None \<Rightarrow> None
      | Some d \<Rightarrow> if weekly then dg_weekly d else dg_daily d)"

definition save_period :: "bool \<Rightarrow> uuid \<Rightarrow> string \<Rightarrow> digest_db \<Rightarrow> digest_db" where
  "save_period weekly uid key s =
     (let d = (case by_id dg_user uid (dd_states s) of
                 None \<Rightarrow> \<lparr>dg_user = uid, dg_daily = None, dg_weekly = None\<rparr>
               | Some d \<Rightarrow> d)
      in s\<lparr>dd_states := save_row dg_user
             (if weekly then d\<lparr>dg_weekly := Some key\<rparr> else d\<lparr>dg_daily := Some key\<rparr>) (dd_states s)\<rparr>)"

text \<open>True when a digest was handed to the queue and the period saved.\<close>

definition process_user_digest ::
  "timestamp \<Rightarrow> string \<Rightarrow> bool \<Rightarrow> string \<Rightarrow> timestamp \<Rightarrow> user_preferences \<Rightarrow> digest_db \<Rightarrow> bool \<times> digest_db" where
  "process_user_digest t rnd weekly key start p s =
     (case live_by_id (up_user p) (dd_accounts s) of
        None \<Rightarrow> (False, s)
      | Some u \<Rightarrow>
          (case nonempty (email u) of
             None \<Rightarrow> (False, s)
           | Some a \<Rightarrow>
               if last_period weekly (up_user p) s = Some key then (False, s)
               else
                 (let ns = take 20 (sort_desc nr_created_at (filter (\<lambda>n. note_live n \<and>
                              nr_address n = stellar_address u \<and> \<not> nr_read n \<and> start \<le> nr_created_at n)
                            (dd_notes s)))
                  in if ns = [] then (False, s)
                     else
                       (let e = render_email_template TplDigest
                              \<lparr>ec_event_title = None, ec_home = None, ec_away = None, ec_result = None,
                               ec_invite = None, ec_weekly = weekly,
                               ec_items = map (\<lambda>n. \<lparr>di_title = nr_title n, di_message = nr_message n\<rparr>) ns,
                               ec_period = Some key\<rparr>;
                            m = snd (queue_email \<lparr>accounts = dd_accounts s, account_prefs = dd_prefs s\<rparr>
                                  t rnd (Some a) e None (dd_mails s))
                        in (True, save_period weekly (up_user p) key (s\<lparr>dd_mails := m\<rparr>))))))"

text \<open>The users who got a digest, in order.\<close>

fun digest_loop ::
  "timestamp \<Rightarrow> string \<Rightarrow> bool \<Rightarrow> string \<Rightarrow> timestamp \<Rightarrow> user_preferences list \<Rightarrow> digest_db
    \<Rightarrow> uuid list \<times> digest_db" where
  "digest_loop t rnd weekly key start [] s = ([], s)"
| "digest_loop t rnd weekly key start (p # ps) s =
     (let (sent, s1) = process_user_digest t rnd weekly key start p s;
          (us, s2) = digest_loop t rnd weekly key start ps s1
      in ((if sent then [up_user p] else []) @ us, s2))"

definition run_digests ::
  "timestamp \<Rightarrow> string \<Rightarrow> bool \<Rightarrow> string \<Rightarrow> timestamp \<Rightarrow> digest_db \<Rightarrow> uuid list \<times> digest_db" where
  "run_digests t rnd weekly key start s =
     digest_loop t rnd weekly key start
       (filter (\<lambda>p. digest_frequency p = (if weekly then DigestWeekly else DigestDaily) \<and> email_on p) (dd_prefs s)) s"

definition send_daily_digests :: "timestamp \<Rightarrow> string \<Rightarrow> digest_db \<Rightarrow> uuid list \<times> digest_db" where
  "send_daily_digests t rnd s = run_digests t rnd False (daily_period_key t) (t - day_ms) s"

definition send_weekly_digests :: "timestamp \<Rightarrow> string \<Rightarrow> digest_db \<Rightarrow> uuid list \<times> digest_db" where
  "send_weekly_digests t rnd s = run_digests t rnd True (weekly_period_key t) (t - 7 * day_ms) s"

record digest_config =
  dc_enabled :: "string option"
  dc_hour :: "string option"
  dc_weekday :: "string option"

text \<open>Both mailings of the hour, each entry with its kind.\<close>

definition handle_hourly_check ::
  "digest_config \<Rightarrow> timestamp \<Rightarrow> string \<Rightarrow> digest_db \<Rightarrow> (bool \<times> uuid) list \<times> digest_db" where
  "handle_hourly_check c t rnd s =
     (if dc_enabled c = Some ''false'' then ([], s)
      else if parse_int (field_or ''8'' (dc_hour c)) \<noteq> Some (utc_hours t) then ([], s)
      else
        (let (us, s1) = send_daily_digests t rnd s in
         if parse_int (field_or ''1'' (dc_weekday c)) = Some (int (utc_day t))
         then (let (ws, s2) = send_weekly_digests t rnd s1 in (map (Pair False) us @ map (Pair True) ws, s2))
         else (map (Pair False) us, s1)))"

section \<open>One digest per period\<close>

definition period_key :: "bool \<Rightarrow> timestamp \<Rightarrow> string" where
  "period_key weekly t = (if weekly then weekly_period_key t else daily_period_key t)"

definition period_no :: "bool \<Rightarrow> timestamp \<Rightarrow> nat" where
  "period_no weekly t = (if weekly then week_of t else day_of t)"

lemma period_key_iff:
  "before_10000 t \<Longrightarrow> before_10000 u \<Longrightarrow> period_key w t = period_key w u \<longleftrightarrow> period_no w t = period_no w u"
  by (simp add: period_key_def period_no_def daily_key_iff weekly_key_iff)

lemma period_no_mono: "t \<le> u \<Longrightarrow> period_no w t \<le> period_no w u"
proof -
  assume "t \<le> u"
  then have "day_of t \<le> day_of u" by (simp add: day_of_def zdiv_mono1 nat_mono day_ms_def)
  then show ?thesis by (simp add: period_no_def week_of_def div_le_mono)
qed

text \<open>
  The digests sent so far, as kind, user and instant: the table knows the latest period of each user and
  kind, and no period has two.
\<close>

definition digests_ok :: "timestamp \<Rightarrow> (bool \<times> uuid \<times> timestamp) list \<Rightarrow> digest_db \<Rightarrow> bool" where
  "digests_ok t sent s \<longleftrightarrow>
     distinct (map (\<lambda>(w, uid, x). (w, uid, period_no w x)) sent) \<and>
     (\<forall>(w, uid, x)\<in>set sent. x \<le> t \<and> before_10000 x \<and>
        (\<exists>y\<le>t. before_10000 y \<and> last_period w uid s = Some (period_key w y) \<and> period_no w x \<le> period_no w y))"

lemma last_period_save:
  "last_period w v (save_period w' uid key s) =
    (if w = w' \<and> v = uid then Some key else last_period w v s)"
  by (auto simp: last_period_def save_period_def Let_def by_id_save_row split: option.split dest: by_id_Some)

lemma digests_ok_entry:
  "digests_ok t sent s \<Longrightarrow> (w, v, x) \<in> set sent \<Longrightarrow> x \<le> t \<and> before_10000 x \<and>
    (\<exists>y\<le>t. before_10000 y \<and> last_period w v s = Some (period_key w y) \<and> period_no w x \<le> period_no w y)"
  unfolding digests_ok_def by (drule conjunct2, drule (1) bspec, unfold prod.case)

lemma digests_ok_later:
  assumes "digests_ok t sent s" and "t \<le> u" shows "digests_ok u sent s"
proof -
  have "x \<le> u \<and> before_10000 x \<and> (\<exists>y\<le>u. before_10000 y \<and> last_period w v s = Some (period_key w y) \<and>
      period_no w x \<le> period_no w y)" if "(w, v, x) \<in> set sent" for w v x
    using digests_ok_entry [OF assms(1) that] assms(2) by (meson order_trans)
  then show ?thesis using assms(1) unfolding digests_ok_def by blast
qed

lemma digest_user_ok:
  assumes ok: "digests_ok t sent s" and "t \<le> u" and "before_10000 u"
    and res: "process_user_digest u rnd w (period_key w u) start p s = (b, s1)"
  shows "digests_ok u (sent @ (if b then [(w, up_user p, u)] else [])) s1"
proof (cases b)
  case False
  then have "s1 = s" using res
    by (auto simp: process_user_digest_def Let_def split: option.splits if_splits)
  then show ?thesis using digests_ok_later [OF ok assms(2)] False by simp
next
  case True
  have new: "last_period w (up_user p) s \<noteq> Some (period_key w u)"
    using res True by (auto simp: process_user_digest_def Let_def split: option.splits if_splits)
  obtain m where s1: "s1 = save_period w (up_user p) (period_key w u) (s\<lparr>dd_mails := m\<rparr>)"
    using res True by (auto simp: process_user_digest_def Let_def split: option.splits if_splits)
  have lp: "last_period w' v s1 = (if w' = w \<and> v = up_user p then Some (period_key w u) else last_period w' v s)" for w' v
  proof -
    have "last_period x v (s\<lparr>dd_mails := m\<rparr>) = last_period x v s" for x by (simp add: last_period_def)
    then show ?thesis unfolding s1 last_period_save by simp
  qed
  have "period_no w x \<noteq> period_no w u" if x: "(w, up_user p, x) \<in> set sent" for x
  proof
    assume same: "period_no w x = period_no w u"
    obtain y where y: "y \<le> t" "before_10000 y" "last_period w (up_user p) s = Some (period_key w y)"
      "period_no w x \<le> period_no w y"
      using digests_ok_entry [OF ok x] by blast
    have "period_no w y \<le> period_no w u" using y(1) assms(2) by (intro period_no_mono) simp
    then have "period_no w y = period_no w u" using y(4) same by simp
    then have "period_key w y = period_key w u" using period_key_iff [OF y(2) assms(3)] by simp
    then show False using new y(3) by simp
  qed
  then have "(w, up_user p, period_no w u) \<notin> set (map (\<lambda>(w, uid, x). (w, uid, period_no w x)) sent)"
    by force
  then have d: "distinct (map (\<lambda>(w, uid, x). (w, uid, period_no w x)) (sent @ [(w, up_user p, u)]))"
    using ok by (simp add: digests_ok_def)
  have "x \<le> u \<and> before_10000 x \<and> (\<exists>y\<le>u. before_10000 y \<and> last_period w' v s1 = Some (period_key w' y) \<and>
      period_no w' x \<le> period_no w' y)" if e: "(w', v, x) \<in> set (sent @ [(w, up_user p, u)])" for w' v x
  proof (cases "w' = w \<and> v = up_user p")
    case True
    have "x \<le> u \<and> before_10000 x"
      using e digests_ok_entry [OF ok, of w' v x] assms(2,3) by auto
    then show ?thesis using True lp assms(3) period_no_mono [of x u w] by auto
  next
    case False
    then have "(w', v, x) \<in> set sent" using e by auto
    then obtain y where "x \<le> t" "before_10000 x" "y \<le> t" "before_10000 y"
      "last_period w' v s = Some (period_key w' y)" "period_no w' x \<le> period_no w' y"
      using digests_ok_entry [OF ok] by blast
    then show ?thesis using False lp assms(2) by (metis order_trans)
  qed
  then show ?thesis using True d unfolding digests_ok_def by auto
qed

lemma digest_loop_ok:
  assumes "digests_ok t sent s" and "t \<le> u" and "before_10000 u"
    and "digest_loop u rnd w (period_key w u) start ps s = (us, s1)"
  shows "digests_ok u (sent @ map (\<lambda>v. (w, v, u)) us) s1"
  using assms
proof (induction ps arbitrary: t sent s us)
  case Nil
  then show ?case using digests_ok_later [OF Nil.prems(1,2)] by simp
next
  case (Cons p ps)
  obtain b s' where b: "process_user_digest u rnd w (period_key w u) start p s = (b, s')" by fastforce
  obtain us' where us': "digest_loop u rnd w (period_key w u) start ps s' = (us', s1)"
    "us = (if b then [up_user p] else []) @ us'"
    using Cons.prems(4) b by (auto simp: Let_def split: prod.splits)
  from Cons.IH [OF digest_user_ok [OF Cons.prems(1,2,3) b] order.refl Cons.prems(3) us'(1)]
  show ?case by (simp add: us'(2) split: if_splits)
qed

text \<open>
  A sequence of hourly checks.  Between them the other tables change at will, and mails leave the queue;
  only the job writes its own table.
\<close>

fun digest_checks ::
  "digest_config \<Rightarrow> (timestamp \<times> string \<times> user list \<times> user_preferences list \<times> notification_row list \<times> mailer) list
    \<Rightarrow> digest_db \<Rightarrow> (bool \<times> uuid \<times> timestamp) list" where
  "digest_checks c [] s = []"
| "digest_checks c ((t, rnd, us, ps, ns, m) # rest) s =
     (let (sent, s1) = handle_hourly_check c t rnd
            (s\<lparr>dd_accounts := us, dd_prefs := ps, dd_notes := ns, dd_mails := m\<rparr>)
      in map (\<lambda>(w, uid). (w, uid, t)) sent @ digest_checks c rest s1)"

lemma hourly_ok:
  assumes "digests_ok t sent s" and "t \<le> u" and "before_10000 u"
    and "handle_hourly_check c u rnd s = (us, s1)"
  shows "digests_ok u (sent @ map (\<lambda>(w, uid). (w, uid, u)) us) s1"
proof -
  obtain ds s2 where ds: "send_daily_digests u rnd s = (ds, s2)" by fastforce
  obtain ws s3 where ws: "send_weekly_digests u rnd s2 = (ws, s3)" by fastforce
  have 1: "digests_ok u (sent @ map (\<lambda>v. (False, v, u)) ds) s2"
    by (rule digest_loop_ok [OF assms(1-3), of rnd False "u - day_ms"])
      (use ds in \<open>simp add: send_daily_digests_def run_digests_def period_key_def\<close>)
  have 2: "digests_ok u ((sent @ map (\<lambda>v. (False, v, u)) ds) @ map (\<lambda>v. (True, v, u)) ws) s3"
    by (rule digest_loop_ok [OF 1 order.refl assms(3), of rnd True "u - 7 * day_ms"])
      (use ws in \<open>simp add: send_weekly_digests_def run_digests_def period_key_def\<close>)
  have 0: "digests_ok u sent s" using digests_ok_later [OF assms(1,2)] .
  show ?thesis
    using assms(4) 0 1 2 ds ws
    by (auto simp: handle_hourly_check_def comp_def split: if_splits)
qed

lemma checks_ok:
  assumes "digests_ok t sent s" and "sorted (t # map fst checks)" and "list_all (before_10000 \<circ> fst) checks"
  shows "distinct (map (\<lambda>(w, uid, x). (w, uid, period_no w x)) (sent @ digest_checks c checks s))"
  using assms
proof (induction checks arbitrary: t sent s)
  case Nil
  then show ?case by (simp add: digests_ok_def)
next
  case (Cons x checks)
  obtain u rnd us ps ns m where x: "x = (u, rnd, us, ps, ns, m)" by (cases x)
  let ?s = "s\<lparr>dd_accounts := us, dd_prefs := ps, dd_notes := ns, dd_mails := m\<rparr>"
  obtain out s1 where out: "handle_hourly_check c u rnd ?s = (out, s1)" by fastforce
  have "digests_ok t sent ?s" using Cons.prems(1) by (simp add: digests_ok_def last_period_def)
  then have "digests_ok u (sent @ map (\<lambda>(w, uid). (w, uid, u)) out) s1"
    using Cons.prems(2,3) x out by (intro hourly_ok [of t]) simp_all
  from Cons.IH [OF this] show ?case using Cons.prems(2,3) x out by simp
qed

section \<open>Properties\<close>

text \<open>
  C26: no user gets two digests of one kind for the same day or the same week, whatever the hour the
  checks run at, however often they run, and whatever changes in the other tables in between.
\<close>

theorem one_digest_per_period:
  assumes "sorted (map fst checks)" and "list_all (before_10000 \<circ> fst) checks"
  shows "distinct (map (\<lambda>(w, uid, x). (w, uid, period_no w x))
    (digest_checks c checks \<lparr>dd_accounts = [], dd_prefs = [], dd_notes = [], dd_states = [], dd_mails = m\<rparr>))"
proof (cases checks)
  case (Cons x rest)
  have "digests_ok (fst x) [] \<lparr>dd_accounts = [], dd_prefs = [], dd_notes = [], dd_states = [], dd_mails = m\<rparr>"
    by (simp add: digests_ok_def)
  from checks_ok [OF this _ assms(2)] show ?thesis using assms(1) Cons by simp
qed simp

text \<open>
  In no minute are more mails handed over than the limit allows, with the check of the limit and
  the end of a delivery at different instants.
\<close>

theorem mails_per_minute:
  assumes "mail_run (Fin (of_nat n)) t m sent"
  shows "sent_between (x - 60000) x sent \<le> n"
proof -
  have "sent_between (x - 60000) x sent \<noteq> 0 \<Longrightarrow>
      below_limit (sent_between (x - 60000) x sent - 1) (Fin (of_nat n))"
    using mail_run_ok [OF assms] unfolding mail_ok_def by blast
  then show ?thesis by (cases "sent_between (x - 60000) x sent") simp_all
qed

text \<open>
  No text of a context adds markup to a mail: the angle brackets and quotes of its HTML are those
  of the template, the same for any two contexts with the same number of items.
\<close>

theorem contexts_add_no_markup:
  assumes "length (ec_items c) = length (ec_items c')"
  shows "filter markup (et_html (render_email_template tpl c)) = filter markup (et_html (render_email_template tpl c'))"
  unfolding render_email_template_def email_text.select_convs
  by (rule wrap_markup) (rule body_markup [OF assms])

section \<open>Samples\<close>

definition sample_mail_user :: user where
  "sample_mail_user = (new_account ''u1'' 0 ''GA'')\<lparr>email := Some ''a@b.c''\<rparr>"

definition sample_mail_prefs :: user_preferences where
  "sample_mail_prefs = (default_preferences ''u1'')\<lparr>digest_frequency := DigestDaily\<rparr>"

definition sample_note_row :: notification_row where
  "sample_note_row = \<lparr>nr_id = 1, nr_address = ''GA'', nr_type = ''match_added'', nr_title = ''T'', nr_message = ''<M>'',
     nr_data = None, nr_read = False, nr_created_at = 5, nr_deleted_at = None\<rparr>"

definition no_mails :: mailer where
  "no_mails = \<lparr>mail_queue = [], sent_stamps = [], under_way = None\<rparr>"

text \<open>A check at midnight of the first day of 1970, and again a minute later.\<close>

definition sample_checks ::
  "(timestamp \<times> string \<times> user list \<times> user_preferences list \<times> notification_row list \<times> mailer) list" where
  "sample_checks =
     [(10, ''r'', [sample_mail_user], [sample_mail_prefs], [sample_note_row], no_mails),
      (60010, ''r'', [sample_mail_user], [sample_mail_prefs], [sample_note_row], no_mails)]"

definition midnight_config :: digest_config where
  "midnight_config = \<lparr>dc_enabled = None, dc_hour = Some ''0'', dc_weekday = None\<rparr>"

definition digest_start :: digest_db where
  "digest_start = \<lparr>dd_accounts = [], dd_prefs = [], dd_notes = [], dd_states = [], dd_mails = no_mails\<rparr>"

lemma first_day: "year_day 1970 (day_of 10) = (1970, 0)" "year_day 1970 (day_of 60010) = (1970, 0)"
  by (simp_all add: day_of_def day_ms_def year_day.simps)

lemma first_key: "daily_period_key 10 = daily_period_key 60010"
  by (simp add: daily_period_key_def first_day)

lemma sample_digests: "digest_checks midnight_config sample_checks digest_start = [(False, ''u1'', 10)]"
proof -
  have hour: "parse_int ''0'' = Some 0" "parse_int ''1'' = Some 1" by code_simp+
  have days: "utc_hours 10 = 0" "utc_hours 60010 = 0" "utc_day 10 = 4" "utc_day 60010 = 4"
    by (simp_all add: utc_hours_def utc_day_def day_of_def day_ms_def)
  show ?thesis
    by (simp add: sample_checks_def midnight_config_def digest_start_def handle_hourly_check_def field_or_def hour days
        send_daily_digests_def run_digests_def process_user_digest_def sample_mail_user_def sample_mail_prefs_def
        sample_note_row_def default_preferences_def new_account_def live_by_id_def live_def note_live_def nonempty_def
        last_period_def save_period_def Let_def first_key day_ms_def)
qed

theorem one_digest_per_period_witness:
  "length (digest_checks midnight_config sample_checks digest_start) = 1 \<and>
    distinct (map (\<lambda>(w, uid, x). (w, uid, period_no w x)) (digest_checks midnight_config sample_checks digest_start))"
proof -
  have "sorted (map fst sample_checks)" "list_all (before_10000 \<circ> fst) sample_checks"
    by (simp_all add: sample_checks_def before_10000_def first_day)
  from one_digest_per_period [OF this, of midnight_config no_mails]
  show ?thesis by (simp add: sample_digests digest_start_def [symmetric])
qed

theorem mails_per_minute_witness:
  "let e = \<lparr>qe_id = ''1'', qe_to = ''a@b.c'', qe_text = \<lparr>et_subject = ''S'', et_html = [], et_text = []\<rparr>,
        qe_user = None, qe_at = 0\<rparr>;
       m = end_delivery True 7 (begin_delivery (Fin (of_nat 1)) 5 (no_mails\<lparr>mail_queue := mail_queue no_mails @ [e]\<rparr>))
   in sent_stamps m = [7] \<and> sent_between (1000 - 60000) 1000 [7] \<le> 1"
proof -
  let ?e = "\<lparr>qe_id = ''1'', qe_to = ''a@b.c'', qe_text = \<lparr>et_subject = ''S'', et_html = [], et_text = []\<rparr>,
        qe_user = None, qe_at = 0\<rparr>"
  let ?m1 = "begin_delivery (Fin (of_nat 1)) 5 (no_mails\<lparr>mail_queue := mail_queue no_mails @ [?e]\<rparr>)"
  have m1: "?m1 = \<lparr>mail_queue = [], sent_stamps = [], under_way = Some ?e\<rparr>"
    by (simp add: begin_delivery_def can_send_more_def no_mails_def Let_def)
  have "mail_run (Fin (of_nat 1)) 0 no_mails []" unfolding no_mails_def by (rule mail_boot)
  from mail_tick [OF mail_queued [OF this, of ?e], of 5]
  have "mail_run (Fin (of_nat 1)) 5 ?m1 []" by simp
  from mail_sent [OF this, of 7] have run: "mail_run (Fin (of_nat 1)) 7 (end_delivery True 7 ?m1) [7]"
    unfolding m1 by simp
  have "sent_stamps (end_delivery True 7 ?m1) = [7]" unfolding m1 by (simp add: end_delivery_def)
  with mails_per_minute [OF run, of 1000] show ?thesis unfolding Let_def by blast
qed

theorem contexts_add_no_markup_witness:
  "let c = (\<lambda>x. \<lparr>ec_event_title = Some x, ec_home = None, ec_away = None, ec_result = None, ec_invite = None,
        ec_weekly = False, ec_items = [], ec_period = None\<rparr>)
   in email_subject TplEventWon (c ''<b>'') \<noteq> email_subject TplEventWon (c []) \<and>
      filter markup (et_html (render_email_template TplEventWon (c ''<b>''))) =
      filter markup (et_html (render_email_template TplEventWon (c [])))"
proof -
  have "filter markup (et_html (render_email_template TplEventWon c)) =
      filter markup (et_html (render_email_template TplEventWon c'))" if "ec_items c = []" "ec_items c' = []" for c c'
    using that by (intro contexts_add_no_markup) simp
  then show ?thesis by (simp add: Let_def email_subject_def field_or_def)
qed

end
