(* ===== verification/Analytics.thy ===== *)
theory Analytics
  imports Leaderboard Predictions Samples
begin

text \<open>
  Figures for users and markets (\<open>backend/src/analytics/analytics.service.ts\<close>): the dashboard, outcome
  distributions and snapshots of a market, trends of a user, and totals per category.
\<close>

section \<open>Grouping\<close>

text \<open>A JavaScript \<open>Map\<close> filled by \<open>map.set(k, f(map.get(k) || d))\<close>.\<close>

definition bump :: "'v \<Rightarrow> ('v \<Rightarrow> 'v) \<Rightarrow> 'k \<Rightarrow> ('k \<times> 'v) list \<Rightarrow> ('k \<times> 'v) list" where
  "bump d f k m = save_row fst (k, f (case by_id fst k m of None \<Rightarrow> d | Some b \<Rightarrow> snd b)) m"

lemma keyed_bump [simp]: "keyed fst m \<Longrightarrow> keyed fst (bump d f k m)"
  by (simp add: bump_def keyed_save_row)

lemma keys_bump: "fst ` set (bump d f k m) = insert k (fst ` set m)"
  using keys_save_row [of fst "(k, f (case by_id fst k m of None \<Rightarrow> d | Some b \<Rightarrow> snd b))" m]
  by (simp add: bump_def)

lemma keyed_fold_bump: "keyed fst m \<Longrightarrow> keyed fst (fold (\<lambda>x. bump d (f x) (k x)) xs m)"
  by (induction xs arbitrary: m) simp_all

lemma keys_fold_bump: "fst ` set (fold (\<lambda>x. bump d (f x) (k x)) xs m) = fst ` set m \<union> k ` set xs"
proof (induction xs arbitrary: m)
  case (Cons x xs)
  then show ?case using keys_bump [of d "f x" "k x" m] by auto
qed simp

lemma sum_save_row:
  "keyed fst m \<Longrightarrow> sum_list (map (\<lambda>e. g (snd e)) (save_row fst (k, v) m)) + (case by_id fst k m of None \<Rightarrow> 0 | Some b \<Rightarrow> g (snd b))
    = sum_list (map (\<lambda>e. g (snd e)) m) + (g v :: int)"
  by (induction m) (auto simp: keyed_def)

text \<open>A measure that every step raises by the weight of its item, summed over the groups.\<close>

lemma sum_bump:
  fixes g :: "'v \<Rightarrow> int"
  assumes "keyed fst m" and "g d = 0" and "\<And>v. g (f v) = g v + w"
  shows "sum_list (map (\<lambda>e. g (snd e)) (bump d f k m)) = sum_list (map (\<lambda>e. g (snd e)) m) + w"
proof -
  let ?v = "case by_id fst k m of None \<Rightarrow> d | Some b \<Rightarrow> snd b"
  have "g ?v = (case by_id fst k m of None \<Rightarrow> 0 | Some b \<Rightarrow> g (snd b))" by (simp add: assms(2) split: option.split)
  then show ?thesis using sum_save_row [OF assms(1), of g k "f ?v"] assms(3) [of ?v] by (simp add: bump_def)
qed

lemma sum_fold_bump:
  fixes g :: "'v \<Rightarrow> int"
  assumes "keyed fst m" and "g d = 0" and "\<And>x v. g (f x v) = g v + w x"
  shows "sum_list (map (\<lambda>e. g (snd e)) (fold (\<lambda>x. bump d (f x) (k x)) xs m)) =
    sum_list (map (\<lambda>e. g (snd e)) m) + sum_list (map w xs)"
  using assms(1)
proof (induction xs arbitrary: m)
  case (Cons x xs)
  then show ?case using sum_bump [where g = g and m = m and d = d and f = "f x" and w = "w x" and k = "k x"] assms(2,3) by simp
qed simp

lemma by_id_bump:
  "by_id fst j (bump d f k m) =
    (if j = k then Some (k, f (case by_id fst k m of None \<Rightarrow> d | Some b \<Rightarrow> snd b)) else by_id fst j m)"
  by (simp add: bump_def by_id_save_row)

section \<open>Users\<close>

definition predictor_tier :: "int \<Rightarrow> string" where
  "predictor_tier n =
     (if n < 200 then ''Bronze Predictor'' else if n < 500 then ''Silver Predictor''
      else if n < 1000 then ''Gold Predictor'' else ''Platinum Predictor'')"

definition accuracy_rate_of_user :: "user \<Rightarrow> string" where
  "accuracy_rate_of_user u =
     (if total_predictions u \<le> 0 then ''0.0''
      else to_fixed 1 (of_int (correct_predictions u) / of_int (total_predictions u) * 100))"

record dashboard_kpis =
  kp_total :: int
  kp_accuracy :: string
  kp_rank :: int
  kp_rewards :: stroops
  kp_active :: nat
  kp_streak :: nat
  kp_reputation :: int
  kp_tier :: string

definition correct_in :: "prediction \<times> market \<Rightarrow> bool" where
  "correct_in pm \<longleftrightarrow> resolved_outcome (snd pm) = Some (chosen_outcome (fst pm))"

text \<open>An empty outcome ends the streak as a missing one does.\<close>

fun win_streak :: "(prediction \<times> market) list \<Rightarrow> nat" where
  "win_streak [] = 0"
| "win_streak ((p, m) # rows) =
     (case nonempty (resolved_outcome m) of
        None \<Rightarrow> 0
      | Some x \<Rightarrow> if chosen_outcome p = x then Suc (win_streak rows) else 0)"

definition get_dashboard_kpis ::
  "(uuid \<Rightarrow> timestamp) \<Rightarrow> uuid \<Rightarrow> leaderboard_entry list \<Rightarrow> db \<Rightarrow> dashboard_kpis result" where
  "get_dashboard_kpis updated uid board s =
     (case by_id u_id uid (users s) of
        None \<Rightarrow> Inl (NotFound ''User not found'')
      | Some u \<Rightarrow>
          (let mine = sort_desc (\<lambda>x. updated (le_id x)) (filter (\<lambda>x. le_user x = uid \<and> le_season x = None) board);
               rows = with_market s (filter (\<lambda>p. p_user p = uid) (predictions s));
               done_rows = sort_desc (\<lambda>pm. resolution_time (snd pm)) (sort_desc (\<lambda>pm. submitted_at (fst pm))
                 (filter (\<lambda>pm. is_resolved (snd pm) \<and> \<not> m_cancelled (snd pm)) rows))
           in Inr \<lparr>kp_total = total_predictions u, kp_accuracy = accuracy_rate_of_user u,
                   kp_rank = (case mine of [] \<Rightarrow> 0 | x # _ \<Rightarrow> le_rank x),
                   kp_rewards = total_winnings_stroops u,
                   kp_active = length (filter (\<lambda>pm. \<not> is_resolved (snd pm) \<and> \<not> m_cancelled (snd pm)) rows),
                   kp_streak = win_streak done_rows, kp_reputation = reputation_score u,
                   kp_tier = predictor_tier (reputation_score u)\<rparr>))"

section \<open>Markets\<close>

record outcome_slice =
  oh_outcome :: string
  oh_count :: nat
  oh_percentage :: rat

definition outcome_counts :: "market \<Rightarrow> prediction list \<Rightarrow> (string \<times> nat) list" where
  "outcome_counts m ps =
     fold (\<lambda>p. bump 0 Suc (chosen_outcome p)) ps (fold (\<lambda>x. save_row fst (x, 0)) (outcome_options m) [])"

definition outcome_distribution :: "market \<Rightarrow> prediction list \<Rightarrow> outcome_slice list" where
  "outcome_distribution m ps =
     map (\<lambda>(x, n). \<lparr>oh_outcome = x, oh_count = n,
        oh_percentage = (if ps = [] then 0 else round2 (of_nat n / of_nat (length ps) * 100))\<rparr>)
       (outcome_counts m ps)"

record market_analytics =
  an_market :: uuid
  an_pool :: stroops
  an_participants :: int
  an_outcomes :: "outcome_slice list"
  an_seconds :: int

definition market_by_either_id :: "string \<Rightarrow> db \<Rightarrow> market option" where
  "market_by_either_id k s = find_one (\<lambda>m. m_id m = k \<or> on_chain_market_id m = k) (markets s)"

definition predictions_on :: "market \<Rightarrow> db \<Rightarrow> prediction list" where
  "predictions_on m s = filter (\<lambda>p. p_market p = m_id m) (predictions s)"

definition no_market :: "string \<Rightarrow> http_error" where
  "no_market k = NotFound (''Market '' @ quoted k @ '' not found'')"

definition get_market_analytics :: "timestamp \<Rightarrow> string \<Rightarrow> db \<Rightarrow> market_analytics result" where
  "get_market_analytics t k s =
     (case market_by_either_id k s of
        None \<Rightarrow> Inl (no_market k)
      | Some m \<Rightarrow>
          Inr \<lparr>an_market = m_id m, an_pool = total_pool_stroops m, an_participants = participant_count m,
               an_outcomes = outcome_distribution m (predictions_on m s),
               an_seconds = max 0 ((m_end_time m - t) div 1000)\<rparr>)"

record market_snapshot =
  sn_market :: uuid
  sn_at :: timestamp
  sn_volume :: nat
  sn_pool :: stroops
  sn_participants :: int
  sn_shares :: "string list option"

definition record_market_snapshot :: "timestamp \<Rightarrow> market \<Rightarrow> db \<Rightarrow> market_snapshot list \<Rightarrow> market_snapshot list" where
  "record_market_snapshot t m s hist =
     (let ps = predictions_on m s in
      hist @ [\<lparr>sn_market = m_id m, sn_at = t, sn_volume = length ps, sn_pool = total_pool_stroops m,
               sn_participants = participant_count m,
               sn_shares = Some (map (\<lambda>(x, n). if ps \<noteq> [] then to_fixed 2 (of_nat n / of_nat (length ps) * 100)
                                                else ''0.00'') (outcome_counts m ps))\<rparr>])"

text \<open>The interval is read and ignored; without a start the last seven days are shown.\<close>

definition get_market_history ::
  "timestamp \<Rightarrow> string \<Rightarrow> timestamp option \<Rightarrow> timestamp option \<Rightarrow> db \<Rightarrow> market_snapshot list
    \<Rightarrow> (market \<times> market_snapshot list) result" where
  "get_market_history t k start stop s hist =
     (case market_by_either_id k s of
        None \<Rightarrow> Inl (no_market k)
      | Some m \<Rightarrow>
          (let from_t = (case start of None \<Rightarrow> t - 7 * 24 * 60 * 60 * 1000 | Some a \<Rightarrow> a) in
           Inr (m, sort_desc (\<lambda>x. - sn_at x) (filter (\<lambda>x. sn_market x = m_id m \<and> from_t \<le> sn_at x \<and>
             (case stop of None \<Rightarrow> True | Some b \<Rightarrow> sn_at x \<le> b)) hist))))"

section \<open>Trends\<close>

type_synonym 'v trend = "(timestamp \<times> 'v) list"

definition percent2 :: "int \<Rightarrow> int \<Rightarrow> rat" where
  "percent2 a n = of_int (math_round (of_int a / of_int n * 10000)) / 100"

fun accuracy_trend :: "int \<Rightarrow> int \<Rightarrow> (prediction \<times> market) list \<Rightarrow> rat trend" where
  "accuracy_trend good n [] = []"
| "accuracy_trend good n ((p, m) # rows) =
     (if is_resolved m
      then (let g = (if correct_in (p, m) then good + 1 else good) in
            (submitted_at p, percent2 g (n + 1)) # accuracy_trend g (n + 1) rows)
      else accuracy_trend good n rows)"

fun volume_trend :: "int \<Rightarrow> (prediction \<times> market) list \<Rightarrow> int trend" where
  "volume_trend n [] = []"
| "volume_trend n ((p, m) # rows) = (submitted_at p, n + 1) # volume_trend (n + 1) rows"

definition profit_of :: "prediction \<Rightarrow> stroops" where
  "profit_of p = payout_amount_stroops p - stake_amount_stroops p"

fun profit_trend :: "stroops \<Rightarrow> (prediction \<times> market) list \<Rightarrow> stroops trend" where
  "profit_trend pnl [] = []"
| "profit_trend pnl ((p, m) # rows) =
     (if is_resolved m
      then (submitted_at p, pnl + profit_of p) # profit_trend (pnl + profit_of p) rows
      else profit_trend pnl rows)"

record category_tally =
  ta_correct :: int
  ta_total :: int
  ta_pnl :: stroops

record category_performance =
  ca_category :: string
  ca_accuracy :: rat
  ca_count :: int
  ca_pnl :: stroops

definition no_tally :: category_tally where
  "no_tally = \<lparr>ta_correct = 0, ta_total = 0, ta_pnl = 0\<rparr>"

definition tally_step :: "prediction \<times> market \<Rightarrow> category_tally \<Rightarrow> category_tally" where
  "tally_step pm c =
     (if is_resolved (snd pm)
      then \<lparr>ta_correct = ta_correct c + (if correct_in pm then 1 else 0), ta_total = ta_total c + 1,
            ta_pnl = ta_pnl c + profit_of (fst pm)\<rparr>
      else c)"

definition category_name :: "string \<Rightarrow> string" where
  "category_name c = (if c = [] then ''Unknown'' else c)"

definition category_tallies :: "(prediction \<times> market) list \<Rightarrow> (string \<times> category_tally) list" where
  "category_tallies rows =
     fold (\<lambda>pm. bump no_tally (tally_step pm) (category_name (m_category (snd pm)))) rows []"

definition performance_of :: "string \<times> category_tally \<Rightarrow> category_performance" where
  "performance_of e =
     (let c = snd e in
      \<lparr>ca_category = fst e, ca_accuracy = (if ta_total c > 0 then percent2 (ta_correct c) (ta_total c) else 0),
       ca_count = ta_total c, ca_pnl = ta_pnl c\<rparr>)"

definition category_performances :: "(prediction \<times> market) list \<Rightarrow> category_performance list" where
  "category_performances rows = map performance_of (category_tallies rows)"

text \<open>\<open>reduce\<close> without a start value: an empty list is a \<open>TypeError\<close>.\<close>

definition reduce_cats ::
  "(category_performance \<Rightarrow> category_performance \<Rightarrow> bool) \<Rightarrow> category_performance list \<Rightarrow> category_performance result" where
  "reduce_cats better cs =
     (case cs of
        [] \<Rightarrow> Inl (InternalError ''TypeError'')
      | c # rest \<Rightarrow> Inr (fold (\<lambda>x best. if better x best then x else best) rest c))"

record user_trends =
  tr_address :: string
  tr_accuracy :: "rat trend"
  tr_volume :: "int trend"
  tr_profit :: "stroops trend"
  tr_categories :: "category_performance list"
  tr_best :: category_performance
  tr_worst :: category_performance

text \<open>\<open>days || 30\<close>, kept between 1 and 90.\<close>

definition valid_days :: "int option \<Rightarrow> int" where
  "valid_days days =
     (let d = (case days of None \<Rightarrow> 30 | Some n \<Rightarrow> if n = 0 then 30 else n) in min (max d 1) 90)"

definition recent_rows :: "timestamp \<Rightarrow> int option \<Rightarrow> uuid \<Rightarrow> db \<Rightarrow> (prediction \<times> market) list" where
  "recent_rows t days uid s =
     filter (\<lambda>pm. submitted_at (fst pm) \<ge> t - valid_days days * (24 * 60 * 60 * 1000))
       (with_market s (sort_desc (\<lambda>p. - submitted_at p) (filter (\<lambda>p. p_user p = uid) (predictions s))))"

definition get_user_trends :: "timestamp \<Rightarrow> string \<Rightarrow> int option \<Rightarrow> db \<Rightarrow> user_trends result" where
  "get_user_trends t address days s =
     (case find_one (\<lambda>u. stellar_address u = address) (users s) of
        None \<Rightarrow> Inl (NotFound (''User with address '' @ address @ '' not found''))
      | Some u \<Rightarrow>
          (let rows = recent_rows t days (u_id u) s; cats = category_performances rows in
           case reduce_cats (\<lambda>x best. ca_accuracy x > ca_accuracy best) cats of
             Inl e \<Rightarrow> Inl e
           | Inr best \<Rightarrow>
               (case reduce_cats (\<lambda>x worst. ca_accuracy x < ca_accuracy worst) cats of
                  Inl e \<Rightarrow> Inl e
                | Inr worst \<Rightarrow>
                    Inr \<lparr>tr_address = address, tr_accuracy = accuracy_trend 0 0 rows,
                         tr_volume = volume_trend 0 rows, tr_profit = profit_trend 0 rows,
                         tr_categories = cats, tr_best = best, tr_worst = worst\<rparr>)))"

section \<open>Totals\<close>

record category_stats =
  cs_total :: int
  cs_active :: int
  cs_volume :: stroops
  cs_participants :: "int list"

record category_summary =
  cy_name :: string
  cy_total :: int
  cy_active :: int
  cy_volume :: stroops
  cy_average :: int
  cy_trending :: bool

definition no_stats :: category_stats where
  "no_stats = \<lparr>cs_total = 0, cs_active = 0, cs_volume = 0, cs_participants = []\<rparr>"

definition is_active_market :: "market \<Rightarrow> bool" where
  "is_active_market m \<longleftrightarrow> \<not> is_resolved m \<and> \<not> m_cancelled m"

definition stats_step :: "market \<Rightarrow> category_stats \<Rightarrow> category_stats" where
  "stats_step m c =
     \<lparr>cs_total = cs_total c + 1, cs_active = cs_active c + (if is_active_market m then 1 else 0),
      cs_volume = cs_volume c + total_pool_stroops m,
      cs_participants = cs_participants c @ [participant_count m]\<rparr>"

definition is_category_trending :: "int \<Rightarrow> int \<Rightarrow> bool" where
  "is_category_trending active n \<longleftrightarrow> n \<noteq> 0 \<and> (of_int active / of_int n :: rat) > 1 / 2"

definition summary_of :: "string \<times> category_stats \<Rightarrow> category_summary" where
  "summary_of e =
     (let c = snd e; ps = cs_participants c in
      \<lparr>cy_name = fst e, cy_total = cs_total c, cy_active = cs_active c, cy_volume = cs_volume c,
       cy_average = (if ps = [] then 0 else math_round (of_int (sum_list ps) / of_nat (length ps))),
       cy_trending = is_category_trending (cs_active c) (cs_total c)\<rparr>)"

definition get_category_analytics :: "db \<Rightarrow> category_summary list" where
  "get_category_analytics s =
     sort_desc cy_volume (map summary_of
       (fold (\<lambda>m. bump no_stats (stats_step m) (category_name (m_category m))) (markets s) []))"

record platform_stats =
  pf_markets :: nat
  pf_predictions :: nat
  pf_volume :: stroops
  pf_users :: nat
  pf_active_markets :: nat

definition get_platform_stats :: "db \<Rightarrow> platform_stats" where
  "get_platform_stats s =
     \<lparr>pf_markets = length (markets s), pf_predictions = length (predictions s),
      pf_volume = sum_list (map total_pool_stroops (markets s)), pf_users = length (users s),
      pf_active_markets = count_rows is_active_market (markets s)\<rparr>"

section \<open>Sums\<close>

lemma sum_sort_desc: "sum_list (map f (sort_desc g xs)) = (sum_list (map f xs) :: int)"
proof -
  have "sum_list (map f (sort_desc g xs)) = sum_mset (image_mset f (mset (sort_desc g xs)))"
    by (metis mset_map sum_mset_sum_list)
  also have "\<dots> = sum_list (map f xs)" unfolding mset_sort_desc by (metis mset_map sum_mset_sum_list)
  finally show ?thesis .
qed

text \<open>The counts of the outcomes, those not offered included, are the predictions.\<close>

lemma keyed_fold_save: "keyed fst m \<Longrightarrow> keyed fst (fold (\<lambda>x. save_row fst (x, v)) xs m)"
  by (induction xs arbitrary: m) (simp_all add: keyed_save_row)

lemma sum_fold_zero:
  "keyed fst m \<Longrightarrow> list_all (\<lambda>e. snd e = (0 :: nat)) m \<Longrightarrow>
    list_all (\<lambda>e. snd e = 0) (fold (\<lambda>x. save_row fst (x, 0)) xs m)"
  by (induction xs arbitrary: m) (simp_all add: keyed_save_row list_all_save_row)

lemma sum_list_all_0: "list_all (\<lambda>e. snd e = (0 :: nat)) xs \<Longrightarrow> sum_list (map (\<lambda>e. int (snd e)) xs) = 0"
  by (induction xs) simp_all

lemma outcome_counts_total: "sum_list (map (\<lambda>e. int (snd e)) (outcome_counts m ps)) = int (length ps)"
proof -
  let ?m0 = "fold (\<lambda>x. save_row fst (x, 0 :: nat)) (outcome_options m) []"
  have k: "keyed fst ?m0" by (rule keyed_fold_save) (simp add: keyed_def)
  have "list_all (\<lambda>e. snd e = 0) ?m0" by (rule sum_fold_zero) (simp_all add: keyed_def)
  then have "sum_list (map (\<lambda>e. int (snd e)) ?m0) = 0" by (intro sum_list_all_0) simp
  moreover have "sum_list (map (\<lambda>p. 1) ps) = int (length ps)" by (induction ps) simp_all
  ultimately show ?thesis
    using sum_fold_bump [OF k, of int 0 "\<lambda>p. Suc" "\<lambda>p. 1" chosen_outcome ps] by (simp add: outcome_counts_def)
qed

lemma tally_keyed: "keyed fst (category_tallies rows)"
  unfolding category_tallies_def by (rule keyed_fold_bump) (simp add: keyed_def)

lemma tallies_sum:
  fixes g :: "category_tally \<Rightarrow> int"
  assumes "g no_tally = 0" and "\<And>pm v. g (tally_step pm v) = g v + w pm"
  shows "sum_list (map (\<lambda>e. g (snd e)) (category_tallies rows)) = sum_list (map w rows)"
  using sum_fold_bump [where m = "[]" and k = "\<lambda>pm. category_name (m_category (snd pm))" and xs = rows, OF _ assms]
  by (simp add: category_tallies_def keyed_def)

lemma profit_trend_last:
  "(if profit_trend pnl rows = [] then pnl else snd (last (profit_trend pnl rows))) =
    pnl + sum_list (map (\<lambda>pm. if is_resolved (snd pm) then profit_of (fst pm) else 0) rows)"
  by (induction pnl rows rule: profit_trend.induct) (auto split: if_splits)

lemma accuracy_trend_length:
  "int (length (accuracy_trend good n rows)) = sum_list (map (\<lambda>pm. if is_resolved (snd pm) then 1 else 0) rows)"
  by (induction good n rows rule: accuracy_trend.induct) (auto simp: Let_def)

lemma accuracy_trend_last:
  "accuracy_trend good n rows \<noteq> [] \<Longrightarrow> snd (last (accuracy_trend good n rows)) =
    percent2 (good + sum_list (map (\<lambda>pm. if is_resolved (snd pm) \<and> correct_in pm then 1 else 0) rows))
      (n + sum_list (map (\<lambda>pm. if is_resolved (snd pm) then 1 else 0) rows))"
proof (induction good n rows rule: accuracy_trend.induct)
  case (2 good n p m rows)
  have empty: "sum_list (map (\<lambda>pm. if is_resolved (snd pm) then 1 else 0) rows) = (0 :: int)"
    "sum_list (map (\<lambda>pm. if is_resolved (snd pm) \<and> correct_in pm then 1 else 0) rows) = (0 :: int)"
    if "accuracy_trend g k rows = []" for g k
  proof -
    have none: "\<not> is_resolved (snd pm)" if "pm \<in> set rows" for pm
      using \<open>accuracy_trend g k rows = []\<close> that
      by (induction g k rows rule: accuracy_trend.induct) (auto simp: Let_def split: if_splits)
    show "sum_list (map (\<lambda>pm. if is_resolved (snd pm) then 1 else 0) rows) = (0 :: int)"
      "sum_list (map (\<lambda>pm. if is_resolved (snd pm) \<and> correct_in pm then 1 else 0) rows) = (0 :: int)"
      using none by (simp_all cong: map_cong)
  qed
  show ?case
  proof (cases "is_resolved m")
    case False
    then show ?thesis using 2 by simp
  next
    case True
    let ?g = "if correct_in (p, m) then good + 1 else good"
    show ?thesis
    proof (cases "accuracy_trend ?g (n + 1) rows = []")
      case empty_rest: True
      then show ?thesis using True empty [OF empty_rest] by (simp add: Let_def)
    next
      case False
      then show ?thesis using True "2.IH"(1) [OF True refl False] by (simp add: Let_def algebra_simps)
    qed
  qed
qed simp

section \<open>Properties\<close>

text \<open>
  The parts of a user's trends agree: the profit and loss of the categories adds up to the end of
  the profit trend, their resolved predictions to the points of the accuracy trend, and no category is
  listed twice.
\<close>

theorem trends_agree:
  assumes "get_user_trends t address days s = Inr r"
  shows "sum_list (map ca_pnl (tr_categories r)) = (if tr_profit r = [] then 0 else snd (last (tr_profit r))) \<and>
    sum_list (map ca_count (tr_categories r)) = int (length (tr_accuracy r)) \<and>
    distinct (map ca_category (tr_categories r)) \<and> tr_categories r \<noteq> []"
proof -
  obtain u where u: "find_one (\<lambda>u. stellar_address u = address) (users s) = Some u"
    using assms by (auto simp: get_user_trends_def split: option.splits)
  let ?rows = "recent_rows t days (u_id u) s"
  have r: "tr_categories r = category_performances ?rows \<and> tr_profit r = profit_trend 0 ?rows \<and>
    tr_accuracy r = accuracy_trend 0 0 ?rows \<and> category_performances ?rows \<noteq> []"
    using assms u by (cases "category_performances ?rows") (auto simp: get_user_trends_def Let_def reduce_cats_def)
  have pnl: "sum_list (map ca_pnl (category_performances ?rows)) = sum_list (map (\<lambda>e. ta_pnl (snd e)) (category_tallies ?rows))"
    and count: "sum_list (map ca_count (category_performances ?rows)) = sum_list (map (\<lambda>e. ta_total (snd e)) (category_tallies ?rows))"
    and names: "map ca_category (category_performances ?rows) = map fst (category_tallies ?rows)"
    by (simp_all add: category_performances_def comp_def performance_of_def Let_def)
  have 1: "sum_list (map (\<lambda>e. ta_pnl (snd e)) (category_tallies ?rows)) =
      sum_list (map (\<lambda>pm. if is_resolved (snd pm) then profit_of (fst pm) else 0) ?rows)"
    by (rule tallies_sum) (simp_all add: no_tally_def tally_step_def)
  have 2: "sum_list (map (\<lambda>e. ta_total (snd e)) (category_tallies ?rows)) =
      sum_list (map (\<lambda>pm. if is_resolved (snd pm) then 1 else 0) ?rows)"
    by (rule tallies_sum) (simp_all add: no_tally_def tally_step_def)
  have 3: "distinct (map fst (category_tallies ?rows))" using tally_keyed [of ?rows] by (simp add: keyed_def)
  have "sum_list (map ca_pnl (category_performances ?rows)) =
      (if profit_trend 0 ?rows = [] then 0 else snd (last (profit_trend 0 ?rows)))"
    unfolding pnl 1 using profit_trend_last [of 0 ?rows] by (simp only: add_0)
  moreover have "sum_list (map ca_count (category_performances ?rows)) = int (length (accuracy_trend 0 0 ?rows))"
    unfolding count 2 accuracy_trend_length ..
  ultimately show ?thesis using r names 3 by (simp only: simp_thms)
qed

text \<open>
  The trends of a user exist exactly when the user has a prediction in the window: without one
  the request ends in an internal error.
\<close>

theorem trends_need_a_prediction:
  assumes "find_one (\<lambda>u. stellar_address u = address) (users s) = Some u"
  shows "(case get_user_trends t address days s of
      Inr r \<Rightarrow> recent_rows t days (u_id u) s \<noteq> [] \<and> tr_volume r \<noteq> []
    | Inl e \<Rightarrow> recent_rows t days (u_id u) s = [] \<and> http_status e = 500)"
proof -
  let ?rows = "recent_rows t days (u_id u) s"
  have "category_performances ?rows = [] \<longleftrightarrow> ?rows = []"
  proof -
    have "fst ` set (category_tallies ?rows) = (\<lambda>pm. category_name (m_category (snd pm))) ` set ?rows"
      unfolding category_tallies_def keys_fold_bump by simp
    then show ?thesis unfolding category_performances_def by (metis image_is_empty map_is_Nil_conv set_empty)
  qed
  moreover have "volume_trend 0 ?rows = [] \<longleftrightarrow> ?rows = []" by (cases ?rows) auto
  ultimately show ?thesis
    using assms by (auto simp: get_user_trends_def Let_def reduce_cats_def split: list.split)
qed

text \<open>
  The categories partition the markets: their markets, their active markets and their volumes add up
  to the figures of the platform, no category is listed twice, and the largest volume comes first.
\<close>

theorem categories_partition_markets:
  "let cs = get_category_analytics s; p = get_platform_stats s in
     sum_list (map cy_total cs) = int (pf_markets p) \<and> sum_list (map cy_active cs) = int (pf_active_markets p) \<and>
     sum_list (map cy_volume cs) = pf_volume p \<and> distinct (map cy_name cs) \<and>
     sorted_wrt (\<lambda>a b. cy_volume a \<ge> cy_volume b) cs"
proof -
  let ?g = "fold (\<lambda>m. bump no_stats (stats_step m) (category_name (m_category m))) (markets s) []"
  have total: "sum_list (map (\<lambda>e. g (snd e)) ?g) = sum_list (map w (markets s))"
    if "g no_stats = 0" "\<And>m v. g (stats_step m v) = g v + w m" for g :: "category_stats \<Rightarrow> int" and w
    using sum_fold_bump [where m = "[]" and k = "\<lambda>m. category_name (m_category m)" and xs = "markets s", OF _ that] by (simp add: keyed_def)
  have 1: "sum_list (map (\<lambda>e. cs_total (snd e)) ?g) = sum_list (map (\<lambda>m. 1) (markets s))"
    by (rule total) (simp_all add: no_stats_def stats_step_def)
  have 2: "sum_list (map (\<lambda>e. cs_active (snd e)) ?g) = sum_list (map (\<lambda>m. if is_active_market m then 1 else 0) (markets s))"
    by (rule total) (simp_all add: no_stats_def stats_step_def)
  have 3: "sum_list (map (\<lambda>e. cs_volume (snd e)) ?g) = sum_list (map total_pool_stroops (markets s))"
    by (rule total) (simp_all add: no_stats_def stats_step_def)
  have ones: "sum_list (map (\<lambda>m. 1) ms) = int (length ms)"
    "sum_list (map (\<lambda>m. if is_active_market m then 1 else 0) ms) = int (count_rows is_active_market ms)" for ms
    by (induction ms) simp_all
  have "keyed fst ?g" by (rule keyed_fold_bump) (simp add: keyed_def)
  then have "distinct (map cy_name (map summary_of ?g))"
    by (simp add: keyed_def comp_def summary_of_def Let_def)
  then show ?thesis
    unfolding Let_def get_category_analytics_def get_platform_stats_def platform_stats.select_convs sum_sort_desc
    using 1 2 3 ones by (simp add: comp_def summary_of_def Let_def sorted_sort_desc)
qed

text \<open>One prediction, won with a profit of 5 XLM, in one market.\<close>

definition trend_db :: db where
  "trend_db = sample_db\<lparr>
     markets := [sample_market\<lparr>is_resolved := True, resolved_outcome := Some ''Yes''\<rparr>],
     predictions := [sample_prediction\<lparr>payout_amount_stroops := 70000000\<rparr>]\<rparr>"

lemma trend_rows: "recent_rows 1000 None ''u1'' trend_db =
    [(sample_prediction\<lparr>payout_amount_stroops := 70000000\<rparr>,
      sample_market\<lparr>is_resolved := True, resolved_outcome := Some ''Yes''\<rparr>)]"
  by (simp add: recent_rows_def trend_db_def sample_defs with_market_def valid_days_def Let_def List.map_filter_def)

lemma trend_user: "find_one (\<lambda>u. stellar_address u = ''GALICE'') (users trend_db) = Some sample_user"
  by (simp add: trend_db_def sample_defs)

theorem trends_need_a_prediction_witness:
  "is_ok (get_user_trends 1000 ''GALICE'' None trend_db) \<and>
    get_user_trends 1000 ''GALICE'' None sample_db = Inl (InternalError ''TypeError'')"
proof
  have "u_id sample_user = ''u1''" by (simp add: sample_user_def)
  then show "is_ok (get_user_trends 1000 ''GALICE'' None trend_db)"
    using trends_need_a_prediction [OF trend_user, of 1000 None] trend_rows by (simp split: sum.splits)
  show "get_user_trends 1000 ''GALICE'' None sample_db = Inl (InternalError ''TypeError'')"
    by (simp add: get_user_trends_def sample_defs recent_rows_def with_market_def Let_def reduce_cats_def
        category_performances_def category_tallies_def List.map_filter_def)
qed

theorem trends_agree_witness:
  "case get_user_trends 1000 ''GALICE'' None trend_db of Inl e \<Rightarrow> False
    | Inr r \<Rightarrow> sum_list (map ca_pnl (tr_categories r)) = 50000000 \<and> sum_list (map ca_count (tr_categories r)) = 1"
proof -
  have uid: "u_id sample_user = ''u1''" by (simp add: sample_user_def)
  obtain r where r: "get_user_trends 1000 ''GALICE'' None trend_db = Inr r" "tr_profit r = [(500, 50000000)]"
    "length (tr_accuracy r) = 1"
    using trend_user uid
    by (simp add: get_user_trends_def trend_rows Let_def reduce_cats_def category_performances_def category_tallies_def
        bump_def profit_of_def sample_defs)
  from trends_agree [OF r(1)] show ?thesis by (simp add: r)
qed

end
