(* ===== verification/Users.thy ===== *)
theory Users
  imports Analytics Mail Competitions
begin

text \<open>
  Profiles and what hangs on them (\<open>backend/src/users/users.service.ts\<close>): statistics, public lists, the
  export of one's own data, preferences, and who follows whom.
\<close>

section \<open>State\<close>

record user_follow =
  fo_id :: uuid
  fo_follower :: uuid
  fo_following :: uuid
  fo_created_at :: timestamp

text \<open>All accounts, deleted ones included, and the follow table; the other tables are read only.\<close>

record users_db =
  us_accounts :: "user list"
  us_prefs :: "user_preferences list"
  us_follows :: "user_follow list"

definition user_missing :: "string \<Rightarrow> string \<Rightarrow> http_error" where
  "user_missing what x = NotFound (''User with '' @ what @ '' '' @ x @ '' not found'')"

definition find_all_users :: "users_db \<Rightarrow> user list" where
  "find_all_users s = filter live (us_accounts s)"

definition find_user_by_id :: "uuid \<Rightarrow> users_db \<Rightarrow> user result" where
  "find_user_by_id uid s =
     (case live_by_id uid (us_accounts s) of None \<Rightarrow> Inl (user_missing ''id'' uid) | Some u \<Rightarrow> Inr u)"

definition find_user_by_address :: "string \<Rightarrow> users_db \<Rightarrow> user result" where
  "find_user_by_address a s =
     (case live_by_address a (us_accounts s) of None \<Rightarrow> Inl (user_missing ''address'' a) | Some u \<Rightarrow> Inr u)"

section \<open>Profile\<close>

record user_stats =
  uq_total :: int
  uq_correct :: int
  uq_incorrect :: int
  uq_accuracy :: string
  uq_tier :: string
  uq_reputation :: int
  uq_season :: int
  uq_staked :: stroops
  uq_winnings :: stroops

definition get_my_stats :: "uuid \<Rightarrow> users_db \<Rightarrow> user_stats result" where
  "get_my_stats uid s =
     (case find_user_by_id uid s of
        Inl e \<Rightarrow> Inl e
      | Inr u \<Rightarrow> Inr \<lparr>uq_total = total_predictions u, uq_correct = correct_predictions u,
          uq_incorrect = total_predictions u - correct_predictions u, uq_accuracy = accuracy_rate_of_user u,
          uq_tier = predictor_tier (reputation_score u), uq_reputation = reputation_score u,
          uq_season = season_points u, uq_staked = total_staked_stroops u,
          uq_winnings = total_winnings_stroops u\<rparr>)"

text \<open>A field the request leaves out (None) stays; one it sets may be null.\<close>

record update_user_dto =
  ud_username :: "string option option"
  ud_avatar :: "string option option"

definition update_profile :: "uuid \<Rightarrow> update_user_dto \<Rightarrow> users_db \<Rightarrow> user result \<times> users_db" where
  "update_profile uid dto s =
     (case find_user_by_id uid s of
        Inl e \<Rightarrow> (Inl e, s)
      | Inr u \<Rightarrow>
          (let u1 = (case ud_username dto of None \<Rightarrow> u | Some x \<Rightarrow> u\<lparr>username := x\<rparr>);
               u2 = (case ud_avatar dto of None \<Rightarrow> u1 | Some x \<Rightarrow> u1\<lparr>avatar_url := x\<rparr>)
           in (Inr u2, s\<lparr>us_accounts := save_row u_id u2 (us_accounts s)\<rparr>)))"

section \<open>Public lists\<close>

datatype public_outcome = PoCorrect | PoIncorrect | PoPending

record public_prediction =
  pp_prediction :: prediction
  pp_outcome :: public_outcome
  pp_market :: market

definition compute_public_outcome :: "prediction \<Rightarrow> market \<Rightarrow> public_outcome" where
  "compute_public_outcome p m =
     (case resolved_outcome m of
        None \<Rightarrow> PoPending
      | Some x \<Rightarrow> if x = chosen_outcome p then PoCorrect else PoIncorrect)"

definition map_public_prediction :: "prediction \<times> market \<Rightarrow> public_prediction" where
  "map_public_prediction pm =
     \<lparr>pp_prediction = fst pm, pp_outcome = compute_public_outcome (fst pm) (snd pm), pp_market = snd pm\<rparr>"

text \<open>The condition each filter adds to that of a resolved market.\<close>

fun public_condition :: "public_outcome \<Rightarrow> prediction \<times> market \<Rightarrow> bool" where
  "public_condition PoCorrect (p, m) = (resolved_outcome m = Some (chosen_outcome p))"
| "public_condition PoIncorrect (p, m) =
     (case resolved_outcome m of None \<Rightarrow> False | Some x \<Rightarrow> chosen_outcome p \<noteq> x)"
| "public_condition PoPending (p, m) = (resolved_outcome m = None)"

record 'a user_page =
  up_data :: "'a list"
  up_total :: nat
  up_page :: nat
  up_limit :: nat

text \<open>One page of the rows a query finds; the limit is at most 50 unless the method leaves it open.\<close>

definition page_rows :: "nat option \<Rightarrow> nat option \<Rightarrow> 'a list \<Rightarrow> 'a user_page" where
  "page_rows page limit rows =
     (let p = (case page of None \<Rightarrow> 1 | Some n \<Rightarrow> n);
          k = min (case limit of None \<Rightarrow> 20 | Some n \<Rightarrow> n) 50
      in \<lparr>up_data = page_of p k rows, up_total = length rows, up_page = p, up_limit = k\<rparr>)"

definition map_page :: "('a \<Rightarrow> 'b) \<Rightarrow> 'a user_page \<Rightarrow> 'b user_page" where
  "map_page f p = \<lparr>up_data = map f (up_data p), up_total = up_total p, up_page = up_page p, up_limit = up_limit p\<rparr>"

definition find_public_predictions ::
  "string \<Rightarrow> nat option \<Rightarrow> nat option \<Rightarrow> public_outcome option \<Rightarrow> db \<Rightarrow> users_db
    \<Rightarrow> public_prediction user_page result" where
  "find_public_predictions a page limit outcome d s =
     (case find_user_by_address a s of
        Inl e \<Rightarrow> Inl e
      | Inr u \<Rightarrow>
          (let rows = filter (\<lambda>pm. is_resolved (snd pm) \<and>
                        (case outcome of None \<Rightarrow> True | Some f \<Rightarrow> public_condition f pm))
                 (with_market d (filter (\<lambda>p. p_user p = u_id u) (predictions d)))
           in Inr (map_page map_public_prediction
                (page_rows page limit (sort_desc (\<lambda>pm. submitted_at (fst pm)) rows)))))"

datatype user_comp_filter = UcActive | UcCompleted

record user_competition =
  uc_id :: uuid
  uc_title :: string
  uc_rank :: "int option"
  uc_score :: int
  uc_end :: timestamp
  uc_completed :: bool

definition joined_competitions :: "uuid \<Rightarrow> comp_db \<Rightarrow> (competitor \<times> competition) list" where
  "joined_competitions uid c =
     List.map_filter (\<lambda>p. map_option (Pair p) (by_id cp_id (pt_competition p) (competitions c)))
       (filter (\<lambda>p. pt_user p = uid) (competitors c))"

text \<open>This list takes its limit as it comes.\<close>

definition find_user_competitions ::
  "timestamp \<Rightarrow> string \<Rightarrow> nat \<Rightarrow> nat \<Rightarrow> user_comp_filter option \<Rightarrow> comp_db \<Rightarrow> users_db
    \<Rightarrow> user_competition user_page result" where
  "find_user_competitions t a page limit status c s =
     (case find_user_by_address a s of
        Inl e \<Rightarrow> Inl e
      | Inr u \<Rightarrow>
          (let rows = sort_desc (\<lambda>pc. cp_end (snd pc)) (filter (\<lambda>pc. case status of
                 None \<Rightarrow> True
               | Some UcActive \<Rightarrow> cp_end (snd pc) \<ge> t
               | Some UcCompleted \<Rightarrow> cp_end (snd pc) < t) (joined_competitions (u_id u) c))
           in Inr \<lparr>up_data = map (\<lambda>(p, k). \<lparr>uc_id = cp_id k, uc_title = cp_title k, uc_rank = pt_rank p,
                     uc_score = pt_score p, uc_end = cp_end k, uc_completed = cp_end k < t\<rparr>)
                     (page_of page limit rows),
                   up_total = length rows, up_page = page, up_limit = limit\<rparr>))"

datatype user_market_filter = UmActive | UmResolved | UmCancelled

fun market_condition :: "user_market_filter \<Rightarrow> market \<Rightarrow> bool" where
  "market_condition UmActive m = (\<not> is_resolved m \<and> \<not> m_cancelled m)"
| "market_condition UmResolved m = is_resolved m"
| "market_condition UmCancelled m = m_cancelled m"

definition find_markets_by_address ::
  "string \<Rightarrow> nat option \<Rightarrow> nat option \<Rightarrow> user_market_filter option \<Rightarrow> bool \<Rightarrow> bool \<Rightarrow> db \<Rightarrow> users_db
    \<Rightarrow> market user_page result" where
  "find_markets_by_address a page limit status by_participants ascending d s =
     (case find_user_by_address a s of
        Inl e \<Rightarrow> Inl e
      | Inr u \<Rightarrow>
          (let column = (if by_participants then participant_count else m_created_at);
               rows = filter (\<lambda>m. m_creator m = Some (u_id u) \<and>
                        (case status of None \<Rightarrow> True | Some f \<Rightarrow> market_condition f m)) (markets d)
           in Inr (page_rows page limit
                (sort_desc (\<lambda>m. if ascending then - column m else column m) rows))))"

definition find_user_bookmarks ::
  "uuid \<Rightarrow> nat option \<Rightarrow> nat option \<Rightarrow> db \<Rightarrow> (user_bookmark \<times> market option) user_page" where
  "find_user_bookmarks uid page limit d =
     map_page (\<lambda>b. (b, by_id m_id (b_market b) (markets d)))
       (page_rows page limit (sort_desc b_created_at (filter (\<lambda>b. b_user b = uid) (bookmarks d))))"

section \<open>Export\<close>

record user_export =
  ux_profile :: user
  ux_predictions :: "(prediction \<times> market) list"
  ux_markets :: "market list"
  ux_notes :: "notification_row list"
  ux_competitions :: "(competitor \<times> competition) list"
  ux_at :: timestamp

definition export_user_data ::
  "timestamp \<Rightarrow> uuid \<Rightarrow> db \<Rightarrow> notification_row list \<Rightarrow> comp_db \<Rightarrow> users_db \<Rightarrow> user_export result" where
  "export_user_data t uid d ns c s =
     (case find_user_by_id uid s of
        Inl e \<Rightarrow> Inl e
      | Inr u \<Rightarrow> Inr
          \<lparr>ux_profile = u,
           ux_predictions = with_market d (filter (\<lambda>p. p_user p = uid) (predictions d)),
           ux_markets = filter (\<lambda>m. m_creator m = Some uid) (markets d),
           ux_notes = sort_desc nr_created_at
             (filter (\<lambda>n. note_live n \<and> nr_address n = stellar_address u) ns),
           ux_competitions = joined_competitions uid c, ux_at = t\<rparr>)"

section \<open>Preferences\<close>

definition get_or_create_preferences :: "uuid \<Rightarrow> users_db \<Rightarrow> user_preferences \<times> users_db" where
  "get_or_create_preferences uid s =
     (case by_id up_user uid (us_prefs s) of
        Some p \<Rightarrow> (p, s)
      | None \<Rightarrow> (let p = default_preferences uid in (p, s\<lparr>us_prefs := save_row up_user p (us_prefs s)\<rparr>)))"

record preferences_dto =
  pd_email :: "bool option"
  pd_market :: "bool option"
  pd_competition :: "bool option"
  pd_leaderboard :: "bool option"
  pd_marketing :: "bool option"

definition update_preferences :: "uuid \<Rightarrow> preferences_dto \<Rightarrow> users_db \<Rightarrow> user_preferences \<times> users_db" where
  "update_preferences uid dto s =
     (let (p, s1) = get_or_create_preferences uid s;
          set = (\<lambda>new old. case new of None \<Rightarrow> old | Some b \<Rightarrow> b);
          p1 = p\<lparr>email_on := set (pd_email dto) (email_on p),
                 market_resolution_on := set (pd_market dto) (market_resolution_on p),
                 competition_on := set (pd_competition dto) (competition_on p),
                 leaderboard_on := set (pd_leaderboard dto) (leaderboard_on p),
                 marketing_on := set (pd_marketing dto) (marketing_on p)\<rparr>
      in (p1, s1\<lparr>us_prefs := save_row up_user p1 (us_prefs s1)\<rparr>))"

section \<open>Following\<close>

definition follows :: "uuid \<Rightarrow> uuid \<Rightarrow> user_follow \<Rightarrow> bool" where
  "follows a b f \<longleftrightarrow> fo_follower f = a \<and> fo_following f = b"

text \<open>
  The check and the insert of a follow are separate: between them another request may have inserted the
  pair, and then the unique constraint answers.
\<close>

definition check_follow :: "uuid \<Rightarrow> string \<Rightarrow> users_db \<Rightarrow> uuid result" where
  "check_follow me a s =
     (case find_user_by_id me s of
        Inl e \<Rightarrow> Inl e
      | Inr u \<Rightarrow>
          (case find_user_by_address a s of
             Inl e \<Rightarrow> Inl e
           | Inr v \<Rightarrow>
               if u_id u = u_id v then Inl (BadRequest ''Cannot follow yourself'')
               else if find_one (follows me (u_id v)) (us_follows s) \<noteq> None
               then Inl (Conflict ''Already following this user'')
               else Inr (u_id v)))"

definition insert_follow :: "uuid \<Rightarrow> timestamp \<Rightarrow> uuid \<Rightarrow> uuid \<Rightarrow> users_db \<Rightarrow> unit result \<times> users_db" where
  "insert_follow fid t me you s =
     (if find_one (follows me you) (us_follows s) \<noteq> None then (Inl already_exists, s)
      else (Inr (), s\<lparr>us_follows := us_follows s @
        [\<lparr>fo_id = fid, fo_follower = me, fo_following = you, fo_created_at = t\<rparr>]\<rparr>))"

definition follow_user :: "uuid \<Rightarrow> timestamp \<Rightarrow> uuid \<Rightarrow> string \<Rightarrow> users_db \<Rightarrow> unit result \<times> users_db" where
  "follow_user fid t me a s =
     (case check_follow me a s of Inl e \<Rightarrow> (Inl e, s) | Inr you \<Rightarrow> insert_follow fid t me you s)"

definition unfollow_user :: "uuid \<Rightarrow> string \<Rightarrow> users_db \<Rightarrow> unit result \<times> users_db" where
  "unfollow_user me a s =
     (case find_user_by_address a s of
        Inl e \<Rightarrow> (Inl e, s)
      | Inr v \<Rightarrow>
          (let s1 = s\<lparr>us_follows := delete_rows (follows me (u_id v)) (us_follows s)\<rparr> in
           if count_rows (follows me (u_id v)) (us_follows s) = 0
           then (Inl (NotFound ''Follow relationship not found''), s1) else (Inr (), s1)))"

record follow_item =
  fi_id :: uuid
  fi_address :: string
  fi_username :: "string option"
  fi_avatar :: "string option"
  fi_reputation :: int

definition follow_item_of :: "user \<Rightarrow> follow_item" where
  "follow_item_of u = \<lparr>fi_id = u_id u, fi_address = stellar_address u, fi_username = username u,
     fi_avatar = avatar_url u, fi_reputation = reputation_score u\<rparr>"

text \<open>
  The join leaves deleted accounts out, so their follows come without a user, on which the mapping
  throws a \<open>TypeError\<close>.
\<close>

definition map_follow_users :: "uuid list \<Rightarrow> users_db \<Rightarrow> follow_item list result" where
  "map_follow_users ids s =
     (case those (map (\<lambda>k. map_option follow_item_of (live_by_id k (us_accounts s))) ids) of
        None \<Rightarrow> Inl (InternalError ''TypeError'')
      | Some xs \<Rightarrow> Inr xs)"

definition get_followers :: "string \<Rightarrow> nat option \<Rightarrow> nat option \<Rightarrow> users_db \<Rightarrow> follow_item user_page result" where
  "get_followers a page limit s =
     (case find_user_by_address a s of
        Inl e \<Rightarrow> Inl e
      | Inr u \<Rightarrow>
          (let pg = page_rows page limit
                 (sort_desc fo_created_at (filter (\<lambda>f. fo_following f = u_id u) (us_follows s))) in
           case map_follow_users (map fo_follower (up_data pg)) s of
             Inl e \<Rightarrow> Inl e
           | Inr xs \<Rightarrow> Inr \<lparr>up_data = xs, up_total = up_total pg, up_page = up_page pg, up_limit = up_limit pg\<rparr>))"

definition get_following :: "string \<Rightarrow> nat option \<Rightarrow> nat option \<Rightarrow> users_db \<Rightarrow> follow_item user_page result" where
  "get_following a page limit s =
     (case find_user_by_address a s of
        Inl e \<Rightarrow> Inl e
      | Inr u \<Rightarrow>
          (let pg = page_rows page limit
                 (sort_desc fo_created_at (filter (\<lambda>f. fo_follower f = u_id u) (us_follows s))) in
           case map_follow_users (map fo_following (up_data pg)) s of
             Inl e \<Rightarrow> Inl e
           | Inr xs \<Rightarrow> Inr \<lparr>up_data = xs, up_total = up_total pg, up_page = up_page pg, up_limit = up_limit pg\<rparr>))"

definition get_follow_stats :: "string \<Rightarrow> users_db \<Rightarrow> (nat \<times> nat) result" where
  "get_follow_stats a s =
     (case find_user_by_address a s of
        Inl e \<Rightarrow> Inl e
      | Inr u \<Rightarrow> Inr (count_rows (\<lambda>f. fo_following f = u_id u) (us_follows s),
                      count_rows (\<lambda>f. fo_follower f = u_id u) (us_follows s)))"

section \<open>The follow table\<close>

text \<open>
  Requests interleave: \<open>pending\<close> holds the pairs that passed the check and wait for their insert.
  Accounts change in between (sign-ups, deletions).
\<close>

inductive follow_run :: "(uuid \<times> uuid) list \<Rightarrow> users_db \<Rightarrow> bool" where
  follow_start: "us_follows s = [] \<Longrightarrow> follow_run [] s"
| follow_check: "follow_run pending s \<Longrightarrow> check_follow me a s = Inr you \<Longrightarrow> follow_run ((me, you) # pending) s"
| follow_insert: "follow_run pending s \<Longrightarrow> (me, you) \<in> set pending \<Longrightarrow>
     follow_run (remove1 (me, you) pending) (snd (insert_follow fid t me you s))"
| follow_remove: "follow_run pending s \<Longrightarrow> follow_run pending (snd (unfollow_user me a s))"
| accounts_change: "follow_run pending s \<Longrightarrow> follow_run pending (s\<lparr>us_accounts := us, us_prefs := ps\<rparr>)"

definition follow_pair :: "user_follow \<Rightarrow> uuid \<times> uuid" where
  "follow_pair f = (fo_follower f, fo_following f)"

definition follows_ok :: "(uuid \<times> uuid) list \<Rightarrow> users_db \<Rightarrow> bool" where
  "follows_ok pending s \<longleftrightarrow> distinct (map follow_pair (us_follows s)) \<and>
     list_all (\<lambda>f. fo_follower f \<noteq> fo_following f) (us_follows s) \<and> list_all (\<lambda>(a, b). a \<noteq> b) pending"

lemma find_user_by_id_Inr: "find_user_by_id uid s = Inr u \<Longrightarrow> u_id u = uid"
  by (auto simp: find_user_by_id_def split: option.splits dest: live_by_id_Some)

lemma check_follow_Inr: "check_follow me a s = Inr you \<Longrightarrow> me \<noteq> you"
  by (auto simp: check_follow_def split: sum.splits if_splits dest: find_user_by_id_Inr)

lemma insert_follow_ok:
  assumes "follows_ok pending s" and "(me, you) \<in> set pending"
  shows "follows_ok (remove1 (me, you) pending) (snd (insert_follow fid t me you s))"
proof -
  have "me \<noteq> you" using assms by (auto simp: follows_ok_def list_all_iff)
  moreover have "list_all (\<lambda>(a, b). a \<noteq> b) (remove1 (me, you) pending)"
    using assms(1) by (auto simp: follows_ok_def list_all_iff dest: notin_set_remove1)
  moreover have "(me, you) \<notin> set (map follow_pair (us_follows s))"
    if "find_one (follows me you) (us_follows s) = None"
    using that by (auto simp: find_one_None follows_def follow_pair_def)
  ultimately show ?thesis
    using assms(1) by (cases "find_one (follows me you) (us_follows s)")
      (simp_all add: insert_follow_def follows_ok_def follow_pair_def)
qed

lemma unfollow_ok:
  assumes "follows_ok pending s" shows "follows_ok pending (snd (unfollow_user me a s))"
proof -
  have "follows_ok pending (s\<lparr>us_follows := delete_rows P (us_follows s)\<rparr>)" for P
    using assms by (simp add: follows_ok_def delete_rows_def distinct_map_filter list_all_iff)
  then show ?thesis using assms by (auto simp: unfollow_user_def Let_def split: sum.split)
qed

lemma follow_run_ok: "follow_run pending s \<Longrightarrow> follows_ok pending s"
proof (induction rule: follow_run.induct)
  case (follow_start s)
  then show ?case by (simp add: follows_ok_def)
next
  case (follow_check pending s me a you)
  then show ?case using check_follow_Inr by (auto simp: follows_ok_def)
next
  case (follow_insert pending s me you fid t)
  then show ?case by (simp add: insert_follow_ok)
next
  case (follow_remove pending s me a)
  then show ?case by (simp add: unfollow_ok)
next
  case (accounts_change pending s us ps)
  then show ?case by (simp add: follows_ok_def)
qed

section \<open>Properties\<close>

text \<open>
  Whatever requests interleave, no user follows another twice and none follows itself, so the two
  counts of the statistics count users: the followers of an address are the distinct users with a row.
\<close>

theorem follow_counts_users:
  assumes "follow_run pending s" and "get_follow_stats a s = Inr (n, k)"
    and "find_user_by_address a s = Inr u"
  shows "n = card {x. \<exists>f\<in>set (us_follows s). follow_pair f = (x, u_id u)} \<and>
    k = card {x. \<exists>f\<in>set (us_follows s). follow_pair f = (u_id u, x)} \<and>
    u_id u \<notin> fo_follower ` {f \<in> set (us_follows s). fo_following f = u_id u}"
proof -
  have ok: "follows_ok pending s" using assms(1) by (rule follow_run_ok)
  have inj: "inj_on follow_pair (set (us_follows s))" and d: "distinct (us_follows s)"
    using ok by (auto simp: follows_ok_def distinct_map)
  have count: "count_rows P (us_follows s) = card (g ` {f \<in> set (us_follows s). P f})"
    if "inj_on g {f \<in> set (us_follows s). P f}" for P and g :: "user_follow \<Rightarrow> uuid"
    using that d by (simp add: count_rows_def card_image distinct_card [symmetric] Collect_conj_eq)
  have "n = card (fo_follower ` {f \<in> set (us_follows s). fo_following f = u_id u})"
    using assms(2,3) inj by (auto simp: get_follow_stats_def inj_on_def follow_pair_def intro!: count)
  moreover have "k = card (fo_following ` {f \<in> set (us_follows s). fo_follower f = u_id u})"
    using assms(2,3) inj by (auto simp: get_follow_stats_def inj_on_def follow_pair_def intro!: count)
  moreover have "fo_follower ` {f \<in> set (us_follows s). fo_following f = u_id u} =
      {x. \<exists>f\<in>set (us_follows s). follow_pair f = (x, u_id u)}"
    "fo_following ` {f \<in> set (us_follows s). fo_follower f = u_id u} =
      {x. \<exists>f\<in>set (us_follows s). follow_pair f = (u_id u, x)}"
    by (auto simp: follow_pair_def)
  moreover have "u_id u \<notin> fo_follower ` {f \<in> set (us_follows s). fo_following f = u_id u}"
    using ok by (auto simp: follows_ok_def list_all_iff)
  ultimately show ?thesis by simp
qed

text \<open>
  The list of followers of a live account answers exactly when every follower on the page still has
  an account: one deleted follower makes the page an internal error.
\<close>

theorem followers_need_live_accounts:
  assumes "find_user_by_address a s = Inr u"
    and "rows = up_data (page_rows page limit (sort_desc fo_created_at (filter (\<lambda>f. fo_following f = u_id u) (us_follows s))))"
  shows "(case get_followers a page limit s of
      Inr p \<Rightarrow> list_all (\<lambda>f. live_by_id (fo_follower f) (us_accounts s) \<noteq> None) rows \<and>
        map fi_id (up_data p) = map fo_follower rows
    | Inl e \<Rightarrow> list_ex (\<lambda>f. live_by_id (fo_follower f) (us_accounts s) = None) rows \<and> http_status e = 500)"
proof -
  let ?f = "\<lambda>k. map_option follow_item_of (live_by_id k (us_accounts s))"
  have "case those (map ?f ks) of
      None \<Rightarrow> list_ex (\<lambda>k. live_by_id k (us_accounts s) = None) ks
    | Some xs \<Rightarrow> list_all (\<lambda>k. live_by_id k (us_accounts s) \<noteq> None) ks \<and> map fi_id xs = ks" for ks
  proof (induction ks)
    case (Cons k ks)
    show ?case
    proof (cases "live_by_id k (us_accounts s)")
      case (Some v)
      then have "fi_id (follow_item_of v) = k" by (auto simp: follow_item_of_def dest: live_by_id_Some)
      then show ?thesis using Cons Some by (auto split: option.splits)
    qed simp
  qed simp
  from this [of "map fo_follower rows"] show ?thesis
    using assms(1) unfolding assms(2)
    by (simp add: get_followers_def map_follow_users_def Let_def list_ex_iff list_all_iff comp_def split: option.splits)
qed

text \<open>One user follows another, who then deletes the account.\<close>

definition follow_db :: users_db where
  "follow_db = \<lparr>us_accounts = [new_account ''u1'' 0 ''GA'', new_account ''u2'' 0 ''GB''], us_prefs = [], us_follows = []\<rparr>"

definition followed_db :: users_db where
  "followed_db = snd (follow_user ''f1'' 5 ''u2'' ''GA'' follow_db)"

lemma followed_eval: "us_follows followed_db = [\<lparr>fo_id = ''f1'', fo_follower = ''u2'', fo_following = ''u1'', fo_created_at = 5\<rparr>]"
  "us_accounts followed_db = us_accounts follow_db" "find_user_by_address ''GA'' followed_db = Inr (new_account ''u1'' 0 ''GA'')"
  by (simp_all add: followed_db_def follow_db_def follow_user_def check_follow_def find_user_by_id_def find_user_by_address_def
      live_by_id_def live_by_address_def live_def new_account_def insert_follow_def follows_def)

theorem follow_counts_users_witness:
  "get_follow_stats ''GA'' followed_db = Inr (1, 0) \<and>
    card {x. \<exists>f\<in>set (us_follows followed_db). follow_pair f = (x, ''u1'')} = 1"
proof -
  have "check_follow ''u2'' ''GA'' follow_db = Inr ''u1''"
    by (simp add: follow_db_def check_follow_def find_user_by_id_def find_user_by_address_def live_by_id_def
        live_by_address_def live_def new_account_def)
  then have e: "followed_db = snd (insert_follow ''f1'' 5 ''u2'' ''u1'' follow_db)"
    and "follow_run [(''u2'', ''u1'')] follow_db"
    using follow_check [OF follow_start] by (simp_all add: followed_db_def follow_user_def follow_db_def)
  then have run: "follow_run [] followed_db"
    using follow_insert [of "[(''u2'', ''u1'')]" follow_db "''u2''" "''u1''" "''f1''" 5] by simp
  have st: "get_follow_stats ''GA'' followed_db = Inr (1, 0)"
    by (simp add: get_follow_stats_def followed_eval new_account_def)
  show ?thesis using follow_counts_users [OF run st followed_eval(3)] st by simp
qed

theorem followers_need_live_accounts_witness:
  "is_ok (get_followers ''GA'' None None followed_db) \<and>
    get_followers ''GA'' None None (followed_db\<lparr>us_accounts := [new_account ''u1'' 0 ''GA'']\<rparr>) = Inl (InternalError ''TypeError'')"
proof
  have rows: "up_data (page_rows None None (sort_desc fo_created_at
      (filter (\<lambda>f. fo_following f = u_id (new_account ''u1'' 0 ''GA'')) (us_follows followed_db)))) = us_follows followed_db"
    by (simp add: followed_eval page_rows_def page_of_def Let_def)
  show "is_ok (get_followers ''GA'' None None followed_db)"
    using followers_need_live_accounts [OF followed_eval(3) rows [symmetric]]
    by (simp add: followed_eval follow_db_def live_by_id_def live_def new_account_def split: sum.splits)
  show "get_followers ''GA'' None None (followed_db\<lparr>us_accounts := [new_account ''u1'' 0 ''GA'']\<rparr>) = Inl (InternalError ''TypeError'')"
    by (simp add: get_followers_def find_user_by_address_def live_by_address_def live_by_id_def live_def new_account_def
        followed_eval page_rows_def page_of_def Let_def map_follow_users_def)
qed

end
