(* ===== verification/AccountData.thy ===== *)
theory AccountData
  imports Auth Users
begin

text \<open>
  The data of an account (\<open>backend/src/account/account.service.ts\<close>): export jobs with their files on disk,
  and the deletion of an account.  Its queries are SQL text, which sees deleted accounts too.
\<close>

section \<open>State\<close>

datatype export_status = ExPending | ExProcessing | ExReady | ExFailed

record export_job =
  ej_id :: uuid
  ej_user :: uuid
  ej_status :: export_status
  ej_file :: "string option"
  ej_expires :: "timestamp option"
  ej_created_at :: timestamp

text \<open>The files are the paths on disk; the digest table and the notifications lose rows on deletion.\<close>

record account_data =
  ad_users :: "user list"
  ad_notes :: "notification_row list"
  ad_digests :: "digest_state list"
  ad_jobs :: "export_job list"
  ad_files :: "string list"

section \<open>Exports\<close>

definition request_export :: "timestamp \<Rightarrow> uuid \<Rightarrow> uuid \<Rightarrow> account_data \<Rightarrow> (uuid \<times> export_status) \<times> account_data" where
  "request_export t new uid s =
     (case find_one (\<lambda>j. ej_user j = uid \<and> (ej_status j = ExPending \<or> ej_status j = ExProcessing)) (ad_jobs s) of
        Some j \<Rightarrow> ((ej_id j, ej_status j), s)
      | None \<Rightarrow> ((new, ExPending), s\<lparr>ad_jobs := ad_jobs s @
          [\<lparr>ej_id = new, ej_user = uid, ej_status = ExPending, ej_file = None, ej_expires = None,
            ej_created_at = t\<rparr>]\<rparr>))"

definition own_job :: "uuid \<Rightarrow> uuid \<Rightarrow> account_data \<Rightarrow> export_job result" where
  "own_job uid jid s =
     (case by_id ej_id jid (ad_jobs s) of
        None \<Rightarrow> Inl (NotFound ''Export job not found'')
      | Some j \<Rightarrow> if ej_user j \<noteq> uid then Inl (NotFound ''Export job not found'') else Inr j)"

definition get_export_status :: "uuid \<Rightarrow> uuid \<Rightarrow> account_data \<Rightarrow> (uuid \<times> export_status \<times> timestamp option) result" where
  "get_export_status uid jid s =
     (case own_job uid jid s of Inl e \<Rightarrow> Inl e | Inr j \<Rightarrow> Inr (ej_id j, ej_status j, ej_expires j))"

text \<open>The status 404, 400 or 410.\<close>

datatype download_error = JobMissing | NotReady | ExportGone string

definition download_export :: "timestamp \<Rightarrow> uuid \<Rightarrow> uuid \<Rightarrow> account_data \<Rightarrow> download_error + string" where
  "download_export t uid jid s =
     (case own_job uid jid s of
        Inl _ \<Rightarrow> Inl JobMissing
      | Inr j \<Rightarrow>
          (case (ej_status j, nonempty (ej_file j)) of
             (ExReady, Some path) \<Rightarrow>
               if (case ej_expires j of None \<Rightarrow> False | Some e \<Rightarrow> e < t) then Inl (ExportGone ''Export has expired'')
               else if path \<notin> set (ad_files s) then Inl (ExportGone ''Export file is no longer available'')
               else Inr path
           | _ \<Rightarrow> Inl NotReady))"

definition export_path :: "string \<Rightarrow> uuid \<Rightarrow> string" where
  "export_path dir jid = dir @ ''/'' @ jid @ ''.json''"

definition update_job :: "uuid \<Rightarrow> (export_job \<Rightarrow> export_job) \<Rightarrow> account_data \<Rightarrow> account_data" where
  "update_job jid f s = s\<lparr>ad_jobs := update_rows (\<lambda>j. ej_id j = jid) f (ad_jobs s)\<rparr>"

text \<open>
  A job is taken up, and later ends: the file is written when the user's row is there and the disk takes
  it; a job row that is gone by then is not updated.
\<close>

definition begin_export :: "uuid \<Rightarrow> account_data \<Rightarrow> account_data" where
  "begin_export jid s = update_job jid (\<lambda>j. j\<lparr>ej_status := ExProcessing\<rparr>) s"

definition end_export ::
  "string \<Rightarrow> int \<Rightarrow> bool \<Rightarrow> timestamp \<Rightarrow> export_job \<Rightarrow> account_data \<Rightarrow> account_data" where
  "end_export dir ttl_hours disk_ok t j s =
     (if by_id u_id (ej_user j) (ad_users s) = None \<or> \<not> disk_ok
      then update_job (ej_id j) (\<lambda>j. j\<lparr>ej_status := ExFailed\<rparr>) s
      else (let path = export_path dir (ej_id j) in
            update_job (ej_id j)
              (\<lambda>j. j\<lparr>ej_status := ExReady, ej_file := Some path, ej_expires := Some (t + ttl_hours * 3600000)\<rparr>)
              (s\<lparr>ad_files := (if path \<in> set (ad_files s) then ad_files s else ad_files s @ [path])\<rparr>)))"

definition run_export :: "string \<Rightarrow> int \<Rightarrow> bool \<Rightarrow> timestamp \<Rightarrow> export_job \<Rightarrow> account_data \<Rightarrow> account_data" where
  "run_export dir ttl_hours disk_ok t j s = end_export dir ttl_hours disk_ok t j (begin_export (ej_id j) s)"

definition process_exports ::
  "string \<Rightarrow> int \<Rightarrow> (uuid \<Rightarrow> bool) \<Rightarrow> timestamp \<Rightarrow> account_data \<Rightarrow> account_data" where
  "process_exports dir ttl_hours disk_ok t s =
     fold (\<lambda>j. run_export dir ttl_hours (disk_ok (ej_id j)) t j)
       (take 5 (filter (\<lambda>j. ej_status j = ExPending) (ad_jobs s))) s"

definition cleanup_exports :: "timestamp \<Rightarrow> account_data \<Rightarrow> account_data" where
  "cleanup_exports t s =
     (let old = filter (\<lambda>j. ej_status j = ExReady \<and> (case ej_expires j of None \<Rightarrow> False | Some e \<Rightarrow> e < t)) (ad_jobs s);
          paths = List.map_filter (\<lambda>j. nonempty (ej_file j)) old
      in s\<lparr>ad_files := filter (\<lambda>p. p \<notin> set paths) (ad_files s),
           ad_jobs := filter (\<lambda>j. j \<notin> set old) (ad_jobs s)\<rparr>)"

section \<open>Deletion\<close>

definition anonymous :: "timestamp \<Rightarrow> user \<Rightarrow> user" where
  "anonymous t u = u\<lparr>email := None, username := None, avatar_url := None, ban_reason := None,
     banned_at := None, banned_by := None, deleted_at := Some t\<rparr>"

text \<open>The transaction, and after it the files of the jobs it deleted.\<close>

definition delete_account :: "timestamp \<Rightarrow> uuid \<Rightarrow> account_data \<Rightarrow> unit result \<times> account_data" where
  "delete_account t uid s =
     (case by_id u_id uid (ad_users s) of
        None \<Rightarrow> (Inl (NotFound ''User not found''), s)
      | Some u \<Rightarrow>
          (let paths = List.map_filter (\<lambda>j. if ej_user j = uid then nonempty (ej_file j) else None) (ad_jobs s) in
           (Inr (), s\<lparr>
              ad_notes := delete_rows (\<lambda>n. nr_address n = stellar_address u) (ad_notes s),
              ad_digests := delete_rows (\<lambda>d. dg_user d = uid) (ad_digests s),
              ad_jobs := delete_rows (\<lambda>j. ej_user j = uid) (ad_jobs s),
              ad_users := update_rows (\<lambda>v. u_id v = uid) (anonymous t) (ad_users s),
              ad_files := filter (\<lambda>p. p \<notin> set paths) (ad_files s)\<rparr>)))"

section \<open>The user table\<close>

text \<open>Every write of the user table this and the sign-in service make, on all its rows.\<close>

inductive user_table :: "user list \<Rightarrow> bool" where
  no_users: "user_table []"
| signs_in: "user_table us \<Longrightarrow> by_id u_id uid us = None \<Longrightarrow> accounts s = us \<Longrightarrow>
     upsert_user t uid a s = (r, s') \<Longrightarrow> user_table (accounts s')"
| edits: "user_table us \<Longrightarrow> us_accounts s = us \<Longrightarrow> user_table (us_accounts (snd (update_profile uid dto s)))"
| deletes: "user_table us \<Longrightarrow> ad_users s = us \<Longrightarrow> user_table (ad_users (snd (delete_account t uid s)))"

lemma upsert_accounts_ok:
  assumes "accounts_ok (accounts s)" and "by_id u_id uid (accounts s) = None" and "upsert_user t uid a s = (r, s')"
  shows "accounts_ok (accounts s')"
proof -
  have "accounts_ok (accounts s @ [new_account uid t a])"
    if "find_one (\<lambda>u. stellar_address u = a) (accounts s) = None"
    using that assms(1,2) by (auto simp: accounts_ok_def keyed_snoc by_id_None find_one_None)
  then show ?thesis
    using assms(1,3) by (auto simp: upsert_user_def Let_def split: option.splits if_splits)
qed

lemma save_accounts_ok:
  assumes "accounts_ok us" and "live_by_id uid us = Some u" and "u_id v = u_id u" "stellar_address v = stellar_address u"
  shows "accounts_ok (save_row u_id v us)"
proof -
  have u: "u \<in> set us" using assms(2) by (auto dest: live_by_id_Some)
  have "save_row u_id v us = map (\<lambda>x. if u_id x = u_id v then v else x) us"
    using assms(1,3) u by (intro save_row_map_eq) (auto simp: accounts_ok_def)
  moreover have "x = u" if "x \<in> set us" "u_id x = u_id u" for x
    using assms(1) u that by (auto simp: accounts_ok_def keyed_def distinct_map inj_on_def)
  ultimately have "map stellar_address (save_row u_id v us) = map stellar_address us"
    using assms(3,4) by (auto simp: comp_def)
  then show ?thesis using assms(1) by (simp add: accounts_ok_def keyed_save_row)
qed

lemma update_profile_accounts:
  "\<exists>u v. us_accounts (snd (update_profile uid dto s)) = us_accounts s \<or>
    live_by_id uid (us_accounts s) = Some u \<and> u_id v = u_id u \<and> stellar_address v = stellar_address u \<and>
    us_accounts (snd (update_profile uid dto s)) = save_row u_id v (us_accounts s)"
proof (cases "live_by_id uid (us_accounts s)")
  case None
  then show ?thesis by (simp add: update_profile_def find_user_by_id_def)
next
  case (Some u)
  let ?u1 = "case ud_username dto of None \<Rightarrow> u | Some x \<Rightarrow> u\<lparr>username := x\<rparr>"
  let ?v = "case ud_avatar dto of None \<Rightarrow> ?u1 | Some x \<Rightarrow> ?u1\<lparr>avatar_url := x\<rparr>"
  have "u_id ?v = u_id u" "stellar_address ?v = stellar_address u" by (simp_all split: option.split)
  moreover have "us_accounts (snd (update_profile uid dto s)) = save_row u_id ?v (us_accounts s)"
    using Some by (simp add: update_profile_def find_user_by_id_def Let_def)
  ultimately show ?thesis using Some by blast
qed

lemma anonymous_simps [simp]:
  "u_id (anonymous t u) = u_id u" "stellar_address (anonymous t u) = stellar_address u" "\<not> live (anonymous t u)"
  by (simp_all add: anonymous_def live_def)

lemma anonymous_not_live: "live_by_id uid (update_rows (\<lambda>v. u_id v = uid) (anonymous t) us) = None"
  by (induction us) (simp_all add: live_by_id_def update_rows_def)

lemma delete_accounts_ok:
  "accounts_ok (ad_users s) \<Longrightarrow> accounts_ok (ad_users (snd (delete_account t uid s)))"
  by (auto simp: delete_account_def Let_def accounts_ok_def keyed_update_rows keys_update_rows split: option.split)

section \<open>Properties\<close>


text \<open>
  The deletion of an account leaves nothing personal where the service looks: the row has no name,
  mail address, picture or ban details and is no longer live, its notifications, digest state, jobs and
  their files are gone, and the rows of all other users are as before.
\<close>

theorem delete_account_erases:
  assumes "accounts_ok (ad_users s)" and "delete_account t uid s = (Inr (), s')"
    and "by_id u_id uid (ad_users s) = Some u"
  shows "by_id u_id uid (ad_users s') = Some (anonymous t u) \<and> live_by_id uid (ad_users s') = None \<and>
    filter (\<lambda>n. nr_address n = stellar_address u) (ad_notes s') = [] \<and>
    filter (\<lambda>j. ej_user j = uid) (ad_jobs s') = [] \<and> by_id dg_user uid (ad_digests s') = None \<and>
    list_all (\<lambda>j. case nonempty (ej_file j) of None \<Rightarrow> True | Some p \<Rightarrow> p \<notin> set (ad_files s'))
      (filter (\<lambda>j. ej_user j = uid) (ad_jobs s)) \<and>
    filter (\<lambda>v. u_id v \<noteq> uid) (ad_users s') = filter (\<lambda>v. u_id v \<noteq> uid) (ad_users s) \<and>
    filter (\<lambda>j. ej_user j \<noteq> uid) (ad_jobs s') = filter (\<lambda>j. ej_user j \<noteq> uid) (ad_jobs s)"
proof -
  let ?paths = "List.map_filter (\<lambda>j. if ej_user j = uid then nonempty (ej_file j) else None) (ad_jobs s)"
  have s': "s' = s\<lparr>ad_notes := delete_rows (\<lambda>n. nr_address n = stellar_address u) (ad_notes s),
      ad_digests := delete_rows (\<lambda>d. dg_user d = uid) (ad_digests s),
      ad_jobs := delete_rows (\<lambda>j. ej_user j = uid) (ad_jobs s),
      ad_users := update_rows (\<lambda>v. u_id v = uid) (anonymous t) (ad_users s),
      ad_files := filter (\<lambda>p. p \<notin> set ?paths) (ad_files s)\<rparr>"
    using assms(2,3) by (simp add: delete_account_def Let_def)
  have row: "by_id u_id uid (ad_users s') = Some (anonymous t u)"
    using assms(3) by_id_Some [OF assms(3)] by (simp add: s' by_id_update_rows)
  have "by_id dg_user uid (delete_rows (\<lambda>d. dg_user d = uid) ds) = None" for ds
    by (auto simp: by_id_None delete_rows_def)
  moreover have "filter (\<lambda>v. u_id v \<noteq> uid) (update_rows (\<lambda>v. u_id v = uid) (anonymous t) us) = filter (\<lambda>v. u_id v \<noteq> uid) us"
    for us by (induction us) (simp_all add: update_rows_def)
  moreover have "list_all (\<lambda>j. case nonempty (ej_file j) of None \<Rightarrow> True | Some p \<Rightarrow> p \<notin> set (ad_files s'))
      (filter (\<lambda>j. ej_user j = uid) (ad_jobs s))"
    by (force simp: s' list_all_iff List.map_filter_def split: option.split)
  ultimately show ?thesis using row anonymous_not_live
    by (simp add: s' delete_rows_def) (auto simp: filter_empty_conv)
qed

text \<open>
  The owner of a deleted account is locked out for good: the token is not renewed, and signing in
  with the same address fails with a conflict, because the row that keeps the address is invisible to the
  query that looks for it.
\<close>

theorem deleted_account_is_locked_out:
  assumes "accounts_ok (ad_users s)" and "by_id u_id uid (ad_users s) = Some u"
    and "delete_account t uid s = (r, s')" and "accounts d = ad_users s'"
  shows "(case refresh_token uid d of Inr _ \<Rightarrow> False | Inl e \<Rightarrow> http_status e = 401) \<and>
    (case fst (upsert_user t2 uid2 (stellar_address u) d) of Inr _ \<Rightarrow> False | Inl e \<Rightarrow> http_status e = 409)"
proof -
  have s': "ad_users s' = update_rows (\<lambda>v. u_id v = uid) (anonymous t) (ad_users s)"
  proof -
    have "s' = snd (delete_account t uid s)" using assms(3) by simp
    then show ?thesis using assms(2) by (simp add: delete_account_def Let_def)
  qed
  have none: "live_by_id uid (ad_users s') = None"
    unfolding s' by (rule anonymous_not_live)
  have ok: "accounts_ok (ad_users s')" using delete_accounts_ok [OF assms(1), of t uid] assms(3) by simp
  have row: "anonymous t u \<in> set (ad_users s')"
    using assms(2) by (force simp: s' update_rows_def dest: by_id_Some)
  then have "live_by_address (stellar_address u) (ad_users s') = None"
    using deleted_not_live [OF ok row] by simp
  moreover have "find_one (\<lambda>v. stellar_address v = stellar_address u) (ad_users s') \<noteq> None"
    using row anonymous_simps(2) unfolding find_one_None by metis
  ultimately show ?thesis using none assms(4)
    by (simp add: refresh_token_def upsert_user_def already_exists_def)
qed

text \<open>
  An export that is under way when its account is deleted still writes its file, which then belongs
  to no job: no download and no cleanup finds it again.
\<close>

theorem export_outlives_account:
  assumes "by_id ej_id (ej_id j) (ad_jobs s) = Some j" and "ej_user j = uid" and "keyed ej_id (ad_jobs s)"
    and "by_id u_id uid (ad_users s) = Some u"
    and "list_all (\<lambda>x. ej_file x = None \<or> ej_file x = Some (export_path dir (ej_id x))) (ad_jobs s)"
    and "s' = end_export dir ttl True t' j (snd (delete_account t uid s))"
  shows "export_path dir (ej_id j) \<in> set (ad_files (cleanup_exports t'' s')) \<and>
    by_id ej_id (ej_id j) (ad_jobs s') = None"
proof -
  let ?d = "snd (delete_account t uid s)" and ?path = "export_path dir (ej_id j)"
  have jobs: "ad_jobs ?d = delete_rows (\<lambda>j. ej_user j = uid) (ad_jobs s)"
    using assms(4) by (simp add: delete_account_def Let_def)
  have mine: "x = j" if "x \<in> set (ad_jobs s)" "ej_id x = ej_id j" for x
    using by_id_in [OF assms(3) that(1)] assms(1) that(2) by (metis option.inject)
  then have gone: "ej_id x \<noteq> ej_id j" if "x \<in> set (ad_jobs ?d)" for x
    using that assms(2) by (auto simp: jobs delete_rows_def)
  then have same: "update_rows (\<lambda>x. ej_id x = ej_id j) f (ad_jobs ?d) = ad_jobs ?d" for f
    by (simp add: update_rows_def map_idI)
  have user: "by_id u_id uid (ad_users ?d) \<noteq> None"
    using assms(4) by (simp add: delete_account_def Let_def by_id_update_rows)
  have s': "ad_jobs s' = ad_jobs ?d" "?path \<in> set (ad_files s')"
    using user assms(2) by (simp_all add: assms(6) end_export_def Let_def update_job_def same)
  have "ej_id x = ej_id j" if "export_path dir (ej_id x) = ?path" for x :: export_job
    using that by (simp add: export_path_def)
  moreover have "ej_file x = None \<or> ej_file x = Some (export_path dir (ej_id x))" if "x \<in> set (ad_jobs ?d)" for x
    using that assms(5) by (auto simp: jobs delete_rows_def list_all_iff)
  ultimately have "nonempty (ej_file x) \<noteq> Some ?path" if "x \<in> set (ad_jobs s')" for x
    using gone that s'(1) by (fastforce simp: nonempty_def split: option.splits if_splits)
  then have "?path \<in> set (ad_files (cleanup_exports t'' s'))"
    using s'(2) by (auto simp: cleanup_exports_def Let_def List.map_filter_def)
  moreover have "by_id ej_id (ej_id j) (ad_jobs s') = None" using gone s'(1) by (force simp: by_id_None)
  ultimately show ?thesis by simp
qed

section \<open>Samples\<close>

definition sample_export_job :: export_job where
  "sample_export_job = \<lparr>ej_id = ''j1'', ej_user = ''u1'', ej_status = ExProcessing, ej_file = None, ej_expires = None,
     ej_created_at = 5\<rparr>"

definition sample_account_data :: account_data where
  "sample_account_data = \<lparr>ad_users = [sample_mail_user, new_account ''u2'' 0 ''GB''], ad_notes = [sample_note_row],
     ad_digests = [], ad_jobs = [sample_export_job], ad_files = []\<rparr>"

lemma sample_data_user: "by_id u_id ''u1'' (ad_users sample_account_data) = Some sample_mail_user"
  by (simp add: sample_account_data_def sample_mail_user_def new_account_def)

lemma sample_data_ok: "accounts_ok (ad_users sample_account_data)"
  by (simp add: accounts_ok_def keyed_def sample_account_data_def sample_mail_user_def new_account_def)

definition after_deletion :: account_data where
  "after_deletion = snd (delete_account 50 ''u1'' sample_account_data)"

lemma sample_deletion: "delete_account 50 ''u1'' sample_account_data = (Inr (), after_deletion)"
  using sample_data_user by (simp add: after_deletion_def delete_account_def Let_def)


theorem delete_account_erases_witness:
  "ad_jobs sample_account_data \<noteq> [] \<and> filter (\<lambda>j. ej_user j = ''u1'') (ad_jobs after_deletion) = [] \<and>
    live_by_id ''u1'' (ad_users after_deletion) = None \<and> length (ad_users after_deletion) = 2"
  using delete_account_erases [OF sample_data_ok sample_deletion sample_data_user]
  by (simp add: sample_account_data_def after_deletion_def delete_account_def sample_mail_user_def new_account_def Let_def)

theorem deleted_account_is_locked_out_witness:
  "http_status (case fst (upsert_user 90 ''u3'' ''GA'' \<lparr>accounts = ad_users after_deletion, account_prefs = [],
      challenges = []\<rparr>) of Inl e \<Rightarrow> e | Inr _ \<Rightarrow> BadRequest []) = 409"
proof -
  have a: "stellar_address sample_mail_user = ''GA''" by (simp add: sample_mail_user_def new_account_def)
  show ?thesis
    using deleted_account_is_locked_out [OF sample_data_ok sample_data_user sample_deletion,
        of "\<lparr>accounts = ad_users after_deletion, account_prefs = [], challenges = []\<rparr>" 90 "''u3''"] a
    by (simp split: sum.splits)
qed

theorem export_outlives_account_witness:
  "''exports/j1.json'' \<in> set (ad_files (end_export ''exports'' 48 True 60 sample_export_job after_deletion)) \<and>
    by_id ej_id ''j1'' (ad_jobs (end_export ''exports'' 48 True 60 sample_export_job after_deletion)) = None"
proof -
  have j: "by_id ej_id (ej_id sample_export_job) (ad_jobs sample_account_data) = Some sample_export_job"
    "ej_user sample_export_job = ''u1''" "keyed ej_id (ad_jobs sample_account_data)"
    "list_all (\<lambda>x. ej_file x = None \<or> ej_file x = Some (export_path ''exports'' (ej_id x))) (ad_jobs sample_account_data)"
    by (simp_all add: sample_account_data_def sample_export_job_def keyed_def)
  have p: "ej_id sample_export_job = ''j1''" "export_path ''exports'' ''j1'' = ''exports/j1.json''"
    by (simp_all add: export_path_def sample_export_job_def)
  have d: "snd (delete_account 50 ''u1'' sample_account_data) = after_deletion" by (simp add: sample_deletion)
  have "''exports/j1.json'' \<in> set (ad_files (cleanup_exports 0 (end_export ''exports'' 48 True 60 sample_export_job after_deletion)))"
    "by_id ej_id ''j1'' (ad_jobs (end_export ''exports'' 48 True 60 sample_export_job after_deletion)) = None"
    using export_outlives_account [OF j(1,2,3) sample_data_user j(4) refl, where ttl = 48 and t' = 60 and t = 50 and t'' = 0] unfolding p d by simp_all
  then show ?thesis by (simp add: cleanup_exports_def Let_def)
qed

end
