(* ===== verification/Admin.thy ===== *)
theory Admin
  imports Analytics Notifications Competitions Flags Calendar Access
begin

text \<open>
  Administration (\<open>backend/src/admin/admin.service.ts\<close>): figures and listings, bans and roles, the
  resolution of a market and the cancellation of a competition by an administrator.
\<close>

section \<open>State\<close>

text \<open>
  The market tables, the competitions and the notifications.  The users are those of the market
  tables; the requests to the chain are recorded there too.
\<close>

record admin_db =
  am_market :: db
  am_comp :: comp_db
  am_notes :: notification_db

record verified_address =
  va_id :: uuid
  va_address :: string
  va_by :: string
  va_events :: int
  va_at :: timestamp

section \<open>Figures\<close>

definition between :: "timestamp \<Rightarrow> timestamp \<Rightarrow> timestamp \<Rightarrow> bool" where
  "between a b t \<longleftrightarrow> a \<le> t \<and> t \<le> b"

text \<open>The division of a \<open>bigint\<close>, which cuts towards zero.\<close>

definition big_div :: "int \<Rightarrow> int \<Rightarrow> int" where
  "big_div a b = sgn a * sgn b * (\<bar>a\<bar> div \<bar>b\<bar>)"

definition platform_revenue :: "stroops \<Rightarrow> stroops" where
  "platform_revenue volume = big_div (volume * 2) 100"

record admin_stats =
  as_users :: nat
  as_active_24h :: nat
  as_active_7d :: nat
  as_markets :: nat
  as_open_markets :: nat
  as_resolved_markets :: nat
  as_predictions :: nat
  as_volume :: stroops
  as_competitions :: nat
  as_revenue :: stroops
  as_pending_flags :: nat

text \<open>\<open>updated\<close> is the column \<open>updated_at\<close> of the users, which the ORM keeps.\<close>

definition get_stats :: "(uuid \<Rightarrow> timestamp) \<Rightarrow> timestamp \<Rightarrow> admin_db \<Rightarrow> admin_stats" where
  "get_stats updated t s =
     (let d = am_market s;
          seen = (\<lambda>since. count_rows (\<lambda>u. live u \<and> between since t (updated (u_id u))) (users d));
          volume = sum_list (map total_pool_stroops (markets d))
      in \<lparr>as_users = count_rows live (users d), as_active_24h = seen (t - day_ms),
          as_active_7d = seen (t - 7 * day_ms), as_markets = length (markets d),
          as_open_markets = count_rows (\<lambda>m. \<not> is_resolved m \<and> \<not> m_cancelled m) (markets d),
          as_resolved_markets = count_rows is_resolved (markets d),
          as_predictions = length (predictions d), as_volume = volume,
          as_competitions = length (competitions (am_comp s)),
          as_revenue = platform_revenue volume,
          as_pending_flags = count_rows (\<lambda>f. f_status f = FlagPending) (flags d)\<rparr>)"

text \<open>The first instants of the month and of the week, Sunday first, for a server that runs on UTC.\<close>

definition start_of_month :: "timestamp \<Rightarrow> timestamp" where
  "start_of_month t =
     (let (y, k) = year_day 1970 (day_of t); (m, d) = month_day (month_lengths y) k
      in (int (day_of t) - int d) * day_ms)"

definition start_of_week :: "timestamp \<Rightarrow> timestamp" where
  "start_of_week t = (int (day_of t) - int (utc_day t)) * day_ms"

record fee_stats =
  fs_current :: string
  fs_total :: stroops
  fs_month :: stroops
  fs_week :: stroops
  fs_events :: nat
  fs_average :: stroops
  fs_treasury :: stroops
  fs_history :: "fee_history list"

definition newest_fees :: "event_db \<Rightarrow> fee_history list" where
  "newest_fees ev = sort_desc fh_created_at (fee_rows ev)"

text \<open>The chain's answer, or the last fee of the history, or a default.\<close>

definition get_current_creation_fee :: "string chain_result \<Rightarrow> event_db \<Rightarrow> string" where
  "get_current_creation_fee answer ev =
     (case answer of
        Inr fee \<Rightarrow> fee
      | Inl _ \<Rightarrow> (case newest_fees ev of [] \<Rightarrow> ''10000000'' | h # _ \<Rightarrow> show_int (new_fee h)))"

definition fees_of :: "creator_event list \<Rightarrow> stroops" where
  "fees_of es = sum_list (map creation_fee_paid es)"

definition get_fee_stats ::
  "timestamp option \<Rightarrow> timestamp option \<Rightarrow> timestamp \<Rightarrow> event_db \<Rightarrow> fee_stats" where
  "get_fee_stats start_date end_date t ev =
     (let asked = filter (\<lambda>x. (case start_date of None \<Rightarrow> True | Some a \<Rightarrow> a \<le> on_chain_created_at x) \<and>
                              (case end_date of None \<Rightarrow> True | Some b \<Rightarrow> on_chain_created_at x \<le> b))
                    (creator_events ev);
          since = (\<lambda>a. fees_of (filter (\<lambda>x. a \<le> on_chain_created_at x) (creator_events ev)))
      in \<lparr>fs_current = get_current_creation_fee get_creation_fee ev, fs_total = fees_of asked,
          fs_month = since (start_of_month t), fs_week = since (start_of_week t),
          fs_events = length asked,
          fs_average = (if asked = [] then 0 else big_div (fees_of asked) (int (length asked))),
          fs_treasury = fees_of asked, fs_history = take 10 (newest_fees ev)\<rparr>)"

section \<open>Listings\<close>

text \<open>
  The numbers of a page and its limit arrive as text and are taken as positive; no validation pipe
  bounds them.
\<close>

record 'a admin_page =
  ap_data :: "'a list"
  ap_total :: nat
  ap_page :: nat
  ap_limit :: nat
  ap_total_pages :: int

definition number_or :: "nat \<Rightarrow> nat option \<Rightarrow> nat" where
  "number_or d x = (case x of None \<Rightarrow> d | Some n \<Rightarrow> n)"

definition admin_page_of :: "nat \<Rightarrow> nat \<Rightarrow> 'a list \<Rightarrow> 'a admin_page" where
  "admin_page_of page limit rows =
     \<lparr>ap_data = page_of page limit rows, ap_total = length rows, ap_page = page, ap_limit = limit,
      ap_total_pages = \<lceil>of_nat (length rows) / of_nat limit :: rat\<rceil>\<rparr>"

text \<open>\<open>rank c\<close> is the database's order of the column \<open>c\<close>, None when there is no such column.\<close>

definition ordered_by ::
  "(string \<Rightarrow> ('r \<Rightarrow> int) option) \<Rightarrow> string \<Rightarrow> string \<Rightarrow> 'r list \<Rightarrow> 'r list result" where
  "ordered_by rank column direction rows =
     (if direction \<noteq> ''ASC'' \<and> direction \<noteq> ''DESC'' then Inl (InternalError ''TypeORMError'')
      else
        (case rank column of
           None \<Rightarrow> Inl (InternalError ''QueryFailedError'')
         | Some key \<Rightarrow> Inr (if direction = ''DESC'' then sort_desc key rows else sort_key key rows)))"

definition text_or :: "string \<Rightarrow> string option \<Rightarrow> string" where
  "text_or d x = (case x of None \<Rightarrow> d | Some y \<Rightarrow> y)"

record list_users_query =
  lu_page :: "nat option"
  lu_limit :: "nat option"
  lu_search :: "string option"
  lu_role :: "string option"
  lu_sort_by :: "string option"
  lu_sort_order :: "string option"

text \<open>
  The two conditions are joined as SQL text without parentheses, and \<open>AND\<close> binds tighter than \<open>OR\<close>: with
  a search the role restricts the second alternative only.
\<close>

definition user_matches :: "list_users_query \<Rightarrow> user \<Rightarrow> bool" where
  "user_matches q u \<longleftrightarrow>
     (let role_ok = (case nonempty (lu_role q) of None \<Rightarrow> True | Some r \<Rightarrow> role u = r) in
      case nonempty (lu_search q) of
        None \<Rightarrow> role_ok
      | Some x \<Rightarrow>
          (case username u of None \<Rightarrow> False | Some n \<Rightarrow> ilike (search_pattern x) n) \<or>
          ilike (search_pattern x) (stellar_address u) \<and> role_ok)"

definition admin_list_users ::
  "(string \<Rightarrow> (user \<Rightarrow> int) option) \<Rightarrow> list_users_query \<Rightarrow> db \<Rightarrow> user admin_page result" where
  "admin_list_users rank q d =
     (case ordered_by rank (text_or ''created_at'' (lu_sort_by q)) (text_or ''DESC'' (lu_sort_order q))
             (filter (\<lambda>u. live u \<and> user_matches q u) (users d)) of
        Inl err \<Rightarrow> Inl err
      | Inr rows \<Rightarrow> Inr (admin_page_of (number_or 1 (lu_page q)) (number_or 10 (lu_limit q)) rows))"

definition list_verified_addresses ::
  "nat option \<Rightarrow> nat option \<Rightarrow> string option \<Rightarrow> verified_address list
    \<Rightarrow> (string \<times> timestamp \<times> string \<times> int) admin_page" where
  "list_verified_addresses page limit search rows =
     admin_page_of (number_or 1 page) (number_or 20 limit)
       (map (\<lambda>a. (va_address a, va_at a, va_by a, va_events a))
         (sort_desc va_at
           (filter (\<lambda>a. case nonempty search of None \<Rightarrow> True | Some x \<Rightarrow> ilike (search_pattern x) (va_address a))
             rows)))"

text \<open>A log row with the time the database gave it.\<close>

record activity_query =
  aq_page :: "nat option"
  aq_limit :: "nat option"
  aq_action :: "string option"
  aq_start :: "timestamp option"
  aq_end :: "timestamp option"

definition get_user_activity ::
  "uuid \<Rightarrow> activity_query \<Rightarrow> (timestamp \<times> activity_log) list \<Rightarrow> (timestamp \<times> activity_log) admin_page" where
  "get_user_activity uid q logs =
     admin_page_of (number_or 1 (aq_page q)) (number_or 10 (aq_limit q))
       (sort_desc fst
         (filter (\<lambda>(t, l). al_user l = uid \<and>
             (case nonempty (aq_action q) of None \<Rightarrow> True | Some a \<Rightarrow> al_action l = a) \<and>
             (case (aq_start q, aq_end q) of (Some a, Some b) \<Rightarrow> between a b t | _ \<Rightarrow> True)) logs))"

section \<open>Users\<close>

definition save_user :: "user \<Rightarrow> db \<Rightarrow> db" where
  "save_user u d = d\<lparr>users := save_row u_id u (users d)\<rparr>"

definition no_user :: http_error where
  "no_user = NotFound ''User not found''"

definition banned :: "timestamp \<Rightarrow> string \<Rightarrow> uuid \<Rightarrow> user \<Rightarrow> user" where
  "banned t reason admin_id u =
     u\<lparr>is_banned := True, ban_reason := Some reason, banned_at := Some t, banned_by := Some admin_id\<rparr>"

definition unbanned :: "user \<Rightarrow> user" where
  "unbanned u = u\<lparr>is_banned := False, ban_reason := None, banned_at := None, banned_by := None\<rparr>"

definition admin_ban_user :: "timestamp \<Rightarrow> uuid \<Rightarrow> string \<Rightarrow> uuid \<Rightarrow> db \<Rightarrow> user result \<times> db" where
  "admin_ban_user t uid reason admin_id d =
     (case live_by_id uid (users d) of
        None \<Rightarrow> (Inl no_user, d)
      | Some u \<Rightarrow>
          if is_banned u then (Inl (Conflict ''User is already banned''), d)
          else
            (let u' = banned t reason admin_id u in
             (Inr u', log_activity (u_id u) ''USER_BANNED'' [(''reason'', reason), (''banned_by'', admin_id)]
                (save_user u' d))))"

definition unban_user :: "uuid \<Rightarrow> uuid \<Rightarrow> db \<Rightarrow> user result \<times> db" where
  "unban_user uid admin_id d =
     (case live_by_id uid (users d) of
        None \<Rightarrow> (Inl no_user, d)
      | Some u \<Rightarrow>
          if \<not> is_banned u then (Inl (BadRequest ''User is not banned''), d)
          else
            (Inr (unbanned u), log_activity (u_id u) ''USER_UNBANNED'' [(''unbanned_by'', admin_id)]
               (save_user (unbanned u) d)))"

definition update_user_role :: "uuid \<Rightarrow> string \<Rightarrow> uuid \<Rightarrow> db \<Rightarrow> user result \<times> db" where
  "update_user_role uid new_role admin_id d =
     (if uid = admin_id then (Inl (BadRequest ''You cannot change your own role''), d)
      else
        (case live_by_id uid (users d) of
           None \<Rightarrow> (Inl no_user, d)
         | Some u \<Rightarrow>
             (let u' = u\<lparr>role := new_role\<rparr> in
              (Inr u', log_activity admin_id ''USER_ROLE_CHANGED''
                 [(''target_user_id'', uid), (''previous_role'', role u), (''new_role'', new_role)]
                 (save_user u' d)))))"

section \<open>Markets and comments\<close>

text \<open>
  The notifications are created for the recipients in turn; a recipient whose account is deleted was
  not joined, and reading its address throws while the notifications before it are under way.
\<close>

record outgoing =
  og_to :: "string option"
  og_type :: string
  og_title :: string
  og_message :: string
  og_data :: jsval

fun notify_each :: "timestamp \<Rightarrow> outgoing list \<Rightarrow> notification_db \<Rightarrow> bool \<times> notification_db" where
  "notify_each t [] ns = (True, ns)"
| "notify_each t (g # gs) ns =
     (case og_to g of
        None \<Rightarrow> (False, ns)
      | Some a \<Rightarrow>
          notify_each t gs
            (snd (create_notification t a (og_type g) (og_title g) (og_message g) (Some (og_data g)) ns)))"

definition address_of :: "uuid \<Rightarrow> db \<Rightarrow> string option" where
  "address_of uid d = map_option stellar_address (live_by_id uid (users d))"

definition absent_user :: http_error where
  "absent_user = InternalError ''TypeError: Cannot read properties of null''"

definition resolved_notice :: "market \<Rightarrow> string \<Rightarrow> string option \<Rightarrow> db \<Rightarrow> prediction \<Rightarrow> outgoing" where
  "resolved_notice m outcome remark d p =
     \<lparr>og_to = address_of (p_user p) d, og_type = ''match_resolved'', og_title = ''Market Resolved'',
      og_message = ''The market '' @ quoted (m_title m) @ '' has been resolved. Winning outcome: '' @ outcome @ ''.'',
      og_data = JObj
        ([(''market_id'', JStr (m_id m)), (''resolved_outcome'', JStr outcome),
          (''your_prediction'', JStr (chosen_outcome p)), (''won'', JBool (chosen_outcome p = outcome))] @
         (case nonempty remark of None \<Rightarrow> [] | Some x \<Rightarrow> [(''resolution_note'', JStr x)]))\<rparr>"

definition admin_market_not_found :: "string \<Rightarrow> http_error" where
  "admin_market_not_found ref = NotFound (''Market '' @ quoted ref @ '' not found'')"

text \<open>A null detail of a log entry is left out.\<close>

definition admin_resolve_market ::
  "soroban \<Rightarrow> timestamp \<Rightarrow> string \<Rightarrow> string \<Rightarrow> string option \<Rightarrow> uuid \<Rightarrow> admin_db \<Rightarrow> market result \<times> admin_db" where
  "admin_resolve_market sor t ref outcome remark admin_id s =
     (let d = am_market s in
      case find_market ref (markets d) of
        None \<Rightarrow> (Inl (admin_market_not_found ref), s)
      | Some m \<Rightarrow>
          if is_resolved m then (Inl (Conflict ''Market is already resolved''), s)
          else if m_cancelled m then (Inl (BadRequest ''Cannot resolve a cancelled market''), s)
          else if outcome \<notin> set (outcome_options m) then
            (Inl (BadRequest (''Invalid outcome '' @ quoted outcome @ ''. Valid options: '' @
               join_with '', '' (outcome_options m))), s)
          else
            (let d1 = call_chain (ResolveMarket (on_chain_market_id m) outcome) d in
             case sb_resolve_market sor (on_chain_market_id m) outcome of
               Inl _ \<Rightarrow>
                 (Inl (BadGateway ''Failed to resolve market on Soroban''), s\<lparr>am_market := d1\<rparr>)
             | Inr _ \<Rightarrow>
                 (let m' = m\<lparr>is_resolved := True, resolved_outcome := Some outcome\<rparr>;
                      d2 = save_market m' d1;
                      (told, ns) = notify_each t
                        (map (resolved_notice m outcome remark d2)
                          (filter (\<lambda>p. p_market p = m_id m) (predictions d2))) (am_notes s)
                  in if \<not> told then (Inl absent_user, s\<lparr>am_market := d2, am_notes := ns\<rparr>)
                     else
                       (Inr m', s\<lparr>am_market := log_activity admin_id ''MARKET_RESOLVED_BY_ADMIN''
                          ([(''market_id'', m_id m), (''resolved_outcome'', outcome)] @
                           (case remark of None \<Rightarrow> [] | Some x \<Rightarrow> [(''resolution_note'', x)])) d2,
                          am_notes := ns\<rparr>))))"

definition moderate_comment :: "uuid \<Rightarrow> bool \<Rightarrow> string option \<Rightarrow> db \<Rightarrow> comment result \<times> db" where
  "moderate_comment cid moderated reason d =
     (case by_id c_id cid (comments d) of
        None \<Rightarrow> (Inl (NotFound (''Comment with ID '' @ quoted cid @ '' not found'')), d)
      | Some c \<Rightarrow>
          (let c' = c\<lparr>c_moderated := moderated, c_moderation_reason := reason\<rparr>
           in (Inr c', d\<lparr>comments := save_row c_id c' (comments d)\<rparr>)))"

definition feature_market :: "timestamp \<Rightarrow> string \<Rightarrow> uuid \<Rightarrow> db \<Rightarrow> market result \<times> db" where
  "feature_market t ref admin_id d =
     (case find_market ref (markets d) of
        None \<Rightarrow> (Inl (admin_market_not_found ref), d)
      | Some m \<Rightarrow>
          if is_featured m then (Inl (Conflict ''Market is already featured''), d)
          else
            (let m' = m\<lparr>is_featured := True, featured_at := Some t\<rparr> in
             (Inr m', log_activity admin_id ''MARKET_FEATURED_BY_ADMIN''
                [(''market_id'', m_id m), (''featured_at'', show_int t)] (save_market m' d))))"

definition unfeature_market :: "timestamp \<Rightarrow> string \<Rightarrow> uuid \<Rightarrow> db \<Rightarrow> market result \<times> db" where
  "unfeature_market t ref admin_id d =
     (case find_market ref (markets d) of
        None \<Rightarrow> (Inl (admin_market_not_found ref), d)
      | Some m \<Rightarrow>
          if \<not> is_featured m then (Inl (Conflict ''Market is not featured''), d)
          else
            (let m' = m\<lparr>is_featured := False, featured_at := None\<rparr> in
             (Inr m', log_activity admin_id ''MARKET_UNFEATURED_BY_ADMIN''
                [(''market_id'', m_id m), (''unfeatured_at'', show_int t)] (save_market m' d))))"

section \<open>Cancelling a competition\<close>

definition refund_address :: "db \<Rightarrow> competitor \<Rightarrow> string option" where
  "refund_address d p = nonempty (address_of (pt_user p) d)"

text \<open>
  The amounts already put down, the requests sent, and whether every one was accepted.  Each refund
  takes one stroop of the remainder while there is one.
\<close>

fun refund_loop ::
  "soroban \<Rightarrow> db \<Rightarrow> uuid \<Rightarrow> stroops \<Rightarrow> stroops \<Rightarrow> competitor list
    \<Rightarrow> (uuid \<times> stroops) list \<times> chain_call list \<times> bool" where
  "refund_loop sor d k share remainder [] = ([], [], True)"
| "refund_loop sor d k share remainder (p # ps) =
     (case refund_address d p of
        None \<Rightarrow>
          (let (rs, cs, finished) = refund_loop sor d k share remainder ps
           in ((pt_user p, 0) # rs, cs, finished))
      | Some a \<Rightarrow>
          (let amount = (if remainder > 0 then share + 1 else share);
               left = (if remainder > 0 then remainder - 1 else remainder);
               request = RefundParticipant a k (show_int amount)
           in case sb_refund_participant sor a k (show_int amount) of
                Inl _ \<Rightarrow> ([(pt_user p, amount)], [request], False)
              | Inr _ \<Rightarrow>
                  (let (rs, cs, finished) = refund_loop sor d k share left ps
                   in ((pt_user p, amount) # rs, request # cs, finished))))"

definition should_refund :: "competition \<Rightarrow> competitor list \<Rightarrow> bool" where
  "should_refund c ps \<longleftrightarrow> cp_prize c > 0 \<and> ps \<noteq> []"

definition refund_all ::
  "soroban \<Rightarrow> db \<Rightarrow> competition \<Rightarrow> competitor list \<Rightarrow> (uuid \<times> stroops) list \<times> chain_call list \<times> bool" where
  "refund_all sor d c ps =
     (if should_refund c ps
      then refund_loop sor d (cp_id c) (cp_prize c div int (length ps)) (cp_prize c mod int (length ps)) ps
      else ([], [], True))"

definition cancelled_notice ::
  "competition \<Rightarrow> bool \<Rightarrow> (uuid \<times> stroops) list \<Rightarrow> db \<Rightarrow> competitor \<Rightarrow> outgoing" where
  "cancelled_notice c refunding rs d p =
     \<lparr>og_to = address_of (pt_user p) d, og_type = ''event_cancelled'', og_title = ''Competition Cancelled'',
      og_message = ''The competition '' @ quoted (cp_title c) @ '' has been cancelled by an administrator.'' @
        (if refunding then '' Any applicable refunds have been initiated.'' else []),
      og_data = JObj
        [(''competition_id'', JStr (cp_id c)), (''is_cancelled'', JBool True),
         (''refunded_stroops'',
           JStr (case map_of (rev rs) (pt_user p) of None \<Rightarrow> ''0'' | Some n \<Rightarrow> show_int n))]\<rparr>"

definition admin_cancel_competition ::
  "soroban \<Rightarrow> timestamp \<Rightarrow> uuid \<Rightarrow> uuid \<Rightarrow> admin_db \<Rightarrow> competition result \<times> admin_db" where
  "admin_cancel_competition sor t k admin_id s =
     (case by_id cp_id k (competitions (am_comp s)) of
        None \<Rightarrow> (Inl (competition_missing k), s)
      | Some c \<Rightarrow>
          if cp_cancelled c then (Inl (Conflict ''Competition is already cancelled''), s)
          else if cp_finalized c then
            (Inl (Conflict ''Finalized competitions cannot be cancelled''), s)
          else
            (let ps = in_competition (cp_id c) (competitors (am_comp s));
                 (rs, cs, refunded) = refund_all sor (am_market s) c ps;
                 d1 = fold call_chain cs (am_market s)
             in if \<not> refunded then
                  (Inl (BadGateway ''Failed to refund participants on Soroban''), s\<lparr>am_market := d1\<rparr>)
                else
                  (let c' = c\<lparr>cp_cancelled := True\<rparr>;
                       s1 = s\<lparr>am_market := d1, am_comp := save_competition c' (am_comp s)\<rparr>;
                       (told, ns) = notify_each t (map (cancelled_notice c (should_refund c ps) rs d1) ps) (am_notes s)
                   in if \<not> told then (Inl absent_user, s1\<lparr>am_notes := ns\<rparr>)
                      else
                        (Inr c', s1\<lparr>am_notes := ns,
                           am_market := log_activity admin_id ''COMPETITION_CANCELLED_BY_ADMIN''
                             [(''competition_id'', cp_id c),
                              (''participants_notified'', show_nat (length ps)),
                              (''refunds_initiated'', if should_refund c ps then ''true'' else ''false'')] d1\<rparr>))))"

section \<open>The activity report\<close>

text \<open>\<open>date.toISOString()\<close> for the years up to 9999.\<close>

definition iso_time :: "timestamp \<Rightarrow> string" where
  "iso_time t =
     (let part = (\<lambda>unit m. nat ((t div unit) mod m)) in
      daily_period_key t @ ''T'' @ pad_left 2 (show_nat (part 3600000 24)) @ '':'' @
      pad_left 2 (show_nat (part 60000 60)) @ '':'' @ pad_left 2 (show_nat (part 1000 60)) @ ''.'' @
      pad_left 3 (show_nat (part 1 1000)) @ ''Z'')"

definition report_start :: "string option \<Rightarrow> timestamp \<Rightarrow> timestamp" where
  "report_start timeframe t =
     (if timeframe = Some ''daily'' then t - day_ms
      else if timeframe = Some ''monthly'' then t - 30 * day_ms
      else t - 7 * day_ms)"

record activity_report =
  rp_timeframe :: "string option"
  rp_start :: string
  rp_end :: string
  rp_user_growth :: nat
  rp_markets_created :: nat
  rp_predictions :: nat
  rp_volume :: stroops
  rp_revenue :: stroops

definition activity_report_of :: "string option \<Rightarrow> timestamp \<Rightarrow> db \<Rightarrow> activity_report" where
  "activity_report_of timeframe t d =
     (let since = report_start timeframe t;
          fresh_ones = filter (\<lambda>m. between since t (m_created_at m)) (markets d);
          volume = sum_list (map total_pool_stroops fresh_ones)
      in \<lparr>rp_timeframe = timeframe, rp_start = iso_time since, rp_end = iso_time t,
          rp_user_growth = count_rows (\<lambda>u. live u \<and> between since t (u_created_at u)) (users d),
          rp_markets_created = length fresh_ones,
          rp_predictions = count_rows (\<lambda>p. between since t (submitted_at p)) (predictions d),
          rp_volume = volume, rp_revenue = platform_revenue volume\<rparr>)"

text \<open>The keys and the values of the object, in the order it is written in.\<close>

definition report_keys :: "string list" where
  "report_keys =
     [''timeframe'', ''period_start'', ''period_end'', ''user_growth'', ''markets_created'',
      ''total_predictions'', ''period_volume_stroops'', ''platform_revenue_stroops'']"

definition report_values :: "activity_report \<Rightarrow> string list" where
  "report_values r =
     [text_or [] (rp_timeframe r), rp_start r, rp_end r, show_nat (rp_user_growth r),
      show_nat (rp_markets_created r), show_nat (rp_predictions r), show_int (rp_volume r),
      show_int (rp_revenue r)]"

definition get_activity_report ::
  "string option \<Rightarrow> string option \<Rightarrow> timestamp \<Rightarrow> db \<Rightarrow> activity_report + string" where
  "get_activity_report timeframe format t d =
     (let r = activity_report_of timeframe t d in
      if format = Some ''csv'' then
        Inr (join_with '','' report_keys @ CHR 0x0A # join_with '','' (report_values r))
      else Inl r)"

section \<open>Moderation of creator events\<close>

record moderated_event =
  mo_id :: uuid
  mo_title :: string
  mo_description :: string
  mo_status :: string
  mo_creator_id :: string
  mo_creator_address :: string
  mo_username :: "string option"
  mo_avatar :: "string option"
  mo_verified :: bool
  mo_participants :: int
  mo_matches :: int
  mo_created_at :: timestamp
  mo_updated_at :: timestamp

record moderation_query =
  mq_status :: "string option"
  mq_creator :: "string option"
  mq_page :: "nat option"
  mq_limit :: "nat option"
  mq_sort_by :: "string option"
  mq_sort_order :: "string option"

text \<open>A status the code does not name filters nothing; \<open>flagged\<close> joins a relation the entity does not have.\<close>

definition status_rows :: "string \<Rightarrow> creator_event \<Rightarrow> bool" where
  "status_rows status x =
     (if status = ''active'' then \<not> ce_cancelled x \<and> ce_active x
      else if status = ''cancelled'' then ce_cancelled x
      else if status = ''completed'' then \<not> ce_active x
      else True)"

definition shown_status :: "creator_event \<Rightarrow> string" where
  "shown_status x = (if ce_cancelled x then ''cancelled'' else if ce_active x then ''active'' else ''completed'')"

definition moderated_event_of :: "db \<Rightarrow> creator_event \<Rightarrow> moderated_event" where
  "moderated_event_of d x =
     (let u = live_by_address (creator_address x) (users d) in
      \<lparr>mo_id = ce_id x, mo_title = ce_title x, mo_description = ce_description x,
       mo_status = shown_status x,
       mo_creator_id = (case u of None \<Rightarrow> [] | Some v \<Rightarrow> u_id v),
       mo_creator_address = creator_address x,
       mo_username = Option.bind u username, mo_avatar = Option.bind u avatar_url,
       mo_verified = (case u of None \<Rightarrow> False | Some v \<Rightarrow> role v = ''admin''),
       mo_participants = ce_participants x, mo_matches = match_count x,
       mo_created_at = ce_created_at x, mo_updated_at = ce_created_at x\<rparr>)"

text \<open>The rows skipped follow the limit asked for, the rows taken the limit cut to 100.\<close>

definition list_events_for_moderation ::
  "(string \<Rightarrow> (creator_event \<Rightarrow> int) option) \<Rightarrow> moderation_query \<Rightarrow> db \<Rightarrow> event_db
    \<Rightarrow> (moderated_event list \<times> nat \<times> nat \<times> nat) result" where
  "list_events_for_moderation rank q d ev =
     (let status = text_or ''all'' (mq_status q); page = number_or 1 (mq_page q);
          limit = number_or 20 (mq_limit q); skip = (page - 1) * limit; tk = min limit 100;
          rows = filter (\<lambda>x. status_rows status x \<and>
                   (case nonempty (mq_creator q) of None \<Rightarrow> True | Some a \<Rightarrow> creator_address x = a))
                 (creator_events ev)
      in if status = ''flagged'' then Inl (InternalError ''TypeORMError'')
         else
           (case ordered_by rank (text_or ''created_at'' (mq_sort_by q)) (text_or ''DESC'' (mq_sort_order q)) rows of
              Inl err \<Rightarrow> Inl err
            | Inr xs \<Rightarrow>
                Inr (map (moderated_event_of d) (take tk (drop skip xs)), length rows, page, tk)))"

end
