(* ===== verification/AdminProps.thy ===== *)
theory AdminProps
  imports Admin Platform
begin

text \<open>
  What the administration keeps and what it does not: the books of the markets, the counts of the
  competitions, the roles; the refunds of a cancelled competition; the market an administrator
  resolves; the routes of a banned administrator.
\<close>

section \<open>Who may act\<close>

text \<open>The guards of the controller: the handlers are for administrators, two of them for moderators too.\<close>

definition admin_route :: "string list \<Rightarrow> route" where
  "admin_route roles = \<lparr>rt_public = False, rt_roles = Some roles, rt_ban = False, rt_api_key = False, rt_scopes = []\<rparr>"

definition admin_handlers :: "string list" where
  "admin_handlers = [''admin'']"

definition flag_handlers :: "string list" where
  "flag_handlers = [''admin'', ''moderator'']"

definition may_act :: "string list \<Rightarrow> uuid \<Rightarrow> db \<Rightarrow> bool" where
  "may_act roles a d \<longleftrightarrow>
     is_ok (fst (authorize (\<lambda>_ _. False) 0 (admin_route roles) (Verified a) None (users d) []))"

lemma may_act_iff: "may_act roles a d \<longleftrightarrow> (\<exists>u. live_by_id a (users d) = Some u \<and> role u \<in> set roles)"
proof -
  have ok: "is_ok (fst (authorize mt t rt p h us ks)) \<longleftrightarrow> (\<exists>v. jwt_guard (rt_public rt) p us = Inr v \<and>
      roles_guard (rt_roles rt) v)" if "\<not> rt_ban rt" "\<not> rt_api_key rt" for mt t rt p h us ks
    using that by (cases "jwt_guard (rt_public rt) p us") (auto simp: authorize_def is_ok_def)
  show ?thesis
    unfolding may_act_def by (subst ok) (auto simp: admin_route_def jwt_guard_Inr roles_guard_iff)
qed

text \<open>Some live account is an administrator's.\<close>

definition has_admin :: "db \<Rightarrow> bool" where
  "has_admin d \<longleftrightarrow> list_ex (\<lambda>u. live u \<and> role u = ''admin'') (users d)"

text \<open>
  The writes of the administration, each behind its guard.
\<close>

inductive admin_step :: "admin_db \<Rightarrow> admin_db \<Rightarrow> bool" where
  ban: "may_act admin_handlers a (am_market s) \<Longrightarrow> admin_ban_user t uid reason a (am_market s) = (r, d) \<Longrightarrow>
    admin_step s (s\<lparr>am_market := d\<rparr>)"
| unban: "may_act admin_handlers a (am_market s) \<Longrightarrow> unban_user uid a (am_market s) = (r, d) \<Longrightarrow>
    admin_step s (s\<lparr>am_market := d\<rparr>)"
| change_role: "may_act admin_handlers a (am_market s) \<Longrightarrow> update_user_role uid new_role a (am_market s) = (r, d) \<Longrightarrow>
    admin_step s (s\<lparr>am_market := d\<rparr>)"
| settle: "may_act flag_handlers a (am_market s) \<Longrightarrow> resolve_flag e fid action remark a (am_market s) = (f, d) \<Longrightarrow>
    admin_step s (s\<lparr>am_market := d\<rparr>)"
| moderate: "may_act admin_handlers a (am_market s) \<Longrightarrow> moderate_comment cid b reason' (am_market s) = (c, d) \<Longrightarrow>
    admin_step s (s\<lparr>am_market := d\<rparr>)"
| feature: "may_act admin_handlers a (am_market s) \<Longrightarrow> feature_market t ref a (am_market s) = (m, d) \<Longrightarrow>
    admin_step s (s\<lparr>am_market := d\<rparr>)"
| unfeature: "may_act admin_handlers a (am_market s) \<Longrightarrow> unfeature_market t ref a (am_market s) = (m, d) \<Longrightarrow>
    admin_step s (s\<lparr>am_market := d\<rparr>)"
| resolve: "may_act admin_handlers a (am_market s) \<Longrightarrow> admin_resolve_market sor t ref outcome remark a s = (m, s') \<Longrightarrow>
    admin_step s s'"
| cancel: "may_act admin_handlers a (am_market s) \<Longrightarrow> admin_cancel_competition sor t k a s = (x, s') \<Longrightarrow>
    admin_step s s'"

section \<open>What each operation keeps\<close>

lemma save_user_simps [simp]:
  "markets (save_user u d) = markets d" "predictions (save_user u d) = predictions d"
  "users (save_user u d) = save_row u_id u (users d)"
  by (simp_all add: save_user_def)

lemma fold_call_chain_simps [simp]:
  "users (fold call_chain cs d) = users d" "markets (fold call_chain cs d) = markets d"
  "predictions (fold call_chain cs d) = predictions d" "calls (fold call_chain cs d) = calls d @ cs"
  by (induction cs arbitrary: d) simp_all

text \<open>Saving a row over one of the table changes only the columns in which the two differ.\<close>

lemma same_books_user:
  assumes "live_by_id uid (users d) = Some u" and "keyed u_id (users d)" and "user_line u' = user_line u"
    and "users d' = save_row u_id u' (users d)" and "markets d' = markets d"
    and "predictions d' = predictions d"
  shows "same_books d d'"
proof -
  have u: "u \<in> set (users d)" "u_id u' = u_id u"
    using live_by_id_Some [OF assms(1)] assms(3) by (simp_all add: user_line_def)
  then have "by_id u_id (u_id u') (users d) = Some u" using by_id_in [OF assms(2), of u] by simp
  then have "map user_line (save_row u_id u' (users d)) = map user_line (users d)"
    by (rule map_save_row_same) (use assms(3) in simp)
  then show ?thesis by (simp add: same_books_def assms(4-6))
qed

lemma same_books_market:
  assumes "find_market ref (markets d) = Some m" and "keyed m_id (markets d)" and "market_line m' = market_line m"
    and "markets d' = save_row m_id m' (markets d)" and "users d' = users d"
    and "predictions d' = predictions d"
  shows "same_books d d'"
proof -
  have "m \<in> set (markets d)" using assms(1) by (auto simp: find_market_def dest: find_one_Some)
  then have "by_id m_id (m_id m') (markets d) = Some m"
    using by_id_in [OF assms(2), of m] assms(3) by (simp add: market_line_def)
  then have "map market_line (save_row m_id m' (markets d)) = map market_line (markets d)"
    by (rule map_save_row_same) (use assms(3) in simp)
  then show ?thesis by (simp add: same_books_def assms(4-6))
qed

text \<open>The role and the deletion of a row, and whether the table keeps an administrator.\<close>

definition role_line :: "user \<Rightarrow> uuid \<times> string \<times> bool" where
  "role_line u = (u_id u, role u, live u)"

lemma has_admin_lines:
  assumes "map role_line (users d') = map role_line (users d)" shows "has_admin d' = has_admin d"
proof -
  have "map (\<lambda>u. live u \<and> role u = ''admin'') (users d') = map (\<lambda>u. live u \<and> role u = ''admin'') (users d)"
    by (rule line_cong [OF assms]) (simp add: role_line_def)
  then have "list_ex id (map (\<lambda>u. live u \<and> role u = ''admin'') (users d')) =
      list_ex id (map (\<lambda>u. live u \<and> role u = ''admin'') (users d))" by simp
  then show ?thesis by (simp add: has_admin_def list_ex_iff)
qed

lemma has_admin_intro: "live_by_id a (users d) = Some u \<Longrightarrow> role u = ''admin'' \<Longrightarrow> has_admin d"
  by (auto simp: has_admin_def list_ex_iff dest: live_by_id_Some)

lemma may_act_admin: "may_act admin_handlers a d \<longleftrightarrow> (\<exists>u. live_by_id a (users d) = Some u \<and> role u = ''admin'')"
  by (simp add: may_act_iff admin_handlers_def)

lemma live_by_id_save_other:
  assumes "u_id u' \<noteq> k" shows "live_by_id k (save_row u_id u' us) = live_by_id k us"
proof (induction us)
  case Nil
  then show ?case using assms by (simp add: live_by_id_def)
next
  case (Cons v us)
  then show ?case using assms by (auto simp: live_by_id_def)
qed

text \<open>The contract of the operations on the market tables.\<close>

definition admin_kept :: "db \<Rightarrow> db \<Rightarrow> bool" where
  "admin_kept d d' \<longleftrightarrow>
     same_books d d' \<and> map stellar_address (users d') = map stellar_address (users d) \<and>
     (has_admin d \<longrightarrow> has_admin d')"

lemma admin_kept_users:
  "same_books d d' \<Longrightarrow> users d' = users d \<Longrightarrow> admin_kept d d'"
  by (simp add: admin_kept_def has_admin_def)

lemma admin_kept_same [simp]: "admin_kept d d"
  by (rule admin_kept_users) (auto simp: same_books_def)

lemma admin_kept_user:
  assumes "live_by_id uid (users d) = Some u" and "keyed u_id (users d)"
    and "user_line u' = user_line u" and "stellar_address u' = stellar_address u" and "live u' = live u"
    and "role u' = role u \<or> (\<exists>a v. live_by_id a (users d) = Some v \<and> role v = ''admin'' \<and> a \<noteq> uid)"
    and "d' = log_activity x y z (save_user u' d)"
  shows "admin_kept d d'"
proof -
  have u: "u \<in> set (users d)" "u_id u' = u_id u" "u_id u = uid"
    using live_by_id_Some [OF assms(1)] assms(3) by (simp_all add: user_line_def)
  then have at: "by_id u_id (u_id u') (users d) = Some u" using by_id_in [OF assms(2), of u] by simp
  have "same_books d d'"
    by (rule same_books_user [OF assms(1-3)]) (simp_all add: assms(7))
  moreover have "map stellar_address (users d') = map stellar_address (users d)"
    using map_save_row_same [OF at, of stellar_address] assms(4) by (simp add: assms(7))
  moreover have "has_admin d'" if "has_admin d"
    using assms(6)
  proof
    assume same: "role u' = role u"
    have "role_line u' = role_line u" unfolding role_line_def same assms(5) u(2) ..
    with at have "map role_line (save_row u_id u' (users d)) = map role_line (users d)"
      by (rule map_save_row_same)
    then have "map role_line (users d') = map role_line (users d)" by (simp add: assms(7))
    then have "has_admin d' = has_admin d" by (rule has_admin_lines)
    with that show ?thesis by (rule iffD2 [rotated])
  next
    assume "\<exists>a v. live_by_id a (users d) = Some v \<and> role v = ''admin'' \<and> a \<noteq> uid"
    then obtain a v where v: "live_by_id a (users d) = Some v" "role v = ''admin''" "a \<noteq> uid" by blast
    then have "live_by_id a (users d') = Some v" by (simp add: assms(7) live_by_id_save_other u(2,3))
    then show ?thesis using v(2) by (rule has_admin_intro)
  qed
  ultimately show ?thesis by (simp add: admin_kept_def)
qed

lemma user_writes_keep:
  assumes "keyed u_id (users d)"
  shows "admin_ban_user t uid reason a d = (r, d') \<Longrightarrow> admin_kept d d'"
    and "unban_user uid a d = (r, d') \<Longrightarrow> admin_kept d d'"
    and "may_act admin_handlers a d \<Longrightarrow> update_user_role uid new_role a d = (r, d') \<Longrightarrow> admin_kept d d'"
proof -
  have kept: "admin_kept d (log_activity x y z (save_user u' d))"
    if "live_by_id uid (users d) = Some u" "user_line u' = user_line u" "stellar_address u' = stellar_address u"
      "live u' = live u" "role u' = role u \<or> may_act admin_handlers a d \<and> a \<noteq> uid" for x y z u u'
    by (rule admin_kept_user [OF that(1) assms that(2-4) _ refl]) (use that(5) in \<open>auto simp: may_act_admin\<close>)
  show "admin_kept d d'" if "admin_ban_user t uid reason a d = (r, d')"
  proof (cases "live_by_id uid (users d)")
    case (Some u)
    have "admin_kept d (log_activity x y z (save_user (banned t reason a u) d))" for x y z
      by (rule kept [OF Some]) (simp_all add: banned_def user_line_def live_def)
    then show ?thesis using that Some by (auto simp: admin_ban_user_def Let_def split: if_splits)
  qed (use that in \<open>auto simp: admin_ban_user_def\<close>)
  show "admin_kept d d'" if "unban_user uid a d = (r, d')"
  proof (cases "live_by_id uid (users d)")
    case (Some u)
    have "admin_kept d (log_activity x y z (save_user (unbanned u) d))" for x y z
      by (rule kept [OF Some]) (simp_all add: unbanned_def user_line_def live_def)
    then show ?thesis using that Some by (auto simp: unban_user_def split: if_splits)
  qed (use that in \<open>auto simp: unban_user_def\<close>)
  show "admin_kept d d'" if "may_act admin_handlers a d" "update_user_role uid new_role a d = (r, d')"
  proof (cases "uid \<noteq> a \<and> live_by_id uid (users d) \<noteq> None")
    case True
    then obtain u where u: "live_by_id uid (users d) = Some u" "a \<noteq> uid" by auto
    have "admin_kept d (log_activity x y z (save_user (u\<lparr>role := new_role\<rparr>) d))" for x y z
      by (rule kept [OF u(1)]) (simp_all add: user_line_def live_def that(1) u(2))
    then show ?thesis using that(2) u by (auto simp: update_user_role_def Let_def)
  next
    case False
    then have "d' = d" using that(2) by (auto simp: update_user_role_def split: if_splits)
    then show ?thesis by simp
  qed
qed

lemma admin_kept_market:
  assumes "find_market ref (markets d) = Some m" and "keyed m_id (markets d)" and "market_line m' = market_line m"
    and "markets d' = save_row m_id m' (markets d)" and "users d' = users d" and "predictions d' = predictions d"
  shows "admin_kept d d'"
  by (rule admin_kept_users [OF same_books_market [OF assms] assms(5)])

lemma market_writes_keep:
  assumes "keyed m_id (markets d)"
  shows "feature_market t ref a d = (r, d') \<Longrightarrow> admin_kept d d'"
    and "unfeature_market t ref a d = (r, d') \<Longrightarrow> admin_kept d d'"
    and "moderate_comment cid b reason d = (c, d') \<Longrightarrow> admin_kept d d'"
proof -
  have kept: "admin_kept d (log_activity x y z (save_market m' d))"
    if "find_market ref (markets d) = Some m" "market_line m' = market_line m" for x y z m m'
    by (rule admin_kept_market [OF that(1) assms that(2)]) simp_all
  show "admin_kept d d'" if "feature_market t ref a d = (r, d')"
  proof (cases "find_market ref (markets d)")
    case (Some m)
    have "admin_kept d (log_activity x y z (save_market (m\<lparr>is_featured := True, featured_at := Some t\<rparr>) d))" for x y z
      by (rule kept [OF Some]) (simp add: market_line_def)
    then show ?thesis using that Some by (auto simp: feature_market_def Let_def split: if_splits)
  qed (use that in \<open>auto simp: feature_market_def\<close>)
  show "admin_kept d d'" if "unfeature_market t ref a d = (r, d')"
  proof (cases "find_market ref (markets d)")
    case (Some m)
    have "admin_kept d (log_activity x y z (save_market (m\<lparr>is_featured := False, featured_at := None\<rparr>) d))" for x y z
      by (rule kept [OF Some]) (simp add: market_line_def)
    then show ?thesis using that Some by (auto simp: unfeature_market_def Let_def split: if_splits)
  qed (use that in \<open>auto simp: unfeature_market_def\<close>)
  show "admin_kept d d'" if "moderate_comment cid b reason d = (c, d')"
    using that
    by (auto simp: moderate_comment_def Let_def same_books_def split: option.splits intro!: admin_kept_users)
qed

lemma admin_resolve_kept:
  assumes "keyed m_id (markets (am_market s))" and "admin_resolve_market sor t ref outcome remark a s = (r, s')"
  shows "admin_kept (am_market s) (am_market s') \<and> am_comp s' = am_comp s"
proof (cases "find_market ref (markets (am_market s))")
  case (Some m)
  let ?m = "m\<lparr>is_resolved := True, resolved_outcome := Some outcome\<rparr>"
  let ?d = "call_chain (ResolveMarket (on_chain_market_id m) outcome) (am_market s)"
  have "admin_kept (am_market s) ?d"
    by (rule admin_kept_users) (auto simp: same_books_def)
  moreover have saved: "admin_kept (am_market s) (save_market ?m ?d)"
    by (rule admin_kept_market [OF Some assms(1)]) (simp_all add: market_line_def)
  then have "admin_kept (am_market s) (log_activity x y z (save_market ?m ?d))" for x y z
    by (simp add: admin_kept_def same_books_def has_admin_def)
  ultimately show ?thesis
    using assms(2) Some saved
    by (auto simp: admin_resolve_market_def Let_def simp del: call_chain_simps save_market_simps
        split: if_splits sum.splits prod.splits)
qed (use assms(2) in \<open>auto simp: admin_resolve_market_def\<close>)

text \<open>Settling a report may ban a user; nobody's role, books or address change.\<close>

lemma settle_flag_kept:
  assumes "resolve_flag e fid action remark a d = (f, d')" shows "admin_kept d d'"
proof -
  have "map market_line (markets (flag_effect e a x act d)) = map market_line (markets d) \<and>
    map stake_line (predictions (flag_effect e a x act d)) = map stake_line (predictions d) \<and>
    map user_line (users (flag_effect e a x act d)) = map user_line (users d) \<and>
    map stellar_address (users (flag_effect e a x act d)) = map stellar_address (users d) \<and>
    map role_line (users (flag_effect e a x act d)) = map role_line (users d)" for x act
    by (cases act) (auto simp: update_rows_def cancel_in_db_def ban_user_def market_line_def user_line_def
        role_line_def live_def)
  then show ?thesis
    using assms has_admin_lines [of d' d]
    by (auto simp: resolve_flag_def Let_def admin_kept_def same_books_def split: option.splits if_splits)
qed

lemma cancel_competition_kept:
  assumes "admin_cancel_competition sor t k a s = (r, s')" and "comp_ok (am_comp s)"
  shows "admin_kept (am_market s) (am_market s') \<and> comp_ok (am_comp s')"
proof -
  have "comp_ok (save_competition (c\<lparr>cp_cancelled := True\<rparr>) (am_comp s))"
    if "by_id cp_id k (competitions (am_comp s)) = Some c" for c
  proof -
    have c: "c \<in> set (competitions (am_comp s))" using by_id_Some [OF that] by simp
    then have "cp_id ` set (save_row cp_id (c\<lparr>cp_cancelled := True\<rparr>) (competitions (am_comp s))) =
        cp_id ` set (competitions (am_comp s))" by (auto simp: keys_save_row)
    moreover have "counted (competitors (am_comp s)) (c\<lparr>cp_cancelled := True\<rparr>)"
      using assms(2) c by (simp add: comp_ok_def list_all_iff counted_def)
    ultimately show ?thesis
      using assms(2) by (simp add: save_competition_def comp_ok_def keyed_save_row list_all_save_row)
  qed
  then show ?thesis
    using assms
    by (auto simp: admin_cancel_competition_def Let_def same_books_def
        split: option.splits if_splits prod.splits intro!: admin_kept_users)
qed

section \<open>The administration keeps the tables sound\<close>

definition admin_ok :: "admin_db \<Rightarrow> bool" where
  "admin_ok s \<longleftrightarrow>
     ledger_ok (am_market s) \<and> accounts_ok (users (am_market s)) \<and> comp_ok (am_comp s) \<and>
     has_admin (am_market s)"

lemma admin_ok_kept:
  assumes "admin_kept (am_market s) (am_market s')" and "comp_ok (am_comp s')" and "admin_ok s"
  shows "admin_ok s'"
proof -
  have "map u_id (users (am_market s')) = map u_id (users (am_market s))"
    using assms(1) same_books_parts(2) by (simp add: admin_kept_def)
  then show ?thesis
    using assms same_books_ledger by (auto simp: admin_ok_def admin_kept_def accounts_ok_def keyed_def)
qed

lemma admin_step_ok:
  assumes "admin_step s s'" and "admin_ok s" shows "admin_ok s'"
proof -
  have keys: "keyed u_id (users (am_market s))" "keyed m_id (markets (am_market s))" "comp_ok (am_comp s)"
    using assms(2) by (simp_all add: admin_ok_def accounts_ok_def ledger_ok_def predictions_ok_def)
  have "admin_kept (am_market s) (am_market s') \<and> comp_ok (am_comp s')"
    using assms(1)
  proof cases
    case resolve
    then show ?thesis using admin_resolve_kept [OF keys(2)] keys(3) by simp
  next
    case cancel
    then show ?thesis using cancel_competition_kept keys(3) by blast
  qed (use keys user_writes_keep [OF keys(1)] market_writes_keep [OF keys(2)] settle_flag_kept in auto)
  then show ?thesis using admin_ok_kept [OF _ _ assms(2)] by blast
qed

section \<open>Refunds\<close>

text \<open>The participants with an address, and what each of them gets.\<close>

definition refunded_addresses :: "db \<Rightarrow> competitor list \<Rightarrow> string list" where
  "refunded_addresses d ps = List.map_filter (refund_address d) ps"

fun shares :: "stroops \<Rightarrow> stroops \<Rightarrow> nat \<Rightarrow> stroops list" where
  "shares b r 0 = []"
| "shares b r (Suc n) = (if r > 0 then b + 1 else b) # shares b (if r > 0 then r - 1 else r) n"

definition refund_requests :: "db \<Rightarrow> uuid \<Rightarrow> stroops \<Rightarrow> stroops \<Rightarrow> competitor list \<Rightarrow> chain_call list" where
  "refund_requests d k b r ps =
     map2 (\<lambda>a n. RefundParticipant a k (show_int n)) (refunded_addresses d ps)
       (shares b r (length (refunded_addresses d ps)))"

fun refund_accepted :: "soroban \<Rightarrow> chain_call \<Rightarrow> bool" where
  "refund_accepted sor (RefundParticipant a k n) = is_ok (sb_refund_participant sor a k n)"
| "refund_accepted sor c = False"

lemma refunded_addresses_simps [simp]:
  "refunded_addresses d [] = []"
  "refunded_addresses d (p # ps) =
     (case refund_address d p of None \<Rightarrow> refunded_addresses d ps | Some a \<Rightarrow> a # refunded_addresses d ps)"
  by (simp_all add: refunded_addresses_def List.map_filter_simps split: option.splits)

lemma length_refunded_addresses: "length (refunded_addresses d ps) \<le> length ps"
  by (induction ps) (auto split: option.splits)

lemma all_refunded: "list_all (\<lambda>p. refund_address d p \<noteq> None) ps \<Longrightarrow> length (refunded_addresses d ps) = length ps"
  by (induction ps) auto

lemma length_shares [simp]: "length (shares b r n) = n"
  by (induction n arbitrary: r) simp_all

lemma shares_range: "n' \<in> set (shares b r n) \<Longrightarrow> b \<le> n' \<and> n' \<le> b + 1"
  by (induction n arbitrary: r) (auto split: if_splits)

lemma sum_shares: "0 \<le> r \<Longrightarrow> sum_list (shares b r n) = b * int n + min r (int n)"
  by (induction n arbitrary: r) (auto simp: algebra_simps min_def)

lemma shares_of_pool:
  assumes "0 < N" and "n \<le> N"
  shows "sum_list (shares (pool div int N) (pool mod int N) n) \<le> pool \<or> pool < 0"
    and "sum_list (shares (pool div int N) (pool mod int N) N) = pool"
proof -
  let ?b = "pool div int N" and ?r = "pool mod int N"
  have r: "0 \<le> ?r" "?r < int N" using assms(1) by simp_all
  have pool: "?b * int N + ?r = pool" by (simp add: mult.commute)
  show "sum_list (shares ?b ?r N) = pool" using sum_shares [OF r(1), of ?b N] r(2) pool by simp
  show "sum_list (shares ?b ?r n) \<le> pool \<or> pool < 0"
  proof (cases "pool < 0")
    case False
    then have "0 \<le> ?b" using assms(1) by (simp add: pos_imp_zdiv_nonneg_iff)
    then have "?b * int n \<le> ?b * int N" using assms(2) by (intro mult_left_mono) simp_all
    then show ?thesis using sum_shares [OF r(1), of ?b n] pool by linarith
  qed simp
qed

text \<open>The loop sends the requests in order up to the first that is refused.\<close>

lemma refund_loop_requests:
  assumes "refund_loop sor d k b r ps = (rs, cs, finished)"
  shows "if finished then cs = refund_requests d k b r ps \<and> list_all (refund_accepted sor) cs
    else \<exists>i<length (refund_requests d k b r ps). cs = take (Suc i) (refund_requests d k b r ps) \<and>
      list_all (refund_accepted sor) (take i (refund_requests d k b r ps)) \<and>
      \<not> refund_accepted sor (refund_requests d k b r ps ! i)"
  using assms
proof (induction ps arbitrary: r rs cs)
  case Nil
  then show ?case by (auto simp: refund_requests_def)
next
  case (Cons p ps)
  show ?case
  proof (cases "refund_address d p")
    case None
    then obtain rs' where "refund_loop sor d k b r ps = (rs', cs, finished)"
      using Cons.prems by (auto split: prod.splits)
    moreover have "refund_requests d k b r (p # ps) = refund_requests d k b r ps"
      using None by (simp add: refund_requests_def)
    ultimately show ?thesis using Cons.IH by presburger
  next
    case (Some a)
    define amount where "amount = (if r > 0 then b + 1 else b)"
    define left where "left = (if r > 0 then r - 1 else r)"
    let ?q = "RefundParticipant a k (show_int amount)"
    have reqs: "refund_requests d k b r (p # ps) = ?q # refund_requests d k b left ps"
      using Some by (simp add: refund_requests_def amount_def left_def)
    show ?thesis
    proof (cases "sb_refund_participant sor a k (show_int amount)")
      case (Inl err)
      then have "cs = [?q]" "\<not> finished"
        using Cons.prems Some by (auto simp: Let_def simp flip: amount_def)
      then show ?thesis using Inl unfolding reqs by (auto simp: is_ok_def intro: exI [of _ 0])
    next
      case (Inr x)
      obtain rs1 cs1 where run: "refund_loop sor d k b left ps = (rs1, cs1, finished)" and cs: "cs = ?q # cs1"
        using Cons.prems Some Inr by (auto simp: Let_def split: prod.splits simp flip: amount_def left_def)
      have ok: "refund_accepted sor ?q" using Inr by simp
      show ?thesis
      proof (cases finished)
        case True
        have "cs1 = refund_requests d k b left ps \<and> list_all (refund_accepted sor) cs1"
          using Cons.IH [OF run] unfolding if_P [OF True] .
        then have "cs = ?q # refund_requests d k b left ps" "list_all (refund_accepted sor) cs"
          using cs ok by auto
        then show ?thesis unfolding reqs if_P [OF True] by blast
      next
        case False
        then obtain i where "i < length (refund_requests d k b left ps)"
          "cs1 = take (Suc i) (refund_requests d k b left ps)"
          "list_all (refund_accepted sor) (take i (refund_requests d k b left ps))"
          "\<not> refund_accepted sor (refund_requests d k b left ps ! i)"
          using Cons.IH [OF run] by auto
        then have "Suc i < length (?q # refund_requests d k b left ps) \<and>
            cs = take (Suc (Suc i)) (?q # refund_requests d k b left ps) \<and>
            list_all (refund_accepted sor) (take (Suc i) (?q # refund_requests d k b left ps)) \<and>
            \<not> refund_accepted sor ((?q # refund_requests d k b left ps) ! Suc i)"
          using cs ok by simp
        with False show ?thesis unfolding reqs by (metis (no_types, lifting))
      qed
    qed
  qed
qed

lemma notify_each_all:
  "notify_each t gs ns = (True, ns') \<Longrightarrow>
    map (Some \<circ> nr_address) (note_rows ns') = map (Some \<circ> nr_address) (note_rows ns) @ map og_to gs"
  by (induction t gs ns rule: notify_each.induct)
    (auto simp: create_notification_def Let_def split: option.splits)

lemma refund_all_requests:
  assumes "refund_all sor d c ps = (rs, cs, finished)" and "should_refund c ps"
  shows "if finished then cs = refund_requests d (cp_id c) (cp_prize c div int (length ps)) (cp_prize c mod int (length ps)) ps \<and>
      list_all (refund_accepted sor) cs
    else \<exists>i<length (refund_requests d (cp_id c) (cp_prize c div int (length ps)) (cp_prize c mod int (length ps)) ps).
      cs = take (Suc i) (refund_requests d (cp_id c) (cp_prize c div int (length ps)) (cp_prize c mod int (length ps)) ps) \<and>
      list_all (refund_accepted sor)
        (take i (refund_requests d (cp_id c) (cp_prize c div int (length ps)) (cp_prize c mod int (length ps)) ps)) \<and>
      \<not> refund_accepted sor
        (refund_requests d (cp_id c) (cp_prize c div int (length ps)) (cp_prize c mod int (length ps)) ps ! i)"
  using assms refund_loop_requests by (simp add: refund_all_def)

lemma refund_all_idle: "\<not> should_refund c ps \<Longrightarrow> refund_all sor d c ps = ([], [], True)"
  by (simp add: refund_all_def)

text \<open>What an accepted cancellation did, and what a refused refund left.\<close>

lemma admin_cancel_Inr:
  assumes "admin_cancel_competition sor t k a s = (Inr c', s')"
  obtains c ps rs cs ns where "by_id cp_id k (competitions (am_comp s)) = Some c"
    and "\<not> cp_cancelled c" and "\<not> cp_finalized c" and "c' = c\<lparr>cp_cancelled := True\<rparr>"
    and "ps = in_competition (cp_id c) (competitors (am_comp s))"
    and "refund_all sor (am_market s) c ps = (rs, cs, True)"
    and "am_comp s' = save_competition c' (am_comp s)" and "calls (am_market s') = calls (am_market s) @ cs"
    and "users (am_market s') = users (am_market s)"
    and "notify_each t (map (cancelled_notice c (should_refund c ps) rs (fold call_chain cs (am_market s))) ps) (am_notes s) =
      (True, am_notes s')"
proof -
  obtain c where c: "by_id cp_id k (competitions (am_comp s)) = Some c" "\<not> cp_cancelled c" "\<not> cp_finalized c"
    using assms by (auto simp: admin_cancel_competition_def split: option.splits if_splits)
  define ps where "ps = in_competition (cp_id c) (competitors (am_comp s))"
  obtain rs cs b where run: "refund_all sor (am_market s) c ps = (rs, cs, b)"
    by (cases "refund_all sor (am_market s) c ps")
  show thesis
    by (rule that [OF c _ ps_def])
      (use assms c run in \<open>auto simp: admin_cancel_competition_def Let_def simp flip: ps_def
        split: if_splits prod.splits\<close>)
qed

lemma admin_cancel_refused:
  assumes "admin_cancel_competition sor t k a s = (Inl (BadGateway x), s')"
  obtains c ps rs cs where "by_id cp_id k (competitions (am_comp s)) = Some c"
    and "ps = in_competition (cp_id c) (competitors (am_comp s))"
    and "refund_all sor (am_market s) c ps = (rs, cs, False)"
    and "s' = s\<lparr>am_market := fold call_chain cs (am_market s)\<rparr>"
proof -
  obtain c where c: "by_id cp_id k (competitions (am_comp s)) = Some c" "\<not> cp_cancelled c" "\<not> cp_finalized c"
    using assms
    by (auto simp: admin_cancel_competition_def competition_missing_def split: option.splits if_splits)
  define ps where "ps = in_competition (cp_id c) (competitors (am_comp s))"
  obtain rs cs b where run: "refund_all sor (am_market s) c ps = (rs, cs, b)"
    by (cases "refund_all sor (am_market s) c ps")
  show thesis
    by (rule that [OF c(1) ps_def])
      (use assms c run in \<open>auto simp: admin_cancel_competition_def absent_user_def Let_def simp flip: ps_def
        split: if_splits prod.splits\<close>)
qed

section \<open>Properties\<close>

lemma admin_steps_ok: "admin_step\<^sup>*\<^sup>* s s' \<Longrightarrow> admin_ok s \<Longrightarrow> admin_ok s'"
  by (induction rule: rtranclp_induct) (simp_all add: admin_step_ok)


text \<open>
  C29: an accepted cancellation marks the competition and sends one refund to each participant with an
  address, in order.  The amounts differ by at most one stroop, never add up to more than the prize
  pool, and to all of it when every participant has an address; without a pool nothing is sent.  Every
  participant is notified.
\<close>

theorem cancellation_refunds_the_pool:
  assumes "admin_cancel_competition sor t k a s = (Inr c', s')"
    and "by_id cp_id k (competitions (am_comp s)) = Some c"
    and "ps = in_competition (cp_id c) (competitors (am_comp s))"
  shows "c' = c\<lparr>cp_cancelled := True\<rparr> \<and> by_id cp_id k (competitions (am_comp s')) = Some c' \<and>
    (\<exists>ns. calls (am_market s') = calls (am_market s) @
        map2 (\<lambda>b n. RefundParticipant b k (show_int n)) (refunded_addresses (am_market s) ps) ns \<and>
      list_all (refund_accepted sor) (drop (length (calls (am_market s))) (calls (am_market s'))) \<and>
      (if should_refund c ps then length ns = length (refunded_addresses (am_market s) ps) else ns = []) \<and>
      (\<forall>n\<in>set ns. cp_prize c div int (length ps) \<le> n \<and> n \<le> cp_prize c div int (length ps) + 1) \<and>
      (should_refund c ps \<longrightarrow> sum_list ns \<le> cp_prize c \<and>
        (list_all (\<lambda>p. refund_address (am_market s) p \<noteq> None) ps \<longrightarrow> sum_list ns = cp_prize c))) \<and>
    map (Some \<circ> nr_address) (note_rows (am_notes s')) =
      map (Some \<circ> nr_address) (note_rows (am_notes s)) @ map (\<lambda>p. address_of (pt_user p) (am_market s)) ps"
proof -
  obtain rs cs where run: "refund_all sor (am_market s) c ps = (rs, cs, True)"
    and c': "c' = c\<lparr>cp_cancelled := True\<rparr>" and comp: "am_comp s' = save_competition c' (am_comp s)"
    and calls: "calls (am_market s') = calls (am_market s) @ cs"
    and told: "notify_each t (map (cancelled_notice c (should_refund c ps) rs (fold call_chain cs (am_market s))) ps)
      (am_notes s) = (True, am_notes s')"
    using assms by (elim admin_cancel_Inr) simp
  have k: "cp_id c = k" using by_id_Some [OF assms(2)] by simp
  let ?as = "refunded_addresses (am_market s) ps"
  let ?ns = "if should_refund c ps
    then shares (cp_prize c div int (length ps)) (cp_prize c mod int (length ps)) (length ?as) else []"
  have cs: "cs = map2 (\<lambda>b n. RefundParticipant b k (show_int n)) ?as ?ns \<and> list_all (refund_accepted sor) cs"
    using refund_all_requests [OF run] refund_all_idle [of c ps sor "am_market s"] run
    by (auto simp: refund_requests_def k)
  have sums: "sum_list ?ns \<le> cp_prize c \<and>
      (list_all (\<lambda>p. refund_address (am_market s) p \<noteq> None) ps \<longrightarrow> sum_list ?ns = cp_prize c)"
    if "should_refund c ps"
    using that shares_of_pool [of "length ps" "length ?as" "cp_prize c"] length_refunded_addresses [of "am_market s" ps]
      all_refunded [of "am_market s" ps] by (auto simp: should_refund_def)
  have recipients: "map og_to (map (cancelled_notice c b rs (fold call_chain cs (am_market s))) ps) =
      map (\<lambda>p. address_of (pt_user p) (am_market s)) ps" for b
    by (simp add: cancelled_notice_def address_of_def)
  have "by_id cp_id k (competitions (am_comp s')) = Some c'"
    by (simp add: comp save_competition_def by_id_save_row c' k)
  moreover have "calls (am_market s') = calls (am_market s) @
        map2 (\<lambda>b n. RefundParticipant b k (show_int n)) ?as ?ns \<and>
      list_all (refund_accepted sor) (drop (length (calls (am_market s))) (calls (am_market s'))) \<and>
      (if should_refund c ps then length ?ns = length ?as else ?ns = []) \<and>
      (\<forall>n\<in>set ?ns. cp_prize c div int (length ps) \<le> n \<and> n \<le> cp_prize c div int (length ps) + 1)"
    using cs shares_range by (auto simp: calls)
  ultimately show ?thesis
    using c' sums notify_each_all [OF told] unfolding recipients by blast
qed

text \<open>
  C30: when a refund fails the competition stays open though the refunds before it are paid; cancelling it
  again, with everything else unchanged, sends all of them once more: each participant before the failure
  is paid twice.
\<close>

theorem failed_cancellation_pays_twice:
  assumes "admin_cancel_competition sor t k a s = (Inl (BadGateway x), s1)"
    and "admin_cancel_competition sor' t' k b s1 = (Inr c, s2)"
  shows "am_comp s1 = am_comp s \<and> am_notes s1 = am_notes s \<and>
    (\<exists>reqs i. i < length reqs \<and> calls (am_market s1) = calls (am_market s) @ take (Suc i) reqs \<and>
      list_all (refund_accepted sor) (take i reqs) \<and> \<not> refund_accepted sor (reqs ! i) \<and>
      calls (am_market s2) = calls (am_market s1) @ reqs \<and> list_all (refund_accepted sor') reqs)"
proof -
  obtain c0 ps rs cs where first: "by_id cp_id k (competitions (am_comp s)) = Some c0"
    "ps = in_competition (cp_id c0) (competitors (am_comp s))" "refund_all sor (am_market s) c0 ps = (rs, cs, False)"
    "s1 = s\<lparr>am_market := fold call_chain cs (am_market s)\<rparr>"
    using assms(1) by (rule admin_cancel_refused)
  obtain rs' cs' where second: "refund_all sor' (am_market s1) c0 ps = (rs', cs', True)"
    "calls (am_market s2) = calls (am_market s1) @ cs'"
    using assms(2) first(1,2,4) by (elim admin_cancel_Inr) simp
  have pays: "should_refund c0 ps" using first(3) refund_all_idle by (metis prod.inject)
  have "refund_address (am_market s1) = refund_address (am_market s)"
    by (rule ext) (simp add: refund_address_def address_of_def first(4))
  then have same: "refund_requests (am_market s1) k' x y ps = refund_requests (am_market s) k' x y ps" for k' x y
    by (simp add: refund_requests_def refunded_addresses_def)
  show ?thesis
    using refund_all_requests [OF first(3) pays] refund_all_requests [OF second(1) pays] second(2)
    unfolding same by (auto simp: first(4))
qed


text \<open>
  A ban does not bind an administrator.  The routes of the administration carry no ban guard, so a
  banned administrator passes their guards like any other, while a route with the guard refuses him, and
  his request to lift his own ban succeeds.
\<close>

theorem banned_admin_lifts_own_ban:
  assumes "live_by_id a (users d) = Some u" and "role u = ''admin''" and "is_banned u" and "keyed u_id (users d)"
  shows "fst (authorize accepts t (admin_route admin_handlers) (Verified a) h (users d) ks) = Inr (Some u) \<and>
    (\<exists>x. fst (authorize accepts t ((admin_route admin_handlers)\<lparr>rt_ban := True\<rparr>) (Verified a) h (users d) ks) =
      Inl (Forbidden x)) \<and>
    (\<exists>d'. unban_user a a d = (Inr (unbanned u), d') \<and> live_by_id a (users d') = Some (unbanned u) \<and>
      \<not> is_banned (unbanned u) \<and> may_act admin_handlers a d')"
proof -
  have u: "live u" "u_id u = a" using live_by_id_Some [OF assms(1)] by simp_all
  have saved: "live_by_id a (save_row u_id (unbanned u) (users d)) = Some (unbanned u)"
    using find_one_save_row [OF assms(4) assms(1) [unfolded live_by_id_def], of "unbanned u"] u
    by (simp add: live_by_id_def unbanned_def live_def)
  then have "may_act admin_handlers a (log_activity x y z (save_user (unbanned u) d))" for x y z
    using assms(2) by (simp add: may_act_admin unbanned_def)
  with saved show ?thesis
    using assms
    by (simp add: authorize_def admin_route_def admin_handlers_def jwt_guard_def strategy_validate_def
        roles_guard_def ban_guard_def unban_user_def unbanned_def)
qed

section \<open>Examples\<close>

text \<open>An open competition with a pool of seven stroops and two participants.\<close>

definition open_competition :: competition where
  "open_competition = sample_competition\<lparr>cp_cancelled := False, cp_prize := 7, cp_max := 5, cp_count := 2\<rparr>"

definition sample_competitors :: "competitor list" where
  "sample_competitors =
     [\<lparr>pt_id = ''q1'', pt_user = ''u1'', pt_competition = ''c1'', pt_score = 0, pt_rank = None, pt_joined = 20\<rparr>,
      \<lparr>pt_id = ''q2'', pt_user = ''u9'', pt_competition = ''c1'', pt_score = 0, pt_rank = None, pt_joined = 30\<rparr>]"

definition sample_admin_db :: admin_db where
  "sample_admin_db =
     \<lparr>am_market = sample_db,
      am_comp = \<lparr>cd_users = [], competitions = [open_competition], competitors = sample_competitors, rank_cache = []\<rparr>,
      am_notes = \<lparr>note_rows = [], next_note = 1, sockets = no_sockets\<rparr>\<rparr>"

text \<open>A chain that refuses to refund the administrator.\<close>

definition stingy_chain :: soroban where
  "stingy_chain = sample_chain\<lparr>sb_refund_participant := (\<lambda>a c n. if a = ''GADMIN'' then Inl ''EscrowEmpty'' else Inr ''hash'')\<rparr>"

lemma sample_admin_ok: "admin_ok sample_admin_db"
proof -
  have "comp_ok (am_comp sample_admin_db)"
    by (simp add: comp_ok_def sample_admin_db_def open_competition_def sample_competitors_def sample_competition_def
        keyed_def counted_def in_competition_def)
  then show ?thesis
    using sample_ledger(1)
    by (simp add: admin_ok_def accounts_ok_def keyed_def has_admin_def live_def)
      (simp add: sample_admin_db_def sample_db_def sample_user_def sample_admin_def empty_db_def)
qed

lemma sample_admin_acts: "may_act admin_handlers ''u9'' sample_db" "may_act admin_handlers ''u9'' (am_market sample_admin_db)"
  by (simp_all add: may_act_admin live_by_id_def live_def sample_admin_db_def sample_db_def empty_db_def
      sample_user_def sample_admin_def)


lemma sample_refund_addresses:
  "refunded_addresses (am_market sample_admin_db) sample_competitors = [''GALICE'', ''GADMIN'']"
  "list_all (\<lambda>p. refund_address (am_market sample_admin_db) p \<noteq> None) sample_competitors"
  by (simp_all add: refund_address_def address_of_def live_by_id_def live_def nonempty_def sample_competitors_def
      sample_admin_db_def sample_db_def empty_db_def sample_user_def sample_admin_def)

lemma sample_competition_found:
  "by_id cp_id ''c1'' (competitions (am_comp sample_admin_db)) = Some open_competition"
  "in_competition (cp_id open_competition) (competitors (am_comp sample_admin_db)) = sample_competitors"
  "should_refund open_competition sample_competitors"
  by (simp_all add: sample_admin_db_def open_competition_def sample_competition_def sample_competitors_def
      in_competition_def should_refund_def)

lemmas sample_cancel_defs = admin_cancel_competition_def refund_all_def should_refund_def refund_address_def
  address_of_def live_by_id_def live_def nonempty_def sample_admin_db_def open_competition_def
  sample_competition_def sample_competitors_def in_competition_def sample_db_def empty_db_def sample_user_def
  sample_admin_def Let_def cancelled_notice_def

lemma sample_cancellation:
  "\<exists>c s'. admin_cancel_competition sample_chain 1000 ''c1'' ''u9'' sample_admin_db = (Inr c, s')"
  by (simp add: sample_cancel_defs sample_chain_def)

lemma sample_failed_cancellation:
  "\<exists>x s'. admin_cancel_competition stingy_chain 1000 ''c1'' ''u9'' sample_admin_db = (Inl (BadGateway x), s')"
  "\<exists>c s'. admin_cancel_competition sample_chain 2000 ''c1'' ''u9''
     (snd (admin_cancel_competition stingy_chain 1000 ''c1'' ''u9'' sample_admin_db)) = (Inr c, s')"
  by (simp_all add: sample_cancel_defs sample_chain_def stingy_chain_def)

theorem cancellation_refunds_the_pool_witness:
  "\<exists>ns. calls (am_market (snd (admin_cancel_competition sample_chain 1000 ''c1'' ''u9'' sample_admin_db))) =
     map2 (\<lambda>b n. RefundParticipant b ''c1'' (show_int n)) [''GALICE'', ''GADMIN''] ns \<and> sum_list ns = 7"
proof -
  obtain c s' where run: "admin_cancel_competition sample_chain 1000 ''c1'' ''u9'' sample_admin_db = (Inr c, s')"
    using sample_cancellation by blast
  have "calls (am_market sample_admin_db) = []" "cp_prize open_competition = 7"
    by (simp_all add: sample_admin_db_def sample_db_def empty_db_def open_competition_def)
  then show ?thesis
    using cancellation_refunds_the_pool [OF run sample_competition_found(1) sample_competition_found(2) [symmetric]]
      sample_refund_addresses sample_competition_found(3) by (auto simp: run)
qed

theorem failed_cancellation_pays_twice_witness:
  "let s1 = snd (admin_cancel_competition stingy_chain 1000 ''c1'' ''u9'' sample_admin_db);
       s2 = snd (admin_cancel_competition sample_chain 2000 ''c1'' ''u9'' s1) in
   am_comp s1 = am_comp sample_admin_db \<and>
   (\<exists>reqs i. i < length reqs \<and> calls (am_market s2) = take (Suc i) reqs @ reqs)"
proof -
  obtain x s1 where first: "admin_cancel_competition stingy_chain 1000 ''c1'' ''u9'' sample_admin_db = (Inl (BadGateway x), s1)"
    using sample_failed_cancellation(1) by blast
  obtain c s2 where second: "admin_cancel_competition sample_chain 2000 ''c1'' ''u9'' s1 = (Inr c, s2)"
    using sample_failed_cancellation(2) first by auto
  have "calls (am_market sample_admin_db) = []" by (simp add: sample_admin_db_def sample_db_def empty_db_def)
  then show ?thesis
    using failed_cancellation_pays_twice [OF first second]
    by (simp only: first second Let_def snd_conv append_Nil) metis
qed


theorem banned_admin_lifts_own_ban_witness:
  "\<exists>d'. unban_user ''u9'' ''u9'' (sample_db\<lparr>users := [sample_user, banned 5 ''spam'' ''u8'' sample_admin]\<rparr>) =
     (Inr sample_admin, d') \<and> may_act admin_handlers ''u9'' d'"
proof -
  let ?d = "sample_db\<lparr>users := [sample_user, banned 5 ''spam'' ''u8'' sample_admin]\<rparr>"
  have "live_by_id ''u9'' (users ?d) = Some (banned 5 ''spam'' ''u8'' sample_admin)"
    "role (banned 5 ''spam'' ''u8'' sample_admin) = ''admin''" "is_banned (banned 5 ''spam'' ''u8'' sample_admin)"
    "keyed u_id (users ?d)" "unbanned (banned 5 ''spam'' ''u8'' sample_admin) = sample_admin"
    by (simp_all add: live_by_id_def live_def banned_def unbanned_def keyed_def sample_user_def sample_admin_def)
  then show ?thesis
    using banned_admin_lifts_own_ban [of "''u9''" ?d "banned 5 ''spam'' ''u8'' sample_admin"] by metis
qed

end
