(* ===== verification/Filtering.thy ===== *)
theory Filtering
  imports JsText EventEntities
begin

text \<open>
  Filters of list queries (\<open>backend/src/common/filtering.service.ts\<close>): a request names fields of a
  configured entity, the service answers with SQL conditions whose values are named parameters.
\<close>

section \<open>Configuration and request\<close>

datatype filter_type = FtAddress | FtBoolean | FtDate | FtNumber

fun filter_type_text :: "filter_type \<Rightarrow> string" where
  "filter_type_text FtAddress = ''address''"
| "filter_type_text FtBoolean = ''boolean''"
| "filter_type_text FtDate = ''date''"
| "filter_type_text FtNumber = ''number''"

record field_config =
  fc_column :: string
  fc_type :: filter_type
  fc_sortable :: "bool option"

datatype filter_value =
  FvBool bool | FvNum rat | FvDate timestamp | FvText string | FvTexts "string list" | FvNull

record status_rule =
  sc_field :: string
  sc_value :: filter_value
  sc_operator :: "string option"

record filter_config =
  fg_fields :: "(string \<times> field_config) list"
  fg_statuses :: "(string \<times> status_rule list) list"

datatype date_in = DiDate timestamp | DiText string

datatype bool_in = BiBool bool | BiText string

text \<open>
  The objects of the request as lists of their entries; a text and a list of texts are both lists, and
  what is absent is empty.
\<close>

record filtering_request =
  fq_dates :: "(string \<times> date_in option \<times> date_in option) list"
  fq_statuses :: "string list"
  fq_numbers :: "(string \<times> jsval option \<times> jsval option) list"
  fq_addresses :: "(string \<times> string list) list"
  fq_booleans :: "(string \<times> bool_in) list"
  fq_combination :: "string option"
  fq_sort :: "(string \<times> string option) option"

section \<open>Conditions\<close>

text \<open>
  A condition compares a column with the parameter it names; the SQL text is made from it.  An address
  condition takes a list.
\<close>

datatype sql_cond = SqlCmp string string string | SqlIn string string

datatype clause_shape = OneCond sql_cond | StatusGroups "sql_cond list list"

fun cond_sql :: "sql_cond \<Rightarrow> string" where
  "cond_sql (SqlCmp c op p) = c @ '' '' @ op @ '' :'' @ p"
| "cond_sql (SqlIn c p) = ''LOWER('' @ c @ '') IN (:...'' @ p @ '')''"

fun shape_sql :: "clause_shape \<Rightarrow> string" where
  "shape_sql (OneCond c) = cond_sql c"
| "shape_sql (StatusGroups gs) =
     ''('' @ join_with '' OR '' (map (\<lambda>g. ''('' @ join_with '' AND '' (map cond_sql g) @ '')'') gs) @ '')''"

record filter_clause =
  cl_shape :: clause_shape
  cl_params :: "(string \<times> filter_value) list"

record filter_plan =
  pl_clauses :: "filter_clause list"
  pl_combination :: string
  pl_sort :: "(string option \<times> string) option"

definition param_name :: "nat \<Rightarrow> string" where
  "param_name i = ''filter_'' @ show_nat i"

definition one_clause :: "string \<Rightarrow> string \<Rightarrow> nat \<Rightarrow> filter_value \<Rightarrow> filter_clause" where
  "one_clause column op i v = \<lparr>cl_shape = OneCond (SqlCmp column op (param_name i)), cl_params = [(param_name i, v)]\<rparr>"

section \<open>Reading the request\<close>

definition normalize_array :: "string list \<Rightarrow> string list" where
  "normalize_array xs = concat (map (\<lambda>x. filter (\<lambda>y. y \<noteq> []) (map trim (split_on CHR '','' x))) xs)"

text \<open>\<open>parse_date\<close> is the engine's reading of a date text.\<close>

definition parse_optional_date ::
  "(string \<Rightarrow> timestamp option) \<Rightarrow> date_in option \<Rightarrow> string \<Rightarrow> timestamp option result" where
  "parse_optional_date parse_date x label =
     (case x of
        None \<Rightarrow> Inr None
      | Some (DiDate t) \<Rightarrow> Inr (Some t)
      | Some (DiText s) \<Rightarrow>
          (case parse_date s of
             None \<Rightarrow> Inl (BadRequest (label @ '' must be a valid date''))
           | Some t \<Rightarrow> Inr (Some t)))"

definition parse_optional_number :: "jsval option \<Rightarrow> string \<Rightarrow> rat option result" where
  "parse_optional_number x label =
     (case x of
        None \<Rightarrow> Inr None
      | Some v \<Rightarrow>
          (case finite_num (js_number v) of
             None \<Rightarrow> Inl (BadRequest (label @ '' must be a valid number''))
           | Some n \<Rightarrow> Inr (Some n)))"

fun parse_filter_boolean :: "bool_in \<Rightarrow> string \<Rightarrow> bool result" where
  "parse_filter_boolean (BiBool b) label = Inr b"
| "parse_filter_boolean (BiText s) label =
     (if s = ''true'' then Inr True else if s = ''false'' then Inr False
      else Inl (BadRequest (label @ '' must be true or false'')))"

definition get_field :: "filter_config \<Rightarrow> string \<Rightarrow> filter_type \<Rightarrow> field_config result" where
  "get_field cfg f ty =
     (case map_of (fg_fields cfg) f of
        None \<Rightarrow> Inl (BadRequest (''Unsupported '' @ filter_type_text ty @ '' filter: '' @ f))
      | Some k \<Rightarrow>
          if fc_type k \<noteq> ty then Inl (BadRequest (''Unsupported '' @ filter_type_text ty @ '' filter: '' @ f))
          else Inr k)"

definition assert_combination :: "string \<Rightarrow> unit result" where
  "assert_combination x =
     (if x = ''AND'' \<or> x = ''OR'' then Inr ()
      else Inl (BadRequest (''Unsupported filter combination: '' @ x)))"

section \<open>The clauses\<close>

text \<open>The clauses of the two ends of a range, the first under the next parameter number.\<close>

definition range_clauses ::
  "string \<Rightarrow> ('n \<Rightarrow> filter_value) \<Rightarrow> 'n option \<Rightarrow> 'n option \<Rightarrow> nat \<Rightarrow> filter_clause list \<times> nat" where
  "range_clauses column wrap low high i =
     (let (cs, j) = (case low of None \<Rightarrow> ([], i) | Some v \<Rightarrow> ([one_clause column ''>='' i (wrap v)], i + 1))
      in case high of None \<Rightarrow> (cs, j) | Some v \<Rightarrow> (cs @ [one_clause column ''<='' j (wrap v)], j + 1))"

fun empty_range :: "'n::linorder option \<Rightarrow> 'n option \<Rightarrow> bool" where
  "empty_range (Some a) (Some b) = (a > b)"
| "empty_range a b = False"

fun date_clauses ::
  "(string \<Rightarrow> timestamp option) \<Rightarrow> filter_config \<Rightarrow> (string \<times> date_in option \<times> date_in option) list \<Rightarrow> nat
    \<Rightarrow> (filter_clause list \<times> nat) result" where
  "date_clauses parse_date cfg [] i = Inr ([], i)"
| "date_clauses parse_date cfg ((f, a, b) # rs) i =
     (case get_field cfg f FtDate of Inl e \<Rightarrow> Inl e | Inr k \<Rightarrow>
     (case parse_optional_date parse_date a (f @ ''.from'') of Inl e \<Rightarrow> Inl e | Inr low \<Rightarrow>
     (case parse_optional_date parse_date b (f @ ''.to'') of Inl e \<Rightarrow> Inl e | Inr high \<Rightarrow>
        if empty_range low high then Inl (BadRequest (f @ ''.from must be before '' @ f @ ''.to''))
        else
          (let (cs, j) = range_clauses (fc_column k) FvDate low high i in
           case date_clauses parse_date cfg rs j of
             Inl e \<Rightarrow> Inl e
           | Inr (ds, n) \<Rightarrow> Inr (cs @ ds, n)))))"

fun number_clauses ::
  "filter_config \<Rightarrow> (string \<times> jsval option \<times> jsval option) list \<Rightarrow> nat \<Rightarrow> (filter_clause list \<times> nat) result" where
  "number_clauses cfg [] i = Inr ([], i)"
| "number_clauses cfg ((f, a, b) # rs) i =
     (case get_field cfg f FtNumber of Inl e \<Rightarrow> Inl e | Inr k \<Rightarrow>
     (case parse_optional_number a (f @ ''.min'') of Inl e \<Rightarrow> Inl e | Inr low \<Rightarrow>
     (case parse_optional_number b (f @ ''.max'') of Inl e \<Rightarrow> Inl e | Inr high \<Rightarrow>
        if empty_range low high then Inl (BadRequest (f @ ''.min must be less than '' @ f @ ''.max''))
        else
          (let (cs, j) = range_clauses (fc_column k) FvNum low high i in
           case number_clauses cfg rs j of
             Inl e \<Rightarrow> Inl e
           | Inr (ds, n) \<Rightarrow> Inr (cs @ ds, n)))))"

text \<open>
  Indexing an object by a name finds inherited members too.  Such a member is no field of the right type,
  but it passes as a status, on which \<open>map\<close> then throws, and as a sort field without a column.
\<close>

definition object_members :: "string list" where
  "object_members =
     [''constructor'', ''__defineGetter__'', ''__defineSetter__'', ''hasOwnProperty'', ''__lookupGetter__'',
      ''__lookupSetter__'', ''isPrototypeOf'', ''propertyIsEnumerable'', ''toString'', ''valueOf'',
      ''__proto__'', ''toLocaleString'']"

fun number_conditions :: "status_rule list \<Rightarrow> nat \<Rightarrow> sql_cond list \<times> (string \<times> filter_value) list \<times> nat" where
  "number_conditions [] i = ([], [], i)"
| "number_conditions (c # cs) i =
     (let (xs, ps, j) = number_conditions cs (i + 1)
      in (SqlCmp (sc_field c) (case sc_operator c of None \<Rightarrow> ''='' | Some x \<Rightarrow> x) (param_name i) # xs,
          (param_name i, sc_value c) # ps, j))"

fun status_groups ::
  "filter_config \<Rightarrow> string list \<Rightarrow> nat \<Rightarrow> (sql_cond list list \<times> (string \<times> filter_value) list \<times> nat) result" where
  "status_groups cfg [] i = Inr ([], [], i)"
| "status_groups cfg (st # ss) i =
     (case map_of (fg_statuses cfg) st of
        None \<Rightarrow>
          if st \<in> set object_members then Inl (InternalError ''TypeError: conditions.map is not a function'')
          else Inl (BadRequest (''Unsupported status filter: '' @ st))
      | Some cs \<Rightarrow>
          (let (g, ps, j) = number_conditions cs i in
           case status_groups cfg ss j of
             Inl e \<Rightarrow> Inl e
           | Inr (gs, qs, n) \<Rightarrow> Inr (g # gs, ps @ qs, n)))"

definition status_clauses :: "filter_config \<Rightarrow> string list \<Rightarrow> nat \<Rightarrow> (filter_clause list \<times> nat) result" where
  "status_clauses cfg statuses i =
     (let ss = normalize_array statuses in
      if ss = [] then Inr ([], i)
      else
        (case status_groups cfg ss i of
           Inl e \<Rightarrow> Inl e
         | Inr (gs, ps, n) \<Rightarrow>
             Inr ([\<lparr>cl_shape = StatusGroups gs, cl_params = ps\<rparr>],
                  i + sum_list (map (\<lambda>st. case map_of (fg_statuses cfg) st of None \<Rightarrow> 0 | Some cs \<Rightarrow> length cs) ss))))"

fun address_clauses :: "filter_config \<Rightarrow> (string \<times> string list) list \<Rightarrow> nat \<Rightarrow> (filter_clause list \<times> nat) result" where
  "address_clauses cfg [] i = Inr ([], i)"
| "address_clauses cfg ((f, x) # rs) i =
     (case get_field cfg f FtAddress of Inl e \<Rightarrow> Inl e | Inr k \<Rightarrow>
        (let as = map (\<lambda>a. to_lower (trim a)) (normalize_array x) in
         if as = [] \<or> [] \<in> set as then Inl (BadRequest (f @ '' must include a valid address''))
         else
           (case address_clauses cfg rs (i + 1) of
              Inl e \<Rightarrow> Inl e
            | Inr (ds, n) \<Rightarrow>
                Inr (\<lparr>cl_shape = OneCond (SqlIn (fc_column k) (param_name i)),
                      cl_params = [(param_name i, FvTexts as)]\<rparr> # ds, n))))"

fun boolean_clauses :: "filter_config \<Rightarrow> (string \<times> bool_in) list \<Rightarrow> nat \<Rightarrow> (filter_clause list \<times> nat) result" where
  "boolean_clauses cfg [] i = Inr ([], i)"
| "boolean_clauses cfg ((f, x) # rs) i =
     (case get_field cfg f FtBoolean of Inl e \<Rightarrow> Inl e | Inr k \<Rightarrow>
     (case parse_filter_boolean x f of Inl e \<Rightarrow> Inl e | Inr b \<Rightarrow>
        (case boolean_clauses cfg rs (i + 1) of
           Inl e \<Rightarrow> Inl e
         | Inr (ds, n) \<Rightarrow> Inr (one_clause (fc_column k) ''='' i (FvBool b) # ds, n))))"

definition build_sort ::
  "filter_config \<Rightarrow> (string \<times> string option) option \<Rightarrow> (string option \<times> string) option result" where
  "build_sort cfg wanted =
     (case wanted of
        None \<Rightarrow> Inr None
      | Some (f, dir) \<Rightarrow>
          (let finish = (\<lambda>column.
             let d = to_upper (case dir of None \<Rightarrow> ''DESC'' | Some x \<Rightarrow> x) in
             if d \<noteq> ''ASC'' \<and> d \<noteq> ''DESC'' then
               Inl (BadRequest (''Unsupported sort direction: '' @ (case dir of None \<Rightarrow> ''undefined'' | Some x \<Rightarrow> x)))
             else Inr (Some (column, d)))
           in case map_of (fg_fields cfg) f of
                None \<Rightarrow>
                  if f \<in> set object_members then finish None
                  else Inl (BadRequest (''Unsupported sort field: '' @ f))
              | Some k \<Rightarrow>
                  if fc_sortable k = Some False then Inl (BadRequest (''Unsupported sort field: '' @ f))
                  else finish (Some (fc_column k))))"

definition build_filter_plan ::
  "(string \<Rightarrow> timestamp option) \<Rightarrow> filter_config \<Rightarrow> filtering_request \<Rightarrow> filter_plan result" where
  "build_filter_plan parse_date cfg q =
     (let combination = (case fq_combination q of None \<Rightarrow> ''AND'' | Some x \<Rightarrow> x) in
      case assert_combination combination of Inl e \<Rightarrow> Inl e | Inr _ \<Rightarrow>
     (case date_clauses parse_date cfg (fq_dates q) 0 of Inl e \<Rightarrow> Inl e | Inr (c1, i1) \<Rightarrow>
     (case status_clauses cfg (fq_statuses q) i1 of Inl e \<Rightarrow> Inl e | Inr (c2, i2) \<Rightarrow>
     (case number_clauses cfg (fq_numbers q) i2 of Inl e \<Rightarrow> Inl e | Inr (c3, i3) \<Rightarrow>
     (case address_clauses cfg (fq_addresses q) i3 of Inl e \<Rightarrow> Inl e | Inr (c4, i4) \<Rightarrow>
     (case boolean_clauses cfg (fq_booleans q) i4 of Inl e \<Rightarrow> Inl e | Inr (c5, i5) \<Rightarrow>
     (case build_sort cfg (fq_sort q) of Inl e \<Rightarrow> Inl e | Inr chosen \<Rightarrow>
        Inr \<lparr>pl_clauses = c1 @ c2 @ c3 @ c4 @ c5, pl_combination = combination, pl_sort = chosen\<rparr>)))))))"

text \<open>
  The conditions are joined inside one pair of brackets; a plan without clauses adds none.  A sort field
  without a column clears the order.
\<close>

definition filter_sql :: "filter_plan \<Rightarrow> string option" where
  "filter_sql p =
     (if pl_clauses p = [] then None
      else Some (''('' @ join_with ('' '' @ (if pl_combination p = ''OR'' then ''OR'' else ''AND'') @ '' '')
        (map (\<lambda>c. shape_sql (cl_shape c)) (pl_clauses p)) @ '')''))"

section \<open>The configured entities\<close>

definition creator_event_filter_config :: filter_config where
  "creator_event_filter_config =
     \<lparr>fg_fields =
       [(''created_at'', \<lparr>fc_column = ''creatorEvent.created_at'', fc_type = FtDate, fc_sortable = None\<rparr>),
        (''on_chain_created_at'', \<lparr>fc_column = ''creatorEvent.on_chain_created_at'', fc_type = FtDate, fc_sortable = None\<rparr>),
        (''participant_count'', \<lparr>fc_column = ''creatorEvent.participant_count'', fc_type = FtNumber, fc_sortable = None\<rparr>),
        (''match_count'', \<lparr>fc_column = ''creatorEvent.match_count'', fc_type = FtNumber, fc_sortable = None\<rparr>),
        (''creator'', \<lparr>fc_column = ''creatorEvent.creator_address'', fc_type = FtAddress, fc_sortable = Some False\<rparr>),
        (''is_active'', \<lparr>fc_column = ''creatorEvent.is_active'', fc_type = FtBoolean, fc_sortable = None\<rparr>),
        (''is_cancelled'', \<lparr>fc_column = ''creatorEvent.is_cancelled'', fc_type = FtBoolean, fc_sortable = None\<rparr>)],
      fg_statuses =
       [(''active'', [\<lparr>sc_field = ''creatorEvent.is_active'', sc_value = FvBool True, sc_operator = None\<rparr>,
                     \<lparr>sc_field = ''creatorEvent.is_cancelled'', sc_value = FvBool False, sc_operator = None\<rparr>]),
        (''completed'', [\<lparr>sc_field = ''creatorEvent.is_active'', sc_value = FvBool False, sc_operator = None\<rparr>,
                        \<lparr>sc_field = ''creatorEvent.is_cancelled'', sc_value = FvBool False, sc_operator = None\<rparr>]),
        (''cancelled'', [\<lparr>sc_field = ''creatorEvent.is_cancelled'', sc_value = FvBool True, sc_operator = None\<rparr>])]\<rparr>"

definition match_filter_config :: filter_config where
  "match_filter_config =
     \<lparr>fg_fields =
       [(''created_at'', \<lparr>fc_column = ''match.created_at'', fc_type = FtDate, fc_sortable = None\<rparr>),
        (''match_time'', \<lparr>fc_column = ''match.match_time'', fc_type = FtDate, fc_sortable = None\<rparr>),
        (''submitted_at'', \<lparr>fc_column = ''match.submitted_at'', fc_type = FtDate, fc_sortable = None\<rparr>),
        (''submitted_by'', \<lparr>fc_column = ''match.submitted_by'', fc_type = FtAddress, fc_sortable = Some False\<rparr>),
        (''result_submitted'', \<lparr>fc_column = ''match.result_submitted'', fc_type = FtBoolean, fc_sortable = None\<rparr>)],
      fg_statuses =
       [(''active'', [\<lparr>sc_field = ''match.result_submitted'', sc_value = FvBool False, sc_operator = None\<rparr>]),
        (''completed'', [\<lparr>sc_field = ''match.result_submitted'', sc_value = FvBool True, sc_operator = None\<rparr>])]\<rparr>"

definition prediction_filter_config :: filter_config where
  "prediction_filter_config =
     \<lparr>fg_fields =
       [(''submitted_at'', \<lparr>fc_column = ''prediction.submitted_at'', fc_type = FtDate, fc_sortable = None\<rparr>),
        (''stake_amount_stroops'', \<lparr>fc_column = ''prediction.stake_amount_stroops'', fc_type = FtNumber, fc_sortable = None\<rparr>),
        (''participant'', \<lparr>fc_column = ''user.stellar_address'', fc_type = FtAddress, fc_sortable = Some False\<rparr>),
        (''payout_claimed'', \<lparr>fc_column = ''prediction.payout_claimed'', fc_type = FtBoolean, fc_sortable = None\<rparr>)],
      fg_statuses =
       [(''active'', [\<lparr>sc_field = ''prediction.payout_claimed'', sc_value = FvBool False, sc_operator = None\<rparr>]),
        (''completed'', [\<lparr>sc_field = ''prediction.payout_claimed'', sc_value = FvBool True, sc_operator = None\<rparr>])]\<rparr>"

section \<open>What a plan selects\<close>

text \<open>
  SQL's reading of the conditions on a row, given the values of its columns and those of the parameters;
  a comparison with NULL does not hold.
\<close>

type_synonym row_values = "string \<Rightarrow> filter_value"

fun value_order :: "(int \<Rightarrow> bool) \<Rightarrow> filter_value \<Rightarrow> filter_value \<Rightarrow> bool" where
  "value_order ok (FvNum x) (FvNum y) = ok (if x < y then -1 else if x = y then 0 else 1)"
| "value_order ok (FvDate x) (FvDate y) = ok (if x < y then -1 else if x = y then 0 else 1)"
| "value_order ok x y = False"

definition compares :: "string \<Rightarrow> filter_value \<Rightarrow> filter_value \<Rightarrow> bool" where
  "compares op x y =
     (if op = ''='' then x \<noteq> FvNull \<and> y \<noteq> FvNull \<and> x = y
      else if op = ''!='' then x \<noteq> FvNull \<and> y \<noteq> FvNull \<and> x \<noteq> y
      else if op = ''IS'' then x = y
      else if op = ''IS NOT'' then x \<noteq> y
      else if op = ''>='' then value_order (\<lambda>n. n \<ge> 0) x y
      else if op = ''<='' then value_order (\<lambda>n. n \<le> 0) x y
      else False)"

fun in_list :: "filter_value \<Rightarrow> filter_value \<Rightarrow> bool" where
  "in_list (FvText x) (FvTexts xs) = (to_lower x \<in> set xs)"
| "in_list x y = False"

fun cond_holds :: "(string \<Rightarrow> filter_value option) \<Rightarrow> row_values \<Rightarrow> sql_cond \<Rightarrow> bool" where
  "cond_holds env row (SqlCmp c op p) = (case env p of None \<Rightarrow> False | Some v \<Rightarrow> compares op (row c) v)"
| "cond_holds env row (SqlIn c p) = (case env p of None \<Rightarrow> False | Some v \<Rightarrow> in_list (row c) v)"

fun shape_holds :: "(string \<Rightarrow> filter_value option) \<Rightarrow> row_values \<Rightarrow> clause_shape \<Rightarrow> bool" where
  "shape_holds env row (OneCond c) = cond_holds env row c"
| "shape_holds env row (StatusGroups gs) = list_ex (list_all (cond_holds env row)) gs"

text \<open>All parameters end up in one map, where a later value replaces an earlier one of the same name.\<close>

definition plan_params :: "filter_plan \<Rightarrow> (string \<times> filter_value) list" where
  "plan_params p = concat (map cl_params (pl_clauses p))"

definition plan_selects :: "filter_plan \<Rightarrow> row_values \<Rightarrow> bool" where
  "plan_selects p row =
     (let holds = map (\<lambda>c. shape_holds (map_of (rev (plan_params p))) row (cl_shape c)) (pl_clauses p) in
      holds = [] \<or> (if pl_combination p = ''OR'' then list_ex id holds else list_all id holds))"

section \<open>What a request asks for\<close>

text \<open>The conditions the request states on a row, read from the request alone.\<close>

definition column_of :: "filter_config \<Rightarrow> string \<Rightarrow> string" where
  "column_of cfg f = fc_column (the (map_of (fg_fields cfg) f))"

definition value_or_none :: "'a option result \<Rightarrow> 'a option" where
  "value_or_none r = (case r of Inl _ \<Rightarrow> None | Inr x \<Rightarrow> x)"

definition range_conditions ::
  "string \<Rightarrow> ('n \<Rightarrow> filter_value) \<Rightarrow> 'n option \<Rightarrow> 'n option \<Rightarrow> row_values \<Rightarrow> bool list" where
  "range_conditions column wrap low high row =
     (case low of None \<Rightarrow> [] | Some v \<Rightarrow> [compares ''>='' (row column) (wrap v)]) @
     (case high of None \<Rightarrow> [] | Some v \<Rightarrow> [compares ''<='' (row column) (wrap v)])"

definition date_conditions :: "(string \<Rightarrow> timestamp option) \<Rightarrow> filter_config \<Rightarrow> filtering_request \<Rightarrow> row_values \<Rightarrow> bool list" where
  "date_conditions parse_date cfg q row = concat (map (\<lambda>(f, a, b).
     range_conditions (column_of cfg f) FvDate (value_or_none (parse_optional_date parse_date a []))
       (value_or_none (parse_optional_date parse_date b [])) row) (fq_dates q))"

definition number_range_conditions :: "filter_config \<Rightarrow> filtering_request \<Rightarrow> row_values \<Rightarrow> bool list" where
  "number_range_conditions cfg q row = concat (map (\<lambda>(f, a, b).
     range_conditions (column_of cfg f) FvNum (value_or_none (parse_optional_number a []))
       (value_or_none (parse_optional_number b [])) row) (fq_numbers q))"

definition status_holds :: "row_values \<Rightarrow> status_rule \<Rightarrow> bool" where
  "status_holds row c =
     compares (case sc_operator c of None \<Rightarrow> ''='' | Some x \<Rightarrow> x) (row (sc_field c)) (sc_value c)"

definition status_conditions :: "filter_config \<Rightarrow> string list \<Rightarrow> row_values \<Rightarrow> bool list" where
  "status_conditions cfg ss row =
     (if ss = [] then []
      else [list_ex (\<lambda>st. list_all (status_holds row) (the (map_of (fg_statuses cfg) st))) ss])"

definition address_conditions :: "filter_config \<Rightarrow> filtering_request \<Rightarrow> row_values \<Rightarrow> bool list" where
  "address_conditions cfg q row = map (\<lambda>(f, x).
     in_list (row (column_of cfg f)) (FvTexts (map (\<lambda>a. to_lower (trim a)) (normalize_array x)))) (fq_addresses q)"

fun wanted_boolean :: "bool_in \<Rightarrow> bool" where
  "wanted_boolean (BiBool b) = b"
| "wanted_boolean (BiText s) = (s = ''true'')"

definition boolean_conditions :: "filter_config \<Rightarrow> filtering_request \<Rightarrow> row_values \<Rightarrow> bool list" where
  "boolean_conditions cfg q row =
     map (\<lambda>(f, x). compares ''='' (row (column_of cfg f)) (FvBool (wanted_boolean x))) (fq_booleans q)"

definition request_conditions :: "(string \<Rightarrow> timestamp option) \<Rightarrow> filter_config \<Rightarrow> filtering_request \<Rightarrow> row_values \<Rightarrow> bool list" where
  "request_conditions parse_date cfg q row =
     date_conditions parse_date cfg q row @ status_conditions cfg (normalize_array (fq_statuses q)) row @
     number_range_conditions cfg q row @ address_conditions cfg q row @ boolean_conditions cfg q row"

text \<open>A condition made of a configured column, a configured operator and a parameter's name.\<close>

definition configured_columns :: "filter_config \<Rightarrow> string list" where
  "configured_columns cfg =
     map (fc_column \<circ> snd) (fg_fields cfg) @ map sc_field (concat (map snd (fg_statuses cfg)))"

definition configured_operators :: "filter_config \<Rightarrow> string list" where
  "configured_operators cfg =
     [''='', ''>='', ''<=''] @ List.map_filter sc_operator (concat (map snd (fg_statuses cfg)))"

fun cond_configured :: "filter_config \<Rightarrow> sql_cond \<Rightarrow> bool" where
  "cond_configured cfg (SqlCmp c op p) \<longleftrightarrow>
     c \<in> set (configured_columns cfg) \<and> op \<in> set (configured_operators cfg) \<and> p \<in> range param_name"
| "cond_configured cfg (SqlIn c p) \<longleftrightarrow> c \<in> set (configured_columns cfg) \<and> p \<in> range param_name"

fun shape_configured :: "filter_config \<Rightarrow> clause_shape \<Rightarrow> bool" where
  "shape_configured cfg (OneCond c) = cond_configured cfg c"
| "shape_configured cfg (StatusGroups gs) = list_all (list_all (cond_configured cfg)) gs"

section \<open>The contract of a section of clauses\<close>

text \<open>
  The clauses use the parameter numbers from \<open>i\<close> up to \<open>j\<close>, each once, and in every environment that binds
  them to their values they hold exactly when the conditions do.
\<close>

definition binds :: "(string \<Rightarrow> filter_value option) \<Rightarrow> (string \<times> filter_value) list \<Rightarrow> bool" where
  "binds env ps \<longleftrightarrow> list_all (\<lambda>(p, v). env p = Some v) ps"

definition params_of :: "filter_clause list \<Rightarrow> (string \<times> filter_value) list" where
  "params_of cs = concat (map cl_params cs)"

definition section_ok ::
  "filter_config \<Rightarrow> nat \<Rightarrow> nat \<Rightarrow> filter_clause list \<Rightarrow> (row_values \<Rightarrow> bool list) \<Rightarrow> bool" where
  "section_ok cfg i j cs conds \<longleftrightarrow>
     i \<le> j \<and> map fst (params_of cs) = map param_name [i..<j] \<and>
     (\<forall>env row. binds env (params_of cs) \<longrightarrow> map (\<lambda>c. shape_holds env row (cl_shape c)) cs = conds row) \<and>
     list_all (\<lambda>c. shape_configured cfg (cl_shape c)) cs"

lemma params_of_simps [simp]:
  "params_of [] = []" "params_of (c # cs) = cl_params c @ params_of cs" "params_of (cs @ ds) = params_of cs @ params_of ds"
  by (simp_all add: params_of_def)

lemma binds_simps [simp]:
  "binds env []" "binds env ((p, v) # ps) \<longleftrightarrow> env p = Some v \<and> binds env ps"
  "binds env (ps @ qs) \<longleftrightarrow> binds env ps \<and> binds env qs"
  by (simp_all add: binds_def)

lemma section_Nil: "section_ok cfg i i [] (\<lambda>row. [])"
  by (simp add: section_ok_def)

lemma section_append:
  assumes "section_ok cfg i j cs P" and "section_ok cfg j n ds Q"
  shows "section_ok cfg i n (cs @ ds) (\<lambda>row. P row @ Q row)"
proof -
  have "i \<le> j" "j \<le> n" using assms by (simp_all add: section_ok_def)
  then have "map param_name [i..<n] = map param_name [i..<j] @ map param_name [j..<n]"
    by (metis map_append upt_add_eq_append le_Suc_ex)
  with assms show ?thesis by (simp add: section_ok_def)
qed

lemma section_one:
  "column \<in> set (configured_columns cfg) \<Longrightarrow> op \<in> set (configured_operators cfg) \<Longrightarrow>
    section_ok cfg i (Suc i) [one_clause column op i v] (\<lambda>row. [compares op (row column) v])"
  by (simp add: section_ok_def one_clause_def)

lemma basic_operators [simp]:
  "''='' \<in> set (configured_operators cfg)" "''>='' \<in> set (configured_operators cfg)"
  "''<='' \<in> set (configured_operators cfg)"
  by (simp_all add: configured_operators_def)

lemma section_range:
  assumes "range_clauses column wrap low high i = (cs, j)" and "column \<in> set (configured_columns cfg)"
  shows "section_ok cfg i j cs (range_conditions column wrap low high)"
proof -
  have one: "section_ok cfg n (Suc n) [one_clause column op n v] (\<lambda>row. [compares op (row column) v])"
    if "op = ''>='' \<or> op = ''<=''" for n op v
    using that assms(2) by (auto intro: section_one)
  show ?thesis
    using assms(1) section_append [OF one one, of "''>=''" "''<=''" i] one [of "''>=''"] one [of "''<=''"]
      section_Nil [of cfg i]
    by (auto simp: range_clauses_def range_conditions_def [abs_def] split: option.splits)
qed

lemma get_field_Inr:
  "get_field cfg f ty = Inr k \<Longrightarrow> fc_column k = column_of cfg f \<and> column_of cfg f \<in> set (configured_columns cfg)"
  by (auto simp: get_field_def column_of_def configured_columns_def split: option.splits if_splits
      dest!: map_of_SomeD intro!: disjI1 image_eqI)

lemma value_of_date:
  "parse_optional_date p x l = Inr y \<Longrightarrow> value_or_none (parse_optional_date p x l') = y"
  by (auto simp: parse_optional_date_def value_or_none_def split: option.splits date_in.splits)

lemma value_of_number:
  "parse_optional_number x l = Inr y \<Longrightarrow> value_or_none (parse_optional_number x l') = y"
  by (auto simp: parse_optional_number_def value_or_none_def split: option.splits)

lemma section_dates:
  "date_clauses pd cfg rs i = Inr (cs, j) \<Longrightarrow>
    section_ok cfg i j cs (\<lambda>row. concat (map (\<lambda>(f, a, b). range_conditions (column_of cfg f) FvDate
      (value_or_none (parse_optional_date pd a [])) (value_or_none (parse_optional_date pd b [])) row) rs))"
proof (induction rs arbitrary: i cs)
  case Nil
  then show ?case by (simp add: section_Nil)
next
  case (Cons r rs)
  obtain f a b where r: "r = (f, a, b)" by (cases r)
  obtain k low high cs1 j1 ds where parts: "get_field cfg f FtDate = Inr k"
    "parse_optional_date pd a (f @ ''.from'') = Inr low" "parse_optional_date pd b (f @ ''.to'') = Inr high"
    "range_clauses (fc_column k) FvDate low high i = (cs1, j1)" "date_clauses pd cfg rs j1 = Inr (ds, j)"
    "cs = cs1 @ ds"
    using Cons.prems unfolding r by (auto simp: Let_def split: sum.splits if_splits prod.splits)
  show ?case
    using section_append [OF section_range [OF parts(4)] Cons.IH [OF parts(5)]] get_field_Inr [OF parts(1)]
    by (simp add: r parts(6) value_of_date [OF parts(2)] value_of_date [OF parts(3)])
qed

lemma section_numbers:
  "number_clauses cfg rs i = Inr (cs, j) \<Longrightarrow>
    section_ok cfg i j cs (\<lambda>row. concat (map (\<lambda>(f, a, b). range_conditions (column_of cfg f) FvNum
      (value_or_none (parse_optional_number a [])) (value_or_none (parse_optional_number b [])) row) rs))"
proof (induction rs arbitrary: i cs)
  case Nil
  then show ?case by (simp add: section_Nil)
next
  case (Cons r rs)
  obtain f a b where r: "r = (f, a, b)" by (cases r)
  obtain k low high cs1 j1 ds where parts: "get_field cfg f FtNumber = Inr k"
    "parse_optional_number a (f @ ''.min'') = Inr low" "parse_optional_number b (f @ ''.max'') = Inr high"
    "range_clauses (fc_column k) FvNum low high i = (cs1, j1)" "number_clauses cfg rs j1 = Inr (ds, j)"
    "cs = cs1 @ ds"
    using Cons.prems unfolding r by (auto simp: Let_def split: sum.splits if_splits prod.splits)
  show ?case
    using section_append [OF section_range [OF parts(4)] Cons.IH [OF parts(5)]] get_field_Inr [OF parts(1)]
    by (simp add: r parts(6) value_of_number [OF parts(2)] value_of_number [OF parts(3)])
qed

lemma section_addresses:
  "address_clauses cfg rs i = Inr (cs, j) \<Longrightarrow>
    section_ok cfg i j cs (\<lambda>row. map (\<lambda>(f, x).
      in_list (row (column_of cfg f)) (FvTexts (map (\<lambda>a. to_lower (trim a)) (normalize_array x)))) rs)"
proof (induction rs arbitrary: i cs)
  case Nil
  then show ?case by (simp add: section_Nil)
next
  case (Cons r rs)
  obtain f x where r: "r = (f, x)" by (cases r)
  obtain k ds where parts: "get_field cfg f FtAddress = Inr k" "address_clauses cfg rs (i + 1) = Inr (ds, j)"
    "cs = \<lparr>cl_shape = OneCond (SqlIn (fc_column k) (param_name i)),
      cl_params = [(param_name i, FvTexts (map (\<lambda>a. to_lower (trim a)) (normalize_array x)))]\<rparr> # ds"
    using Cons.prems unfolding r by (auto simp: Let_def split: sum.splits if_splits prod.splits)
  have "section_ok cfg i (i + 1) [hd cs] (\<lambda>row.
      [in_list (row (column_of cfg f)) (FvTexts (map (\<lambda>a. to_lower (trim a)) (normalize_array x)))])"
    using get_field_Inr [OF parts(1)] by (simp add: section_ok_def parts(3))
  from section_append [OF this Cons.IH [OF parts(2)]] show ?case by (simp add: r parts(3))
qed

lemma section_booleans:
  "boolean_clauses cfg rs i = Inr (cs, j) \<Longrightarrow>
    section_ok cfg i j cs (\<lambda>row. map (\<lambda>(f, x).
      compares ''='' (row (column_of cfg f)) (FvBool (wanted_boolean x))) rs)"
proof (induction rs arbitrary: i cs)
  case Nil
  then show ?case by (simp add: section_Nil)
next
  case (Cons r rs)
  obtain f x where r: "r = (f, x)" by (cases r)
  obtain k b ds where parts: "get_field cfg f FtBoolean = Inr k" "parse_filter_boolean x f = Inr b"
    "boolean_clauses cfg rs (i + 1) = Inr (ds, j)" "cs = one_clause (fc_column k) ''='' i (FvBool b) # ds"
    using Cons.prems unfolding r by (auto split: sum.splits prod.splits)
  have b: "b = wanted_boolean x" using parts(2) by (cases x) (auto split: if_splits)
  have "section_ok cfg i (Suc i) [one_clause (fc_column k) ''='' i (FvBool b)]
      (\<lambda>row. [compares ''='' (row (fc_column k)) (FvBool b)])"
    using get_field_Inr [OF parts(1)] by (intro section_one) simp_all
  from section_append [OF this, of j ds] Cons.IH [OF parts(3)] show ?case
    using get_field_Inr [OF parts(1)] by (simp add: r parts(4) b)
qed

lemma numbered_conditions:
  assumes "number_conditions cs i = (xs, ps, j)"
  shows "j = i + length cs \<and> map fst ps = map param_name [i..<j] \<and>
    (binds env ps \<longrightarrow> map (cond_holds env row) xs = map (status_holds row) cs)"
  using assms
proof (induction cs arbitrary: i xs ps)
  case (Cons c cs)
  obtain xs' ps' where rest: "number_conditions cs (i + 1) = (xs', ps', j)"
    using Cons.prems by (auto simp: Let_def split: prod.splits)
  have upt: "[i..<i + Suc (length cs)] = i # [Suc i..<i + Suc (length cs)]" by (rule upt_conv_Cons) simp
  show ?case using Cons.prems rest Cons.IH [OF rest] upt by (auto simp: status_holds_def)
qed simp

lemma numbered_configured:
  assumes "number_conditions cs i = (xs, ps, j)" and "(st, cs') \<in> set (fg_statuses cfg)" and "set cs \<subseteq> set cs'"
  shows "list_all (cond_configured cfg) xs"
  using assms(1,3)
proof (induction cs arbitrary: i xs ps)
  case (Cons c cs)
  have "c \<in> set (concat (map snd (fg_statuses cfg)))" using assms(2) Cons.prems(2) by force
  then have "sc_field c \<in> set (configured_columns cfg)"
    "sc_operator c = Some op \<Longrightarrow> op \<in> set (configured_operators cfg)" for op
    by (force simp: configured_columns_def configured_operators_def List.map_filter_def)+
  then show ?case using Cons by (auto simp: Let_def split: prod.splits option.splits)
qed simp

lemma numbered_groups:
  assumes "status_groups cfg ss i = Inr (gs, ps, j)"
  shows "j = i + sum_list (map (\<lambda>st. length (the (map_of (fg_statuses cfg) st))) ss) \<and>
    map fst ps = map param_name [i..<j] \<and> list_all (list_all (cond_configured cfg)) gs \<and>
    list_all (\<lambda>st. map_of (fg_statuses cfg) st \<noteq> None) ss \<and>
    (binds env ps \<longrightarrow> map (list_all (cond_holds env row)) gs =
      map (\<lambda>st. list_all (status_holds row) (the (map_of (fg_statuses cfg) st))) ss)"
  using assms
proof (induction ss arbitrary: i gs ps)
  case (Cons st ss)
  obtain cs g ps1 j1 gs2 ps2 where parts: "map_of (fg_statuses cfg) st = Some cs"
    "number_conditions cs i = (g, ps1, j1)" "status_groups cfg ss j1 = Inr (gs2, ps2, j)"
    "gs = g # gs2" "ps = ps1 @ ps2"
    using Cons.prems by (auto simp: Let_def split: option.splits if_splits prod.splits sum.splits)
  note one = numbered_conditions [OF parts(2), of env row]
  have conf: "list_all (cond_configured cfg) g"
    by (rule numbered_configured [OF parts(2) map_of_SomeD [OF parts(1)]]) simp
  have "list_all (cond_holds env row) g = list_all (status_holds row) cs" if "binds env ps1"
  proof -
    have "map (cond_holds env row) g = map (status_holds row) cs" using one that by blast
    then have "list_all id (map (cond_holds env row) g) = list_all id (map (status_holds row) cs)" by simp
    then show ?thesis by (simp add: list.pred_map comp_def)
  qed
  moreover have "map param_name [i..<j] = map param_name [i..<j1] @ map param_name [j1..<j]"
    using one Cons.IH [OF parts(3)] by (metis map_append upt_add_eq_append le_add1)
  ultimately show ?case using one Cons.IH [OF parts(3)] conf parts by auto
qed simp

lemma section_statuses:
  assumes "status_clauses cfg statuses i = Inr (cs, j)"
  shows "section_ok cfg i j cs (status_conditions cfg (normalize_array statuses))"
proof (cases "normalize_array statuses = []")
  case True
  then show ?thesis using assms section_Nil by (simp add: status_clauses_def status_conditions_def [abs_def])
next
  case False
  let ?ss = "normalize_array statuses"
  obtain gs ps n where groups: "status_groups cfg ?ss i = Inr (gs, ps, n)"
    and cs: "cs = [\<lparr>cl_shape = StatusGroups gs, cl_params = ps\<rparr>]"
    and j: "j = i + sum_list (map (\<lambda>st. case map_of (fg_statuses cfg) st of None \<Rightarrow> 0 | Some cs \<Rightarrow> length cs) ?ss)"
    using assms False by (auto simp: status_clauses_def Let_def split: sum.splits)
  note facts = numbered_groups [OF groups]
  have "\<forall>st\<in>set ?ss. map_of (fg_statuses cfg) st \<noteq> None" using facts by (simp add: list_all_iff)
  then have "map (\<lambda>st. case map_of (fg_statuses cfg) st of None \<Rightarrow> 0 | Some cs \<Rightarrow> length cs) ?ss =
      map (\<lambda>st. length (the (map_of (fg_statuses cfg) st))) ?ss"
    by (intro map_cong refl) (auto split: option.splits)
  then have n: "n = j" using facts [of undefined undefined] unfolding j by argo
  have "list_ex (list_all (cond_holds env row)) gs =
      list_ex (\<lambda>st. list_all (status_holds row) (the (map_of (fg_statuses cfg) st))) ?ss" if "binds env ps" for env row
  proof -
    have "list_ex id (map (list_all (cond_holds env row)) gs) =
        list_ex id (map (\<lambda>st. list_all (status_holds row) (the (map_of (fg_statuses cfg) st))) ?ss)"
      using facts [of env row] that by simp
    then show ?thesis by (simp add: list_ex_iff)
  qed
  then show ?thesis using facts False n by (simp add: section_ok_def cs status_conditions_def)
qed

section \<open>The plan means the request\<close>

lemma param_name_inj: "param_name i = param_name j \<Longrightarrow> i = j"
  using digits_val_show_nat unfolding param_name_def by (metis append_same_eq option.inject same_append_eq)

lemma distinct_params: "distinct (map param_name [i..<j])"
  by (auto simp: distinct_map inj_on_def dest: param_name_inj)

lemma binds_distinct:
  assumes "distinct (map fst ps)" shows "binds (map_of (rev ps)) ps"
  using assms by (auto simp: binds_def list_all_iff rev_map [symmetric])

lemma plan_section:
  assumes "build_filter_plan pd cfg q = Inr plan"
  shows "\<exists>j. section_ok cfg 0 j (pl_clauses plan) (request_conditions pd cfg q) \<and>
    pl_combination plan = (case fq_combination q of None \<Rightarrow> ''AND'' | Some x \<Rightarrow> x)"
proof -
  obtain c1 i1 c2 i2 c3 i3 c4 i4 c5 i5 srt where parts: "date_clauses pd cfg (fq_dates q) 0 = Inr (c1, i1)"
    "status_clauses cfg (fq_statuses q) i1 = Inr (c2, i2)" "number_clauses cfg (fq_numbers q) i2 = Inr (c3, i3)"
    "address_clauses cfg (fq_addresses q) i3 = Inr (c4, i4)" "boolean_clauses cfg (fq_booleans q) i4 = Inr (c5, i5)"
    "plan = \<lparr>pl_clauses = c1 @ c2 @ c3 @ c4 @ c5,
      pl_combination = (case fq_combination q of None \<Rightarrow> ''AND'' | Some x \<Rightarrow> x), pl_sort = srt\<rparr>"
    using assms by (auto simp: build_filter_plan_def Let_def split: sum.splits prod.splits)
  have "section_ok cfg 0 i5 (c1 @ c2 @ c3 @ c4 @ c5) (request_conditions pd cfg q)"
    unfolding request_conditions_def [abs_def] date_conditions_def number_range_conditions_def
      address_conditions_def boolean_conditions_def
    by (intro section_append) (rule section_dates section_statuses section_numbers section_addresses
      section_booleans, rule parts)+
  then show ?thesis unfolding parts(6) by auto
qed

text \<open>
  C32: the plan of a request selects exactly the rows on which all its conditions hold, or any of them when
  it asks for OR; the parameters are numbered without a gap and none is used twice, so no value replaces
  another; and the SQL text consists of configured columns, configured operators and those names only,
  whatever the request contains.
\<close>

theorem plan_selects_the_request:
  assumes "build_filter_plan parse_date cfg q = Inr plan"
  shows "(plan_selects plan row \<longleftrightarrow>
      (let conds = request_conditions parse_date cfg q row in
       conds = [] \<or> (if fq_combination q = Some ''OR'' then list_ex id conds else list_all id conds))) \<and>
    map fst (plan_params plan) = map param_name [0..<length (plan_params plan)] \<and>
    distinct (map fst (plan_params plan)) \<and>
    list_all (\<lambda>c. shape_configured cfg (cl_shape c)) (pl_clauses plan)"
proof -
  obtain j where ok: "section_ok cfg 0 j (pl_clauses plan) (request_conditions parse_date cfg q)"
    and comb: "pl_combination plan = (case fq_combination q of None \<Rightarrow> ''AND'' | Some x \<Rightarrow> x)"
    using plan_section [OF assms] by blast
  have ps: "plan_params plan = params_of (pl_clauses plan)" by (simp add: plan_params_def params_of_def)
  have names: "map fst (plan_params plan) = map param_name [0..<j]" using ok by (simp add: section_ok_def ps)
  then have dist: "distinct (map fst (plan_params plan))" by (simp add: distinct_params)
  have "length (plan_params plan) = j" using arg_cong [OF names, of length] by simp
  moreover have "map (\<lambda>c. shape_holds (map_of (rev (plan_params plan))) row (cl_shape c)) (pl_clauses plan) =
      request_conditions parse_date cfg q row"
    using ok binds_distinct [OF dist] by (simp add: section_ok_def ps)
  ultimately show ?thesis
    using ok names dist comb by (auto simp: plan_selects_def Let_def section_ok_def split: option.splits)
qed

text \<open>Events that are active or cancelled, have at least three participants and one of two creators.\<close>

definition sample_filter_request :: filtering_request where
  "sample_filter_request =
     \<lparr>fq_dates = [], fq_statuses = [''active, cancelled''],
      fq_numbers = [(''participant_count'', Some (j_int 3), None)],
      fq_addresses = [(''creator'', [''GA,GB''])], fq_booleans = [], fq_combination = None,
      fq_sort = Some (''created_at'', Some ''asc'')\<rparr>"

definition sample_filter_plan :: filter_plan where
  "sample_filter_plan =
     (case build_filter_plan (\<lambda>_. None) creator_event_filter_config sample_filter_request of Inr p \<Rightarrow> p)"

definition sample_filter_row :: row_values where
  "sample_filter_row column =
     (if column = ''creatorEvent.is_active'' then FvBool True
      else if column = ''creatorEvent.is_cancelled'' then FvBool False
      else if column = ''creatorEvent.participant_count'' then FvNum 5
      else FvText ''gA'')"

lemma sample_texts:
  "normalize_array [''active, cancelled''] = [''active'', ''cancelled'']"
  "map (\<lambda>a. to_lower (trim a)) (normalize_array [''GA,GB'']) = [''ga'', ''gb'']"
  "param_name 0 = ''filter_0''" "param_name (Suc 0) = ''filter_1''" "param_name 2 = ''filter_2''"
  "param_name 3 = ''filter_3''" "param_name 4 = ''filter_4''"
  "to_upper ''asc'' = ''ASC''"
  by code_simp+

lemma sample_plan:
  "build_filter_plan (\<lambda>_. None) creator_event_filter_config sample_filter_request = Inr sample_filter_plan"
  using sample_texts by (simp add: build_filter_plan_def sample_filter_request_def creator_event_filter_config_def
      assert_combination_def status_clauses_def get_field_def parse_optional_number_def range_clauses_def
      one_clause_def build_sort_def sample_filter_plan_def numeral_eq_Suc)

lemma sample_plan_sql:
  "filter_sql sample_filter_plan =
    Some (''(((creatorEvent.is_active = :filter_0 AND creatorEvent.is_cancelled = :filter_1)'' @
      '' OR (creatorEvent.is_cancelled = :filter_2)) AND creatorEvent.participant_count >= :filter_3'' @
      '' AND LOWER(creatorEvent.creator_address) IN (:...filter_4))'')"
  by code_simp

lemma plan_selects_the_request_witness:
  "plan_selects sample_filter_plan sample_filter_row \<and> length (plan_params sample_filter_plan) = 5 \<and>
   distinct (map fst (plan_params sample_filter_plan))"
proof -
  have "(let conds = request_conditions (\<lambda>_. None) creator_event_filter_config sample_filter_request sample_filter_row in
       conds = [] \<or> (if fq_combination sample_filter_request = Some ''OR'' then list_ex id conds else list_all id conds))"
    "length (plan_params sample_filter_plan) = 5"
    by code_simp+
  then show ?thesis
    using plan_selects_the_request [OF sample_plan, of sample_filter_row] by blast
qed

end
