(* ===== verification/Search.thy ===== *)
theory Search
  imports Users EventSearch
begin

text \<open>
  The global search (\<open>backend/src/search/search.service.ts\<close>): markets, users and competitions by full text,
  and the suggestions while a term is typed.
\<close>

section \<open>Full text\<close>

text \<open>
  What the database makes of the raw conditions on \<open>search_vector\<close>: which rows match a query and their
  rank, or no answer where it rejects the statement.  The collation orders the suggestions.
\<close>

record text_index =
  tx_markets :: "string \<Rightarrow> ((market \<Rightarrow> bool) \<times> (market \<Rightarrow> rat)) option"
  tx_users :: "string \<Rightarrow> ((user \<Rightarrow> bool) \<times> (user \<Rightarrow> rat)) option"
  tx_competitions :: "string \<Rightarrow> ((competition \<Rightarrow> bool) \<times> (competition \<Rightarrow> rat)) option"
  tx_collation :: "string \<Rightarrow> int"

record search_db =
  sd_markets :: "market list"
  sd_users :: "user list"
  sd_competitions :: "competition list"

datatype search_type = StAll | StMarkets | StUsers | StCompetitions

record global_query =
  gq_query :: string
  gq_type :: "search_type option"
  gq_page :: "nat option"
  gq_limit :: "nat option"

record global_results =
  gr_markets :: "market list"
  gr_users :: "user list"
  gr_competitions :: "competition list"
  gr_total :: nat
  gr_total_markets :: nat
  gr_total_users :: nat
  gr_total_competitions :: nat
  gr_page :: nat
  gr_limit :: nat

section \<open>The search\<close>

text \<open>\<open>skip\<close>, \<open>take\<close> and \<open>getManyAndCount\<close> on the rows of a condition.\<close>

definition many_and_count :: "nat \<Rightarrow> nat \<Rightarrow> 'a list \<Rightarrow> 'a list \<times> nat" where
  "many_and_count skip limit rows = (take limit (drop skip rows), length rows)"

definition rejected_statement :: http_error where
  "rejected_statement = InternalError ''Internal server error''"

definition search_markets :: "text_index \<Rightarrow> string \<Rightarrow> nat \<Rightarrow> nat \<Rightarrow> search_db \<Rightarrow> (market list \<times> nat) result" where
  "search_markets ix query skip limit s =
     (case tx_markets ix query of
        None \<Rightarrow> Inl rejected_statement
      | Some (fits, rank) \<Rightarrow>
          Inr (many_and_count skip limit
            (sort_desc rank (filter (\<lambda>m. is_public m \<and> fits m) (sd_markets s)))))"

definition search_users :: "text_index \<Rightarrow> string \<Rightarrow> nat \<Rightarrow> nat \<Rightarrow> search_db \<Rightarrow> (user list \<times> nat) result" where
  "search_users ix query skip limit s =
     (case tx_users ix query of
        None \<Rightarrow> Inl rejected_statement
      | Some (fits, rank) \<Rightarrow>
          Inr (many_and_count skip limit
            (sort_desc rank (filter (\<lambda>u. live u \<and> \<not> is_banned u \<and> fits u) (sd_users s)))))"

definition search_competitions ::
  "text_index \<Rightarrow> string \<Rightarrow> nat \<Rightarrow> nat \<Rightarrow> search_db \<Rightarrow> (competition list \<times> nat) result" where
  "search_competitions ix query skip limit s =
     (case tx_competitions ix query of
        None \<Rightarrow> Inl rejected_statement
      | Some (fits, rank) \<Rightarrow>
          Inr (many_and_count skip limit
            (sort_desc rank (filter (\<lambda>c. cp_visibility c = Public \<and> fits c) (sd_competitions s)))))"

definition wants_type :: "search_type \<Rightarrow> global_query \<Rightarrow> bool" where
  "wants_type ty q \<longleftrightarrow> gq_type q \<in> {None, Some StAll, Some ty}"

definition page_limit :: "global_query \<Rightarrow> nat" where
  "page_limit q = min (case gq_limit q of None \<Rightarrow> 20 | Some n \<Rightarrow> n) 50"

definition global_search :: "text_index \<Rightarrow> global_query \<Rightarrow> search_db \<Rightarrow> global_results result" where
  "global_search ix q s =
     (let page = (case gq_page q of None \<Rightarrow> 1 | Some n \<Rightarrow> n);
          limit = page_limit q;
          skip = (page - 1) * limit
      in if length (trim (gq_query q)) < 2 then
           Inr \<lparr>gr_markets = [], gr_users = [], gr_competitions = [], gr_total = 0, gr_total_markets = 0,
                gr_total_users = 0, gr_total_competitions = 0, gr_page = page, gr_limit = limit\<rparr>
         else
           (case (if wants_type StMarkets q then search_markets ix (gq_query q) skip limit s else Inr ([], 0)) of
              Inl e \<Rightarrow> Inl e | Inr (ms, nm) \<Rightarrow>
           (case (if wants_type StUsers q then search_users ix (gq_query q) skip limit s else Inr ([], 0)) of
              Inl e \<Rightarrow> Inl e | Inr (us, nu) \<Rightarrow>
           (case (if wants_type StCompetitions q then search_competitions ix (gq_query q) skip limit s else Inr ([], 0)) of
              Inl e \<Rightarrow> Inl e | Inr (cs, nc) \<Rightarrow>
              Inr \<lparr>gr_markets = ms, gr_users = us, gr_competitions = cs, gr_total = nm + nu + nc,
                   gr_total_markets = nm, gr_total_users = nu, gr_total_competitions = nc,
                   gr_page = page, gr_limit = limit\<rparr>))))"

section \<open>Suggestions\<close>

text \<open>The term is put into the pattern as it is, so its wildcards are those of the pattern.\<close>

definition get_suggestions :: "text_index \<Rightarrow> string option \<Rightarrow> search_db \<Rightarrow> string list \<times> string list" where
  "get_suggestions ix q s =
     (let t = (case q of None \<Rightarrow> [] | Some x \<Rightarrow> trim x) in
      if length t < 1 then ([], [])
      else
        (take 5 (sort_key (tx_collation ix)
           (map m_title (filter (\<lambda>m. is_public m \<and> ilike (t @ ''%'') (m_title m)) (sd_markets s)))),
         filter (\<lambda>n. n \<noteq> []) (take 5 (sort_key (tx_collation ix)
           (map (the \<circ> username) (filter (\<lambda>u. live u \<and> \<not> is_banned u \<and>
              (case username u of None \<Rightarrow> False | Some n \<Rightarrow> ilike (t @ ''%'') n)) (sd_users s)))))))"

section \<open>The pages show what matches\<close>

lemma pages_shown:
  assumes "0 < limit"
  shows "concat (map (\<lambda>p. fst (many_and_count ((p - 1) * limit) limit rows)) [1..<Suc (length rows)]) = rows"
  using all_pages [OF assms order.refl, of rows] by (simp add: many_and_count_def page_of_def)

definition on_page :: "nat \<Rightarrow> global_query \<Rightarrow> global_query" where
  "on_page p q = q\<lparr>gq_page := Some p\<rparr>"

lemma on_page_simps [simp]:
  "gq_query (on_page p q) = gq_query q" "wants_type ty (on_page p q) = wants_type ty q" "page_limit (on_page p q) = page_limit q"
  "gq_page (on_page p q) = Some p"
  by (simp_all add: on_page_def wants_type_def page_limit_def)

text \<open>The lists of an answer; none for a failed search.\<close>

definition shown :: "(global_results \<Rightarrow> 'a list) \<Rightarrow> global_results result \<Rightarrow> 'a list" where
  "shown f r = (case r of Inl _ \<Rightarrow> [] | Inr x \<Rightarrow> f x)"

text \<open>What the search should find among the rows of one table.\<close>

definition found_rows :: "bool \<Rightarrow> ('a \<Rightarrow> bool) \<Rightarrow> (string \<Rightarrow> (('a \<Rightarrow> bool) \<times> ('a \<Rightarrow> rat)) option) \<Rightarrow> string \<Rightarrow> 'a list \<Rightarrow> 'a multiset" where
  "found_rows wanted visible ix query rows =
     (if wanted then filter_mset (\<lambda>x. visible x \<and> fst (the (ix query)) x) (mset rows) else {#})"

lemma filter_mset_sorted:
  fixes rank :: "'a \<Rightarrow> rat"
  shows "mset (sort_desc rank (filter P rows)) = filter_mset P (mset rows)"
  by (simp add: mset_sort_desc)

lemma search_lists:
  assumes "global_search ix q s = Inr r" and "2 \<le> length (trim (gq_query q))"
  defines "ms \<equiv> (if wants_type StMarkets q then sort_desc (snd (the (tx_markets ix (gq_query q))))
      (filter (\<lambda>m. is_public m \<and> fst (the (tx_markets ix (gq_query q))) m) (sd_markets s)) else [])"
    and "us \<equiv> (if wants_type StUsers q then sort_desc (snd (the (tx_users ix (gq_query q))))
      (filter (\<lambda>u. live u \<and> \<not> is_banned u \<and> fst (the (tx_users ix (gq_query q))) u) (sd_users s)) else [])"
    and "cs \<equiv> (if wants_type StCompetitions q then sort_desc (snd (the (tx_competitions ix (gq_query q))))
      (filter (\<lambda>c. cp_visibility c = Public \<and> fst (the (tx_competitions ix (gq_query q))) c) (sd_competitions s)) else [])"
  shows "shown gr_markets (global_search ix (on_page p q) s) = fst (many_and_count ((p - 1) * page_limit q) (page_limit q) ms)"
    and "shown gr_users (global_search ix (on_page p q) s) = fst (many_and_count ((p - 1) * page_limit q) (page_limit q) us)"
    and "shown gr_competitions (global_search ix (on_page p q) s) =
      fst (many_and_count ((p - 1) * page_limit q) (page_limit q) cs)"
    and "gr_total_markets r = length ms" "gr_total_users r = length us" "gr_total_competitions r = length cs"
    and "gr_total r = gr_total_markets r + gr_total_users r + gr_total_competitions r"
proof -
  have ok: "wants_type StMarkets q \<Longrightarrow> tx_markets ix (gq_query q) \<noteq> None"
    "wants_type StUsers q \<Longrightarrow> tx_users ix (gq_query q) \<noteq> None"
    "wants_type StCompetitions q \<Longrightarrow> tx_competitions ix (gq_query q) \<noteq> None"
    using assms(1,2) by (auto simp: global_search_def Let_def search_markets_def search_users_def
        search_competitions_def split: if_splits option.splits sum.splits)
  have long: "\<not> length (trim (gq_query q)) < 2" using assms(2) by simp
  have parts: "(if wants_type StMarkets q then search_markets ix (gq_query q) k n s else Inr ([], 0)) = Inr (many_and_count k n ms)"
    "(if wants_type StUsers q then search_users ix (gq_query q) k n s else Inr ([], 0)) = Inr (many_and_count k n us)"
    "(if wants_type StCompetitions q then search_competitions ix (gq_query q) k n s else Inr ([], 0)) = Inr (many_and_count k n cs)"
    for k n
    using ok by (auto simp: search_markets_def search_users_def search_competitions_def ms_def us_def cs_def
        many_and_count_def)
  show "shown gr_markets (global_search ix (on_page p q) s) = fst (many_and_count ((p - 1) * page_limit q) (page_limit q) ms)"
    "shown gr_users (global_search ix (on_page p q) s) = fst (many_and_count ((p - 1) * page_limit q) (page_limit q) us)"
    "shown gr_competitions (global_search ix (on_page p q) s) =
      fst (many_and_count ((p - 1) * page_limit q) (page_limit q) cs)"
    unfolding global_search_def on_page_simps Let_def option.case if_not_P [OF long] parts many_and_count_def
    by (simp_all add: shown_def)
  show "gr_total_markets r = length ms" "gr_total_users r = length us" "gr_total_competitions r = length cs"
    "gr_total r = gr_total_markets r + gr_total_users r + gr_total_competitions r"
    using assms(1) unfolding global_search_def Let_def if_not_P [OF long] parts many_and_count_def by auto
qed

text \<open>
  Where the database accepts the statements, going through the pages of a search shows exactly the
  public markets, the accounts that are neither deleted nor banned and the public competitions that match
  the query, each as often as it is stored and only of the wanted type; the totals are their numbers, and
  no page shows more than fifty of a kind.
\<close>

theorem search_shows_the_public:
  assumes "global_search ix q s = Inr r" and "2 \<le> length (trim (gq_query q))" and "0 < page_limit q"
  shows "mset (concat (map (\<lambda>p. shown gr_markets (global_search ix (on_page p q) s)) [1..<Suc (gr_total_markets r)])) =
      found_rows (wants_type StMarkets q) is_public (tx_markets ix) (gq_query q) (sd_markets s) \<and>
    mset (concat (map (\<lambda>p. shown gr_users (global_search ix (on_page p q) s)) [1..<Suc (gr_total_users r)])) =
      found_rows (wants_type StUsers q) (\<lambda>u. live u \<and> \<not> is_banned u) (tx_users ix) (gq_query q) (sd_users s) \<and>
    mset (concat (map (\<lambda>p. shown gr_competitions (global_search ix (on_page p q) s))
        [1..<Suc (gr_total_competitions r)])) =
      found_rows (wants_type StCompetitions q) (\<lambda>c. cp_visibility c = Public) (tx_competitions ix) (gq_query q)
        (sd_competitions s) \<and>
    gr_total r = gr_total_markets r + gr_total_users r + gr_total_competitions r \<and>
    page_limit q \<le> 50 \<and> length (gr_markets r) \<le> page_limit q \<and> length (gr_users r) \<le> page_limit q \<and>
    length (gr_competitions r) \<le> page_limit q"
proof -
  note lists = search_lists [OF assms(1,2)]
  define n where "n = (case gq_page q of None \<Rightarrow> 1 | Some n \<Rightarrow> n)"
  have "global_search ix (on_page n q) s = global_search ix q s"
    unfolding global_search_def on_page_simps n_def by (cases "gq_page q") simp_all
  then have r: "gr_markets r = shown gr_markets (global_search ix (on_page n q) s)"
    "gr_users r = shown gr_users (global_search ix (on_page n q) s)"
    "gr_competitions r = shown gr_competitions (global_search ix (on_page n q) s)"
    using assms(1) by (simp_all add: shown_def)
  have "length (fst (many_and_count k m xs)) \<le> m" for k m and xs :: "'x list" by (simp add: many_and_count_def)
  then have "length (gr_markets r) \<le> page_limit q" "length (gr_users r) \<le> page_limit q"
    "length (gr_competitions r) \<le> page_limit q"
    unfolding r lists by blast+
  moreover have "page_limit q \<le> 50" by (simp add: page_limit_def)
  ultimately show ?thesis
    unfolding lists(1-6) pages_shown [OF assms(3)]
    by (simp add: found_rows_def filter_mset_sorted lists(7) lists(4-6) conj_assoc)
qed

text \<open>One public and one private market, a banned user and a live one; the text matches everything.\<close>

definition sample_index :: text_index where
  "sample_index = \<lparr>tx_markets = (\<lambda>_. Some (\<lambda>_. True, \<lambda>_. 1)), tx_users = (\<lambda>_. Some (\<lambda>_. True, \<lambda>_. 1)),
     tx_competitions = (\<lambda>_. Some (\<lambda>_. True, \<lambda>_. 1)), tx_collation = (\<lambda>s. int (length s))\<rparr>"

definition sample_search_db :: search_db where
  "sample_search_db = \<lparr>sd_markets = [sample_market, sample_market\<lparr>is_public := False\<rparr>],
     sd_users = [(new_account ''u1'' 0 ''GA'')\<lparr>is_banned := True\<rparr>, new_account ''u2'' 0 ''GB''],
     sd_competitions = []\<rparr>"

definition sample_global_query :: global_query where
  "sample_global_query = \<lparr>gq_query = ''will'', gq_type = None, gq_page = None, gq_limit = Some 80\<rparr>"

lemma search_shows_the_public_witness:
  "\<exists>r. global_search sample_index sample_global_query sample_search_db = Inr r \<and>
    mset (concat (map (\<lambda>p. shown gr_users (global_search sample_index (on_page p sample_global_query) sample_search_db))
      [1..<Suc (gr_total_users r)])) = {# new_account ''u2'' 0 ''GB'' #} \<and>
    length (gr_markets r) \<le> page_limit sample_global_query \<and> page_limit sample_global_query = 50"
proof -
  have long: "2 \<le> length (trim (gq_query sample_global_query))" by code_simp
  have lim: "page_limit sample_global_query = 50" by (simp add: page_limit_def sample_global_query_def)
  have wants: "wants_type ty sample_global_query" for ty by (simp add: wants_type_def sample_global_query_def)
  have parts: "search_markets sample_index x k n s = Inr (many_and_count k n (sort_desc (\<lambda>_. 1 :: rat) (filter is_public (sd_markets s))))"
    "search_users sample_index x k n s =
      Inr (many_and_count k n (sort_desc (\<lambda>_. 1 :: rat) (filter (\<lambda>u. live u \<and> \<not> is_banned u) (sd_users s))))"
    "search_competitions sample_index x k n s =
      Inr (many_and_count k n (sort_desc (\<lambda>_. 1 :: rat) (filter (\<lambda>c. cp_visibility c = Public) (sd_competitions s))))"
    for x k n s
    by (simp_all add: search_markets_def search_users_def search_competitions_def sample_index_def)
  have "\<exists>r. global_search sample_index sample_global_query sample_search_db = Inr r"
    using long unfolding global_search_def Let_def parts many_and_count_def by (simp add: wants)
  then obtain r where r: "global_search sample_index sample_global_query sample_search_db = Inr r" by blast
  have "found_rows (wants_type StUsers sample_global_query) (\<lambda>u. live u \<and> \<not> is_banned u) (tx_users sample_index)
      (gq_query sample_global_query) (sd_users sample_search_db) = {# new_account ''u2'' 0 ''GB'' #}"
    by (simp add: found_rows_def wants sample_index_def sample_search_db_def live_def new_account_def)
  then show ?thesis using search_shows_the_public [OF r long] r lim by simp
qed

end
