(* ===== verification/Gateway.thy ===== *)
theory Gateway
  imports Notifications Auth
begin

text \<open>
  The WebSocket gateway (\<open>backend/src/websocket/events.gateway.ts\<close>) and the broadcasts of the indexer
  (\<open>websocket/broadcaster.service.ts\<close>): who is in which room, and which messages reach whom.  Every socket
  is in the room of its own id; an emission to a room reaches the sockets in it at that time.
\<close>

section \<open>State\<close>

datatype frame =
    FrPing
  | FrError string
  | FrException
  | FrJoined string
  | FrLeft jsval
  | FrConfirmed string jsval
  | FrNote emission
  | FrEvent string jsval

record socket_client =
  sk_user :: "string option"
  sk_rooms :: "string list"

text \<open>The connected sockets, the maps of the gateway, the timers that run and what was sent to whom.\<close>

record gateway =
  gw_clients :: "(string \<times> socket_client) list"
  gw_connections :: "(string \<times> string) list"
  gw_rates :: "(string \<times> nat) list"
  gw_timers :: "(timestamp \<times> string) list"
  gw_heartbeats :: "string list"
  gw_sent :: "(string \<times> frame) list"

definition empty_gateway :: gateway where
  "empty_gateway = \<lparr>gw_clients = [], gw_connections = [], gw_rates = [], gw_timers = [], gw_heartbeats = [], gw_sent = []\<rparr>"

definition join_limit :: nat where
  "join_limit = 60"

definition rate_window :: int where
  "rate_window = 60000"

section \<open>Sending\<close>

definition send_frame :: "string \<Rightarrow> frame \<Rightarrow> gateway \<Rightarrow> gateway" where
  "send_frame i f g = g\<lparr>gw_sent := gw_sent g @ [(i, f)]\<rparr>"

definition in_room :: "string \<Rightarrow> gateway \<Rightarrow> string list" where
  "in_room room g = map fst (filter (\<lambda>c. room \<in> set (sk_rooms (snd c))) (gw_clients g))"

definition emit_to :: "string \<Rightarrow> frame \<Rightarrow> gateway \<Rightarrow> gateway" where
  "emit_to room f g = g\<lparr>gw_sent := gw_sent g @ map (\<lambda>i. (i, f)) (in_room room g)\<rparr>"

definition emit_all :: "frame \<Rightarrow> gateway \<Rightarrow> gateway" where
  "emit_all f g = g\<lparr>gw_sent := gw_sent g @ map (\<lambda>c. (fst c, f)) (gw_clients g)\<rparr>"

section \<open>Connecting\<close>

text \<open>\<open>replace('Bearer ', '')\<close>: the first occurrence is cut out.\<close>

fun cut_first :: "string \<Rightarrow> string \<Rightarrow> string" where
  "cut_first p [] = []"
| "cut_first p (c # s) = (if starts_with (c # s) p then drop (length p) (c # s) else c # cut_first p s)"

definition handshake_token :: "string option \<Rightarrow> string option \<Rightarrow> string option" where
  "handshake_token auth header =
     (case nonempty auth of Some x \<Rightarrow> Some x | None \<Rightarrow> nonempty (map_option (cut_first ''Bearer '') header))"

definition user_room :: "string \<Rightarrow> string" where
  "user_room a = ''user:'' @ a"

definition clear_heartbeat :: "string \<Rightarrow> gateway \<Rightarrow> gateway" where
  "clear_heartbeat i g = g\<lparr>gw_heartbeats := filter (\<lambda>j. j \<noteq> i) (gw_heartbeats g)\<rparr>"

text \<open>\<open>verify\<close> is the library's check of a token, with the \<open>sub\<close> it carries.\<close>

definition handle_connection ::
  "(string \<Rightarrow> string option) \<Rightarrow> bool \<Rightarrow> string \<Rightarrow> string option \<Rightarrow> string option \<Rightarrow> gateway \<Rightarrow> gateway" where
  "handle_connection verify is_test i auth header g =
     (let sub = (case handshake_token auth header of None \<Rightarrow> None | Some x \<Rightarrow> verify x);
          c = \<lparr>sk_user = sub, sk_rooms = i # (case sub of None \<Rightarrow> [] | Some x \<Rightarrow> [user_room x])\<rparr>;
          g1 = g\<lparr>gw_clients := save_row fst (i, c) (gw_clients g)\<rparr>;
          g2 = (case sub of None \<Rightarrow> g1 | Some x \<Rightarrow> g1\<lparr>gw_connections := save_row fst (i, x) (gw_connections g1)\<rparr>)
      in if is_test then g2
         else (let g3 = clear_heartbeat i g2 in g3\<lparr>gw_heartbeats := gw_heartbeats g3 @ [i]\<rparr>))"

definition handle_disconnect :: "string \<Rightarrow> gateway \<Rightarrow> gateway" where
  "handle_disconnect i g =
     (let g1 = clear_heartbeat i g in
      g1\<lparr>gw_connections := delete_rows (\<lambda>r. fst r = i) (gw_connections g1),
         gw_rates := delete_rows (\<lambda>r. fst r = i) (gw_rates g1)\<rparr>)"

text \<open>A socket that leaves is in no room any more.\<close>

definition drop_socket :: "string \<Rightarrow> gateway \<Rightarrow> gateway" where
  "drop_socket i g = handle_disconnect i (g\<lparr>gw_clients := delete_rows (\<lambda>r. fst r = i) (gw_clients g)\<rparr>)"

definition destroy_gateway :: "gateway \<Rightarrow> gateway" where
  "destroy_gateway g = g\<lparr>gw_heartbeats := []\<rparr>"

section \<open>Rooms\<close>

definition check_join_limit :: "timestamp \<Rightarrow> string \<Rightarrow> gateway \<Rightarrow> bool \<times> gateway" where
  "check_join_limit t i g =
     (let n = (case by_id fst i (gw_rates g) of None \<Rightarrow> 0 | Some r \<Rightarrow> snd r) in
      if n \<ge> join_limit then (False, g)
      else (True, g\<lparr>gw_rates := save_row fst (i, n + 1) (gw_rates g),
                   gw_timers := gw_timers g @ (if n = 0 then [(t + rate_window, i)] else [])\<rparr>))"

definition is_numbered_room :: "string \<Rightarrow> bool" where
  "is_numbered_room s \<longleftrightarrow> (starts_with s ''event:'' \<or> starts_with s ''match:'') \<and>
     drop 6 s \<noteq> [] \<and> list_all is_digit (drop 6 s)"

definition is_address_char :: "char \<Rightarrow> bool" where
  "is_address_char c \<longleftrightarrow> (65 \<le> char_code c \<and> char_code c \<le> 90) \<or> is_digit c"

definition is_user_room :: "string \<Rightarrow> bool" where
  "is_user_room s \<longleftrightarrow> starts_with s ''user:'' \<and> length (drop 5 s) = 56 \<and> list_all is_address_char (drop 5 s)"

definition client_user :: "string \<Rightarrow> gateway \<Rightarrow> string option" where
  "client_user i g = (case by_id fst i (gw_clients g) of None \<Rightarrow> None | Some c \<Rightarrow> sk_user (snd c))"

definition set_rooms :: "(string list \<Rightarrow> string list) \<Rightarrow> string \<Rightarrow> gateway \<Rightarrow> gateway" where
  "set_rooms f i g =
     g\<lparr>gw_clients := update_rows (\<lambda>r. fst r = i) (\<lambda>(j, c). (j, c\<lparr>sk_rooms := f (sk_rooms c)\<rparr>)) (gw_clients g)\<rparr>"

definition enter_room :: "string \<Rightarrow> string \<Rightarrow> gateway \<Rightarrow> gateway" where
  "enter_room room i g = set_rooms (\<lambda>rs. if room \<in> set rs then rs else rs @ [room]) i g"

text \<open>
  The room is whatever the client sends.  The regular expressions test its text; a value that is no text
  but reads like a room has no \<open>startsWith\<close>, which ends as an exception of the framework.
\<close>

definition handle_join :: "timestamp \<Rightarrow> string \<Rightarrow> jsval \<Rightarrow> gateway \<Rightarrow> gateway" where
  "handle_join t i body g =
     (case check_join_limit t i g of
        (False, g1) \<Rightarrow> drop_socket i (send_frame i (FrError ''Rate limit exceeded'') g1)
      | (True, g1) \<Rightarrow>
          if \<not> truthy body \<or> \<not> is_numbered_room (js_string body) \<and> \<not> is_user_room (js_string body) then
            send_frame i (FrError ''Invalid room'') g1
          else
            (case body of
               JStr room \<Rightarrow>
                 if starts_with room ''user:'' \<and> client_user i g1 \<noteq> Some (split_on CHR '':'' room ! 1) then
                   send_frame i (FrError ''Unauthorized'') g1
                 else send_frame i (FrJoined room) (enter_room room i g1)
             | _ \<Rightarrow> send_frame i FrException g1))"

definition handle_leave :: "string \<Rightarrow> jsval \<Rightarrow> gateway \<Rightarrow> gateway" where
  "handle_leave i body g =
     send_frame i (FrLeft body)
       (case body of JStr room \<Rightarrow> set_rooms (filter (\<lambda>r. r \<noteq> room)) i g | _ \<Rightarrow> g)"

text \<open>
  The confirmation goes to every connected client as a message; the broadcaster, which keeps the
  confirmations, is no client.
\<close>

definition handle_notification_delivered :: "string \<Rightarrow> (string \<times> jsval) list \<Rightarrow> gateway \<Rightarrow> gateway" where
  "handle_notification_delivered i data g =
     (case nonempty (client_user i g) of
        None \<Rightarrow> send_frame i (FrError ''Unauthorized'') g
      | Some a \<Rightarrow> emit_all (FrConfirmed a (get_prop data ''notification_id'')) g)"

text \<open>The end of a window forgets the count, the timer's tick pings the socket.\<close>

definition end_windows :: "timestamp \<Rightarrow> gateway \<Rightarrow> gateway" where
  "end_windows t g =
     g\<lparr>gw_rates := delete_rows (\<lambda>r. fst r \<in> snd ` set (filter (\<lambda>x. fst x \<le> t) (gw_timers g))) (gw_rates g),
       gw_timers := filter (\<lambda>x. fst x > t) (gw_timers g)\<rparr>"

definition heartbeat_tick :: "gateway \<Rightarrow> gateway" where
  "heartbeat_tick g = g\<lparr>gw_sent := gw_sent g @ map (\<lambda>i. (i, FrPing)) (gw_heartbeats g)\<rparr>"

section \<open>Broadcasts\<close>

fun emission_address :: "emission \<Rightarrow> string" where
  "emission_address (EmitNotes a e ns) = a"
| "emission_address (EmitRead a k) = a"
| "emission_address (EmitConfirm a k) = a"
| "emission_address (EmitResult a r) = a"
| "emission_address (EmitWinner a w) = a"

definition emit_note :: "emission \<Rightarrow> gateway \<Rightarrow> gateway" where
  "emit_note e g = emit_to (user_room (emission_address e)) (FrNote e) g"

type_synonym js_object = "(string \<times> jsval) list"

definition picked :: "js_object \<Rightarrow> string list \<Rightarrow> js_object" where
  "picked data ks = map (\<lambda>k. (k, get_prop data k)) ks"

definition event_payload :: "string \<Rightarrow> js_object \<Rightarrow> jsval" where
  "event_payload e data = JObj [(''event'', JStr e), (''data'', JObj data)]"

definition event_id_of :: "js_object \<Rightarrow> string" where
  "event_id_of data = js_string (get_prop data ''event_id'')"

definition match_id_of :: "js_object \<Rightarrow> string" where
  "match_id_of data = js_string (get_prop data ''match_id'')"

definition event_room :: "string \<Rightarrow> string" where
  "event_room x = ''event:'' @ x"

definition match_room :: "string \<Rightarrow> string" where
  "match_room x = ''match:'' @ x"

definition broadcast_event_created :: "js_object \<Rightarrow> gateway \<Rightarrow> gateway" where
  "broadcast_event_created data g =
     emit_all (FrEvent ''event:created'' (event_payload ''event:created''
       (picked data [''event_id'', ''creator'', ''title'', ''invite_code'', ''max_participants'', ''created_at'']))) g"

text \<open>The spread of the data comes after the id, so an \<open>event_id\<close> in it wins.\<close>

definition broadcast_event_updated :: "jsval \<Rightarrow> js_object \<Rightarrow> gateway \<Rightarrow> gateway" where
  "broadcast_event_updated eid data g =
     emit_to (event_room (js_string eid)) (FrEvent ''event:updated'' (event_payload ''event:updated''
       (fold (save_row fst) data [(''event_id'', JStr (js_string eid))]))) g"

definition broadcast_match_added :: "js_object \<Rightarrow> gateway \<Rightarrow> gateway" where
  "broadcast_match_added data g =
     emit_to (event_room (event_id_of data)) (FrEvent ''match:added'' (event_payload ''match:added''
       (picked data [''match_id''] @ [(''event_id'', JStr (event_id_of data))] @
        picked data [''team_a'', ''team_b'', ''match_time'']))) g"

definition broadcast_user_joined :: "js_object \<Rightarrow> gateway \<Rightarrow> gateway" where
  "broadcast_user_joined data g =
     emit_to (event_room (event_id_of data)) (FrEvent ''user:joined'' (event_payload ''user:joined''
       ((''event_id'', JStr (event_id_of data)) # picked data [''user_address'']))) g"

text \<open>To both rooms, one after the other, where the ids are there.\<close>

definition emit_to_both :: "js_object \<Rightarrow> frame \<Rightarrow> gateway \<Rightarrow> gateway" where
  "emit_to_both data f g =
     (let g1 = (if truthy (get_prop data ''event_id'') then emit_to (event_room (event_id_of data)) f g else g) in
      if truthy (get_prop data ''match_id'') then emit_to (match_room (match_id_of data)) f g1 else g1)"

definition broadcast_prediction_submitted :: "js_object \<Rightarrow> gateway \<Rightarrow> gateway" where
  "broadcast_prediction_submitted data g =
     emit_to_both data (FrEvent ''prediction:submitted'' (event_payload ''prediction:submitted''
       ([(''match_id'', JStr (match_id_of data)), (''event_id'', JStr (event_id_of data))] @
        picked data [''predictor'', ''predicted_outcome'']))) g"

definition broadcast_match_resolved :: "js_object \<Rightarrow> gateway \<Rightarrow> gateway" where
  "broadcast_match_resolved data g =
     emit_to_both data (FrEvent ''match:resolved'' (event_payload ''match:resolved''
       ([(''match_id'', JStr (match_id_of data)), (''event_id'', JStr (event_id_of data))] @
        picked data [''winning_team'', ''submitted_by'']))) g"

definition broadcast_winners_verified :: "js_object \<Rightarrow> gateway \<Rightarrow> gateway" where
  "broadcast_winners_verified data g =
     emit_to (event_room (event_id_of data)) (FrEvent ''winners:verified'' (event_payload ''winners:verified''
       ((''event_id'', JStr (event_id_of data)) # picked data [''winners'']))) g"

definition broadcast_event_cancelled :: "js_object \<Rightarrow> gateway \<Rightarrow> gateway" where
  "broadcast_event_cancelled data g =
     emit_to (event_room (event_id_of data)) (FrEvent ''event:cancelled'' (event_payload ''event:cancelled''
       ((''event_id'', JStr (event_id_of data)) # picked data [''title'']))) g"

definition broadcast_event_finalized :: "js_object \<Rightarrow> gateway \<Rightarrow> gateway" where
  "broadcast_event_finalized data g =
     emit_to (event_room (event_id_of data)) (FrEvent ''event:finalized'' (event_payload ''event:finalized''
       ((''event_id'', JStr (event_id_of data)) # picked data [''finalized_at'', ''leaderboard'']))) g"

section \<open>Runs\<close>

datatype broadcast_kind =
    BkCreated | BkUpdated jsval | BkMatchAdded | BkUserJoined | BkPrediction | BkMatchResolved
  | BkWinners | BkCancelled | BkFinalized

fun broadcast_of :: "broadcast_kind \<Rightarrow> js_object \<Rightarrow> gateway \<Rightarrow> gateway" where
  "broadcast_of BkCreated = broadcast_event_created"
| "broadcast_of (BkUpdated eid) = broadcast_event_updated eid"
| "broadcast_of BkMatchAdded = broadcast_match_added"
| "broadcast_of BkUserJoined = broadcast_user_joined"
| "broadcast_of BkPrediction = broadcast_prediction_submitted"
| "broadcast_of BkMatchResolved = broadcast_match_resolved"
| "broadcast_of BkWinners = broadcast_winners_verified"
| "broadcast_of BkCancelled = broadcast_event_cancelled"
| "broadcast_of BkFinalized = broadcast_event_finalized"

datatype gateway_op =
    GConnect string "string option" "string option"
  | GDisconnect string
  | GJoin string jsval
  | GLeave string jsval
  | GDelivered string js_object
  | GWindows
  | GHeartbeat
  | GNote emission
  | GBroadcast broadcast_kind js_object

definition is_connected :: "string \<Rightarrow> gateway \<Rightarrow> bool" where
  "is_connected i g \<longleftrightarrow> i \<in> fst ` set (gw_clients g)"

text \<open>A new socket has an id of its own; messages come from connected sockets.\<close>

fun gateway_step :: "(string \<Rightarrow> string option) \<Rightarrow> bool \<Rightarrow> timestamp \<times> gateway_op \<Rightarrow> gateway \<Rightarrow> gateway" where
  "gateway_step verify b (t, GConnect i auth header) g = (if is_connected i g then g else handle_connection verify b i auth header g)"
| "gateway_step verify b (t, GDisconnect i) g = drop_socket i g"
| "gateway_step verify b (t, GJoin i body) g = (if is_connected i g then handle_join t i body g else g)"
| "gateway_step verify b (t, GLeave i body) g = (if is_connected i g then handle_leave i body g else g)"
| "gateway_step verify b (t, GDelivered i data) g = (if is_connected i g then handle_notification_delivered i data g else g)"
| "gateway_step verify b (t, GWindows) g = end_windows t g"
| "gateway_step verify b (t, GHeartbeat) g = heartbeat_tick g"
| "gateway_step verify b (t, GNote e) g = emit_note e g"
| "gateway_step verify b (t, GBroadcast k data) g = broadcast_of k data g"

definition gateway_run :: "(string \<Rightarrow> string option) \<Rightarrow> bool \<Rightarrow> (timestamp \<times> gateway_op) list \<Rightarrow> gateway" where
  "gateway_run verify b ops = fold (gateway_step verify b) ops empty_gateway"

text \<open>The ids the socket library makes do not look like the room of a user.\<close>

fun plain_socket_id :: "gateway_op \<Rightarrow> bool" where
  "plain_socket_id (GConnect i auth header) \<longleftrightarrow> \<not> starts_with i ''user:''"
| "plain_socket_id _ \<longleftrightarrow> True"

section \<open>The rooms of the users\<close>

definition client_ok :: "(string \<Rightarrow> string option) \<Rightarrow> socket_client \<Rightarrow> bool" where
  "client_ok verify c \<longleftrightarrow>
     (\<forall>r\<in>set (sk_rooms c). starts_with r ''user:'' \<longrightarrow> sk_user c = Some (drop 5 r)) \<and>
     (sk_user c \<noteq> None \<longrightarrow> sk_user c \<in> range verify)"

definition rooms_ok :: "(string \<Rightarrow> string option) \<Rightarrow> gateway \<Rightarrow> bool" where
  "rooms_ok verify g \<longleftrightarrow> keyed fst (gw_clients g) \<and> list_all (\<lambda>r. client_ok verify (snd r)) (gw_clients g)"

lemma rooms_ok_same: "rooms_ok verify g \<Longrightarrow> gw_clients g' = gw_clients g \<Longrightarrow> rooms_ok verify g'"
  by (simp add: rooms_ok_def)

lemma sending_clients [simp]:
  "gw_clients (send_frame i f g) = gw_clients g" "gw_clients (emit_to room f g) = gw_clients g"
  "gw_clients (emit_all f g) = gw_clients g" "gw_clients (end_windows t g) = gw_clients g"
  "gw_clients (heartbeat_tick g) = gw_clients g" "gw_clients (emit_note e g) = gw_clients g"
  "gw_clients (clear_heartbeat i g) = gw_clients g" "gw_clients (handle_disconnect i g) = gw_clients g"
  by (simp_all add: send_frame_def emit_to_def emit_all_def end_windows_def heartbeat_tick_def emit_note_def
      clear_heartbeat_def handle_disconnect_def Let_def)

lemma check_join_limit_clients [simp]: "gw_clients (snd (check_join_limit t i g)) = gw_clients g"
  by (simp add: check_join_limit_def Let_def)

lemma broadcast_clients [simp]: "gw_clients (broadcast_of k data g) = gw_clients g"
  by (cases k) (simp_all add: broadcast_event_created_def broadcast_event_updated_def broadcast_match_added_def
      broadcast_user_joined_def broadcast_prediction_submitted_def broadcast_match_resolved_def
      broadcast_winners_verified_def broadcast_event_cancelled_def broadcast_event_finalized_def
      emit_to_both_def Let_def)

lemma rooms_ok_sent [simp]:
  "rooms_ok verify (send_frame i f g) = rooms_ok verify g" "rooms_ok verify (emit_all f g) = rooms_ok verify g"
  by (simp_all add: rooms_ok_def)

lemma rooms_ok_drop: "rooms_ok verify g \<Longrightarrow> rooms_ok verify (drop_socket i g)"
  by (auto simp: rooms_ok_def drop_socket_def keyed_delete_rows list_all_iff delete_rows_def
      intro!: keyed_delete_rows [unfolded delete_rows_def])

lemma rooms_ok_set_rooms:
  assumes "rooms_ok verify g"
    and "\<And>c. by_id fst i (gw_clients g) = Some (i, c) \<Longrightarrow> client_ok verify c \<Longrightarrow> client_ok verify (c\<lparr>sk_rooms := f (sk_rooms c)\<rparr>)"
  shows "rooms_ok verify (set_rooms f i g)"
proof -
  let ?F = "\<lambda>(j, c). (j, c\<lparr>sk_rooms := f (sk_rooms c)\<rparr>)"
  have "keyed fst (update_rows (\<lambda>r. fst r = i) ?F (gw_clients g))"
    using assms(1) by (subst keyed_update_rows) (auto simp: rooms_ok_def)
  moreover have "client_ok verify (c\<lparr>sk_rooms := f (sk_rooms c)\<rparr>)" if "(i, c) \<in> set (gw_clients g)" for c
    using assms that by_id_in [of fst "gw_clients g" "(i, c)"] by (auto simp: rooms_ok_def list_all_iff)
  ultimately show ?thesis
    using assms(1) by (auto simp: rooms_ok_def set_rooms_def update_rows_def list_all_iff)
qed

lemma user_room_parts: "starts_with r ''user:'' \<Longrightarrow> is_user_room r \<Longrightarrow> split_on CHR '':'' r ! 1 = drop 5 r"
proof -
  assume a: "starts_with r ''user:''" "is_user_room r"
  then have r: "r = ''user:'' @ drop 5 r" using append_take_drop_id [of "length ''user:''" r] by (simp add: starts_with_def numeral_eq_Suc)
  have "CHR '':'' \<notin> set (drop 5 r)"
    using a(2) by (auto simp: is_user_room_def list_all_iff is_address_char_def is_digit_def char_code_def dest!: bspec)
  then have "split_on CHR '':'' (drop 5 r) = [drop 5 r]" by (rule split_on_none)
  then have "split_on CHR '':'' (''user:'' @ drop 5 r) = [''user'', drop 5 r]" by simp
  then show "split_on CHR '':'' r ! 1 = drop 5 r" using r by (metis nth_Cons_0 nth_Cons_Suc One_nat_def)
qed

lemma numbered_no_user: "is_numbered_room r \<Longrightarrow> \<not> starts_with r ''user:''"
  by (cases r) (auto simp: is_numbered_room_def starts_with_def)

lemma rooms_ok_enter:
  assumes "rooms_ok verify g" and "starts_with room ''user:'' \<longrightarrow> client_user i g = Some (drop 5 room)"
  shows "rooms_ok verify (enter_room room i g)"
  unfolding enter_room_def using assms(1)
proof (rule rooms_ok_set_rooms)
  fix c assume "by_id fst i (gw_clients g) = Some (i, c)" "client_ok verify c"
  then show "client_ok verify (c\<lparr>sk_rooms := if room \<in> set (sk_rooms c) then sk_rooms c else sk_rooms c @ [room]\<rparr>)"
    using assms(2) by (auto simp: client_ok_def client_user_def)
qed

lemma rooms_ok_join:
  assumes "rooms_ok verify g" shows "rooms_ok verify (handle_join t i body g)"
proof -
  obtain b g1 where lim: "check_join_limit t i g = (b, g1)" by (cases "check_join_limit t i g")
  then have clients: "gw_clients g1 = gw_clients g" using check_join_limit_clients [of t i g] by simp
  have g1: "rooms_ok verify g1" using assms clients by (rule rooms_ok_same)
  have entered: "rooms_ok verify (enter_room room i g1)"
    if "is_numbered_room room \<or> is_user_room room"
      "starts_with room ''user:'' \<longrightarrow> client_user i g1 = Some (split_on CHR '':'' room ! 1)" for room
    using rooms_ok_enter [OF g1] that user_room_parts numbered_no_user by metis
  show ?thesis
    using entered g1 by (auto simp: handle_join_def lim rooms_ok_drop split: bool.split jsval.split)
qed

lemma rooms_ok_step:
  assumes ok: "rooms_ok verify g" and plain: "plain_socket_id (snd x)"
  shows "rooms_ok verify (gateway_step verify b x g)"
proof (cases x)
  case (Pair t op)
  show ?thesis
  proof (cases op)
    case (GConnect i auth header)
    define sub where "sub = (case handshake_token auth header of None \<Rightarrow> None | Some y \<Rightarrow> verify y)"
    let ?c = "\<lparr>sk_user = sub, sk_rooms = i # (case sub of None \<Rightarrow> [] | Some y \<Rightarrow> [user_room y])\<rparr>"
    have "client_ok verify ?c"
      using plain GConnect Pair
      by (auto simp: client_ok_def sub_def user_room_def starts_with_def split: option.splits intro: range_eqI [OF sym])
    moreover have "gw_clients (handle_connection verify b i auth header g) = save_row fst (i, ?c) (gw_clients g)"
      by (simp add: handle_connection_def Let_def sub_def [symmetric] split: option.split)
    ultimately have "rooms_ok verify (handle_connection verify b i auth header g)"
      using ok by (auto simp: rooms_ok_def keyed_save_row intro: list_all_save_row)
    then show ?thesis using ok by (simp add: Pair GConnect)
  next
    case (GLeave i body)
    have "rooms_ok verify (set_rooms (filter (\<lambda>r. r \<noteq> room)) i g)" for room
      using ok by (rule rooms_ok_set_rooms) (auto simp: client_ok_def)
    then show ?thesis
      using ok by (auto simp: Pair GLeave handle_leave_def split: jsval.split)
  next
    case (GDelivered i data)
    then show ?thesis
      using ok by (auto simp: Pair handle_notification_delivered_def split: option.split)
  qed (use ok in \<open>auto simp: Pair rooms_ok_join rooms_ok_drop intro: rooms_ok_same [OF ok]\<close>)
qed

lemma gateway_run_ok:
  assumes "list_all (\<lambda>x. plain_socket_id (snd x)) ops" shows "rooms_ok verify (gateway_run verify b ops)"
  using assms
proof (induction ops rule: rev_induct)
  case Nil
  then show ?case by (simp add: gateway_run_def empty_gateway_def rooms_ok_def keyed_def)
next
  case (snoc x ops)
  then show ?case using rooms_ok_step [of verify "gateway_run verify b ops" x b] by (simp add: gateway_run_def)
qed

text \<open>
  C33: whatever the clients send, a notification about an address goes only to sockets that connected with
  a valid token whose subject is that address, to each of them that has not left its room once, and to
  nobody else.
\<close>

theorem notifications_stay_private:
  assumes "list_all (\<lambda>x. plain_socket_id (snd x)) ops" and "g = gateway_run verify b ops"
  shows "gw_sent (emit_note e g) = gw_sent g @ map (\<lambda>i. (i, FrNote e)) (in_room (user_room (emission_address e)) g) \<and>
    list_all (\<lambda>i. client_user i g = Some (emission_address e) \<and> Some (emission_address e) \<in> range verify)
      (in_room (user_room (emission_address e)) g) \<and>
    distinct (in_room (user_room (emission_address e)) g)"
proof -
  have ok: "rooms_ok verify g" unfolding assms(2) by (rule gateway_run_ok [OF assms(1)])
  have "client_user i g = Some (emission_address e) \<and> Some (emission_address e) \<in> range verify"
    if member: "i \<in> set (in_room (user_room (emission_address e)) g)" for i
  proof -
    obtain c where c: "(i, c) \<in> set (gw_clients g)" "user_room (emission_address e) \<in> set (sk_rooms c)"
      using member by (auto simp: in_room_def)
    have "client_ok verify c" using ok c(1) by (auto simp: rooms_ok_def list_all_iff)
    then have "sk_user c = Some (emission_address e)" "sk_user c \<in> range verify"
      using c(2) by (auto simp: client_ok_def user_room_def starts_with_def dest!: bspec)
    moreover have "by_id fst i (gw_clients g) = Some (i, c)"
      using ok by_id_in [of fst "gw_clients g" "(i, c)"] c(1) by (simp add: rooms_ok_def)
    ultimately show ?thesis by (simp add: client_user_def)
  qed
  moreover have "distinct (in_room (user_room (emission_address e)) g)"
    using ok by (simp add: in_room_def rooms_ok_def keyed_def distinct_map_filter)
  ultimately show ?thesis by (simp add: emit_note_def emit_to_def list_all_iff)
qed

text \<open>
  C34: a token's subject is the id of an account and not its address, though notifications are addressed
  by the Stellar address: nobody can be in such a room, so no notification, result or prize is ever
  pushed to a browser.
\<close>

theorem no_notification_arrives:
  assumes "list_all (\<lambda>x. plain_socket_id (snd x)) ops"
    and "\<And>tok x. verify tok = Some x \<Longrightarrow> \<exists>u. x = jp_sub (payload_of u) \<and> length (u_id u) = 36"
    and "length (emission_address e) = 56"
  shows "emit_note e (gateway_run verify b ops) = gateway_run verify b ops"
proof -
  let ?g = "gateway_run verify b ops"
  have ok: "rooms_ok verify ?g" by (rule gateway_run_ok [OF assms(1)])
  have "user_room (emission_address e) \<notin> set (sk_rooms c)" if "(i, c) \<in> set (gw_clients ?g)" for i c
  proof
    assume "user_room (emission_address e) \<in> set (sk_rooms c)"
    moreover have "client_ok verify c" using ok that by (auto simp: rooms_ok_def list_all_iff)
    ultimately have "Some (emission_address e) \<in> range verify"
      by (auto simp: client_ok_def user_room_def starts_with_def dest!: bspec)
    then obtain tok where "verify tok = Some (emission_address e)" by (metis rangeE)
    from assms(2) [OF this] show False using assms(3) by (auto simp: payload_of_def)
  qed
  then have "in_room (user_room (emission_address e)) ?g = []"
    by (auto simp: in_room_def filter_empty_conv)
  then show ?thesis by (simp add: emit_note_def emit_to_def)
qed

text \<open>Two browsers, the tokens \<open>t1\<close> and \<open>t2\<close>, and a guest who tries to listen.\<close>

definition sample_verify :: "string \<Rightarrow> string option" where
  "sample_verify x = (if x = ''t1'' then Some ''GALICE'' else if x = ''t2'' then Some ''GBOB'' else None)"

definition sample_gateway_ops :: "(timestamp \<times> gateway_op) list" where
  "sample_gateway_ops =
     [(0, GConnect ''s1'' (Some ''t1'') None), (1, GConnect ''s2'' None (Some ''Bearer t2'')),
      (2, GConnect ''s3'' None None), (3, GJoin ''s3'' (JStr ''user:GALICE'')), (4, GJoin ''s3'' (JStr ''event:7''))]"

lemma sample_gateway_room:
  "in_room ''user:GALICE'' (gateway_run sample_verify False sample_gateway_ops) = [''s1'']"
  "in_room ''event:7'' (gateway_run sample_verify False sample_gateway_ops) = [''s3'']"
  by code_simp+

lemma notifications_stay_private_witness:
  "let g = gateway_run sample_verify False sample_gateway_ops in
   gw_sent (emit_note (EmitRead ''GALICE'' 5) g) = gw_sent g @ [(''s1'', FrNote (EmitRead ''GALICE'' 5))] \<and>
   client_user ''s1'' g = Some ''GALICE''"
proof -
  have "list_all (\<lambda>x. plain_socket_id (snd x)) sample_gateway_ops"
    by (simp add: sample_gateway_ops_def starts_with_def)
  from notifications_stay_private [OF this refl, of "EmitRead ''GALICE'' 5" sample_verify False]
  show ?thesis by (simp add: Let_def user_room_def sample_gateway_room)
qed

definition sample_account_id :: string where
  "sample_account_id = ''0b8c9c5e-7f4e-4e2f-9b1d-3f3c8a2d1e07''"

lemma no_notification_arrives_witness:
  "emit_note (EmitRead (replicate 56 CHR ''G'') 5)
     (gateway_run (\<lambda>x. if x = ''t1'' then Some sample_account_id else None) False
       [(0, GConnect ''s1'' (Some ''t1'') None), (1, GJoin ''s1'' (JStr (''user:'' @ replicate 56 CHR ''G'')))]) =
   gateway_run (\<lambda>x. if x = ''t1'' then Some sample_account_id else None) False
       [(0, GConnect ''s1'' (Some ''t1'') None), (1, GJoin ''s1'' (JStr (''user:'' @ replicate 56 CHR ''G'')))]"
proof (rule no_notification_arrives)
  fix tok x
  assume "(if tok = ''t1'' then Some sample_account_id else None) = Some x"
  then have "x = sample_account_id" by (simp split: if_splits)
  then have "x = jp_sub (payload_of (new_account sample_account_id 0 ''GA'')) \<and>
      length (u_id (new_account sample_account_id 0 ''GA'')) = 36"
    by (simp add: payload_of_def new_account_def sample_account_id_def)
  then show "\<exists>u. x = jp_sub (payload_of u) \<and> length (u_id u) = 36" by blast
qed (simp_all add: starts_with_def)

end
