(* ===== verification/FrontEvents.thy ===== *)
theory FrontEvents
  imports JsText SortFacts Store
begin

text \<open>
  The creator events of the web client (\<open>frontend/src/context/CreatorEventsContext.tsx\<close>): a React context
  that keeps events, matches, participants and predictions in the browser, starting from built-in samples.
  A callback reads the state of the render it was made in (the view) and its updates apply to the state
  of the moment.  Amounts and scores are exact numbers here; ids are no array indices, so the entries of an
  object keep their order.
\<close>

section \<open>Data\<close>

datatype front_status = Active | Completed | Cancelled
datatype match_outcome = TeamA | TeamB | Draw | Pending
datatype prize_currency = XLM | USDC
datatype payout_status = Projected | Claimable | Paid | Voided

record money_amount =
  mo_amount :: rat
  mo_currency :: prize_currency
  mo_display :: string

record reward_split =
  sp_rank :: nat
  sp_percentage :: rat
  sp_label :: string

record event_branding =
  eb_accent :: string
  eb_background :: string
  eb_banner :: string
  eb_logo :: string

record reward_distribution =
  rd_rank1 :: rat
  rd_rank2 :: rat
  rd_rank3 :: rat
  rd_rank4 :: rat
  rd_rank5 :: rat

record front_event =
  fe_id :: string
  fe_title :: string
  fe_description :: string
  fe_creator :: string
  fe_max :: int
  fe_participants :: int
  fe_status :: front_status
  fe_invite :: string
  fe_matches :: int
  fe_created :: string
  fe_starts :: string
  fe_ends :: string
  fe_days :: "int option"
  fe_prize :: money_amount
  fe_split :: "reward_split list"
  fe_fee :: money_amount
  fe_branding :: event_branding
  fe_multiplier :: rat
  fe_joined :: bool
  fe_start_time :: "string option"
  fe_distribution :: "reward_distribution option"
  fe_category :: "string option"
  fe_banner :: "string option"

record front_match =
  fm_id :: string
  fm_event :: string
  fm_team_a :: string
  fm_team_b :: string
  fm_time :: string
  fm_outcome :: match_outcome
  fm_home :: "int option"
  fm_away :: "int option"
  fm_multiplier :: rat

record front_participant =
  fp_address :: string
  fp_joined :: string
  fp_score :: int
  fp_predictions :: int
  fp_correct :: int
  fp_points :: int

record front_prediction =
  fr_event :: string
  fr_match :: string
  fr_outcome :: match_outcome
  fr_submitted :: string
  fr_home :: "int option"
  fr_away :: "int option"
  fr_multiplier :: rat
  fr_points :: int

record leaderboard_row =
  lb_address :: string
  lb_rank :: nat
  lb_score :: int
  lb_predictions :: int
  lb_correct :: int
  lb_points :: int
  lb_payout :: "money_amount option"

record event_payout =
  ep_event :: string
  ep_address :: string
  ep_rank :: nat
  ep_percentage :: rat
  ep_payout :: money_amount
  ep_status :: payout_status

section \<open>Helpers\<close>

definition day_in_ms :: int where
  "day_in_ms = 24 * 60 * 60 * 1000"

definition base_outcome_points :: int where
  "base_outcome_points = 100"

definition exact_score_bonus :: int where
  "exact_score_bonus = 50"

definition default_reward_split :: "reward_split list" where
  "default_reward_split =
     [\<lparr>sp_rank = 1, sp_percentage = 50, sp_label = ''Champion''\<rparr>,
      \<lparr>sp_rank = 2, sp_percentage = 30, sp_label = ''Runner-up''\<rparr>,
      \<lparr>sp_rank = 3, sp_percentage = 20, sp_label = ''Third place''\<rparr>]"

definition default_branding :: event_branding where
  "default_branding = \<lparr>eb_accent = ''#F97316'', eb_background = ''#111827'',
     eb_banner = ''/creator-events/default-banner.jpg'', eb_logo = ''IA''\<rparr>"

definition format_token_amount :: "rat \<Rightarrow> string" where
  "format_token_amount x = (if x = of_int \<lfloor>x\<rfloor> then show_int \<lfloor>x\<rfloor> else to_fixed 2 x)"

fun currency_text :: "prize_currency \<Rightarrow> string" where
  "currency_text XLM = ''XLM''"
| "currency_text USDC = ''USDC''"

definition money :: "rat \<Rightarrow> prize_currency \<Rightarrow> money_amount" where
  "money x c = \<lparr>mo_amount = x, mo_currency = c, mo_display = format_token_amount x @ '' '' @ currency_text c\<rparr>"

text \<open>The engine's reading of a date text and its ISO text of a time.\<close>

record date_engine =
  de_parse :: "string \<Rightarrow> timestamp option"
  de_iso :: "timestamp \<Rightarrow> string"

text \<open>NaN for a text that is no date.\<close>

definition calculate_duration_days :: "date_engine \<Rightarrow> string \<Rightarrow> string \<Rightarrow> int option" where
  "calculate_duration_days de starts ends =
     (case (de_parse de starts, de_parse de ends) of
        (Some a, Some b) \<Rightarrow> Some (max 1 \<lceil>of_int (b - a) / of_int day_in_ms :: rat\<rceil>)
      | _ \<Rightarrow> None)"

definition derive_outcome_from_score :: "int option \<Rightarrow> int option \<Rightarrow> match_outcome" where
  "derive_outcome_from_score home away =
     (case (home, away) of
        (Some h, Some a) \<Rightarrow> if h > a then TeamA else if a > h then TeamB else Draw
      | _ \<Rightarrow> Pending)"

fun payout_status_of :: "front_status \<Rightarrow> payout_status" where
  "payout_status_of Cancelled = Voided"
| "payout_status_of Completed = Claimable"
| "payout_status_of Active = Projected"

section \<open>State\<close>

text \<open>
  An update of an event the cache does not know leaves an object with the updated fields only; None is a
  field that is not there.
\<close>

record event_patch =
  pa_joined :: "bool option"
  pa_participants :: "int option"
  pa_status :: "front_status option"
  pa_matches :: "int option"

datatype cached_event = Whole front_event | Partial event_patch

record front_state =
  fs_events :: "front_event list"
  fs_cache :: "(string \<times> cached_event) list"
  fs_matches :: "(string \<times> front_match list) list"
  fs_participants :: "(string \<times> front_participant list) list"
  fs_predictions :: "(string \<times> front_prediction list) list"

definition listed :: "string \<Rightarrow> (string \<times> 'a list) list \<Rightarrow> 'a list" where
  "listed k m = (case by_id fst k m of None \<Rightarrow> [] | Some r \<Rightarrow> snd r)"

definition cached :: "string \<Rightarrow> front_state \<Rightarrow> cached_event option" where
  "cached k s = map_option snd (by_id fst k (fs_cache s))"

definition create_event_cache :: "front_event list \<Rightarrow> (string \<times> cached_event) list" where
  "create_event_cache events = fold (\<lambda>e c. save_row fst (fe_id e, Whole e) c) events []"

definition later :: "'a option \<Rightarrow> 'a option \<Rightarrow> 'a option" where
  "later new old = (case new of None \<Rightarrow> old | Some x \<Rightarrow> Some x)"

definition apply_patch :: "event_patch \<Rightarrow> front_event \<Rightarrow> front_event" where
  "apply_patch p e =
     e\<lparr>fe_joined := (case pa_joined p of None \<Rightarrow> fe_joined e | Some x \<Rightarrow> x),
       fe_participants := (case pa_participants p of None \<Rightarrow> fe_participants e | Some x \<Rightarrow> x),
       fe_status := (case pa_status p of None \<Rightarrow> fe_status e | Some x \<Rightarrow> x),
       fe_matches := (case pa_matches p of None \<Rightarrow> fe_matches e | Some x \<Rightarrow> x)\<rparr>"

definition merge_patch :: "event_patch \<Rightarrow> event_patch \<Rightarrow> event_patch" where
  "merge_patch new old =
     \<lparr>pa_joined = later (pa_joined new) (pa_joined old),
      pa_participants = later (pa_participants new) (pa_participants old),
      pa_status = later (pa_status new) (pa_status old), pa_matches = later (pa_matches new) (pa_matches old)\<rparr>"

definition no_patch :: event_patch where
  "no_patch = \<lparr>pa_joined = None, pa_participants = None, pa_status = None, pa_matches = None\<rparr>"

definition front_update_event :: "string \<Rightarrow> event_patch \<Rightarrow> front_state \<Rightarrow> front_state" where
  "front_update_event k p s =
     s\<lparr>fs_events := map (\<lambda>e. if fe_id e = k then apply_patch p e else e) (fs_events s),
       fs_cache := save_row fst
         (k, case cached k s of
               None \<Rightarrow> Partial p
             | Some (Whole e) \<Rightarrow> Whole (apply_patch p e)
             | Some (Partial old) \<Rightarrow> Partial (merge_patch p old)) (fs_cache s)\<rparr>"

definition find_front_match :: "string \<Rightarrow> front_state \<Rightarrow> front_match option" where
  "find_front_match k s = find_one (\<lambda>m. fm_id m = k) (concat (map snd (fs_matches s)))"

section \<open>Leaderboard and payouts\<close>

definition reading_undefined :: http_error where
  "reading_undefined = InternalError ''TypeError: Cannot read properties of undefined''"

definition payouts_of_event :: "string \<Rightarrow> front_event \<Rightarrow> leaderboard_row list \<Rightarrow> event_payout list" where
  "payouts_of_event k e rows =
     List.map_filter (\<lambda>sp. case find_one (\<lambda>r. lb_rank r = sp_rank sp) rows of
          None \<Rightarrow> None
        | Some r \<Rightarrow> Some \<lparr>ep_event = k, ep_address = lb_address r, ep_rank = sp_rank sp,
            ep_percentage = sp_percentage sp,
            ep_payout = money (of_int (math_round (mo_amount (fe_prize e) * sp_percentage sp)) / 100)
              (mo_currency (fe_prize e)),
            ep_status = payout_status_of (fe_status e)\<rparr>) (fe_split e)"

definition build_payouts :: "front_state \<Rightarrow> string \<Rightarrow> leaderboard_row list \<Rightarrow> event_payout list result" where
  "build_payouts v k rows =
     (case cached k v of
        None \<Rightarrow> Inr []
      | Some (Partial p) \<Rightarrow> if pa_status p = Some Cancelled then Inr [] else Inl reading_undefined
      | Some (Whole e) \<Rightarrow>
          if fe_status e = Cancelled then Inr []
          else Inr (payouts_of_event k e rows))"

definition base_leaderboard :: "front_participant list \<Rightarrow> leaderboard_row list" where
  "base_leaderboard ps =
     map (\<lambda>(i, p). \<lparr>lb_address = fp_address p, lb_rank = i + 1, lb_score = fp_score p,
         lb_predictions = fp_predictions p, lb_correct = fp_correct p, lb_points = fp_points p,
         lb_payout = None\<rparr>)
       (enumerate 0 (sort_desc fp_score ps))"

definition front_leaderboard :: "front_state \<Rightarrow> string \<Rightarrow> leaderboard_row list result" where
  "front_leaderboard v k =
     (let rows = base_leaderboard (listed k (fs_participants v)) in
      if (case cached k v of None \<Rightarrow> True | Some (Partial p) \<Rightarrow> pa_status p = Some Cancelled
          | Some (Whole e) \<Rightarrow> fe_status e = Cancelled) then Inr rows
      else
        (case build_payouts v k rows of
           Inl err \<Rightarrow> Inl err
         | Inr ps \<Rightarrow> Inr (map (\<lambda>r. r\<lparr>lb_payout :=
             map_option ep_payout (find_one (\<lambda>x. ep_address x = lb_address r) ps)\<rparr>) rows)))"

definition get_event_payouts :: "front_state \<Rightarrow> string \<Rightarrow> event_payout list result" where
  "get_event_payouts v k =
     (case front_leaderboard v k of Inl err \<Rightarrow> Inl err | Inr rows \<Rightarrow> build_payouts v k rows)"

record user_payout =
  yp_event :: string
  yp_address :: string
  yp_rank :: "nat option"
  yp_payout :: money_amount
  yp_percentage :: rat
  yp_status :: payout_status

text \<open>\<open>wallet\<close> is the address of the connected wallet.\<close>

definition get_user_payout ::
  "front_state \<Rightarrow> string option \<Rightarrow> string \<Rightarrow> string option \<Rightarrow> user_payout option result" where
  "get_user_payout v wallet k asked =
     (case nonempty (case asked of None \<Rightarrow> wallet | Some a \<Rightarrow> Some a) of
        None \<Rightarrow> Inr None
      | Some a \<Rightarrow>
          (case get_event_payouts v k of Inl err \<Rightarrow> Inl err | Inr ps \<Rightarrow>
          (case find_one (\<lambda>x. ep_address x = a) ps of
             Some x \<Rightarrow> Inr (Some \<lparr>yp_event = k, yp_address = a, yp_rank = Some (ep_rank x), yp_payout = ep_payout x,
                 yp_percentage = ep_percentage x, yp_status = ep_status x\<rparr>)
           | None \<Rightarrow>
               (case front_leaderboard v k of Inl err \<Rightarrow> Inl err | Inr rows \<Rightarrow>
               (case find_one (\<lambda>r. lb_address r = a) rows of
                  None \<Rightarrow> Inr None
                | Some r \<Rightarrow>
                    (case cached k v of
                       Some (Whole e) \<Rightarrow> Inr (Some \<lparr>yp_event = k, yp_address = a, yp_rank = Some (lb_rank r),
                           yp_payout = money 0 (mo_currency (fe_prize e)), yp_percentage = 0,
                           yp_status = payout_status_of (fe_status e)\<rparr>)
                     | _ \<Rightarrow> Inl reading_undefined))))))"

definition get_event_winners :: "front_state \<Rightarrow> string \<Rightarrow> (string \<times> int \<times> nat \<times> money_amount) list result" where
  "get_event_winners v k =
     (case get_event_payouts v k of
        Inl err \<Rightarrow> Inl err
      | Inr ps \<Rightarrow> Inr (map (\<lambda>x. (ep_address x,
          case find_one (\<lambda>p. fp_address p = ep_address x) (listed k (fs_participants v)) of None \<Rightarrow> 0 | Some p \<Rightarrow> fp_score p,
          ep_rank x, ep_payout x)) ps))"

definition get_front_score :: "front_state \<Rightarrow> string option \<Rightarrow> string \<Rightarrow> int" where
  "get_front_score v wallet k =
     (case find_one (\<lambda>p. fp_address p = (case wallet of None \<Rightarrow> ''GCF5T...9V2H'' | Some a \<Rightarrow> a))
         (listed k (fs_participants v)) of None \<Rightarrow> 0 | Some p \<Rightarrow> fp_score p)"

section \<open>Operations\<close>

text \<open>A number from a form, None for NaN.\<close>

definition or_zero :: "rat option \<Rightarrow> rat" where
  "or_zero x = (case x of None \<Rightarrow> 0 | Some r \<Rightarrow> r)"

record create_input =
  cn_title :: string
  cn_description :: string
  cn_max :: int
  cn_start :: string
  cn_end :: string
  cn_prize :: "rat option"
  cn_distribution :: "reward_distribution option"
  cn_fee :: "rat option"
  cn_category :: string
  cn_banner :: string

definition ascii_word :: "char \<Rightarrow> bool" where
  "ascii_word c \<longleftrightarrow> is_digit c \<or> is_lower c \<or> (65 \<le> char_code c \<and> char_code c \<le> 90)"

text \<open>Each run of other characters becomes one dash; then one dash at each end is cut.\<close>

fun dash_runs :: "string \<Rightarrow> string" where
  "dash_runs [] = []"
| "dash_runs (c # s) =
     (if ascii_word c then c # dash_runs s
      else if s \<noteq> [] \<and> \<not> ascii_word (hd s) then dash_runs s
      else CHR ''-'' # dash_runs s)"

definition trim_dashes :: "string \<Rightarrow> string" where
  "trim_dashes s =
     (let a = (case s of c # r \<Rightarrow> if c = CHR ''-'' then r else s | [] \<Rightarrow> []) in
      if a \<noteq> [] \<and> last a = CHR ''-'' then butlast a else a)"

text \<open>\<open>random\<close> is the text of the random number from its third character to its sixth.\<close>

definition invite_code_of :: "string \<Rightarrow> string \<Rightarrow> string" where
  "invite_code_of title random = to_upper (take 12 (trim_dashes (dash_runs title))) @ ''-'' @ to_upper random"

definition split_of_distribution :: "reward_distribution option \<Rightarrow> reward_split list" where
  "split_of_distribution d =
     (case d of
        None \<Rightarrow> default_reward_split
      | Some x \<Rightarrow> filter (\<lambda>r. sp_percentage r > 0)
          [\<lparr>sp_rank = 1, sp_percentage = rd_rank1 x, sp_label = ''#1''\<rparr>,
           \<lparr>sp_rank = 2, sp_percentage = rd_rank2 x, sp_label = ''#2''\<rparr>,
           \<lparr>sp_rank = 3, sp_percentage = rd_rank3 x, sp_label = ''#3''\<rparr>,
           \<lparr>sp_rank = 4, sp_percentage = rd_rank4 x, sp_label = ''#4''\<rparr>,
           \<lparr>sp_rank = 5, sp_percentage = rd_rank5 x, sp_label = ''#5''\<rparr>])"

definition front_create_event ::
  "date_engine \<Rightarrow> timestamp \<Rightarrow> string \<Rightarrow> string option \<Rightarrow> create_input \<Rightarrow> front_state
    \<Rightarrow> (string \<times> string) result \<times> front_state" where
  "front_create_event de t random wallet x s =
     (let k = ''event-'' @ show_int t;
          code = invite_code_of (cn_title x) random;
          starts = (if cn_start x = [] then de_iso de t else cn_start x);
          ends = (if cn_end x = [] then map_option (\<lambda>a. de_iso de (a + 7 * day_in_ms)) (de_parse de starts)
                  else Some (cn_end x))
      in case ends of
           None \<Rightarrow> (Inl (InternalError ''RangeError: Invalid time value''), s)
         | Some y \<Rightarrow>
             (let e = \<lparr>fe_id = k, fe_title = cn_title x, fe_description = cn_description x,
                fe_creator = (case wallet of None \<Rightarrow> ''GUEST-CREATOR'' | Some a \<Rightarrow> a), fe_max = cn_max x,
                fe_participants = 0, fe_status = Active, fe_invite = code, fe_matches = 0,
                fe_created = de_iso de t, fe_starts = starts, fe_ends = y,
                fe_days = calculate_duration_days de starts y, fe_prize = money (or_zero (cn_prize x)) XLM,
                fe_split = split_of_distribution (cn_distribution x), fe_fee = money (or_zero (cn_fee x)) XLM,
                fe_branding = default_branding, fe_multiplier = 1, fe_joined = False,
                fe_start_time = Some (cn_start x), fe_distribution = cn_distribution x,
                fe_category = Some (cn_category x), fe_banner = Some (cn_banner x)\<rparr>
              in (Inr (k, code),
                  \<lparr>fs_events = e # fs_events s, fs_cache = save_row fst (k, Whole e) (fs_cache s),
                   fs_matches = save_row fst (k, []) (fs_matches s),
                   fs_participants = save_row fst (k, []) (fs_participants s),
                   fs_predictions = save_row fst (k, []) (fs_predictions s)\<rparr>)))"

definition same_code :: "string \<Rightarrow> front_event \<Rightarrow> bool" where
  "same_code code e \<longleftrightarrow> to_lower (fe_invite e) = to_lower code"

definition new_participant :: "string \<Rightarrow> string \<Rightarrow> front_participant" where
  "new_participant a joined =
     \<lparr>fp_address = a, fp_joined = joined, fp_score = 0, fp_predictions = 0, fp_correct = 0, fp_points = 0\<rparr>"

definition front_join_event ::
  "date_engine \<Rightarrow> timestamp \<Rightarrow> front_state \<Rightarrow> string option \<Rightarrow> string \<Rightarrow> front_state \<Rightarrow> bool \<times> front_state" where
  "front_join_event de t v wallet code s =
     (case find_one (same_code code) (fs_events v) of
        None \<Rightarrow> (False, s)
      | Some e \<Rightarrow>
          if fe_participants e \<ge> fe_max e then (False, s)
          else
            (let s1 = front_update_event (fe_id e)
               (no_patch\<lparr>pa_joined := Some True, pa_participants := Some (fe_participants e + 1)\<rparr>) s
             in (True, s1\<lparr>fs_participants := save_row fst
                  (fe_id e, listed (fe_id e) (fs_participants s1) @
                     [new_participant (case wallet of None \<Rightarrow> ''GUEST-PARTICIPANT'' | Some a \<Rightarrow> a) (de_iso de t)])
                  (fs_participants s1)\<rparr>)))"

text \<open>A match as a form gives it; None is what is not given.\<close>

record match_input =
  mi_event :: string
  mi_team_a :: string
  mi_team_b :: string
  mi_time :: string
  mi_outcome :: "match_outcome option"
  mi_home :: "int option"
  mi_away :: "int option"
  mi_multiplier :: "rat option"

definition front_add_match ::
  "timestamp \<Rightarrow> front_state \<Rightarrow> match_input \<Rightarrow> front_state \<Rightarrow> string \<times> front_state" where
  "front_add_match t v x s =
     (let k = ''match-'' @ show_int t;
          m = \<lparr>fm_id = k, fm_event = mi_event x, fm_team_a = mi_team_a x, fm_team_b = mi_team_b x,
               fm_time = mi_time x,
               fm_outcome = (case mi_outcome x of None \<Rightarrow> derive_outcome_from_score (mi_home x) (mi_away x)
                             | Some y \<Rightarrow> y),
               fm_home = mi_home x, fm_away = mi_away x,
               fm_multiplier = (case mi_multiplier x of None \<Rightarrow> 1 | Some y \<Rightarrow> y)\<rparr>;
          s1 = s\<lparr>fs_matches := save_row fst (mi_event x, listed (mi_event x) (fs_matches s) @ [m]) (fs_matches s)\<rparr>
      in (k, front_update_event (mi_event x)
            (no_patch\<lparr>pa_matches := Some (int (length (listed (mi_event x) (fs_matches v))) + 1)\<rparr>) s1))"

text \<open>
  A score of a prediction can be absent (None), null (\<open>Some None\<close>) or a number: the comparison with the
  score of the match is strict, so an absent one never equals an open score, null does.
\<close>

record prediction_input =
  pd_event :: "string option"
  pd_match :: string
  pd_outcome :: match_outcome
  pd_home :: "int option option"
  pd_away :: "int option option"
  pd_multiplier :: "rat option"

definition calculate_prediction_points ::
  "prediction_input \<Rightarrow> front_match option \<Rightarrow> cached_event option \<Rightarrow> int" where
  "calculate_prediction_points x m e =
     (case m of
        None \<Rightarrow> 0
      | Some mt \<Rightarrow>
          if fm_outcome mt = Pending \<or> pd_outcome x \<noteq> fm_outcome mt then 0
          else
            (let multiplier = (case pd_multiplier x of Some y \<Rightarrow> y
                   | None \<Rightarrow> fm_multiplier mt * (case e of Some (Whole w) \<Rightarrow> fe_multiplier w | _ \<Rightarrow> 1));
                 bonus = (if pd_home x = Some (fm_home mt) \<and> pd_away x = Some (fm_away mt)
                          then exact_score_bonus else 0)
             in math_round (of_int (base_outcome_points + bonus) * multiplier)))"

definition given_score :: "int option option \<Rightarrow> int option" where
  "given_score x = (case x of None \<Rightarrow> None | Some y \<Rightarrow> y)"

definition front_submit_prediction ::
  "date_engine \<Rightarrow> timestamp \<Rightarrow> front_state \<Rightarrow> prediction_input \<Rightarrow> front_state \<Rightarrow> bool \<times> front_state" where
  "front_submit_prediction de t v x s =
     (let m = find_front_match (pd_match x) v in
      case nonempty (case pd_event x of Some k \<Rightarrow> Some k | None \<Rightarrow> map_option fm_event m) of
        None \<Rightarrow> (False, s)
      | Some k \<Rightarrow>
          (let e = cached k v;
               multiplier = (case pd_multiplier x of Some y \<Rightarrow> y
                 | None \<Rightarrow> (case m of None \<Rightarrow> 1 | Some mt \<Rightarrow> fm_multiplier mt) *
                     (case e of Some (Whole w) \<Rightarrow> fe_multiplier w | _ \<Rightarrow> 1));
               p = \<lparr>fr_event = k, fr_match = pd_match x, fr_outcome = pd_outcome x, fr_submitted = de_iso de t,
                    fr_home = given_score (pd_home x), fr_away = given_score (pd_away x),
                    fr_multiplier = multiplier,
                    fr_points = calculate_prediction_points
                      (x\<lparr>pd_event := Some k, pd_multiplier := Some multiplier\<rparr>) m e\<rparr>
           in (True, s\<lparr>fs_predictions :=
                 save_row fst (k, p # listed k (fs_predictions s)) (fs_predictions s)\<rparr>)))"

definition front_cancel_event :: "string \<Rightarrow> front_state \<Rightarrow> bool \<times> front_state" where
  "front_cancel_event k s = (True, front_update_event k (no_patch\<lparr>pa_status := Some Cancelled\<rparr>) s)"

definition front_verify_winners :: "string \<Rightarrow> front_state \<Rightarrow> bool \<times> front_state" where
  "front_verify_winners k s = (True, front_update_event k (no_patch\<lparr>pa_status := Some Completed\<rparr>) s)"

text \<open>A score that is not given, or null, leaves the score of the match.\<close>

definition with_result :: "match_outcome \<Rightarrow> (int option \<times> int option) option \<Rightarrow> front_match \<Rightarrow> front_match" where
  "with_result outcome scores m =
     m\<lparr>fm_outcome := outcome,
       fm_home := later (case scores of None \<Rightarrow> None | Some x \<Rightarrow> fst x) (fm_home m),
       fm_away := later (case scores of None \<Rightarrow> None | Some x \<Rightarrow> snd x) (fm_away m)\<rparr>"

definition front_submit_result ::
  "string \<Rightarrow> match_outcome \<Rightarrow> (int option \<times> int option) option \<Rightarrow> front_state \<Rightarrow> bool \<times> front_state" where
  "front_submit_result k outcome scores s =
     (True, s\<lparr>fs_matches := map (\<lambda>(j, ms). (j, map (\<lambda>m. if fm_id m = k then with_result outcome scores m else m) ms))
        (fs_matches s)\<rparr>)"

section \<open>Reading\<close>

definition front_event_by_code :: "front_state \<Rightarrow> string \<Rightarrow> front_event option" where
  "front_event_by_code v code = find_one (same_code code) (fs_events v)"

definition my_joined_events :: "front_state \<Rightarrow> front_event list" where
  "my_joined_events v = filter fe_joined (fs_events v)"

definition my_created_events :: "front_state \<Rightarrow> string option \<Rightarrow> front_event list" where
  "my_created_events v wallet =
     filter (\<lambda>e. Some (fe_creator e) = wallet \<or> fe_creator e = ''GCF5T...9V2H'') (fs_events v)"

text \<open>The administration of the contract is not connected: every action reports success.\<close>

definition contract_action :: bool where
  "contract_action = True"

section \<open>Runs\<close>

text \<open>
  Each step runs a callback of some render, so with the view of any state there has been, on the state of
  the moment.
\<close>

datatype front_op =
    FoCreate timestamp string "string option" create_input
  | FoJoin timestamp "string option" string
  | FoAddMatch timestamp match_input
  | FoPredict timestamp prediction_input
  | FoCancel string
  | FoVerify string
  | FoResult string match_outcome "(int option \<times> int option) option"

fun front_step :: "date_engine \<Rightarrow> front_op \<Rightarrow> front_state \<Rightarrow> front_state \<Rightarrow> front_state" where
  "front_step de (FoCreate t random wallet x) v s = snd (front_create_event de t random wallet x s)"
| "front_step de (FoJoin t wallet code) v s = snd (front_join_event de t v wallet code s)"
| "front_step de (FoAddMatch t x) v s = snd (front_add_match t v x s)"
| "front_step de (FoPredict t x) v s = snd (front_submit_prediction de t v x s)"
| "front_step de (FoCancel k) v s = snd (front_cancel_event k s)"
| "front_step de (FoVerify k) v s = snd (front_verify_winners k s)"
| "front_step de (FoResult k outcome scores) v s = snd (front_submit_result k outcome scores s)"

inductive front_run :: "date_engine \<Rightarrow> front_state \<Rightarrow> front_state list \<Rightarrow> front_state \<Rightarrow> bool" for de s0 where
  start: "front_run de s0 [s0] s0"
| act: "front_run de s0 h s \<Longrightarrow> v \<in> set h \<Longrightarrow> s' = front_step de x v s \<Longrightarrow> front_run de s0 (s' # h) s'"

end
