(* ===== verification/FrontMock.thy ===== *)
theory FrontMock
  imports FrontEvents
begin

text \<open>
  The built-in samples the client starts from (\<open>MOCK_EVENTS\<close> and the tables beside it in
  \<open>frontend/src/context/CreatorEventsContext.tsx\<close>).
\<close>

definition mock_events :: "date_engine \<Rightarrow> front_event list" where
  "mock_events de = [
     \<lparr>fe_id = ''event-001'', fe_title = ''Apollo Tournament'',
      fe_description = ''Invite-only prediction tournament across multiple creator matches.'',
      fe_creator = ''GCF5T...9V2H'', fe_max = 100, fe_participants = 72, fe_status = Active,
      fe_invite = ''APOLLO-2026'', fe_matches = 4, fe_created = ''2026-06-01T09:00:00Z'',
      fe_starts = ''2026-06-10T18:00:00Z'', fe_ends = ''2026-06-24T23:59:59Z'',
      fe_days = calculate_duration_days de ''2026-06-10T18:00:00Z'' ''2026-06-24T23:59:59Z'',
      fe_prize = money 5000 XLM,
      fe_split = default_reward_split,
      fe_fee = money 25 XLM,
      fe_branding = \<lparr>eb_accent = ''#F59E0B'', eb_background = ''#111827'',
        eb_banner = ''/creator-events/apollo-banner.jpg'', eb_logo = ''AP''\<rparr>,
      fe_multiplier = 3 / 2, fe_joined = True, fe_start_time = None, fe_distribution = None,
      fe_category = None, fe_banner = None\<rparr>,
     \<lparr>fe_id = ''event-002'', fe_title = ''Season Finale Challenge'',
      fe_description = ''Final creator event with exclusive insights and milestone rewards.'',
      fe_creator = ''GAB7W...2CPL'', fe_max = 50, fe_participants = 48, fe_status = Completed,
      fe_invite = ''FINALS-2026'', fe_matches = 3, fe_created = ''2026-05-01T09:00:00Z'',
      fe_starts = ''2026-05-06T16:00:00Z'', fe_ends = ''2026-05-12T23:59:59Z'',
      fe_days = calculate_duration_days de ''2026-05-06T16:00:00Z'' ''2026-05-12T23:59:59Z'',
      fe_prize = money 2500 XLM,
      fe_split = default_reward_split,
      fe_fee = money 10 XLM,
      fe_branding = \<lparr>eb_accent = ''#22C55E'', eb_background = ''#052E16'',
        eb_banner = ''/creator-events/finals-banner.jpg'', eb_logo = ''SF''\<rparr>,
      fe_multiplier = 1, fe_joined = False, fe_start_time = None, fe_distribution = None,
      fe_category = None, fe_banner = None\<rparr>,
     \<lparr>fe_id = ''event-003'', fe_title = ''Rising Stars Invite'',
      fe_description = ''Small-group prediction event for emerging creators and active supporters.'',
      fe_creator = ''GCT2L...45QZ'', fe_max = 20, fe_participants = 18, fe_status = Active,
      fe_invite = ''RISING-2026'', fe_matches = 5, fe_created = ''2026-06-08T10:30:00Z'',
      fe_starts = ''2026-06-15T19:00:00Z'', fe_ends = ''2026-07-01T23:59:59Z'',
      fe_days = calculate_duration_days de ''2026-06-15T19:00:00Z'' ''2026-07-01T23:59:59Z'',
      fe_prize = money 1200 XLM,
      fe_split = [\<lparr>sp_rank = 1, sp_percentage = 60, sp_label = ''First''\<rparr>,
        \<lparr>sp_rank = 2, sp_percentage = 25, sp_label = ''Second''\<rparr>,
        \<lparr>sp_rank = 3, sp_percentage = 15, sp_label = ''Third''\<rparr>],
      fe_fee = money 5 XLM,
      fe_branding = \<lparr>eb_accent = ''#38BDF8'', eb_background = ''#082F49'',
        eb_banner = ''/creator-events/rising-stars-banner.jpg'', eb_logo = ''RS''\<rparr>,
      fe_multiplier = 2, fe_joined = False, fe_start_time = None, fe_distribution = None,
      fe_category = None, fe_banner = None\<rparr>,
     \<lparr>fe_id = ''event-004'', fe_title = ''Paya Stakes Private Cup'',
      fe_description = ''An invite-only series of prediction battles with high participation demand.'',
      fe_creator = ''GDR8N...1BWE'', fe_max = 100, fe_participants = 100, fe_status = Cancelled,
      fe_invite = ''PRIVATE-CUP'', fe_matches = 2, fe_created = ''2026-05-02T11:00:00Z'',
      fe_starts = ''2026-05-09T18:30:00Z'', fe_ends = ''2026-05-29T23:59:59Z'',
      fe_days = calculate_duration_days de ''2026-05-09T18:30:00Z'' ''2026-05-29T23:59:59Z'',
      fe_prize = money 7500 XLM,
      fe_split = [\<lparr>sp_rank = 1, sp_percentage = 70, sp_label = ''Cup winner''\<rparr>,
        \<lparr>sp_rank = 2, sp_percentage = 20, sp_label = ''Finalist''\<rparr>,
        \<lparr>sp_rank = 3, sp_percentage = 10, sp_label = ''Semifinalist''\<rparr>],
      fe_fee = money 50 XLM,
      fe_branding = \<lparr>eb_accent = ''#E11D48'', eb_background = ''#4C0519'',
        eb_banner = ''/creator-events/private-cup-banner.jpg'', eb_logo = ''PC''\<rparr>,
      fe_multiplier = 5 / 4, fe_joined = False, fe_start_time = None, fe_distribution = None,
      fe_category = None, fe_banner = None\<rparr>]"

definition mock_matches :: "(string \<times> front_match list) list" where
  "mock_matches = [
     (''event-001'', [
       \<lparr>fm_id = ''match-001'', fm_event = ''event-001'', fm_team_a = ''Team Alpha'', fm_team_b = ''Team Beta'',
        fm_time = ''2026-06-12T18:00:00Z'', fm_outcome = TeamA, fm_home = Some 2, fm_away = Some 1, fm_multiplier = 1\<rparr>,
       \<lparr>fm_id = ''match-002'', fm_event = ''event-001'', fm_team_a = ''Team Gamma'', fm_team_b = ''Team Delta'',
        fm_time = ''2026-06-14T20:00:00Z'', fm_outcome = Draw, fm_home = Some 1, fm_away = Some 1, fm_multiplier = 5 / 4\<rparr>,
       \<lparr>fm_id = ''match-003'', fm_event = ''event-001'', fm_team_a = ''Team Alpha'', fm_team_b = ''Team Gamma'',
        fm_time = ''2026-06-19T18:00:00Z'', fm_outcome = Pending, fm_home = None, fm_away = None, fm_multiplier = 3 / 2\<rparr>,
       \<lparr>fm_id = ''match-004'', fm_event = ''event-001'', fm_team_a = ''Team Beta'', fm_team_b = ''Team Delta'',
        fm_time = ''2026-06-21T20:00:00Z'', fm_outcome = Pending, fm_home = None, fm_away = None, fm_multiplier = 1\<rparr>]),
     (''event-002'', [
       \<lparr>fm_id = ''match-005'', fm_event = ''event-002'', fm_team_a = ''Red Eagles'', fm_team_b = ''Blue Hawks'',
        fm_time = ''2026-05-08T16:00:00Z'', fm_outcome = TeamB, fm_home = Some 0, fm_away = Some 2, fm_multiplier = 1\<rparr>,
       \<lparr>fm_id = ''match-006'', fm_event = ''event-002'', fm_team_a = ''Green Vipers'', fm_team_b = ''Red Eagles'',
        fm_time = ''2026-05-10T16:00:00Z'', fm_outcome = TeamA, fm_home = Some 3, fm_away = Some 1, fm_multiplier = 3 / 2\<rparr>,
       \<lparr>fm_id = ''match-007'', fm_event = ''event-002'', fm_team_a = ''Blue Hawks'', fm_team_b = ''Green Vipers'',
        fm_time = ''2026-05-11T16:00:00Z'', fm_outcome = TeamA, fm_home = Some 2, fm_away = Some 0, fm_multiplier = 1\<rparr>]),
     (''event-003'', [
       \<lparr>fm_id = ''match-008'', fm_event = ''event-003'', fm_team_a = ''Stars FC'', fm_team_b = ''Nova SC'',
        fm_time = ''2026-06-16T19:00:00Z'', fm_outcome = TeamA, fm_home = Some 1, fm_away = Some 0, fm_multiplier = 1\<rparr>,
       \<lparr>fm_id = ''match-009'', fm_event = ''event-003'', fm_team_a = ''Apex United'', fm_team_b = ''Stars FC'',
        fm_time = ''2026-06-20T19:00:00Z'', fm_outcome = Pending, fm_home = None, fm_away = None, fm_multiplier = 5 / 4\<rparr>,
       \<lparr>fm_id = ''match-010'', fm_event = ''event-003'', fm_team_a = ''Nova SC'', fm_team_b = ''Rising Sun'',
        fm_time = ''2026-06-24T19:00:00Z'', fm_outcome = Pending, fm_home = None, fm_away = None, fm_multiplier = 1\<rparr>,
       \<lparr>fm_id = ''match-011'', fm_event = ''event-003'', fm_team_a = ''Stars FC'', fm_team_b = ''Rising Sun'',
        fm_time = ''2026-06-27T19:00:00Z'', fm_outcome = Pending, fm_home = None, fm_away = None, fm_multiplier = 3 / 2\<rparr>,
       \<lparr>fm_id = ''match-012'', fm_event = ''event-003'', fm_team_a = ''Apex United'', fm_team_b = ''Nova SC'',
        fm_time = ''2026-06-30T19:00:00Z'', fm_outcome = Pending, fm_home = None, fm_away = None, fm_multiplier = 1\<rparr>]),
     (''event-004'', [
       \<lparr>fm_id = ''match-013'', fm_event = ''event-004'', fm_team_a = ''North Guild'', fm_team_b = ''South Guild'',
        fm_time = ''2026-05-12T18:30:00Z'', fm_outcome = TeamB, fm_home = Some 1, fm_away = Some 3, fm_multiplier = 1\<rparr>,
       \<lparr>fm_id = ''match-014'', fm_event = ''event-004'', fm_team_a = ''East Guild'', fm_team_b = ''West Guild'',
        fm_time = ''2026-05-15T18:30:00Z'', fm_outcome = Draw, fm_home = Some 2, fm_away = Some 2, fm_multiplier = 5 / 4\<rparr>])]"

definition mock_participants :: "(string \<times> front_participant list) list" where
  "mock_participants = [
     (''event-001'', [
       \<lparr>fp_address = ''GCF5T...9V2H'', fp_joined = ''2026-06-01T10:00:00Z'', fp_score = 420, fp_predictions = 4,
        fp_correct = 3, fp_points = 420\<rparr>,
       \<lparr>fp_address = ''GAB7W...2CPL'', fp_joined = ''2026-06-02T11:30:00Z'', fp_score = 340, fp_predictions = 4,
        fp_correct = 2, fp_points = 340\<rparr>,
       \<lparr>fp_address = ''GCT2L...45QZ'', fp_joined = ''2026-06-03T09:15:00Z'', fp_score = 260, fp_predictions = 3,
        fp_correct = 2, fp_points = 260\<rparr>]),
     (''event-002'', [
       \<lparr>fp_address = ''GAB7W...2CPL'', fp_joined = ''2026-05-01T11:30:00Z'', fp_score = 510, fp_predictions = 3,
        fp_correct = 3, fp_points = 510\<rparr>,
       \<lparr>fp_address = ''GDR8N...1BWE'', fp_joined = ''2026-05-02T09:10:00Z'', fp_score = 375, fp_predictions = 3,
        fp_correct = 2, fp_points = 375\<rparr>,
       \<lparr>fp_address = ''GCF5T...9V2H'', fp_joined = ''2026-05-03T13:45:00Z'', fp_score = 300, fp_predictions = 3,
        fp_correct = 2, fp_points = 300\<rparr>]),
     (''event-003'', [
       \<lparr>fp_address = ''GCT2L...45QZ'', fp_joined = ''2026-06-10T14:00:00Z'', fp_score = 180, fp_predictions = 2,
        fp_correct = 1, fp_points = 180\<rparr>,
       \<lparr>fp_address = ''GCF5T...9V2H'', fp_joined = ''2026-06-11T12:00:00Z'', fp_score = 150, fp_predictions = 2,
        fp_correct = 1, fp_points = 150\<rparr>,
       \<lparr>fp_address = ''GAB7W...2CPL'', fp_joined = ''2026-06-12T16:20:00Z'', fp_score = 90, fp_predictions = 1,
        fp_correct = 1, fp_points = 90\<rparr>]),
     (''event-004'', [
       \<lparr>fp_address = ''GDR8N...1BWE'', fp_joined = ''2026-05-04T10:00:00Z'', fp_score = 240, fp_predictions = 2,
        fp_correct = 2, fp_points = 240\<rparr>,
       \<lparr>fp_address = ''GCT2L...45QZ'', fp_joined = ''2026-05-05T10:45:00Z'', fp_score = 170, fp_predictions = 2,
        fp_correct = 1, fp_points = 170\<rparr>,
       \<lparr>fp_address = ''GAB7W...2CPL'', fp_joined = ''2026-05-06T08:30:00Z'', fp_score = 120, fp_predictions = 2,
        fp_correct = 1, fp_points = 120\<rparr>])]"

definition mock_predictions :: "(string \<times> front_prediction list) list" where
  "mock_predictions = [
     (''event-001'', [
       \<lparr>fr_event = ''event-001'', fr_match = ''match-001'', fr_outcome = TeamA, fr_submitted = ''2026-06-11T08:00:00Z'',
        fr_home = Some 2, fr_away = Some 1, fr_multiplier = 3 / 2, fr_points = 225\<rparr>,
       \<lparr>fr_event = ''event-001'', fr_match = ''match-002'', fr_outcome = Draw, fr_submitted = ''2026-06-13T08:00:00Z'',
        fr_home = Some 1, fr_away = Some 1, fr_multiplier = 15 / 8, fr_points = 281\<rparr>]),
     (''event-002'', [
       \<lparr>fr_event = ''event-002'', fr_match = ''match-005'', fr_outcome = TeamB, fr_submitted = ''2026-05-07T08:00:00Z'',
        fr_home = Some 0, fr_away = Some 2, fr_multiplier = 1, fr_points = 150\<rparr>]),
     (''event-003'', [
       \<lparr>fr_event = ''event-003'', fr_match = ''match-008'', fr_outcome = TeamA, fr_submitted = ''2026-06-15T08:00:00Z'',
        fr_home = Some 1, fr_away = Some 0, fr_multiplier = 2, fr_points = 300\<rparr>])]"

definition mock_state :: "date_engine \<Rightarrow> front_state" where
  "mock_state de =
     \<lparr>fs_events = mock_events de, fs_cache = create_event_cache (mock_events de), fs_matches = mock_matches,
      fs_participants = mock_participants, fs_predictions = mock_predictions\<rparr>"

end
