(* ===== verification/FrontProps.thy ===== *)
theory FrontProps
  imports FrontMock
begin

text \<open>
  What the client's creator events guarantee and what they do not: scores, payouts and the counting of
  participants.
\<close>

section \<open>Scores never move\<close>

lemma listed_save_row [simp]: "listed j (save_row fst (k, xs) m) = (if j = k then xs else listed j m)"
  by (simp add: listed_def by_id_save_row)

lemma update_event_participants [simp]: "fs_participants (front_update_event k p s) = fs_participants s"
  by (simp add: front_update_event_def)

definition unscored :: "front_participant \<Rightarrow> bool" where
  "unscored p \<longleftrightarrow> fp_score p = 0 \<and> fp_predictions p = 0 \<and> fp_correct p = 0 \<and> fp_points p = 0"

text \<open>Whoever takes part was there from the start, unchanged, or has no score.\<close>

definition scores_frozen :: "front_state \<Rightarrow> front_state \<Rightarrow> bool" where
  "scores_frozen s0 s \<longleftrightarrow> (\<forall>k. list_all (\<lambda>p. p \<in> set (listed k (fs_participants s0)) \<or> unscored p)
     (listed k (fs_participants s)))"

lemma front_step_frozen: "scores_frozen s0 s \<Longrightarrow> scores_frozen s0 (front_step de x v s)"
  by (cases x) (auto simp: scores_frozen_def list_all_iff front_create_event_def front_join_event_def
      front_add_match_def front_submit_prediction_def front_cancel_event_def front_verify_winners_def
      front_submit_result_def Let_def unscored_def new_participant_def split: option.splits)

lemma front_run_frozen: "front_run de s0 h s \<Longrightarrow> scores_frozen s0 s"
proof (induction rule: front_run.induct)
  case start
  then show ?case by (simp add: scores_frozen_def list_all_iff)
next
  case (act h s v s' x)
  then show ?case using front_step_frozen by simp
qed

lemma leaderboard_rows:
  assumes "front_leaderboard v k = Inr rows"
  shows "map (\<lambda>r. r\<lparr>lb_payout := None\<rparr>) rows = base_leaderboard (listed k (fs_participants v))"
  using assms by (auto simp: front_leaderboard_def Let_def base_leaderboard_def comp_def case_prod_beta
      split: if_splits sum.splits)

lemma base_leaderboard_nth:
  "n < length ps \<Longrightarrow> base_leaderboard ps ! n =
    (let p = sort_desc fp_score ps ! n in \<lparr>lb_address = fp_address p, lb_rank = n + 1, lb_score = fp_score p,
      lb_predictions = fp_predictions p, lb_correct = fp_correct p, lb_points = fp_points p, lb_payout = None\<rparr>)"
  "length (base_leaderboard ps) = length ps"
  by (simp_all add: base_leaderboard_def nth_enumerate_eq Let_def)


section \<open>The payouts share the pool\<close>

definition exact_share :: "front_event \<Rightarrow> event_payout \<Rightarrow> rat" where
  "exact_share e x = mo_amount (fe_prize e) * ep_percentage x / 100"

lemma rounded_cents: "\<bar>of_int (math_round x) / 100 - x / 100\<bar> \<le> (1 / 200 :: rat)"
proof -
  have "\<bar>of_int (math_round x) - x\<bar> \<le> 1 / 2"
    unfolding math_round_def abs_le_iff using of_int_floor_le [of "x + 1 / 2"] floor_correct [of "x + 1 / 2"] by linarith
  then show ?thesis by (simp add: abs_le_iff field_simps)
qed

lemma payouts_simps [simp]:
  "List.map_filter f [] = []"
  "List.map_filter f (x # xs) = (case f x of None \<Rightarrow> List.map_filter f xs | Some y \<Rightarrow> y # List.map_filter f xs)"
  by (simp_all add: List.map_filter_def split: option.split)

lemma payout_of_split:
  assumes "x \<in> set (payouts_of_event k e rows)"
  shows "\<exists>sp\<in>set (fe_split e). \<exists>r\<in>set rows. lb_rank r = sp_rank sp \<and> ep_rank x = sp_rank sp \<and>
    ep_address x = lb_address r \<and> ep_percentage x = sp_percentage sp \<and>
    mo_amount (ep_payout x) = of_int (math_round (mo_amount (fe_prize e) * sp_percentage sp)) / 100"
proof -
  obtain sp r where "sp \<in> set (fe_split e)" "find_one (\<lambda>r. lb_rank r = sp_rank sp) rows = Some r"
    "x = \<lparr>ep_event = k, ep_address = lb_address r, ep_rank = sp_rank sp,
            ep_percentage = sp_percentage sp,
            ep_payout = money (of_int (math_round (mo_amount (fe_prize e) * sp_percentage sp)) / 100)
              (mo_currency (fe_prize e)),
            ep_status = payout_status_of (fe_status e)\<rparr>"
    using assms by (auto simp: payouts_of_event_def List.map_filter_def split: option.splits)
  then show ?thesis by (intro bexI [of _ sp] bexI [of _ r]) (auto simp: money_def dest: find_one_Some)
qed

lemma paid_percentages:
  assumes "list_all (\<lambda>sp. 0 \<le> sp_percentage sp) (fe_split e)"
  shows "sum_list (map ep_percentage (payouts_of_event k e rows)) \<le> sum_list (map sp_percentage (fe_split e))"
proof -
  have "sum_list (map ep_percentage (List.map_filter (\<lambda>sp. case find_one (\<lambda>r. lb_rank r = sp_rank sp) rows of
          None \<Rightarrow> None
        | Some r \<Rightarrow> Some (mk sp r)) sps)) \<le> sum_list (map sp_percentage sps)"
    if "\<And>sp r. ep_percentage (mk sp r) = sp_percentage sp" "list_all (\<lambda>sp. 0 \<le> sp_percentage sp) sps"
    for mk :: "reward_split \<Rightarrow> leaderboard_row \<Rightarrow> event_payout" and sps
    using that(2) by (induction sps) (auto simp: that(1) split: option.split)
  then show ?thesis using assms unfolding payouts_of_event_def by simp
qed

lemma payouts_bound:
  assumes "get_event_payouts v k = Inr ps" and "cached k v = Some (Whole e)"
    and "0 \<le> mo_amount (fe_prize e)" and "list_all (\<lambda>sp. 0 \<le> sp_percentage sp) (fe_split e)"
    and "sum_list (map sp_percentage (fe_split e)) \<le> 100"
  shows "list_all (\<lambda>x. 0 < ep_rank x \<and> ep_rank x \<le> length (listed k (fs_participants v)) \<and>
      ep_address x = fp_address (sort_desc fp_score (listed k (fs_participants v)) ! (ep_rank x - 1)) \<and>
      0 \<le> mo_amount (ep_payout x) \<and> \<bar>mo_amount (ep_payout x) - exact_share e x\<bar> \<le> 1 / 200) ps \<and>
    sum_list (map (mo_amount \<circ> ep_payout) ps) \<le> mo_amount (fe_prize e) + of_nat (length ps) / 200"
proof (cases "fe_status e = Cancelled")
  case True
  then have "ps = []" using assms(1,2) by (auto simp: get_event_payouts_def build_payouts_def split: sum.splits)
  then show ?thesis using assms(3) by simp
next
  case False
  obtain rows where rows: "front_leaderboard v k = Inr rows" and ps: "ps = payouts_of_event k e rows"
    using assms(1,2) False by (auto simp: get_event_payouts_def build_payouts_def split: sum.splits)
  have base: "map (\<lambda>r. r\<lparr>lb_payout := None\<rparr>) rows = base_leaderboard (listed k (fs_participants v))"
    by (rule leaderboard_rows [OF rows])
  have each: "0 < ep_rank x \<and> ep_rank x \<le> length (listed k (fs_participants v)) \<and>
      ep_address x = fp_address (sort_desc fp_score (listed k (fs_participants v)) ! (ep_rank x - 1)) \<and>
      0 \<le> mo_amount (ep_payout x) \<and> \<bar>mo_amount (ep_payout x) - exact_share e x\<bar> \<le> 1 / 200" if "x \<in> set ps" for x
  proof -
    have mem: "x \<in> set (payouts_of_event k e rows)" using that ps by simp
    obtain sp r where x: "sp \<in> set (fe_split e)" "r \<in> set rows" "lb_rank r = ep_rank x" "ep_address x = lb_address r"
      "ep_percentage x = sp_percentage sp"
      "mo_amount (ep_payout x) = of_int (math_round (mo_amount (fe_prize e) * ep_percentage x)) / 100"
      using payout_of_split [OF mem] by metis
    have "r\<lparr>lb_payout := None\<rparr> \<in> set (base_leaderboard (listed k (fs_participants v)))"
      using base x(2) by (metis (no_types, lifting) image_eqI set_map)
    then obtain n where n: "n < length (listed k (fs_participants v))"
      "r\<lparr>lb_payout := None\<rparr> = base_leaderboard (listed k (fs_participants v)) ! n"
      by (auto simp: in_set_conv_nth base_leaderboard_nth(2))
    then have "lb_rank r = n + 1 \<and> lb_address r = fp_address (sort_desc fp_score (listed k (fs_participants v)) ! n)"
      by (cases r) (simp add: base_leaderboard_nth Let_def)
    moreover have "0 \<le> mo_amount (fe_prize e) * ep_percentage x"
      using assms(3,4) x(1,5) by (simp add: list_all_iff)
    then have "0 \<le> math_round (mo_amount (fe_prize e) * ep_percentage x)" by (intro math_round_ge) simp
    moreover have "\<bar>mo_amount (ep_payout x) - exact_share e x\<bar> \<le> 1 / 200"
      unfolding x(6) exact_share_def by (rule rounded_cents)
    ultimately show ?thesis using n(1) x(3,4) by (simp add: x(6))
  qed
  have "sum_list (map (mo_amount \<circ> ep_payout) xs) \<le> sum_list (map (exact_share e) xs) + of_nat (length xs) / 200"
    if "set xs \<subseteq> set ps" for xs
    using that
  proof (induction xs)
    case (Cons x xs)
    then have "\<bar>mo_amount (ep_payout x) - exact_share e x\<bar> \<le> 1 / 200" using each [of x] by simp
    then have "mo_amount (ep_payout x) \<le> exact_share e x + 1 / 200" by linarith
    then show ?case using Cons by (simp add: field_simps)
  qed simp
  moreover have "sum_list (map (exact_share e) ps) = mo_amount (fe_prize e) / 100 * sum_list (map ep_percentage ps)"
    by (simp add: exact_share_def [abs_def] sum_list_const_mult [symmetric])
  moreover have "sum_list (map ep_percentage ps) \<le> 100"
    using paid_percentages [OF assms(4), of k rows] assms(5) ps by simp
  then have "mo_amount (fe_prize e) / 100 * sum_list (map ep_percentage ps) \<le> mo_amount (fe_prize e)"
    using mult_left_mono [of _ 100 "mo_amount (fe_prize e) / 100"] assms(3) by simp
  ultimately show ?thesis using each by (fastforce simp: list_all_iff)
qed

text \<open>
  The payouts of an event that is not cancelled go to the participants at the paid places by score; each
  is within half a cent of its share of the pool, and when the percentages add up to at most 100 all of
  them together exceed the pool by at most half a cent each.
\<close>

theorem front_payouts_share_the_pool:
  assumes "get_event_payouts v k = Inr ps" and "cached k v = Some (Whole e)"
    and "0 \<le> mo_amount (fe_prize e)" and "list_all (\<lambda>sp. 0 \<le> sp_percentage sp) (fe_split e)"
    and "sum_list (map sp_percentage (fe_split e)) \<le> 100"
  shows "list_all (\<lambda>x. 0 < ep_rank x \<and> ep_rank x \<le> length (listed k (fs_participants v)) \<and>
      ep_address x = fp_address (sort_desc fp_score (listed k (fs_participants v)) ! (ep_rank x - 1)) \<and>
      0 \<le> mo_amount (ep_payout x) \<and> \<bar>mo_amount (ep_payout x) - exact_share e x\<bar> \<le> 1 / 200) ps \<and>
    sum_list (map (mo_amount \<circ> ep_payout) ps) \<le> mo_amount (fe_prize e) + of_nat (length ps) / 200"
  by (rule payouts_bound [OF assms])

section \<open>Joining\<close>

text \<open>
  Two joins from the same render, as of a double click, add two participants, of the same wallet if it
  is the same, but the event counts one: the second writes the number the first one wrote.  From the
  renders after each of them the event would count both.
\<close>

theorem stale_joins_undercount:
  assumes "find_one (same_code code) (fs_events v) = Some e" and "fe_participants e < fe_max e"
    and "s1 = snd (front_join_event de t v wallet code v)"
  shows "fst (front_join_event de t' v wallet' code s1) \<and>
    list_all (\<lambda>x. fe_id x = fe_id e \<longrightarrow> fe_participants x = fe_participants e + 1)
      (fs_events (snd (front_join_event de t' v wallet' code s1))) \<and>
    length (listed (fe_id e) (fs_participants (snd (front_join_event de t' v wallet' code s1)))) =
      length (listed (fe_id e) (fs_participants v)) + 2"
  using assms
  by (auto simp: front_join_event_def Let_def list_all_iff front_update_event_def apply_patch_def no_patch_def)

section \<open>Instances\<close>

definition sample_engine :: date_engine where
  "sample_engine = \<lparr>de_parse = (\<lambda>_. None), de_iso = (\<lambda>_. ''2026-06-05T10:00:00.000Z'')\<rparr>"

abbreviation mocked :: front_state where
  "mocked \<equiv> mock_state sample_engine"

definition sample_joined :: front_state where
  "sample_joined = front_step sample_engine (FoJoin 0 (Some ''GNEW'') ''apollo-2026'') mocked mocked"

lemma sample_code: "to_lower ''APOLLO-2026'' = ''apollo-2026''" "to_lower ''apollo-2026'' = ''apollo-2026''"
  by code_simp+

lemma mock_lookup:
  "find_one (same_code ''apollo-2026'') (fs_events mocked) = Some (hd (mock_events sample_engine))"
  "cached ''event-001'' mocked = Some (Whole (hd (mock_events sample_engine)))"
  "listed ''event-001'' (fs_participants mocked) = snd (hd mock_participants)"
  by (simp_all add: mock_state_def mock_events_def mock_participants_def same_code_def sample_code
      cached_def create_event_cache_def listed_def by_id_def)

lemma mock_event:
  "fe_id (hd (mock_events de)) = ''event-001''" "fe_participants (hd (mock_events de)) = 72"
  "fe_max (hd (mock_events de)) = 100" "fe_status (hd (mock_events de)) = Active"
  "mo_amount (fe_prize (hd (mock_events de))) = 5000" "fe_split (hd (mock_events de)) = default_reward_split"
  by (simp_all add: mock_events_def money_def)

lemma cached_updates:
  "cached j (front_update_event k p s) = (if j = k then Some (case cached k s of None \<Rightarrow> Partial p
     | Some (Whole e) \<Rightarrow> Whole (apply_patch p e) | Some (Partial old) \<Rightarrow> Partial (merge_patch p old)) else cached j s)"
  "cached j (s\<lparr>fs_participants := x\<rparr>) = cached j s"
  by (simp_all add: cached_def front_update_event_def by_id_save_row)

lemma stale_joins_undercount_witness:
  "let s2 = snd (front_join_event sample_engine 1 mocked None ''apollo-2026''
      (snd (front_join_event sample_engine 0 mocked None ''apollo-2026'' mocked)))
   in length (listed ''event-001'' (fs_participants s2)) = 5 \<and>
     list_all (\<lambda>x. fe_id x \<noteq> ''event-001'' \<or> fe_participants x = 73) (fs_events s2)"
proof -
  have "fe_participants (hd (mock_events sample_engine)) < fe_max (hd (mock_events sample_engine))"
    by (simp add: mock_event)
  from stale_joins_undercount [where t = 0 and t' = 1 and de = sample_engine and wallet = None and wallet' = None,
      OF mock_lookup(1) this refl]
  show ?thesis by (auto simp: Let_def mock_event mock_lookup mock_participants_def list_all_iff)
qed

lemma sample_payouts:
  "get_event_payouts mocked ''event-001'' = Inr
    (payouts_of_event ''event-001'' (hd (mock_events sample_engine))
      (map (\<lambda>r. r\<lparr>lb_payout := map_option ep_payout (find_one (\<lambda>x. ep_address x = lb_address r)
          (payouts_of_event ''event-001'' (hd (mock_events sample_engine)) (base_leaderboard (snd (hd mock_participants)))))\<rparr>)
        (base_leaderboard (snd (hd mock_participants)))))"
  by (simp add: get_event_payouts_def front_leaderboard_def build_payouts_def mock_lookup mock_event Let_def)

lemma front_payouts_share_the_pool_witness:
  "\<exists>ps. get_event_payouts mocked ''event-001'' = Inr ps \<and> length ps = 3 \<and>
    list_all (\<lambda>x. 0 \<le> mo_amount (ep_payout x)) ps \<and> sum_list (map (mo_amount \<circ> ep_payout) ps) \<le> 5000 + 3 / 200"
proof -
  note front_payouts_share_the_pool [OF sample_payouts mock_lookup(2)]
  moreover have "length (payouts_of_event ''event-001'' (hd (mock_events sample_engine)) rows) = 3"
    if ranks: "map lb_rank rows = [1, 2, 3]" for rows
  proof -
    obtain a b c where "rows = [a, b, c]" "lb_rank a = 1" "lb_rank b = 2" "lb_rank c = 3"
      using ranks by (auto simp: map_eq_Cons_conv)
    then show ?thesis by (simp add: payouts_of_event_def mock_event default_reward_split_def)
  qed
  moreover have "map lb_rank (base_leaderboard (snd (hd mock_participants))) = [1, 2, 3]" by code_simp
  ultimately show ?thesis
    using sample_payouts
    by (auto simp: mock_event default_reward_split_def list_all_iff comp_def)
qed


end
