(* ===== verification/FrontUploads.thy ===== *)
theory FrontUploads
  imports FrontEvents Markets
begin

text \<open>
  Matches and results from the creator's browser: the CSV uploads (\<open>BulkMatchUpload.tsx\<close>,
  \<open>BatchResultSubmission.tsx\<close>), the forms for one match and one result (\<open>AddMatchForm.tsx\<close>,
  \<open>SubmitResultForm.tsx\<close>, all in \<open>frontend/src/component\<close>) and the page that keeps the matches
  (\<open>frontend/src/app/(authenticated)/creator-events/[id]/matches/page.tsx\<close>).
\<close>

section \<open>Reading CSV\<close>

definition newline :: char where
  "newline = CHR 0x0A"

definition csv_lines :: "string \<Rightarrow> string list" where
  "csv_lines raw = filter (\<lambda>l. l \<noteq> []) (map trim (split_on newline raw))"

definition csv_columns :: "string \<Rightarrow> string list" where
  "csv_columns line = map trim (split_on CHR '','' line)"

text \<open>A column that is not there counts as empty.\<close>

definition column_at :: "nat \<Rightarrow> string list \<Rightarrow> string" where
  "column_at n cols = (if n < length cols then cols ! n else [])"

record csv_match_row =
  rw_team_a :: string
  rw_team_b :: string
  rw_time :: string
  rw_error :: "string option"

definition row_errors :: "date_engine \<Rightarrow> timestamp \<Rightarrow> string \<Rightarrow> string \<Rightarrow> string \<Rightarrow> string list" where
  "row_errors de t a b time =
     (if a = [] then [''Team A is empty''] else []) @
     (if b = [] then [''Team B is empty''] else []) @
     (if a \<noteq> [] \<and> b \<noteq> [] \<and> to_lower a = to_lower b then [''Team names must be different''] else []) @
     (if time = [] then [''Match time is missing'']
      else (case de_parse de time of
              None \<Rightarrow> [''Invalid ISO 8601 date'']
            | Some x \<Rightarrow> if x \<le> t then [''Match time must be in the future''] else []))"

definition joined_errors :: "string list \<Rightarrow> string option" where
  "joined_errors es = (if es = [] then None else Some (join_with ''; '' es))"

definition parse_match_row :: "date_engine \<Rightarrow> timestamp \<Rightarrow> string \<Rightarrow> csv_match_row" where
  "parse_match_row de t line =
     (let cols = csv_columns line; a = column_at 0 cols; b = column_at 1 cols; time = column_at 2 cols in
      \<lparr>rw_team_a = a, rw_team_b = b, rw_time = time, rw_error = joined_errors (row_errors de t a b time)\<rparr>)"

definition parse_match_csv :: "date_engine \<Rightarrow> timestamp \<Rightarrow> string \<Rightarrow> csv_match_row list" where
  "parse_match_csv de t raw = map (parse_match_row de t) (csv_lines raw)"

datatype result_outcome = TeamAWon | TeamBWon | Drawn

definition outcome_code :: "string \<Rightarrow> result_outcome option" where
  "outcome_code s =
     (if s = ''TEAM_A'' then Some TeamAWon else if s = ''TEAM_B'' then Some TeamBWon
      else if s = ''DRAW'' then Some Drawn else None)"

record result_row =
  rr_match :: string
  rr_outcome :: "result_outcome option"
  rr_error :: "string option"

text \<open>The dash of the message is the character 8212, outside the eight bits here: it is written \<open>--\<close>.\<close>

definition parse_result_row :: "string \<Rightarrow> result_row" where
  "parse_result_row line =
     (let cols = csv_columns line; m = column_at 0 cols; outcome = column_at 1 cols; code = to_upper outcome in
      \<lparr>rr_match = m, rr_outcome = outcome_code code,
       rr_error = joined_errors
         ((if m = [] then [''Match ID is empty''] else []) @
          (if code = [] then [''Outcome is missing'']
           else if outcome_code code = None then
             [''Invalid outcome '' @ [CHR 0x22] @ outcome @ [CHR 0x22] @ '' -- use TEAM_A, TEAM_B, or DRAW'']
           else []))\<rparr>)"

definition parse_result_csv :: "string \<Rightarrow> result_row list" where
  "parse_result_csv raw = map parse_result_row (csv_lines raw)"

section \<open>The upload forms\<close>

text \<open>What the two forms keep; \<open>up_sent\<close> is what the page was given, in order.\<close>

record ('row, 'out) upload_form =
  up_preview :: "'row list option"
  up_file :: "string option"
  up_busy :: bool
  up_error :: "string option"
  up_success :: bool
  up_sent :: "'out list list"

definition empty_upload :: "('row, 'out) upload_form" where
  "empty_upload = \<lparr>up_preview = None, up_file = None, up_busy = False, up_error = None, up_success = False, up_sent = []\<rparr>"

definition clear_upload :: "('row, 'out) upload_form \<Rightarrow> ('row, 'out) upload_form" where
  "clear_upload f = f\<lparr>up_preview := None, up_file := None, up_error := None, up_success := False\<rparr>"

definition choose_file :: "string \<Rightarrow> 'row list \<Rightarrow> ('row, 'out) upload_form \<Rightarrow> ('row, 'out) upload_form" where
  "choose_file name rows f =
     f\<lparr>up_file := Some name, up_error := None, up_success := False, up_preview := Some rows\<rparr>"

text \<open>
  Sending: the page accepts or fails.  After a success the form says so and then clears itself, the message
  included.
\<close>

definition send_upload :: "bool \<Rightarrow> string \<Rightarrow> 'out list \<Rightarrow> ('row, 'out) upload_form \<Rightarrow> ('row, 'out) upload_form" where
  "send_upload accepted failure rows f =
     (let f1 = f\<lparr>up_busy := True, up_error := None\<rparr>;
          f2 = (if accepted then clear_upload (f1\<lparr>up_success := True, up_sent := up_sent f1 @ [rows]\<rparr>)
                else f1\<lparr>up_error := Some failure\<rparr>)
      in f2\<lparr>up_busy := False\<rparr>)"

record match_form_data =
  md_team_a :: string
  md_team_b :: string
  md_time :: string
  md_multiplier :: "int option"

definition valid_rows :: "csv_match_row list \<Rightarrow> csv_match_row list" where
  "valid_rows rows = filter (\<lambda>r. rw_error r = None) rows"

definition form_data_of :: "csv_match_row \<Rightarrow> match_form_data" where
  "form_data_of r = \<lparr>md_team_a = rw_team_a r, md_team_b = rw_team_b r, md_time = rw_time r, md_multiplier = None\<rparr>"

definition handle_import_all ::
  "bool \<Rightarrow> nat \<Rightarrow> int \<Rightarrow> (csv_match_row, match_form_data) upload_form \<Rightarrow> (csv_match_row, match_form_data) upload_form" where
  "handle_import_all accepted current most f =
     (case up_preview f of
        None \<Rightarrow> f
      | Some rows \<Rightarrow>
          (let remaining = most - int current in
           if valid_rows rows = [] then f\<lparr>up_error := Some ''No valid rows to import.''\<rparr>
           else if int (length (valid_rows rows)) > remaining then
             f\<lparr>up_error := Some (''Only '' @ show_int remaining @ '' more match(es) can be added (limit: '' @ show_int most @ '').'')\<rparr>
           else send_upload accepted ''Import failed. Please try again.'' (map form_data_of (valid_rows rows)) f))"

definition valid_results :: "result_row list \<Rightarrow> (string \<times> result_outcome) list" where
  "valid_results rows = List.map_filter (\<lambda>r. if rr_error r = None then map_option (Pair (rr_match r)) (rr_outcome r) else None) rows"

definition handle_submit_all ::
  "bool \<Rightarrow> (result_row, string \<times> result_outcome) upload_form \<Rightarrow> (result_row, string \<times> result_outcome) upload_form" where
  "handle_submit_all accepted f =
     (case up_preview f of
        None \<Rightarrow> f
      | Some rows \<Rightarrow>
          if valid_results rows = [] then f\<lparr>up_error := Some ''No valid rows to submit.''\<rparr>
          else send_upload accepted ''Batch submission failed. Please try again.'' (valid_results rows) f)"

section \<open>One match\<close>

definition max_team_name :: nat where
  "max_team_name = 100"

definition team_error :: "string \<Rightarrow> string \<Rightarrow> string option" where
  "team_error which name =
     (if name = [] then Some (''Team '' @ which @ '' name is required.'')
      else if length name > max_team_name then
        Some (''Team '' @ which @ '' name must be '' @ show_nat max_team_name @ '' characters or fewer.'')
      else None)"

text \<open>A time that cannot be read compares as neither earlier nor later, so it passes.\<close>

definition not_after :: "date_engine \<Rightarrow> string \<Rightarrow> timestamp \<Rightarrow> bool" where
  "not_after de time t \<longleftrightarrow> (case de_parse de time of None \<Rightarrow> False | Some x \<Rightarrow> x \<le> t)"

definition match_form_errors :: "date_engine \<Rightarrow> timestamp \<Rightarrow> string \<Rightarrow> string \<Rightarrow> string \<Rightarrow> (string \<times> string) list" where
  "match_form_errors de t a b time =
     (let x = trim a; y = trim b in
      (case team_error ''A'' x of None \<Rightarrow> [] | Some m \<Rightarrow> [(''teamA'', m)]) @
      (case team_error ''B'' y of None \<Rightarrow> [] | Some m \<Rightarrow> [(''teamB'', m)]) @
      (if x \<noteq> [] \<and> y \<noteq> [] \<and> to_lower x = to_lower y then [(''form'', ''Team names must be different.'')] else []) @
      (if time = [] then [(''matchTime'', ''Match date/time is required.'')]
       else if not_after de time t then [(''matchTime'', ''Match time must be in the future.'')] else []))"

definition submitted_match :: "date_engine \<Rightarrow> timestamp \<Rightarrow> string \<Rightarrow> string \<Rightarrow> string \<Rightarrow> int \<Rightarrow> match_form_data option" where
  "submitted_match de t a b time multiplier =
     (if match_form_errors de t a b time = [] then
        Some \<lparr>md_team_a = trim a, md_team_b = trim b, md_time = time, md_multiplier = Some multiplier\<rparr>
      else None)"

section \<open>One result\<close>

definition score_error :: "string \<Rightarrow> string \<Rightarrow> string option" where
  "score_error which s =
     (if trim s = [] then Some (which @ '' score is required.'')
      else if (case (parse_int s, number_of_text s) of
          (Some h, Fin x) \<Rightarrow> x \<noteq> of_int \<lfloor>x\<rfloor> \<or> h < 0 \<or> h > 20
        | _ \<Rightarrow> True) then Some ''Score must be an integer between 0 and 20.''
      else None)"

definition submitted_scores :: "string \<Rightarrow> string \<Rightarrow> (int \<times> int) option" where
  "submitted_scores home away =
     (if score_error ''Home'' home = None \<and> score_error ''Away'' away = None
      then (case (parse_int home, parse_int away) of (Some h, Some a) \<Rightarrow> Some (h, a) | _ \<Rightarrow> None) else None)"

text \<open>A result of the form \<open>X-Y\<close> fills the fields.\<close>

definition initial_scores :: "string option \<Rightarrow> string \<times> string" where
  "initial_scores shown_result =
     (case nonempty shown_result of
        None \<Rightarrow> ([], [])
      | Some r \<Rightarrow>
          (case split_on CHR ''-'' r of
             [a, b] \<Rightarrow> (case (parse_int a, parse_int b) of
                 (Some h, Some w) \<Rightarrow> (show_int h, show_int w) | _ \<Rightarrow> ([], []))
           | _ \<Rightarrow> ([], [])))"

section \<open>The page of the matches\<close>

datatype page_status = Upcoming | Started | Resolved

record page_match =
  pm_id :: string
  pm_team_a :: string
  pm_team_b :: string
  pm_time :: string
  pm_status :: page_status
  pm_predicted :: bool
  pm_result :: "string option"
  pm_multiplier :: int

definition max_page_matches :: nat where
  "max_page_matches = 100"

definition page_match_of :: "string \<Rightarrow> match_form_data \<Rightarrow> page_match" where
  "page_match_of k x = \<lparr>pm_id = k, pm_team_a = md_team_a x, pm_team_b = md_team_b x, pm_time = md_time x,
     pm_status = Upcoming, pm_predicted = False, pm_result = None,
     pm_multiplier = (case md_multiplier x of None \<Rightarrow> 1 | Some n \<Rightarrow> n)\<rparr>"

definition page_add_match :: "timestamp \<Rightarrow> match_form_data \<Rightarrow> page_match list \<Rightarrow> unit result \<times> page_match list" where
  "page_add_match t x ms =
     (if list_ex (\<lambda>m. to_lower (pm_team_a m) = to_lower (md_team_a x) \<and> to_lower (pm_team_b m) = to_lower (md_team_b x)) ms
      then (Inl (InternalError ''Duplicate match''), ms)
      else if length ms \<ge> max_page_matches
      then (Inl (InternalError (''Maximum '' @ show_nat max_page_matches @ '' matches reached'')), ms)
      else (Inr (), ms @ [page_match_of (''match-'' @ show_int t) x]))"

text \<open>\<open>random i\<close> is the text of the random number drawn for the \<open>i\<close>-th match.\<close>

definition page_bulk_import :: "timestamp \<Rightarrow> (nat \<Rightarrow> string) \<Rightarrow> match_form_data list \<Rightarrow> page_match list \<Rightarrow> page_match list" where
  "page_bulk_import t random xs ms =
     ms @ map (\<lambda>(i, x). page_match_of (''match-'' @ show_int t @ ''-'' @ random i) x) (enumerate 0 xs)"

definition page_delete_match :: "string \<Rightarrow> page_match list \<Rightarrow> page_match list" where
  "page_delete_match k ms = filter (\<lambda>m. pm_id m \<noteq> k) ms"

text \<open>The result of a match goes to the context and is shown on the page.\<close>

definition shown_scores :: "int \<Rightarrow> int \<Rightarrow> string" where
  "shown_scores h a = show_int h @ ''-'' @ show_int a"

definition page_submit_result :: "string \<Rightarrow> int \<Rightarrow> int \<Rightarrow> page_match list \<times> front_state \<Rightarrow> page_match list \<times> front_state" where
  "page_submit_result k h a p =
     (map (\<lambda>m. if pm_id m = k then m\<lparr>pm_status := Resolved, pm_result := Some (shown_scores h a)\<rparr> else m) (fst p),
      snd (front_submit_result k (derive_outcome_from_score (Some h) (Some a)) (Some (Some h, Some a)) (snd p)))"

section \<open>What is written is read back\<close>

definition plain_cell :: "string \<Rightarrow> bool" where
  "plain_cell c \<longleftrightarrow> c \<noteq> [] \<and> \<not> is_space (hd c) \<and> \<not> is_space (last c) \<and> CHR '','' \<notin> set c \<and> newline \<notin> set c"

definition row_line :: "csv_match_row \<Rightarrow> string" where
  "row_line r = join_with '','' [rw_team_a r, rw_team_b r, rw_time r]"

definition writable_row :: "date_engine \<Rightarrow> timestamp \<Rightarrow> csv_match_row \<Rightarrow> bool" where
  "writable_row de t r \<longleftrightarrow> plain_cell (rw_team_a r) \<and> plain_cell (rw_team_b r) \<and> plain_cell (rw_time r) \<and>
     to_lower (rw_team_a r) \<noteq> to_lower (rw_team_b r) \<and>
     (case de_parse de (rw_time r) of None \<Rightarrow> False | Some x \<Rightarrow> t < x) \<and> rw_error r = None"

lemma row_line_facts:
  assumes "writable_row de t r"
  shows "csv_columns (row_line r) = [rw_team_a r, rw_team_b r, rw_time r]" "trim (row_line r) = row_line r"
    "newline \<notin> set (row_line r)" "row_line r \<noteq> []"
proof -
  have cells: "plain_cell (rw_team_a r)" "plain_cell (rw_team_b r)" "plain_cell (rw_time r)"
    using assms by (simp_all add: writable_row_def)
  then have "split_on CHR '','' (row_line r) = [rw_team_a r, rw_team_b r, rw_time r]"
    unfolding row_line_def by (intro split_join) (auto simp: plain_cell_def)
  then show "csv_columns (row_line r) = [rw_team_a r, rw_team_b r, rw_time r]"
    using cells by (simp add: csv_columns_def trim_id plain_cell_def)
  show "row_line r \<noteq> []" using cells by (simp add: row_line_def plain_cell_def)
  have "hd (row_line r) = hd (rw_team_a r)" "last (row_line r) = last (rw_time r)"
    using cells by (simp_all add: row_line_def plain_cell_def)
  then show "trim (row_line r) = row_line r"
    using cells \<open>row_line r \<noteq> []\<close> by (intro trim_id) (simp_all add: plain_cell_def)
  show "newline \<notin> set (row_line r)" using cells by (auto simp: row_line_def plain_cell_def newline_def)
qed

lemma parsed_row_line:
  assumes "writable_row de t r" shows "parse_match_row de t (row_line r) = r"
proof -
  obtain x where "de_parse de (rw_time r) = Some x" "t < x"
    using assms by (auto simp: writable_row_def split: option.splits)
  then have "row_errors de t (rw_team_a r) (rw_team_b r) (rw_time r) = []" "rw_error r = None"
    using assms by (simp_all add: row_errors_def writable_row_def plain_cell_def)
  moreover have "parse_match_row de t (row_line r) = \<lparr>rw_team_a = rw_team_a r, rw_team_b = rw_team_b r,
      rw_time = rw_time r, rw_error = joined_errors (row_errors de t (rw_team_a r) (rw_team_b r) (rw_time r))\<rparr>"
    by (simp add: parse_match_row_def row_line_facts(1) [OF assms] column_at_def Let_def)
  ultimately show ?thesis by (simp add: joined_errors_def)
qed


text \<open>
  The score form reads its text twice, as a number to check it and as leading digits to submit it: ten
  written with an exponent is accepted and submitted as one.
\<close>

lemma exponent_score_misread: "submitted_scores ''1e1'' ''0'' = Some (1, 0)"
proof -
  have "radix_literal ''1e1'' = None" "split_sign ''1e1'' = (False, ''1e1'')" "trim ''1e1'' = ''1e1''"
    "radix_literal ''0'' = None" "split_sign ''0'' = (False, ''0'')" "trim ''0'' = ''0''"
    "parse_int ''1e1'' = Some 1" "parse_int ''0'' = Some 0" by code_simp+
  moreover have "decimal_literal ''1e1'' = Some 10" "decimal_literal ''0'' = Some 0" by code_simp+
  moreover have "to_num 10 = Fin 10" "to_num 0 = Fin 0" by (simp_all add: to_num_def)
  ultimately have "number_of_text ''1e1'' = Fin 10" "number_of_text ''0'' = Fin 0"
    by (simp_all add: number_of_text_def Let_def)
  then show ?thesis
    using \<open>parse_int ''1e1'' = Some 1\<close> \<open>parse_int ''0'' = Some 0\<close> \<open>trim ''1e1'' = ''1e1''\<close> \<open>trim ''0'' = ''0''\<close>
    by (simp add: submitted_scores_def score_error_def)
qed

section \<open>Runs of the page\<close>

record match_page =
  pg_matches :: "page_match list"
  pg_form :: "(csv_match_row, match_form_data) upload_form"

datatype page_op =
    PgAdd timestamp string string string int
  | PgFile timestamp string string
  | PgClear
  | PgImport timestamp "nat \<Rightarrow> string"
  | PgDelete string

text \<open>The page takes every import, and adds what the form sends.\<close>

fun page_step :: "date_engine \<Rightarrow> page_op \<Rightarrow> match_page \<Rightarrow> match_page" where
  "page_step de (PgAdd t a b time multiplier) p =
     (case submitted_match de t a b time multiplier of
        None \<Rightarrow> p
      | Some x \<Rightarrow> p\<lparr>pg_matches := snd (page_add_match t x (pg_matches p))\<rparr>)"
| "page_step de (PgFile t name raw) p = p\<lparr>pg_form := choose_file name (parse_match_csv de t raw) (pg_form p)\<rparr>"
| "page_step de PgClear p = p\<lparr>pg_form := clear_upload (pg_form p)\<rparr>"
| "page_step de (PgImport t random) p =
     (let f = handle_import_all True (length (pg_matches p)) (int max_page_matches) (pg_form p) in
      p\<lparr>pg_form := f,
        pg_matches := (if length (up_sent f) > length (up_sent (pg_form p))
          then page_bulk_import t random (last (up_sent f)) (pg_matches p) else pg_matches p)\<rparr>)"
| "page_step de (PgDelete k) p = p\<lparr>pg_matches := page_delete_match k (pg_matches p)\<rparr>"

definition two_teams :: "page_match \<Rightarrow> bool" where
  "two_teams m \<longleftrightarrow> pm_team_a m \<noteq> [] \<and> pm_team_b m \<noteq> [] \<and> to_lower (pm_team_a m) \<noteq> to_lower (pm_team_b m)"

definition page_ok :: "match_page \<Rightarrow> bool" where
  "page_ok p \<longleftrightarrow> length (pg_matches p) \<le> max_page_matches \<and> list_all two_teams (pg_matches p) \<and>
     \<not> up_success (pg_form p) \<and>
     (case up_preview (pg_form p) of None \<Rightarrow> True | Some rows \<Rightarrow>
        list_all (\<lambda>r. rw_error r = None \<longrightarrow> rw_team_a r \<noteq> [] \<and> rw_team_b r \<noteq> [] \<and>
          to_lower (rw_team_a r) \<noteq> to_lower (rw_team_b r)) rows)"

lemma parsed_rows_ok:
  "list_all (\<lambda>r. rw_error r = None \<longrightarrow> rw_team_a r \<noteq> [] \<and> rw_team_b r \<noteq> [] \<and>
     to_lower (rw_team_a r) \<noteq> to_lower (rw_team_b r)) (parse_match_csv de t raw)"
  by (auto simp: parse_match_csv_def list_all_iff parse_match_row_def Let_def joined_errors_def row_errors_def
      split: if_splits option.splits)

lemma submitted_match_two_teams:
  "submitted_match de t a b time n = Some x \<Longrightarrow> two_teams (page_match_of k x)"
  by (auto simp: submitted_match_def match_form_errors_def team_error_def two_teams_def page_match_of_def Let_def
      split: if_splits)

lemma import_cases:
  assumes "page_ok p"
  defines "f \<equiv> handle_import_all True (length (pg_matches p)) (int max_page_matches) (pg_form p)"
  shows "\<not> up_success f \<and> (up_preview f = None \<or> up_preview f = up_preview (pg_form p)) \<and>
    (length (up_sent f) > length (up_sent (pg_form p)) \<longrightarrow>
      length (pg_matches p) + length (last (up_sent f)) \<le> max_page_matches \<and>
      (\<forall>x\<in>set (last (up_sent f)). \<forall>k. two_teams (page_match_of k x)))"
proof (cases "up_preview (pg_form p)")
  case None
  then show ?thesis using assms(1) by (simp add: f_def handle_import_all_def page_ok_def)
next
  case (Some rows)
  show ?thesis
  proof (cases "valid_rows rows = [] \<or> int (length (valid_rows rows)) > int max_page_matches - int (length (pg_matches p))")
    case True
    then show ?thesis using assms(1) Some by (auto simp: f_def handle_import_all_def page_ok_def Let_def)
  next
    case False
    then have f: "f = send_upload True ''Import failed. Please try again.'' (map form_data_of (valid_rows rows)) (pg_form p)"
      using Some by (simp add: f_def handle_import_all_def Let_def)
    have rows: "rw_team_a r \<noteq> [] \<and> rw_team_b r \<noteq> [] \<and> to_lower (rw_team_a r) \<noteq> to_lower (rw_team_b r)"
      if "r \<in> set (valid_rows rows)" for r
      using assms(1) Some that by (auto simp: page_ok_def valid_rows_def list_all_iff)
    show ?thesis
      using False rows unfolding f
      by (auto simp: send_upload_def clear_upload_def Let_def two_teams_def page_match_of_def form_data_of_def)
  qed
qed

lemma page_step_ok:
  assumes ok: "page_ok p" shows "page_ok (page_step de x p)"
proof (cases x)
  case (PgAdd t a b time n)
  show ?thesis
  proof (cases "submitted_match de t a b time n")
    case (Some y)
    then show ?thesis
      using ok submitted_match_two_teams [OF Some]
      by (auto simp: PgAdd page_add_match_def page_ok_def)
  qed (use ok in \<open>simp add: PgAdd\<close>)
next
  case (PgFile t name raw)
  then show ?thesis using ok parsed_rows_ok [of de t raw] by (simp add: page_ok_def choose_file_def)
next
  case PgClear
  then show ?thesis using ok by (simp add: page_ok_def clear_upload_def)
next
  case (PgImport t random)
  let ?f = "handle_import_all True (length (pg_matches p)) (int max_page_matches) (pg_form p)"
  note facts = import_cases [OF ok]
  have preview: "case up_preview ?f of None \<Rightarrow> True | Some rows \<Rightarrow>
      list_all (\<lambda>r. rw_error r = None \<longrightarrow> rw_team_a r \<noteq> [] \<and> rw_team_b r \<noteq> [] \<and>
          to_lower (rw_team_a r) \<noteq> to_lower (rw_team_b r)) rows"
    using facts ok unfolding page_ok_def by (metis (no_types, lifting) option.simps(4))
  have "list_all two_teams (page_bulk_import t random xs (pg_matches p))"
    if "\<forall>x\<in>set xs. \<forall>k. two_teams (page_match_of k x)" for xs
    using ok that by (auto simp: page_ok_def page_bulk_import_def list_all_iff in_set_enumerate_eq)
  then show ?thesis
    using ok facts preview by (auto simp: PgImport Let_def page_ok_def page_bulk_import_def)
next
  case (PgDelete k)
  then show ?thesis
    using ok le_trans [OF length_filter_le] by (auto simp: page_ok_def page_delete_match_def list_all_iff)
qed

text \<open>
  Whatever is typed, uploaded, imported and deleted, the page keeps at most a hundred matches, each
  between two named teams that differ; and the form never says that an import succeeded, since the same
  handler that sets the message clears it.
\<close>

theorem match_page_bounded:
  assumes "page_ok p"
  shows "length (pg_matches (fold (page_step de) ops p)) \<le> max_page_matches \<and>
    list_all two_teams (pg_matches (fold (page_step de) ops p)) \<and>
    \<not> up_success (pg_form (fold (page_step de) ops p))"
proof -
  have "page_ok (fold (page_step de) ops p)"
    using assms by (induction ops arbitrary: p) (simp_all add: page_step_ok)
  then show ?thesis by (simp add: page_ok_def)
qed

section \<open>Instances\<close>

definition dated :: date_engine where
  "dated = \<lparr>de_parse = (\<lambda>s. if s = ''2030-01-01T18:00Z'' then Some 1000 else None), de_iso = (\<lambda>_. [])\<rparr>"

definition sample_match_row :: csv_match_row where
  "sample_match_row = \<lparr>rw_team_a = ''Reds'', rw_team_b = ''Sky Blues'', rw_time = ''2030-01-01T18:00Z'', rw_error = None\<rparr>"

lemma sample_writable: "list_all (writable_row dated 5) [sample_match_row]"
  by code_simp


definition new_page :: match_page where
  "new_page = \<lparr>pg_matches = [], pg_form = empty_upload\<rparr>"

lemma match_page_bounded_witness:
  "let p = fold (page_step dated) [PgAdd 5 ''Reds'' ''Blues'' ''2030-01-01T18:00Z'' 2,
      PgFile 6 ''m.csv'' (row_line sample_match_row), PgImport 7 (\<lambda>_. ''0.5'')] new_page in
   length (pg_matches p) = 2 \<and> list_all two_teams (pg_matches p) \<and> \<not> up_success (pg_form p)"
proof -
  let ?ops = "[PgAdd 5 ''Reds'' ''Blues'' ''2030-01-01T18:00Z'' 2,
      PgFile 6 ''m.csv'' (row_line sample_match_row), PgImport 7 (\<lambda>_. ''0.5'')]"
  have "page_ok new_page" by (simp add: page_ok_def new_page_def empty_upload_def)
  note match_page_bounded [OF this, of dated ?ops]
  moreover have "length (pg_matches (fold (page_step dated) ?ops new_page)) = 2" by code_simp
  ultimately show ?thesis unfolding Let_def by blast
qed

end
