(* ===== verification/FrontForms.thy ===== *)
theory FrontForms
  imports FrontProps FrontUploads
begin

text \<open>
  The wizards that create a market and an event (\<open>frontend/src/component/markets/CreateMarketForm.tsx\<close>,
  \<open>frontend/src/component/creator-events/CreateEventForm.tsx\<close>): steps, validation, and a draft in the local
  storage of the browser, which one window uses and which gives back the draft that was put there.
\<close>

section \<open>Numbers from fields\<close>

text \<open>\<open>parseFloat\<close>: the longest start of the text that is a decimal number.\<close>

definition parse_float :: "string \<Rightarrow> jsnum" where
  "parse_float text =
     (let (neg, u) = split_sign (trim_left text) in
      if starts_with u ''Infinity'' then (if neg then NegInf else PosInf)
      else (case List.find (\<lambda>n. decimal_literal (take n u) \<noteq> None) (rev [1..<Suc (length u)]) of
              None \<Rightarrow> NaN
            | Some n \<Rightarrow> to_num (case decimal_literal (take n u) of None \<Rightarrow> 0 | Some x \<Rightarrow> if neg then - x else x)))"

fun js_less :: "jsnum \<Rightarrow> jsnum \<Rightarrow> bool" where
  "js_less NaN y = False"
| "js_less x NaN = False"
| "js_less NegInf y = (y \<noteq> NegInf)"
| "js_less x PosInf = (x \<noteq> PosInf)"
| "js_less (Fin x) (Fin y) = (x < y)"
| "js_less x y = False"

section \<open>The draft of a market\<close>

datatype outcome_mode = Binary | Multi

record market_draft =
  dr_title :: string
  dr_category :: string
  dr_description :: string
  dr_public :: bool
  dr_end_date :: string
  dr_end_clock :: string
  dr_resolution_date :: string
  dr_resolution_clock :: string
  dr_source :: string
  dr_mode :: outcome_mode
  dr_outcomes :: "string list"
  dr_min :: string
  dr_max :: string
  dr_fee :: jsnum
  dr_seed :: string

definition default_market_draft :: market_draft where
  "default_market_draft =
     \<lparr>dr_title = [], dr_category = [], dr_description = [], dr_public = True, dr_end_date = [],
      dr_end_clock = ''23:59'', dr_resolution_date = [], dr_resolution_clock = ''23:59'', dr_source = [],
      dr_mode = Binary, dr_outcomes = [''Yes'', ''No''], dr_min = ''1'', dr_max = ''1000'', dr_fee = Fin 1,
      dr_seed = ''10''\<rparr>"

type_synonym form_errors = "(string \<times> string) list"

definition market_step1 :: "market_draft \<Rightarrow> form_errors" where
  "market_step1 d =
     (if trim (dr_title d) = [] then [(''title'', ''Title is required.'')]
      else if length (dr_title d) < 5 then [(''title'', ''Title must be at least 5 characters.'')] else []) @
     (if dr_category d = [] then [(''category'', ''Please select a category.'')] else []) @
     (if trim (dr_description d) = [] then [(''description'', ''Description is required.'')]
      else if length (dr_description d) < 10
      then [(''description'', ''Description must be at least 10 characters.'')] else [])"

definition date_and_clock :: "string \<Rightarrow> string \<Rightarrow> string" where
  "date_and_clock d c = (if d = [] then [] else d @ ''T'' @ c)"

text \<open>A comparison with a time that cannot be read does not hold.\<close>

definition before :: "date_engine \<Rightarrow> string \<Rightarrow> string \<Rightarrow> bool" where
  "before de a b \<longleftrightarrow> (case (de_parse de a, de_parse de b) of (Some x, Some y) \<Rightarrow> x < y | _ \<Rightarrow> False)"

definition market_step2 :: "date_engine \<Rightarrow> timestamp \<Rightarrow> market_draft \<Rightarrow> form_errors" where
  "market_step2 de t d =
     (let ends = date_and_clock (dr_end_date d) (dr_end_clock d);
          resolves = date_and_clock (dr_resolution_date d) (dr_resolution_clock d) in
      (if dr_end_date d = [] then [(''endDate'', ''Market close date is required.'')]
       else if not_after de ends t then [(''endDate'', ''Close date must be in the future.'')] else []) @
      (if dr_resolution_date d = [] then [(''resolutionDate'', ''Resolution date is required.'')]
       else if ends \<noteq> [] \<and> before de resolves ends
       then [(''resolutionDate'', ''Resolution date must be on or after the close date.'')] else []) @
      (if dr_mode d = Multi \<and> length (dr_outcomes d) < 2 then [(''outcomes'', ''Add at least 2 outcomes.'')] else []))"

text \<open>The sign of the third message is the character 8805, written \<open>>=\<close> here.\<close>

definition market_step3 :: "market_draft \<Rightarrow> form_errors" where
  "market_step3 d =
     (let low = parse_float (dr_min d); high = parse_float (dr_max d); seed = parse_float (dr_seed d) in
      (if low = NaN \<or> \<not> js_less (Fin 0) low then [(''minStakeXlm'', ''Minimum stake must be greater than 0.'')] else []) @
      (if high = NaN \<or> \<not> js_less (Fin 0) high then [(''maxStakeXlm'', ''Maximum stake must be greater than 0.'')] else []) @
      (if low \<noteq> NaN \<and> high \<noteq> NaN \<and> js_less high low
       then [(''maxStakeXlm'', ''Maximum stake must be >= minimum stake.'')] else []) @
      (if seed = NaN \<or> js_less seed (Fin 0)
       then [(''creatorLiquiditySeed'', ''Liquidity seed cannot be negative.'')] else []))"

section \<open>The market wizard\<close>

record market_wizard =
  mw_step :: nat
  mw_draft :: market_draft
  mw_errors :: form_errors
  mw_input :: string
  mw_submitting :: bool
  mw_failure :: "string option"
  mw_created :: string
  mw_banner :: bool
  mw_storage :: "market_draft option"

definition market_wizard_of :: "market_draft option \<Rightarrow> market_wizard" where
  "market_wizard_of saved =
     \<lparr>mw_step = 1, mw_draft = default_market_draft, mw_errors = [], mw_input = [], mw_submitting = False,
      mw_failure = None, mw_created = [],
      mw_banner = (case saved of None \<Rightarrow> False | Some d \<Rightarrow> dr_title d \<noteq> []), mw_storage = saved\<rparr>"

definition resume_draft :: "market_wizard \<Rightarrow> market_wizard" where
  "resume_draft w = w\<lparr>mw_draft := (case mw_storage w of None \<Rightarrow> mw_draft w | Some d \<Rightarrow> d), mw_banner := False\<rparr>"

definition dismiss_draft :: "market_wizard \<Rightarrow> market_wizard" where
  "dismiss_draft w = w\<lparr>mw_storage := None, mw_banner := False\<rparr>"

definition save_market_draft :: "market_wizard \<Rightarrow> market_wizard" where
  "save_market_draft w = w\<lparr>mw_storage := Some (mw_draft w)\<rparr>"

definition step_errors :: "date_engine \<Rightarrow> timestamp \<Rightarrow> market_wizard \<Rightarrow> form_errors option" where
  "step_errors de t w =
     (if mw_step w = 1 then Some (market_step1 (mw_draft w))
      else if mw_step w = 2 then Some (market_step2 de t (mw_draft w))
      else if mw_step w = 3 then Some (market_step3 (mw_draft w)) else None)"

definition go_next :: "date_engine \<Rightarrow> timestamp \<Rightarrow> market_wizard \<Rightarrow> market_wizard" where
  "go_next de t w =
     (let w1 = (case step_errors de t w of None \<Rightarrow> w | Some es \<Rightarrow> w\<lparr>mw_errors := es\<rparr>) in
      if step_errors de t w = None \<or> step_errors de t w = Some []
      then save_market_draft w1\<lparr>mw_step := mw_step w + 1\<rparr> else w1)"

definition go_back :: "market_wizard \<Rightarrow> market_wizard" where
  "go_back w = w\<lparr>mw_errors := [], mw_step := mw_step w - 1\<rparr>"

definition add_outcome :: "market_wizard \<Rightarrow> market_wizard" where
  "add_outcome w =
     (let v = trim (mw_input w); d = mw_draft w in
      if v = [] \<or> v \<in> set (dr_outcomes d) \<or> length (dr_outcomes d) \<ge> 10 then w
      else w\<lparr>mw_draft := d\<lparr>dr_outcomes := dr_outcomes d @ [v]\<rparr>, mw_input := []\<rparr>)"

definition remove_nth :: "nat \<Rightarrow> 'a list \<Rightarrow> 'a list" where
  "remove_nth n xs = take n xs @ drop (Suc n) xs"

definition remove_outcome :: "nat \<Rightarrow> market_wizard \<Rightarrow> market_wizard" where
  "remove_outcome n w = w\<lparr>mw_draft := mw_draft w\<lparr>dr_outcomes := remove_nth n (dr_outcomes (mw_draft w))\<rparr>\<rparr>"

definition set_mode :: "outcome_mode \<Rightarrow> market_draft \<Rightarrow> market_draft" where
  "set_mode m d = d\<lparr>dr_mode := m, dr_outcomes := (if m = Binary then [''Yes'', ''No''] else [])\<rparr>"

text \<open>The submission waits for a simulated network; its buttons are disabled meanwhile.\<close>

definition begin_submit :: "market_wizard \<Rightarrow> market_wizard" where
  "begin_submit w = w\<lparr>mw_failure := None, mw_submitting := True\<rparr>"

definition finish_submit :: "string \<Rightarrow> market_wizard \<Rightarrow> market_wizard" where
  "finish_submit random w =
     w\<lparr>mw_created := ''mkt_'' @ random, mw_storage := None, mw_banner := False, mw_step := 5, mw_submitting := False\<rparr>"

definition create_another :: "market_wizard \<Rightarrow> market_wizard" where
  "create_another w = w\<lparr>mw_draft := default_market_draft, mw_errors := [], mw_failure := None, mw_step := 1\<rparr>"

text \<open>The fields each step shows.\<close>

datatype market_edit =
    MeTitle string | MeCategory string | MeDescription string | MePublic
  | MeEndDate string | MeEndClock string | MeResolutionDate string | MeResolutionClock string
  | MeSource string | MeMode outcome_mode
  | MeMin string | MeMax string | MeSeed string | MeFee string

fun edit_step :: "market_edit \<Rightarrow> nat" where
  "edit_step (MeTitle _) = 1" | "edit_step (MeCategory _) = 1" | "edit_step (MeDescription _) = 1"
| "edit_step MePublic = 1"
| "edit_step (MeEndDate _) = 2" | "edit_step (MeEndClock _) = 2" | "edit_step (MeResolutionDate _) = 2"
| "edit_step (MeResolutionClock _) = 2" | "edit_step (MeSource _) = 2" | "edit_step (MeMode _) = 2"
| "edit_step (MeMin _) = 3" | "edit_step (MeMax _) = 3" | "edit_step (MeSeed _) = 3" | "edit_step (MeFee _) = 3"

fun edit_draft :: "market_edit \<Rightarrow> market_draft \<Rightarrow> market_draft" where
  "edit_draft (MeTitle x) d = d\<lparr>dr_title := x\<rparr>"
| "edit_draft (MeCategory x) d = d\<lparr>dr_category := x\<rparr>"
| "edit_draft (MeDescription x) d = d\<lparr>dr_description := x\<rparr>"
| "edit_draft MePublic d = d\<lparr>dr_public := \<not> dr_public d\<rparr>"
| "edit_draft (MeEndDate x) d = d\<lparr>dr_end_date := x\<rparr>"
| "edit_draft (MeEndClock x) d = d\<lparr>dr_end_clock := x\<rparr>"
| "edit_draft (MeResolutionDate x) d = d\<lparr>dr_resolution_date := x\<rparr>"
| "edit_draft (MeResolutionClock x) d = d\<lparr>dr_resolution_clock := x\<rparr>"
| "edit_draft (MeSource x) d = d\<lparr>dr_source := x\<rparr>"
| "edit_draft (MeMode m) d = set_mode m d"
| "edit_draft (MeMin x) d = d\<lparr>dr_min := x\<rparr>"
| "edit_draft (MeMax x) d = d\<lparr>dr_max := x\<rparr>"
| "edit_draft (MeSeed x) d = d\<lparr>dr_seed := x\<rparr>"
| "edit_draft (MeFee x) d = d\<lparr>dr_fee := parse_float x\<rparr>"

inductive wizard_act :: "date_engine \<Rightarrow> timestamp \<Rightarrow> market_wizard \<Rightarrow> market_wizard \<Rightarrow> bool" for de t where
  edit: "edit_step x = mw_step w \<Longrightarrow> wizard_act de t w (w\<lparr>mw_draft := edit_draft x (mw_draft w)\<rparr>)"
| type_outcome: "mw_step w = 2 \<Longrightarrow> wizard_act de t w (w\<lparr>mw_input := v\<rparr>)"
| add: "mw_step w = 2 \<Longrightarrow> dr_mode (mw_draft w) = Multi \<Longrightarrow> wizard_act de t w (add_outcome w)"
| remove: "mw_step w = 2 \<Longrightarrow> dr_mode (mw_draft w) = Multi \<Longrightarrow> wizard_act de t w (remove_outcome n w)"
| save: "mw_step w = 1 \<Longrightarrow> wizard_act de t w (save_market_draft w)"
| proceed: "1 \<le> mw_step w \<Longrightarrow> mw_step w \<le> 3 \<Longrightarrow> wizard_act de t w (go_next de t w)"
| return_step: "2 \<le> mw_step w \<Longrightarrow> mw_step w \<le> 4 \<Longrightarrow> \<not> mw_submitting w \<Longrightarrow> wizard_act de t w (go_back w)"
| resume: "mw_banner w \<Longrightarrow> wizard_act de t w (resume_draft w)"
| dismiss: "mw_banner w \<Longrightarrow> wizard_act de t w (dismiss_draft w)"
| submit: "mw_step w = 4 \<Longrightarrow> \<not> mw_submitting w \<Longrightarrow> wizard_act de t w (begin_submit w)"
| submitted: "mw_submitting w \<Longrightarrow> wizard_act de t w (finish_submit random w)"
| another: "mw_step w = 5 \<Longrightarrow> wizard_act de t w (create_another w)"

inductive wizard_run :: "date_engine \<Rightarrow> market_draft option \<Rightarrow> market_wizard \<Rightarrow> bool" for de saved where
  opened: "wizard_run de saved (market_wizard_of saved)"
| acted: "wizard_run de saved w \<Longrightarrow> wizard_act de t w w' \<Longrightarrow> wizard_run de saved w'"

text \<open>What holds of every draft the form writes, and what the steps before \<open>n\<close> have checked.\<close>

definition draft_shape :: "market_draft \<Rightarrow> bool" where
  "draft_shape d \<longleftrightarrow> distinct (dr_outcomes d) \<and> length (dr_outcomes d) \<le> 10 \<and> [] \<notin> set (dr_outcomes d) \<and>
     (dr_mode d = Binary \<longrightarrow> dr_outcomes d = [''Yes'', ''No''])"

definition checked :: "date_engine \<Rightarrow> nat \<Rightarrow> market_draft \<Rightarrow> bool" where
  "checked de n d \<longleftrightarrow> draft_shape d \<and> (1 < n \<longrightarrow> market_step1 d = []) \<and> (2 < n \<longrightarrow> (\<exists>t. market_step2 de t d = [])) \<and>
     (3 < n \<longrightarrow> market_step3 d = [])"

definition wizard_ok :: "date_engine \<Rightarrow> market_wizard \<Rightarrow> bool" where
  "wizard_ok de w \<longleftrightarrow> 1 \<le> mw_step w \<and> mw_step w \<le> 5 \<and> checked de (mw_step w) (mw_draft w) \<and>
     (\<forall>d. mw_storage w = Some d \<longrightarrow> checked de (mw_step w) d) \<and>
     (mw_submitting w \<longrightarrow> mw_step w = 4)"

lemma checked_mono: "checked de n d \<Longrightarrow> m \<le> n \<Longrightarrow> checked de m d"
  by (auto simp: checked_def)

lemma checked_default: "checked de 1 default_market_draft"
  by (simp add: checked_def draft_shape_def default_market_draft_def)

lemma distinct_remove_nth: "distinct xs \<Longrightarrow> distinct (remove_nth n xs) \<and> set (remove_nth n xs) \<subseteq> set xs \<and>
    length (remove_nth n xs) \<le> length xs"
  by (auto simp: remove_nth_def set_take_disj_set_drop_if_distinct dest: in_set_takeD in_set_dropD)

lemma edit_keeps:
  "edit_step x \<noteq> 1 \<Longrightarrow> market_step1 (edit_draft x d) = market_step1 d"
  "edit_step x = 3 \<Longrightarrow> market_step2 de t (edit_draft x d) = market_step2 de t d"
  "edit_step x \<noteq> 4" "draft_shape d \<Longrightarrow> draft_shape (edit_draft x d)"
proof -
  show "edit_step x \<noteq> 1 \<Longrightarrow> market_step1 (edit_draft x d) = market_step1 d"
    by (cases x) (simp_all add: market_step1_def set_mode_def)
  show "edit_step x = 3 \<Longrightarrow> market_step2 de t (edit_draft x d) = market_step2 de t d"
    by (cases x) (simp_all add: market_step2_def)
  show "edit_step x \<noteq> 4" by (cases x) simp_all
  show "draft_shape d \<Longrightarrow> draft_shape (edit_draft x d)"
    by (cases x) (auto simp: draft_shape_def set_mode_def)
qed

lemma edit_step_range: "1 \<le> edit_step x \<and> edit_step x \<le> 3"
  by (cases x) simp_all

lemma checked_edit: "checked de (edit_step x) d \<Longrightarrow> checked de (edit_step x) (edit_draft x d)"
  using edit_step_range [of x] edit_keeps(1,2) [where x = x and d = d] edit_keeps(4) [where x = x and d = d] by (auto simp: checked_def)

lemma outcomes_keep:
  "market_step1 (d\<lparr>dr_outcomes := xs\<rparr>) = market_step1 d"
  by (simp add: market_step1_def)

lemma checked_next:
  assumes "checked de n d" and "1 \<le> n" "n \<le> 3"
    and "(if n = 1 then market_step1 d else if n = 2 then market_step2 de t d else market_step3 d) = []"
  shows "checked de (n + 1) d"
proof -
  consider "n = 1" | "n = 2" | "n = 3" using assms(2,3) by linarith
  then show ?thesis using assms(1,4) by cases (auto simp: checked_def)
qed

lemma wizard_act_ok: "wizard_act de t w w' \<Longrightarrow> wizard_ok de w \<Longrightarrow> wizard_ok de w'"
proof (induction rule: wizard_act.induct)
  case (edit x w)
  then show ?case using checked_edit [of de x "mw_draft w"] by (auto simp: wizard_ok_def split: option.splits)
next
  case (add w)
  then show ?case
    by (auto simp: wizard_ok_def add_outcome_def Let_def checked_def draft_shape_def outcomes_keep split: option.splits)
next
  case (remove w n)
  then show ?case
    using distinct_remove_nth [of "dr_outcomes (mw_draft w)" n]
    by (auto simp: wizard_ok_def remove_outcome_def checked_def draft_shape_def outcomes_keep split: option.splits)
next
  case (proceed w)
  have errors: "step_errors de t w = Some (if mw_step w = 1 then market_step1 (mw_draft w)
      else if mw_step w = 2 then market_step2 de t (mw_draft w) else market_step3 (mw_draft w))"
    using "proceed.hyps" by (auto simp: step_errors_def)
  show ?case
  proof (cases "step_errors de t w = Some []")
    case True
    then have "checked de (mw_step w + 1) (mw_draft w)"
      using proceed errors by (intro checked_next) (auto simp: wizard_ok_def)
    then show ?thesis using True proceed by (simp add: go_next_def save_market_draft_def wizard_ok_def)
  next
    case False
    then show ?thesis using errors proceed by (auto simp: go_next_def Let_def wizard_ok_def)
  qed
next
  case (return_step w)
  then show ?case
    by (auto simp: wizard_ok_def go_back_def intro: checked_mono split: option.splits)
next
  case (another w)
  then show ?case using checked_default [of de] by (auto simp: wizard_ok_def create_another_def intro: checked_mono)
qed (auto simp: wizard_ok_def save_market_draft_def resume_draft_def dismiss_draft_def begin_submit_def
    finish_submit_def intro: checked_mono split: option.splits, auto simp: checked_def)

lemma wizard_run_ok:
  assumes "wizard_run de saved w" and "case saved of None \<Rightarrow> True | Some d \<Rightarrow> draft_shape d"
  shows "wizard_ok de w"
  using assms(1)
proof induction
  case opened
  show ?case using assms(2) checked_default [of de]
    by (auto simp: wizard_ok_def market_wizard_of_def checked_def split: option.splits)
next
  case (acted w t w')
  then show ?case using wizard_act_ok by blast
qed

text \<open>
  C36: however the steps are walked, edited, saved, resumed and discarded, a market is submitted only with a
  draft that every step has checked: a title, a category and a description that are long enough, stakes
  above zero in order, dates in order with the close in the future when it was checked, and two to ten
  different outcomes, those of a binary market being Yes and No.
\<close>

theorem submitted_markets_are_checked:
  assumes "wizard_run de saved w" and "mw_submitting w"
    and "case saved of None \<Rightarrow> True | Some d \<Rightarrow> draft_shape d"
  shows "trim (dr_title (mw_draft w)) \<noteq> [] \<and> 5 \<le> length (dr_title (mw_draft w)) \<and> dr_category (mw_draft w) \<noteq> [] \<and>
    10 \<le> length (dr_description (mw_draft w)) \<and>
    distinct (dr_outcomes (mw_draft w)) \<and> 2 \<le> length (dr_outcomes (mw_draft w)) \<and>
    length (dr_outcomes (mw_draft w)) \<le> 10 \<and>
    js_less (Fin 0) (parse_float (dr_min (mw_draft w))) \<and>
    \<not> js_less (parse_float (dr_max (mw_draft w))) (parse_float (dr_min (mw_draft w))) \<and>
    (\<exists>t. \<not> not_after de (date_and_clock (dr_end_date (mw_draft w)) (dr_end_clock (mw_draft w))) t) \<and>
    \<not> before de (date_and_clock (dr_resolution_date (mw_draft w)) (dr_resolution_clock (mw_draft w)))
      (date_and_clock (dr_end_date (mw_draft w)) (dr_end_clock (mw_draft w)))"
proof -
  let ?d = "mw_draft w"
  have "checked de 4 ?d"
    using wizard_run_ok [OF assms(1,3)] assms(2) unfolding wizard_ok_def by metis
  then obtain t where ok: "draft_shape ?d" "market_step1 ?d = []" "market_step2 de t ?d = []" "market_step3 ?d = []"
    by (auto simp: checked_def)
  have "2 \<le> length (dr_outcomes ?d)"
    using ok(1,3) by (cases "dr_mode ?d") (auto simp: draft_shape_def market_step2_def Let_def split: if_splits)
  moreover have "\<not> not_after de (date_and_clock (dr_end_date ?d) (dr_end_clock ?d)) t"
    "\<not> before de (date_and_clock (dr_resolution_date ?d) (dr_resolution_clock ?d))
      (date_and_clock (dr_end_date ?d) (dr_end_clock ?d))"
    using ok(3) by (auto simp: market_step2_def Let_def date_and_clock_def split: if_splits)
  moreover have "js_less (Fin 0) (parse_float (dr_min ?d))"
    "\<not> js_less (parse_float (dr_max ?d)) (parse_float (dr_min ?d))"
    using ok(4) by (auto simp: market_step3_def Let_def split: if_splits)
  ultimately show ?thesis
    using ok(1,2) by (auto simp: market_step1_def draft_shape_def split: if_splits)
qed

section \<open>The event wizard\<close>

text \<open>The number fields of the browser give finite numbers; what cannot be read counts as zero.\<close>

record event_draft =
  vd_title :: string
  vd_description :: string
  vd_max :: int
  vd_start :: string
  vd_end :: string
  vd_prize :: rat
  vd_rewards :: "rat list"
  vd_fee :: rat
  vd_category :: string
  vd_banner :: string

definition default_event_draft :: event_draft where
  "default_event_draft = \<lparr>vd_title = [], vd_description = [], vd_max = 100, vd_start = [], vd_end = [], vd_prize = 0,
     vd_rewards = replicate 5 0, vd_fee = 0, vd_category = [], vd_banner = []\<rparr>"

definition max_event_title :: nat where
  "max_event_title = 200"

definition max_event_description :: nat where
  "max_event_description = 1000"

definition event_step1 :: "date_engine \<Rightarrow> event_draft \<Rightarrow> form_errors" where
  "event_step1 de d =
     (if trim (vd_title d) = [] then [(''title'', ''Event title is required.'')]
      else if length (vd_title d) > max_event_title then [(''title'', ''Title must be 200 characters or fewer.'')] else []) @
     (if length (vd_description d) > max_event_description
      then [(''description'', ''Description must be 1000 characters or fewer.'')] else []) @
     (if vd_max d < 2 \<or> vd_max d > 1000 then [(''maxParticipants'', ''Participants must be between 2 and 1000.'')] else []) @
     (if vd_start d = [] then [(''startTime'', ''Start time is required.'')] else []) @
     (if vd_start d \<noteq> [] \<and> vd_end d \<noteq> [] \<and>
         (case (de_parse de (vd_start d), de_parse de (vd_end d)) of (Some a, Some b) \<Rightarrow> a \<ge> b | _ \<Rightarrow> False)
      then [(''endTime'', ''End time must be after start time.'')]
      else if vd_end d = [] then [(''endTime'', ''End time is required.'')] else []) @
     (if vd_prize d < 0 then [(''prizePool'', ''Prize pool cannot be negative.'')] else []) @
     (if vd_fee d < 0 then [(''entryFee'', ''Entry fee cannot be negative.'')] else []) @
     (if vd_prize d > 0 \<and> sum_list (vd_rewards d) \<noteq> 100
      then [(''rewardDistribution'', ''Reward distribution must sum to 100% (currently '' @ show_num (Fin (sum_list (vd_rewards d))) @ ''%).'')] else [])"

definition finite_or_zero :: "jsnum \<Rightarrow> rat" where
  "finite_or_zero x = (case x of Fin r \<Rightarrow> r | _ \<Rightarrow> 0)"

definition int_or :: "int \<Rightarrow> string \<Rightarrow> int" where
  "int_or z s = (case parse_int s of None \<Rightarrow> z | Some n \<Rightarrow> if n = 0 then z else n)"

definition clamp_reward :: "int \<Rightarrow> rat" where
  "clamp_reward n = of_int (max 0 (min 100 n))"

datatype event_edit =
    VeTitle string | VeDescription string | VeStart string | VeEnd string | VeMax string
  | VePrize string | VeFee string | VeReward nat string | VeCategory string | VeBanner string

fun edit_event :: "event_edit \<Rightarrow> event_draft \<Rightarrow> event_draft" where
  "edit_event (VeTitle x) d = d\<lparr>vd_title := x\<rparr>"
| "edit_event (VeDescription x) d = d\<lparr>vd_description := x\<rparr>"
| "edit_event (VeStart x) d = d\<lparr>vd_start := x\<rparr>"
| "edit_event (VeEnd x) d = d\<lparr>vd_end := x\<rparr>"
| "edit_event (VeMax x) d = d\<lparr>vd_max := int_or 2 x\<rparr>"
| "edit_event (VePrize x) d = d\<lparr>vd_prize := max 0 (finite_or_zero (parse_float x))\<rparr>"
| "edit_event (VeFee x) d = d\<lparr>vd_fee := max 0 (finite_or_zero (parse_float x))\<rparr>"
| "edit_event (VeReward n x) d = d\<lparr>vd_rewards := (vd_rewards d)[n := clamp_reward (int_or 0 x)]\<rparr>"
| "edit_event (VeCategory x) d = d\<lparr>vd_category := x\<rparr>"
| "edit_event (VeBanner x) d = d\<lparr>vd_banner := x\<rparr>"

record event_wizard =
  vw_step :: nat
  vw_draft :: event_draft
  vw_errors :: form_errors
  vw_fee :: "string option"
  vw_failure :: "string option"
  vw_code :: string
  vw_event :: string
  vw_storage :: "event_draft option"
  vw_front :: front_state

text \<open>Opening the form loads the draft of the storage.\<close>

definition event_wizard_of :: "event_draft option \<Rightarrow> front_state \<Rightarrow> event_wizard" where
  "event_wizard_of saved f =
     \<lparr>vw_step = 1, vw_draft = (case saved of None \<Rightarrow> default_event_draft | Some d \<Rightarrow> d), vw_errors = [],
      vw_fee = None, vw_failure = None, vw_code = [], vw_event = [], vw_storage = saved, vw_front = f\<rparr>"

definition handle_next_step :: "date_engine \<Rightarrow> event_wizard \<Rightarrow> event_wizard" where
  "handle_next_step de w =
     (if vw_step w = 1 then
        (let es = event_step1 de (vw_draft w); w1 = w\<lparr>vw_errors := es\<rparr> in
         if es = [] then w1\<lparr>vw_step := 2, vw_fee := (case vw_fee w of None \<Rightarrow> Some ''10.0000000'' | Some x \<Rightarrow> Some x)\<rparr>
         else w1)
      else w)"

definition input_of_draft :: "event_draft \<Rightarrow> create_input" where
  "input_of_draft d =
     \<lparr>cn_title = vd_title d, cn_description = vd_description d, cn_max = vd_max d, cn_start = vd_start d,
      cn_end = vd_end d, cn_prize = Some (vd_prize d),
      cn_distribution = Some \<lparr>rd_rank1 = vd_rewards d ! 0, rd_rank2 = vd_rewards d ! 1, rd_rank3 = vd_rewards d ! 2,
        rd_rank4 = vd_rewards d ! 3, rd_rank5 = vd_rewards d ! 4\<rparr>,
      cn_fee = Some (vd_fee d), cn_category = vd_category d, cn_banner = vd_banner d\<rparr>"

definition handle_create_event ::
  "date_engine \<Rightarrow> timestamp \<Rightarrow> string \<Rightarrow> string option \<Rightarrow> event_wizard \<Rightarrow> event_wizard" where
  "handle_create_event de t random wallet w =
     (case front_create_event de t random wallet (input_of_draft (vw_draft w)) (vw_front w) of
        (Inl e, f) \<Rightarrow> w\<lparr>vw_failure := Some ''Invalid time value'', vw_front := f\<rparr>
      | (Inr (k, code), f) \<Rightarrow>
          w\<lparr>vw_failure := None, vw_code := code, vw_event := k, vw_storage := None, vw_step := 3, vw_front := f\<rparr>)"

inductive event_act :: "date_engine \<Rightarrow> event_wizard \<Rightarrow> event_wizard \<Rightarrow> bool" for de where
  edit_field: "vw_step w = 1 \<Longrightarrow> event_act de w (w\<lparr>vw_draft := edit_event x (vw_draft w)\<rparr>)"
| store_draft: "vw_step w = 1 \<Longrightarrow> event_act de w (w\<lparr>vw_storage := Some (vw_draft w)\<rparr>)"
| next_step: "vw_step w = 1 \<Longrightarrow> event_act de w (handle_next_step de w)"
| first_step: "vw_step w = 2 \<Longrightarrow> event_act de w (w\<lparr>vw_step := 1\<rparr>)"
| create: "vw_step w = 2 \<Longrightarrow> event_act de w (handle_create_event de t random wallet w)"

inductive event_run :: "date_engine \<Rightarrow> event_draft option \<Rightarrow> front_state \<Rightarrow> event_wizard \<Rightarrow> bool" for de saved f where
  form_opened: "event_run de saved f (event_wizard_of saved f)"
| form_acted: "event_run de saved f w \<Longrightarrow> event_act de w w' \<Longrightarrow> event_run de saved f w'"

text \<open>What a draft of the form looks like, and an event made from a checked one.\<close>

definition reward_shape :: "event_draft \<Rightarrow> bool" where
  "reward_shape d \<longleftrightarrow> length (vd_rewards d) = 5 \<and> list_all (\<lambda>x. 0 \<le> x \<and> x \<le> 100) (vd_rewards d)"

definition fair_event :: "front_event \<Rightarrow> bool" where
  "fair_event e \<longleftrightarrow> trim (fe_title e) \<noteq> [] \<and> length (fe_title e) \<le> 200 \<and> 2 \<le> fe_max e \<and> fe_max e \<le> 1000 \<and>
     0 \<le> mo_amount (fe_prize e) \<and> 0 \<le> mo_amount (fe_fee e) \<and>
     list_all (\<lambda>sp. 0 \<le> sp_percentage sp) (fe_split e) \<and>
     (0 < mo_amount (fe_prize e) \<longrightarrow> sum_list (map sp_percentage (fe_split e)) = 100)"

definition event_wizard_ok :: "date_engine \<Rightarrow> front_state \<Rightarrow> event_wizard \<Rightarrow> bool" where
  "event_wizard_ok de f w \<longleftrightarrow> reward_shape (vw_draft w) \<and> (vw_step w = 2 \<longrightarrow> event_step1 de (vw_draft w) = []) \<and>
     list_all (\<lambda>e. e \<in> set (fs_events f) \<or> fair_event e) (fs_events (vw_front w))"

lemma five: "length xs = 5 \<Longrightarrow> xs = [xs ! 0, xs ! 1, xs ! 2, xs ! 3, xs ! 4]"
  by (auto simp: numeral_eq_Suc length_Suc_conv)

lemma positive_shares:
  "sum_list (map sp_percentage (filter (\<lambda>r. sp_percentage r > 0) xs)) = sum_list (map sp_percentage xs)"
  if "list_all (\<lambda>r. 0 \<le> sp_percentage r) xs"
  using that by (induction xs) auto

lemma created_event_fair:
  assumes "reward_shape d" and "event_step1 de d = []"
    and "front_create_event de t random wallet (input_of_draft d) s = (Inr r, s')"
  shows "\<exists>e. fs_events s' = e # fs_events s \<and> fair_event e"
proof -
  let ?sp = "split_of_distribution (cn_distribution (input_of_draft d))"
  have five: "vd_rewards d = [vd_rewards d ! 0, vd_rewards d ! 1, vd_rewards d ! 2, vd_rewards d ! 3, vd_rewards d ! 4]"
    using assms(1) by (intro five) (simp add: reward_shape_def)
  have range: "list_all (\<lambda>x. 0 \<le> x) [vd_rewards d ! 0, vd_rewards d ! 1, vd_rewards d ! 2, vd_rewards d ! 3, vd_rewards d ! 4]"
    using assms(1) five by (auto simp: reward_shape_def list_all_iff)
  have sum: "sum_list (map sp_percentage ?sp) = sum_list (vd_rewards d)"
    using range by (subst five) (simp add: split_of_distribution_def input_of_draft_def)
  have "list_all (\<lambda>sp. 0 \<le> sp_percentage sp) ?sp"
    by (auto simp: split_of_distribution_def input_of_draft_def list_all_iff)
  moreover have "\<exists>e. fs_events s' = e # fs_events s \<and> fe_title e = vd_title d \<and> fe_max e = vd_max d \<and>
      mo_amount (fe_prize e) = vd_prize d \<and> mo_amount (fe_fee e) = vd_fee d \<and> fe_split e = ?sp"
    using assms(3) by (auto simp: front_create_event_def Let_def input_of_draft_def or_zero_def money_def split: option.splits)
  ultimately show ?thesis
    using assms(2) sum by (auto simp: event_step1_def fair_event_def max_event_title_def split: if_splits)
qed

lemma reward_shape_edit: "reward_shape d \<Longrightarrow> reward_shape (edit_event x d)"
  by (cases x) (auto simp: reward_shape_def list_all_iff clamp_reward_def dest!: set_update_subset_insert [THEN subsetD])

lemma event_act_ok: "event_act de w w' \<Longrightarrow> event_wizard_ok de f w \<Longrightarrow> event_wizard_ok de f w'"
proof (induction rule: event_act.induct)
  case (edit_field w x)
  then show ?case by (simp add: event_wizard_ok_def reward_shape_edit)
next
  case (next_step w)
  then show ?case by (simp add: event_wizard_ok_def handle_next_step_def Let_def)
next
  case (create w t random wallet)
  obtain r s' where made: "front_create_event de t random wallet (input_of_draft (vw_draft w)) (vw_front w) = (r, s')"
    by fastforce
  show ?case
  proof (cases r)
    case (Inl e)
    then have "s' = vw_front w" using made by (auto simp: front_create_event_def Let_def split: option.splits)
    then show ?thesis using create made Inl by (simp add: event_wizard_ok_def handle_create_event_def)
  next
    case (Inr p)
    obtain e where "fs_events s' = e # fs_events (vw_front w)" "fair_event e"
      using created_event_fair [of "vw_draft w" de t random wallet "vw_front w" p s'] create made Inr
      by (auto simp: event_wizard_ok_def)
    then show ?thesis using create made Inr by (cases p) (auto simp: event_wizard_ok_def handle_create_event_def)
  qed
qed (simp_all add: event_wizard_ok_def)


section \<open>Instances\<close>

text \<open>A binary market typed in and taken to its submission.\<close>

definition form_engine :: date_engine where
  "form_engine = \<lparr>de_parse = (\<lambda>s. Some (int (length s))), de_iso = (\<lambda>_. [])\<rparr>"

definition typed_draft :: market_draft where
  "typed_draft = fold edit_draft
     [MeTitle ''Rain?'', MeCategory ''Tech'', MeDescription ''Will it rain'', MeEndDate ''2030-01-01'',
      MeResolutionDate ''2030-01-02''] default_market_draft"

lemma typed_checks:
  "market_step1 typed_draft = []" "market_step2 form_engine 3 typed_draft = []" "market_step3 typed_draft = []"
proof -
  show "market_step1 typed_draft = []" by code_simp
  show "market_step2 form_engine 3 typed_draft = []" by code_simp
  have "parse_float ''1'' = Fin 1" "parse_float ''1000'' = Fin 1000" "parse_float ''10'' = Fin 10"
  proof -
    have parts: "split_sign (trim_left ''1'') = (False, ''1'')" "split_sign (trim_left ''1000'') = (False, ''1000'')"
      "split_sign (trim_left ''10'') = (False, ''10'')"
      "decimal_literal ''1'' = Some 1" "decimal_literal ''1000'' = Some 1000" "decimal_literal ''10'' = Some 10"
      by code_simp+
    show "parse_float ''1'' = Fin 1" "parse_float ''1000'' = Fin 1000" "parse_float ''10'' = Fin 10"
      by (simp_all add: parse_float_def parts starts_with_def to_num_small)
  qed
  then show "market_step3 typed_draft = []"
    by (simp add: market_step3_def typed_draft_def default_market_draft_def Let_def)
qed

lemma submitted_markets_are_checked_witness:
  "\<exists>w. wizard_run form_engine None w \<and> mw_submitting w \<and> 5 \<le> length (dr_title (mw_draft w)) \<and>
     distinct (dr_outcomes (mw_draft w)) \<and> 2 \<le> length (dr_outcomes (mw_draft w))"
proof -
  let ?w = "\<lambda>d. (market_wizard_of None)\<lparr>mw_draft := d\<rparr>"
  let ?d1 = "edit_draft (MeTitle ''Rain?'') default_market_draft"
  let ?d2 = "edit_draft (MeCategory ''Tech'') ?d1"
  let ?d3 = "edit_draft (MeDescription ''Will it rain'') ?d2"
  let ?d4 = "edit_draft (MeEndDate ''2030-01-01'') ?d3"
  have edit1: "wizard_run form_engine None (?w (edit_draft x d))"
    if "wizard_run form_engine None (?w d)" "edit_step x = 1" for x d
    using acted [OF that(1) edit [of x "?w d" _ 0]] that(2) by (simp add: market_wizard_of_def)
  have r0: "wizard_run form_engine None (?w default_market_draft)"
    using opened [of form_engine None] by (simp add: market_wizard_of_def)
  have r3: "wizard_run form_engine None (?w ?d3)"
    by (intro edit1 r0) simp_all
  let ?s2 = "\<lambda>d. (?w d)\<lparr>mw_step := 2, mw_storage := Some ?d3\<rparr>"
  have ok1: "market_step1 ?d3 = []" by code_simp
  have r4: "wizard_run form_engine None (?s2 ?d3)"
    using acted [OF r3 proceed [of "?w ?d3" _ 0]] ok1
    by (simp add: go_next_def step_errors_def save_market_draft_def market_wizard_of_def numeral_2_eq_2)
  have edit2: "wizard_run form_engine None (?s2 (edit_draft x d))"
    if "wizard_run form_engine None (?s2 d)" "edit_step x = 2" for x d
    using acted [OF that(1) edit [of x "?s2 d" _ 0]] that(2) by (simp add: market_wizard_of_def)
  have d: "typed_draft = edit_draft (MeResolutionDate ''2030-01-02'') ?d4" by (simp add: typed_draft_def)
  have r5: "wizard_run form_engine None (?s2 typed_draft)"
    unfolding d by (intro edit2 r4) simp_all
  let ?s3 = "(?w typed_draft)\<lparr>mw_step := 3, mw_storage := Some typed_draft\<rparr>"
  have r6: "wizard_run form_engine None ?s3"
    using acted [OF r5 proceed [of "?s2 typed_draft" _ 3]] typed_checks(2)
    by (simp add: go_next_def step_errors_def save_market_draft_def market_wizard_of_def)
  let ?s4 = "(?w typed_draft)\<lparr>mw_step := 4, mw_storage := Some typed_draft\<rparr>"
  have r7: "wizard_run form_engine None ?s4"
    using acted [OF r6 proceed [of ?s3 _ 3]] typed_checks(3)
    by (simp add: go_next_def step_errors_def save_market_draft_def market_wizard_of_def)
  have r8: "wizard_run form_engine None (begin_submit ?s4)"
    using acted [OF r7 submit [of ?s4 _ 3]] by (simp add: market_wizard_of_def)
  have "mw_submitting (begin_submit ?s4)" by (simp add: begin_submit_def)
  then show ?thesis using submitted_markets_are_checked [OF r8] r8 by auto
qed

definition typed_event :: event_draft where
  "typed_event = default_event_draft\<lparr>vd_title := ''Cup'', vd_start := ''a'', vd_end := ''ab'', vd_prize := 50,
     vd_rewards := [60, 40, 0, 0, 0]\<rparr>"


end
