(* ===== verification/Warming.thy ===== *)
theory Warming
  imports Analytics SortFacts
begin

text \<open>
  Filling the cache ahead of requests (\<open>backend/src/cache/warming.service.ts\<close>, its configuration and
  its keys).  The cache holds values under keys: the keys are those of the market services, which
  delete some of them when a market closes.
\<close>

section \<open>Configuration\<close>

record warm_strategy =
  ws_enabled :: bool
  ws_ttl_seconds :: rat
  ws_active_limit :: rat
  ws_trending_limit :: rat
  ws_detail_limit :: rat

definition number_from_config :: "(string \<Rightarrow> string option) \<Rightarrow> string \<Rightarrow> rat \<Rightarrow> rat" where
  "number_from_config cfg k d =
     (case cfg k of
        None \<Rightarrow> d
      | Some v \<Rightarrow> (case finite_num (number_of_text v) of
          Some q \<Rightarrow> if q > 0 then q else d
        | None \<Rightarrow> d))"

definition get_cache_warming_strategy :: "(string \<Rightarrow> string option) \<Rightarrow> warm_strategy" where
  "get_cache_warming_strategy cfg =
     \<lparr>ws_enabled = (cfg ''CACHE_WARMING_ENABLED'' \<noteq> Some ''false''),
      ws_ttl_seconds = number_from_config cfg ''CACHE_WARMING_TTL_SECONDS'' 600,
      ws_active_limit = number_from_config cfg ''CACHE_WARMING_ACTIVE_EVENTS_LIMIT'' 20,
      ws_trending_limit = number_from_config cfg ''CACHE_WARMING_TRENDING_EVENTS_LIMIT'' 20,
      ws_detail_limit = number_from_config cfg ''CACHE_WARMING_POPULAR_EVENT_DETAILS_LIMIT'' 5\<rparr>"

text \<open>A limit as a number of rows: what \<open>slice\<close> makes of a fraction.\<close>

definition whole :: "rat \<Rightarrow> nat" where
  "whole q = nat \<lfloor>q\<rfloor>"

section \<open>The cache\<close>

definition active_events_key :: string where
  "active_events_key = ''cache-warming:active-events''"

definition platform_statistics_key :: string where
  "platform_statistics_key = ''cache-warming:platform-statistics''"

datatype warm_op = ActiveEvents | TrendingEvents | PlatformStatistics | EventDetail uuid

fun warm_key :: "warm_op \<Rightarrow> string" where
  "warm_key ActiveEvents = active_events_key"
| "warm_key TrendingEvents = trending_events_key"
| "warm_key PlatformStatistics = platform_statistics_key"
| "warm_key (EventDetail k) = popular_event_key k"

datatype warm_value =
    WarmMarkets "market page_result"
  | WarmTrending "trending_item page_result"
  | WarmCategories "category_summary list"
  | WarmMarket market

text \<open>
  The database with the keys the cache holds, the values with their time to live in milliseconds,
  and the result of the run.
\<close>

record warming =
  wm_db :: db
  wm_values :: "(string \<times> warm_value \<times> rat) list"
  wm_warmed :: "string list"
  wm_failed :: "(string \<times> string) list"

definition cache_set :: "string \<Rightarrow> warm_value \<Rightarrow> rat \<Rightarrow> warming \<Rightarrow> warming" where
  "cache_set k v ttl w =
     w\<lparr>wm_db := (wm_db w)\<lparr>cache_keys := List.insert k (cache_keys (wm_db w))\<rparr>,
       wm_values := save_row fst (k, v, ttl) (wm_values w)\<rparr>"

definition cache_get :: "string \<Rightarrow> warming \<Rightarrow> warm_value option" where
  "cache_get k w =
     (if k \<in> set (cache_keys (wm_db w)) then map_option (\<lambda>r. fst (snd r)) (by_id fst k (wm_values w)) else None)"

section \<open>Warming\<close>

definition load_value ::
  "timestamp \<Rightarrow> warm_strategy \<Rightarrow> warm_op \<Rightarrow> db \<Rightarrow> (string + warm_value) \<times> db" where
  "load_value t0 st op s =
     (case op of
        ActiveEvents \<Rightarrow>
          (Inr (WarmMarkets (find_all_filtered
             \<lparr>lm_page = Some 1, lm_limit = Some (whole (ws_active_limit st)), lm_category = None,
              lm_status = Some MsOpen, lm_is_public = Some True, lm_search = None\<rparr> s)), s)
      | TrendingEvents \<Rightarrow>
          (let (p, s') = get_trending_markets t0 (Some 1) (Some (whole (ws_trending_limit st))) s
           in (Inr (WarmTrending p), s'))
      | PlatformStatistics \<Rightarrow> (Inr (WarmCategories (get_category_analytics s)), s)
      | EventDetail k \<Rightarrow>
          (case find_by_id_or_on_chain_id k s of
             Inl e \<Rightarrow> (Inl (error_text e), s)
           | Inr m \<Rightarrow> (Inr (WarmMarket m), s)))"

text \<open>What the database or the cache refuses, with the message of the error.\<close>

datatype warm_fault = LoadFails string | StoreFails string

definition warm_failure :: "string \<Rightarrow> string \<Rightarrow> warming \<Rightarrow> warm_value option \<times> warming" where
  "warm_failure k reason w = (None, w\<lparr>wm_failed := wm_failed w @ [(k, reason)]\<rparr>)"

definition capture_warm_operation ::
  "timestamp \<Rightarrow> warm_strategy \<Rightarrow> (warm_op \<Rightarrow> warm_fault option) \<Rightarrow> warm_op \<Rightarrow> warming
     \<Rightarrow> warm_value option \<times> warming" where
  "capture_warm_operation t0 st faults op w =
     (let k = warm_key op; (v, s') = load_value t0 st op (wm_db w) in
      case faults op of
        Some (LoadFails reason) \<Rightarrow> warm_failure k reason w
      | fault \<Rightarrow>
          (case v of
             Inl reason \<Rightarrow> warm_failure k reason w
           | Inr x \<Rightarrow>
               (case fault of
                  Some (StoreFails reason) \<Rightarrow> warm_failure k reason (w\<lparr>wm_db := s'\<rparr>)
                | _ \<Rightarrow>
                    (let w' = cache_set k x (ws_ttl_seconds st * 1000) (w\<lparr>wm_db := s'\<rparr>)
                     in (Some x, w'\<lparr>wm_warmed := wm_warmed w' @ [k]\<rparr>)))))"

text \<open>Operations that run side by side, in the order they come to an end.\<close>

fun capture_all ::
  "timestamp \<Rightarrow> warm_strategy \<Rightarrow> (warm_op \<Rightarrow> warm_fault option) \<Rightarrow> warm_op list \<Rightarrow> warming
     \<Rightarrow> (warm_op \<times> warm_value option) list \<times> warming" where
  "capture_all t0 st faults [] w = ([], w)"
| "capture_all t0 st faults (op # ops) w =
     (let (v, w1) = capture_warm_operation t0 st faults op w;
          (vs, w2) = capture_all t0 st faults ops w1
      in ((op, v) # vs, w2))"

definition trending_ids :: "(warm_op \<times> warm_value option) list \<Rightarrow> uuid list" where
  "trending_ids vs =
     (case map_of vs TrendingEvents of
        Some (Some (WarmTrending p)) \<Rightarrow> map tr_id (data p)
      | _ \<Rightarrow> [])"

definition warm_popular_details ::
  "timestamp \<Rightarrow> warm_strategy \<Rightarrow> (warm_op \<Rightarrow> warm_fault option) \<Rightarrow> (warm_op list \<Rightarrow> warm_op list)
     \<Rightarrow> uuid list \<Rightarrow> warming \<Rightarrow> warming" where
  "warm_popular_details t0 st faults order ids w =
     snd (capture_all t0 st faults (order (map EventDetail (take (whole (ws_detail_limit st)) ids))) w)"

definition warm_frequently_accessed_data ::
  "timestamp \<Rightarrow> warm_strategy \<Rightarrow> (warm_op \<Rightarrow> warm_fault option) \<Rightarrow> (warm_op list \<Rightarrow> warm_op list)
     \<Rightarrow> warming \<Rightarrow> warming" where
  "warm_frequently_accessed_data t0 st faults order w =
     (let w0 = w\<lparr>wm_warmed := [], wm_failed := []\<rparr> in
      if \<not> ws_enabled st then w0
      else
        (let (vs, w1) = capture_all t0 st faults (order [ActiveEvents, TrendingEvents, PlatformStatistics]) w0
         in warm_popular_details t0 st faults order (trending_ids vs) w1))"

section \<open>Every key is accounted for\<close>

definition warm_report :: "warming \<Rightarrow> string multiset" where
  "warm_report w = mset (wm_warmed w) + mset (map fst (wm_failed w))"

definition warm_ok :: "warming \<Rightarrow> bool" where
  "warm_ok w \<longleftrightarrow> (\<forall>k \<in> set (wm_warmed w). cache_get k w \<noteq> None)"

lemma cache_get_set: "cache_get k (cache_set k' v ttl w) = (if k = k' then Some v else cache_get k w)"
  by (simp add: cache_get_def cache_set_def by_id_save_row)

lemma cache_get_frame:
  "cache_keys s' = cache_keys (wm_db w) \<Longrightarrow> cache_get k (w\<lparr>wm_db := s'\<rparr>) = cache_get k w"
  "cache_get k (w\<lparr>wm_warmed := a\<rparr>) = cache_get k w" "cache_get k (w\<lparr>wm_failed := b\<rparr>) = cache_get k w"
  by (simp_all add: cache_get_def)

lemma load_keys:
  assumes "load_value t0 st op s = (v, s')"
  shows "cache_keys s' = cache_keys s \<and> markets s' = markets s"
  using assms
  by (auto simp: load_value_def get_trending_markets_def compute_trending_markets_def Let_def
      split: warm_op.splits sum.splits prod.splits option.splits if_splits)

lemma capture_cases:
  assumes "capture_warm_operation t0 st faults op w = (v, w')"
  obtains
    (failed) reason s' where "v = None" "cache_keys s' = cache_keys (wm_db w)" "markets s' = markets (wm_db w)"
      "w' = w\<lparr>wm_db := s', wm_failed := wm_failed w @ [(warm_key op, reason)]\<rparr>"
  | (warmed) x s' where "v = Some x" "load_value t0 st op (wm_db w) = (Inr x, s')"
      "w' = (cache_set (warm_key op) x (ws_ttl_seconds st * 1000) (w\<lparr>wm_db := s'\<rparr>))
              \<lparr>wm_warmed := wm_warmed w @ [warm_key op]\<rparr>"
proof -
  obtain y s' where load: "load_value t0 st op (wm_db w) = (y, s')" by fastforce
  note keys = load_keys [OF load]
  note eqs = assms [unfolded capture_warm_operation_def warm_failure_def Let_def load, simplified]
  show ?thesis
  proof (cases "faults op")
    case None
    show ?thesis
    proof (cases y)
      case (Inl r)
      with eqs None show ?thesis by (intro failed [of "wm_db w" r]) auto
    next
      case (Inr x)
      with eqs None load show ?thesis by (intro warmed [of x s']) (auto simp: cache_set_def)
    qed
  next
    case (Some a)
    show ?thesis
    proof (cases a)
      case (LoadFails r)
      with eqs Some show ?thesis by (intro failed [of "wm_db w" r]) auto
    next
      case (StoreFails r)
      show ?thesis
      proof (cases y)
        case (Inl r')
        with eqs Some StoreFails show ?thesis by (intro failed [of "wm_db w" r']) auto
      next
        case (Inr x)
        with eqs Some StoreFails keys show ?thesis by (intro failed [of s' r]) auto
      qed
    qed
  qed
qed

lemma capture_report:
  assumes "capture_warm_operation t0 st faults op w = (v, w')"
  shows "warm_report w' = warm_report w + {#warm_key op#} \<and> markets (wm_db w') = markets (wm_db w) \<and>
    (warm_ok w \<longrightarrow> warm_ok w') \<and> (v \<noteq> None \<longrightarrow> cache_get (warm_key op) w' = v) \<and>
    (\<forall>k. k \<noteq> warm_key op \<longrightarrow> cache_get k w' = cache_get k w)"
  using assms
proof (cases rule: capture_cases)
  case (failed reason s')
  have "cache_get k w' = cache_get k w" for k
    using failed(2) by (simp add: failed(4) cache_get_def)
  then show ?thesis using failed by (simp add: warm_report_def warm_ok_def)
next
  case (warmed x s')
  note keys = load_keys [OF warmed(2)]
  have get: "cache_get k w' = (if k = warm_key op then Some x else cache_get k w)" for k
    using keys by (simp add: warmed(3) cache_get_def cache_set_def by_id_save_row)
  have "wm_warmed w' = wm_warmed w @ [warm_key op]" "wm_failed w' = wm_failed w"
    "markets (wm_db w') = markets (wm_db w)"
    using keys by (simp_all add: warmed(3) cache_set_def)
  then show ?thesis by (auto simp: warm_report_def warm_ok_def get warmed(1))
qed

lemma capture_all_report:
  assumes "capture_all t0 st faults ops w = (vs, w')"
  shows "warm_report w' = warm_report w + mset (map warm_key ops) \<and> map fst vs = ops \<and>
    markets (wm_db w') = markets (wm_db w) \<and> (warm_ok w \<longrightarrow> warm_ok w')"
  using assms
proof (induction ops arbitrary: w vs w')
  case (Cons op ops)
  obtain v w1 where one: "capture_warm_operation t0 st faults op w = (v, w1)" by fastforce
  obtain us w2 where rest: "capture_all t0 st faults ops w1 = (us, w2)" by fastforce
  from Cons.prems show ?case using capture_report [OF one] Cons.IH [OF rest] by (auto simp: one rest)
qed (simp add: warm_report_def)

definition trending_page :: "timestamp \<Rightarrow> warm_strategy \<Rightarrow> db \<Rightarrow> trending_item page_result" where
  "trending_page t0 st s = fst (get_trending_markets t0 (Some 1) (Some (whole (ws_trending_limit st))) s)"

lemma trending_page_view:
  "trending_cache s' = trending_cache s \<Longrightarrow> markets s' = markets s \<Longrightarrow> trending_page t0 st s' = trending_page t0 st s"
  by (simp add: trending_page_def get_trending_markets_def compute_trending_markets_def Let_def
      split: option.split prod.split)

lemma capture_trending:
  "fst (capture_warm_operation t0 st faults TrendingEvents w) =
     (if faults TrendingEvents = None then Some (WarmTrending (trending_page t0 st (wm_db w))) else None)"
  by (auto simp: capture_warm_operation_def warm_failure_def load_value_def trending_page_def Let_def
      split: option.split warm_fault.split prod.split)

lemma load_other: "op \<noteq> TrendingEvents \<Longrightarrow> snd (load_value t0 st op s) = s"
  by (simp add: load_value_def split: warm_op.split sum.split)

lemma capture_other:
  assumes "op \<noteq> TrendingEvents"
  shows "trending_cache (wm_db (snd (capture_warm_operation t0 st faults op w))) = trending_cache (wm_db w) \<and>
    markets (wm_db (snd (capture_warm_operation t0 st faults op w))) = markets (wm_db w)"
  using load_other [OF assms, of t0 st "wm_db w"]
  by (auto simp: capture_warm_operation_def warm_failure_def cache_set_def Let_def
      split: option.split warm_fault.split prod.split sum.split)

lemma capture_all_trending:
  assumes "TrendingEvents \<in> set ops"
  shows "map_of (fst (capture_all t0 st faults ops w)) TrendingEvents =
    Some (if faults TrendingEvents = None then Some (WarmTrending (trending_page t0 st (wm_db w))) else None)"
  using assms
proof (induction ops arbitrary: w)
  case (Cons op ops)
  show ?case
  proof (cases "op = TrendingEvents")
    case True
    then show ?thesis using capture_trending [of t0 st faults w] by (simp add: case_prod_unfold Let_def)
  next
    case False
    have "trending_page t0 st (wm_db (snd (capture_warm_operation t0 st faults op w))) = trending_page t0 st (wm_db w)"
      using capture_other [OF False, of t0 st faults w] by (intro trending_page_view) simp_all
    with Cons False show ?thesis by (simp add: case_prod_unfold Let_def)
  qed
qed simp

definition planned_details :: "timestamp \<Rightarrow> warm_strategy \<Rightarrow> (warm_op \<Rightarrow> warm_fault option) \<Rightarrow> db \<Rightarrow> uuid list" where
  "planned_details t0 st faults s =
     (if faults TrendingEvents = None
      then take (whole (ws_detail_limit st)) (map tr_id (data (trending_page t0 st s))) else [])"

text \<open>
  C40: Every run ends, whatever fails: each key it set out to fill, the details of the first trending
  markets among them, is reported once, as warmed or as failed; a key reported as warmed can be
  read; the markets are not changed.
\<close>

theorem warming_accounts_for_every_key:
  assumes "ws_enabled st" and "\<And>ops. mset (order ops) = mset ops"
  shows "let w' = warm_frequently_accessed_data t0 st faults order w in
    warm_report w' = {#active_events_key, trending_events_key, platform_statistics_key#} +
      mset (map popular_event_key (planned_details t0 st faults (wm_db w))) \<and>
    warm_ok w' \<and> markets (wm_db w') = markets (wm_db w)"
proof -
  define w0 where "w0 = w\<lparr>wm_warmed := [], wm_failed := []\<rparr>"
  define base_ops where "base_ops = [ActiveEvents, TrendingEvents, PlatformStatistics]"
  obtain vs w1 where first: "capture_all t0 st faults (order base_ops) w0 = (vs, w1)" by fastforce
  define ids where "ids = take (whole (ws_detail_limit st)) (trending_ids vs)"
  obtain us w2 where details: "capture_all t0 st faults (order (map EventDetail ids)) w1 = (us, w2)" by fastforce
  have run: "warm_frequently_accessed_data t0 st faults order w = w2"
    using assms(1) first details
    by (simp add: warm_frequently_accessed_data_def warm_popular_details_def w0_def ids_def base_ops_def Let_def)
  have "set (order base_ops) = set base_ops" using assms(2) by (rule mset_eq_setD)
  then have "TrendingEvents \<in> set (order base_ops)" by (simp add: base_ops_def)
  from capture_all_trending [OF this, of t0 st faults w0] first
  have ids: "ids = planned_details t0 st faults (wm_db w)"
    by (simp add: ids_def trending_ids_def planned_details_def w0_def)
  have keys: "mset (map warm_key (order ops)) = mset (map warm_key ops)" for ops
    using assms(2) [of ops] by (metis mset_map)
  have "warm_ok w0" "warm_report w0 = {#}" by (simp_all add: w0_def warm_ok_def warm_report_def)
  with capture_all_report [OF first] capture_all_report [OF details] keys
  show ?thesis
    by (simp add: run ids [symmetric] w0_def base_ops_def Let_def image_mset.compositionality comp_def)
qed

text \<open>
  Resolving a market empties the cached trending list and the cached market, not the cached list
  of open markets: that one shows the market as open until it expires.
\<close>

theorem warmed_list_outlives_its_markets:
  assumes "resolve_market sor e ref outcome (wm_db w) = (Inr m, s')"
    and "cache_get active_events_key w = Some v"
  shows "let w' = w\<lparr>wm_db := s'\<rparr> in
    cache_get active_events_key w' = Some v \<and> cache_get trending_events_key w' = None \<and>
    cache_get (popular_event_key (m_id m)) w' = None"
proof -
  have keys: "cache_keys s' = filter (\<lambda>k. k \<noteq> popular_event_key (m_id m))
      (filter (\<lambda>k. k \<noteq> trending_events_key) (cache_keys (wm_db w)))"
    using assms(1) by (elim resolve_market_Inr)
      (simp add: invalidate_market_caches_def cache_del_def emit_hook_def save_market_def call_chain_def)
  have "active_events_key \<noteq> trending_events_key" "active_events_key \<noteq> popular_event_key (m_id m)"
    by (simp_all add: active_events_key_def trending_events_key_def popular_event_key_def)
  with assms(2) show ?thesis by (simp add: cache_get_def keys Let_def split: if_splits)
qed

section \<open>An example\<close>

definition sample_strategy :: warm_strategy where
  "sample_strategy = get_cache_warming_strategy (\<lambda>_. None)"

definition sample_warming :: warming where
  "sample_warming = \<lparr>wm_db = sample_db, wm_values = [], wm_warmed = [], wm_failed = []\<rparr>"

definition sample_faults :: "warm_op \<Rightarrow> warm_fault option" where
  "sample_faults op = (if op = ActiveEvents then Some (LoadFails ''db down'') else None)"

lemma warming_accounts_for_every_key_witness:
  "warm_report (warm_frequently_accessed_data 100 sample_strategy sample_faults rev sample_warming) =
    {#active_events_key, trending_events_key, platform_statistics_key, popular_event_key ''m1''#}"
proof -
  have "ws_enabled sample_strategy" by (simp add: sample_strategy_def get_cache_warming_strategy_def)
  from warming_accounts_for_every_key [OF this, of rev 100 sample_faults sample_warming]
  have "warm_report (warm_frequently_accessed_data 100 sample_strategy sample_faults rev sample_warming) =
    {#active_events_key, trending_events_key, platform_statistics_key#} +
      mset (map popular_event_key (planned_details 100 sample_strategy sample_faults sample_db))"
    by (simp add: Let_def sample_warming_def)
  also have "planned_details 100 sample_strategy sample_faults sample_db = [''m1'']"
    by (simp add: planned_details_def sample_faults_def trending_page_def get_trending_markets_def
        compute_trending_markets_def to_trending_item_def page_of_def Let_def sample_strategy_def whole_def
        get_cache_warming_strategy_def number_from_config_def sample_defs)
  finally show ?thesis by simp
qed

definition sample_listing :: warm_value where
  "sample_listing = WarmMarkets \<lparr>data = [sample_market], total = 1, pg_page = 1, pg_limit = 20\<rparr>"

definition sample_warmed :: warming where
  "sample_warmed = cache_set active_events_key sample_listing 600000 sample_warming"

lemma warmed_list_outlives_its_markets_witness:
  "\<exists>m s'. resolve_market sample_chain sample_env ''m1'' ''Yes'' (wm_db sample_warmed) = (Inr m, s') \<and>
     cache_get active_events_key (sample_warmed\<lparr>wm_db := s'\<rparr>) = Some sample_listing"
proof -
  obtain m s' where run: "resolve_market sample_chain sample_env ''m1'' ''Yes'' (wm_db sample_warmed) = (Inr m, s')"
    by (simp add: resolve_market_def find_by_id_or_on_chain_id_def find_market_def Let_def
        sample_warmed_def cache_set_def sample_warming_def sample_defs)
  have "cache_get active_events_key sample_warmed = Some sample_listing"
    by (simp add: sample_warmed_def cache_get_set)
  from warmed_list_outlives_its_markets [OF run this] run show ?thesis by (auto simp: Let_def)
qed

end
