(* ===== verification/Monitoring.thy ===== *)
theory Monitoring
  imports IndexerLoop Admin
begin

text \<open>
  What the operators see: the indexer's dashboard, its Prometheus text and its manual sync
  (\<open>backend/src/indexer/health.service.ts\<close>), the reconciliation status (\<open>indexer-health.controller.ts\<close>),
  the health of the service (\<open>health/health.service.ts\<close>), the interceptors that wrap every answer and
  log activity (\<open>common/interceptors\<close>), and the check of the environment at start
  (\<open>config/env.validation.ts\<close>).
\<close>

section \<open>The indexer's dashboard\<close>

record indexer_dashboard =
  id_health :: "health_status \<times> health_metrics \<times> alert list"
  id_rate :: rat
  id_sync_seconds :: nat
  id_configured :: bool

text \<open>The metrics are read twice, at \<open>t0\<close> and then at \<open>t1\<close>.\<close>

definition get_dashboard :: "ix_config \<Rightarrow> timestamp \<times> indexer \<Rightarrow> timestamp \<times> indexer \<Rightarrow> indexer_dashboard" where
  "get_dashboard cfg at0 at1 =
     \<lparr>id_health = get_health (fst at0) (snd at0), id_rate = im_rate (get_metrics (fst at1) (snd at1)),
      id_sync_seconds = 30, id_configured = (active_contract cfg \<noteq> None)\<rparr>"

definition trigger_manual_sync ::
  "bigint_format \<Rightarrow> ix_config \<Rightarrow> string \<Rightarrow> (rat \<Rightarrow> http_reply) \<Rightarrow> (nat \<Rightarrow> job_env)
    \<Rightarrow> timestamp \<Rightarrow> timestamp \<Rightarrow> indexer \<Rightarrow> string \<times> indexer" where
  "trigger_manual_sync fmt cfg gen reply envs t0 t1 st =
     (''Indexer sync triggered successfully'', poll_contract_events fmt cfg gen reply envs t0 t1 st)"

section \<open>The Prometheus text\<close>

definition line_break :: char where
  "line_break = CHR 0x0A"

datatype metric_kind = Gauge | Counter

fun kind_text :: "metric_kind \<Rightarrow> string" where
  "kind_text Gauge = ''gauge''"
| "kind_text Counter = ''counter''"

definition metric_lines :: "string \<Rightarrow> string \<Rightarrow> metric_kind \<Rightarrow> string \<Rightarrow> string list" where
  "metric_lines name about kind val =
     [''# HELP '' @ name @ '' '' @ about, ''# TYPE '' @ name @ '' '' @ kind_text kind, name @ '' '' @ val]"

definition prometheus_metrics :: "health_metrics \<Rightarrow> (string \<times> string \<times> metric_kind \<times> string) list" where
  "prometheus_metrics h = (let b = hm_base h in
     [(''indexer_last_processed_ledger'', ''Last ledger processed by the indexer'', Gauge, show_int (im_last b)),
      (''indexer_current_stellar_ledger'', ''Current Stellar network ledger'', Gauge, show_int (im_latest b)),
      (''indexer_lag_in_ledgers'', ''Ledger lag behind the network'', Gauge, show_int (im_lag b)),
      (''indexer_events_processed_per_minute'', ''Events processed in the last minute'', Gauge,
        show_nat (hm_per_minute h)),
      (''indexer_failed_event_count'', ''Total failed contract events'', Gauge, show_nat (hm_failed h)),
      (''indexer_error_rate_percent'', ''Failed events as a percentage of total'', Gauge,
        show_num (Fin (hm_error_rate h))),
      (''indexer_is_running'', ''Whether the indexer poll is currently running'', Gauge,
        if im_running b then ''1'' else ''0''),
      (''indexer_uptime_seconds'', ''Indexer process uptime in seconds'', Counter, show_int (im_uptime b)),
      (''indexer_total_events_processed'', ''Total successfully processed events'', Counter,
        show_nat (im_processed b)),
      (''indexer_pending_events'', ''Pending events awaiting processing'', Gauge, show_nat (im_pending b)),
      (''indexer_dlq_events'', ''Events in the dead-letter queue'', Gauge, show_nat (im_dlq b))])"

definition get_prometheus_metrics :: "timestamp \<Rightarrow> indexer \<Rightarrow> string" where
  "get_prometheus_metrics t0 st =
     join_with [line_break] (concat (map (\<lambda>(n, a, k, v). metric_lines n a k v)
       (prometheus_metrics (build_metrics t0 st)))) @ [line_break]"

section \<open>Reconciliation status\<close>

record recon_report =
  rr_enabled :: bool
  rr_running :: bool
  rr_last_run :: "string option"
  rr_backfilled :: nat
  rr_lag :: int

definition get_recon_status :: "ix_config \<Rightarrow> recon_state \<Rightarrow> int \<Rightarrow> recon_report" where
  "get_recon_status cfg st lag =
     \<lparr>rr_enabled = recon_enabled cfg, rr_running = rc_running st,
      rr_last_run = map_option iso_time (rc_last_run st), rr_backfilled = rc_backfilled st, rr_lag = lag\<rparr>"

definition checkpoint_for_contract :: "string \<Rightarrow> event_db \<Rightarrow> chain_sync option" where
  "checkpoint_for_contract c s = by_id cs_contract c (chain_syncs s)"

definition reconciliation_status :: "ix_config \<Rightarrow> recon_state \<Rightarrow> recon_report" where
  "reconciliation_status cfg st =
     get_recon_status cfg st
       (case active_contract cfg of
          None \<Rightarrow> 0
        | Some c \<Rightarrow>
            (case checkpoint_for_contract c (rc_db st) of
               None \<Rightarrow> 0
             | Some cp \<Rightarrow> max 0 (chain_head_ledger cp - last_indexed_ledger cp)))"

section \<open>Health of the service\<close>

datatype part_status = PartUp | PartDown | PartDegraded

record detailed_health =
  dh_status :: string
  dh_database :: "part_status \<times> int"
  dh_soroban :: "part_status \<times> int"
  dh_cache :: "part_status \<times> rat"
  dh_uptime :: int

text \<open>A check that starts at \<open>t0\<close> and ends at \<open>t1\<close>.  The query of the database succeeds or not.\<close>

definition check_database :: "bool \<Rightarrow> timestamp \<Rightarrow> timestamp \<Rightarrow> part_status \<times> int" where
  "check_database answers t0 t1 = (if answers then PartUp else PartDown, t1 - t0)"

text \<open>The RPC server answers with success or with an error status, or not at all (within five seconds).\<close>

datatype rpc_answer = RpcSilent | RpcAnswer bool

definition check_soroban :: "rpc_answer \<Rightarrow> timestamp \<Rightarrow> timestamp \<Rightarrow> part_status \<times> int" where
  "check_soroban answer t0 t1 =
     (case answer of
        RpcAnswer ok \<Rightarrow> (if ok then PartUp else PartDegraded, t1 - t0)
      | RpcSilent \<Rightarrow> (PartDown, t1 - t0))"

definition cache_status :: "part_status \<times> rat" where
  "cache_status = (PartUp, 0)"

definition check_detailed ::
  "bool \<Rightarrow> rpc_answer \<Rightarrow> timestamp \<Rightarrow> timestamp \<Rightarrow> timestamp \<Rightarrow> timestamp \<Rightarrow> timestamp \<Rightarrow> detailed_health" where
  "check_detailed answers rpc started t0 t_db t_rpc t1 =
     (let database = check_database answers t0 t_db; soroban = check_soroban rpc t0 t_rpc in
      \<lparr>dh_status =
         (if fst database = PartDown then ''down''
          else if fst database = PartDegraded \<or> fst soroban = PartDegraded then ''degraded''
          else ''healthy''),
       dh_database = database, dh_soroban = soroban, dh_cache = cache_status,
       dh_uptime = (t1 - started) div 1000\<rparr>)"

definition check_ping :: "timestamp \<Rightarrow> (string \<times> jsval) list" where
  "check_ping t0 = [(''status'', JStr ''ok''), (''type'', JStr ''ping''), (''timestamp'', JStr (iso_time t0))]"

section \<open>Interceptors\<close>

datatype answer_data = FileStream string | Value jsval

definition no_body_status_codes :: "nat list" where
  "no_body_status_codes = [204, 304]"

definition envelope :: "timestamp \<Rightarrow> jsval \<Rightarrow> jsval" where
  "envelope t0 v = JObj [(''success'', JBool True), (''data'', v), (''timestamp'', JStr (iso_time t0))]"

definition respond :: "timestamp \<Rightarrow> nat \<Rightarrow> answer_data \<Rightarrow> answer_data" where
  "respond t0 status d =
     (case d of
        FileStream f \<Rightarrow> FileStream f
      | Value v \<Rightarrow> if status \<in> set no_body_status_codes then Value v else Value (envelope t0 v))"

definition get_action_type :: "string \<Rightarrow> string \<Rightarrow> string option" where
  "get_action_type meth path =
     (if has_substring ''/markets'' path \<and> meth = ''POST'' then Some ''MARKET_CREATED''
      else if has_substring ''/predictions'' path \<and> meth = ''POST'' then Some ''PREDICTION_MADE''
      else if has_substring ''/competitions'' path \<and> meth = ''POST'' then Some ''COMPETITION_CREATED''
      else if has_substring ''/admin/users'' path \<and> has_substring ''/ban'' path then Some ''USER_BANNED''
      else if has_substring ''/admin/users'' path \<and> has_substring ''/unban'' path then Some ''USER_UNBANNED''
      else if has_substring ''/admin/markets'' path \<and> has_substring ''/resolve'' path
        then Some ''MARKET_RESOLVED_BY_ADMIN''
      else None)"

definition sanitize_body :: "(string \<times> jsval) list option \<Rightarrow> (string \<times> jsval) list option" where
  "sanitize_body body = map_option (filter (\<lambda>(k, _). k \<noteq> ''password'')) body"

text \<open>What the interceptor hands to the activity log after a handler has succeeded.\<close>

definition logged_activity ::
  "uuid option \<Rightarrow> string \<Rightarrow> string \<Rightarrow> (string \<times> jsval) list option \<Rightarrow> string
     \<Rightarrow> (uuid \<times> string \<times> (string \<times> jsval) list option \<times> string) option" where
  "logged_activity requester meth path body ip =
     (case requester of
        None \<Rightarrow> None
      | Some u \<Rightarrow>
          if meth \<in> set [''POST'', ''PATCH'', ''DELETE'']
          then map_option (\<lambda>a. (u, a, sanitize_body body, ip)) (get_action_type meth path) else None)"

section \<open>The environment\<close>

record env_config =
  ec_database_url :: string
  ec_jwt_secret :: string
  ec_jwt_expires_in :: string
  ec_network :: string
  ec_contract_id :: string
  ec_server_secret :: string
  ec_port :: rat
  ec_webhook_attempts :: rat
  ec_webhook_timeout :: rat
  ec_webhook_batch :: rat
  ec_reconcile_enabled :: "string option"
  ec_reconcile_interval :: "rat option"
  ec_reconcile_window :: "rat option"
  ec_export_dir :: string
  ec_export_ttl_hours :: rat

text \<open>
  A numeric variable: its default when it is not set, None when its text is no finite number.
  A variable that is not set and has no default fails every check.
\<close>

definition number_var :: "(string \<Rightarrow> string option) \<Rightarrow> string \<Rightarrow> rat \<Rightarrow> rat option" where
  "number_var vars k d = (case vars k of None \<Rightarrow> Some d | Some v \<Rightarrow> finite_num (number_of_text v))"

definition filled :: "(string \<Rightarrow> string option) \<Rightarrow> string \<Rightarrow> bool" where
  "filled vars k \<longleftrightarrow> vars k \<noteq> None \<and> vars k \<noteq> Some []"

definition long_enough :: "nat \<Rightarrow> string option \<Rightarrow> bool" where
  "long_enough n v = (case v of None \<Rightarrow> False | Some s \<Rightarrow> n \<le> length s)"

definition optional_number :: "(string \<Rightarrow> string option) \<Rightarrow> string \<Rightarrow> bool" where
  "optional_number vars k = (case vars k of None \<Rightarrow> True | Some v \<Rightarrow> finite_num (number_of_text v) \<noteq> None)"

text \<open>The variables that fail their checks, in the order of the class.\<close>

definition failing_vars :: "(string \<Rightarrow> string option) \<Rightarrow> string list" where
  "failing_vars vars = map fst (filter (\<lambda>(k, ok). \<not> ok)
     [(''DATABASE_URL'', filled vars ''DATABASE_URL''),
      (''JWT_SECRET'', long_enough 32 (vars ''JWT_SECRET'')),
      (''JWT_EXPIRES_IN'', filled vars ''JWT_EXPIRES_IN''),
      (''STELLAR_NETWORK'', vars ''STELLAR_NETWORK'' \<in> {Some ''testnet'', Some ''mainnet''}),
      (''SOROBAN_CONTRACT_ID'', filled vars ''SOROBAN_CONTRACT_ID''),
      (''SERVER_SECRET_KEY'', filled vars ''SERVER_SECRET_KEY''),
      (''PORT'', number_var vars ''PORT'' 3000 \<noteq> None),
      (''WEBHOOK_MAX_ATTEMPTS'', number_var vars ''WEBHOOK_MAX_ATTEMPTS'' 5 \<noteq> None),
      (''WEBHOOK_TIMEOUT_MS'', number_var vars ''WEBHOOK_TIMEOUT_MS'' 5000 \<noteq> None),
      (''WEBHOOK_BATCH_SIZE'', number_var vars ''WEBHOOK_BATCH_SIZE'' 50 \<noteq> None),
      (''RECONCILE_INTERVAL_MS'', optional_number vars ''RECONCILE_INTERVAL_MS''),
      (''RECONCILE_WINDOW'', optional_number vars ''RECONCILE_WINDOW''),
      (''EXPORT_TTL_HOURS'', number_var vars ''EXPORT_TTL_HOURS'' 48 \<noteq> None)])"

definition value_or :: "'a \<Rightarrow> 'a option \<Rightarrow> 'a" where
  "value_or d v = (case v of None \<Rightarrow> d | Some x \<Rightarrow> x)"

definition validate_env :: "(string \<Rightarrow> string option) \<Rightarrow> string list + env_config" where
  "validate_env vars =
     (let read = (\<lambda>k. value_or [] (vars k)); num = (\<lambda>k d. value_or d (number_var vars k d));
          opt = (\<lambda>k. Option.bind (vars k) (\<lambda>v. finite_num (number_of_text v))) in
      if failing_vars vars \<noteq> [] then Inl (failing_vars vars)
      else Inr
        \<lparr>ec_database_url = read ''DATABASE_URL'', ec_jwt_secret = read ''JWT_SECRET'',
         ec_jwt_expires_in = read ''JWT_EXPIRES_IN'', ec_network = read ''STELLAR_NETWORK'',
         ec_contract_id = read ''SOROBAN_CONTRACT_ID'', ec_server_secret = read ''SERVER_SECRET_KEY'',
         ec_port = num ''PORT'' 3000, ec_webhook_attempts = num ''WEBHOOK_MAX_ATTEMPTS'' 5,
         ec_webhook_timeout = num ''WEBHOOK_TIMEOUT_MS'' 5000, ec_webhook_batch = num ''WEBHOOK_BATCH_SIZE'' 50,
         ec_reconcile_enabled = vars ''RECONCILE_ENABLED'',
         ec_reconcile_interval = opt ''RECONCILE_INTERVAL_MS'', ec_reconcile_window = opt ''RECONCILE_WINDOW'',
         ec_export_dir = (case vars ''EXPORT_DIR'' of None \<Rightarrow> ''./exports'' | Some d \<Rightarrow> d),
         ec_export_ttl_hours = num ''EXPORT_TTL_HOURS'' 48\<rparr>)"

text \<open>
  A started service has a signing key of at least 32 characters and one of the two networks; its
  numbers need not be positive.
\<close>

theorem started_service_is_configured:
  assumes "validate_env vars = Inr c"
  shows "32 \<le> length (ec_jwt_secret c) \<and> ec_network c \<in> {''testnet'', ''mainnet''} \<and>
    ec_database_url c \<noteq> [] \<and> ec_contract_id c \<noteq> [] \<and> ec_server_secret c \<noteq> [] \<and>
    (vars ''WEBHOOK_MAX_ATTEMPTS'' = None \<longrightarrow> ec_webhook_attempts c = 5)"
proof -
  from assms have ok: "failing_vars vars = []" by (auto simp: validate_env_def Let_def split: if_splits)
  then have "long_enough 32 (vars ''JWT_SECRET'')" "vars ''STELLAR_NETWORK'' \<in> {Some ''testnet'', Some ''mainnet''}"
    "filled vars ''DATABASE_URL''" "filled vars ''SOROBAN_CONTRACT_ID''" "filled vars ''SERVER_SECRET_KEY''"
    by (auto simp: failing_vars_def split: if_splits)
  moreover from assms ok have c: "ec_jwt_secret c = value_or [] (vars ''JWT_SECRET'')"
      "ec_network c = value_or [] (vars ''STELLAR_NETWORK'')"
      "ec_database_url c = value_or [] (vars ''DATABASE_URL'')"
      "ec_contract_id c = value_or [] (vars ''SOROBAN_CONTRACT_ID'')"
      "ec_server_secret c = value_or [] (vars ''SERVER_SECRET_KEY'')"
      "ec_webhook_attempts c = value_or 5 (number_var vars ''WEBHOOK_MAX_ATTEMPTS'' 5)"
    by (auto simp: validate_env_def Let_def)
  ultimately show ?thesis
    by (auto simp: long_enough_def filled_def number_var_def value_or_def finite_num.simps split: option.splits)
qed

section \<open>What the operators read\<close>

text \<open>The overall status does not say that the RPC server cannot be reached.\<close>

theorem detailed_status_cases:
  "dh_status (check_detailed answers rpc started t0 t_db t_rpc t1) =
     (if \<not> answers then ''down'' else if rpc = RpcAnswer False then ''degraded'' else ''healthy'')"
  by (auto simp: check_detailed_def check_database_def check_soroban_def Let_def split: rpc_answer.split)

text \<open>Every \<open>POST\<close> whose path mentions markets is logged as a new market, an admin's resolution too.\<close>

theorem posted_resolution_logged_as_creation:
  assumes "has_substring ''/markets'' path"
  shows "logged_activity (Some u) ''POST'' path body ip = Some (u, ''MARKET_CREATED'', sanitize_body body, ip)"
  using assms by (simp add: logged_activity_def get_action_type_def)

text \<open>A reader of the Prometheus text: comments and empty lines are skipped, the others hold a name and a value.\<close>

definition name_char :: "char \<Rightarrow> bool" where
  "name_char c \<longleftrightarrow> is_lower c \<or> c = CHR ''_''"

fun read_lines :: "string list \<Rightarrow> (string \<times> string) list option" where
  "read_lines [] = Some []"
| "read_lines (l # ls) =
     (if l = [] \<or> hd l = CHR ''#'' then read_lines ls
      else (case split_on CHR '' '' l of
          [n, v] \<Rightarrow> if n \<noteq> [] \<and> list_all name_char n then map_option (Cons (n, v)) (read_lines ls) else None
        | _ \<Rightarrow> None))"

definition read_exposition :: "string \<Rightarrow> (string \<times> string) list option" where
  "read_exposition s = read_lines (split_on line_break s)"

definition value_char :: "char \<Rightarrow> bool" where
  "value_char c \<longleftrightarrow> is_digit c \<or> c = CHR ''-'' \<or> c = CHR ''.''"

lemma value_char_digit: "list_all is_digit s \<Longrightarrow> list_all value_char s"
  by (auto simp: list_all_iff value_char_def)

lemma value_char_nat [simp]: "list_all value_char (show_nat n)"
  by (rule value_char_digit) (rule show_nat_digits)

lemma value_char_int [simp]: "list_all value_char (show_int i)"
  by (simp add: show_int_def value_char_def)

lemma value_char_fixed [simp]: "list_all value_char (to_fixed f x)"
proof -
  have "list_all value_char (pad_left f (show_nat n))" for n
    by (auto simp: pad_left_def list_all_iff value_char_def is_digit_def char_code_def
        dest!: value_char_nat [unfolded list_all_iff, rule_format])
  then show ?thesis by (simp add: to_fixed_def fixed_abs_def Let_def value_char_def)
qed

lemma value_char_num [simp]: "list_all value_char (show_num (Fin x))"
  by (simp add: show_num_def split: option.split)

lemma value_char_apart:
  assumes "list_all value_char s"
  shows "CHR '' '' \<notin> set s" and "line_break \<notin> set s"
  using assms by (auto simp: list_all_iff value_char_def is_digit_def char_code_def line_break_def)

lemma name_char_apart:
  assumes "list_all name_char s"
  shows "CHR '' '' \<notin> set s" and "line_break \<notin> set s" and "CHR ''#'' \<notin> set s"
  using assms by (auto simp: list_all_iff name_char_def is_lower_def char_code_def line_break_def)

definition metric_ok :: "string \<times> string \<times> metric_kind \<times> string \<Rightarrow> bool" where
  "metric_ok x = (case x of (n, a, k, v) \<Rightarrow>
     n \<noteq> [] \<and> list_all name_char n \<and> line_break \<notin> set a \<and> list_all value_char v)"

lemma read_metric_lines:
  "list_all metric_ok ms \<Longrightarrow>
   read_lines (concat (map (\<lambda>(n, a, k, v). metric_lines n a k v) ms) @ [[]]) =
     Some (map (\<lambda>(n, a, k, v). (n, v)) ms)"
proof (induction ms)
  case (Cons x ms)
  obtain n a k v where x: "x = (n, a, k, v)" by (metis prod_cases4)
  with Cons.prems have ok: "n \<noteq> []" "list_all name_char n" "list_all value_char v"
    by (simp_all add: metric_ok_def)
  then have "hd (n @ CHR '' '' # v) \<noteq> CHR ''#''" using name_char_apart(3) [OF ok(2)] by (cases n) auto
  moreover have "split_on CHR '' '' (n @ CHR '' '' # v) = [n, v]"
    by (simp add: split_on_append name_char_apart [OF ok(2)] split_on_none value_char_apart [OF ok(3)])
  ultimately show ?case using Cons ok by (simp add: x metric_lines_def)
qed simp

lemma metric_lines_one_line:
  assumes "list_all metric_ok ms"
    and "l \<in> set (concat (map (\<lambda>(n, a, k, v). metric_lines n a k v) ms))"
  shows "line_break \<notin> set l"
proof -
  obtain n a k v where x: "(n, a, k, v) \<in> set ms" "l \<in> set (metric_lines n a k v)" using assms(2) by auto
  with assms(1) have "list_all name_char n" "line_break \<notin> set a" "list_all value_char v"
    by (auto simp: list_all_iff metric_ok_def)
  moreover have "line_break \<notin> set (kind_text k)" by (cases k) (simp_all add: line_break_def)
  ultimately show ?thesis using x(2) name_char_apart(2) value_char_apart(2)
    by (auto simp: metric_lines_def line_break_def)
qed

lemma join_ending: "xs \<noteq> [] \<Longrightarrow> join_with sep xs @ sep = join_with sep (xs @ [[]])"
  by (induction sep xs rule: join_with.induct) auto

lemma prometheus_metrics_ok: "list_all metric_ok (prometheus_metrics h)"
  by (simp add: prometheus_metrics_def metric_ok_def Let_def name_char_def is_lower_def char_code_def line_break_def
      value_char_def is_digit_def)

text \<open>The text holds one sample for each metric, under its name, and a reader gets back its figure.\<close>

theorem prometheus_text_reads_back:
  "read_exposition (get_prometheus_metrics t0 st) =
     Some (map (\<lambda>(n, a, k, v). (n, v)) (prometheus_metrics (build_metrics t0 st)))"
proof -
  define ms where "ms = prometheus_metrics (build_metrics t0 st)"
  define ls where "ls = concat (map (\<lambda>(n, a, k, v). metric_lines n a k v) ms)"
  have ok: "list_all metric_ok ms" by (simp add: ms_def prometheus_metrics_ok)
  have "ls \<noteq> []" by (simp add: ls_def ms_def prometheus_metrics_def metric_lines_def Let_def)
  then have "get_prometheus_metrics t0 st = join_with [line_break] (ls @ [[]])"
    by (simp add: get_prometheus_metrics_def ms_def ls_def join_ending)
  moreover have "split_on line_break (join_with [line_break] (ls @ [[]])) = ls @ [[]]"
  proof (rule split_join)
    show "line_break \<notin> set x" if "x \<in> set (ls @ [[]])" for x
      using that metric_lines_one_line [OF ok, folded ls_def, of x] by auto
  qed simp
  ultimately show ?thesis
    using read_metric_lines [OF ok] by (simp add: read_exposition_def ls_def ms_def)
qed

text \<open>
  The answer that is sent is not that text: the global interceptor wraps it in a JSON object, which
  the reader refuses.
\<close>

theorem prometheus_answer_unreadable:
  "\<exists>v body. respond t1 200 (Value (JStr (get_prometheus_metrics t0 st))) = Value v \<and>
     json_text v = Some body \<and> read_exposition body = None"
proof -
  define v where "v = envelope t1 (JStr (get_prometheus_metrics t0 st))"
  have answer: "respond t1 200 (Value (JStr (get_prometheus_metrics t0 st))) = Value v"
    by (simp add: v_def respond_def no_body_status_codes_def)
  obtain rest where printed: "json_text v = Some (CHR ''{'' # rest)" by (simp add: v_def envelope_def)
  define body where "body = CHR ''{'' # rest"
  obtain l ls where lines: "split_on line_break rest = l # ls" by (cases "split_on line_break rest") auto
  have first: "split_on line_break body = (CHR ''{'' # l) # ls" using lines by (simp add: body_def line_break_def)
  have "\<not> name_char CHR ''{''" by (simp add: name_char_def is_lower_def char_code_def)
  moreover obtain w ws where words: "split_on CHR '' '' l = w # ws" by (cases "split_on CHR '' '' l") auto
  ultimately have "read_exposition body = None"
    by (simp add: read_exposition_def first words split: list.split)
  with answer printed show ?thesis by (auto simp: body_def)
qed

end

