(* ===== verification/FrontWallet.thy ===== *)
theory FrontWallet
  imports JsText
begin

text \<open>
  The wallet session of the client (\<open>frontend/src/context/WalletContext.tsx\<close>) and the dialog that
  starts it (\<open>component/ConnectWalletModal.tsx\<close>).  The wallet kit, which asks a browser extension for
  an address, answers in the events of the model; \<open>btoa\<close> is a parameter.  The markup is left out.
\<close>

section \<open>State\<close>

datatype modal_step = MsIdle | MsConnecting | MsSuccess | MsError

record wallet_option =
  wo_id :: string
  wo_name :: string
  wo_icon :: string
  wo_url :: string
  wo_available :: bool

record connect_modal =
  cm_step :: modal_step
  cm_wallets :: "wallet_option list"
  cm_error :: string
  cm_address :: string
  cm_faq :: bool

record wallet_session =
  ws_installed :: bool
  ws_address :: "string option"
  ws_token :: "string option"
  ws_user :: "string option"
  ws_auth_error :: "string option"
  ws_authenticating :: bool
  ws_modal_open :: bool
  ws_modal :: connect_modal
  ws_timers :: "string list"
  ws_route :: string

text \<open>\<open>ws_timers\<close> are the addresses whose redirect is due; \<open>ws_route\<close> is the page the router shows.\<close>

definition new_session :: "string \<Rightarrow> wallet_session" where
  "new_session route =
     \<lparr>ws_installed = False, ws_address = None, ws_token = None, ws_user = None, ws_auth_error = None,
      ws_authenticating = False, ws_modal_open = False,
      ws_modal = \<lparr>cm_step = MsIdle, cm_wallets = [], cm_error = [], cm_address = [], cm_faq = False\<rparr>,
      ws_timers = [], ws_route = route\<rparr>"

definition is_authenticated :: "wallet_session \<Rightarrow> bool" where
  "is_authenticated s \<longleftrightarrow> (case ws_address s of None \<Rightarrow> False | Some a \<Rightarrow> a \<noteq> [])"

section \<open>The context\<close>

definition detect_wallets :: "wallet_option list option \<Rightarrow> wallet_session \<Rightarrow> wallet_session" where
  "detect_wallets answer s =
     s\<lparr>ws_installed := (case answer of None \<Rightarrow> False | Some wallets \<Rightarrow> list_ex wo_available wallets)\<rparr>"

definition open_connect_modal :: "wallet_session \<Rightarrow> wallet_session" where
  "open_connect_modal s = s\<lparr>ws_auth_error := None, ws_modal_open := True\<rparr>"

definition close_connect_modal :: "wallet_session \<Rightarrow> wallet_session" where
  "close_connect_modal s = s\<lparr>ws_modal_open := False\<rparr>"

text \<open>The extension's answer to a signature request: an error, nothing, or a signature.\<close>

datatype sign_answer = SignThrows | SignNothing | Signed string

definition begin_authenticate :: "wallet_session \<Rightarrow> wallet_session" where
  "begin_authenticate s = s\<lparr>ws_authenticating := True, ws_auth_error := None\<rparr>"

definition authenticate ::
  "(string \<Rightarrow> string option) \<Rightarrow> string \<Rightarrow> sign_answer \<Rightarrow> wallet_session \<Rightarrow> bool \<times> wallet_session" where
  "authenticate btoa wallet answer s =
     (let failed = (False, s\<lparr>ws_auth_error := Some ''Authentication failed. Please try again.'',
                             ws_authenticating := False\<rparr>);
          unsigned = (False, s\<lparr>ws_auth_error := Some ''Authentication failed: signature was not provided.'',
                               ws_authenticating := False\<rparr>) in
      case answer of
        SignThrows \<Rightarrow> failed
      | SignNothing \<Rightarrow> unsigned
      | Signed sg \<Rightarrow>
          if sg = [] then unsigned
          else (case btoa sg of
              None \<Rightarrow> (False, s\<lparr>ws_address := Some wallet, ws_authenticating := False,
                                ws_auth_error := Some ''Authentication failed. Please try again.''\<rparr>)
            | Some b \<Rightarrow>
                (True, s\<lparr>ws_address := Some wallet, ws_token := Some (''mock_jwt_'' @ take 24 b),
                         ws_user := Some ''Alex'', ws_authenticating := False\<rparr>)))"

definition logout :: "wallet_session \<Rightarrow> wallet_session" where
  "logout s = s\<lparr>ws_address := None, ws_user := None, ws_token := None, ws_auth_error := None,
                ws_modal_open := False, ws_route := ''/''\<rparr>"

definition handle_modal_success :: "string \<Rightarrow> wallet_session \<Rightarrow> wallet_session" where
  "handle_modal_success a s =
     s\<lparr>ws_address := Some a, ws_token := Some (''wallet_'' @ a), ws_user := Some ''Alex'',
       ws_auth_error := None, ws_modal_open := False, ws_route := ''/dashboard''\<rparr>"

section \<open>The dialog\<close>

definition load_wallets :: "wallet_option list \<Rightarrow> wallet_session \<Rightarrow> wallet_session" where
  "load_wallets supported s = s\<lparr>ws_modal := (ws_modal s)\<lparr>cm_wallets := supported\<rparr>\<rparr>"

definition reset_modal :: "wallet_session \<Rightarrow> wallet_session" where
  "reset_modal s = s\<lparr>ws_modal := (ws_modal s)\<lparr>cm_step := MsIdle, cm_error := [], cm_address := []\<rparr>\<rparr>"

text \<open>The buttons that close the dialog are not shown once the wallet has answered with an address.\<close>

definition modal_close :: "wallet_session \<Rightarrow> wallet_session" where
  "modal_close s =
     (if ws_modal_open s \<and> cm_step (ws_modal s) \<noteq> MsSuccess then close_connect_modal (reset_modal s) else s)"

text \<open>The choice of a wallet, which is possible only for an available one.\<close>

definition select_wallet :: "string \<Rightarrow> wallet_session \<Rightarrow> wallet_session" where
  "select_wallet w s =
     (if list_ex (\<lambda>x. wo_id x = w \<and> wo_available x) (cm_wallets (ws_modal s)) \<and> cm_step (ws_modal s) = MsIdle
         \<and> ws_modal_open s
      then s\<lparr>ws_modal := (ws_modal s)\<lparr>cm_step := MsConnecting\<rparr>\<rparr> else s)"

definition user_refused :: "string \<Rightarrow> bool" where
  "user_refused msg \<longleftrightarrow>
     list_ex (has_substring (to_lower msg)) [''cancel'', ''reject'', ''user closed'', ''denied'']"

text \<open>The kit's answer: an address or the message of an error.\<close>

definition wallet_answer :: "string + string \<Rightarrow> wallet_session \<Rightarrow> wallet_session" where
  "wallet_answer r s =
     (case r of
        Inr a \<Rightarrow> s\<lparr>ws_modal := (ws_modal s)\<lparr>cm_address := a, cm_step := MsSuccess\<rparr>,
                  ws_timers := ws_timers s @ [a]\<rparr>
      | Inl msg \<Rightarrow>
          if user_refused msg then reset_modal s
          else s\<lparr>ws_modal := (ws_modal s)\<lparr>
                   cm_error := (if msg = [] then ''Connection failed. Please try again.'' else msg),
                   cm_step := MsError\<rparr>\<rparr>)"

text \<open>The timer of 1.2 seconds runs out for the \<open>i\<close>-th address.\<close>

definition redirect_due :: "nat \<Rightarrow> wallet_session \<Rightarrow> wallet_session" where
  "redirect_due i s =
     (if i < length (ws_timers s)
      then handle_modal_success (ws_timers s ! i)
             (s\<lparr>ws_timers := take i (ws_timers s) @ drop (Suc i) (ws_timers s)\<rparr>)
      else s)"

definition try_again :: "wallet_session \<Rightarrow> wallet_session" where
  "try_again s =
     (if cm_step (ws_modal s) = MsError
      then s\<lparr>ws_modal := (ws_modal s)\<lparr>cm_error := [], cm_step := MsIdle\<rparr>\<rparr> else s)"

text \<open>The answers of the first step, where the wallets are listed.\<close>

definition toggle_faq :: "wallet_session \<Rightarrow> wallet_session" where
  "toggle_faq s = s\<lparr>ws_modal := (ws_modal s)\<lparr>cm_faq := \<not> cm_faq (ws_modal s)\<rparr>\<rparr>"

section \<open>Sessions\<close>

datatype wallet_act =
    OpenModal | CloseModal | Detected "wallet_option list option" | Loaded "wallet_option list"
  | SelectWallet string | WalletAnswers "string + string" | RedirectDue nat | TryAgain | ToggleFaq
  | BeginAuthenticate | Authenticated string sign_answer | LogOut

fun wallet_step :: "(string \<Rightarrow> string option) \<Rightarrow> wallet_act \<Rightarrow> wallet_session \<Rightarrow> wallet_session" where
  "wallet_step btoa OpenModal s = open_connect_modal s"
| "wallet_step btoa CloseModal s = modal_close s"
| "wallet_step btoa (Detected r) s = detect_wallets r s"
| "wallet_step btoa (Loaded ws) s = load_wallets ws s"
| "wallet_step btoa (SelectWallet w) s = select_wallet w s"
| "wallet_step btoa (WalletAnswers r) s = wallet_answer r s"
| "wallet_step btoa (RedirectDue i) s = redirect_due i s"
| "wallet_step btoa TryAgain s = try_again s"
| "wallet_step btoa ToggleFaq s = toggle_faq s"
| "wallet_step btoa BeginAuthenticate s = begin_authenticate s"
| "wallet_step btoa (Authenticated w r) s = snd (authenticate btoa w r s)"
| "wallet_step btoa LogOut s = logout s"

definition wallet_run :: "(string \<Rightarrow> string option) \<Rightarrow> wallet_act list \<Rightarrow> wallet_session \<Rightarrow> wallet_session" where
  "wallet_run btoa acts s = fold (wallet_step btoa) acts s"

text \<open>The addresses that the kit or a signed request has named.\<close>

fun act_addresses :: "wallet_act \<Rightarrow> string list" where
  "act_addresses (WalletAnswers (Inr a)) = [a]"
| "act_addresses (Authenticated w (Signed sg)) = [w]"
| "act_addresses _ = []"

definition session_ok :: "string set \<Rightarrow> wallet_session \<Rightarrow> bool" where
  "session_ok named s \<longleftrightarrow>
     set (ws_timers s) \<subseteq> named \<and> (\<forall>a. ws_address s = Some a \<longrightarrow> a \<in> named) \<and>
     (ws_address s = None \<longrightarrow> ws_token s = None \<and> ws_user s = None)"

lemmas wallet_op_defs = open_connect_modal_def close_connect_modal_def detect_wallets_def load_wallets_def
  modal_close_def reset_modal_def select_wallet_def try_again_def toggle_faq_def begin_authenticate_def
  logout_def handle_modal_success_def

lemma wallet_step_ok:
  assumes "session_ok named s"
  shows "session_ok (named \<union> set (act_addresses a)) (wallet_step btoa a s)"
proof (cases a)
  case (WalletAnswers r)
  then show ?thesis using assms
    by (cases r) (auto simp: session_ok_def wallet_answer_def reset_modal_def)
next
  case (RedirectDue i)
  have "set (take i (ws_timers s) @ drop (Suc i) (ws_timers s)) \<subseteq> set (ws_timers s)"
    by (auto dest: in_set_takeD in_set_dropD)
  moreover have "i < length (ws_timers s) \<Longrightarrow> ws_timers s ! i \<in> set (ws_timers s)" by simp
  ultimately show ?thesis using assms RedirectDue
    by (auto simp: session_ok_def redirect_due_def handle_modal_success_def)
next
  case (Authenticated w r)
  then show ?thesis using assms
    by (cases r) (auto simp: session_ok_def authenticate_def Let_def split: option.splits)
qed (use assms in \<open>auto simp: session_ok_def wallet_op_defs\<close>)

lemma session_ok_mono: "session_ok named s \<Longrightarrow> named \<subseteq> named' \<Longrightarrow> session_ok named' s"
  by (auto simp: session_ok_def)

lemma wallet_run_ok:
  "session_ok named s \<Longrightarrow>
   session_ok (named \<union> set (concat (map act_addresses acts))) (wallet_run btoa acts s)"
proof (induction acts arbitrary: named s)
  case (Cons a acts)
  from Cons.IH [OF wallet_step_ok [OF Cons.prems, of a btoa]] show ?case
    by (simp add: wallet_run_def Un_assoc)
qed (simp add: wallet_run_def)

text \<open>
  In every session, whatever the order of clicks, answers and timers: the address shown was named by
  the wallet, and without an address there is no token and no user name.
\<close>

theorem wallet_session_consistent:
  "let s = wallet_run btoa acts (new_session route) in
   (\<forall>a. ws_address s = Some a \<longrightarrow> a \<in> set (concat (map act_addresses acts))) \<and>
   (ws_address s = None \<longrightarrow> ws_token s = None \<and> ws_user s = None \<and> \<not> is_authenticated s)"
proof -
  have "session_ok {} (new_session route)" by (simp add: session_ok_def new_session_def)
  from wallet_run_ok [OF this, of acts btoa] show ?thesis
    by (auto simp: session_ok_def is_authenticated_def Let_def)
qed

text \<open>
  Being authenticated does not need the server, nor a signature; and a connection that the user has
  cancelled while the extension was asked still signs in once the extension answers.
\<close>

definition may_select :: "string \<Rightarrow> wallet_session \<Rightarrow> bool" where
  "may_select w s \<longleftrightarrow> ws_modal_open s \<and> cm_step (ws_modal s) = MsIdle \<and>
     list_ex (\<lambda>x. wo_id x = w \<and> wo_available x) (cm_wallets (ws_modal s))"

theorem cancelled_connection_still_signs_in:
  assumes "may_select w s" and "a \<noteq> []" and "ws_timers s = []"
  shows "let s' = wallet_run btoa [SelectWallet w, CloseModal, WalletAnswers (Inr a), RedirectDue 0] s in
    is_authenticated s' \<and> ws_address s' = Some a \<and> ws_token s' = Some (''wallet_'' @ a) \<and>
    ws_route s' = ''/dashboard''"
  using assms
  by (simp add: may_select_def wallet_run_def wallet_answer_def redirect_due_def is_authenticated_def Let_def
      wallet_op_defs)

fun dialog_act :: "wallet_act \<Rightarrow> bool" where
  "dialog_act OpenModal = True" | "dialog_act CloseModal = True" | "dialog_act (Detected _) = True"
| "dialog_act (Loaded _) = True" | "dialog_act (SelectWallet _) = True" | "dialog_act TryAgain = True"
| "dialog_act ToggleFaq = True" | "dialog_act _ = False"

definition stuck_dialog :: "wallet_session \<Rightarrow> bool" where
  "stuck_dialog s \<longleftrightarrow> ws_modal_open s \<and> cm_step (ws_modal s) = MsSuccess \<and> ws_address s = None"

lemma stuck_dialog_step: "stuck_dialog s \<Longrightarrow> dialog_act a \<Longrightarrow> stuck_dialog (wallet_step btoa a s)"
  by (cases a) (auto simp: stuck_dialog_def wallet_op_defs)

lemma stuck_dialog_run:
  "stuck_dialog s \<Longrightarrow> list_all dialog_act acts \<Longrightarrow> stuck_dialog (wallet_run btoa acts s)"
  by (induction acts arbitrary: s) (simp_all add: wallet_run_def stuck_dialog_step)

text \<open>
  C39: The dialog keeps its last step.  After a connection and a log-out it opens on the message of
  success, without a button, and nothing the user does in it leads to another session.
\<close>

theorem reconnecting_is_stuck:
  assumes "list_all dialog_act acts" and "ws_timers s = []"
  shows "let s' = wallet_run btoa ([WalletAnswers (Inr a), RedirectDue 0, LogOut, OpenModal] @ acts) s in
    \<not> is_authenticated s' \<and> ws_modal_open s' \<and> cm_step (ws_modal s') = MsSuccess"
proof -
  define s1 where "s1 = wallet_run btoa [WalletAnswers (Inr a), RedirectDue 0, LogOut, OpenModal] s"
  have "stuck_dialog s1" using assms(2)
    by (simp add: s1_def stuck_dialog_def wallet_run_def wallet_answer_def redirect_due_def wallet_op_defs)
  from stuck_dialog_run [OF this assms(1), of btoa]
  show ?thesis by (simp add: s1_def wallet_run_def stuck_dialog_def is_authenticated_def Let_def)
qed

section \<open>An example\<close>

definition sample_dialog :: wallet_session where
  "sample_dialog = wallet_run Some
     [OpenModal, Loaded [\<lparr>wo_id = ''freighter'', wo_name = ''Freighter'', wo_icon = [], wo_url = [],
        wo_available = True\<rparr>]] (new_session ''/'')"

lemma sample_dialog_ready: "may_select ''freighter'' sample_dialog" "ws_timers sample_dialog = []"
  by (simp_all add: sample_dialog_def may_select_def wallet_run_def wallet_op_defs new_session_def)

lemma cancelled_connection_still_signs_in_witness:
  "ws_address (wallet_run Some
     [SelectWallet ''freighter'', CloseModal, WalletAnswers (Inr ''GALICE''), RedirectDue 0] sample_dialog) =
   Some ''GALICE''"
  using cancelled_connection_still_signs_in [OF sample_dialog_ready(1) _ sample_dialog_ready(2), of "''GALICE''" Some]
  by (simp add: Let_def)

lemma reconnecting_is_stuck_witness:
  "cm_step (ws_modal (wallet_run Some
     ([WalletAnswers (Inr ''GALICE''), RedirectDue 0, LogOut, OpenModal] @ [CloseModal, SelectWallet ''freighter''])
     sample_dialog)) = MsSuccess"
  using reconnecting_is_stuck [OF _ sample_dialog_ready(2), of "[CloseModal, SelectWallet ''freighter'']" Some "''GALICE''"]
  by (simp add: Let_def)

end
