(* ===== verification/FrontOracle.thy ===== *)
theory FrontOracle
  imports FrontUploads FrontForms
begin

text \<open>
  The oracle's page of the client (\<open>frontend/src/app/(oracle)/oracle/creator-events/page.tsx\<close>): the list
  of matches that wait for a result (\<open>component/oracle/PendingMatchesList.tsx\<close>), the form for one result
  (\<open>SubmitResultForm.tsx\<close>) and the batch of a CSV file, whose form is in \<open>FrontUploads\<close>.  The page keeps
  its matches in its own state; nothing is sent to a server.
\<close>

section \<open>Pending matches\<close>

record waiting_match =
  pd_match :: string
  pd_chain_match :: string
  pd_team_a :: string
  pd_team_b :: string
  pd_time :: timestamp
  pd_predictions :: nat
  pd_event :: string
  pd_event_title :: string
  pd_waiting :: nat

definition event_all :: string where
  "event_all = ''__all__''"

definition format_time_since :: "nat \<Rightarrow> string" where
  "format_time_since seconds =
     (if seconds < 60 then show_nat seconds @ ''s ago''
      else if seconds < 3600 then show_nat (seconds div 60) @ ''m ago''
      else show_nat (seconds div 3600) @ ''h '' @ show_nat (seconds mod 3600 div 60) @ ''m ago'')"

datatype time_order = OldestFirst | NewestFirst

text \<open>The events named in the filter: a \<open>Map\<close> keeps the place of the first entry and the title of the last.\<close>

definition unique_events :: "waiting_match list \<Rightarrow> (string \<times> string) list" where
  "unique_events ms = fold (\<lambda>m. save_row fst (pd_event m, pd_event_title m)) ms []"

definition shown_pending :: "string \<Rightarrow> time_order \<Rightarrow> waiting_match list \<Rightarrow> waiting_match list" where
  "shown_pending choice ord ms =
     sort_desc (\<lambda>m. if ord = OldestFirst then - pd_time m else pd_time m)
       (filter (\<lambda>m. choice = event_all \<or> pd_event m = choice) ms)"

section \<open>The page\<close>

record submitted_result =
  sr_match :: string
  sr_team_a :: string
  sr_team_b :: string
  sr_outcome :: result_outcome
  sr_at :: timestamp
  sr_tx :: string

datatype oracle_tab = TabPending | TabBatch | TabRecent

record oracle_page =
  op_pending :: "waiting_match list"
  op_recent :: "submitted_result list"
  op_active :: "waiting_match option"
  op_selected :: "string list"
  op_batch_mode :: bool
  op_tab :: oracle_tab

definition mock_pending :: "timestamp \<Rightarrow> waiting_match list" where
  "mock_pending t0 =
     [\<lparr>pd_match = ''match-001'', pd_chain_match = ''1'', pd_team_a = ''Team Alpha'', pd_team_b = ''Team Beta'',
       pd_time = t0 - 7200 * 1000, pd_predictions = 42, pd_event = ''event-001'',
       pd_event_title = ''Apollo Tournament'', pd_waiting = 7200\<rparr>,
      \<lparr>pd_match = ''match-002'', pd_chain_match = ''2'', pd_team_a = ''Team Gamma'', pd_team_b = ''Team Delta'',
       pd_time = t0 - 3600 * 1000, pd_predictions = 18, pd_event = ''event-001'',
       pd_event_title = ''Apollo Tournament'', pd_waiting = 3600\<rparr>,
      \<lparr>pd_match = ''match-003'', pd_chain_match = ''3'', pd_team_a = ''FC Barcelona'', pd_team_b = ''Real Madrid'',
       pd_time = t0 - 10800 * 1000, pd_predictions = 127, pd_event = ''event-002'',
       pd_event_title = ''Rising Stars Invite'', pd_waiting = 10800\<rparr>]"

definition mock_recent :: "timestamp \<Rightarrow> submitted_result list" where
  "mock_recent t0 =
     [\<lparr>sr_match = ''match-000'', sr_team_a = ''Team X'', sr_team_b = ''Team Y'', sr_outcome = TeamAWon,
       sr_at = t0 - 86400 * 1000, sr_tx = ''abc123def456''\<rparr>]"

definition new_oracle_page :: "timestamp \<Rightarrow> oracle_page" where
  "new_oracle_page t0 =
     \<lparr>op_pending = mock_pending t0, op_recent = mock_recent t0, op_active = None, op_selected = [],
      op_batch_mode = False, op_tab = TabPending\<rparr>"

text \<open>\<open>local_day\<close> is the calendar day of a time where the browser runs.\<close>

definition today_count :: "(timestamp \<Rightarrow> int) \<Rightarrow> timestamp \<Rightarrow> oracle_page \<Rightarrow> nat" where
  "today_count local_day t0 p = length (filter (\<lambda>r. local_day (sr_at r) = local_day t0) (op_recent p))"

definition avg_submission_time :: "oracle_page \<Rightarrow> int" where
  "avg_submission_time p =
     (if length (op_pending p) > 0
      then math_round (of_nat (sum_list (map pd_waiting (op_pending p))) / of_nat (length (op_pending p)) / 60)
      else 0)"

fun show_hex :: "nat \<Rightarrow> string" where
  "show_hex n = (if n < 16 then [digit_char n] else show_hex (n div 16) @ [digit_char (n mod 16)])"

definition tx_of_time :: "timestamp \<Rightarrow> string" where
  "tx_of_time t0 = ''tx'' @ show_hex (nat t0)"

definition find_pending :: "string \<Rightarrow> waiting_match list \<Rightarrow> waiting_match option" where
  "find_pending k ms = find_one (\<lambda>m. pd_match m = k) ms"

text \<open>
  A submission waits before it writes: \<open>seen\<close> are the pending matches of the render it started in,
  the page is that of the moment.
\<close>

definition handle_submit_result ::
  "waiting_match list \<Rightarrow> timestamp \<Rightarrow> string \<Rightarrow> result_outcome \<Rightarrow> oracle_page \<Rightarrow> string \<times> oracle_page" where
  "handle_submit_result seen t0 k outcome p =
     (let tx = tx_of_time t0 in
      case find_pending k seen of
        None \<Rightarrow> (tx, p)
      | Some m \<Rightarrow>
          (tx, p\<lparr>op_recent :=
                   \<lparr>sr_match = k, sr_team_a = pd_team_a m, sr_team_b = pd_team_b m, sr_outcome = outcome,
                    sr_at = t0, sr_tx = tx\<rparr> # op_recent p,
                 op_pending := filter (\<lambda>x. pd_match x \<noteq> k) (op_pending p)\<rparr>))"

definition batch_result :: "waiting_match list \<Rightarrow> timestamp \<Rightarrow> string \<times> result_outcome \<Rightarrow> submitted_result" where
  "batch_result seen t0 r =
     (let m = find_pending (fst r) seen in
      \<lparr>sr_match = fst r,
       sr_team_a = (case m of None \<Rightarrow> ''Unknown'' | Some x \<Rightarrow> pd_team_a x),
       sr_team_b = (case m of None \<Rightarrow> ''Unknown'' | Some x \<Rightarrow> pd_team_b x),
       sr_outcome = snd r, sr_at = t0, sr_tx = tx_of_time t0 @ ''-'' @ fst r\<rparr>)"

definition handle_batch_submit ::
  "waiting_match list \<Rightarrow> timestamp \<Rightarrow> (string \<times> result_outcome) list \<Rightarrow> oracle_page \<Rightarrow> oracle_page" where
  "handle_batch_submit seen t0 results p =
     p\<lparr>op_recent := map (batch_result seen t0) results @ op_recent p,
       op_pending := filter (\<lambda>m. \<not> list_ex (\<lambda>r. fst r = pd_match m) results) (op_pending p),
       op_selected := []\<rparr>"

definition toggle_select :: "string \<Rightarrow> oracle_page \<Rightarrow> oracle_page" where
  "toggle_select k p =
     p\<lparr>op_selected := (if k \<in> set (op_selected p) then removeAll k (op_selected p) else op_selected p @ [k])\<rparr>"

section \<open>The form for one result\<close>

record result_form =
  rf_match :: waiting_match
  rf_outcome :: "result_outcome option"
  rf_confidence :: string
  rf_source :: string
  rf_submitting :: bool
  rf_error :: "string option"
  rf_tx :: "string option"

definition open_result_form :: "waiting_match \<Rightarrow> result_form" where
  "open_result_form m =
     \<lparr>rf_match = m, rf_outcome = None, rf_confidence = [], rf_source = [], rf_submitting = False,
      rf_error = None, rf_tx = None\<rparr>"

text \<open>The submission up to its call, and its end with the hash or the message of the error.\<close>

definition begin_result ::
  "result_form \<Rightarrow> (string \<times> result_outcome \<times> jsnum option \<times> string option) option \<times> result_form" where
  "begin_result f =
     (case rf_outcome f of
        None \<Rightarrow> (None, f\<lparr>rf_error := Some ''Please select an outcome.''\<rparr>)
      | Some oc \<Rightarrow>
          (Some (pd_match (rf_match f), oc,
                 if rf_confidence f = [] then None else Some (parse_float (rf_confidence f)),
                 nonempty (Some (rf_source f))),
           f\<lparr>rf_submitting := True, rf_error := None\<rparr>))"

definition end_result :: "string + string \<Rightarrow> result_form \<Rightarrow> result_form" where
  "end_result r f =
     (case r of
        Inr tx \<Rightarrow> f\<lparr>rf_tx := Some tx, rf_submitting := False\<rparr>
      | Inl msg \<Rightarrow> f\<lparr>rf_error := Some msg, rf_submitting := False\<rparr>)"

section \<open>What the page does with its matches\<close>

datatype oracle_act =
    OpenForm waiting_match | CloseForm
  | SubmitResult "waiting_match list" timestamp string result_outcome
  | BatchSubmit "waiting_match list" timestamp "(string \<times> result_outcome) list"
  | ToggleSelect string | SwitchBatchMode | SelectTab oracle_tab

fun oracle_step :: "oracle_act \<Rightarrow> oracle_page \<Rightarrow> oracle_page" where
  "oracle_step (OpenForm m) p = p\<lparr>op_active := Some m\<rparr>"
| "oracle_step CloseForm p = p\<lparr>op_active := None\<rparr>"
| "oracle_step (SubmitResult seen t0 k outcome) p = snd (handle_submit_result seen t0 k outcome p)"
| "oracle_step (BatchSubmit seen t0 results) p = handle_batch_submit seen t0 results p"
| "oracle_step (ToggleSelect k) p = toggle_select k p"
| "oracle_step SwitchBatchMode p = p\<lparr>op_batch_mode := \<not> op_batch_mode p\<rparr>"
| "oracle_step (SelectTab tab) p = p\<lparr>op_tab := tab\<rparr>"

definition oracle_page_run :: "oracle_act list \<Rightarrow> oracle_page \<Rightarrow> oracle_page" where
  "oracle_page_run acts p = fold oracle_step acts p"

definition waiting_ids :: "oracle_page \<Rightarrow> string set" where
  "waiting_ids p = pd_match ` set (op_pending p)"

definition settled_ids :: "oracle_page \<Rightarrow> string set" where
  "settled_ids p = sr_match ` set (op_recent p)"

definition oracle_page_ok :: "string set \<Rightarrow> oracle_page \<Rightarrow> bool" where
  "oracle_page_ok all p \<longleftrightarrow>
     distinct (map pd_match (op_pending p)) \<and> waiting_ids p \<inter> settled_ids p = {} \<and>
     all \<subseteq> waiting_ids p \<union> settled_ids p"

lemma batch_result_match [simp]: "sr_match (batch_result seen t0 r) = fst r"
  by (simp add: batch_result_def Let_def)

lemma distinct_map_filter_pending: "distinct (map pd_match ms) \<Longrightarrow> distinct (map pd_match (filter P ms))"
  by (induction ms) auto

lemma oracle_step_ok:
  assumes "oracle_page_ok all p"
  shows "oracle_page_ok all (oracle_step a p)"
proof (cases a)
  case (SubmitResult seen t0 k outcome)
  show ?thesis
  proof (cases "find_pending k seen")
    case None
    with assms SubmitResult show ?thesis by (simp add: handle_submit_result_def Let_def)
  next
    case (Some m)
    define p' where "p' = oracle_step a p"
    have "op_pending p' = filter (\<lambda>x. pd_match x \<noteq> k) (op_pending p)"
      "settled_ids p' = insert k (settled_ids p)"
      using Some by (simp_all add: p'_def SubmitResult handle_submit_result_def settled_ids_def Let_def)
    with assms have "oracle_page_ok all p'"
      by (auto simp: oracle_page_ok_def waiting_ids_def distinct_map_filter_pending)
    then show ?thesis by (simp add: p'_def)
  qed
next
  case (BatchSubmit seen t0 results)
  define p' where "p' = oracle_step a p"
  have "op_pending p' = filter (\<lambda>m. pd_match m \<notin> fst ` set results) (op_pending p)"
    by (force simp: p'_def BatchSubmit handle_batch_submit_def list_ex_iff intro!: filter_cong)
  moreover have "settled_ids p' = fst ` set results \<union> settled_ids p"
    by (simp add: p'_def BatchSubmit handle_batch_submit_def settled_ids_def image_Un image_image)
  ultimately have "oracle_page_ok all p'"
    using assms by (auto simp: oracle_page_ok_def waiting_ids_def distinct_map_filter_pending)
  then show ?thesis by (simp add: p'_def)
qed (use assms in \<open>auto simp: oracle_page_ok_def waiting_ids_def settled_ids_def toggle_select_def\<close>)

text \<open>
  Whatever the oracle does on the page: no match is lost, none waits twice, and none waits that has
  a recorded result.
\<close>

theorem oracle_page_loses_no_match:
  assumes "distinct (map pd_match (op_pending p))" and "waiting_ids p \<inter> settled_ids p = {}"
  shows "let p' = oracle_page_run acts p in
    distinct (map pd_match (op_pending p')) \<and> waiting_ids p' \<inter> settled_ids p' = {} \<and>
    waiting_ids p \<subseteq> waiting_ids p' \<union> settled_ids p'"
proof -
  have "oracle_page_ok (waiting_ids p) q \<Longrightarrow> oracle_page_ok (waiting_ids p) (oracle_page_run acts q)" for q
    by (induction acts arbitrary: q) (simp_all add: oracle_page_run_def oracle_step_ok)
  moreover have "oracle_page_ok (waiting_ids p) p" using assms by (simp add: oracle_page_ok_def)
  ultimately show ?thesis by (simp add: oracle_page_ok_def Let_def)
qed

lemma oracle_page_loses_no_match_witness:
  "waiting_ids (new_oracle_page 0) \<inter> settled_ids (new_oracle_page 0) = {} \<and>
   waiting_ids (new_oracle_page 0) \<subseteq>
     waiting_ids (oracle_page_run [BatchSubmit [] 5 [(''match-001'', Drawn)]] (new_oracle_page 0)) \<union>
     settled_ids (oracle_page_run [BatchSubmit [] 5 [(''match-001'', Drawn)]] (new_oracle_page 0))"
proof -
  have "distinct (map pd_match (op_pending (new_oracle_page 0)))"
    "waiting_ids (new_oracle_page 0) \<inter> settled_ids (new_oracle_page 0) = {}"
    by (simp_all add: new_oracle_page_def mock_pending_def mock_recent_def waiting_ids_def settled_ids_def)
  from oracle_page_loses_no_match [OF this, of "[BatchSubmit [] 5 [(''match-001'', Drawn)]]"] this
  show ?thesis by (simp add: Let_def)
qed

text \<open>
  A result for a match that does not wait: alone it changes nothing, yet the form shows a
  transaction; in a batch it is listed as recorded, between unknown teams.
\<close>

theorem unknown_match_looks_recorded:
  assumes "find_pending k seen = None"
  shows "snd (handle_submit_result seen t0 k outcome p) = p \<and>
    rf_tx (end_result (Inr (fst (handle_submit_result seen t0 k outcome p))) f) = Some (tx_of_time t0) \<and>
    (\<exists>r. op_recent (handle_batch_submit seen t0 [(k, outcome)] p) = r # op_recent p \<and>
       sr_match r = k \<and> sr_team_a r = ''Unknown'' \<and> sr_team_b r = ''Unknown'')"
  using assms
  by (simp add: handle_submit_result_def handle_batch_submit_def end_result_def batch_result_def Let_def)

lemma unknown_match_looks_recorded_witness:
  "snd (handle_submit_result (mock_pending 0) 5 ''match-009'' Drawn (new_oracle_page 0)) = new_oracle_page 0"
proof -
  have "find_pending ''match-009'' (mock_pending 0) = None" by (simp add: find_pending_def mock_pending_def)
  from unknown_match_looks_recorded [OF this] show ?thesis by simp
qed

text \<open>A file that names a match twice records two results for it, even contradicting ones.\<close>

theorem batch_records_contradictions:
  "map (\<lambda>r. (sr_match r, sr_outcome r))
     (take 2 (op_recent (handle_batch_submit seen t0 [(k, TeamAWon), (k, TeamBWon)] p))) =
   [(k, TeamAWon), (k, TeamBWon)]"
  by (simp add: handle_batch_submit_def batch_result_def Let_def)

text \<open>The list shows the matches of the chosen event, each once, in the order of their times.\<close>

theorem pending_list_complete:
  "mset (shown_pending choice ord ms) = mset (filter (\<lambda>m. choice = event_all \<or> pd_event m = choice) ms) \<and>
   sorted_wrt (\<lambda>a b. if ord = OldestFirst then pd_time a \<le> pd_time b else pd_time b \<le> pd_time a)
     (shown_pending choice ord ms)"
proof -
  let ?key = "\<lambda>m. if ord = OldestFirst then - pd_time m else pd_time m"
  have "sorted_wrt (\<lambda>a b. ?key b \<le> ?key a) (shown_pending choice ord ms)"
    unfolding shown_pending_def by (rule sorted_sort_desc)
  then show ?thesis by (auto simp: shown_pending_def mset_sort_desc elim!: sorted_wrt_mono_rel [rotated])
qed

end
