(* ===== verification/FrontPages.thy ===== *)
theory FrontPages
  imports Monitoring FrontUploads
begin

text \<open>
  Pages of the client with a state of their own: the list of markets (\<open>frontend/src/app/markets/page.tsx\<close>),
  one market (\<open>app/markets/[id]/page.tsx\<close>), the public leaderboard (\<open>app/leaderboard/page.tsx\<close>) and the
  competitions (\<open>app/(authenticated)/competitions/page.tsx\<close>).  The markup is left out.
\<close>

section \<open>The list of markets\<close>

record page_market =
  pk_id :: string
  pk_title :: string
  pk_category :: string
  pk_probability :: rat
  pk_staked :: rat
  pk_close_at :: timestamp
  pk_status :: string

definition ms_per_day :: rat where
  "ms_per_day = 24 * 60 * 60 * 1000"

text \<open>\<open>new Date(now + days).toISOString()\<close>, whose milliseconds are whole.\<close>

definition days_from_now :: "timestamp \<Rightarrow> rat \<Rightarrow> timestamp" where
  "days_from_now t0 days = \<lfloor>of_int t0 + days * ms_per_day\<rfloor>"

definition sample_page_market ::
  "timestamp \<Rightarrow> string \<Rightarrow> string \<Rightarrow> string \<Rightarrow> rat \<Rightarrow> rat \<Rightarrow> rat \<Rightarrow> string \<Rightarrow> page_market" where
  "sample_page_market t0 k title category probability staked days status =
     \<lparr>pk_id = k, pk_title = title, pk_category = category, pk_probability = probability, pk_staked = staked,
      pk_close_at = days_from_now t0 days, pk_status = status\<rparr>"

definition mock_page_markets :: "timestamp \<Rightarrow> page_market list" where
  "mock_page_markets t0 = (let m = sample_page_market t0 in
     [m ''1'' ''Will BTC close above $70,000 on Dec 31?'' ''Crypto'' (62 / 100) 48200 (65 / 10) ''active'',
      m ''2'' ''Real Madrid to win La Liga this season'' ''Sports'' (74 / 100) 22700 (421 / 10) ''active'',
      m ''3'' ''US Fed to cut rates in the next FOMC'' ''Politics'' (41 / 100) 31400 (188 / 10) ''active'',
      m ''4'' ''XLM to trade above $0.20 in Q1'' ''Crypto'' (55 / 100) 17900 (272 / 10) ''active'',
      m ''5'' ''Manchester City to reach the Champions League final'' ''Sports'' (33 / 100) 14100 (635 / 10) ''active'',
      m ''6'' ''Oppenheimer to win Best Picture'' ''Culture'' (81 / 100) 9300 (82 / 10) ''active'',
      m ''7'' ''Will inflation drop below 3% this year?'' ''Economics'' (28 / 100) 18000 60 ''upcoming'',
      m ''8'' ''Novak Djokovic to win Wimbledon'' ''Sports'' (48 / 100) 26400 (356 / 10) ''active'',
      m ''9'' ''ETH to break $5,000 by end of quarter'' ''Crypto'' (36 / 100) 21800 (191 / 10) ''active'',
      m ''10'' ''New Stellar validator activation this month'' ''Crypto'' (72 / 100) 7600 (119 / 10) ''active'',
      m ''11'' ''Argentina to reach Copa America final'' ''Sports'' (58 / 100) 13800 (481 / 10) ''upcoming'',
      m ''12'' ''SpaceX Starship to reach orbit successfully'' ''Science'' (67 / 100) 15200 (225 / 10) ''active''])"

datatype market_order = MostStaked | ClosingSoon | Newest

record markets_page =
  mp_markets :: "page_market list"
  mp_page :: nat
  mp_search :: string
  mp_category :: string
  mp_status :: string
  mp_order :: market_order
  mp_loading :: bool

definition new_markets_page :: markets_page where
  "new_markets_page =
     \<lparr>mp_markets = [], mp_page = 1, mp_search = [], mp_category = ''All'', mp_status = ''All'',
      mp_order = MostStaked, mp_loading = False\<rparr>"

text \<open>
  What the request ends in: no answer, an answer with an error status, an answer that is not JSON,
  or a value.  \<open>as_market\<close> is how the page reads an element of an array.
\<close>

datatype page_reply = NoReply | ErrorReply nat | Unparsable | JsonReply jsval

definition load_page_markets ::
  "(jsval \<Rightarrow> page_market) \<Rightarrow> timestamp \<Rightarrow> page_reply \<Rightarrow> markets_page \<Rightarrow> markets_page" where
  "load_page_markets as_market t0 reply p =
     p\<lparr>mp_markets :=
         (case reply of
            JsonReply (JArr xs) \<Rightarrow> if length xs > 0 then map as_market xs else mock_page_markets t0
          | _ \<Rightarrow> mock_page_markets t0),
       mp_loading := False\<rparr>"

definition page_categories :: "markets_page \<Rightarrow> string list" where
  "page_categories p = ''All'' # js_set (map pk_category (mp_markets p))"

definition order_page_markets :: "market_order \<Rightarrow> page_market list \<Rightarrow> page_market list" where
  "order_page_markets ord ms =
     (case ord of
        Newest \<Rightarrow> sort_desc pk_close_at ms
      | MostStaked \<Rightarrow> sort_desc pk_staked ms
      | ClosingSoon \<Rightarrow> sort_desc (\<lambda>m. - pk_close_at m) ms)"

definition page_market_matches :: "markets_page \<Rightarrow> page_market \<Rightarrow> bool" where
  "page_market_matches p m \<longleftrightarrow>
     (trim (mp_search p) = [] \<or> has_substring (to_lower (pk_title m)) (to_lower (mp_search p))) \<and>
     (mp_category p = ''All'' \<or> pk_category m = mp_category p) \<and>
     (mp_status p = ''All'' \<or> pk_status m = to_lower (mp_status p))"

definition filtered_markets :: "markets_page \<Rightarrow> page_market list" where
  "filtered_markets p = order_page_markets (mp_order p) (filter (page_market_matches p) (mp_markets p))"

definition markets_page_size :: nat where
  "markets_page_size = 9"

definition shown_markets :: "markets_page \<Rightarrow> page_market list" where
  "shown_markets p = take (mp_page p * markets_page_size) (filtered_markets p)"

definition total_volume :: "markets_page \<Rightarrow> rat" where
  "total_volume p = sum_list (map pk_staked (mp_markets p))"

definition active_count :: "markets_page \<Rightarrow> nat" where
  "active_count p = length (filter (\<lambda>m. pk_status m = ''active'') (mp_markets p))"

text \<open>None: the wallet dialog opens; otherwise the address the browser goes to.\<close>

definition handle_predict :: "bool \<Rightarrow> page_market \<Rightarrow> string option" where
  "handle_predict authenticated m = (if authenticated then Some (''/markets/'' @ pk_id m) else None)"

definition compact :: "rat \<Rightarrow> string" where
  "compact n =
     (if n \<ge> 1000000 then to_fixed 1 (n / 1000000) @ ''M''
      else if n \<ge> 1000 then to_fixed 1 (n / 1000) @ ''k''
      else to_fixed 0 n)"

definition time_until :: "timestamp \<Rightarrow> timestamp \<Rightarrow> string" where
  "time_until t0 close_at =
     (let ms = close_at - t0; minutes = ms div 60000; days = minutes div (60 * 24);
          hours = (minutes mod (60 * 24)) div 60 in
      if ms \<le> 0 then ''Closed''
      else if days > 0 then ''Closes in '' @ show_int days @ ''d '' @ show_int hours @ ''h''
      else if hours > 0 then ''Closes in '' @ show_int hours @ ''h '' @ show_int (minutes mod 60) @ ''m''
      else ''Closes in '' @ show_int minutes @ ''m'')"

section \<open>One market\<close>

record stake_form =
  sf_yes :: bool
  sf_amount :: string
  sf_asset :: string

text \<open>\<open>Number(amount) || 0\<close>; an infinite amount is left out.\<close>

definition stake_amount :: "stake_form \<Rightarrow> rat" where
  "stake_amount f = (case number_of_text (sf_amount f) of Fin q \<Rightarrow> q | _ \<Rightarrow> 0)"

definition stake_price :: "rat \<Rightarrow> rat \<Rightarrow> stake_form \<Rightarrow> rat" where
  "stake_price yes_price no_price f = (if sf_yes f then yes_price else no_price)"

definition stake_shares :: "rat \<Rightarrow> stake_form \<Rightarrow> rat" where
  "stake_shares price f = (if price > 0 then stake_amount f / price else 0)"

definition stake_roi :: "rat \<Rightarrow> stake_form \<Rightarrow> rat" where
  "stake_roi price f =
     (if stake_amount f > 0 then (stake_shares price f - stake_amount f) / stake_amount f * 100 else 0)"

section \<open>The public leaderboard\<close>

record ranked_user =
  ru_rank :: nat
  ru_name :: string
  ru_points :: int
  ru_win_rate :: int
  ru_predictions :: int
  ru_streak :: int
  ru_category :: string

datatype board_order = ByPoints | ByWinRate | ByPredictions

record board_filters =
  bf_range :: string
  bf_category :: string
  bf_order :: board_order

definition numbered :: "ranked_user list \<Rightarrow> ranked_user list" where
  "numbered es = map (\<lambda>(i, e). e\<lparr>ru_rank := i + 1\<rparr>) (enumerate 0 es)"

definition rank_entries :: "ranked_user list \<Rightarrow> ranked_user list" where
  "rank_entries es = numbered (sort_desc ru_points es)"

definition visible_key :: "board_order \<Rightarrow> ranked_user \<Rightarrow> int" where
  "visible_key ord e =
     (case ord of ByWinRate \<Rightarrow> ru_win_rate e | ByPredictions \<Rightarrow> ru_predictions e | ByPoints \<Rightarrow> ru_points e)"

definition visible_users :: "ranked_user list \<Rightarrow> board_filters \<Rightarrow> ranked_user list" where
  "visible_users es f =
     numbered (sort_desc (visible_key (bf_order f))
       (filter (\<lambda>e. bf_category f = ''all'' \<or> ru_category e = bf_category f) es))"

text \<open>What the timer does every twenty seconds.\<close>

definition live_user :: "nat \<Rightarrow> ranked_user \<Rightarrow> ranked_user" where
  "live_user i e =
     e\<lparr>ru_points := ru_points e + 18 - int i,
       ru_predictions := ru_predictions e + (if i mod 2 = 0 then 1 else 0),
       ru_win_rate := min 95 (max 55 (ru_win_rate e + (if i mod 3 = 0 then 1 else 0))),
       ru_streak := ru_streak e + (if i < 4 then 1 else 0)\<rparr>"

definition live_tick :: "ranked_user list \<Rightarrow> ranked_user list" where
  "live_tick es = rank_entries (map (\<lambda>(i, e). live_user i e) (enumerate 0 es))"

definition hot_streak :: "ranked_user list \<Rightarrow> ranked_user option" where
  "hot_streak es = (case sort_desc ru_streak es of [] \<Rightarrow> None | e # _ \<Rightarrow> Some e)"

definition best_win_rate_card :: "ranked_user list \<Rightarrow> int" where
  "best_win_rate_card es = (case es of [] \<Rightarrow> 0 | e # _ \<Rightarrow> ru_win_rate e)"

definition initial_users :: "ranked_user list" where
  "initial_users = (let u = (\<lambda>k name points rate predictions streak category.
     \<lparr>ru_rank = k, ru_name = name, ru_points = points, ru_win_rate = rate, ru_predictions = predictions,
      ru_streak = streak, ru_category = category\<rparr>) in
     [u 1 ''0xArena_Pro'' 9840 91 312 16 ''crypto'', u 2 ''CryptoSage'' 8720 87 278 11 ''crypto'',
      u 3 ''PredictKing'' 7950 83 245 8 ''sports'', u 4 ''StarPredictor'' 6430 76 198 5 ''politics'',
      u 5 ''InsightHunter'' 5870 74 183 6 ''custom'', u 6 ''MarketWizard'' 5210 71 167 4 ''crypto'',
      u 7 ''OracleX'' 4780 69 154 7 ''sports'', u 8 ''BullsEye99'' 4320 66 141 3 ''politics'',
      u 9 ''AlphaCall'' 3950 63 129 2 ''custom'', u 10 ''ZenTrader'' 3540 61 118 4 ''crypto''])"

section \<open>Competitions\<close>

datatype contest_status = CtActive | CtUpcoming | CtEnded | CtCancelled

record prize_share =
  ps_label :: string
  ps_amount :: rat
  ps_percentage :: nat

record contest =
  ct_id :: string
  ct_title :: string
  ct_description :: string
  ct_state :: contest_status
  ct_pool :: rat
  ct_participants :: nat
  ct_max :: rat
  ct_start :: string
  ct_end :: string
  ct_public :: bool
  ct_joined :: bool
  ct_finalized :: bool
  ct_prizes :: "prize_share list"

datatype contest_tab = AllContests | ContestsIn contest_status | MyContests

record contest_form =
  cf_title :: string
  cf_description :: string
  cf_public :: bool
  cf_max :: jsnum
  cf_pool :: jsnum

record contests_page =
  cp_contests :: "contest list"
  cp_tab :: contest_tab
  cp_search :: string
  cp_page :: nat
  cp_open :: bool
  cp_form :: contest_form
  cp_payouts :: "(string \<times> (rat \<times> bool) option) list"
  cp_pending :: "string option"

definition mock_contests :: "contest list" where
  "mock_contests = (let share = (\<lambda>label amount pc. \<lparr>ps_label = label, ps_amount = amount, ps_percentage = pc\<rparr>) in
     [\<lparr>ct_id = ''comp-1'', ct_title = ''Stellar Weekly Predictions'',
       ct_description = ''Compete weekly by forecasting outcomes across the hottest markets on Stellar.'',
       ct_state = CtActive, ct_pool = 2500, ct_participants = 42, ct_max = 200, ct_start = ''2026-04-01'', ct_end = ''2026-04-30'',
       ct_public = True, ct_joined = True, ct_finalized = False,
       ct_prizes = [share ''1st place'' 1250 50, share ''2nd place'' 750 30, share ''3rd place'' 500 20]\<rparr>,
      \<lparr>ct_id = ''comp-2'', ct_title = ''DeFi Masters Sprint'',
       ct_description = ''A fast-paced competition for DeFi market specialists. Accuracy matters most.'',
       ct_state = CtUpcoming, ct_pool = 1200, ct_participants = 18, ct_max = 100, ct_start = ''2026-05-05'', ct_end = ''2026-05-20'',
       ct_public = True, ct_joined = False, ct_finalized = False,
       ct_prizes = [share ''1st place'' 600 50, share ''2nd place'' 360 30, share ''3rd place'' 240 20]\<rparr>,
      \<lparr>ct_id = ''comp-3'', ct_title = ''Private Alpha League'',
       ct_description = ''Invite-only league for top predictors. Access is managed by the organizer.'',
       ct_state = CtActive, ct_pool = 5000, ct_participants = 12, ct_max = 25, ct_start = ''2026-04-10'', ct_end = ''2026-05-10'',
       ct_public = False, ct_joined = False, ct_finalized = False,
       ct_prizes = [share ''1st place'' 2500 50, share ''2nd place'' 1500 30, share ''3rd place'' 1000 20]\<rparr>,
      \<lparr>ct_id = ''comp-4'', ct_title = ''Season 1 Finals'',
       ct_description = ''The grand finale event for Season 1 with leaderboard-based prizes.'',
       ct_state = CtEnded, ct_pool = 8000, ct_participants = 256, ct_max = 256, ct_start = ''2026-03-01'', ct_end = ''2026-03-31'',
       ct_public = True, ct_joined = True, ct_finalized = False,
       ct_prizes = [share ''1st place'' 4000 50, share ''2nd place'' 2400 30, share ''3rd place'' 1600 20]\<rparr>,
      \<lparr>ct_id = ''comp-5'', ct_title = ''Community Cup (Cancelled)'',
       ct_description = ''A community-run cup that was cancelled due to insufficient participants.'',
       ct_state = CtCancelled, ct_pool = 0, ct_participants = 9, ct_max = 50, ct_start = ''2026-04-15'', ct_end = ''2026-04-25'',
       ct_public = True, ct_joined = False, ct_finalized = True,
       ct_prizes = []\<rparr>])"

definition new_contests_page :: contests_page where
  "new_contests_page =
     \<lparr>cp_contests = mock_contests, cp_tab = AllContests, cp_search = [], cp_page = 1, cp_open = False,
      cp_form = \<lparr>cf_title = [], cf_description = [], cf_public = True, cf_max = Fin 100, cf_pool = Fin 500\<rparr>,
      cp_payouts = [], cp_pending = None\<rparr>"

definition matches_tab :: "contest_tab \<Rightarrow> contest \<Rightarrow> bool" where
  "matches_tab tab c =
     (case tab of AllContests \<Rightarrow> True | MyContests \<Rightarrow> ct_joined c | ContestsIn st \<Rightarrow> ct_state c = st)"

definition matches_search :: "string \<Rightarrow> contest \<Rightarrow> bool" where
  "matches_search q c \<longleftrightarrow> trim q = [] \<or> has_substring (to_lower (ct_title c)) (to_lower (trim q))"

definition filtered_contests :: "contests_page \<Rightarrow> contest list" where
  "filtered_contests p =
     filter (\<lambda>c. matches_tab (cp_tab p) c \<and> matches_search (cp_search p) c) (cp_contests p)"

definition tab_count :: "contests_page \<Rightarrow> contest_tab \<Rightarrow> nat" where
  "tab_count p tab = length (filter (matches_tab tab) (cp_contests p))"

definition contest_page_count :: "contests_page \<Rightarrow> nat" where
  "contest_page_count p = max 1 ((length (filtered_contests p) + 5) div 6)"

definition paged_contests :: "contests_page \<Rightarrow> contest list" where
  "paged_contests p = page_of (cp_page p) 6 (filtered_contests p)"

text \<open>A change of the tab or of the search goes back to the first page.\<close>

definition set_tab :: "contest_tab \<Rightarrow> contests_page \<Rightarrow> contests_page" where
  "set_tab tab p = p\<lparr>cp_tab := tab, cp_page := 1\<rparr>"

definition set_contest_search :: "string \<Rightarrow> contests_page \<Rightarrow> contests_page" where
  "set_contest_search q p = p\<lparr>cp_search := q, cp_page := 1\<rparr>"

definition contests_back :: "contests_page \<Rightarrow> contests_page" where
  "contests_back p = p\<lparr>cp_page := max 1 (cp_page p - 1)\<rparr>"

definition contests_on :: "contests_page \<Rightarrow> contests_page" where
  "contests_on p = p\<lparr>cp_page := min (contest_page_count p) (cp_page p + 1)\<rparr>"

definition on_join_toggle :: "string \<Rightarrow> bool \<Rightarrow> contests_page \<Rightarrow> contests_page" where
  "on_join_toggle k joined p =
     p\<lparr>cp_contests := map (\<lambda>c. if ct_id c = k then c\<lparr>ct_joined := joined\<rparr> else c) (cp_contests p)\<rparr>"

text \<open>\<open>Math.max(low, Number(x) || default)\<close>; an infinite number is left out.\<close>

definition at_least :: "rat \<Rightarrow> rat \<Rightarrow> jsnum \<Rightarrow> rat" where
  "at_least low d x = max low (case x of Fin q \<Rightarrow> if q = 0 then d else q | _ \<Rightarrow> d)"

definition contest_prizes :: "rat \<Rightarrow> prize_share list" where
  "contest_prizes pool = map (\<lambda>(label, pc).
     \<lparr>ps_label = label, ps_amount = of_int (math_round (pool * of_nat pc / 100)), ps_percentage = pc\<rparr>)
     [(''1st place'', 50), (''2nd place'', 30), (''3rd place'', 20)]"

text \<open>\<open>date\<close> is the first ten characters of the ISO text of a time; two weeks are counted in the local time zone.\<close>

definition on_create :: "(timestamp \<Rightarrow> string) \<Rightarrow> timestamp \<Rightarrow> timestamp \<Rightarrow> contests_page \<Rightarrow> contests_page" where
  "on_create date t0 two_weeks_on p =
     (let f = cp_form p; title = trim (cf_title f); pool = at_least 0 0 (cf_pool f) in
      if title = [] then p
      else p\<lparr>cp_contests :=
               \<lparr>ct_id = ''comp-'' @ show_int t0, ct_title = title,
                ct_description =
                  (if trim (cf_description f) = [] then ''New competition'' else trim (cf_description f)),
                ct_state = CtUpcoming, ct_pool = pool, ct_participants = 1, ct_max = at_least 2 2 (cf_max f),
                ct_start = date t0, ct_end = date two_weeks_on, ct_public = cf_public f, ct_joined = True,
                ct_finalized = False, ct_prizes = contest_prizes pool\<rparr> # cp_contests p,
             cp_open := False, cp_form := f\<lparr>cf_title := [], cf_description := []\<rparr>\<rparr>)"

text \<open>The answers to the requests of \<open>lib/eventRewards.ts\<close>: refused, or carried out.\<close>

definition finalize_begin :: "string \<Rightarrow> contests_page \<Rightarrow> contests_page" where
  "finalize_begin k p = p\<lparr>cp_pending := Some (''finalize-'' @ k)\<rparr>"

definition finalize_end :: "bool \<Rightarrow> string \<Rightarrow> contests_page \<Rightarrow> contests_page" where
  "finalize_end ok k p =
     p\<lparr>cp_contests :=
         (if ok then map (\<lambda>c. if ct_id c = k then c\<lparr>ct_finalized := True, ct_state := CtEnded\<rparr> else c) (cp_contests p)
          else cp_contests p),
       cp_pending := None\<rparr>"

definition claim_begin :: "string option \<Rightarrow> string \<Rightarrow> contests_page \<Rightarrow> contests_page" where
  "claim_begin wallet k p = (if wallet = None then p else p\<lparr>cp_pending := Some (''claim-'' @ k)\<rparr>)"

definition claim_end :: "rat option \<Rightarrow> string \<Rightarrow> contests_page \<Rightarrow> contests_page" where
  "claim_end paid k p =
     (case paid of
        None \<Rightarrow> p\<lparr>cp_pending := None\<rparr>
      | Some amount \<Rightarrow>
          p\<lparr>cp_payouts := save_row fst (k, Some (amount, True)) (cp_payouts p), cp_pending := None\<rparr>)"

text \<open>
  When the wallet or the competitions change: without a wallet the payouts are forgotten, with one they
  are asked for, those of the finalized competitions.
\<close>

definition ask_payouts :: "string option \<Rightarrow> contests_page \<Rightarrow> contests_page \<times> string list" where
  "ask_payouts wallet p =
     (if nonempty wallet = None then (p\<lparr>cp_payouts := []\<rparr>, [])
      else (p, map ct_id (filter ct_finalized (cp_contests p))))"

text \<open>The payout of one finalized competition arrives, or the request for it fails.\<close>

definition payout_arrives :: "string \<Rightarrow> (rat \<times> bool) option \<Rightarrow> contests_page \<Rightarrow> contests_page" where
  "payout_arrives k payout p = p\<lparr>cp_payouts := save_row fst (k, payout) (cp_payouts p)\<rparr>"

datatype contest_button = BtnFinalize | BtnClaim | BtnEnded | BtnJoin | BtnLeave | BtnDisabled

definition contest_button_of :: "bool \<Rightarrow> contests_page \<Rightarrow> contest \<Rightarrow> contest_button" where
  "contest_button_of end_passed p c =
     (let open_to_users = (ct_state c \<noteq> CtEnded \<and> ct_state c \<noteq> CtCancelled);
          payout = (case by_id fst (ct_id c) (cp_payouts p) of None \<Rightarrow> None | Some r \<Rightarrow> snd r) in
      if \<not> ct_finalized c \<and> end_passed \<and> ct_state c \<noteq> CtCancelled then BtnFinalize
      else if ct_finalized c \<and> (case payout of None \<Rightarrow> False | Some x \<Rightarrow> \<not> snd x) then BtnClaim
      else if ct_state c = CtEnded then BtnEnded
      else if \<not> ct_joined c \<and> open_to_users then BtnJoin
      else if ct_joined c \<and> open_to_users then BtnLeave
      else BtnDisabled)"

section \<open>What the pages show\<close>

text \<open>
  The list of markets and the server do not meet: the server wraps every answer in an object, the
  page accepts an array only, so that it always shows its samples.
\<close>

theorem markets_page_shows_samples:
  assumes "respond t1 200 (Value v) = Value sent"
  shows "mp_markets (load_page_markets as_market t0 (JsonReply sent) p) = mock_page_markets t0"
  using assms by (auto simp: respond_def no_body_status_codes_def envelope_def load_page_markets_def)

lemma markets_page_shows_samples_witness:
  "mp_markets (load_page_markets (\<lambda>_. hd (mock_page_markets 0)) 7
     (JsonReply (envelope 5 (JArr [JNull]))) new_markets_page) = mock_page_markets 7"
  using markets_page_shows_samples [of 5 "JArr [JNull]" "envelope 5 (JArr [JNull])" _ 7]
  by (simp add: respond_def no_body_status_codes_def)

text \<open>The list holds the markets that match, each once, in the chosen order, and all of them after enough pages.\<close>

theorem market_filters_complete:
  "mset (filtered_markets p) = mset (filter (page_market_matches p) (mp_markets p)) \<and>
   sorted_wrt (\<lambda>a b. case mp_order p of Newest \<Rightarrow> pk_close_at b \<le> pk_close_at a
     | MostStaked \<Rightarrow> pk_staked b \<le> pk_staked a | ClosingSoon \<Rightarrow> pk_close_at a \<le> pk_close_at b) (filtered_markets p) \<and>
   shown_markets (p\<lparr>mp_page := length (mp_markets p)\<rparr>) = filtered_markets p"
proof -
  have "sorted_wrt (\<lambda>a b. case mp_order p of Newest \<Rightarrow> pk_close_at b \<le> pk_close_at a
     | MostStaked \<Rightarrow> pk_staked b \<le> pk_staked a | ClosingSoon \<Rightarrow> pk_close_at a \<le> pk_close_at b)
     (order_page_markets (mp_order p) ms)" for ms
    using sorted_sort_desc [of pk_close_at ms] sorted_sort_desc [of pk_staked ms]
      sorted_sort_desc [of "\<lambda>m. - pk_close_at m" ms]
    by (cases "mp_order p") (simp_all add: order_page_markets_def)
  moreover have same: "mset (order_page_markets ord ms) = mset ms" for ord ms
    by (cases ord) (simp_all add: order_page_markets_def mset_sort_desc)
  moreover have "length (filtered_markets p) \<le> length (mp_markets p)"
    unfolding filtered_markets_def by (metis same length_filter_le size_mset)
  then have "shown_markets (p\<lparr>mp_page := length (mp_markets p)\<rparr>) = filtered_markets p"
    by (simp add: shown_markets_def filtered_markets_def page_market_matches_def [abs_def] markets_page_size_def)
  ultimately show ?thesis by (simp add: filtered_markets_def)
qed

text \<open>The return shown depends on the price only, whatever is staked.\<close>

theorem roi_is_fixed_by_the_price:
  assumes "price > 0" and "stake_amount f > 0"
  shows "stake_roi price f = (1 / price - 1) * 100"
  using assms by (simp add: stake_roi_def stake_shares_def field_simps)

lemma roi_is_fixed_by_the_price_witness:
  "stake_roi (1 / 2) \<lparr>sf_yes = True, sf_amount = show_int 25, sf_asset = ''XLM''\<rparr> = 100"
proof -
  have "number_of_text (show_int 25) = Fin 25" using number_of_show_int [of 25] by (simp add: pg_int8_def)
  then show ?thesis
    using roi_is_fixed_by_the_price [of "1 / 2" "\<lparr>sf_yes = True, sf_amount = show_int 25, sf_asset = ''XLM''\<rparr>"]
    by (simp add: stake_amount_def)
qed

lemma sort_desc_sorted: "sorted_wrt (\<lambda>a b. f b \<le> f a) xs \<Longrightarrow> sort_desc f xs = xs"
  by (induction xs) (simp_all add: insert_desc_front)

lemma numbered_nth: "i < length es \<Longrightarrow> numbered es ! i = (es ! i)\<lparr>ru_rank := i + 1\<rparr>"
  by (simp add: numbered_def nth_enumerate_eq)

lemma length_numbered [simp]: "length (numbered es) = length es"
  by (simp add: numbered_def)

lemma numbered_maps [simp]:
  "map ru_name (numbered es) = map ru_name es" "map ru_points (numbered es) = map ru_points es"
  "map ru_rank (numbered es) = [1..<Suc (length es)]"
  by (rule nth_equalityI; simp add: numbered_nth del: upt_Suc)+

lemma sorted_points: "sorted_wrt (\<lambda>a b. ru_points b \<le> ru_points a) es \<longleftrightarrow> sorted_wrt (\<ge>) (map ru_points es)"
  by (simp add: sorted_wrt_map)

lemma live_points:
  assumes "sorted_wrt (\<lambda>a b. ru_points b \<le> ru_points a) es"
  shows "sorted_wrt (\<lambda>a b. ru_points b \<le> ru_points a) (map (\<lambda>(i, e). live_user i e) (enumerate 0 es))"
proof -
  have "ru_points (es ! j) \<le> ru_points (es ! i)" if "i < j" "j < length es" for i j
    using assms that by (auto simp: sorted_wrt_iff_nth_less)
  then show ?thesis
    by (fastforce simp: sorted_wrt_iff_nth_less nth_enumerate_eq live_user_def)
qed

text \<open>The live board adds less to a lower place: however long it runs, nobody changes places.\<close>

theorem live_board_never_moves:
  "map ru_name ((live_tick ^^ n) (rank_entries es)) = map ru_name (rank_entries es)"
proof -
  have tick: "map ru_name (live_tick us) = map ru_name us \<and>
      sorted_wrt (\<lambda>a b. ru_points b \<le> ru_points a) (live_tick us)"
    if "sorted_wrt (\<lambda>a b. ru_points b \<le> ru_points a) us" for us
  proof -
    note live = live_points [OF that]
    have "map ru_name (map (\<lambda>(i, e). live_user i e) (enumerate 0 us)) = map ru_name us"
      by (simp add: list_eq_iff_nth_eq nth_enumerate_eq live_user_def)
    with live show ?thesis
      by (simp add: live_tick_def rank_entries_def sort_desc_sorted sorted_points)
  qed
  have "map ru_name ((live_tick ^^ n) us) = map ru_name us \<and>
      sorted_wrt (\<lambda>a b. ru_points b \<le> ru_points a) ((live_tick ^^ n) us)"
    if "sorted_wrt (\<lambda>a b. ru_points b \<le> ru_points a) us" for us
    using that by (induction n) (simp_all add: tick)
  moreover have "sorted_wrt (\<lambda>a b. ru_points b \<le> ru_points a) (rank_entries es)"
    using sorted_sort_desc [of ru_points es] by (simp add: rank_entries_def sorted_points)
  ultimately show ?thesis by simp
qed

text \<open>The places shown are the numbers from one on; the chosen time range makes no difference.\<close>

theorem board_places:
  "map ru_rank (visible_users es f) = [1..<Suc (length (visible_users es f))] \<and>
   visible_users es (f\<lparr>bf_range := r\<rparr>) = visible_users es f"
  by (simp add: visible_users_def)

text \<open>
  The three prizes of a new competition are rounded one by one: they stay within one and a half of
  the pool, but may promise more than it holds.
\<close>

theorem contest_prizes_near_pool:
  "\<bar>sum_list (map ps_amount (contest_prizes pool)) - pool\<bar> \<le> 3 / 2 \<and>
   sum_list (map ps_amount (contest_prizes 5)) = 6"
proof -
  have round: "\<bar>of_int (math_round q) - q\<bar> \<le> 1 / 2" for q :: rat
    using floor_correct [of "q + 1 / 2"] unfolding math_round_def by (intro abs_leI) linarith+
  from round [of "pool * 50 / 100"] round [of "pool * 30 / 100"] round [of "pool * 20 / 100"]
  have "\<bar>sum_list (map ps_amount (contest_prizes pool)) - pool\<bar> \<le> 3 / 2"
    unfolding contest_prizes_def abs_le_iff by simp
  moreover have "sum_list (map ps_amount (contest_prizes 5)) = 6" by code_simp
  ultimately show ?thesis ..
qed

text \<open>
  Joining and leaving change neither the number of participants nor its limit, and a competition
  that is full still offers to join.
\<close>

theorem joining_is_not_counted:
  "map (\<lambda>c. (ct_id c, ct_participants c, ct_max c)) (cp_contests (fold (\<lambda>(k, j). on_join_toggle k j) acts p)) =
     map (\<lambda>c. (ct_id c, ct_participants c, ct_max c)) (cp_contests p) \<and>
   contest_button_of False p
     \<lparr>ct_id = k, ct_title = t, ct_description = d, ct_state = CtActive, ct_pool = pool, ct_participants = n,
      ct_max = of_nat n, ct_start = st, ct_end = en, ct_public = pub, ct_joined = False, ct_finalized = False,
      ct_prizes = prizes\<rparr> = BtnJoin"
proof -
  have "map (\<lambda>c. (ct_id c, ct_participants c, ct_max c)) (cp_contests (on_join_toggle k j q)) =
      map (\<lambda>c. (ct_id c, ct_participants c, ct_max c)) (cp_contests q)" for k j q
    by (simp add: on_join_toggle_def)
  then have "map (\<lambda>c. (ct_id c, ct_participants c, ct_max c)) (cp_contests (fold (\<lambda>(k, j). on_join_toggle k j) acts p)) =
     map (\<lambda>c. (ct_id c, ct_participants c, ct_max c)) (cp_contests p)"
    by (induction acts arbitrary: p) auto
  then show ?thesis by (simp add: contest_button_of_def Let_def)
qed

end
