(* ===== verification/FrontEventPage.thy ===== *)
theory FrontEventPage
  imports FrontProps "HOL-Library.Product_Lexorder"
begin

text \<open>
  The page of one creator event (\<open>frontend/src/app/(authenticated)/creator-events/[id]/page.tsx\<close>), its list
  of matches (\<open>component/creator-events/MatchList.tsx\<close>) and the preview behind an invite link
  (\<open>InvitePreview.tsx\<close>).  Both read and change the state of \<open>FrontEvents\<close>.
\<close>

section \<open>The leaderboard of the page\<close>

record page_entry =
  be_rank :: nat
  be_address :: string
  be_points :: int
  be_correct :: int
  be_exact :: int
  be_played :: nat
  be_payout :: "string option"

definition fallback_participant :: "string \<Rightarrow> string \<Rightarrow> int \<Rightarrow> int \<Rightarrow> int \<Rightarrow> int \<Rightarrow> front_participant" where
  "fallback_participant a joined score predicted correct points =
     \<lparr>fp_address = a, fp_joined = joined, fp_score = score, fp_predictions = predicted, fp_correct = correct,
      fp_points = points\<rparr>"

definition fallback_participants :: "string \<Rightarrow> front_participant list" where
  "fallback_participants k =
     (if k = ''event-002'' then
        [fallback_participant ''GALP2...Z91Q'' ''2026-05-06T14:30:00Z'' 3 3 3 300,
         fallback_participant ''GC7RB...1KYV'' ''2026-05-06T15:05:00Z'' 3 3 3 300,
         fallback_participant ''GDL9N...8TWF'' ''2026-05-07T09:45:00Z'' 2 3 2 200]
      else if k = ''event-003'' then
        [fallback_participant ''GB82Q...HJ4X'' ''2026-05-22T12:10:00Z'' 1 1 1 100,
         fallback_participant ''GCN65...P0LR'' ''2026-05-23T08:20:00Z'' 0 1 0 0]
      else [])"

definition page_participants :: "string \<Rightarrow> front_participant list \<Rightarrow> front_participant list" where
  "page_participants k ps = (if length ps > 0 then ps else fallback_participants k)"

definition format_score :: "front_participant \<Rightarrow> nat \<Rightarrow> int" where
  "format_score p n =
     (if n = 0 then 0
      else if fp_score p \<le> int n then max 0 (fp_score p)
      else min (int n) (max 0 (math_round (of_int (fp_score p) / 100))))"

text \<open>Address, time of joining, correct predictions and number of matches of a row.\<close>

definition participant_rows :: "string \<Rightarrow> front_participant list \<Rightarrow> nat \<Rightarrow> (string \<times> string \<times> int \<times> nat) list" where
  "participant_rows k ps n =
     map (\<lambda>p. (fp_address p, fp_joined p, format_score p n, n)) (page_participants k ps)"

text \<open>Points, correct results and exact scores that a score is read as.\<close>

definition score_figures :: "int \<Rightarrow> nat \<Rightarrow> int \<times> int \<times> int" where
  "score_figures score n =
     (if score > int n then
        (let correct = min (int n) (score div 100)
         in (score, correct, min correct ((score mod 100) div 10)))
      else
        (let correct = max 0 (min (int n) score); exact = (if correct \<ge> 2 then 1 else 0)
         in (correct * 100 + exact * 10, correct, exact)))"

definition unranked_entry :: "nat \<Rightarrow> front_participant \<Rightarrow> page_entry" where
  "unranked_entry n p =
     (let (points, correct, exact) = score_figures (fp_score p) n in
      \<lparr>be_rank = 0, be_address = fp_address p, be_points = points, be_correct = correct, be_exact = exact,
       be_played = n, be_payout = None\<rparr>)"

text \<open>The place of an entry is that of the entry before, unless that one has more points.\<close>

fun assign_ranks :: "nat \<Rightarrow> nat \<Rightarrow> int option \<Rightarrow> page_entry list \<Rightarrow> page_entry list" where
  "assign_ranks i current before [] = []"
| "assign_ranks i current before (e # es) =
     (let current' = (case before of None \<Rightarrow> current | Some b \<Rightarrow> if b > be_points e then i + 1 else current)
      in e\<lparr>be_rank := current'\<rparr> # assign_ranks (i + 1) current' (Some (be_points e)) es)"

definition board_entries :: "string \<Rightarrow> front_participant list \<Rightarrow> nat \<Rightarrow> page_entry list" where
  "board_entries k ps n =
     assign_ranks 0 1 None
       (sort_desc (\<lambda>e. (be_points e, be_correct e, be_exact e))
         (map (unranked_entry n) (page_participants k ps)))"

definition fixed_payout :: "nat \<Rightarrow> string" where
  "fixed_payout rank =
     (if rank = 1 then ''150 XLM'' else if rank = 2 then ''90 XLM'' else if rank = 3 then ''60 XLM'' else ''-'')"

section \<open>The page\<close>

record event_view =
  vp_event :: "cached_event option"
  vp_matches :: "front_match list"
  vp_participants :: "front_participant list"
  vp_winners :: "page_entry list"
  vp_code :: string
  vp_loading :: bool
  vp_message :: "string option"
  vp_joined :: bool
  vp_verifying :: bool

definition new_event_view :: "string option \<Rightarrow> event_view" where
  "new_event_view query_code =
     \<lparr>vp_event = None, vp_matches = [], vp_participants = [], vp_winners = [],
      vp_code = (case query_code of None \<Rightarrow> [] | Some c \<Rightarrow> c), vp_loading = True, vp_message = None,
      vp_joined = False, vp_verifying = False\<rparr>"

fun event_status_of :: "cached_event \<Rightarrow> front_status option" where
  "event_status_of (Whole e) = Some (fe_status e)"
| "event_status_of (Partial p) = pa_status p"

fun event_joined :: "cached_event \<Rightarrow> bool" where
  "event_joined (Whole e) = fe_joined e"
| "event_joined (Partial p) = (pa_joined p = Some True)"

definition winner_entry :: "nat \<Rightarrow> string \<times> int \<times> nat \<times> money_amount \<Rightarrow> page_entry" where
  "winner_entry n w =
     (case w of (a, score, rank, paid) \<Rightarrow>
        (let (points, correct, exact) = score_figures score n in
         \<lparr>be_rank = rank, be_address = a, be_points = points, be_correct = correct, be_exact = exact,
          be_played = n, be_payout = Some (fixed_payout rank)\<rparr>))"

text \<open>The four reads together; when one of them fails nothing of the page is set.\<close>

definition load_event_detail :: "front_state \<Rightarrow> string \<Rightarrow> event_view \<Rightarrow> event_view" where
  "load_event_detail v k p =
     (case get_event_winners v k of
        Inl _ \<Rightarrow> p\<lparr>vp_loading := True\<rparr>
      | Inr ws \<Rightarrow>
          p\<lparr>vp_event := cached k v, vp_matches := listed k (fs_matches v),
            vp_participants := listed k (fs_participants v),
            vp_joined := (case cached k v of None \<Rightarrow> False | Some e \<Rightarrow> event_joined e),
            vp_winners := map (winner_entry (length (listed k (fs_matches v)))) ws, vp_loading := False\<rparr>)"

definition resolved_matches :: "event_view \<Rightarrow> front_match list" where
  "resolved_matches p = filter (\<lambda>m. fm_outcome m \<noteq> Pending) (vp_matches p)"

definition page_all_resolved :: "event_view \<Rightarrow> bool" where
  "page_all_resolved p \<longleftrightarrow>
     length (vp_matches p) > 0 \<and> length (resolved_matches p) = length (vp_matches p)"

definition is_finalized :: "event_view \<Rightarrow> bool" where
  "is_finalized p \<longleftrightarrow>
     (case vp_event p of None \<Rightarrow> False | Some e \<Rightarrow> event_status_of e = Some Completed) \<or> length (vp_winners p) > 0"

definition leaderboard_entries :: "string \<Rightarrow> event_view \<Rightarrow> page_entry list" where
  "leaderboard_entries k p =
     (let entries = board_entries k (vp_participants p) (length (vp_matches p)) in
      if is_finalized p then
        map (\<lambda>e. e\<lparr>be_payout := Some
          (case Option.bind (find_one (\<lambda>w. be_address w = be_address e) (vp_winners p)) be_payout of
             Some paid \<Rightarrow> if paid = [] then fixed_payout (be_rank e) else paid
           | None \<Rightarrow> fixed_payout (be_rank e))\<rparr>) entries
      else entries)"

definition predictions_submitted :: "string \<Rightarrow> event_view \<Rightarrow> int" where
  "predictions_submitted k p =
     sum_list (map (\<lambda>(a, t, correct, n). correct) (participant_rows k (vp_participants p) (length (vp_matches p))))"

definition is_event_creator :: "string option \<Rightarrow> event_view \<Rightarrow> bool" where
  "is_event_creator wallet p \<longleftrightarrow>
     (case (wallet, vp_event p) of (Some a, Some (Whole e)) \<Rightarrow> a \<noteq> [] \<and> fe_creator e = a | _ \<Rightarrow> False)"

text \<open>The buttons: cancelling is offered to the creator, verifying to everybody.\<close>

definition offers_cancel :: "string option \<Rightarrow> event_view \<Rightarrow> bool" where
  "offers_cancel wallet p \<longleftrightarrow> is_event_creator wallet p"

definition offers_verify :: "string option \<Rightarrow> event_view \<Rightarrow> bool" where
  "offers_verify wallet p \<longleftrightarrow> page_all_resolved p \<and> \<not> vp_verifying p"

section \<open>The actions\<close>

text \<open>
  The page, the state of the context and whether the wallet dialog opens.  \<open>v\<close> is the state the
  callbacks of the context were rendered with.
\<close>

definition handle_join_event ::
  "date_engine \<Rightarrow> timestamp \<Rightarrow> front_state \<Rightarrow> string option \<Rightarrow> event_view \<Rightarrow> front_state
     \<Rightarrow> event_view \<times> front_state \<times> bool" where
  "handle_join_event de t v wallet p s =
     (if nonempty wallet = None then (p, s, True)
      else
        (let code = (if trim (vp_code p) \<noteq> [] then trim (vp_code p)
                     else case vp_event p of Some (Whole e) \<Rightarrow> fe_invite e | _ \<Rightarrow> []) in
         if code = [] then
           (p\<lparr>vp_message := Some ''Enter an invite code to join this creator event.''\<rparr>, s, False)
         else
           (let (joined, s') = front_join_event de t v wallet code s in
            (p\<lparr>vp_joined := joined, vp_message := Some
                 (if joined then ''You joined this event.'' else ''Unable to join with that invite code.'')\<rparr>,
             s', False))))"

definition handle_verify_winners :: "string \<Rightarrow> event_view \<Rightarrow> front_state \<Rightarrow> event_view \<times> front_state" where
  "handle_verify_winners k p s =
     (let (ok, s') = front_verify_winners k s in
      (if ok then p\<lparr>vp_verifying := False, vp_winners := leaderboard_entries k p,
                   vp_message := Some ''Winner verification completed.''\<rparr>
       else p\<lparr>vp_verifying := False, vp_message := Some ''Winner verification failed.''\<rparr>, s'))"

definition with_status :: "front_status \<Rightarrow> cached_event \<Rightarrow> cached_event" where
  "with_status st e =
     (case e of Whole x \<Rightarrow> Whole (x\<lparr>fe_status := st\<rparr>) | Partial q \<Rightarrow> Partial (q\<lparr>pa_status := Some st\<rparr>))"

definition handle_cancel_event :: "string \<Rightarrow> event_view \<Rightarrow> front_state \<Rightarrow> event_view \<times> front_state" where
  "handle_cancel_event k p s =
     (let (ok, s') = front_cancel_event k s in
      (case vp_event p of
         Some e \<Rightarrow> if ok then p\<lparr>vp_event := Some (with_status Cancelled e), vp_message := Some ''Event cancelled.''\<rparr> else p
       | None \<Rightarrow> p, s'))"

section \<open>The list of matches\<close>

definition shown_winner :: "front_match \<Rightarrow> string option" where
  "shown_winner m =
     (case fm_outcome m of TeamA \<Rightarrow> Some (fm_team_a m) | TeamB \<Rightarrow> Some (fm_team_b m) | Draw \<Rightarrow> Some ''Draw''
      | Pending \<Rightarrow> None)"

text \<open>\<open>time_of\<close> is the engine's reading of a date text.\<close>

definition can_predict :: "(string \<Rightarrow> timestamp option) \<Rightarrow> timestamp \<Rightarrow> bool \<Rightarrow> front_match \<Rightarrow> bool" where
  "can_predict time_of t0 joined m \<longleftrightarrow>
     joined \<and> fm_outcome m = Pending \<and> (case time_of (fm_time m) of None \<Rightarrow> False | Some t \<Rightarrow> t > t0)"

section \<open>The invite preview\<close>

datatype invite_error = InviteNotFound | InviteBroken

record invite_page =
  iv_event :: "front_event option"
  iv_matches :: "front_match list"
  iv_loading :: bool
  iv_error :: "invite_error option"
  iv_joining :: bool
  iv_join_error :: "string option"
  iv_copied :: bool

definition load_invite :: "front_state \<Rightarrow> string \<Rightarrow> invite_page \<Rightarrow> invite_page" where
  "load_invite v code p =
     (case front_event_by_code v code of
        None \<Rightarrow> p\<lparr>iv_error := Some InviteNotFound, iv_loading := False\<rparr>
      | Some e \<Rightarrow> p\<lparr>iv_error := None, iv_event := Some e, iv_matches := listed (fe_id e) (fs_matches v),
                   iv_loading := False\<rparr>)"

text \<open>The event follows the cache of the context.\<close>

definition sync_invite :: "front_state \<Rightarrow> invite_page \<Rightarrow> invite_page" where
  "sync_invite v p =
     (case iv_event p of
        None \<Rightarrow> p
      | Some e \<Rightarrow> (case cached (fe_id e) v of Some (Whole x) \<Rightarrow> p\<lparr>iv_event := Some x\<rparr> | _ \<Rightarrow> p))"

definition handle_invite_join ::
  "date_engine \<Rightarrow> timestamp \<Rightarrow> front_state \<Rightarrow> string option \<Rightarrow> string \<Rightarrow> invite_page \<Rightarrow> front_state
     \<Rightarrow> invite_page \<times> front_state" where
  "handle_invite_join de t v wallet code p s =
     (case iv_event p of
        None \<Rightarrow> (p, s)
      | Some _ \<Rightarrow>
          (let (ok, s') = front_join_event de t v wallet code s in
           (p\<lparr>iv_joining := False, iv_join_error :=
                (if ok then None else Some ''Failed to join event. Please try again.'')\<rparr>, s')))"

datatype invite_button = NoButton | ConnectToJoin | ViewEvent | JoinEvent bool

definition invite_is_full :: "front_event \<Rightarrow> bool" where
  "invite_is_full e \<longleftrightarrow> fe_status e = Active \<and> fe_participants e \<ge> fe_max e"

definition invite_button_of :: "string option \<Rightarrow> invite_page \<Rightarrow> front_event \<Rightarrow> invite_button" where
  "invite_button_of wallet p e =
     (if fe_status e = Cancelled then NoButton
      else if nonempty wallet = None then ConnectToJoin
      else if fe_joined e then ViewEvent
      else JoinEvent (\<not> (invite_is_full e \<or> iv_joining p)))"

definition preview_matches :: "invite_page \<Rightarrow> front_match list \<times> nat" where
  "preview_matches p = (take 5 (iv_matches p), length (iv_matches p) - 5)"

section \<open>What the pages show\<close>

definition ahead_of :: "page_entry \<Rightarrow> page_entry list \<Rightarrow> nat" where
  "ahead_of e es = length (filter (\<lambda>x. be_points x > be_points e) es)"

lemma ahead_of_simps [simp]: "ahead_of e [] = 0" "ahead_of e (xs @ ys) = ahead_of e xs + ahead_of e ys"
  "ahead_of e (x # xs) = (if be_points x > be_points e then 1 else 0) + ahead_of e xs"
  by (simp_all add: ahead_of_def)

lemma ahead_of_all: "(\<And>x. x \<in> set xs \<Longrightarrow> be_points x > be_points e) \<Longrightarrow> ahead_of e xs = length xs"
  by (induction xs) auto

lemma ahead_of_none: "(\<And>x. x \<in> set xs \<Longrightarrow> be_points x \<le> be_points e) \<Longrightarrow> ahead_of e xs = 0"
  by (induction xs) (auto simp: not_less)

lemma assign_ranks_counts:
  assumes "sorted_wrt (\<lambda>a b. be_points b \<le> be_points a) (pre @ es)"
    and "pre = [] \<longrightarrow> current = 1 \<and> before = None"
    and "pre \<noteq> [] \<longrightarrow> before = Some (be_points (last pre)) \<and> current = 1 + ahead_of (last pre) pre"
  shows "assign_ranks (length pre) current before es = map (\<lambda>e. e\<lparr>be_rank := 1 + ahead_of e (pre @ es)\<rparr>) es"
  using assms
proof (induction es arbitrary: pre current before)
  case (Cons e es)
  define now' where "now' = (case before of None \<Rightarrow> current | Some b \<Rightarrow> if b > be_points e then length pre + 1 else current)"
  have below: "ahead_of e (e # es) = 0" using Cons.prems(1) by (intro ahead_of_none) (auto simp: sorted_wrt_append)
  have now: "now' = 1 + ahead_of e pre"
  proof (cases "pre = []")
    case False
    then have last: "before = Some (be_points (last pre))" "current = 1 + ahead_of (last pre) pre"
      using Cons.prems(3) by auto
    have least: "be_points (last pre) \<le> be_points x" if mem: "x \<in> set pre" for x
    proof -
      have "sorted_wrt (\<lambda>a b. be_points b \<le> be_points a) (butlast pre @ [last pre])"
        using Cons.prems(1) False by (simp add: sorted_wrt_append)
      moreover from mem False have "x \<in> set (butlast pre) \<or> x = last pre"
        by (metis append_butlast_last_id in_set_conv_decomp_first rotate1.simps(2) set_ConsD set_rotate1)
      ultimately show ?thesis by (auto simp: sorted_wrt_append)
    qed
    have "be_points e \<le> be_points (last pre)" using Cons.prems(1) False by (simp add: sorted_wrt_append)
    then consider "be_points (last pre) > be_points e" | "be_points (last pre) = be_points e" by linarith
    then show ?thesis
    proof cases
      case 1
      have "ahead_of e pre = length pre"
      proof (rule ahead_of_all)
        show "be_points x > be_points e" if "x \<in> set pre" for x using least [OF that] 1 by simp
      qed
      with 1 last show ?thesis by (simp add: now'_def)
    next
      case 2
      then show ?thesis using last by (simp add: now'_def ahead_of_def)
    qed
  qed (use Cons.prems in \<open>simp add: now'_def\<close>)
  have "assign_ranks (length (pre @ [e])) now' (Some (be_points e)) es =
      map (\<lambda>x. x\<lparr>be_rank := 1 + ahead_of x ((pre @ [e]) @ es)\<rparr>) es"
    using Cons.prems(1) by (intro Cons.IH) (simp_all add: now)
  with now below show ?case by (simp add: now'_def Let_def)
qed simp

text \<open>The places of the board: one more than the number of entries with more points.\<close>

theorem board_places_count:
  "map be_rank (board_entries k ps n) =
     map (\<lambda>e. 1 + ahead_of e (board_entries k ps n)) (board_entries k ps n)"
proof -
  define es where "es = sort_desc (\<lambda>e. (be_points e, be_correct e, be_exact e)) (map (unranked_entry n) (page_participants k ps))"
  have "sorted_wrt (\<lambda>a b. (be_points b, be_correct b, be_exact b) \<le> (be_points a, be_correct a, be_exact a)) es"
    unfolding es_def by (rule sorted_sort_desc)
  then have "sorted_wrt (\<lambda>a b. be_points b \<le> be_points a) es"
    by (rule sorted_wrt_mono_rel [rotated]) auto
  from assign_ranks_counts [of "[]" es 1 None] this
  have entries: "board_entries k ps n = map (\<lambda>e. e\<lparr>be_rank := 1 + ahead_of e es\<rparr>) es"
    by (simp add: board_entries_def es_def)
  have "ahead_of (e\<lparr>be_rank := r\<rparr>) (map (\<lambda>x. x\<lparr>be_rank := f x\<rparr>) xs) = ahead_of e xs" for e r f xs
    by (induction xs) (simp_all add: ahead_of_def)
  then show ?thesis by (simp add: entries)
qed

text \<open>
  An event that still runs is shown as finalized as soon as somebody has joined and the split has a
  first place: the page takes the projected payouts for verified winners.
\<close>

theorem running_event_shown_as_finalized:
  assumes "cached k v = Some (Whole e)" and "fe_status e = Active" and "listed k (fs_participants v) \<noteq> []"
    and "sp \<in> set (fe_split e)" and "sp_rank sp = 1"
  shows "is_finalized (load_event_detail v k p)"
proof -
  define rows where "rows = base_leaderboard (listed k (fs_participants v))"
  obtain r rest where rows: "rows = r # rest" and first: "lb_rank r = 1"
  proof -
    obtain q qs where "sort_desc fp_score (listed k (fs_participants v)) = q # qs"
      using assms(3) by (metis list.exhaust sort_desc_Nil_iff)
    then show thesis by (intro that) (auto simp: rows_def base_leaderboard_def)
  qed
  obtain rows' where board: "front_leaderboard v k = Inr rows'" and "map lb_rank rows' = map lb_rank rows"
    using assms(1,2) by (auto simp: front_leaderboard_def build_payouts_def rows_def Let_def comp_def)
  then obtain r' rest' where "rows' = r' # rest'" "lb_rank r' = 1" using rows first by (cases rows') auto
  then have "find_one (\<lambda>r. lb_rank r = sp_rank sp) rows' = Some r'" by (simp add: assms(5))
  then have "payouts_of_event k e rows' \<noteq> []"
    using assms(4) by (auto simp: payouts_of_event_def List.map_filter_def filter_empty_conv intro!: bexI [of _ sp])
  moreover have "get_event_payouts v k = Inr (payouts_of_event k e rows')"
    using assms(1,2) board by (simp add: get_event_payouts_def build_payouts_def)
  ultimately show ?thesis
    by (simp add: load_event_detail_def get_event_winners_def is_finalized_def)
qed

text \<open>Everybody may verify the winners, and that completes the event in the context.\<close>

theorem anybody_completes_the_event:
  assumes "cached k s = Some (Whole e)"
  shows "offers_verify wallet p = offers_verify None p \<and>
    map_option event_status_of (cached k (snd (handle_verify_winners k p s))) = Some (Some Completed)"
  using assms
  by (simp add: offers_verify_def handle_verify_winners_def front_verify_winners_def cached_updates apply_patch_def
      no_patch_def)

text \<open>A completed event still offers to join, full or not.\<close>

theorem completed_event_offers_join:
  assumes "fe_status e = Completed" and "\<not> fe_joined e" and "a \<noteq> []" and "\<not> iv_joining p"
  shows "invite_button_of (Some a) p e = JoinEvent True"
  using assms by (simp add: invite_button_of_def invite_is_full_def nonempty_def)

section \<open>Examples\<close>

lemma running_event_shown_as_finalized_witness:
  "fe_status (hd (mock_events sample_engine)) = Active \<and>
   is_finalized (load_event_detail mocked ''event-001'' (new_event_view None))"
proof -
  have "listed ''event-001'' (fs_participants mocked) \<noteq> []"
    by (simp add: mock_lookup mock_participants_def)
  moreover have "hd default_reward_split \<in> set (fe_split (hd (mock_events sample_engine)))"
    "sp_rank (hd default_reward_split) = 1"
    by (simp_all add: mock_event default_reward_split_def)
  ultimately show ?thesis
    using running_event_shown_as_finalized [OF mock_lookup(2) mock_event(4)] by (simp add: mock_event)
qed

lemma anybody_completes_the_event_witness:
  "map_option event_status_of
     (cached ''event-001'' (snd (handle_verify_winners ''event-001'' (new_event_view None) mocked))) =
   Some (Some Completed)"
  using anybody_completes_the_event [OF mock_lookup(2), of None "new_event_view None"] by simp

lemma completed_event_offers_join_witness:
  "invite_button_of (Some ''GNEW'') \<lparr>iv_event = None, iv_matches = [], iv_loading = False, iv_error = None,
       iv_joining = False, iv_join_error = None, iv_copied = False\<rparr>
     ((hd (mock_events sample_engine))\<lparr>fe_status := Completed, fe_joined := False\<rparr>) = JoinEvent True"
  by (rule completed_event_offers_join) simp_all

end
