(* ===== verification/Spec2Isabelle.thy ===== *)
theory Spec2Isabelle
  imports Store Js Webhooks Soroban Entities Markets Predictions ChainEvents Listener Disputes Flags Seasons
    JsText EventEntities IndexerParse Notifier Reconciliation Indexer IndexerResults IndexerLoop IndexerProps SortFacts
    Platform Finalizer ContractView EventSearch CreatorEvents MatchViews Leaderboard Competitions Achievements Merits
    Accounts Auth ApiKeys Access Idempotency Oracle Calendar Notifications Mail Analytics Users AccountData
    Admin AdminProps Filtering Search Gateway FrontEvents FrontMock FrontProps FrontUploads FrontForms
    Warming Monitoring FrontWallet FrontOracle FrontPages FrontEventPage
begin

text \<open>
  Verification of a prediction market platform: its NestJS backend (\<open>backend/src\<close>) and the state its web
  client keeps (\<open>frontend/src\<close>).

  The backend keeps its data in PostgreSQL through TypeORM repositories and mirrors it on a Soroban
  smart contract: a request checks the tables, asks the contract, and then writes the tables; a
  listener polls the events of the contract and writes the same tables.

  The theories, each on top of the ones it calls:

  \<^item> \<open>Prelude\<close>: HTTP exceptions as the left side of a sum, column ranges, rounding, paging, the stable
    descending sort.
  \<^item> \<open>Store\<close>: a repository as a list of rows with \<open>findOne\<close>, \<open>save\<close>, \<open>update\<close> and \<open>delete\<close>; the locale
    \<open>repository\<close> states what the services rely on and is interpreted on the tables of each service.
  \<^item> \<open>Js\<close>: the standard library the code uses: strings, \<open>BigInt\<close>, \<open>Number\<close>, \<open>toFixed\<close>, truthiness,
    dates, JSON values.
  \<^item> \<open>Soroban\<close> (\<open>soroban/soroban.service.ts\<close>): the client of the contract: its guards, the
    placeholder receipts, the two transactions it really sends with their polling loop.
  \<^item> \<open>Entities\<close>: the entity files as records, the database \<open>db\<close> as a record of tables together with
    the in-memory caches and the trace \<open>calls\<close> of chain requests, the environment \<open>env\<close> of a request
    (clock and fresh ids).
  \<^item> \<open>Markets\<close> (\<open>markets/markets.service.ts\<close>), \<open>Predictions\<close> (\<open>predictions/predictions.service.ts\<close>),
    \<open>Disputes\<close>, \<open>Flags\<close>, \<open>Seasons\<close>, \<open>Webhooks\<close> (\<open>webhooks/services\<close>): one definition per operation, from
    the state to the answer and the new state.  \<open>submit\<close> is split where the code awaits the chain, so
    that two submissions can be interleaved; the recordings that \<open>disputes.service.ts\<close> starts without
    awaiting them are tasks that run later, in any order.
  \<^item> \<open>ChainEvents\<close>, \<open>Listener\<close> (\<open>soroban/soroban.listener.ts\<close>): the normalisation of contract events,
    the four handlers, the poll with its checkpoint.
  \<^item> \<open>Platform\<close>: every request of the services above, the deferred tasks and the events as one step
    relation on the shared tables; the books of the markets balance in every reachable state, and the
    tables refine an abstract machine of accounts.
  \<^item> \<open>JsText\<close>: text of numbers, \<open>JSON.stringify\<close> and \<open>JSON.parse\<close>.  The parser takes fuel
    \<open>2 * length + 2\<close>: each nested call is given a strictly shorter rest of the text.
  \<^item> \<open>EventEntities\<close> (\<open>matches/entities\<close>, \<open>indexer/entities\<close>): the rows of creator events, matches,
    predictions, rankings, payouts and contract events, and the database \<open>event_db\<close> of this side.
  \<^item> \<open>IndexerParse\<close>, \<open>Indexer\<close>, \<open>IndexerResults\<close>, \<open>IndexerLoop\<close>, \<open>IndexerProps\<close>
    (\<open>indexer/indexer.service.ts\<close>): the reading of an event's type and data; the handlers; what an
    indexed result and a final ranking do; the event table with the poll, retries, cleanup, reindexing
    and cursor pages; and what holds of them together.  \<open>read_pages\<close> takes as fuel any number above
    the number of rows, since each page with a next cursor moves past at least one row.
  \<^item> \<open>Notifier\<close> (\<open>notifications/notification-generator.service.ts\<close>), \<open>Reconciliation\<close>
    (\<open>indexer/reconciliation.service.ts\<close>): the queue of notifications in batches; the comparison of
    the chain with the indexed ledgers.
  \<^item> \<open>SortFacts\<close>: the sort permutes its list, and the pages of a list put together are the list.
  \<^item> \<open>Finalizer\<close> (\<open>matches/creator-event-finalizer.service.ts\<close>), \<open>MatchViews\<close>
    (\<open>matches/matches.service.ts\<close>): the cron job that finalises ended events; the views of a match.
  \<^item> \<open>ContractView\<close> (\<open>contract/contract.service.ts\<close>): the read-only calls with their three attempts,
    and the decoding of answers; the record \<open>contract_view\<close> holds what the calls return to the services.
  \<^item> \<open>EventSearch\<close>, \<open>CreatorEvents\<close> (\<open>creator-events\<close>): search and highlighting; scores, statistics,
    pages, payouts and leaderboards of an event.  PostgreSQL's full-text match, its rank and the
    collation of \<open>localeCompare\<close> are parameters (\<open>fts\<close>, \<open>rank\<close>, \<open>coll\<close>).
  \<^item> \<open>Leaderboard\<close>, \<open>Competitions\<close>, \<open>Achievements\<close>: ranks with their caches and daily snapshots;
    competitions, where a join is split like \<open>submit\<close>; the catalogue and its unlocking.
  \<^item> \<open>Merits\<close>: the columns that achievements and seasons read, followed through the platform's steps.
  \<^item> \<open>Accounts\<close>, \<open>Auth\<close>, \<open>ApiKeys\<close>, \<open>Access\<close> (\<open>auth\<close>, \<open>common/guards\<close>, \<open>oracle/guards\<close>,
    \<open>common/filters\<close>): the user table with its soft-deleted rows; challenges and sign-in; API keys, which
    refine a map from raw keys to grants; the guards in the order the application module registers
    them, the controller behind them and the filter that turns exceptions into answers.
  \<^item> \<open>Idempotency\<close> (\<open>common/idempotency\<close>): the claim of a key, the handler that runs under it, and the
    replay of its answer, as a step relation on traces of events.
  \<^item> \<open>Oracle\<close> (\<open>oracle\<close>): match results in a queue with retries; the job objects are a store the queue
    and running attempts share, so attempts may overlap.
  \<^item> \<open>Notifications\<close>, \<open>Calendar\<close>, \<open>Mail\<close> (\<open>notifications\<close>, \<open>websocket/notification-broadcaster.service.ts\<close>):
    the notifications of a user and their batches; the UTC calendar; templates, the mail queue with its
    limit per minute, and the digests.
  \<^item> \<open>Analytics\<close> (\<open>analytics/analytics.service.ts\<close>), \<open>Users\<close> (\<open>users/users.service.ts\<close>), \<open>AccountData\<close>
    (\<open>account/account.service.ts\<close>): figures grouped by outcome and category; profiles, public lists,
    preferences and follows; exports and the deletion of accounts.
  \<^item> \<open>Admin\<close>, \<open>AdminProps\<close> (\<open>admin/admin.service.ts\<close>): what administrators and moderators may do, each
    write behind the guards of its route, as a step relation that keeps the books and the roles; refunds
    of a cancelled competition.
  \<^item> \<open>Filtering\<close> (\<open>common/filtering.service.ts\<close>), \<open>Search\<close> (\<open>search/search.service.ts\<close>): the SQL plan of a
    filter request, with a reading of its conditions on a row against which it is proved; the search
    over markets, users and competitions.
  \<^item> \<open>Gateway\<close> (\<open>websocket/events.gateway.ts\<close>, \<open>websocket/broadcaster.service.ts\<close>): sockets, rooms and the
    messages they get, on top of the emissions of \<open>Notifications\<close>.
  \<^item> \<open>Warming\<close> (\<open>cache/warming.service.ts\<close>), \<open>Monitoring\<close> (\<open>indexer/health.service.ts\<close>, \<open>health\<close>,
    \<open>common/interceptors\<close>, \<open>config/env.validation.ts\<close>): the cache filled ahead of requests, with its
    operations in any order and any of them failing; the dashboard, the Prometheus text with a reader
    for it, the health of the service, the envelope of every answer, the checks at start.
  \<^item> \<open>FrontEvents\<close>, \<open>FrontMock\<close>, \<open>FrontProps\<close> (\<open>frontend/src/context/CreatorEventsContext.tsx\<close>): the React
    context of the creator events.  A callback is a function of the state of its render and of the state
    of the moment, and a run may use the callbacks of any earlier render; its samples; its scores and
    payouts.
  \<^item> \<open>FrontUploads\<close>, \<open>FrontForms\<close> (\<open>frontend/src/component\<close>): CSV uploads, the forms of a match and a
    result with the page that keeps the matches; the wizards for markets and events as step relations
    over the fields each step shows, the event wizard on top of the context.
  \<^item> \<open>FrontWallet\<close> (\<open>context/WalletContext.tsx\<close>, \<open>component/ConnectWalletModal.tsx\<close>), \<open>FrontOracle\<close>,
    \<open>FrontPages\<close>, \<open>FrontEventPage\<close> (\<open>frontend/src/app\<close>): the wallet session and its dialog as a step
    relation; the oracle's page; the lists of markets, users and competitions; the page of an event and
    the preview behind an invite, on top of the context.
  \<^item> \<open>Samples\<close>: concrete rows and environments at which the witnesses apply the theorems.

  The lemmas come in the same groups everywhere: what an operation leaves alone (frame lemmas, often
  under \<open>edits_market\<close> or \<open>same_books\<close>), what a success or an error implies (\<open>..._Inr\<close>, \<open>..._Inl\<close>), the
  invariant of the component with one preservation lemma per operation, and the properties, numbered
  C1, C2, ... and stated in words in front of each theorem.

  Timestamps are integers of milliseconds, stroops integers with the \<open>bigint\<close> range written out where
  a column can overflow, scores rationals (floating point rounding is not modelled).  Ids are opaque
  text: the syntax check PostgreSQL makes on a \<open>uuid\<close> column is not modelled.  The text of a decoded
  \<open>bigint\<close> is the parameter \<open>bigint_format\<close>.  The loops with a bound in the code end by it: ten reads of
  a transaction's status, three attempts of a view call, five failures of an event, the attempts of
  a webhook.

  Not modelled: HTTP routing, the SQL text itself, the dependency injection, the Stellar SDK and the
  RPC server (parameters of the definitions), the signing of tokens, ed25519, bcrypt and SHA-256
  (parameters too), the transport under the WebSockets, the Rust contracts, the terminus checks and the
  messages of class-validator, the markup of the client and its pages without state, its wallet kit.
\<close>

end
